(* ===== verification/Prelude.thy ===== *)
theory Prelude
  imports Main "HOL-Library.Word" "HOL-Library.Monad_Syntax"
begin

text \<open>
  Shared material of the development: the fixed-width integer types of the C code, the
  test of a register bit, checked access to C arrays, and the interface locales for FIFO
  buffers that several devices implement.

  Conventions used by every component theory.
  \<^item> \<open>uint8_t\<close>, \<open>uint16_t\<close>, \<open>uint32_t\<close>, \<open>uint64_t\<close> are words of the same width.
  \<^item> A \<open>#define\<close> of a constant is an \<open>abbreviation\<close>.
  \<^item> A C function that may end the emulator (a call of \<open>abort()\<close>, or an access outside an
    array, which C leaves undefined) returns an \<open>option\<close>: \<open>None\<close> is that end.
\<close>

unbundle bit_operations_syntax

type_synonym u8 = "8 word"
type_synonym u16 = "16 word"
type_synonym u32 = "32 word"
type_synonym u64 = "64 word"

named_theorems field_defs \<open>small register operations that proofs unfold\<close>

section \<open>Register bits\<close>

text \<open>The C test \<open>x & m\<close> used as a condition.\<close>

definition tst :: "'a::len word \<Rightarrow> 'a word \<Rightarrow> bool" where
  "tst x m \<longleftrightarrow> x AND m \<noteq> 0"

lemma tst_0_left [simp]: "\<not> tst 0 m"
  by (simp add: tst_def)

lemma tst_0_right [simp]: "\<not> tst x 0"
  by (simp add: tst_def)

lemma tst_or [simp]: "tst (x OR y) m \<longleftrightarrow> tst x m \<or> tst y m"
  by (auto simp: tst_def bit.conj_disj_distrib2 or_eq_0_iff)

lemma tst_self [simp]: "tst m m \<longleftrightarrow> m \<noteq> 0"
  by (simp add: tst_def)

lemma tst_clear_self [simp]: "\<not> tst (x AND NOT m) m"
  by (simp add: tst_def and.assoc)

lemma tst_clear_disjoint: "m AND n = 0 \<Longrightarrow> tst (x AND NOT m) n \<longleftrightarrow> tst x n"
proof -
  assume d: "m AND n = 0"
  have "(x AND NOT m) AND n = x AND n"
  proof (rule bit_word_eqI)
    fix k assume "k < LENGTH('a)"
    moreover have "\<not> (bit m k \<and> bit n k)"
      using d by (metis bit_0_eq bit_and_iff bot_apply bot_bool_def)
    ultimately show "bit ((x AND NOT m) AND n) k \<longleftrightarrow> bit (x AND n) k"
      by (auto simp: bit_and_iff bit_not_iff)
  qed
  then show ?thesis by (simp add: tst_def)
qed

lemma and_power2_eq_0_iff: "x AND 2 ^ n = 0 \<longleftrightarrow> \<not> bit x n" for x :: "'a::len word"
  by (simp add: and_exp_eq_0_iff_not_bit)

lemma tst_power2: "tst x (2 ^ n) \<longleftrightarrow> bit x n"
  by (simp add: tst_def and_power2_eq_0_iff)

lemma or_and_not_mask: "(x OR m) AND NOT m = x AND NOT m" for x m :: "'a::len word"
  by (rule bit_word_eqI) (auto simp: bit_and_iff bit_or_iff bit_not_iff)

text \<open>A property of all bytes can be checked one byte at a time.\<close>

lemma all_u8: "list_all (\<lambda>k. P (word_of_int k)) [0..255] \<Longrightarrow> P (a :: u8)"
  using unsigned_less [of a, where ?'a = int] by (auto simp: list_all_iff dest: bspec [of _ _ "uint a"])

section \<open>Checked array access\<close>

definition arr_get :: "'a list \<Rightarrow> nat \<Rightarrow> 'a option" where
  "arr_get xs i = (if i < length xs then Some (xs ! i) else None)"

definition arr_set :: "'a list \<Rightarrow> nat \<Rightarrow> 'a \<Rightarrow> 'a list option" where
  "arr_set xs i v = (if i < length xs then Some (xs[i := v]) else None)"

lemma arr_get_in [simp]: "i < length xs \<Longrightarrow> arr_get xs i = Some (xs ! i)"
  by (simp add: arr_get_def)

lemma arr_get_out [simp]: "\<not> i < length xs \<Longrightarrow> arr_get xs i = None"
  by (simp add: arr_get_def)

lemma arr_set_in [simp]: "i < length xs \<Longrightarrow> arr_set xs i v = Some (xs[i := v])"
  by (simp add: arr_set_def)

lemma arr_set_out [simp]: "\<not> i < length xs \<Longrightarrow> arr_set xs i v = None"
  by (simp add: arr_set_def)

section \<open>FIFO buffers: the interface\<close>

text \<open>
  A buffer of at most \<open>cap\<close> elements, seen as the list of its elements in the order in
  which they leave. The laws fix what entering into a buffer that is not full and
  leaving a buffer that is not empty do; what happens when the buffer is full differs
  between implementations and is the subject of the two extensions.
\<close>

locale fifo =
  fixes enter :: "'q \<Rightarrow> 'a \<Rightarrow> 'q"
    and leave :: "'q \<Rightarrow> 'a option \<times> 'q"
    and elems :: "'q \<Rightarrow> 'a list"
    and invar :: "'q \<Rightarrow> bool"
    and cap :: nat
  assumes invar_enter: "invar q \<Longrightarrow> invar (enter q x)"
    and invar_leave: "invar q \<Longrightarrow> elems q \<noteq> [] \<Longrightarrow> invar (snd (leave q))"
    and elems_le_cap: "invar q \<Longrightarrow> length (elems q) \<le> cap"
    and elems_enter: "invar q \<Longrightarrow> length (elems q) < cap \<Longrightarrow> elems (enter q x) = elems q @ [x]"
    and leave_fst: "invar q \<Longrightarrow> elems q \<noteq> [] \<Longrightarrow> fst (leave q) = Some (hd (elems q))"
    and leave_snd: "invar q \<Longrightarrow> elems q \<noteq> [] \<Longrightarrow> elems (snd (leave q)) = tl (elems q)"
begin

fun enter_all :: "'q \<Rightarrow> 'a list \<Rightarrow> 'q" where
  "enter_all q [] = q"
| "enter_all q (x # xs) = enter_all (enter q x) xs"

fun leave_n :: "nat \<Rightarrow> 'q \<Rightarrow> 'a option list \<times> 'q" where
  "leave_n 0 q = ([], q)"
| "leave_n (Suc n) q =
     (let (x, q1) = leave q; (xs, q2) = leave_n n q1 in (x # xs, q2))"

lemma enter_all_elems:
  assumes "invar q" "length (elems q) + length xs \<le> cap"
  shows "invar (enter_all q xs) \<and> elems (enter_all q xs) = elems q @ xs"
  using assms
proof (induction xs arbitrary: q)
  case Nil
  then show ?case by simp
next
  case (Cons x xs)
  then have "elems (enter q x) = elems q @ [x]" "invar (enter q x)"
    by (simp_all add: elems_enter invar_enter)
  with Cons show ?case by simp
qed

lemma leave_n_elems:
  assumes "invar q" "n \<le> length (elems q)"
  shows "fst (leave_n n q) = map Some (take n (elems q)) \<and> invar (snd (leave_n n q))
    \<and> elems (snd (leave_n n q)) = drop n (elems q)"
  using assms
proof (induction n arbitrary: q)
  case 0
  then show ?case by simp
next
  case (Suc n)
  then have ne: "elems q \<noteq> []" by auto
  let ?q = "snd (leave q)"
  have q1: "invar ?q" "elems ?q = tl (elems q)"
    using Suc.prems(1) ne by (simp_all add: invar_leave leave_snd)
  with Suc.prems have "n \<le> length (elems ?q)" by simp
  with q1 have IH: "fst (leave_n n ?q) = map Some (take n (tl (elems q)))"
    "invar (snd (leave_n n ?q))" "elems (snd (leave_n n ?q)) = drop n (tl (elems q))"
    using Suc.IH [of ?q] by auto
  from ne obtain y ys where "elems q = y # ys" by (cases "elems q") auto
  with IH Suc.prems(1) show ?case
    by (simp add: case_prod_beta Let_def leave_fst)
qed

text \<open>What was entered into an empty buffer leaves it, complete and in order.\<close>

lemma first_in_first_out:
  assumes "invar q" "elems q = []" "length xs \<le> cap"
  shows "fst (leave_n (length xs) (enter_all q xs)) = map Some xs"
  using enter_all_elems [of q xs] leave_n_elems [of "enter_all q xs" "length xs"] assms
  by simp

end

text \<open>A full buffer ignores further elements.\<close>

locale dropping_fifo = fifo +
  assumes elems_enter_full: "invar q \<Longrightarrow> length (elems q) = cap \<Longrightarrow> elems (enter q x) = elems q"
begin

lemma enter_all_take:
  assumes "invar q"
  shows "elems (enter_all q xs) = take cap (elems q @ xs)"
  using assms
proof (induction xs arbitrary: q)
  case Nil
  then show ?case by (simp add: elems_le_cap)
next
  case (Cons x xs)
  then have le: "length (elems q) \<le> cap" by (simp add: elems_le_cap)
  show ?case
  proof (cases "length (elems q) < cap")
    case True
    with Cons show ?thesis by (simp add: invar_enter elems_enter take_Cons')
  next
    case False
    with le have "length (elems q) = cap" by simp
    with Cons show ?thesis by (simp add: invar_enter elems_enter_full)
  qed
qed

end

text \<open>A full buffer overwrites its most recent element.\<close>

locale overwriting_fifo = fifo +
  assumes elems_enter_full:
    "invar q \<Longrightarrow> length (elems q) = cap \<Longrightarrow> elems (enter q x) = butlast (elems q) @ [x]"
begin

lemma enter_all_overflow:
  assumes "invar q" "length (elems q) = cap" "0 < cap" "xs \<noteq> []"
  shows "elems (enter_all q xs) = butlast (elems q) @ [last xs]"
  using assms
proof (induction xs arbitrary: q)
  case Nil
  then show ?case by simp
next
  case (Cons x xs)
  have e: "elems (enter q x) = butlast (elems q) @ [x]"
    using Cons.prems by (simp add: elems_enter_full)
  show ?case
  proof (cases "xs = []")
    case True
    with e show ?thesis by simp
  next
    case False
    with Cons.IH [of "enter q x"] Cons.prems e show ?thesis
      by (simp add: invar_enter)
  qed
qed

end

end
