(* ===== verification/Queue.thy ===== *)
theory Queue
  imports Prelude
begin

text \<open>
  The packet queue of \<open>queue.c\<close>: a ring buffer of 100 element pointers. The memory that
  \<open>malloc\<close> returns is an argument of \<open>QueueCreate\<close>: \<open>None\<close> when the allocation fails
  (the program then exits), otherwise the uninitialised contents of the block.
\<close>

section \<open>State and operations\<close>

abbreviation MAX_QUEUE_SIZE :: int where
  "MAX_QUEUE_SIZE \<equiv> 100"

record 'a queueCDT =
  contents :: "'a list"
  front :: int
  count :: int

definition QueueCreate :: "'a list option \<Rightarrow> 'a queueCDT option" where
  "QueueCreate mem =
     (case mem of None \<Rightarrow> None
      | Some junk \<Rightarrow> Some \<lparr>contents = junk, front = 0, count = 0\<rparr>)"

definition QueueEnter :: "'a queueCDT \<Rightarrow> 'a \<Rightarrow> 'a queueCDT" where
  "QueueEnter queue element =
     (if count queue \<ge> MAX_QUEUE_SIZE then queue
      else let newElementIndex = (front queue + count queue) mod MAX_QUEUE_SIZE
           in queue\<lparr>contents := (contents queue)[nat newElementIndex := element],
                    count := count queue + 1\<rparr>)"

definition QueuePeek :: "'a queueCDT \<Rightarrow> int" where
  "QueuePeek queue = count queue"

definition QueueDelete :: "'a queueCDT \<Rightarrow> 'a option \<times> 'a queueCDT" where
  "QueueDelete queue =
     (if count queue \<le> 0 then (None, queue)
      else let oldElement = contents queue ! nat (front queue)
           in (Some oldElement,
               queue\<lparr>front := (front queue + 1) mod MAX_QUEUE_SIZE,
                     count := count queue - 1\<rparr>))"

definition QueueIsEmpty :: "'a queueCDT \<Rightarrow> bool" where
  "QueueIsEmpty queue \<longleftrightarrow> count queue \<le> 0"

definition QueueIsFull :: "'a queueCDT \<Rightarrow> bool" where
  "QueueIsFull queue \<longleftrightarrow> count queue \<ge> MAX_QUEUE_SIZE"

section \<open>Invariant and abstraction\<close>

definition queue_inv :: "'a queueCDT \<Rightarrow> bool" where
  "queue_inv q \<longleftrightarrow> length (contents q) = 100 \<and> 0 \<le> front q \<and> front q < MAX_QUEUE_SIZE
     \<and> 0 \<le> count q \<and> count q \<le> MAX_QUEUE_SIZE"

definition queue_list :: "'a queueCDT \<Rightarrow> 'a list" where
  "queue_list q =
     map (\<lambda>i. contents q ! ((nat (front q) + i) mod 100)) [0..<nat (count q)]"

lemma length_queue_list [simp]: "length (queue_list q) = nat (count q)"
  by (simp add: queue_list_def)

lemma queue_list_empty_iff: "queue_list q = [] \<longleftrightarrow> count q \<le> 0"
  by (simp add: queue_list_def)

lemma ring_slot_fresh:
  fixes f c i :: nat
  assumes "i < c" "c < 100"
  shows "(f + i) mod 100 \<noteq> (f + c) mod 100"
proof
  assume "(f + i) mod 100 = (f + c) mod 100"
  then have "100 dvd (f + c) - (f + i)"
    using assms by (metis add_le_cancel_left less_imp_le_nat mod_eq_dvd_iff_nat)
  then have "100 dvd c - i" by simp
  with assms show False by (auto dest: dvd_imp_le)
qed

lemma nat_ring_index:
  assumes "0 \<le> f" "0 \<le> c"
  shows "nat ((f + c) mod 100) = (nat f + nat c) mod 100"
  using assms by (simp add: nat_mod_distrib nat_add_distrib)

lemma queue_list_Cons:
  assumes "queue_inv q" "0 < count q"
  shows "queue_list q = contents q ! nat (front q) # queue_list (snd (QueueDelete q))"
proof -
  let ?f = "nat (front q)" and ?c = "nat (count q - 1)"
  have c: "nat (count q) = Suc ?c" using assms by simp
  have f: "nat ((front q + 1) mod 100) = (?f + 1) mod 100"
    using assms nat_ring_index [of "front q" 1] by (simp add: queue_inv_def)
  have "queue_list q = contents q ! (?f mod 100)
      # map (\<lambda>i. contents q ! ((?f + Suc i) mod 100)) [0..<?c]"
    unfolding queue_list_def c by (subst upt_conv_Cons)
      (simp_all add: map_Suc_upt [symmetric] comp_def del: upt_Suc)
  moreover have "(?f + Suc i) mod 100 = ((?f + 1) mod 100 + i) mod 100" for i
    by (simp add: mod_add_left_eq)
  moreover have "?f mod 100 = ?f" using assms by (auto simp: queue_inv_def)
  ultimately show ?thesis
    using assms f by (simp add: queue_list_def QueueDelete_def Let_def)
qed

lemma queue_inv_QueueEnter: "queue_inv q \<Longrightarrow> queue_inv (QueueEnter q x)"
  by (simp add: queue_inv_def QueueEnter_def Let_def)

lemma queue_inv_QueueDelete: "queue_inv q \<Longrightarrow> queue_inv (snd (QueueDelete q))"
  by (simp add: queue_inv_def QueueDelete_def Let_def)

lemma queue_inv_QueueCreate:
  "QueueCreate (Some junk) = Some q \<Longrightarrow> length junk = 100 \<Longrightarrow> queue_inv q \<and> queue_list q = []"
  by (auto simp: QueueCreate_def queue_inv_def queue_list_def)

lemma queue_list_QueueEnter:
  assumes inv: "queue_inv q" and room: "count q < 100"
  shows "queue_list (QueueEnter q x) = queue_list q @ [x]"
proof -
  let ?f = "nat (front q)" and ?c = "nat (count q)"
  have idx: "nat ((front q + count q) mod 100) = (?f + ?c) mod 100"
    using inv by (intro nat_ring_index) (simp_all add: queue_inv_def)
  have c: "nat (count q + 1) = Suc ?c" using inv by (auto simp: queue_inv_def)
  have new: "contents (QueueEnter q x) = (contents q)[(?f + ?c) mod 100 := x]"
    "front (QueueEnter q x) = front q" "count (QueueEnter q x) = count q + 1"
    using room idx by (simp_all add: QueueEnter_def Let_def)
  have "(?f + ?c) mod 100 \<noteq> (?f + i) mod 100" if "i < ?c" for i
    using that room inv by (intro ring_slot_fresh [symmetric]) (auto simp: queue_inv_def)
  then show ?thesis
    using inv unfolding queue_list_def new c by (auto simp: queue_inv_def)
qed

interpretation pq: dropping_fifo QueueEnter QueueDelete queue_list queue_inv 100
proof
  fix q :: "'a queueCDT" and x
  assume inv: "queue_inv q"
  show "queue_inv (QueueEnter q x)" using inv by (rule queue_inv_QueueEnter)
  show "length (queue_list q) \<le> 100" using inv by (auto simp: queue_inv_def)
  show "queue_list (QueueEnter q x) = queue_list q @ [x]" if "length (queue_list q) < 100"
    using inv that by (intro queue_list_QueueEnter) (auto simp: queue_inv_def)
  show "queue_list (QueueEnter q x) = queue_list q" if "length (queue_list q) = 100"
    using inv that by (auto simp: queue_inv_def QueueEnter_def)
  assume ne: "queue_list q \<noteq> []"
  show "queue_inv (snd (QueueDelete q))" using inv by (rule queue_inv_QueueDelete)
  show "fst (QueueDelete q) = Some (hd (queue_list q))"
    "queue_list (snd (QueueDelete q)) = tl (queue_list q)"
    using queue_list_Cons [OF inv] ne
    by (simp_all add: queue_list_empty_iff) (simp add: QueueDelete_def Let_def)
qed

section \<open>Properties\<close>

text \<open>
  C10. Refinement of \<open>QueueEnter\<close> and \<open>QueueDelete\<close> to an unbounded-list queue capped at
  100 elements: on every well-formed ring buffer (also a full or an empty one), entering
  appends the element unless 100 elements are queued already, in which case nothing
  changes; deleting returns \<open>NULL\<close> and changes nothing on an empty queue, and otherwise
  returns and removes the oldest element; both keep the ring buffer well formed, and the
  predicates report the length of the list.
\<close>

theorem queue_refines_list:
  assumes "queue_inv q"
  shows "queue_inv (QueueEnter q x) \<and> queue_inv (snd (QueueDelete q))
    \<and> queue_list (QueueEnter q x) = take 100 (queue_list q @ [x])
    \<and> QueueDelete q = (case queue_list q of
         [] \<Rightarrow> (None, q)
       | y # ys \<Rightarrow> (Some y, snd (QueueDelete q)))
    \<and> queue_list (snd (QueueDelete q)) = tl (queue_list q)
    \<and> QueuePeek q = int (length (queue_list q))
    \<and> (QueueIsEmpty q \<longleftrightarrow> queue_list q = [])
    \<and> (QueueIsFull q \<longleftrightarrow> length (queue_list q) = 100)"
proof -
  have enter: "queue_list (QueueEnter q x) = take 100 (queue_list q @ [x])"
    using pq.enter_all_take [OF assms, of "[x]"] by simp
  have del: "QueueDelete q = (case queue_list q of [] \<Rightarrow> (None, q)
       | y # ys \<Rightarrow> (Some y, snd (QueueDelete q)))
    \<and> queue_list (snd (QueueDelete q)) = tl (queue_list q)"
  proof (cases "queue_list q")
    case Nil
    then have "count q \<le> 0" by (simp add: queue_list_empty_iff)
    with Nil show ?thesis by (simp add: QueueDelete_def)
  next
    case (Cons y ys)
    then show ?thesis
      using pq.leave_fst [OF assms] pq.leave_snd [OF assms]
      by (auto simp: prod_eq_iff)
  qed
  have preds: "QueuePeek q = int (length (queue_list q))"
    "QueueIsEmpty q \<longleftrightarrow> queue_list q = []" "QueueIsFull q \<longleftrightarrow> length (queue_list q) = 100"
    using assms by (auto simp: QueuePeek_def QueueIsEmpty_def QueueIsFull_def
        queue_list_empty_iff queue_inv_def)
  show ?thesis
    using enter del preds queue_inv_QueueEnter [OF assms] queue_inv_QueueDelete [OF assms]
    by blast
qed

definition sample_queue :: "nat queueCDT" where
  "sample_queue = \<lparr>contents = replicate 99 0 @ [7], front = 99, count = 1\<rparr>"

theorem queue_refines_list_witness:
  "queue_inv sample_queue \<and> queue_list (QueueEnter sample_queue 5) = take 100 (queue_list sample_queue @ [5])"
proof -
  have inv: "queue_inv sample_queue" by (simp add: queue_inv_def sample_queue_def)
  show ?thesis using inv queue_refines_list [OF inv, of 5] by blast
qed

fun QueueEnter_all :: "'a queueCDT \<Rightarrow> 'a list \<Rightarrow> 'a queueCDT" where
  "QueueEnter_all q [] = q"
| "QueueEnter_all q (x # xs) = QueueEnter_all (QueueEnter q x) xs"

fun QueueDelete_n :: "nat \<Rightarrow> 'a queueCDT \<Rightarrow> 'a option list" where
  "QueueDelete_n 0 q = []"
| "QueueDelete_n (Suc n) q = (let (x, q1) = QueueDelete q in x # QueueDelete_n n q1)"

lemma QueueEnter_all_eq: "QueueEnter_all q xs = pq.enter_all q xs"
  by (induction xs arbitrary: q) simp_all

lemma QueueDelete_n_eq: "QueueDelete_n n q = fst (pq.leave_n n q)"
  by (induction n arbitrary: q) (simp_all add: Let_def case_prod_beta)

text \<open>
  C32. First in, first out: after \<open>QueueCreate\<close> returned a queue, entering up to 100
  packets one after the other and then deleting as many returns exactly these packets, in
  the order in which they were entered.
\<close>

theorem queue_fifo_order:
  assumes "QueueCreate (Some junk) = Some q" "length junk = 100" "length xs \<le> 100"
  shows "QueueDelete_n (length xs) (QueueEnter_all q xs) = map Some xs"
  using pq.first_in_first_out [of q xs] queue_inv_QueueCreate [OF assms(1,2)] assms(3)
  by (simp add: QueueEnter_all_eq QueueDelete_n_eq)

theorem queue_fifo_order_witness:
  "\<exists>q. QueueCreate (Some (replicate 100 (0::nat))) = Some q
     \<and> QueueDelete_n 3 (QueueEnter_all q [4, 5, 6]) = map Some [4, 5, 6]"
proof -
  obtain q where q: "QueueCreate (Some (replicate 100 (0::nat))) = Some q"
    by (simp add: QueueCreate_def)
  have "QueueDelete_n (length [4, 5, 6::nat]) (QueueEnter_all q [4, 5, 6]) = map Some [4, 5, 6]"
    by (rule queue_fifo_order [OF q]) simp_all
  with q show ?thesis by (simp add: numeral_3_eq_3)
qed

end
