(* ===== verification/Config.thy ===== *)
theory Config
  imports Prelude
begin

text \<open>
  The part of \<open>ConfigureParams\<close> (\<open>includes/configuration.h\<close>) that the modelled devices
  read or write: the enumerations and structs with the source's names, and a sample
  configuration used by the concrete examples of the other theories.
\<close>

datatype MACHINETYPE = NEXT_CUBE030 | NEXT_CUBE040 | NEXT_STATION
datatype SCSICHIP = NCR53C90 | NCR53C90A
datatype RTCCHIP = MC68HC68T1 | MCCS1850
datatype MEMORY_SPEED = MEMORY_120NS | MEMORY_100NS | MEMORY_80NS | MEMORY_60NS
datatype BOOT_DEVICE = BOOT_ROM | BOOT_SCSI | BOOT_ETHERNET | BOOT_MO | BOOT_FLOPPY
datatype SCSI_DEVTYPE = SD_NONE | SD_HARDDISK | SD_CD | SD_FLOPPY
datatype WRITEPROTECTION = WRITEPROT_OFF | WRITEPROT_ON | WRITEPROT_AUTO

record CNF_SYSTEM =
  bColor :: bool
  bTurbo :: bool
  bNBIC :: bool
  bADB :: bool
  nSCSI :: SCSICHIP
  nRTC :: RTCCHIP
  nCpuFreq :: int
  nMachineType :: MACHINETYPE
  bRealtime :: bool

record CNF_SOUND =
  bEnableMicrophone :: bool
  bEnableSound :: bool

record CNF_ROM =
  szRom030FileName :: string
  szRom040FileName :: string
  szRomTurboFileName :: string
  bUseCustomMac :: bool
  nRomCustomMac :: "int list"

record CNF_ENET =
  bEthernetConnected :: bool
  bTwistedPair :: bool

record CNF_MEMORY =
  nMemoryBankSize :: "int list"
  nMemorySpeed :: MEMORY_SPEED

record CNF_BOOT =
  nBootDevice :: BOOT_DEVICE
  bEnableDRAMTest :: bool
  bEnablePot :: bool
  bExtendedPot :: bool
  bEnableSoundTest :: bool
  bEnableSCSITest :: bool
  bLoopPot :: bool
  bVerbose :: bool

text \<open>The image name is the key of a host file; \<open>''''\<close> is the empty name.\<close>

record SCSIDISK =
  szImageName :: string
  nDeviceType :: SCSI_DEVTYPE
  bDiskInserted :: bool
  bWriteProtected :: bool

record CNF_SCSI =
  cnf_target :: "SCSIDISK list"
  nWriteProtection :: WRITEPROTECTION

text \<open>The drives of optical and floppy disks.\<close>

record MODISK =
  mo_szImageName :: string
  mo_bDriveConnected :: bool
  mo_bDiskInserted :: bool
  mo_bWriteProtected :: bool

record CNF_MO =
  mo_drive :: "MODISK list"

record FLPDISK =
  flp_szImageName :: string
  flp_bDriveConnected :: bool
  flp_bDiskInserted :: bool
  flp_bWriteProtected :: bool

record CNF_FLOPPY =
  flp_drive :: "FLPDISK list"

text \<open>Of each NeXTdimension board only \<open>bEnabled\<close> is used.\<close>

record CNF_ND =
  nConsoleSlot :: int
  board_bEnabled :: "bool list"

record CNF_PARAMS =
  System :: CNF_SYSTEM
  Memory :: CNF_MEMORY
  Boot :: CNF_BOOT
  SCSI :: CNF_SCSI
  Dimension :: CNF_ND
  Rom :: CNF_ROM
  Ethernet :: CNF_ENET
  MO :: CNF_MO
  Floppy :: CNF_FLOPPY
  Sound :: CNF_SOUND

definition sample_config :: CNF_PARAMS where
  "sample_config = \<lparr>
     System = \<lparr>bColor = False, bTurbo = False, bNBIC = True, bADB = False, nSCSI = NCR53C90A, nRTC = MCCS1850,
       nCpuFreq = 25, nMachineType = NEXT_CUBE040, bRealtime = False\<rparr>,
     Memory = \<lparr>nMemoryBankSize = [16, 16, 0, 0], nMemorySpeed = MEMORY_100NS\<rparr>,
     Boot = \<lparr>nBootDevice = BOOT_SCSI, bEnableDRAMTest = False, bEnablePot = True,
       bExtendedPot = False, bEnableSoundTest = True, bEnableSCSITest = True,
       bLoopPot = False, bVerbose = True\<rparr>,
     SCSI = \<lparr>cnf_target = replicate 7 \<lparr>szImageName = '''', nDeviceType = SD_NONE,
       bDiskInserted = False, bWriteProtected = False\<rparr>, nWriteProtection = WRITEPROT_OFF\<rparr>,
     Dimension = \<lparr>nConsoleSlot = 0, board_bEnabled = [False, False, False]\<rparr>,
     Rom = \<lparr>szRom030FileName = ''rom030'', szRom040FileName = ''rom040'', szRomTurboFileName = ''romturbo'',
       bUseCustomMac = True, nRomCustomMac = [0, 0, 0x0F, 1, 2, 3]\<rparr>,
     Ethernet = \<lparr>bEthernetConnected = True, bTwistedPair = False\<rparr>,
     MO = \<lparr>mo_drive = [\<lparr>mo_szImageName = ''od.img'', mo_bDriveConnected = True, mo_bDiskInserted = True, mo_bWriteProtected = False\<rparr>,
       \<lparr>mo_szImageName = '''', mo_bDriveConnected = False, mo_bDiskInserted = False, mo_bWriteProtected = False\<rparr>]\<rparr>,
     Floppy = \<lparr>flp_drive = \<lparr>flp_szImageName = ''fd.img'', flp_bDriveConnected = True, flp_bDiskInserted = True, flp_bWriteProtected = False\<rparr>
       # replicate 3 \<lparr>flp_szImageName = '''', flp_bDriveConnected = False, flp_bDiskInserted = False, flp_bWriteProtected = False\<rparr>\<rparr>,
     Sound = \<lparr>bEnableMicrophone = True, bEnableSound = True\<rparr>\<rparr>"

end
