(* ===== verification/Timing.thy ===== *)
theory Timing
  imports Config
begin

text \<open>
  \<open>timing.c\<close>: the guest's clock, which runs either on executed cycles or on the host's
  performance counter, and the Unix time kept on top of it, with the calendar functions
  \<open>gmtime\<close> and \<open>timegm\<close> of the C library (proleptic Gregorian calendar, no leap seconds).

  \<^item> \<open>host_time s n\<close> is the \<open>n\<close>-th result of \<open>Timing_GetRealTime\<close>, which converts the
    host's performance counter to microseconds; \<open>host_calls\<close> counts the calls. Every
    statement holds for every host clock.
  \<^item> Waiting (\<open>host_sleep_us\<close> and the spin loop in \<open>Timing_GetTime\<close>) changes no state of
    the emulator and is left out; the counter values read while spinning are not part of
    \<open>host_time\<close>.
  \<^item> \<open>regs_s\<close> is the supervisor bit of the CPU. \<open>time_t\<close> is a signed 64-bit integer, kept as
    the word of its bits and read with \<open>sint\<close>.
  \<^item> Not modelled: pausing, the frame counters and the reports, which only feed messages.
\<close>

section \<open>Calendar\<close>

record tm =
  tm_sec :: int
  tm_min :: int
  tm_hour :: int
  tm_mday :: int
  tm_mon :: int
  tm_year :: int
  tm_wday :: int

definition is_leap :: "int \<Rightarrow> bool" where
  "is_leap y \<longleftrightarrow> y mod 4 = 0 \<and> y mod 100 \<noteq> 0 \<or> y mod 400 = 0"

definition year_len :: "int \<Rightarrow> int" where
  "year_len y = (if is_leap y then 366 else 365)"

text \<open>Days from 1 January 1970 to 1 January of year \<open>y\<close>.\<close>

definition days_to_year :: "int \<Rightarrow> int" where
  "days_to_year y = 365 * (y - 1970) + ((y - 1) div 4 - (y - 1) div 100 + (y - 1) div 400) - 477"

definition month_len :: "bool \<Rightarrow> nat \<Rightarrow> int" where
  "month_len leap m = [31, if leap then 29 else 28, 31, 30, 31, 30, 31, 31, 30, 31, 30, 31] ! m"

definition days_to_month :: "bool \<Rightarrow> nat \<Rightarrow> int" where
  "days_to_month leap m = sum_list (map (month_len leap) [0..<m])"

function find_year :: "int \<Rightarrow> int \<Rightarrow> int \<times> int" where
  "find_year y d =
     (if d < 0 then find_year (y - 1) (d + year_len (y - 1))
      else if d \<ge> year_len y then find_year (y + 1) (d - year_len y)
      else (y, d))"
  by pat_completeness auto
termination
  by (relation "measure (\<lambda>(y, d). nat (if d < 0 then 400 - d else d))") (auto simp: year_len_def split: if_splits)

function find_month :: "bool \<Rightarrow> nat \<Rightarrow> int \<Rightarrow> nat \<times> int" where
  "find_month leap m d =
     (if m \<ge> 11 \<or> d < month_len leap m then (m, d) else find_month leap (m + 1) (d - month_len leap m))"
  by pat_completeness auto
termination
  by (relation "measure (\<lambda>(leap, m, d). 11 - m)") auto

definition gmtime :: "int \<Rightarrow> tm" where
  "gmtime t = (
     let days = t div 86400; secs = t mod 86400;
         (y, yday) = find_year 1970 days;
         (mon, mday) = find_month (is_leap y) 0 yday
     in \<lparr>tm_sec = secs mod 60, tm_min = secs div 60 mod 60, tm_hour = secs div 3600,
         tm_mday = mday + 1, tm_mon = int mon, tm_year = y - 1900, tm_wday = (days + 4) mod 7\<rparr>)"

text \<open>\<open>timegm\<close> accepts members outside their ranges and normalises them.\<close>

definition timegm :: "tm \<Rightarrow> int" where
  "timegm t = (
     let y = tm_year t + 1900 + tm_mon t div 12; m = nat (tm_mon t mod 12)
     in 86400 * (days_to_year y + days_to_month (is_leap y) m + tm_mday t - 1)
        + 3600 * tm_hour t + 60 * tm_min t + tm_sec t)"

section \<open>State and operations\<close>

record timing =
  ConfigureParams :: CNF_PARAMS
  host_time :: "nat \<Rightarrow> u64"
  host_calls :: nat
  regs_s :: bool
  nCyclesMainCounter :: u64
  cycleCounterStart :: u64
  cycleDivisor :: u64
  enableRealtime :: bool
  osDarkmatter :: bool
  currentIsRealtime :: bool
  hardClockExpected :: u64
  hardClockActual :: u64
  unixTimeStart :: u64
  saveTime :: u64

abbreviation (input) NEXT_MIN_SEC where "NEXT_MIN_SEC \<equiv> 0"
abbreviation (input) NEXT_START_SEC where "NEXT_START_SEC \<equiv> 552225600"
abbreviation (input) NEXT_LIMIT_SEC where "NEXT_LIMIT_SEC \<equiv> 2145916800"
abbreviation (input) NEXT_MIN_YEAR :: int where "NEXT_MIN_YEAR \<equiv> 1970 - 1900"
abbreviation (input) NEXT_START_YEAR :: int where "NEXT_START_YEAR \<equiv> 1988 - 1900"
abbreviation (input) NEXT_LIMIT_YEAR :: int where "NEXT_LIMIT_YEAR \<equiv> 2038 - 1900"

abbreviation cpu_freq :: "'a timing_scheme \<Rightarrow> int" where
  "cpu_freq s \<equiv> nCpuFreq (System (ConfigureParams s))"

abbreviation realtime :: "'a timing_scheme \<Rightarrow> bool" where
  "realtime s \<equiv> bRealtime (System (ConfigureParams s))"

definition Timing_GetRealTime :: "'a timing_scheme \<Rightarrow> u64 \<times> 'a timing_scheme" where
  "Timing_GetRealTime s = (host_time s (host_calls s), s\<lparr>host_calls := host_calls s + 1\<rparr>)"

definition Timing_GetTime :: "'a timing_scheme \<Rightarrow> u64 \<times> 'a timing_scheme" where
  "Timing_GetTime s = (
     let state = ((osDarkmatter s \<or> \<not> regs_s s) \<and> enableRealtime s);
         (hostTime, s1) = (if currentIsRealtime s then Timing_GetRealTime s
           else ((nCyclesMainCounter s - cycleCounterStart s) div cycleDivisor s, s))
     in (hostTime,
         if currentIsRealtime s1 \<noteq> state then
           (let s2 = (if currentIsRealtime s1
                      then s1\<lparr>cycleCounterStart := nCyclesMainCounter s1 - hostTime * cycleDivisor s1\<rparr>
                      else snd (Timing_GetRealTime s1))
            in s2\<lparr>currentIsRealtime := state\<rparr>)
         else s1))"

definition Timing_GetTimes :: "'a timing_scheme \<Rightarrow> u64 \<times> u64 \<times> 'a timing_scheme" where
  "Timing_GetTimes s = (
     let (hostTime, s1) = Timing_GetTime s; (realTime, s2) = Timing_GetRealTime s1
     in (realTime, hostTime, s2))"

definition Timing_Sync :: "'a timing_scheme \<Rightarrow> 'a timing_scheme" where
  "Timing_Sync s = (let (realTime, hostTime, s1) = Timing_GetTimes s in s1\<lparr>saveTime := hostTime\<rparr>)"

definition Timing_GetSaveTime :: "'a timing_scheme \<Rightarrow> u64" where
  "Timing_GetSaveTime s = saveTime s div 1000000"

definition Timing_GetTimeSec :: "'a timing_scheme \<Rightarrow> u64 \<times> 'a timing_scheme" where
  "Timing_GetTimeSec s = (let (t, s1) = Timing_GetTime s in (t div 1000000, s1))"

definition Timing_GetUnixTime :: "'a timing_scheme \<Rightarrow> u64 \<times> 'a timing_scheme" where
  "Timing_GetUnixTime s = (let (t, s1) = Timing_GetTimeSec s in (unixTimeStart s1 + t, s1))"

definition Timing_SetUnixTime :: "u64 \<Rightarrow> 'a timing_scheme \<Rightarrow> 'a timing_scheme" where
  "Timing_SetUnixTime now s = (let (t, s1) = Timing_GetTimeSec s in s1\<lparr>unixTimeStart := now - t\<rparr>)"

definition Timing_GetUnixTimeStruct :: "'a timing_scheme \<Rightarrow> tm \<times> 'a timing_scheme" where
  "Timing_GetUnixTimeStruct s = (let (t, s1) = Timing_GetUnixTime s in (gmtime (sint t), s1))"

definition Timing_SetUnixTimeStruct :: "tm \<Rightarrow> 'a timing_scheme \<Rightarrow> 'a timing_scheme" where
  "Timing_SetUnixTimeStruct now s = Timing_SetUnixTime (word_of_int (timegm now)) s"

definition Timing_Hardclock :: "int \<Rightarrow> int \<Rightarrow> 'a timing_scheme \<Rightarrow> 'a timing_scheme" where
  "Timing_Hardclock expected actual s =
     (if \<bar>actual - expected\<bar> > 1000 then s
      else s\<lparr>hardClockExpected := hardClockExpected s + word_of_int expected,
             hardClockActual := hardClockActual s + word_of_int actual\<rparr>)"

text \<open>
  The C library's \<open>gmtime\<close> returns a null pointer for times it cannot represent. Which times these
  are depends on the library, so they are an argument: \<open>fails t\<close> says that it returns null for \<open>t\<close>.
\<close>

definition Timing_CheckUnixTime :: "(int \<Rightarrow> bool) \<Rightarrow> 'a timing_scheme \<Rightarrow> 'a timing_scheme" where
  "Timing_CheckUnixTime fails s = (
     let now = sint (unixTimeStart s); t = gmtime now in
     if \<not> fails now then
       (if tm_year t < NEXT_MIN_YEAR \<or> tm_year t \<ge> NEXT_LIMIT_YEAR
        then s\<lparr>unixTimeStart := word_of_int (timegm (t\<lparr>tm_year := NEXT_START_YEAR\<rparr>))\<rparr>
        else s)
     else if now < NEXT_MIN_SEC \<or> now \<ge> NEXT_LIMIT_SEC
     then s\<lparr>unixTimeStart := NEXT_START_SEC\<rparr>
     else s)"

text \<open>\<open>now\<close> is the result of the C library's \<open>time(NULL)\<close>.\<close>

definition Timing_Reset :: "(int \<Rightarrow> bool) \<Rightarrow> u64 \<Rightarrow> 'a timing_scheme \<Rightarrow> 'a timing_scheme" where
  "Timing_Reset fails now s = Timing_CheckUnixTime fails (s\<lparr>
     unixTimeStart := now,
     cycleCounterStart := 0,
     currentIsRealtime := False,
     hardClockExpected := 0,
     hardClockActual := 0,
     enableRealtime := realtime s,
     osDarkmatter := False,
     saveTime := 0,
     cycleDivisor := word_of_int (cpu_freq s)\<rparr>)"

text \<open>A state for examples: 25 MHz, on cycle time.\<close>

definition sample_timing :: timing where
  "sample_timing = \<lparr>ConfigureParams = sample_config, host_time = (\<lambda>n. 600 + of_nat n), host_calls = 0,
     regs_s = True, nCyclesMainCounter = 1000, cycleCounterStart = 0, cycleDivisor = 25,
     enableRealtime = False, osDarkmatter = False, currentIsRealtime = False,
     hardClockExpected = 0, hardClockActual = 0, unixTimeStart = 552225600, saveTime = 0\<rparr>"

section \<open>What reading the clock changes\<close>

definition clock_upd :: "'b timing_scheme \<Rightarrow> 'a timing_scheme \<Rightarrow> 'a timing_scheme" where
  "clock_upd u s = s\<lparr>host_calls := host_calls u, cycleCounterStart := cycleCounterStart u,
     currentIsRealtime := currentIsRealtime u\<rparr>"

lemma Timing_GetTime_snd: "snd (Timing_GetTime s) = clock_upd (snd (Timing_GetTime s)) s"
  by (simp add: Timing_GetTime_def Timing_GetRealTime_def clock_upd_def Let_def)

lemma Timing_GetTime_truncate: "fst (Timing_GetTime (timing.truncate s)) = fst (Timing_GetTime s)"
  by (simp add: Timing_GetTime_def Timing_GetRealTime_def Let_def timing.defs)

lemma Timing_GetTime_cong: "timing.truncate s = timing.truncate s' \<Longrightarrow> fst (Timing_GetTime s) = fst (Timing_GetTime s')"
  using Timing_GetTime_truncate by metis

section \<open>Calendar round trip\<close>

lemma div_mod_unique': "0 \<le> r \<Longrightarrow> r < n \<Longrightarrow> y = n * q + r \<Longrightarrow> y div n = q \<and> y mod n = r" for y n q r :: int
  by simp

lemma div_step: "0 < n \<Longrightarrow> y div n = (y - 1) div n + (if y mod n = 0 then 1 else 0)" for y n :: int
proof -
  assume n: "0 < n"
  let ?q = "y div n" and ?r = "y mod n"
  have r: "0 \<le> ?r" "?r < n" "y = n * ?q + ?r" using n by simp_all
  have "(y - 1) div n = ?q + (if ?r = 0 then - 1 else 0)"
  proof (cases "?r = 0")
    case True
    then have "(y - 1) div n = ?q - 1 \<and> (y - 1) mod n = n - 1"
      using r(3) n by (intro div_mod_unique') (auto simp: algebra_simps)
    with True show ?thesis by simp
  next
    case False
    then have "(y - 1) div n = ?q \<and> (y - 1) mod n = ?r - 1"
      using r(3) by (intro div_mod_unique') (use False r(1,2) in linarith)+
    with False show ?thesis by simp
  qed
  then show ?thesis by (simp split: if_splits)
qed

lemma days_to_year_Suc: "days_to_year (y + 1) = days_to_year y + year_len y"
proof -
  have 1: "y mod 4 = 0" if "y mod 100 = 0"
    using that dvd_trans [of 4 100 y] by (simp add: dvd_eq_mod_eq_0 [symmetric])
  have 2: "y mod 100 = 0" if "y mod 400 = 0"
    using that dvd_trans [of 100 400 y] by (simp add: dvd_eq_mod_eq_0 [symmetric])
  have "days_to_year (y + 1) = 365 * (y + 1 - 1970) + (y div 4 - y div 100 + y div 400) - 477"
    by (simp add: days_to_year_def)
  moreover have "y div 4 - y div 100 + y div 400
    = (y - 1) div 4 - (y - 1) div 100 + (y - 1) div 400 + (if is_leap y then 1 else 0)"
    using 1 2 unfolding div_step [of 4 y, simplified] div_step [of 100 y, simplified] div_step [of 400 y, simplified] is_leap_def
    by auto
  ultimately show ?thesis by (simp add: days_to_year_def year_len_def)
qed

declare find_year.simps [simp del] find_month.simps [simp del]

lemma find_year_spec:
  "find_year y d = (y', d') \<Longrightarrow> days_to_year y + d = days_to_year y' + d' \<and> 0 \<le> d' \<and> d' < year_len y'"
proof (induction y d rule: find_year.induct)
  case (1 y d)
  have "days_to_year y = days_to_year (y - 1) + year_len (y - 1)"
    using days_to_year_Suc [of "y - 1"] by simp
  with 1 days_to_year_Suc [of y] show ?case
    by (auto simp: find_year.simps [of y d] split: if_splits)
qed

lemma find_month_spec:
  "find_month leap m d = (m', d') \<Longrightarrow> m \<le> 11 \<Longrightarrow> days_to_month leap m + d = days_to_month leap m' + d' \<and> m' \<le> 11"
proof (induction leap m d rule: find_month.induct)
  case (1 leap m d)
  then show ?case by (auto simp: find_month.simps [of leap m d] days_to_month_def split: if_splits)
qed

lemma split_day_secs: "3600 * (s div 3600) + 60 * (s div 60 mod 60) + s mod 60 = s" for s :: int
proof -
  have "s div 3600 = s div 60 div 60" using zdiv_zmult2_eq [of 60 s 60] by simp
  moreover have "60 * (s div 60 div 60) + s div 60 mod 60 = s div 60" "60 * (s div 60) + s mod 60 = s"
    by simp_all
  ultimately show ?thesis by linarith
qed

lemma timegm_gmtime: "timegm (gmtime t) = t"
proof -
  obtain y yd where y: "find_year 1970 (t div 86400) = (y, yd)" by (cases "find_year 1970 (t div 86400)")
  obtain m md where m: "find_month (is_leap y) 0 yd = (m, md)" by (cases "find_month (is_leap y) 0 yd")
  have "days_to_year 1970 = 0" by (simp add: days_to_year_def)
  with find_year_spec [OF y] have 1: "t div 86400 = days_to_year y + yd" by simp
  from find_month_spec [OF m] have 2: "yd = days_to_month (is_leap y) m + md" "m \<le> 11"
    by (simp_all add: days_to_month_def)
  have 4: "86400 * (t div 86400) + t mod 86400 = t" by simp
  define s where "s = t mod 86400"
  have g: "gmtime t = \<lparr>tm_sec = s mod 60, tm_min = s div 60 mod 60, tm_hour = s div 3600,
      tm_mday = md + 1, tm_mon = int m, tm_year = y - 1900, tm_wday = (t div 86400 + 4) mod 7\<rparr>"
    unfolding gmtime_def Let_def y m s_def by (simp only: split_conv m)
  have m12: "int m div 12 = 0" "nat (int m mod 12) = m" using 2(2) by simp_all
  have "timegm (gmtime t) = 86400 * (days_to_year y + days_to_month (is_leap y) m + md)
      + (3600 * (s div 3600) + 60 * (s div 60 mod 60) + s mod 60)"
    unfolding timegm_def g Let_def tm.select_convs m12 by (simp add: m12)
  also have "\<dots> = t"
  proof -
    have "days_to_year y + days_to_month (is_leap y) m + md = t div 86400" using 1 2(1) by simp
    then show ?thesis unfolding split_day_secs unfolding s_def by (simp only: 4)
  qed
  finally show ?thesis .
qed

lemma days_to_year_mono: "y < y' \<Longrightarrow> days_to_year y + year_len y \<le> days_to_year y'"
proof (induction "nat (y' - y - 1)" arbitrary: y')
  case 0
  then have "y' = y + 1" by simp
  then show ?case by (simp add: days_to_year_Suc)
next
  case (Suc n)
  then have "days_to_year y + year_len y \<le> days_to_year (y' - 1)" by (intro Suc.hyps(1)) auto
  moreover have "days_to_year y' = days_to_year (y' - 1) + year_len (y' - 1)"
    using days_to_year_Suc [of "y' - 1"] by simp
  ultimately show ?case by (simp add: year_len_def split: if_splits)
qed

lemma find_year_unique:
  assumes "days_to_year y \<le> d" "d < days_to_year y + year_len y"
  shows "fst (find_year 1970 d) = y"
proof -
  obtain y' d' where y': "find_year 1970 d = (y', d')" by (cases "find_year 1970 d")
  have "days_to_year 1970 = 0" by (simp add: days_to_year_def)
  with find_year_spec [OF y'] have "d = days_to_year y' + d'" "0 \<le> d'" "d' < year_len y'" by simp_all
  with assms days_to_year_mono [of y y'] days_to_year_mono [of y' y] y' show ?thesis
    by (cases y y' rule: linorder_cases) auto
qed

lemma find_month_range:
  "find_month leap m d = (m', d') \<Longrightarrow> m \<le> 11 \<Longrightarrow> 0 \<le> d \<Longrightarrow> d < sum_list (map (month_len leap) [m..<12])
     \<Longrightarrow> m' \<le> 11 \<and> 0 \<le> d' \<and> d' < month_len leap m'"
proof (induction leap m d rule: find_month.induct)
  case (1 leap m d)
  show ?case
  proof (cases "m \<ge> 11 \<or> d < month_len leap m")
    case True
    moreover have "m = 11 \<or> m < 11" using "1.prems"(2) by linarith
    ultimately show ?thesis using "1.prems" by (auto simp: find_month.simps [of leap m d])
  next
    case False
    have "[m..<12] = m # [m + 1..<12]" using False by (simp add: upt_conv_Cons)
    with 1 False show ?thesis by (simp add: find_month.simps [of leap m d])
  qed
qed

lemma gmtime_month_day:
  "0 \<le> tm_mon (gmtime t) \<and> tm_mon (gmtime t) \<le> 11
   \<and> 1 \<le> tm_mday (gmtime t)
   \<and> tm_mday (gmtime t) \<le> month_len (is_leap (tm_year (gmtime t) + 1900)) (nat (tm_mon (gmtime t)))"
proof -
  obtain y yd where y: "find_year 1970 (t div 86400) = (y, yd)" by (cases "find_year 1970 (t div 86400)")
  obtain m md where m: "find_month (is_leap y) 0 yd = (m, md)" by (cases "find_month (is_leap y) 0 yd")
  have "[0..<12] = [0, 1, 2, 3, 4, 5, 6, 7, 8, 9, 10, 11 :: nat]" by (simp add: upt_rec)
  then have "sum_list (map (month_len (is_leap y)) [0..<12]) = year_len y"
    by (simp add: month_len_def year_len_def)
  with find_month_range [OF m] find_year_spec [OF y] have "m \<le> 11" "0 \<le> md" "md < month_len (is_leap y) m"
    by simp_all
  then show ?thesis by (simp add: gmtime_def Let_def y m)
qed

lemma sint_word_of_int: "- (2 ^ 63) \<le> t \<Longrightarrow> t < 2 ^ 63 \<Longrightarrow> sint (word_of_int t :: u64) = t"
  by (simp add: signed_of_int signed_take_bit_int_eq_self)

lemma months: "m \<le> 11 \<Longrightarrow> m \<in> {0, 1, 2, 3, 4, 5, 6, 7, 8, 9, 10, 11 :: nat}"
  by (simp only: insert_iff empty_iff) presburger

lemma days_to_month_bounds: "m \<le> 11 \<Longrightarrow> 0 \<le> days_to_month leap m \<and> days_to_month leap m + month_len leap m \<le> (if leap then 366 else 365)"
proof -
  assume "m \<le> 11"
  from months [OF this] show ?thesis
    by (elim insertE emptyE; cases leap) (simp_all add: days_to_month_def month_len_def upt_conv_Cons)
qed

text \<open>The year may be replaced by a leap year without leaving that year.\<close>

lemma timegm_new_year:
  assumes "is_leap y"
  shows "tm_year (gmtime (timegm ((gmtime t)\<lparr>tm_year := y - 1900\<rparr>))) = y - 1900"
    and "86400 * days_to_year y \<le> timegm ((gmtime t)\<lparr>tm_year := y - 1900\<rparr>)"
    and "timegm ((gmtime t)\<lparr>tm_year := y - 1900\<rparr>) < 86400 * (days_to_year y + 366)"
proof -
  let ?g = "gmtime t" and ?m = "nat (tm_mon (gmtime t))"
  let ?d = "days_to_year y + days_to_month True ?m + tm_mday ?g - 1"
  define s where "s = t mod 86400"
  have s: "0 \<le> s" "s < 86400" by (simp_all add: s_def)
  have g: "tm_sec ?g = s mod 60" "tm_min ?g = s div 60 mod 60" "tm_hour ?g = s div 3600"
    by (simp_all add: gmtime_def Let_def s_def case_prod_beta)
  have 3: "3600 * (s div 3600) + 60 * (s div 60 mod 60) + s mod 60 = s"
    by (rule split_day_secs)
  note md = gmtime_month_day [of t]
  have ml: "month_len l k \<le> month_len True k" if "k \<le> 11" for l k
  proof -
    from months [OF that] show ?thesis by (auto simp: month_len_def)
  qed
  have mon: "tm_mon ?g div 12 = 0" "tm_mon ?g mod 12 = tm_mon ?g" "?m \<le> 11" using md by auto
  have tg: "timegm (?g\<lparr>tm_year := y - 1900\<rparr>) = 86400 * ?d + s"
  proof -
    have "timegm (?g\<lparr>tm_year := y - 1900\<rparr>) = 86400 * ?d + (3600 * (s div 3600) + 60 * (s div 60 mod 60) + s mod 60)"
      using assms by (simp add: timegm_def Let_def mon g)
    then show ?thesis unfolding 3 .
  qed
  have d: "days_to_year y \<le> ?d" "?d < days_to_year y + 366"
    using days_to_month_bounds [OF mon(3), of True] md ml [OF mon(3)] by (fastforce dest: order_trans)+
  show "86400 * days_to_year y \<le> timegm (?g\<lparr>tm_year := y - 1900\<rparr>)"
    "timegm (?g\<lparr>tm_year := y - 1900\<rparr>) < 86400 * (days_to_year y + 366)"
    unfolding tg using mult_left_mono [OF d(1), of 86400] mult_left_mono [of "?d + 1" "days_to_year y + 366" 86400] d(2) s
    by (simp_all add: algebra_simps)
  have "(86400 * ?d + s) div 86400 = ?d" using s by simp
  then have "fst (find_year 1970 ((86400 * ?d + s) div 86400)) = y"
    using d assms by (simp add: find_year_unique year_len_def)
  then show "tm_year (gmtime (timegm (?g\<lparr>tm_year := y - 1900\<rparr>))) = y - 1900"
    unfolding tg by (simp add: gmtime_def Let_def case_prod_beta)
qed

section \<open>Properties\<close>

lemma Timing_GetTime_cycles:
  "\<not> currentIsRealtime s \<Longrightarrow> \<not> enableRealtime s \<Longrightarrow>
     Timing_GetTime s = ((nCyclesMainCounter s - cycleCounterStart s) div cycleDivisor s, s)"
  by (simp add: Timing_GetTime_def Let_def)

text \<open>
  C29. Setting the Unix time from a broken-down time and reading it back, with no cycle
  executed in between and the clock on cycle time, gives the same broken-down time, for
  every time that fits in \<open>time_t\<close>.
\<close>

theorem Timing_UnixTimeStruct_roundtrip:
  assumes "\<not> currentIsRealtime s" "\<not> enableRealtime s" "- (2 ^ 63) \<le> t" "t < 2 ^ 63"
  shows "fst (Timing_GetUnixTimeStruct (Timing_SetUnixTimeStruct (gmtime t) s)) = gmtime t"
proof -
  have "sint (word_of_int t :: u64) = t"
    using assms(3,4) by (rule sint_word_of_int)
  with assms(1,2) show ?thesis
    by (simp add: Timing_GetUnixTimeStruct_def Timing_SetUnixTimeStruct_def Timing_GetUnixTime_def
        Timing_SetUnixTime_def Timing_GetTimeSec_def Timing_GetTime_cycles timegm_gmtime)
qed


theorem Timing_UnixTimeStruct_roundtrip_witness:
  "\<not> currentIsRealtime sample_timing \<and> \<not> enableRealtime sample_timing
   \<and> fst (Timing_GetUnixTimeStruct (Timing_SetUnixTimeStruct (gmtime 951827696) sample_timing)) = gmtime 951827696"
  using Timing_UnixTimeStruct_roundtrip [of sample_timing 951827696] by (simp add: sample_timing_def)

text \<open>A time from 1970 to 2037 has a year in that range.\<close>

lemma gmtime_year_range:
  assumes "0 \<le> t" "t < 2145916800"
  shows "70 \<le> tm_year (gmtime t) \<and> tm_year (gmtime t) < 138"
proof -
  obtain y d where y: "find_year 1970 (t div 86400) = (y, d)" by (cases "find_year 1970 (t div 86400)")
  have "days_to_year 1970 = 0" "days_to_year 2038 = 24837" by (simp_all add: days_to_year_def)
  moreover from this find_year_spec [OF y] have d: "t div 86400 = days_to_year y + d" "0 \<le> d" "d < year_len y" by simp_all
  moreover have "0 \<le> t div 86400" "t div 86400 < 24837" using assms by (simp_all add: pos_imp_zdiv_nonneg_iff div_less_iff_less_mult)
  ultimately have "1970 \<le> y" "y < 2038"
    using days_to_year_mono [of y 1970] days_to_year_mono [of 2038 y] by (smt (verit) year_len_def)+
  then show ?thesis by (simp add: gmtime_def Let_def y case_prod_beta)
qed

text \<open>
  C30. \<open>Timing_Reset\<close> leaves the guest with a Unix time that NeXTSTEP can represent, whatever the
  host's clock says and for whatever times the C library's \<open>gmtime\<close> fails: the year of the start
  time is at least 1970 and before 2038.
\<close>

theorem Timing_Reset_valid_year:
  "let y = tm_year (gmtime (sint (unixTimeStart (Timing_Reset fails now s))))
   in NEXT_MIN_YEAR \<le> y \<and> y < NEXT_LIMIT_YEAR"
proof -
  let ?t = "gmtime (sint now)"
  let ?n = "timegm (?t\<lparr>tm_year := 88\<rparr>)"
  have leap: "is_leap 1988" by (simp add: is_leap_def)
  have "days_to_year 1988 = 6574" by (simp add: days_to_year_def)
  then have "sint (word_of_int ?n :: u64) = ?n"
    using timegm_new_year(2,3) [OF leap, of "sint now"] by (intro sint_word_of_int) simp_all
  moreover have "sint (552225600 :: u64) = 552225600" using sint_word_of_int [of 552225600] by simp
  ultimately show ?thesis
    using timegm_new_year(1) [OF leap, of "sint now"] gmtime_year_range [of "sint now"] gmtime_year_range [of 552225600]
    by (auto simp: Timing_Reset_def Timing_CheckUnixTime_def Let_def)
qed

text \<open>
  C31. When the clock leaves host time and goes back to cycle time, guest time does not jump:
  a second reading, with no cycle executed in between, returns the time of the first (the
  elapsed cycles must fit in the counter and the CPU frequency must not be 0).
\<close>

theorem Timing_GetTime_switch_continuous:
  assumes "currentIsRealtime s" "regs_s s" "\<not> osDarkmatter s"
    and "cycleDivisor s \<noteq> 0"
    and "uint (host_time s (host_calls s)) * uint (cycleDivisor s) < 2 ^ 64"
  shows "let (t, s') = Timing_GetTime s in \<not> currentIsRealtime s' \<and> fst (Timing_GetTime s') = t"
proof -
  let ?t = "host_time s (host_calls s)" and ?d = "cycleDivisor s"
  have d: "0 < uint ?d" using assms(4) uint_ge_0 [of ?d] by (metis order_le_less uint_0_iff)
  have "?t * ?d div ?d = ?t"
  proof (rule word_uint_eqI)
    have "uint (?t * ?d) = uint ?t * uint ?d"
      using assms(5) by (simp add: uint_word_ariths)
    with d show "uint (?t * ?d div ?d) = uint ?t" by (simp add: uint_div)
  qed
  with assms(1-3) show ?thesis
    by (simp add: Timing_GetTime_def Timing_GetRealTime_def Let_def)
qed

theorem Timing_GetTime_switch_continuous_witness:
  "let s = sample_timing\<lparr>currentIsRealtime := True\<rparr>; (t, s') = Timing_GetTime s
   in t = 600 \<and> \<not> currentIsRealtime s' \<and> fst (Timing_GetTime s') = 600"
proof -
  have "fst (Timing_GetTime (sample_timing\<lparr>currentIsRealtime := True\<rparr>)) = 600"
    by (simp add: sample_timing_def Timing_GetTime_def Timing_GetRealTime_def)
  with Timing_GetTime_switch_continuous [of "sample_timing\<lparr>currentIsRealtime := True\<rparr>"]
  show ?thesis by (simp add: sample_timing_def case_prod_beta Let_def)
qed

end
