(* ===== verification/CycInt.thy ===== *)
theory CycInt
  imports Timing
begin

text \<open>
  The event scheduler of \<open>cycInt.c\<close>. Two doubly linked lists of pending events, one
  ordered by CPU cycles and one by microseconds, live in the array \<open>EventList\<close>, which is
  indexed by the enumeration \<open>event_id\<close>; \<open>EVENT_NULL\<close> terminates both lists.

  The theory holds the data and all operations of the file, the well-formedness of the two
  lists, the refinement of the linked structure to two lists of pairs (event, time), and
  the dispatch of due events.

  The handler table \<open>pEventHandlers\<close> is an argument of \<open>CycInt_AddCycles\<close>; the \<open>func\<close> field of
  an event is always the entry of that table and is not stored.
\<close>

section \<open>Data\<close>

datatype event_id =
    EVENT_NULL | EVENT_HARDCLOCK_INTERRUPT | EVENT_ESP_INTERRUPT | EVENT_ESP_IO
  | EVENT_MO_INTERRUPT | EVENT_MO_IO | EVENT_MO_ECC_IO | EVENT_FLOPPY_IO
  | EVENT_ETHERNET_IO | EVENT_PRINTER_IO | EVENT_SCC_IO | EVENT_TABLET_IO
  | EVENT_DMA_M2M_IO | EVENT_SND_DSP_INPUT | EVENT_SND_INPUT | EVENT_SND_OUTPUT
  | EVENT_VIDEO_VBL | EVENT_ND_VBL | EVENT_ND_VIDEO_VBL | EVENT_MAIN_EVENT

datatype event_type = TYPE_NONE | TYPE_CYCLES | TYPE_TIME

record cycint_event =
  ev_type :: event_type
  ev_time :: u64
  ev_prev :: event_id
  ev_next :: event_id

record cycint = timing +
  EventList :: "event_id \<Rightarrow> cycint_event"
  nCheckCycles :: u64
  nTimeNow :: u64
  nCyclesFirst :: event_id
  nTimeFirst :: event_id

abbreviation UINT64_MAX :: u64 where
  "UINT64_MAX \<equiv> 0xFFFFFFFFFFFFFFFF"

abbreviation CHECK_INTERVAL :: int where
  "CHECK_INTERVAL \<equiv> 100"

section \<open>Operations\<close>

definition CycInt_Reset :: "'a cycint_scheme \<Rightarrow> 'a cycint_scheme" where
  "CycInt_Reset s = s\<lparr>
     nCyclesMainCounter := 0,
     nCheckCycles := (if realtime s then 0 else UINT64_MAX),
     nTimeNow := 0,
     nCyclesFirst := EVENT_NULL,
     nTimeFirst := EVENT_NULL,
     EventList := (\<lambda>i. \<lparr>ev_type = TYPE_NONE, ev_time = UINT64_MAX,
                       ev_prev = EVENT_NULL, ev_next = EVENT_NULL\<rparr>)\<rparr>"

abbreviation upd_event ::
  "event_id \<Rightarrow> (cycint_event \<Rightarrow> cycint_event) \<Rightarrow> (event_id \<Rightarrow> cycint_event)
     \<Rightarrow> (event_id \<Rightarrow> cycint_event)" where
  "upd_event i f el \<equiv> el(i := f (el i))"

definition CycInt_RemovePendingEvent :: "event_id \<Rightarrow> 'a cycint_scheme \<Rightarrow> 'a cycint_scheme" where
  "CycInt_RemovePendingEvent i s =
     (if ev_type (EventList s i) = TYPE_NONE then s
      else
        let el = EventList s;
            s1 = (if ev_type (el i) = TYPE_CYCLES then
                    (if i = nCyclesFirst s then s\<lparr>nCyclesFirst := ev_next (el i)\<rparr> else s)
                  else
                    (if i = nTimeFirst s then s\<lparr>nTimeFirst := ev_next (el i)\<rparr> else s));
            el1 = (if ev_prev (el i) \<noteq> EVENT_NULL
                   then upd_event (ev_prev (el i)) (\<lambda>e. e\<lparr>ev_next := ev_next (el i)\<rparr>) el else el);
            el2 = (if ev_next (el1 i) \<noteq> EVENT_NULL
                   then upd_event (ev_next (el1 i)) (\<lambda>e. e\<lparr>ev_prev := ev_prev (el1 i)\<rparr>) el1 else el1)
        in s1\<lparr>EventList := upd_event i (\<lambda>e. e\<lparr>ev_type := TYPE_NONE\<rparr>) el2\<rparr>)"

definition CycInt_EventPending :: "event_id \<Rightarrow> 'a cycint_scheme \<Rightarrow> bool" where
  "CycInt_EventPending i s \<longleftrightarrow> ev_type (EventList s i) \<noteq> TYPE_NONE"

text \<open>The search loop of \<open>CycInt_AddEvent\<close>; \<open>None\<close> would be a loop that does not end.\<close>

partial_function (option) AddEvent_scan ::
  "(event_id \<Rightarrow> cycint_event) \<Rightarrow> u64 \<Rightarrow> event_id \<Rightarrow> event_id \<Rightarrow> (event_id \<times> event_id) option" where
  "AddEvent_scan el t prev nxt =
     (if ev_time (el nxt) < t then AddEvent_scan el t nxt (ev_next (el nxt))
      else Some (prev, nxt))"

definition link_event ::
  "event_id \<Rightarrow> event_id \<Rightarrow> event_id \<Rightarrow> (event_id \<Rightarrow> cycint_event) \<Rightarrow> (event_id \<Rightarrow> cycint_event)" where
  "link_event prev i nxt el =
     (let el1 = upd_event i (\<lambda>e. e\<lparr>ev_prev := prev, ev_next := nxt\<rparr>) el;
          el2 = (if prev \<noteq> EVENT_NULL then upd_event prev (\<lambda>e. e\<lparr>ev_next := i\<rparr>) el1 else el1)
      in if nxt \<noteq> EVENT_NULL then upd_event nxt (\<lambda>e. e\<lparr>ev_prev := i\<rparr>) el2 else el2)"

definition CycInt_AddEvent ::
  "event_id \<Rightarrow> event_id \<Rightarrow> 'a cycint_scheme \<Rightarrow> (event_id \<times> 'a cycint_scheme) option" where
  "CycInt_AddEvent first i s = do {
     (prev, nxt) \<leftarrow> AddEvent_scan (EventList s) (ev_time (EventList s i)) EVENT_NULL first;
     Some (if nxt = first then i else first,
           s\<lparr>EventList := link_event prev i nxt (EventList s)\<rparr>)
   }"

abbreviation remove_if_pending :: "event_id \<Rightarrow> 'a cycint_scheme \<Rightarrow> 'a cycint_scheme" where
  "remove_if_pending i s \<equiv>
     (if ev_type (EventList s i) \<noteq> TYPE_NONE then CycInt_RemovePendingEvent i s else s)"

definition CycInt_AddCyclesEvent ::
  "u64 \<Rightarrow> event_id \<Rightarrow> 'a cycint_scheme \<Rightarrow> 'a cycint_scheme option" where
  "CycInt_AddCyclesEvent Cycles i s = (
     let s1 = remove_if_pending i s;
         s2 = s1\<lparr>EventList := upd_event i (\<lambda>e. e\<lparr>ev_type := TYPE_CYCLES,
                 ev_time := nCyclesMainCounter s1 + Cycles\<rparr>) (EventList s1)\<rparr>
     in do { (first, s3) \<leftarrow> CycInt_AddEvent (nCyclesFirst s2) i s2;
             Some (s3\<lparr>nCyclesFirst := first\<rparr>) })"

definition CycInt_UpdateCyclesEvent ::
  "u64 \<Rightarrow> event_id \<Rightarrow> 'a cycint_scheme \<Rightarrow> 'a cycint_scheme option" where
  "CycInt_UpdateCyclesEvent Cycles i s = (
     let s1 = remove_if_pending i s;
         s2 = s1\<lparr>EventList := upd_event i (\<lambda>e. e\<lparr>ev_type := TYPE_CYCLES,
                 ev_time := ev_time e + Cycles\<rparr>) (EventList s1)\<rparr>
     in do { (first, s3) \<leftarrow> CycInt_AddEvent (nCyclesFirst s2) i s2;
             Some (s3\<lparr>nCyclesFirst := first\<rparr>) })"

definition CycInt_AddTimeEvent ::
  "u64 \<Rightarrow> u64 \<Rightarrow> event_id \<Rightarrow> 'a cycint_scheme \<Rightarrow> 'a cycint_scheme option" where
  "CycInt_AddTimeEvent RealTime FastTime i s = (
     let s1 = remove_if_pending i s in
     if realtime s1 then
       let RealTime = (if FastTime \<noteq> 0 then FastTime else RealTime);
           (now, s2) = Timing_GetTime s1;
           s3 = s2\<lparr>EventList := upd_event i (\<lambda>e. e\<lparr>ev_type := TYPE_TIME,
                   ev_time := now + RealTime\<rparr>) (EventList s2)\<rparr>
       in do { (first, s4) \<leftarrow> CycInt_AddEvent (nTimeFirst s3) i s3;
               let s5 = s4\<lparr>nTimeFirst := first\<rparr>;
               Some (if RealTime < word_of_int CHECK_INTERVAL \<and> i = nTimeFirst s5
                     then s5\<lparr>nCheckCycles := nCyclesMainCounter s5
                                + RealTime * word_of_int (cpu_freq s5)\<rparr>
                     else s5) }
     else
       let s2 = s1\<lparr>EventList := upd_event i (\<lambda>e. e\<lparr>ev_type := TYPE_CYCLES,
                   ev_time := nCyclesMainCounter s1 + RealTime * word_of_int (cpu_freq s1)\<rparr>)
                 (EventList s1)\<rparr>
       in do { (first, s3) \<leftarrow> CycInt_AddEvent (nCyclesFirst s2) i s2;
               Some (s3\<lparr>nCyclesFirst := first\<rparr>) })"

definition CycInt_UpdateTimeEvent ::
  "u64 \<Rightarrow> u64 \<Rightarrow> event_id \<Rightarrow> 'a cycint_scheme \<Rightarrow> 'a cycint_scheme option" where
  "CycInt_UpdateTimeEvent RealTime FastTime i s = (
     let s1 = remove_if_pending i s in
     if realtime s1 then
       let RealTime = (if FastTime \<noteq> 0 then FastTime else RealTime);
           (now, s2) = Timing_GetTime s1;
           s3 = s2\<lparr>nTimeNow := now\<rparr>;
           s4 = (if nTimeNow s3 - ev_time (EventList s3 i) > drop_bit 1 RealTime
                 then s3\<lparr>EventList := upd_event i (\<lambda>e. e\<lparr>ev_time := nTimeNow s3\<rparr>) (EventList s3)\<rparr>
                 else s3);
           s5 = s4\<lparr>EventList := upd_event i (\<lambda>e. e\<lparr>ev_type := TYPE_TIME,
                   ev_time := ev_time e + RealTime\<rparr>) (EventList s4)\<rparr>
       in do { (first, s6) \<leftarrow> CycInt_AddEvent (nTimeFirst s5) i s5;
               Some (s6\<lparr>nTimeFirst := first\<rparr>) }
     else
       let s2 = s1\<lparr>EventList := upd_event i (\<lambda>e. e\<lparr>ev_type := TYPE_CYCLES,
                   ev_time := ev_time e + RealTime * word_of_int (cpu_freq s1)\<rparr>) (EventList s1)\<rparr>
       in do { (first, s3) \<leftarrow> CycInt_AddEvent (nCyclesFirst s2) i s2;
               Some (s3\<lparr>nCyclesFirst := first\<rparr>) })"

definition CycInt_AddCycleTimeEvent ::
  "u64 \<Rightarrow> u64 \<Rightarrow> event_id \<Rightarrow> 'a cycint_scheme \<Rightarrow> 'a cycint_scheme option" where
  "CycInt_AddCycleTimeEvent CycleTime FastTime i s = (
     let CycleTime = (if realtime s \<and> FastTime \<noteq> 0 then FastTime else CycleTime)
     in CycInt_AddCyclesEvent (CycleTime * word_of_int (cpu_freq s)) i s)"

definition CycInt_UpdateCycleTimeEvent ::
  "u64 \<Rightarrow> u64 \<Rightarrow> event_id \<Rightarrow> 'a cycint_scheme \<Rightarrow> 'a cycint_scheme option" where
  "CycInt_UpdateCycleTimeEvent CycleTime FastTime i s = (
     let CycleTime = (if realtime s \<and> FastTime \<noteq> 0 then FastTime else CycleTime)
     in CycInt_UpdateCyclesEvent (CycleTime * word_of_int (cpu_freq s)) i s)"

text \<open>
  \<open>CycInt_AddCycles\<close>: the first loop takes due cycle events off their list and calls their
  handlers; the second, run when the check counter has expired, does the same for the
  microsecond events and sets the next check.
\<close>

definition pop_cycles_event :: "'a cycint_scheme \<Rightarrow> 'a cycint_scheme" where
  "pop_cycles_event s = (
     let i = nCyclesFirst s;
         s1 = s\<lparr>EventList := upd_event i (\<lambda>e. e\<lparr>ev_type := TYPE_NONE\<rparr>) (EventList s)\<rparr>;
         s2 = s1\<lparr>nCyclesFirst := ev_next (EventList s1 i)\<rparr>
     in s2\<lparr>EventList := upd_event (nCyclesFirst s2) (\<lambda>e. e\<lparr>ev_prev := EVENT_NULL\<rparr>) (EventList s2)\<rparr>)"

definition pop_time_event :: "'a cycint_scheme \<Rightarrow> 'a cycint_scheme" where
  "pop_time_event s = (
     let i = nTimeFirst s;
         s1 = s\<lparr>EventList := upd_event i (\<lambda>e. e\<lparr>ev_type := TYPE_NONE\<rparr>) (EventList s)\<rparr>;
         s2 = s1\<lparr>nTimeFirst := ev_next (EventList s1 i)\<rparr>
     in s2\<lparr>EventList := upd_event (nTimeFirst s2) (\<lambda>e. e\<lparr>ev_prev := EVENT_NULL\<rparr>) (EventList s2)\<rparr>)"

partial_function (option) AddCycles_cycle_loop ::
  "(event_id \<Rightarrow> 'a cycint_scheme \<Rightarrow> 'a cycint_scheme option) \<Rightarrow> 'a cycint_scheme
     \<Rightarrow> 'a cycint_scheme option" where
  "AddCycles_cycle_loop h s =
     (if ev_time (EventList s (nCyclesFirst s)) \<le> nCyclesMainCounter s
      then do { s1 \<leftarrow> h (nCyclesFirst s) (pop_cycles_event s); AddCycles_cycle_loop h s1 }
      else Some s)"

definition set_next_check :: "'a cycint_scheme \<Rightarrow> 'a cycint_scheme" where
  "set_next_check s =
     s\<lparr>nCheckCycles := nCyclesMainCounter s + word_of_int (CHECK_INTERVAL * cpu_freq s)\<rparr>"

partial_function (option) AddCycles_time_loop ::
  "(event_id \<Rightarrow> 'a cycint_scheme \<Rightarrow> 'a cycint_scheme option) \<Rightarrow> 'a cycint_scheme
     \<Rightarrow> 'a cycint_scheme option" where
  "AddCycles_time_loop h s =
     (if nTimeFirst s \<noteq> EVENT_NULL then
        (let diff = sint (ev_time (EventList s (nTimeFirst s)) - nTimeNow s) in
         if diff > 0 then
           (if diff < CHECK_INTERVAL
            then Some (s\<lparr>nCheckCycles := nCyclesMainCounter s + word_of_int (diff * cpu_freq s)\<rparr>)
            else Some (set_next_check s))
         else do { s1 \<leftarrow> h (nTimeFirst s) (pop_time_event s); AddCycles_time_loop h s1 })
      else Some (set_next_check s))"

definition CycInt_AddCycles ::
  "(event_id \<Rightarrow> 'a cycint_scheme \<Rightarrow> 'a cycint_scheme option) \<Rightarrow> int \<Rightarrow> 'a cycint_scheme
     \<Rightarrow> 'a cycint_scheme option" where
  "CycInt_AddCycles h Cycles s = do {
     s1 \<leftarrow> AddCycles_cycle_loop h (s\<lparr>nCyclesMainCounter := nCyclesMainCounter s + word_of_int Cycles\<rparr>);
     if nCheckCycles s1 \<le> nCyclesMainCounter s1 then
       (let (now, s2) = Timing_GetTime s1 in AddCycles_time_loop h (s2\<lparr>nTimeNow := now\<rparr>))
     else Some s1
   }"

section \<open>The lists the links describe\<close>

fun walk :: "nat \<Rightarrow> (event_id \<Rightarrow> cycint_event) \<Rightarrow> event_id \<Rightarrow> event_id list" where
  "walk 0 el x = []"
| "walk (Suc n) el x = (if x = EVENT_NULL then [] else x # walk n el (ev_next (el x)))"

definition cycle_queue :: "'a cycint_scheme \<Rightarrow> event_id list" where
  "cycle_queue s = walk 20 (EventList s) (nCyclesFirst s)"

definition time_queue :: "'a cycint_scheme \<Rightarrow> event_id list" where
  "time_queue s = walk 20 (EventList s) (nTimeFirst s)"

text \<open>A doubly linked list that starts at \<open>x\<close>, whose first element points back to \<open>p\<close>.\<close>

fun chain :: "(event_id \<Rightarrow> cycint_event) \<Rightarrow> event_id \<Rightarrow> event_id \<Rightarrow> event_id list \<Rightarrow> bool" where
  "chain el p x [] \<longleftrightarrow> x = EVENT_NULL"
| "chain el p x (a # as) \<longleftrightarrow> x = a \<and> a \<noteq> EVENT_NULL \<and> ev_prev (el a) = p
     \<and> chain el a (ev_next (el a)) as"

definition all_events :: "event_id list" where
  "all_events = [EVENT_NULL, EVENT_HARDCLOCK_INTERRUPT, EVENT_ESP_INTERRUPT, EVENT_ESP_IO,
     EVENT_MO_INTERRUPT, EVENT_MO_IO, EVENT_MO_ECC_IO, EVENT_FLOPPY_IO,
     EVENT_ETHERNET_IO, EVENT_PRINTER_IO, EVENT_SCC_IO, EVENT_TABLET_IO,
     EVENT_DMA_M2M_IO, EVENT_SND_DSP_INPUT, EVENT_SND_INPUT, EVENT_SND_OUTPUT,
     EVENT_VIDEO_VBL, EVENT_ND_VBL, EVENT_ND_VIDEO_VBL, EVENT_MAIN_EVENT]"

lemma in_all_events [simp]: "i \<in> set all_events"
  by (cases i) (simp_all add: all_events_def)

instance event_id :: finite
proof
  have "UNIV \<subseteq> set all_events" by auto
  then show "finite (UNIV :: event_id set)" by (rule finite_subset) simp
qed

definition queue_ok ::
  "(event_id \<Rightarrow> cycint_event) \<Rightarrow> event_type \<Rightarrow> event_id \<Rightarrow> event_id list \<Rightarrow> bool" where
  "queue_ok el ty first xs \<longleftrightarrow> chain el EVENT_NULL first xs \<and> distinct xs
     \<and> sorted (map (\<lambda>i. ev_time (el i)) xs)
     \<and> list_all (\<lambda>i. i \<in> set xs \<longleftrightarrow> ev_type (el i) = ty) all_events"

definition cyc_inv :: "'a cycint_scheme \<Rightarrow> bool" where
  "cyc_inv s \<longleftrightarrow>
     ev_type (EventList s EVENT_NULL) = TYPE_NONE
     \<and> ev_time (EventList s EVENT_NULL) = UINT64_MAX
     \<and> queue_ok (EventList s) TYPE_CYCLES (nCyclesFirst s) (cycle_queue s)
     \<and> queue_ok (EventList s) TYPE_TIME (nTimeFirst s) (time_queue s)"

text \<open>The abstract scheduler state: pending events with their times.\<close>

definition cycle_abs :: "'a cycint_scheme \<Rightarrow> (event_id \<times> u64) list" where
  "cycle_abs s = map (\<lambda>i. (i, ev_time (EventList s i))) (cycle_queue s)"

definition time_abs :: "'a cycint_scheme \<Rightarrow> (event_id \<times> u64) list" where
  "time_abs s = map (\<lambda>i. (i, ev_time (EventList s i))) (time_queue s)"

fun sched_insert :: "event_id \<times> u64 \<Rightarrow> (event_id \<times> u64) list \<Rightarrow> (event_id \<times> u64) list" where
  "sched_insert e [] = [e]"
| "sched_insert e (x # xs) = (if snd x < snd e then x # sched_insert e xs else e # x # xs)"

definition sched_remove :: "event_id \<Rightarrow> (event_id \<times> u64) list \<Rightarrow> (event_id \<times> u64) list" where
  "sched_remove i xs = filter (\<lambda>e. fst e \<noteq> i) xs"

text \<open>A state with two pending cycle events and one microsecond event, for examples.\<close>

definition sample_cycint :: cycint where
  "sample_cycint = timing.extend sample_timing (cycint.fields
     ((\<lambda>i. \<lparr>ev_type = TYPE_NONE, ev_time = UINT64_MAX, ev_prev = EVENT_NULL, ev_next = EVENT_NULL\<rparr>)
       (EVENT_ESP_IO := \<lparr>ev_type = TYPE_CYCLES, ev_time = 1020, ev_prev = EVENT_NULL, ev_next = EVENT_MO_IO\<rparr>,
        EVENT_MO_IO := \<lparr>ev_type = TYPE_CYCLES, ev_time = 1080, ev_prev = EVENT_ESP_IO, ev_next = EVENT_NULL\<rparr>,
        EVENT_VIDEO_VBL := \<lparr>ev_type = TYPE_TIME, ev_time = 40, ev_prev = EVENT_NULL, ev_next = EVENT_NULL\<rparr>))
     1040 0 EVENT_ESP_IO EVENT_VIDEO_VBL)"

section \<open>Links and lists\<close>

lemma queue_ok_iff:
  "queue_ok el ty first xs \<longleftrightarrow> chain el EVENT_NULL first xs \<and> distinct xs
     \<and> sorted (map (\<lambda>i. ev_time (el i)) xs) \<and> (\<forall>i. i \<in> set xs \<longleftrightarrow> ev_type (el i) = ty)"
  by (auto simp: queue_ok_def list_all_iff)

lemma chain_not_null: "chain el p x xs \<Longrightarrow> EVENT_NULL \<notin> set xs"
  by (induction xs arbitrary: p x) auto

lemma chain_cong:
  assumes "\<And>a. a \<in> set xs \<Longrightarrow> ev_prev (el' a) = ev_prev (el a) \<and> ev_next (el' a) = ev_next (el a)"
  shows "chain el' p x xs = chain el p x xs"
  using assms by (induction xs arbitrary: p x) auto

lemma chain_walk: "chain el p x xs \<Longrightarrow> length xs \<le> n \<Longrightarrow> walk n el x = xs"
proof (induction xs arbitrary: p x n)
  case Nil
  then show ?case by (cases n) auto
next
  case (Cons a as)
  then show ?case by (cases n) auto
qed

lemma distinct_events_length: "distinct xs \<Longrightarrow> length xs \<le> 20" for xs :: "event_id list"
proof -
  assume "distinct xs"
  then have "length xs = card (set xs)" by (simp add: distinct_card)
  also have "\<dots> \<le> card (set all_events)" by (rule card_mono) auto
  also have "\<dots> \<le> 20" using card_length [of all_events] by (simp add: all_events_def)
  finally show ?thesis .
qed

lemma queue_ok_walk: "queue_ok el ty x xs \<Longrightarrow> walk 20 el x = xs"
  by (auto simp: queue_ok_iff intro: chain_walk distinct_events_length)

lemma cyc_invI:
  assumes "ev_type (EventList s EVENT_NULL) = TYPE_NONE"
    and "ev_time (EventList s EVENT_NULL) = UINT64_MAX"
    and "queue_ok (EventList s) TYPE_CYCLES (nCyclesFirst s) cs"
    and "queue_ok (EventList s) TYPE_TIME (nTimeFirst s) ts"
  shows "cyc_inv s" "cycle_queue s = cs" "time_queue s = ts"
  using assms queue_ok_walk [OF assms(3)] queue_ok_walk [OF assms(4)]
  by (simp_all add: cyc_inv_def cycle_queue_def time_queue_def)

lemma not_UINT64_MAX_less [simp]: "\<not> UINT64_MAX < t"
  using unsigned_less [of t, where ?'a = nat] by (simp add: not_less word_le_nat_alt)

lemma AddEvent_scan_chain:
  assumes "chain el p x xs" and "ev_time (el EVENT_NULL) = UINT64_MAX"
  shows "AddEvent_scan el t p x =
    Some (last (p # takeWhile (\<lambda>a. ev_time (el a) < t) xs),
          hd (dropWhile (\<lambda>a. ev_time (el a) < t) xs @ [EVENT_NULL]))"
  using assms(1)
proof (induction xs arbitrary: p x)
  case Nil
  with assms(2) show ?case by (subst AddEvent_scan.simps) simp
next
  case (Cons a as)
  then show ?case by (subst AddEvent_scan.simps) auto
qed

lemma link_event_other:
  "a \<noteq> i \<Longrightarrow> a \<noteq> q \<Longrightarrow> a \<noteq> y \<Longrightarrow> link_event q i y el a = el a"
  by (simp add: link_event_def Let_def)

lemma link_event_keeps [simp]:
  "ev_type (link_event q i y el a) = ev_type (el a)"
  "ev_time (link_event q i y el a) = ev_time (el a)"
  by (simp_all add: link_event_def Let_def)

lemma chain_insert:
  assumes "chain el p x (as @ bs)" "distinct (as @ bs)" "p \<notin> set (as @ bs)"
    and "i \<notin> set (as @ bs)" "i \<noteq> p" "i \<noteq> EVENT_NULL"
  shows "chain (link_event (last (p # as)) i (hd (bs @ [EVENT_NULL])) el) p
           (if as = [] then i else x) (as @ i # bs)"
  using assms
proof (induction as arbitrary: p x)
  case Nil
  let ?el = "link_event p i (hd (bs @ [EVENT_NULL])) el"
  have "chain ?el i (hd (bs @ [EVENT_NULL])) bs"
  proof (cases bs)
    case Nil
    then show ?thesis by simp
  next
    case (Cons b bs')
    have "?el a = el a" if "a \<in> set bs'" for a
      using that Nil.prems Cons by (intro link_event_other) auto
    then have "chain ?el b (ev_next (el b)) bs' = chain el b (ev_next (el b)) bs'"
      by (intro chain_cong) simp
    with Nil.prems Cons show ?thesis by (auto simp: link_event_def Let_def)
  qed
  moreover have "hd (bs @ [EVENT_NULL]) \<noteq> i"
    using Nil.prems by (cases bs) auto
  ultimately show ?case using Nil.prems by (auto simp: link_event_def Let_def)
next
  case (Cons a as)
  let ?y = "hd (bs @ [EVENT_NULL])" and ?el = "link_event (last (a # as)) i (hd (bs @ [EVENT_NULL])) el"
  have tail: "chain ?el a (if as = [] then i else ev_next (el a)) (as @ i # bs)"
    using Cons.prems by (intro Cons.IH) auto
  have a: "a \<noteq> ?y" "a \<noteq> i" "a \<noteq> EVENT_NULL" "x = a"
    using Cons.prems by (cases bs, auto)+
  have "ev_prev (?el a) = ev_prev (el a)"
    using a by (simp add: link_event_def Let_def)
  moreover have "ev_next (?el a) = (if as = [] then i else ev_next (el a))"
  proof (cases "as = []")
    case True
    with a show ?thesis by (simp add: link_event_def Let_def)
  next
    case False
    then have "last (a # as) \<in> set as" by simp
    then have "last (a # as) \<noteq> a" using Cons.prems by auto
    with a False show ?thesis by (simp add: link_event_def Let_def)
  qed
  ultimately show ?case using tail a Cons.prems by simp
qed

text \<open>Taking an element out: what \<open>CycInt_RemovePendingEvent\<close> does to the links.\<close>

definition unlink_event :: "event_id \<Rightarrow> (event_id \<Rightarrow> cycint_event) \<Rightarrow> (event_id \<Rightarrow> cycint_event)" where
  "unlink_event i el = (
     let el1 = (if ev_prev (el i) \<noteq> EVENT_NULL
                then upd_event (ev_prev (el i)) (\<lambda>e. e\<lparr>ev_next := ev_next (el i)\<rparr>) el else el);
         el2 = (if ev_next (el1 i) \<noteq> EVENT_NULL
                then upd_event (ev_next (el1 i)) (\<lambda>e. e\<lparr>ev_prev := ev_prev (el1 i)\<rparr>) el1 else el1)
     in upd_event i (\<lambda>e. e\<lparr>ev_type := TYPE_NONE\<rparr>) el2)"

lemma CycInt_RemovePendingEvent_unlink:
  "CycInt_RemovePendingEvent i s =
     (if ev_type (EventList s i) = TYPE_NONE then s
      else s\<lparr>EventList := unlink_event i (EventList s),
        nCyclesFirst := (if ev_type (EventList s i) = TYPE_CYCLES \<and> i = nCyclesFirst s
                         then ev_next (EventList s i) else nCyclesFirst s),
        nTimeFirst := (if ev_type (EventList s i) = TYPE_TIME \<and> i = nTimeFirst s
                       then ev_next (EventList s i) else nTimeFirst s)\<rparr>)"
  by (cases "ev_type (EventList s i)")
    (simp_all add: CycInt_RemovePendingEvent_def unlink_event_def Let_def)

lemma unlink_event_keeps:
  "ev_type (unlink_event i el a) = (if a = i then TYPE_NONE else ev_type (el a))"
  "ev_time (unlink_event i el a) = ev_time (el a)"
  by (simp_all add: unlink_event_def Let_def)

lemma chain_nexts:
  "chain el p x (as @ i # bs) \<Longrightarrow> ev_prev (el i) = last (p # as)
     \<and> ev_next (el i) = hd (bs @ [EVENT_NULL]) \<and> (as = [] \<longrightarrow> x = i)"
proof (induction as arbitrary: p x)
  case Nil
  then show ?case by (cases bs) auto
next
  case (Cons a as)
  then have "chain el a (ev_next (el a)) (as @ i # bs)" by simp
  from Cons.IH [OF this] show ?case by simp
qed

lemma unlink_event_in_chain:
  assumes "ev_prev (el i) = q" "ev_next (el i) = y" "q \<noteq> i" "y \<noteq> i"
  shows "ev_next (unlink_event i el a) = (if a = q \<and> q \<noteq> EVENT_NULL then y else ev_next (el a))"
    "ev_prev (unlink_event i el a) = (if a = y \<and> y \<noteq> EVENT_NULL then q else ev_prev (el a))"
proof -
  define el1 where "el1 = (if q \<noteq> EVENT_NULL then upd_event q (\<lambda>e. e\<lparr>ev_next := y\<rparr>) el else el)"
  have i: "el1 i = el i" using assms(3) by (simp add: el1_def)
  have u: "unlink_event i el = upd_event i (\<lambda>e. e\<lparr>ev_type := TYPE_NONE\<rparr>)
      (if y \<noteq> EVENT_NULL then upd_event y (\<lambda>e. e\<lparr>ev_prev := q\<rparr>) el1 else el1)"
    unfolding unlink_event_def Let_def assms(1,2) el1_def [symmetric] i ..
  show "ev_next (unlink_event i el a) = (if a = q \<and> q \<noteq> EVENT_NULL then y else ev_next (el a))"
    unfolding u by (simp add: el1_def)
  show "ev_prev (unlink_event i el a) = (if a = y \<and> y \<noteq> EVENT_NULL then q else ev_prev (el a))"
    unfolding u by (simp add: el1_def)
qed

lemma chain_remove:
  assumes "chain el p x (as @ i # bs)" "distinct (as @ i # bs)" "p \<notin> set (as @ i # bs)"
    and "ev_prev (el i) = q" "ev_next (el i) = y" "i \<noteq> EVENT_NULL" "q = last (p # as)"
  shows "chain (unlink_event i el) p (if as = [] then y else x) (as @ bs)"
  using assms
proof (induction as arbitrary: p x)
  case Nil
  from chain_nexts [OF Nil.prems(1)] Nil.prems have y: "y = hd (bs @ [EVENT_NULL])" "p = q" by auto
  have "y \<noteq> i" using Nil.prems(2,6) y(1) by (cases bs) auto
  with Nil.prems(3) y(2) have ne: "q \<noteq> i" "y \<noteq> i" by auto
  note upd = unlink_event_in_chain [of el i q y, OF Nil.prems(4,5) ne]
  show ?case
  proof (cases bs)
    case Nil
    with y show ?thesis by simp
  next
    case (Cons b bs')
    then have b: "y = b" "b \<noteq> q" "b \<notin> set bs'" "q \<notin> set bs'" "b \<noteq> EVENT_NULL"
      using y Nil.prems(1-3) by auto
    have "chain (unlink_event i el) b (ev_next (el b)) bs' = chain el b (ev_next (el b)) bs'"
      using b by (intro chain_cong) (metis upd)
    moreover have "chain el b (ev_next (el b)) bs'" using Nil.prems(1) Cons by simp
    ultimately show ?thesis using b y Cons by (simp add: upd)
  qed
next
  case (Cons a as)
  from Cons.prems have c: "chain el a (ev_next (el a)) (as @ i # bs)" and a: "x = a" "ev_prev (el a) = p"
    "a \<noteq> EVENT_NULL" by simp_all
  have q: "q = last (a # as)" using Cons.prems by simp
  from chain_nexts [OF c] Cons.prems(5) have y: "y = hd (bs @ [EVENT_NULL])" by simp
  have "q \<in> set (a # as)" using q by (metis last_in_set list.distinct(1))
  with Cons.prems(2) have q_i: "q \<noteq> i" by auto
  have "y \<noteq> i" "a \<noteq> y" using Cons.prems(2,6) y a(3) by (cases bs; auto)+
  with q_i have ne: "q \<noteq> i" "y \<noteq> i" "a \<noteq> y" by simp_all
  note upd = unlink_event_in_chain [of el i q y, OF Cons.prems(4,5) ne(1,2)]
  have tail: "chain (unlink_event i el) a (if as = [] then y else ev_next (el a)) (as @ bs)"
    using Cons.prems(2,4,5,6) c q by (intro Cons.IH) simp_all
  have "as \<noteq> [] \<Longrightarrow> a \<noteq> q" using q Cons.prems(2) by auto
  with tail a ne q show ?case by (cases "as = []") (simp_all add: upd)
qed

section \<open>Refinement of the operations\<close>

lemma map_sched_insert:
  "map (\<lambda>a. (a, f a)) (takeWhile (\<lambda>a. f a < t) xs @ i # dropWhile (\<lambda>a. f a < t) xs)
     = sched_insert (i, t) (map (\<lambda>a. (a, f a)) xs)" if "f i = t"
  using that by (induction xs) auto

lemma sorted_insert_at:
  fixes f :: "event_id \<Rightarrow> u64"
  assumes "sorted (map f xs)"
  shows "sorted (map f (takeWhile (\<lambda>a. f a < f i) xs @ i # dropWhile (\<lambda>a. f a < f i) xs))"
  using assms by (induction xs) (auto simp: not_less dest: set_takeWhileD set_dropWhileD)

text \<open>
  Inserting \<open>i\<close>, already marked with its type and time, into one of the two queues.
\<close>

lemma queue_ok_insert:
  assumes ok: "queue_ok el ty first xs" and i: "ev_type (el i) = TYPE_NONE" "i \<noteq> EVENT_NULL"
    and null: "ev_time (el EVENT_NULL) = UINT64_MAX"
    and ty: "ty \<noteq> TYPE_NONE"
    and el1: "el1 = el(i := (el i)\<lparr>ev_type := ty, ev_time := t\<rparr>)"
  defines "as \<equiv> takeWhile (\<lambda>a. ev_time (el a) < t) xs"
    and "bs \<equiv> dropWhile (\<lambda>a. ev_time (el a) < t) xs"
  shows "AddEvent_scan el1 t EVENT_NULL first = Some (last (EVENT_NULL # as), hd (bs @ [EVENT_NULL]))"
    and "queue_ok (link_event (last (EVENT_NULL # as)) i (hd (bs @ [EVENT_NULL])) el1) ty
           (if hd (bs @ [EVENT_NULL]) = first then i else first) (as @ i # bs)"
proof -
  have xs: "as @ bs = xs" by (simp add: as_def bs_def)
  have ch: "chain el EVENT_NULL first xs" and dist: "distinct xs"
    and srt: "sorted (map (\<lambda>i. ev_time (el i)) xs)"
    and mem: "\<And>a. a \<in> set xs \<longleftrightarrow> ev_type (el a) = ty"
    using ok by (auto simp: queue_ok_iff)
  have i_xs: "i \<notin> set xs" using mem i ty by auto
  have null_xs: "EVENT_NULL \<notin> set xs" using chain_not_null [OF ch] .
  have same: "el1 a = el a" if "a \<noteq> i" for a using that by (simp add: el1)
  have here: "ev_time (el1 i) = t" "ev_type (el1 i) = ty" by (simp_all add: el1)
  have same_xs: "el1 a = el a" if "a \<in> set xs" for a using that i_xs same by metis
  have ch1: "chain el1 EVENT_NULL first xs"
    using ch chain_cong [of xs el1 el] same_xs by simp
  have times: "takeWhile (\<lambda>a. ev_time (el1 a) < t) xs = as" "dropWhile (\<lambda>a. ev_time (el1 a) < t) xs = bs"
    unfolding as_def bs_def by (simp_all add: same_xs cong: takeWhile_cong dropWhile_cong)
  show "AddEvent_scan el1 t EVENT_NULL first = Some (last (EVENT_NULL # as), hd (bs @ [EVENT_NULL]))"
    using AddEvent_scan_chain [OF ch1, of t] null same [of EVENT_NULL] i(2)
    by (metis times)
  let ?el = "link_event (last (EVENT_NULL # as)) i (hd (bs @ [EVENT_NULL])) el1"
  have first: "(if hd (bs @ [EVENT_NULL]) = first then i else first) = (if as = [] then i else first)"
  proof (cases as)
    case Nil
    with xs ch show ?thesis by (cases bs) auto
  next
    case (Cons a as')
    with xs ch have "first = a" "a \<noteq> EVENT_NULL" by auto
    moreover have "hd (bs @ [EVENT_NULL]) \<noteq> a"
      using Cons xs dist \<open>a \<noteq> EVENT_NULL\<close> by (cases bs) auto
    ultimately show ?thesis using Cons by simp
  qed
  have "chain ?el EVENT_NULL (if as = [] then i else first) (as @ i # bs)"
    using ch1 dist null_xs i_xs i xs by (intro chain_insert) auto
  moreover have "distinct (as @ i # bs)" using dist i_xs xs by auto
  moreover have "sorted (map (\<lambda>a. ev_time (?el a)) (as @ i # bs))"
  proof -
    have "sorted (map (\<lambda>a. ev_time (el1 a)) xs)"
      using srt by (simp add: same_xs cong: map_cong)
    from sorted_insert_at [OF this, of i] show ?thesis
      unfolding here times link_event_keeps .
  qed
  moreover have "a \<in> set (as @ i # bs) \<longleftrightarrow> ev_type (?el a) = ty" for a
    using mem [of a] xs same [of a] here by (cases "a = i") auto
  ultimately show "queue_ok ?el ty (if hd (bs @ [EVENT_NULL]) = first then i else first) (as @ i # bs)"
    unfolding first by (auto simp: queue_ok_iff)
qed

lemma queue_ok_frame:
  assumes "queue_ok el ty first xs"
    and "\<And>a. a \<in> set xs \<Longrightarrow> ev_prev (el' a) = ev_prev (el a) \<and> ev_next (el' a) = ev_next (el a)
           \<and> ev_time (el' a) = ev_time (el a)"
    and "\<And>a. ev_type (el' a) = ty \<longleftrightarrow> ev_type (el a) = ty"
  shows "queue_ok el' ty first xs"
proof -
  have "chain el' EVENT_NULL first xs = chain el EVENT_NULL first xs"
    using assms(2) by (intro chain_cong) blast
  moreover have "map (\<lambda>i. ev_time (el' i)) xs = map (\<lambda>i. ev_time (el i)) xs"
    using assms(2) by simp
  ultimately show ?thesis using assms(1,3) unfolding queue_ok_iff by metis
qed

lemma filter_neq_id: "i \<notin> set xs \<Longrightarrow> filter (\<lambda>a. a \<noteq> i) xs = xs"
  by (induction xs) auto

lemma filter_neq_split:
  "distinct (as @ i # bs) \<Longrightarrow> filter (\<lambda>a. a \<noteq> i) (as @ i # bs) = as @ bs"
  by (simp add: filter_neq_id)

lemma queue_ok_remove:
  assumes ok: "queue_ok el ty first xs" and i: "ev_type (el i) = ty" "ty \<noteq> TYPE_NONE"
  shows "queue_ok (unlink_event i el) ty (if i = first then ev_next (el i) else first)
           (filter (\<lambda>a. a \<noteq> i) xs)"
    and "{ev_prev (el i), ev_next (el i)} \<subseteq> insert EVENT_NULL (set xs)"
proof -
  have ch: "chain el EVENT_NULL first xs" and dist: "distinct xs"
    and srt: "sorted (map (\<lambda>i. ev_time (el i)) xs)"
    and mem: "\<And>a. a \<in> set xs \<longleftrightarrow> ev_type (el a) = ty"
    using ok by (auto simp: queue_ok_iff)
  from i mem have "i \<in> set xs" by simp
  then obtain as bs where xs: "xs = as @ i # bs" by (auto simp: in_set_conv_decomp)
  note nx = chain_nexts [OF ch [unfolded xs]]
  have "last (EVENT_NULL # as) \<in> insert EVENT_NULL (set xs)"
    "hd (bs @ [EVENT_NULL]) \<in> insert EVENT_NULL (set xs)"
    by (auto simp: xs hd_append)
  with nx show "{ev_prev (el i), ev_next (el i)} \<subseteq> insert EVENT_NULL (set xs)" by simp
  have null: "EVENT_NULL \<notin> set xs" using chain_not_null [OF ch] .
  with \<open>i \<in> set xs\<close> have i_null: "i \<noteq> EVENT_NULL" by auto
  have fst: "(if i = first then ev_next (el i) else first) = (if as = [] then ev_next (el i) else first)"
    using ch dist by (cases as) (auto simp: xs)
  have "chain (unlink_event i el) EVENT_NULL (if as = [] then ev_next (el i) else first) (as @ bs)"
    using ch dist null i_null nx unfolding xs by (intro chain_remove [of _ _ _ _ _ _ "ev_prev (el i)"]) auto
  moreover have "sorted (map (\<lambda>a. ev_time (unlink_event i el a)) (as @ bs))"
    using srt by (simp add: xs unlink_event_keeps sorted_append)
  moreover have "a \<in> set (as @ bs) \<longleftrightarrow> ev_type (unlink_event i el a) = ty" for a
    using mem [of a] dist i(2) by (auto simp: xs unlink_event_keeps)
  ultimately show "queue_ok (unlink_event i el) ty (if i = first then ev_next (el i) else first)
      (filter (\<lambda>a. a \<noteq> i) xs)"
    unfolding fst queue_ok_iff using dist filter_neq_split [of as i bs] xs by simp
qed

lemma unlink_event_frame:
  "a \<noteq> i \<Longrightarrow> a \<noteq> ev_prev (el i) \<Longrightarrow> a \<noteq> ev_next (el i) \<Longrightarrow> ev_prev (el i) \<noteq> i \<Longrightarrow>
     unlink_event i el a = el a"
  by (simp add: unlink_event_def Let_def)

lemma queue_ok_remove_other:
  assumes ok: "queue_ok el ty first xs" and ok': "queue_ok el ty' first' ys"
    and i: "ev_type (el i) = ty" "ty \<noteq> TYPE_NONE" "ty' \<noteq> TYPE_NONE" "ty \<noteq> ty'"
  shows "queue_ok (unlink_event i el) ty' first' ys"
proof (rule queue_ok_frame [OF ok'])
  have sub: "{ev_prev (el i), ev_next (el i)} \<subseteq> insert EVENT_NULL (set xs)"
    using queue_ok_remove(2) [OF ok i(1,2)] .
  have mem: "a \<in> set xs \<longleftrightarrow> ev_type (el a) = ty" "a \<in> set ys \<longleftrightarrow> ev_type (el a) = ty'" for a
    using ok ok' by (auto simp: queue_ok_iff)
  have null: "EVENT_NULL \<notin> set ys" using ok' chain_not_null unfolding queue_ok_iff by blast
  fix a
  show "ev_type (unlink_event i el a) = ty' \<longleftrightarrow> ev_type (el a) = ty'"
    using i by (auto simp: unlink_event_keeps)
  assume a: "a \<in> set ys"
  then have "a \<notin> set xs" "a \<noteq> EVENT_NULL" "a \<noteq> i" using mem null i by auto
  moreover have "ev_prev (el i) \<noteq> i"
  proof -
    from i mem have "i \<in> set xs" by simp
    then obtain as bs where xs: "xs = as @ i # bs" by (auto simp: in_set_conv_decomp)
    have ch: "chain el EVENT_NULL first xs" and "distinct xs" using ok by (auto simp: queue_ok_iff)
    with chain_nexts [OF ch [unfolded xs]] chain_not_null [OF ch] show ?thesis
      by (auto simp: xs split: if_splits)
  qed
  ultimately have "unlink_event i el a = el a"
    using sub by (intro unlink_event_frame) auto
  then show "ev_prev (unlink_event i el a) = ev_prev (el a)
      \<and> ev_next (unlink_event i el a) = ev_next (el a)
      \<and> ev_time (unlink_event i el a) = ev_time (el a)" by simp
qed

text \<open>Removal refines \<open>sched_remove\<close> on both queues.\<close>

lemma CycInt_RemovePendingEvent_refines:
  assumes "cyc_inv s"
  shows "cyc_inv (CycInt_RemovePendingEvent i s)
    \<and> cycle_abs (CycInt_RemovePendingEvent i s) = sched_remove i (cycle_abs s)
    \<and> time_abs (CycInt_RemovePendingEvent i s) = sched_remove i (time_abs s)
    \<and> ev_type (EventList (CycInt_RemovePendingEvent i s) i) = TYPE_NONE"
proof (cases "ev_type (EventList s i) = TYPE_NONE")
  case True
  with assms have "i \<notin> set (cycle_queue s)" "i \<notin> set (time_queue s)"
    by (auto simp: cyc_inv_def queue_ok_iff)
  then have "sched_remove i (cycle_abs s) = cycle_abs s" "sched_remove i (time_abs s) = time_abs s"
    by (auto simp: sched_remove_def cycle_abs_def time_abs_def filter_id_conv)
  with True assms show ?thesis by (simp add: CycInt_RemovePendingEvent_unlink)
next
  case False
  let ?el = "EventList s" and ?s = "CycInt_RemovePendingEvent i s"
  have C: "queue_ok ?el TYPE_CYCLES (nCyclesFirst s) (cycle_queue s)"
    and T: "queue_ok ?el TYPE_TIME (nTimeFirst s) (time_queue s)"
    using assms by (auto simp: cyc_inv_def)
  have el: "EventList ?s = unlink_event i ?el"
    using False by (simp add: CycInt_RemovePendingEvent_unlink)
  have null: "ev_type (EventList ?s EVENT_NULL) = TYPE_NONE" "ev_time (EventList ?s EVENT_NULL) = UINT64_MAX"
    using assms by (auto simp: el unlink_event_keeps cyc_inv_def)
  have keep: "filter (\<lambda>a. a \<noteq> i) xs = xs" if "queue_ok ?el ty f xs" "ev_type (?el i) \<noteq> ty" for ty f xs
    using that by (auto simp: queue_ok_iff filter_id_conv)
  have "queue_ok (EventList ?s) TYPE_CYCLES (nCyclesFirst ?s) (filter (\<lambda>a. a \<noteq> i) (cycle_queue s))
      \<and> queue_ok (EventList ?s) TYPE_TIME (nTimeFirst ?s) (filter (\<lambda>a. a \<noteq> i) (time_queue s))"
  proof (cases "ev_type (?el i)")
    case TYPE_NONE
    with False show ?thesis by simp
  next
    case TYPE_CYCLES
    then show ?thesis
      using queue_ok_remove(1) [OF C TYPE_CYCLES] queue_ok_remove_other [OF C T TYPE_CYCLES] keep [OF T]
      by (simp add: CycInt_RemovePendingEvent_unlink)
  next
    case TYPE_TIME
    then show ?thesis
      using queue_ok_remove(1) [OF T TYPE_TIME] queue_ok_remove_other [OF T C TYPE_TIME] keep [OF C]
      by (simp add: CycInt_RemovePendingEvent_unlink)
  qed
  from cyc_invI [OF null, of "filter (\<lambda>a. a \<noteq> i) (cycle_queue s)" "filter (\<lambda>a. a \<noteq> i) (time_queue s)"] this
  show ?thesis
    by (simp add: cycle_abs_def time_abs_def sched_remove_def filter_map comp_def el unlink_event_keeps)
qed

lemma queue_ok_insert_other:
  assumes ok: "queue_ok el ty first xs" and ok': "queue_ok el ty' first' ys"
    and i: "ev_type (el i) = TYPE_NONE" "ty \<noteq> TYPE_NONE" "ty' \<noteq> TYPE_NONE" "ty \<noteq> ty'"
    and el1: "el1 = el(i := (el i)\<lparr>ev_type := ty, ev_time := t\<rparr>)"
    and q: "q \<in> insert EVENT_NULL (set xs)" and y: "y \<in> insert EVENT_NULL (set xs)"
  shows "queue_ok (link_event q i y el1) ty' first' ys"
proof (rule queue_ok_frame [OF ok'])
  have mem: "a \<in> set xs \<longleftrightarrow> ev_type (el a) = ty" "a \<in> set ys \<longleftrightarrow> ev_type (el a) = ty'" for a
    using ok ok' by (auto simp: queue_ok_iff)
  have null: "EVENT_NULL \<notin> set ys" using ok' chain_not_null unfolding queue_ok_iff by blast
  fix a
  show "ev_type (link_event q i y el1 a) = ty' \<longleftrightarrow> ev_type (el a) = ty'"
    using i by (auto simp: el1)
  assume "a \<in> set ys"
  then have "a \<notin> set xs" "a \<noteq> EVENT_NULL" "a \<noteq> i" using mem null i by auto
  moreover from this have "link_event q i y el1 a = el1 a"
    using q y by (intro link_event_other) auto
  ultimately have "link_event q i y el1 a = el a" by (simp add: el1)
  then show "ev_prev (link_event q i y el1 a) = ev_prev (el a)
      \<and> ev_next (link_event q i y el1 a) = ev_next (el a)
      \<and> ev_time (link_event q i y el1 a) = ev_time (el a)" by simp
qed

lemma takeWhile_neighbours:
  "last (EVENT_NULL # takeWhile P xs) \<in> insert EVENT_NULL (set xs)"
  "hd (dropWhile P xs @ [EVENT_NULL]) \<in> insert EVENT_NULL (set xs)"
proof -
  show "last (EVENT_NULL # takeWhile P xs) \<in> insert EVENT_NULL (set xs)"
    by (cases "takeWhile P xs = []") (auto dest: set_takeWhileD [OF last_in_set])
  show "hd (dropWhile P xs @ [EVENT_NULL]) \<in> insert EVENT_NULL (set xs)"
    by (metis append_is_Nil_conv hd_append hd_in_set insertCI list.sel(1) set_dropWhileD)
qed

text \<open>
  The common end of the scheduling functions: \<open>i\<close>, not pending, gets a time and is put
  into the cycle queue (first lemma) or into the time queue (second lemma).
\<close>

lemma map_other_times:
  assumes "\<And>a. ev_time (el' a) = ev_time ((el(i := (el i)\<lparr>ev_type := ty, ev_time := t\<rparr>)) a)"
    and "i \<notin> set xs"
  shows "map (\<lambda>a. (a, ev_time (el' a))) xs = map (\<lambda>a. (a, ev_time (el a))) xs"
  using assms by auto

lemma insert_times:
  assumes t: "\<And>a. ev_time (el' a) = ev_time ((el(i := (el i)\<lparr>ev_type := ty, ev_time := t\<rparr>)) a)"
    and i: "i \<notin> set xs"
  shows "map (\<lambda>a. (a, ev_time (el' a)))
      (takeWhile (\<lambda>a. ev_time (el a) < t) xs @ i # dropWhile (\<lambda>a. ev_time (el a) < t) xs)
    = sched_insert (i, t) (map (\<lambda>a. (a, ev_time (el a))) xs)"
  using i
proof (induction xs)
  case Nil
  then show ?case by (simp add: t)
next
  case (Cons x xs)
  then have "map (\<lambda>a. (a, ev_time (el' a))) xs = map (\<lambda>a. (a, ev_time (el a))) xs"
    using t by (intro map_other_times) auto
  with Cons t show ?case by auto
qed

lemma add_cycles_core:
  assumes inv: "cyc_inv s" and i: "ev_type (EventList s i) = TYPE_NONE" "i \<noteq> EVENT_NULL"
    and s2: "s2 = s\<lparr>EventList := (EventList s)(i := (EventList s i)\<lparr>ev_type := TYPE_CYCLES, ev_time := t\<rparr>)\<rparr>"
  obtains f el where "CycInt_AddEvent (nCyclesFirst s) i s2 = Some (f, s2\<lparr>EventList := el\<rparr>)"
    and "cyc_inv (s2\<lparr>EventList := el, nCyclesFirst := f\<rparr>)"
    and "cycle_abs (s2\<lparr>EventList := el, nCyclesFirst := f\<rparr>) = sched_insert (i, t) (cycle_abs s)"
    and "time_abs (s2\<lparr>EventList := el, nCyclesFirst := f\<rparr>) = time_abs s"
proof -
  let ?el = "EventList s" and ?xs = "cycle_queue s"
  let ?el1 = "EventList s2"
  let ?as = "takeWhile (\<lambda>a. ev_time (?el a) < t) ?xs" and ?bs = "dropWhile (\<lambda>a. ev_time (?el a) < t) ?xs"
  let ?q = "last (EVENT_NULL # ?as)" and ?y = "hd (?bs @ [EVENT_NULL])"
  let ?f = "if ?y = nCyclesFirst s then i else nCyclesFirst s"
  let ?el2 = "link_event ?q i ?y ?el1"
  let ?s = "s2\<lparr>EventList := ?el2, nCyclesFirst := ?f\<rparr>"
  have C: "queue_ok ?el TYPE_CYCLES (nCyclesFirst s) ?xs"
    and T: "queue_ok ?el TYPE_TIME (nTimeFirst s) (time_queue s)"
    and null: "ev_type (?el EVENT_NULL) = TYPE_NONE" "ev_time (?el EVENT_NULL) = UINT64_MAX"
    using inv by (auto simp: cyc_inv_def)
  have el1: "?el1 = ?el(i := (?el i)\<lparr>ev_type := TYPE_CYCLES, ev_time := t\<rparr>)" by (simp add: s2)
  have ni: "i \<notin> set ?xs" "i \<notin> set (time_queue s)" using C T i by (auto simp: queue_ok_iff)
  have scan: "AddEvent_scan ?el1 t EVENT_NULL (nCyclesFirst s) = Some (?q, ?y)"
    and ok: "queue_ok ?el2 TYPE_CYCLES ?f (?as @ i # ?bs)"
    using queue_ok_insert [OF C i null(2) _ el1] by simp_all
  have ok': "queue_ok ?el2 TYPE_TIME (nTimeFirst s) (time_queue s)"
    using i by (intro queue_ok_insert_other [OF C T i(1) _ _ _ el1] takeWhile_neighbours) auto
  have add: "CycInt_AddEvent (nCyclesFirst s) i s2 = Some (?f, s2\<lparr>EventList := ?el2\<rparr>)"
    using scan by (simp add: CycInt_AddEvent_def el1)
  have el2: "ev_time (?el2 a) = ev_time ((?el(i := (?el i)\<lparr>ev_type := TYPE_CYCLES, ev_time := t\<rparr>)) a)" for a
    by (simp add: el1)
  have elS: "EventList ?s = ?el2" by simp
  have n: "ev_type (EventList ?s EVENT_NULL) = TYPE_NONE" "ev_time (EventList ?s EVENT_NULL) = UINT64_MAX"
    using null i by (simp_all add: el1)
  have inv': "cyc_inv ?s" "cycle_queue ?s = ?as @ i # ?bs" "time_queue ?s = time_queue s"
    using cyc_invI [OF n, of "?as @ i # ?bs" "time_queue s"] ok ok' by (simp_all add: s2)
  have abs: "cycle_abs ?s = sched_insert (i, t) (cycle_abs s)" "time_abs ?s = time_abs s"
    unfolding cycle_abs_def time_abs_def inv'(2,3) elS
    by (rule insert_times [OF el2 ni(1)], rule map_other_times [OF el2 ni(2)])
  from that [OF add inv'(1) abs] show thesis .
qed

lemma add_time_core:
  assumes inv: "cyc_inv s" and i: "ev_type (EventList s i) = TYPE_NONE" "i \<noteq> EVENT_NULL"
    and s2: "s2 = s\<lparr>EventList := (EventList s)(i := (EventList s i)\<lparr>ev_type := TYPE_TIME, ev_time := t\<rparr>)\<rparr>"
  obtains f el where "CycInt_AddEvent (nTimeFirst s) i s2 = Some (f, s2\<lparr>EventList := el\<rparr>)"
    and "cyc_inv (s2\<lparr>EventList := el, nTimeFirst := f\<rparr>)"
    and "time_abs (s2\<lparr>EventList := el, nTimeFirst := f\<rparr>) = sched_insert (i, t) (time_abs s)"
    and "cycle_abs (s2\<lparr>EventList := el, nTimeFirst := f\<rparr>) = cycle_abs s"
proof -
  let ?el = "EventList s" and ?xs = "time_queue s"
  let ?el1 = "EventList s2"
  let ?as = "takeWhile (\<lambda>a. ev_time (?el a) < t) ?xs" and ?bs = "dropWhile (\<lambda>a. ev_time (?el a) < t) ?xs"
  let ?q = "last (EVENT_NULL # ?as)" and ?y = "hd (?bs @ [EVENT_NULL])"
  let ?f = "if ?y = nTimeFirst s then i else nTimeFirst s"
  let ?el2 = "link_event ?q i ?y ?el1"
  let ?s = "s2\<lparr>EventList := ?el2, nTimeFirst := ?f\<rparr>"
  have C: "queue_ok ?el TYPE_CYCLES (nCyclesFirst s) (cycle_queue s)"
    and T: "queue_ok ?el TYPE_TIME (nTimeFirst s) ?xs"
    and null: "ev_type (?el EVENT_NULL) = TYPE_NONE" "ev_time (?el EVENT_NULL) = UINT64_MAX"
    using inv by (auto simp: cyc_inv_def)
  have el1: "?el1 = ?el(i := (?el i)\<lparr>ev_type := TYPE_TIME, ev_time := t\<rparr>)" by (simp add: s2)
  have ni: "i \<notin> set ?xs" "i \<notin> set (cycle_queue s)" using C T i by (auto simp: queue_ok_iff)
  have scan: "AddEvent_scan ?el1 t EVENT_NULL (nTimeFirst s) = Some (?q, ?y)"
    and ok: "queue_ok ?el2 TYPE_TIME ?f (?as @ i # ?bs)"
    using queue_ok_insert [OF T i null(2) _ el1] by simp_all
  have ok': "queue_ok ?el2 TYPE_CYCLES (nCyclesFirst s) (cycle_queue s)"
    using i by (intro queue_ok_insert_other [OF T C i(1) _ _ _ el1] takeWhile_neighbours) auto
  have add: "CycInt_AddEvent (nTimeFirst s) i s2 = Some (?f, s2\<lparr>EventList := ?el2\<rparr>)"
    using scan by (simp add: CycInt_AddEvent_def el1)
  have el2: "ev_time (?el2 a) = ev_time ((?el(i := (?el i)\<lparr>ev_type := TYPE_TIME, ev_time := t\<rparr>)) a)" for a
    by (simp add: el1)
  have elS: "EventList ?s = ?el2" by simp
  have n: "ev_type (EventList ?s EVENT_NULL) = TYPE_NONE" "ev_time (EventList ?s EVENT_NULL) = UINT64_MAX"
    using null i by (simp_all add: el1)
  have inv': "cyc_inv ?s" "time_queue ?s = ?as @ i # ?bs" "cycle_queue ?s = cycle_queue s"
    using cyc_invI [OF n, of "cycle_queue s" "?as @ i # ?bs"] ok ok' by (simp_all add: s2)
  have abs: "time_abs ?s = sched_insert (i, t) (time_abs s)" "cycle_abs ?s = cycle_abs s"
    unfolding cycle_abs_def time_abs_def inv'(2,3) elS
    by (rule insert_times [OF el2 ni(1)], rule map_other_times [OF el2 ni(2)])
  from that [OF add inv'(1) abs] show thesis .
qed

text \<open>Removal when pending, as every scheduling function starts.\<close>

lemma remove_if_pending_eq: "remove_if_pending i s = CycInt_RemovePendingEvent i s"
  by (simp add: CycInt_RemovePendingEvent_unlink)

lemmas removed = CycInt_RemovePendingEvent_refines [THEN conjunct1]
  CycInt_RemovePendingEvent_refines [THEN conjunct2, THEN conjunct1]
  CycInt_RemovePendingEvent_refines [THEN conjunct2, THEN conjunct2, THEN conjunct1]
  CycInt_RemovePendingEvent_refines [THEN conjunct2, THEN conjunct2, THEN conjunct2]

lemma CycInt_RemovePendingEvent_frame [simp]:
  "ConfigureParams (CycInt_RemovePendingEvent i s) = ConfigureParams s"
  "timing.truncate (CycInt_RemovePendingEvent i s) = timing.truncate s"
  "nCyclesMainCounter (CycInt_RemovePendingEvent i s) = nCyclesMainCounter s"
  "nCheckCycles (CycInt_RemovePendingEvent i s) = nCheckCycles s"
  "nTimeNow (CycInt_RemovePendingEvent i s) = nTimeNow s"
  "cycint.more (CycInt_RemovePendingEvent i s) = cycint.more s"
  "ev_time (EventList (CycInt_RemovePendingEvent i s) j) = ev_time (EventList s j)"
  by (simp_all add: CycInt_RemovePendingEvent_unlink unlink_event_keeps timing.defs)

lemma pending_iff:
  assumes "cyc_inv s"
  shows "CycInt_EventPending i s \<longleftrightarrow> i \<in> fst ` set (cycle_abs s @ time_abs s)"
proof -
  have "i \<in> set (cycle_queue s) \<longleftrightarrow> ev_type (EventList s i) = TYPE_CYCLES"
    "i \<in> set (time_queue s) \<longleftrightarrow> ev_type (EventList s i) = TYPE_TIME"
    using assms by (auto simp: cyc_inv_def queue_ok_iff)
  then show ?thesis
    by (cases "ev_type (EventList s i)") (auto simp: CycInt_EventPending_def cycle_abs_def time_abs_def image_Un image_image)
qed

lemma set_sched_insert [simp]: "set (sched_insert e xs) = insert e (set xs)"
  by (induction xs) auto

lemma set_sched_remove [simp]: "set (sched_remove i xs) = {e \<in> set xs. fst e \<noteq> i}"
  by (auto simp: sched_remove_def)

lemma cyc_inv_frame:
  assumes "EventList s' = EventList s" "nCyclesFirst s' = nCyclesFirst s" "nTimeFirst s' = nTimeFirst s"
  shows "cyc_inv s' = cyc_inv s" "cycle_abs s' = cycle_abs s" "time_abs s' = time_abs s"
  using assms by (simp_all add: cyc_inv_def cycle_abs_def time_abs_def cycle_queue_def time_queue_def)

lemma cyc_inv_updates [simp]:
  "cyc_inv (s\<lparr>ConfigureParams := v0\<rparr>) = cyc_inv s"
  "cycle_abs (s\<lparr>ConfigureParams := v0\<rparr>) = cycle_abs s"
  "time_abs (s\<lparr>ConfigureParams := v0\<rparr>) = time_abs s"
  "cyc_inv (s\<lparr>host_calls := v1\<rparr>) = cyc_inv s"
  "cycle_abs (s\<lparr>host_calls := v1\<rparr>) = cycle_abs s"
  "time_abs (s\<lparr>host_calls := v1\<rparr>) = time_abs s"
  "cyc_inv (s\<lparr>nCyclesMainCounter := v2\<rparr>) = cyc_inv s"
  "cycle_abs (s\<lparr>nCyclesMainCounter := v2\<rparr>) = cycle_abs s"
  "time_abs (s\<lparr>nCyclesMainCounter := v2\<rparr>) = time_abs s"
  "cyc_inv (s\<lparr>nCheckCycles := v3\<rparr>) = cyc_inv s"
  "cycle_abs (s\<lparr>nCheckCycles := v3\<rparr>) = cycle_abs s"
  "time_abs (s\<lparr>nCheckCycles := v3\<rparr>) = time_abs s"
  "cyc_inv (s\<lparr>nTimeNow := v4\<rparr>) = cyc_inv s"
  "cycle_abs (s\<lparr>nTimeNow := v4\<rparr>) = cycle_abs s"
  "time_abs (s\<lparr>nTimeNow := v4\<rparr>) = time_abs s"
  "cyc_inv (cycint.more_update g s) = cyc_inv s"
  "cycle_abs (cycint.more_update g s) = cycle_abs s"
  "time_abs (cycint.more_update g s) = time_abs s"
  by (rule cyc_inv_frame; simp)+

lemma clock_upd_cyc_inv:
  assumes "u = clock_upd u s"
  shows "cyc_inv u = cyc_inv s" "cycle_abs u = cycle_abs s" "time_abs u = time_abs s"
    "EventList u = EventList s" "nTimeFirst u = nTimeFirst s" "nCyclesFirst u = nCyclesFirst s"
    "nCyclesMainCounter u = nCyclesMainCounter s" "ConfigureParams u = ConfigureParams s"
    "cycint.more u = cycint.more s" "nCheckCycles u = nCheckCycles s"
proof -
  show el: "EventList u = EventList s" "nTimeFirst u = nTimeFirst s" "nCyclesFirst u = nCyclesFirst s"
    "nCyclesMainCounter u = nCyclesMainCounter s" "ConfigureParams u = ConfigureParams s"
    "cycint.more u = cycint.more s" "nCheckCycles u = nCheckCycles s"
    by (subst assms, simp add: clock_upd_def)+
  show "cyc_inv u = cyc_inv s" "cycle_abs u = cycle_abs s" "time_abs u = time_abs s"
    using el by (intro cyc_inv_frame; simp)+
qed

lemma cyc_inv_CycInt_Reset:
  "cyc_inv (CycInt_Reset s)" "cycle_abs (CycInt_Reset s) = []" "time_abs (CycInt_Reset s) = []"
  by (simp_all add: cyc_inv_def cycle_abs_def time_abs_def cycle_queue_def time_queue_def
      CycInt_Reset_def queue_ok_iff numeral_eq_Suc)

lemma schedule_cycles:
  assumes "cyc_inv s" "ev_type (EventList s i) = TYPE_NONE" "i \<noteq> EVENT_NULL"
  shows "\<exists>s'. do { (first, s3) \<leftarrow> CycInt_AddEvent (nCyclesFirst s) i (s\<lparr>EventList :=
        (EventList s)(i := (EventList s i)\<lparr>ev_type := TYPE_CYCLES, ev_time := t\<rparr>)\<rparr>);
      Some (s3\<lparr>nCyclesFirst := first\<rparr>) } = Some s' \<and> cyc_inv s'
    \<and> cycle_abs s' = sched_insert (i, t) (cycle_abs s) \<and> time_abs s' = time_abs s
    \<and> s' = s\<lparr>EventList := EventList s', nCyclesFirst := nCyclesFirst s'\<rparr>"
  by (rule add_cycles_core [OF assms refl, of t]) auto

lemma schedule_time:
  assumes "cyc_inv s" "ev_type (EventList s i) = TYPE_NONE" "i \<noteq> EVENT_NULL"
  shows "\<exists>f s'. CycInt_AddEvent (nTimeFirst s) i (s\<lparr>EventList :=
        (EventList s)(i := (EventList s i)\<lparr>ev_type := TYPE_TIME, ev_time := t\<rparr>)\<rparr>) = Some (f, s')
    \<and> cyc_inv (s'\<lparr>nTimeFirst := f\<rparr>)
    \<and> time_abs (s'\<lparr>nTimeFirst := f\<rparr>) = sched_insert (i, t) (time_abs s)
    \<and> cycle_abs (s'\<lparr>nTimeFirst := f\<rparr>) = cycle_abs s
    \<and> s' = s\<lparr>EventList := EventList s'\<rparr>"
  by (rule add_time_core [OF assms refl, of t]) auto

lemma sample_cycint_inv: "cyc_inv sample_cycint"
  by code_simp

lemma sample_cycint_abs:
  "cycle_abs sample_cycint = [(EVENT_ESP_IO, 1020), (EVENT_MO_IO, 1080)]"
  "time_abs sample_cycint = [(EVENT_VIDEO_VBL, 40)]"
  by (code_simp, code_simp)

lemma sample_cycint_fields [simp]:
  "nCyclesMainCounter sample_cycint = 1000" "nCheckCycles sample_cycint = 1040"
  "fst (Timing_GetTime (sample_cycint\<lparr>nCyclesMainCounter := 1050\<rparr>)) = 42"
  "realtime sample_cycint = False" "cpu_freq sample_cycint = 25"
  by (simp_all add: sample_cycint_def sample_config_def sample_timing_def timing.defs cycint.defs
      Timing_GetTime_def)

text \<open>What the scheduling functions may change: the scheduler's own fields.\<close>

definition sched_upd :: "'b cycint_scheme \<Rightarrow> 'a cycint_scheme \<Rightarrow> 'a cycint_scheme" where
  "sched_upd s' s = s\<lparr>EventList := EventList s', nCyclesFirst := nCyclesFirst s',
     nTimeFirst := nTimeFirst s', nCheckCycles := nCheckCycles s', nTimeNow := nTimeNow s',
     host_calls := host_calls s', cycleCounterStart := cycleCounterStart s',
     currentIsRealtime := currentIsRealtime s'\<rparr>"

lemma sched_upd_removed: "CycInt_RemovePendingEvent i s = sched_upd (CycInt_RemovePendingEvent i s) s"
  by (simp add: sched_upd_def CycInt_RemovePendingEvent_unlink)

lemma sched_upd_trans:
  "u = sched_upd u s \<Longrightarrow> s' = u\<lparr>EventList := EventList s', nCyclesFirst := nCyclesFirst s'\<rparr> \<Longrightarrow> s' = sched_upd s' s"
  "u = sched_upd u s \<Longrightarrow> s' = sched_upd s' u \<Longrightarrow> s' = sched_upd s' s"
  by (cases s; cases s'; cases u; simp add: sched_upd_def)+

text \<open>Both cycle variants remove the event and insert it at a new time \<open>t\<close>.\<close>

lemma cycles_event_effect:
  assumes "cyc_inv s" "i \<noteq> EVENT_NULL"
    and "r = CycInt_RemovePendingEvent i s"
  shows "\<exists>s'. do { (first, s3) \<leftarrow> CycInt_AddEvent (nCyclesFirst r) i (r\<lparr>EventList :=
        (EventList r)(i := (EventList r i)\<lparr>ev_type := TYPE_CYCLES, ev_time := t\<rparr>)\<rparr>);
      Some (s3\<lparr>nCyclesFirst := first\<rparr>) } = Some s' \<and> cyc_inv s'
    \<and> cycle_abs s' = sched_insert (i, t) (sched_remove i (cycle_abs s))
    \<and> time_abs s' = sched_remove i (time_abs s) \<and> s' = sched_upd s' s"
proof -
  have r: "cyc_inv r" "ev_type (EventList r i) = TYPE_NONE" "cycle_abs r = sched_remove i (cycle_abs s)"
    "time_abs r = sched_remove i (time_abs s)" "r = sched_upd r s"
    using removed [OF assms(1), of i] sched_upd_removed [of i s] by (simp_all add: assms(3))
  obtain s' where s': "do { (first, s3) \<leftarrow> CycInt_AddEvent (nCyclesFirst r) i (r\<lparr>EventList :=
        (EventList r)(i := (EventList r i)\<lparr>ev_type := TYPE_CYCLES, ev_time := t\<rparr>)\<rparr>);
      Some (s3\<lparr>nCyclesFirst := first\<rparr>) } = Some s'" "cyc_inv s'"
    "cycle_abs s' = sched_insert (i, t) (cycle_abs r)" "time_abs s' = time_abs r"
    "s' = r\<lparr>EventList := EventList s', nCyclesFirst := nCyclesFirst s'\<rparr>"
    using schedule_cycles [OF r(1,2) assms(2), of t] by blast
  with sched_upd_trans(1) [OF r(5) s'(5)] r(3,4) show ?thesis by (intro exI [of _ s']) simp
qed

lemma AddCyclesEvent_effect:
  assumes "cyc_inv s" "i \<noteq> EVENT_NULL"
  shows "\<exists>s'. CycInt_AddCyclesEvent Cycles i s = Some s' \<and> cyc_inv s'
    \<and> cycle_abs s' = sched_insert (i, nCyclesMainCounter s + Cycles) (sched_remove i (cycle_abs s))
    \<and> time_abs s' = sched_remove i (time_abs s) \<and> s' = sched_upd s' s"
  using cycles_event_effect [OF assms refl, of "nCyclesMainCounter s + Cycles"]
  unfolding CycInt_AddCyclesEvent_def Let_def remove_if_pending_eq by simp

lemma UpdateCyclesEvent_effect:
  assumes "cyc_inv s" "i \<noteq> EVENT_NULL"
  shows "\<exists>s'. CycInt_UpdateCyclesEvent Cycles i s = Some s' \<and> cyc_inv s'
    \<and> cycle_abs s' = sched_insert (i, ev_time (EventList s i) + Cycles) (sched_remove i (cycle_abs s))
    \<and> time_abs s' = sched_remove i (time_abs s) \<and> s' = sched_upd s' s"
  using cycles_event_effect [OF assms refl, of "ev_time (EventList s i) + Cycles"]
  unfolding CycInt_UpdateCyclesEvent_def Let_def remove_if_pending_eq by simp

text \<open>The time variants in realtime mode.\<close>

lemma time_event_effect:
  assumes "cyc_inv s" "i \<noteq> EVENT_NULL"
    and "r = sched_upd r (CycInt_RemovePendingEvent i s)" "cyc_inv r"
    and "cycle_abs r = cycle_abs (CycInt_RemovePendingEvent i s)"
    and "time_abs r = time_abs (CycInt_RemovePendingEvent i s)"
    and "ev_type (EventList r i) = TYPE_NONE"
  shows "\<exists>f s'. CycInt_AddEvent (nTimeFirst r) i (r\<lparr>EventList :=
        (EventList r)(i := (EventList r i)\<lparr>ev_type := TYPE_TIME, ev_time := t\<rparr>)\<rparr>) = Some (f, s')
    \<and> cyc_inv (s'\<lparr>nTimeFirst := f\<rparr>)
    \<and> time_abs (s'\<lparr>nTimeFirst := f\<rparr>) = sched_insert (i, t) (sched_remove i (time_abs s))
    \<and> cycle_abs (s'\<lparr>nTimeFirst := f\<rparr>) = sched_remove i (cycle_abs s)
    \<and> s' = sched_upd s' s"
proof -
  obtain f s' where s': "CycInt_AddEvent (nTimeFirst r) i (r\<lparr>EventList :=
        (EventList r)(i := (EventList r i)\<lparr>ev_type := TYPE_TIME, ev_time := t\<rparr>)\<rparr>) = Some (f, s')"
    "cyc_inv (s'\<lparr>nTimeFirst := f\<rparr>)" "time_abs (s'\<lparr>nTimeFirst := f\<rparr>) = sched_insert (i, t) (time_abs r)"
    "cycle_abs (s'\<lparr>nTimeFirst := f\<rparr>) = cycle_abs r" "s' = r\<lparr>EventList := EventList s'\<rparr>"
    using schedule_time [OF assms(4,7,2), of t] by blast
  have "s' = sched_upd s' r" using s'(5) by (cases r; cases s'; simp add: sched_upd_def)
  then have "s' = sched_upd s' s"
    using sched_upd_trans(2) sched_upd_removed assms(3) by metis
  with s' assms(5,6) removed(2,3) [OF assms(1), of i] show ?thesis
    by (intro exI [of _ f] exI [of _ s']) simp
qed

lemma sched_upd_cong_time:
  "s' = sched_upd s' s \<Longrightarrow> s'\<lparr>nTimeFirst := f\<rparr> = sched_upd (s'\<lparr>nTimeFirst := f\<rparr>) s"
  "s' = sched_upd s' s \<Longrightarrow>
     s'\<lparr>nTimeFirst := f, nCheckCycles := c\<rparr> = sched_upd (s'\<lparr>nTimeFirst := f, nCheckCycles := c\<rparr>) s"
  by (cases s; cases s'; simp add: sched_upd_def)+

lemmas clock_read = clock_upd_cyc_inv [OF Timing_GetTime_snd]

lemma Timing_GetTime_removed: "fst (Timing_GetTime (CycInt_RemovePendingEvent i s)) = fst (Timing_GetTime s)"
  by (rule Timing_GetTime_cong) simp

lemma sched_upd_clock:
  "snd (Timing_GetTime s) = sched_upd (snd (Timing_GetTime s)) s"
  "(snd (Timing_GetTime s))\<lparr>nTimeNow := t\<rparr> = sched_upd ((snd (Timing_GetTime s))\<lparr>nTimeNow := t\<rparr>) s"
  by (simp_all add: Timing_GetTime_def Timing_GetRealTime_def sched_upd_def Let_def)

lemma AddTimeEvent_effect_realtime:
  assumes "cyc_inv s" "i \<noteq> EVENT_NULL" "realtime s"
    and rt: "rt = (if FastTime \<noteq> 0 then FastTime else RealTime)"
  shows "\<exists>s'. CycInt_AddTimeEvent RealTime FastTime i s = Some s' \<and> cyc_inv s'
    \<and> time_abs s' = sched_insert (i, fst (Timing_GetTime s) + rt) (sched_remove i (time_abs s))
    \<and> cycle_abs s' = sched_remove i (cycle_abs s) \<and> s' = sched_upd s' s"
proof -
  define u where "u = snd (Timing_GetTime (CycInt_RemovePendingEvent i s))"
  have u: "u = sched_upd u (CycInt_RemovePendingEvent i s)" "cyc_inv u"
    "cycle_abs u = cycle_abs (CycInt_RemovePendingEvent i s)"
    "time_abs u = time_abs (CycInt_RemovePendingEvent i s)" "ev_type (EventList u i) = TYPE_NONE"
    unfolding u_def using removed [OF assms(1), of i] by - (rule sched_upd_clock, simp_all add: clock_read)
  obtain f s' where s': "CycInt_AddEvent (nTimeFirst u) i (u\<lparr>EventList :=
        (EventList u)(i := (EventList u i)\<lparr>ev_type := TYPE_TIME, ev_time := fst (Timing_GetTime s) + rt\<rparr>)\<rparr>)
        = Some (f, s')" and inv': "cyc_inv (s'\<lparr>nTimeFirst := f\<rparr>)"
    "time_abs (s'\<lparr>nTimeFirst := f\<rparr>) = sched_insert (i, fst (Timing_GetTime s) + rt) (sched_remove i (time_abs s))"
    "cycle_abs (s'\<lparr>nTimeFirst := f\<rparr>) = sched_remove i (cycle_abs s)" and up: "s' = sched_upd s' s"
    using time_event_effect [OF assms(1,2) u, of "fst (Timing_GetTime s) + rt"] by blast
  have "CycInt_AddTimeEvent RealTime FastTime i s =
    Some (if rt < word_of_int CHECK_INTERVAL \<and> i = f
          then s'\<lparr>nTimeFirst := f, nCheckCycles := nCyclesMainCounter s' + rt * word_of_int (cpu_freq s')\<rparr>
          else s'\<lparr>nTimeFirst := f\<rparr>)"
    using assms(3) s' unfolding CycInt_AddTimeEvent_def Let_def remove_if_pending_eq rt u_def
    by (simp add: case_prod_beta clock_read Timing_GetTime_removed)
  with inv' sched_upd_cong_time [OF up] show ?thesis by simp
qed

lemma AddTimeEvent_effect_cycles:
  assumes "cyc_inv s" "i \<noteq> EVENT_NULL" "\<not> realtime s"
  shows "\<exists>s'. CycInt_AddTimeEvent RealTime FastTime i s = Some s' \<and> cyc_inv s'
    \<and> cycle_abs s' = sched_insert (i, nCyclesMainCounter s + RealTime * word_of_int (cpu_freq s))
        (sched_remove i (cycle_abs s))
    \<and> time_abs s' = sched_remove i (time_abs s) \<and> s' = sched_upd s' s"
  using cycles_event_effect [OF assms(1,2) refl, of "nCyclesMainCounter s + RealTime * word_of_int (cpu_freq s)"]
    assms(3)
  unfolding CycInt_AddTimeEvent_def Let_def remove_if_pending_eq by simp

lemma UpdateTimeEvent_effect_realtime:
  assumes "cyc_inv s" "i \<noteq> EVENT_NULL" "realtime s"
    and rt: "rt = (if FastTime \<noteq> 0 then FastTime else RealTime)"
    and now: "now = fst (Timing_GetTime s)"
    and base: "base = (if now - ev_time (EventList s i) > drop_bit 1 rt then now else ev_time (EventList s i))"
  shows "\<exists>s'. CycInt_UpdateTimeEvent RealTime FastTime i s = Some s' \<and> cyc_inv s'
    \<and> time_abs s' = sched_insert (i, base + rt) (sched_remove i (time_abs s))
    \<and> cycle_abs s' = sched_remove i (cycle_abs s) \<and> s' = sched_upd s' s"
proof -
  define u where "u = (snd (Timing_GetTime (CycInt_RemovePendingEvent i s)))\<lparr>nTimeNow := now\<rparr>"
  have u: "u = sched_upd u (CycInt_RemovePendingEvent i s)" "cyc_inv u"
    "cycle_abs u = cycle_abs (CycInt_RemovePendingEvent i s)"
    "time_abs u = time_abs (CycInt_RemovePendingEvent i s)" "ev_type (EventList u i) = TYPE_NONE"
    unfolding u_def using removed [OF assms(1), of i] by - (rule sched_upd_clock, simp_all add: clock_read)
  obtain f s' where s': "CycInt_AddEvent (nTimeFirst u) i (u\<lparr>EventList :=
        (EventList u)(i := (EventList u i)\<lparr>ev_type := TYPE_TIME, ev_time := base + rt\<rparr>)\<rparr>)
        = Some (f, s')" and inv': "cyc_inv (s'\<lparr>nTimeFirst := f\<rparr>)"
    "time_abs (s'\<lparr>nTimeFirst := f\<rparr>) = sched_insert (i, base + rt) (sched_remove i (time_abs s))"
    "cycle_abs (s'\<lparr>nTimeFirst := f\<rparr>) = sched_remove i (cycle_abs s)" and up: "s' = sched_upd s' s"
    using time_event_effect [OF assms(1,2) u, of "base + rt"] by blast
  have "CycInt_UpdateTimeEvent RealTime FastTime i s = Some (s'\<lparr>nTimeFirst := f\<rparr>)"
    using assms(3) s'
    unfolding CycInt_UpdateTimeEvent_def Let_def remove_if_pending_eq u_def base rt now
    by (simp add: case_prod_beta clock_read Timing_GetTime_removed if_distrib [where f = "\<lambda>x. x + _"] split: if_splits)
  with inv' sched_upd_cong_time [OF up] show ?thesis by simp
qed

lemma UpdateTimeEvent_effect_cycles:
  assumes "cyc_inv s" "i \<noteq> EVENT_NULL" "\<not> realtime s"
  shows "\<exists>s'. CycInt_UpdateTimeEvent RealTime FastTime i s = Some s' \<and> cyc_inv s'
    \<and> cycle_abs s' = sched_insert (i, ev_time (EventList s i) + RealTime * word_of_int (cpu_freq s))
        (sched_remove i (cycle_abs s))
    \<and> time_abs s' = sched_remove i (time_abs s) \<and> s' = sched_upd s' s"
  using cycles_event_effect [OF assms(1,2) refl, of "ev_time (EventList s i) + RealTime * word_of_int (cpu_freq s)"]
    assms(3)
  unfolding CycInt_UpdateTimeEvent_def Let_def remove_if_pending_eq by simp

text \<open>The same frame without the invariant, when the call returns.\<close>

definition sched_frame :: "'a cycint_scheme \<Rightarrow> 'a cycint_scheme \<Rightarrow> bool" where
  "sched_frame s s' \<longleftrightarrow> s' = sched_upd s' s"

lemma sched_frame_updates:
  "sched_frame s s"
  "sched_frame s u \<Longrightarrow> sched_frame s (u\<lparr>EventList := el\<rparr>)"
  "sched_frame s u \<Longrightarrow> sched_frame s (u\<lparr>nTimeFirst := f\<rparr>)"
  "sched_frame s u \<Longrightarrow> sched_frame s (u\<lparr>nCyclesFirst := f\<rparr>)"
  "sched_frame s u \<Longrightarrow> sched_frame s (u\<lparr>nCheckCycles := c\<rparr>)"
  "sched_frame s u \<Longrightarrow> sched_frame s (u\<lparr>nTimeNow := c\<rparr>)"
  by (cases s; cases u; simp add: sched_frame_def sched_upd_def)+

lemma sched_frame_steps:
  "sched_frame s u \<Longrightarrow> sched_frame s (snd (Timing_GetTime u))"
  "sched_frame s u \<Longrightarrow> sched_frame s (CycInt_RemovePendingEvent i u)"
  unfolding sched_frame_def using sched_upd_trans(2) sched_upd_clock(1) sched_upd_removed by metis+

lemma sched_frame_AddEvent:
  "CycInt_AddEvent first i u = Some (f, s') \<Longrightarrow> sched_frame s u \<Longrightarrow> sched_frame s s'"
  by (auto simp: CycInt_AddEvent_def intro: sched_frame_updates(2) split: Option.bind_splits)

lemmas sched_frame_intros = sched_frame_updates sched_frame_steps

lemma sched_frame_bind:
  assumes "Option.bind (CycInt_AddEvent a i u) (\<lambda>p. Some (g p)) = Some s'"
    and "\<And>p. sched_frame s (snd p) \<Longrightarrow> sched_frame s (g p)" and "sched_frame s u"
  shows "s' = sched_upd s' s"
proof -
  obtain f w where "CycInt_AddEvent a i u = Some (f, w)" "s' = g (f, w)"
    using assms(1) by (auto simp: bind_eq_Some_conv)
  with assms(2) [of "(f, w)"] sched_frame_AddEvent [OF _ assms(3)] have "sched_frame s s'" by simp
  then show ?thesis by (simp add: sched_frame_def)
qed

lemma AddTimeEvent_frame:
  assumes "CycInt_AddTimeEvent rt ft i s = Some s'"
  shows "s' = sched_upd s' s"
proof (cases "realtime s")
  case True
  then have r: "realtime (CycInt_RemovePendingEvent i s)" by simp
  show ?thesis
    by (rule sched_frame_bind [OF assms [unfolded CycInt_AddTimeEvent_def Let_def remove_if_pending_eq
            case_prod_beta if_P [OF r]]])
      (auto intro!: sched_frame_intros)
next
  case False
  then have r: "\<not> realtime (CycInt_RemovePendingEvent i s)" by simp
  show ?thesis
    by (rule sched_frame_bind [OF assms [unfolded CycInt_AddTimeEvent_def Let_def remove_if_pending_eq
            case_prod_beta if_not_P [OF r]]])
      (auto intro!: sched_frame_intros)
qed

lemma UpdateTimeEvent_frame:
  assumes "CycInt_UpdateTimeEvent rt ft i s = Some s'"
  shows "s' = sched_upd s' s"
proof (cases "realtime s")
  case True
  then have r: "realtime (CycInt_RemovePendingEvent i s)" by simp
  show ?thesis
    by (rule sched_frame_bind [OF assms [unfolded CycInt_UpdateTimeEvent_def Let_def remove_if_pending_eq
            case_prod_beta if_P [OF r]]])
      (auto intro!: sched_frame_intros)
next
  case False
  then have r: "\<not> realtime (CycInt_RemovePendingEvent i s)" by simp
  show ?thesis
    by (rule sched_frame_bind [OF assms [unfolded CycInt_UpdateTimeEvent_def Let_def remove_if_pending_eq
            case_prod_beta if_not_P [OF r]]])
      (auto intro!: sched_frame_intros)
qed

lemma AddCyclesEvent_frame:
  assumes "CycInt_AddCyclesEvent c i s = Some s'"
  shows "s' = sched_upd s' s"
  by (rule sched_frame_bind [OF assms [unfolded CycInt_AddCyclesEvent_def Let_def remove_if_pending_eq case_prod_beta]])
    (auto intro!: sched_frame_intros)

section \<open>The interface the devices use\<close>

text \<open>
  A device schedules an event with some delay, cancels it, and asks whether it is pending.
  The laws say that scheduling returns and makes exactly that event pending, and that
  cancelling undoes it; what the delay means is up to the provider.
\<close>

locale event_queue =
  fixes invar :: "'s \<Rightarrow> bool"
    and pending :: "event_id \<Rightarrow> 's \<Rightarrow> bool"
    and schedule :: "'d \<Rightarrow> event_id \<Rightarrow> 's \<Rightarrow> 's option"
    and cancel :: "event_id \<Rightarrow> 's \<Rightarrow> 's"
  assumes schedule_returns: "invar s \<Longrightarrow> i \<noteq> EVENT_NULL \<Longrightarrow> \<exists>s'. schedule d i s = Some s'"
    and schedule_invar: "invar s \<Longrightarrow> i \<noteq> EVENT_NULL \<Longrightarrow> schedule d i s = Some s' \<Longrightarrow> invar s'"
    and schedule_pending: "invar s \<Longrightarrow> i \<noteq> EVENT_NULL \<Longrightarrow> schedule d i s = Some s'
      \<Longrightarrow> pending j s' \<longleftrightarrow> j = i \<or> pending j s"
    and cancel_invar: "invar s \<Longrightarrow> invar (cancel i s)"
    and cancel_pending: "invar s \<Longrightarrow> pending j (cancel i s) \<longleftrightarrow> j \<noteq> i \<and> pending j s"
begin

lemma cancel_after_schedule:
  assumes "invar s" "i \<noteq> EVENT_NULL" "schedule d i s = Some s'"
  shows "invar (cancel i s')" "pending j (cancel i s') \<longleftrightarrow> j \<noteq> i \<and> pending j s"
  using assms schedule_invar schedule_pending cancel_invar cancel_pending by blast+

lemma schedule_obtain:
  assumes "invar s" "i \<noteq> EVENT_NULL"
  obtains s' where "schedule d i s = Some s'" "invar s'" "\<And>j. pending j s' \<longleftrightarrow> j = i \<or> pending j s"
  using schedule_returns [OF assms] schedule_invar [OF assms] schedule_pending [OF assms] by metis

end

lemma schedule_pending_abs:
  assumes "cyc_inv s" "cyc_inv s'"
    and "fst ` set (cycle_abs s' @ time_abs s') = insert i (fst ` set (cycle_abs s @ time_abs s))"
  shows "CycInt_EventPending j s' \<longleftrightarrow> j = i \<or> CycInt_EventPending j s"
  using assms by (simp add: pending_iff)

lemma cancel_pending_abs:
  "cyc_inv s \<Longrightarrow> CycInt_EventPending j (CycInt_RemovePendingEvent i s) \<longleftrightarrow> j \<noteq> i \<and> CycInt_EventPending j s"
  using removed [of s i] by (auto simp: pending_iff)

lemma fst_insert_remove:
  "fst ` set (sched_insert (i, t) (sched_remove i xs) @ sched_remove i ys) = insert i (fst ` set (xs @ ys))"
  "fst ` set (sched_remove i xs @ sched_insert (i, t) (sched_remove i ys)) = insert i (fst ` set (xs @ ys))"
  by auto

lemma event_queueI:
  assumes "\<And>s i d. cyc_inv s \<Longrightarrow> i \<noteq> EVENT_NULL \<Longrightarrow> \<exists>s'. schedule d i s = Some s' \<and> cyc_inv s'
    \<and> fst ` set (cycle_abs s' @ time_abs s') = insert i (fst ` set (cycle_abs s @ time_abs s))"
  shows "event_queue cyc_inv CycInt_EventPending schedule CycInt_RemovePendingEvent"
proof
  fix s :: "'a cycint_scheme" and i j d s'
  assume s: "cyc_inv s"
  show "cyc_inv (CycInt_RemovePendingEvent i s)" using removed(1) [OF s] .
  show "CycInt_EventPending j (CycInt_RemovePendingEvent i s) \<longleftrightarrow> j \<noteq> i \<and> CycInt_EventPending j s"
    using cancel_pending_abs [OF s] .
  assume i: "i \<noteq> EVENT_NULL"
  from assms [OF s i, of d] obtain s2 where s2: "schedule d i s = Some s2" "cyc_inv s2"
    "fst ` set (cycle_abs s2 @ time_abs s2) = insert i (fst ` set (cycle_abs s @ time_abs s))"
    by blast
  then show "\<exists>s'. schedule d i s = Some s'" by simp
  assume "schedule d i s = Some s'"
  with s2 have "s2 = s'" by simp
  with s2 schedule_pending_abs [OF s s2(2,3)] show "cyc_inv s'"
    "CycInt_EventPending j s' \<longleftrightarrow> j = i \<or> CycInt_EventPending j s" by simp_all
qed

interpretation cycq: event_queue cyc_inv CycInt_EventPending CycInt_AddCyclesEvent CycInt_RemovePendingEvent
proof (rule event_queueI)
  fix s :: "'a cycint_scheme" and i d
  assume "cyc_inv s" "i \<noteq> EVENT_NULL"
  from AddCyclesEvent_effect [OF this, of d]
  show "\<exists>s'. CycInt_AddCyclesEvent d i s = Some s' \<and> cyc_inv s'
    \<and> fst ` set (cycle_abs s' @ time_abs s') = insert i (fst ` set (cycle_abs s @ time_abs s))"
    using fst_insert_remove(1) by metis
qed

interpretation timeq: event_queue cyc_inv CycInt_EventPending
  "\<lambda>(RealTime, FastTime). CycInt_AddTimeEvent RealTime FastTime" CycInt_RemovePendingEvent
proof (rule event_queueI)
  fix s :: "'a cycint_scheme" and i and d :: "u64 \<times> u64"
  assume a: "cyc_inv s" "i \<noteq> EVENT_NULL"
  obtain rt ft where d: "d = (rt, ft)" by (cases d)
  have "\<exists>s'. CycInt_AddTimeEvent rt ft i s = Some s' \<and> cyc_inv s'
    \<and> fst ` set (cycle_abs s' @ time_abs s') = insert i (fst ` set (cycle_abs s @ time_abs s))"
    using AddTimeEvent_effect_cycles [OF a] AddTimeEvent_effect_realtime [OF a _ refl] fst_insert_remove
    by metis
  then show "\<exists>s'. (case d of (RealTime, FastTime) \<Rightarrow> CycInt_AddTimeEvent RealTime FastTime) i s = Some s'
    \<and> cyc_inv s' \<and> fst ` set (cycle_abs s' @ time_abs s') = insert i (fst ` set (cycle_abs s @ time_abs s))"
    by (simp add: d)
qed

interpretation updq: event_queue cyc_inv CycInt_EventPending
  "\<lambda>(RealTime, FastTime). CycInt_UpdateTimeEvent RealTime FastTime" CycInt_RemovePendingEvent
proof (rule event_queueI)
  fix s :: "'a cycint_scheme" and i and d :: "u64 \<times> u64"
  assume a: "cyc_inv s" "i \<noteq> EVENT_NULL"
  obtain rt ft where d: "d = (rt, ft)" by (cases d)
  have "\<exists>s'. CycInt_UpdateTimeEvent rt ft i s = Some s' \<and> cyc_inv s'
    \<and> fst ` set (cycle_abs s' @ time_abs s') = insert i (fst ` set (cycle_abs s @ time_abs s))"
    using UpdateTimeEvent_effect_cycles [OF a] UpdateTimeEvent_effect_realtime [OF a _ refl refl refl] fst_insert_remove
    by metis
  then show "\<exists>s'. (case d of (RealTime, FastTime) \<Rightarrow> CycInt_UpdateTimeEvent RealTime FastTime) i s = Some s'
    \<and> cyc_inv s' \<and> fst ` set (cycle_abs s' @ time_abs s') = insert i (fst ` set (cycle_abs s @ time_abs s))"
    by (simp add: d)
qed

section \<open>Properties of the scheduling functions\<close>

text \<open>
  C2. \<open>CycInt_AddCyclesEvent\<close> implements a sorted schedule: from every well-formed state it
  returns (the search loop ends), keeps both linked lists well formed, and the event, taken
  out of whichever queue it was pending in, is put into the cycle queue at its due time,
  before the events that are due at the same time or later; all other events keep their
  place.
\<close>

theorem CycInt_AddCyclesEvent_refines:
  assumes "cyc_inv s" "i \<noteq> EVENT_NULL"
  shows "\<exists>s'. CycInt_AddCyclesEvent Cycles i s = Some s' \<and> cyc_inv s'
    \<and> cycle_abs s' = sched_insert (i, nCyclesMainCounter s + Cycles) (sched_remove i (cycle_abs s))
    \<and> time_abs s' = sched_remove i (time_abs s)"
  using AddCyclesEvent_effect [OF assms, of Cycles] by blast

theorem CycInt_AddCyclesEvent_refines_witness:
  "cyc_inv sample_cycint \<and> EVENT_MO_IO \<noteq> EVENT_NULL \<and>
   (\<exists>s'. CycInt_AddCyclesEvent 10 EVENT_MO_IO sample_cycint = Some s' \<and> cyc_inv s'
    \<and> cycle_abs s' = [(EVENT_MO_IO, 1010), (EVENT_ESP_IO, 1020)]
    \<and> time_abs s' = [(EVENT_VIDEO_VBL, 40)])"
  using CycInt_AddCyclesEvent_refines [OF sample_cycint_inv, of EVENT_MO_IO 10] sample_cycint_inv
  by (simp add: sample_cycint_abs sched_remove_def)

text \<open>
  C3. \<open>CycInt_AddTimeEvent\<close> in both timing modes: in realtime mode the event goes to the
  microsecond queue at the host time plus the fast delay if one is given, otherwise the
  real delay; without realtime it goes to the cycle queue, the delay converted with the
  CPU frequency. It returns from every well-formed state, keeps the lists well formed and
  leaves the other events alone.
\<close>

theorem CycInt_AddTimeEvent_refines:
  assumes "cyc_inv s" "i \<noteq> EVENT_NULL"
  shows "\<exists>s'. CycInt_AddTimeEvent RealTime FastTime i s = Some s' \<and> cyc_inv s'
    \<and> (if realtime s then
         time_abs s' = sched_insert (i, fst (Timing_GetTime s)
             + (if FastTime \<noteq> 0 then FastTime else RealTime)) (sched_remove i (time_abs s))
         \<and> cycle_abs s' = sched_remove i (cycle_abs s)
       else
         cycle_abs s' = sched_insert (i, nCyclesMainCounter s + RealTime * word_of_int (cpu_freq s))
             (sched_remove i (cycle_abs s))
         \<and> time_abs s' = sched_remove i (time_abs s))"
proof (cases "realtime s")
  case True
  from AddTimeEvent_effect_realtime [OF assms this refl, of RealTime FastTime] show ?thesis
    unfolding if_P [OF True] by blast
next
  case False
  from AddTimeEvent_effect_cycles [OF assms this, of RealTime FastTime] show ?thesis
    unfolding if_not_P [OF False] by blast
qed

theorem CycInt_AddTimeEvent_refines_witness:
  "cyc_inv sample_cycint \<and> EVENT_SCC_IO \<noteq> EVENT_NULL \<and>
   (\<exists>s'. CycInt_AddTimeEvent 2 0 EVENT_SCC_IO sample_cycint = Some s' \<and> cyc_inv s'
    \<and> cycle_abs s' = [(EVENT_ESP_IO, 1020), (EVENT_SCC_IO, 1050), (EVENT_MO_IO, 1080)]
    \<and> time_abs s' = [(EVENT_VIDEO_VBL, 40)])"
  using CycInt_AddTimeEvent_refines [OF sample_cycint_inv, of EVENT_SCC_IO 2 0] sample_cycint_inv
  by (simp add: sample_cycint_abs sched_remove_def)

section \<open>Dispatch of due events\<close>

lemma walk_null_prev: "walk n (el(EVENT_NULL := (el EVENT_NULL)\<lparr>ev_prev := p\<rparr>)) x = walk n el x"
  by (induction n arbitrary: x) auto

lemma cyc_inv_null_prev:
  fixes s :: "'a cycint_scheme"
  assumes u: "u = s\<lparr>EventList := (EventList s)(EVENT_NULL := (EventList s EVENT_NULL)\<lparr>ev_prev := p\<rparr>)\<rparr>"
  shows "cyc_inv s \<Longrightarrow> cyc_inv u" "cycle_abs u = cycle_abs s" "time_abs u = time_abs s"
proof -
  have q: "cycle_queue u = cycle_queue s" "time_queue u = time_queue s"
    by (simp_all add: u cycle_queue_def time_queue_def walk_null_prev)
  show "cycle_abs u = cycle_abs s" "time_abs u = time_abs s"
    unfolding cycle_abs_def time_abs_def q by (auto simp: u)
  have f: "queue_ok (EventList u) ty first xs" if "queue_ok (EventList s) ty first xs" for ty first xs
    using that chain_not_null [of "EventList s" EVENT_NULL first xs]
    by (intro queue_ok_frame [OF that]) (auto simp: u queue_ok_iff)
  show "cyc_inv s \<Longrightarrow> cyc_inv u"
    unfolding cyc_inv_def q using f by (auto simp: u)
qed

lemma pop_cycles_event_eq:
  assumes "cyc_inv s" "nCyclesFirst s \<noteq> EVENT_NULL"
  shows "pop_cycles_event s = CycInt_RemovePendingEvent (nCyclesFirst s) s \<or>
    (let r = CycInt_RemovePendingEvent (nCyclesFirst s) s in pop_cycles_event s =
      r\<lparr>EventList := (EventList r)(EVENT_NULL := (EventList r EVENT_NULL)\<lparr>ev_prev := EVENT_NULL\<rparr>)\<rparr>)"
    and "cycle_abs s = (nCyclesFirst s, ev_time (EventList s (nCyclesFirst s))) # sched_remove (nCyclesFirst s) (cycle_abs s)"
proof -
  have ok: "queue_ok (EventList s) TYPE_CYCLES (nCyclesFirst s) (cycle_queue s)"
    using assms by (auto simp: cyc_inv_def)
  then obtain xs where xs: "cycle_queue s = nCyclesFirst s # xs"
    and pv: "ev_prev (EventList s (nCyclesFirst s)) = EVENT_NULL"
    and ty: "ev_type (EventList s (nCyclesFirst s)) = TYPE_CYCLES"
    and d: "nCyclesFirst s \<notin> set xs"
    using assms(2) by (cases "cycle_queue s") (auto simp: queue_ok_iff)
  from d have "filter (\<lambda>e. fst e \<noteq> nCyclesFirst s) (map (\<lambda>i. (i, ev_time (EventList s i))) xs)
      = map (\<lambda>i. (i, ev_time (EventList s i))) xs"
    by (auto simp: filter_id_conv)
  then show "cycle_abs s = (nCyclesFirst s, ev_time (EventList s (nCyclesFirst s))) # sched_remove (nCyclesFirst s) (cycle_abs s)"
    by (simp add: cycle_abs_def xs sched_remove_def)
  show "pop_cycles_event s = CycInt_RemovePendingEvent (nCyclesFirst s) s \<or>
    (let r = CycInt_RemovePendingEvent (nCyclesFirst s) s in pop_cycles_event s =
      r\<lparr>EventList := (EventList r)(EVENT_NULL := (EventList r EVENT_NULL)\<lparr>ev_prev := EVENT_NULL\<rparr>)\<rparr>)"
  proof (cases "ev_next (EventList s (nCyclesFirst s)) = EVENT_NULL")
    case True
    with pv ty assms(2) have "pop_cycles_event s = (CycInt_RemovePendingEvent (nCyclesFirst s) s)
      \<lparr>EventList := (EventList (CycInt_RemovePendingEvent (nCyclesFirst s) s))(EVENT_NULL :=
        (EventList (CycInt_RemovePendingEvent (nCyclesFirst s) s) EVENT_NULL)\<lparr>ev_prev := EVENT_NULL\<rparr>)\<rparr>"
      by (intro cycint.equality) (simp_all add: pop_cycles_event_def CycInt_RemovePendingEvent_def Let_def)
    then show ?thesis by (simp only: Let_def simp_thms)
  next
    case False
    have "ev_next (EventList s (nCyclesFirst s)) \<noteq> nCyclesFirst s"
      using ok d False by (cases xs) (auto simp: queue_ok_iff xs)
    with pv ty False have "pop_cycles_event s = CycInt_RemovePendingEvent (nCyclesFirst s) s"
      by (intro cycint.equality)
        (simp_all add: pop_cycles_event_def CycInt_RemovePendingEvent_def Let_def fun_upd_twist)
    then show ?thesis by (simp only: simp_thms)
  qed
qed
lemma pop_time_event_eq:
  assumes "cyc_inv s" "nTimeFirst s \<noteq> EVENT_NULL"
  shows "pop_time_event s = CycInt_RemovePendingEvent (nTimeFirst s) s \<or>
    (let r = CycInt_RemovePendingEvent (nTimeFirst s) s in pop_time_event s =
      r\<lparr>EventList := (EventList r)(EVENT_NULL := (EventList r EVENT_NULL)\<lparr>ev_prev := EVENT_NULL\<rparr>)\<rparr>)"
    and "time_abs s = (nTimeFirst s, ev_time (EventList s (nTimeFirst s))) # sched_remove (nTimeFirst s) (time_abs s)"
proof -
  have ok: "queue_ok (EventList s) TYPE_TIME (nTimeFirst s) (time_queue s)"
    using assms by (auto simp: cyc_inv_def)
  then obtain xs where xs: "time_queue s = nTimeFirst s # xs"
    and pv: "ev_prev (EventList s (nTimeFirst s)) = EVENT_NULL"
    and ty: "ev_type (EventList s (nTimeFirst s)) = TYPE_TIME"
    and d: "nTimeFirst s \<notin> set xs"
    using assms(2) by (cases "time_queue s") (auto simp: queue_ok_iff)
  from d have "filter (\<lambda>e. fst e \<noteq> nTimeFirst s) (map (\<lambda>i. (i, ev_time (EventList s i))) xs)
      = map (\<lambda>i. (i, ev_time (EventList s i))) xs"
    by (auto simp: filter_id_conv)
  then show "time_abs s = (nTimeFirst s, ev_time (EventList s (nTimeFirst s))) # sched_remove (nTimeFirst s) (time_abs s)"
    by (simp add: time_abs_def xs sched_remove_def)
  show "pop_time_event s = CycInt_RemovePendingEvent (nTimeFirst s) s \<or>
    (let r = CycInt_RemovePendingEvent (nTimeFirst s) s in pop_time_event s =
      r\<lparr>EventList := (EventList r)(EVENT_NULL := (EventList r EVENT_NULL)\<lparr>ev_prev := EVENT_NULL\<rparr>)\<rparr>)"
  proof (cases "ev_next (EventList s (nTimeFirst s)) = EVENT_NULL")
    case True
    with pv ty assms(2) have "pop_time_event s = (CycInt_RemovePendingEvent (nTimeFirst s) s)
      \<lparr>EventList := (EventList (CycInt_RemovePendingEvent (nTimeFirst s) s))(EVENT_NULL :=
        (EventList (CycInt_RemovePendingEvent (nTimeFirst s) s) EVENT_NULL)\<lparr>ev_prev := EVENT_NULL\<rparr>)\<rparr>"
      by (intro cycint.equality) (simp_all add: pop_time_event_def CycInt_RemovePendingEvent_def Let_def)
    then show ?thesis by (simp only: Let_def simp_thms)
  next
    case False
    have "ev_next (EventList s (nTimeFirst s)) \<noteq> nTimeFirst s"
      using ok d False by (cases xs) (auto simp: queue_ok_iff xs)
    with pv ty False have "pop_time_event s = CycInt_RemovePendingEvent (nTimeFirst s) s"
      by (intro cycint.equality)
        (simp_all add: pop_time_event_def CycInt_RemovePendingEvent_def Let_def fun_upd_twist)
    then show ?thesis by (simp only: simp_thms)
  qed
qed

lemma sched_remove_absent: "i \<notin> fst ` set xs \<Longrightarrow> sched_remove i xs = xs"
  by (force simp: sched_remove_def filter_id_conv)

lemma pop_cycles_event_refines:
  assumes "cyc_inv s" "nCyclesFirst s \<noteq> EVENT_NULL"
  shows "cyc_inv (pop_cycles_event s)"
    and "cycle_abs s = (nCyclesFirst s, ev_time (EventList s (nCyclesFirst s))) # cycle_abs (pop_cycles_event s)"
    and "nCyclesFirst s \<notin> fst ` set (time_abs s) \<Longrightarrow> time_abs (pop_cycles_event s) = time_abs s"
proof -
  let ?r = "CycInt_RemovePendingEvent (nCyclesFirst s) s"
  note rm = CycInt_RemovePendingEvent_refines [OF assms(1), of "nCyclesFirst s"]
  have "cyc_inv (pop_cycles_event s) \<and> cycle_abs (pop_cycles_event s) = cycle_abs ?r
      \<and> time_abs (pop_cycles_event s) = time_abs ?r"
    using pop_cycles_event_eq(1) [OF assms] cyc_inv_null_prev [OF refl, of ?r EVENT_NULL] rm
    unfolding Let_def by metis
  with rm pop_cycles_event_eq(2) [OF assms] show "cyc_inv (pop_cycles_event s)"
    "cycle_abs s = (nCyclesFirst s, ev_time (EventList s (nCyclesFirst s))) # cycle_abs (pop_cycles_event s)"
    "nCyclesFirst s \<notin> fst ` set (time_abs s) \<Longrightarrow> time_abs (pop_cycles_event s) = time_abs s"
    by (simp_all add: sched_remove_absent)
qed

lemma pop_time_event_refines:
  assumes "cyc_inv s" "nTimeFirst s \<noteq> EVENT_NULL"
  shows "cyc_inv (pop_time_event s)"
    and "time_abs s = (nTimeFirst s, ev_time (EventList s (nTimeFirst s))) # time_abs (pop_time_event s)"
    and "nTimeFirst s \<notin> fst ` set (cycle_abs s) \<Longrightarrow> cycle_abs (pop_time_event s) = cycle_abs s"
proof -
  let ?r = "CycInt_RemovePendingEvent (nTimeFirst s) s"
  note rm = CycInt_RemovePendingEvent_refines [OF assms(1), of "nTimeFirst s"]
  have "cyc_inv (pop_time_event s) \<and> time_abs (pop_time_event s) = time_abs ?r
      \<and> cycle_abs (pop_time_event s) = cycle_abs ?r"
    using pop_time_event_eq(1) [OF assms] cyc_inv_null_prev [OF refl, of ?r EVENT_NULL] rm
    unfolding Let_def by metis
  with rm pop_time_event_eq(2) [OF assms] show "cyc_inv (pop_time_event s)"
    "time_abs s = (nTimeFirst s, ev_time (EventList s (nTimeFirst s))) # time_abs (pop_time_event s)"
    "nTimeFirst s \<notin> fst ` set (cycle_abs s) \<Longrightarrow> cycle_abs (pop_time_event s) = cycle_abs s"
    by (simp_all add: sched_remove_absent)
qed

lemma abs_disjoint:
  assumes "cyc_inv s"
  shows "fst ` set (cycle_abs s) \<inter> fst ` set (time_abs s) = {}"
proof -
  have "i \<in> set (cycle_queue s) \<longleftrightarrow> ev_type (EventList s i) = TYPE_CYCLES"
    "i \<in> set (time_queue s) \<longleftrightarrow> ev_type (EventList s i) = TYPE_TIME" for i
    using assms by (auto simp: cyc_inv_def queue_ok_iff)
  then show ?thesis by (auto simp: cycle_abs_def time_abs_def)
qed

lemma first_null_iff:
  assumes "cyc_inv s"
  shows "nCyclesFirst s = EVENT_NULL \<longleftrightarrow> cycle_abs s = []" "nTimeFirst s = EVENT_NULL \<longleftrightarrow> time_abs s = []"
  by (simp_all add: cycle_abs_def time_abs_def cycle_queue_def time_queue_def numeral_eq_Suc)

lemma pop_frame [simp]:
  "nCyclesMainCounter (pop_cycles_event s) = nCyclesMainCounter s"
  "nCheckCycles (pop_cycles_event s) = nCheckCycles s"
  "nTimeNow (pop_cycles_event s) = nTimeNow s"
  "timing.truncate (pop_cycles_event s) = timing.truncate s"
  "ConfigureParams (pop_cycles_event s) = ConfigureParams s"
  "cycint.more (pop_cycles_event s) = cycint.more s"
  "nCyclesMainCounter (pop_time_event s) = nCyclesMainCounter s"
  "nTimeNow (pop_time_event s) = nTimeNow s"
  "timing.truncate (pop_time_event s) = timing.truncate s"
  "cycint.more (pop_time_event s) = cycint.more s"
  by (simp_all add: pop_cycles_event_def pop_time_event_def Let_def timing.defs)

lemma truncate_more_update [simp]: "timing.truncate (cycint.more_update f s) = timing.truncate s"
  by (simp add: timing.defs)

section \<open>Dispatch\<close>

text \<open>
  What the scheduler relies on when it calls the handler of the earliest event, which is due and has
  been taken off its list: the handler returns with both lists well formed, and whatever event it
  puts on the same list, its own one again or another, is later than the event that it served. The
  handler may change everything else, and schedule and cancel events; \<open>P\<close> is what it needs to know
  of the state.
\<close>

definition serves_cycles ::
  "('a cycint_scheme \<Rightarrow> bool) \<Rightarrow> (event_id \<Rightarrow> 'a cycint_scheme \<Rightarrow> 'a cycint_scheme option) \<Rightarrow> bool" where
  "serves_cycles P h \<longleftrightarrow> (\<forall>s i t es. P s \<and> cyc_inv s \<and> cycle_abs s = (i, t) # es \<and> t \<le> nCyclesMainCounter s \<longrightarrow>
     (\<exists>s'. h i (pop_cycles_event s) = Some s' \<and> P s' \<and> cyc_inv s' \<and> nCyclesMainCounter s' = nCyclesMainCounter s
        \<and> (\<forall>e \<in> set (cycle_abs s'). e \<in> set es \<or> t < snd e)))"

definition serves_times ::
  "('a cycint_scheme \<Rightarrow> bool) \<Rightarrow> (event_id \<Rightarrow> 'a cycint_scheme \<Rightarrow> 'a cycint_scheme option) \<Rightarrow> bool" where
  "serves_times P h \<longleftrightarrow> (\<forall>s i t es. P s \<and> cyc_inv s \<and> time_abs s = (i, t) # es \<and> sint (t - nTimeNow s) \<le> 0 \<longrightarrow>
     (\<exists>s'. h i (pop_time_event s) = Some s' \<and> P s' \<and> cyc_inv s' \<and> nCyclesMainCounter s' = nCyclesMainCounter s
        \<and> (\<forall>e \<in> set (time_abs s'). e \<in> set es \<or> t < snd e)))"

text \<open>
  The calls of a run, each with the time of its event. A call is made for the earliest event, if its
  time has come, and with that event removed and nothing else changed. The run ends when the
  earliest event is in the future.
\<close>

inductive cycle_calls ::
  "(event_id \<Rightarrow> 'a cycint_scheme \<Rightarrow> 'a cycint_scheme option) \<Rightarrow> 'a cycint_scheme \<Rightarrow> (event_id \<times> u64) list \<Rightarrow> 'a cycint_scheme \<Rightarrow> bool"
  for h where
  cycles_end: "\<forall>e \<in> set (cycle_abs s). nCyclesMainCounter s < snd e \<Longrightarrow> cycle_calls h s [] s"
| cycles_call: "cycle_abs s = (i, t) # es \<Longrightarrow> \<forall>e \<in> set es. t \<le> snd e \<Longrightarrow> t \<le> nCyclesMainCounter s
    \<Longrightarrow> cycle_abs u = es \<Longrightarrow> time_abs u = time_abs s \<Longrightarrow> timing.truncate u = timing.truncate s \<Longrightarrow> cycint.more u = cycint.more s
    \<Longrightarrow> \<not> CycInt_EventPending i u \<Longrightarrow> h i u = Some s' \<Longrightarrow> cycle_calls h s' cs s''
    \<Longrightarrow> cycle_calls h s ((i, t) # cs) s''"

text \<open>The next check of the clock is due with the next event, and after 100 microseconds at the latest.\<close>

definition next_check :: "'a cycint_scheme \<Rightarrow> int" where
  "next_check s = (case time_abs s of [] \<Rightarrow> 100 | e # _ \<Rightarrow> min 100 (sint (snd e - nTimeNow s)))"

inductive time_calls ::
  "(event_id \<Rightarrow> 'a cycint_scheme \<Rightarrow> 'a cycint_scheme option) \<Rightarrow> 'a cycint_scheme \<Rightarrow> (event_id \<times> u64) list \<Rightarrow> 'a cycint_scheme \<Rightarrow> bool"
  for h where
  times_end: "0 < next_check s \<Longrightarrow> time_calls h s []
      (s\<lparr>nCheckCycles := nCyclesMainCounter s + word_of_int (next_check s * cpu_freq s)\<rparr>)"
| times_call: "time_abs s = (i, t) # es \<Longrightarrow> \<forall>e \<in> set es. t \<le> snd e \<Longrightarrow> sint (t - nTimeNow s) \<le> 0
    \<Longrightarrow> time_abs u = es \<Longrightarrow> cycle_abs u = cycle_abs s \<Longrightarrow> timing.truncate u = timing.truncate s \<Longrightarrow> cycint.more u = cycint.more s
    \<Longrightarrow> \<not> CycInt_EventPending i u \<Longrightarrow> h i u = Some s' \<Longrightarrow> time_calls h s' cs s''
    \<Longrightarrow> time_calls h s ((i, t) # cs) s''"

text \<open>Termination: the time of the earliest event grows, or fewer events have that time.\<close>

fun lateness :: "(event_id \<times> u64) list \<Rightarrow> nat \<times> nat" where
  "lateness [] = (0, 0)"
| "lateness ((i, t) # es) = (2 ^ 64 - unat t, card {e \<in> set ((i, t) # es). snd e = t})"

lemma lateness_decreases:
  assumes "\<forall>e \<in> set es. t \<le> snd e" "(i, t) \<notin> set es" "\<forall>e \<in> set q. e \<in> set es \<or> t < snd e"
  shows "(lateness q, lateness ((i, t) # es)) \<in> less_than <*lex*> less_than"
proof (cases q)
  case Nil
  have "unat t < 2 ^ 64" using unsigned_less [of t, where ?'a = nat] by simp
  then have "0 < 2 ^ 64 - unat t" by (rule zero_less_diff [THEN iffD2])
  then show ?thesis unfolding Nil lateness.simps in_lex_prod by (simp only: less_than_iff simp_thms)
next
  case (Cons e r)
  obtain j u where e: "e = (j, u)" by fastforce
  have "t \<le> u" using assms(1,3) Cons e by auto
  show ?thesis
  proof (cases "u = t")
    case True
    let ?A = "{e \<in> set es. snd e = t}" and ?B = "{e \<in> set ((i, t) # es). snd e = t}"
    have "?A \<subseteq> ?B" "(i, t) \<in> ?B" "(i, t) \<notin> ?A" using assms(2) by auto
    then have "?A \<subset> ?B" by blast
    moreover have "{e \<in> set q. snd e = t} \<subseteq> ?A" using assms(3) by (auto simp: less_le)
    ultimately have "card {e \<in> set q. snd e = t} < card ?B" by (intro psubset_card_mono) (simp, rule subset_psubset_trans)
    then show ?thesis unfolding Cons e True lateness.simps in_lex_prod less_than_iff by blast
  next
    case False
    then have lt: "unat t < unat u" using \<open>t \<le> u\<close> by (metis order_le_imp_less_or_eq word_less_nat_alt)
    moreover have "unat u < 2 ^ 64" using unsigned_less [of u, where ?'a = nat] by simp
    ultimately have "2 ^ 64 - unat u < 2 ^ 64 - unat t" using diff_less_mono2 less_trans by metis
    then show ?thesis unfolding Cons e lateness.simps in_lex_prod less_than_iff by blast
  qed
qed

lemma lateness_induct [case_names less]:
  assumes "\<And>s. (\<And>s'. (lateness (q s'), lateness (q s)) \<in> less_than <*lex*> less_than \<Longrightarrow> P s') \<Longrightarrow> P s"
  shows "P s"
  using wf_induct_rule [OF wf_inv_image [OF wf_lex_prod [OF wf_less_than wf_less_than], of "\<lambda>s. lateness (q s)"], of P s] assms
  by (auto simp: in_inv_image)

lemma queue_head:
  assumes "cyc_inv s"
  shows "cycle_abs s = (i, t) # es \<Longrightarrow> nCyclesFirst s = i \<and> i \<noteq> EVENT_NULL \<and> ev_time (EventList s i) = t \<and> (\<forall>e \<in> set es. t \<le> snd e)
      \<and> (i, t) \<notin> set es \<and> cyc_inv (pop_cycles_event s) \<and> cycle_abs (pop_cycles_event s) = es \<and> time_abs (pop_cycles_event s) = time_abs s
      \<and> \<not> CycInt_EventPending i (pop_cycles_event s)"
    "time_abs s = (i, t) # es \<Longrightarrow> nTimeFirst s = i \<and> i \<noteq> EVENT_NULL \<and> ev_time (EventList s i) = t \<and> (\<forall>e \<in> set es. t \<le> snd e)
      \<and> (i, t) \<notin> set es \<and> cyc_inv (pop_time_event s) \<and> time_abs (pop_time_event s) = es \<and> cycle_abs (pop_time_event s) = cycle_abs s
      \<and> \<not> CycInt_EventPending i (pop_time_event s)"
proof -
  have "sorted (map snd (cycle_abs s)) \<and> distinct (map fst (cycle_abs s)) \<and> sorted (map snd (time_abs s)) \<and> distinct (map fst (time_abs s))"
    using assms by (simp add: cyc_inv_def queue_ok_iff cycle_abs_def time_abs_def comp_def)
  then have c: "(\<forall>e \<in> set es. t \<le> snd e) \<and> i \<notin> fst ` set es \<and> (i, t) \<notin> set es" if "cycle_abs s = (i, t) # es \<or> time_abs s = (i, t) # es" for i t es
    using that by (fastforce simp: image_iff)
  note disj = abs_disjoint [OF assms] and first = first_null_iff [OF assms]
  show "nCyclesFirst s = i \<and> i \<noteq> EVENT_NULL \<and> ev_time (EventList s i) = t \<and> (\<forall>e \<in> set es. t \<le> snd e)
      \<and> (i, t) \<notin> set es \<and> cyc_inv (pop_cycles_event s) \<and> cycle_abs (pop_cycles_event s) = es \<and> time_abs (pop_cycles_event s) = time_abs s
      \<and> \<not> CycInt_EventPending i (pop_cycles_event s)" if q: "cycle_abs s = (i, t) # es"
  proof -
    have nz: "nCyclesFirst s \<noteq> EVENT_NULL" using q first by auto
    note pop = pop_cycles_event_refines [OF assms nz]
    have "i = nCyclesFirst s" "time_abs (pop_cycles_event s) = time_abs s" using pop(2,3) q disj by auto
    moreover have "i \<notin> fst ` set (time_abs s)" using q disj by auto
    ultimately show ?thesis using pop(1,2) q nz c [of i t es] pending_iff [OF pop(1)] by auto
  qed
  show "nTimeFirst s = i \<and> i \<noteq> EVENT_NULL \<and> ev_time (EventList s i) = t \<and> (\<forall>e \<in> set es. t \<le> snd e)
      \<and> (i, t) \<notin> set es \<and> cyc_inv (pop_time_event s) \<and> time_abs (pop_time_event s) = es \<and> cycle_abs (pop_time_event s) = cycle_abs s
      \<and> \<not> CycInt_EventPending i (pop_time_event s)" if q: "time_abs s = (i, t) # es"
  proof -
    have nz: "nTimeFirst s \<noteq> EVENT_NULL" using q first by auto
    note pop = pop_time_event_refines [OF assms nz]
    have "i = nTimeFirst s" "cycle_abs (pop_time_event s) = cycle_abs s" using pop(2,3) q disj by auto
    moreover have "i \<notin> fst ` set (cycle_abs s)" using q disj by auto
    ultimately show ?thesis using pop(1,2) q nz c [of i t es] pending_iff [OF pop(1)] by auto
  qed
qed

lemma cycle_loop_calls:
  assumes "serves_cycles P h" "P s" "cyc_inv s" "nCyclesMainCounter s \<noteq> UINT64_MAX"
  shows "\<exists>s' cs. AddCycles_cycle_loop h s = Some s' \<and> P s' \<and> cyc_inv s' \<and> nCyclesMainCounter s' = nCyclesMainCounter s
    \<and> cycle_calls h s cs s'"
  using assms(2-4)
proof (induction s rule: lateness_induct [where q = cycle_abs])
  case (less s)
  show ?case
  proof (cases "\<forall>e \<in> set (cycle_abs s). nCyclesMainCounter s < snd e")
    case True
    have "\<not> ev_time (EventList s (nCyclesFirst s)) \<le> nCyclesMainCounter s"
    proof (cases "cycle_abs s")
      case Nil
      then have "ev_time (EventList s (nCyclesFirst s)) = UINT64_MAX" using less.prems(2) first_null_iff(1) [OF less.prems(2)] by (simp add: cyc_inv_def)
      then show ?thesis using less.prems(3) not_UINT64_MAX_less by (metis leD leI order_antisym)
    next
      case (Cons e es)
      then show ?thesis using queue_head(1) [OF less.prems(2), of "fst e" "snd e" es] True by auto
    qed
    then show ?thesis using less.prems True by (subst AddCycles_cycle_loop.simps) (auto intro: cycles_end)
  next
    case False
    then obtain i t es where q: "cycle_abs s = (i, t) # es" by (cases "cycle_abs s") auto
    note head = queue_head(1) [OF less.prems(2) q]
    have due: "t \<le> nCyclesMainCounter s" using False head q by (auto simp: not_less intro: order_trans)
    obtain u where u: "h i (pop_cycles_event s) = Some u" "P u" "cyc_inv u" "nCyclesMainCounter u = nCyclesMainCounter s"
        "\<forall>e \<in> set (cycle_abs u). e \<in> set es \<or> t < snd e"
      using assms(1) less.prems(1,2) q due unfolding serves_cycles_def by blast
    have "(lateness (cycle_abs u), lateness (cycle_abs s)) \<in> less_than <*lex*> less_than"
      unfolding q using head u(5) by (intro lateness_decreases) auto
    from less.IH [OF this u(2,3)] u(4) less.prems(3) obtain s' cs where
      s': "AddCycles_cycle_loop h u = Some s'" "P s'" "cyc_inv s'" "nCyclesMainCounter s' = nCyclesMainCounter s" "cycle_calls h u cs s'" by auto
    have "cycle_calls h s ((i, t) # cs) s'" using head due u(1) s'(5) q by (intro cycles_call [where u = "pop_cycles_event s"]) auto
    moreover have "AddCycles_cycle_loop h s = Some s'" using head due u(1) s'(1) by (subst AddCycles_cycle_loop.simps) simp
    ultimately show ?thesis using s' by blast
  qed
qed

lemma time_loop_calls:
  assumes "serves_times P h" "\<And>t k. P t \<Longrightarrow> P (t\<lparr>nCheckCycles := k\<rparr>)" "P s" "cyc_inv s"
  shows "\<exists>s' ts. AddCycles_time_loop h s = Some s' \<and> P s' \<and> cyc_inv s' \<and> nCyclesMainCounter s' = nCyclesMainCounter s
    \<and> time_calls h s ts s'"
  using assms(3,4)
proof (induction s rule: lateness_induct [where q = time_abs])
  case (less s)
  show ?case
  proof (cases "0 < next_check s")
    case True
    have "AddCycles_time_loop h s = Some (s\<lparr>nCheckCycles := nCyclesMainCounter s + word_of_int (next_check s * cpu_freq s)\<rparr>)"
    proof (cases "time_abs s")
      case Nil
      then show ?thesis using first_null_iff(2) [OF less.prems(2)] by (subst AddCycles_time_loop.simps) (simp add: set_next_check_def next_check_def)
    next
      case (Cons e es)
      have "nTimeFirst s = fst e \<and> fst e \<noteq> EVENT_NULL \<and> ev_time (EventList s (fst e)) = snd e"
        using queue_head(2) [OF less.prems(2), of "fst e" "snd e" es] Cons by simp
      then show ?thesis using True Cons by (subst AddCycles_time_loop.simps) (auto simp: set_next_check_def next_check_def Let_def min_def)
    qed
    then show ?thesis using less.prems assms(2) times_end [OF True, of h]
      by (intro exI [of _ "s\<lparr>nCheckCycles := nCyclesMainCounter s + word_of_int (next_check s * cpu_freq s)\<rparr>"] exI [of _ "[]"]) simp
  next
    case False
    then obtain i t es where q: "time_abs s = (i, t) # es" by (cases "time_abs s") (auto simp: next_check_def)
    note head = queue_head(2) [OF less.prems(2) q]
    have due: "sint (t - nTimeNow s) \<le> 0" using False q by (auto simp: next_check_def)
    obtain u where u: "h i (pop_time_event s) = Some u" "P u" "cyc_inv u" "nCyclesMainCounter u = nCyclesMainCounter s"
        "\<forall>e \<in> set (time_abs u). e \<in> set es \<or> t < snd e"
      using assms(1) less.prems(1,2) q due unfolding serves_times_def by blast
    have "(lateness (time_abs u), lateness (time_abs s)) \<in> less_than <*lex*> less_than"
      unfolding q using head u(5) by (intro lateness_decreases) auto
    from less.IH [OF this u(2,3)] u(4) obtain s' ts where
      s': "AddCycles_time_loop h u = Some s'" "P s'" "cyc_inv s'" "nCyclesMainCounter s' = nCyclesMainCounter s" "time_calls h u ts s'" by auto
    have "time_calls h s ((i, t) # ts) s'" using head due u(1) s'(5) q by (intro times_call [where u = "pop_time_event s"]) auto
    moreover have "AddCycles_time_loop h s = Some s'" using head due u(1) s'(1) by (subst AddCycles_time_loop.simps) (simp add: Let_def)
    ultimately show ?thesis using s' by blast
  qed
qed

text \<open>The state in which the microsecond events are looked at.\<close>

definition clock_check :: "'a cycint_scheme \<Rightarrow> 'a cycint_scheme" where
  "clock_check s = (snd (Timing_GetTime s))\<lparr>nTimeNow := fst (Timing_GetTime s)\<rparr>"

text \<open>
  C1. \<open>CycInt_AddCycles\<close> returns, with handlers that schedule and cancel events themselves as the
  handlers of the program do, as long as each handler returns and puts nothing on the list of its
  event that is not later than that event. It adds the cycles; then it calls the handlers of the
  cycle events whose time has come, each time the earliest one, taken off the list before, until
  no cycle event is due, including those that the handlers have scheduled meanwhile. If the check
  counter has expired, it reads the clock, does the same for the microsecond events, and sets
  the next check to the time of the next event, at most 100 microseconds ahead. Both lists stay
  well formed.
\<close>

theorem CycInt_AddCycles_dispatches_due:
  assumes "cyc_inv s" "now = nCyclesMainCounter s + word_of_int n" "now \<noteq> UINT64_MAX" "P (s\<lparr>nCyclesMainCounter := now\<rparr>)"
    and "serves_cycles P h" "serves_times P h" "\<And>t k. P t \<Longrightarrow> P (t\<lparr>nCheckCycles := k\<rparr>)" "\<And>t. P t \<Longrightarrow> P (clock_check t)"
  shows "\<exists>s1 cs s' ts. CycInt_AddCycles h n s = Some s' \<and> P s' \<and> cyc_inv s' \<and> nCyclesMainCounter s' = now
    \<and> cycle_calls h (s\<lparr>nCyclesMainCounter := now\<rparr>) cs s1
    \<and> (if nCheckCycles s1 \<le> now then time_calls h (clock_check s1) ts s' else s' = s1)"
proof -
  obtain s1 cs where s1: "AddCycles_cycle_loop h (s\<lparr>nCyclesMainCounter := now\<rparr>) = Some s1" "P s1" "cyc_inv s1" "nCyclesMainCounter s1 = now"
      "cycle_calls h (s\<lparr>nCyclesMainCounter := now\<rparr>) cs s1"
    using cycle_loop_calls [OF assms(5,4)] assms(1,3) by auto
  have "cyc_inv (clock_check s1)" "nCyclesMainCounter (clock_check s1) = now" using s1(3,4) by (simp_all add: clock_check_def clock_read)
  with time_loop_calls [OF assms(6,7) assms(8) [OF s1(2)]] obtain s2 ts where
    s2: "AddCycles_time_loop h (clock_check s1) = Some s2" "P s2" "cyc_inv s2" "nCyclesMainCounter s2 = now" "time_calls h (clock_check s1) ts s2" by auto
  have run: "CycInt_AddCycles h n s = (if nCheckCycles s1 \<le> now then Some s2 else Some s1)"
    using s1(1,4) s2(1) assms(2) by (simp add: CycInt_AddCycles_def clock_check_def case_prod_beta Let_def)
  show ?thesis
  proof (cases "nCheckCycles s1 \<le> now")
    case True
    with run s1(5) s2 show ?thesis by (intro exI [of _ s1] exI [of _ cs] exI [of _ s2] exI [of _ ts]) simp
  next
    case False
    with run s1 show ?thesis by (intro exI [of _ s1] exI [of _ cs] exI [of _ s1] exI [of _ "[]"]) simp
  qed
qed

text \<open>A device that falls behind: its handler schedules itself 10 cycles after its last event.\<close>

definition sample_handlers :: "event_id \<Rightarrow> cycint \<Rightarrow> cycint option" where
  "sample_handlers i s = (if i = EVENT_ESP_IO then CycInt_UpdateCyclesEvent 10 i s else Some s)"

lemma sample_serves:
  "serves_cycles (\<lambda>s. nCyclesMainCounter s = 1050) sample_handlers" "serves_times (\<lambda>s. nCyclesMainCounter s = 1050) sample_handlers"
proof -
  have keep: "cyc_inv s' \<and> nCyclesMainCounter s' = nCyclesMainCounter s
      \<and> (\<forall>e \<in> set (cycle_abs s'). e \<in> set (cycle_abs s) \<or> e = (EVENT_ESP_IO, ev_time (EventList s EVENT_ESP_IO) + 10) \<and> i = EVENT_ESP_IO)
      \<and> (\<forall>e \<in> set (time_abs s'). e \<in> set (time_abs s))"
    if cyc: "cyc_inv s" and run: "sample_handlers i s = Some s'" for i s s'
  proof (cases "i = EVENT_ESP_IO")
    case True
    obtain t where t: "CycInt_UpdateCyclesEvent 10 EVENT_ESP_IO s = Some t" "cyc_inv t" "t = sched_upd t s"
        "cycle_abs t = sched_insert (EVENT_ESP_IO, ev_time (EventList s EVENT_ESP_IO) + 10) (sched_remove EVENT_ESP_IO (cycle_abs s))"
        "time_abs t = sched_remove EVENT_ESP_IO (time_abs s)"
      using UpdateCyclesEvent_effect [OF cyc, of EVENT_ESP_IO 10] by auto
    have "nCyclesMainCounter t = nCyclesMainCounter s" by (subst t(3)) (simp add: sched_upd_def)
    then show ?thesis using run t True by (auto simp: sample_handlers_def)
  qed (use cyc run in \<open>simp add: sample_handlers_def\<close>)
  have returns: "\<exists>s'. sample_handlers i s = Some s'" if "cyc_inv s" for i s
    using UpdateCyclesEvent_effect [OF that, of EVENT_ESP_IO 10] by (auto simp: sample_handlers_def)
  have later: "t < t + 10" if "t \<le> 1050" for t :: u64
  proof -
    have "unat t \<le> 1050" using that by (simp add: word_le_nat_alt)
    moreover from this have "unat (t + 10) = unat t + 10" by (simp add: unat_word_ariths)
    ultimately show ?thesis by (simp add: word_less_nat_alt)
  qed
  show "serves_cycles (\<lambda>s. nCyclesMainCounter s = 1050) sample_handlers"
    unfolding serves_cycles_def
  proof (intro allI impI, elim conjE)
    fix s :: cycint and i t es
    assume s: "nCyclesMainCounter s = 1050" "cyc_inv s" "cycle_abs s = (i, t) # es" "t \<le> nCyclesMainCounter s"
    note head = queue_head(1) [OF s(2,3)]
    obtain s' where s': "sample_handlers i (pop_cycles_event s) = Some s'" using returns head by blast
    have "ev_time (EventList (pop_cycles_event s) i) = t" using head by (auto simp: pop_cycles_event_def Let_def)
    with keep [OF _ s'] head s s' later [of t]
    show "\<exists>s'. sample_handlers i (pop_cycles_event s) = Some s' \<and> nCyclesMainCounter s' = 1050 \<and> cyc_inv s'
        \<and> nCyclesMainCounter s' = nCyclesMainCounter s \<and> (\<forall>e \<in> set (cycle_abs s'). e \<in> set es \<or> t < snd e)"
      by (intro exI [of _ s']) auto
  qed
  show "serves_times (\<lambda>s. nCyclesMainCounter s = 1050) sample_handlers"
    unfolding serves_times_def
  proof (intro allI impI, elim conjE)
    fix s :: cycint and i t es
    assume s: "nCyclesMainCounter s = 1050" "cyc_inv s" "time_abs s = (i, t) # es"
    note head = queue_head(2) [OF s(2,3)]
    obtain s' where s': "sample_handlers i (pop_time_event s) = Some s'" using returns head by blast
    with keep [OF _ s'] head s
    show "\<exists>s'. sample_handlers i (pop_time_event s) = Some s' \<and> nCyclesMainCounter s' = 1050 \<and> cyc_inv s'
        \<and> nCyclesMainCounter s' = nCyclesMainCounter s \<and> (\<forall>e \<in> set (time_abs s'). e \<in> set es \<or> t < snd e)"
      by (intro exI [of _ s']) auto
  qed
qed

text \<open>After 50 cycles the first device has been served at least once, and is not due.\<close>

theorem CycInt_AddCycles_dispatches_due_witness:
  "\<exists>s' s1 cs. CycInt_AddCycles sample_handlers 50 sample_cycint = Some s' \<and> cyc_inv s' \<and> nCyclesMainCounter s' = 1050
     \<and> cycle_calls sample_handlers (sample_cycint\<lparr>nCyclesMainCounter := 1050\<rparr>) ((EVENT_ESP_IO, 1020) # cs) s1"
proof -
  have P: "nCyclesMainCounter (clock_check t) = nCyclesMainCounter t" for t :: cycint by (simp add: clock_check_def clock_read)
  obtain s' s1 cs where *: "CycInt_AddCycles sample_handlers 50 sample_cycint = Some s'" "cyc_inv s'" "nCyclesMainCounter s' = 1050"
      "cycle_calls sample_handlers (sample_cycint\<lparr>nCyclesMainCounter := 1050\<rparr>) cs s1"
    using CycInt_AddCycles_dispatches_due [OF sample_cycint_inv, of 1050 50 "\<lambda>s. nCyclesMainCounter s = 1050" sample_handlers]
      sample_serves P by auto
  from this(4) obtain cs' where "cs = (EVENT_ESP_IO, 1020) # cs'"
    by cases (auto simp: sample_cycint_abs)
  with * show ?thesis by blast
qed

end
