(* ===== verification/IntCtl.thy ===== *)
theory IntCtl
  imports CycInt
begin

text \<open>
  The interrupt controller of \<open>sysReg.c\<close>: the interrupt status and mask registers, the
  encoder that turns them into the level the CPU polls, and the DSP interrupt. The record
  \<open>sysreg\<close> holds all static variables of the file; the other registers are modelled in
  the theory \<open>SysReg\<close>.

  The DSP is not modelled: the calls made to it are collected in order in \<open>dsp_calls\<close>.
  \<open>spcflag_int\<close> is the flag with which \<open>M68000_CheckInterrupt\<close> asks the CPU to look at the
  interrupt level, \<open>spcflag_brk\<close> the one with which \<open>M68000_Stop\<close> ends the CPU's loop, and
  \<open>bQuitProgram\<close> the flag set by \<open>Main_RequestQuit\<close>.
\<close>

section \<open>State\<close>

datatype dsp_call = DSP_Start u8 | DSP_Reset | DSP_EnableMemory | DSP_DisableMemory | DSP_SetIRQB

record sysreg = cycint +
  spcflag_int :: bool
  spcflag_brk :: bool
  bQuitProgram :: bool
  dsp_calls :: "dsp_call list"
  bmap_hreq_enable :: u8
  bmap_txdn_enable :: u8
  scr1 :: u32
  scr2_0 :: u8
  scr2_1 :: u8
  scr2_2 :: u8
  scr2_3 :: u8
  scr_have_dsp_memreset :: bool
  col_vid_intr :: u8
  bright_reg :: u8
  hardclock_csr :: u8
  hardclock_counter :: u16
  hardclock_latch :: u16
  hardclock_last_time :: u64
  eventcounter_offset :: u64
  scr_local_only :: u8
  dsp_dma_unpacked :: u8
  dsp_intr_at_block_end :: u8
  dsp_hreq_intr :: u8
  dsp_txdn_intr :: u8
  scrIntStat :: u32
  scrIntMask :: u32
  scrIntLevel :: nat

abbreviation (input) INT_SOFT1 :: u32 where "INT_SOFT1 \<equiv> 0x00000001"
abbreviation (input) INT_SOFT2 :: u32 where "INT_SOFT2 \<equiv> 0x00000002"
abbreviation (input) INT_POWER :: u32 where "INT_POWER \<equiv> 0x00000004"
abbreviation (input) INT_KEYMOUSE :: u32 where "INT_KEYMOUSE \<equiv> 0x00000008"
abbreviation (input) INT_MONITOR :: u32 where "INT_MONITOR \<equiv> 0x00000010"
abbreviation (input) INT_VIDEO :: u32 where "INT_VIDEO \<equiv> 0x00000020"
abbreviation (input) INT_DSP_L3 :: u32 where "INT_DSP_L3 \<equiv> 0x00000040"
abbreviation (input) INT_PHONE :: u32 where "INT_PHONE \<equiv> 0x00000080"
abbreviation (input) INT_SOUND_OVRUN :: u32 where "INT_SOUND_OVRUN \<equiv> 0x00000100"
abbreviation (input) INT_EN_RX :: u32 where "INT_EN_RX \<equiv> 0x00000200"
abbreviation (input) INT_EN_TX :: u32 where "INT_EN_TX \<equiv> 0x00000400"
abbreviation (input) INT_PRINTER :: u32 where "INT_PRINTER \<equiv> 0x00000800"
abbreviation (input) INT_SCSI :: u32 where "INT_SCSI \<equiv> 0x00001000"
abbreviation (input) INT_DISK :: u32 where "INT_DISK \<equiv> 0x00002000"
abbreviation (input) INT_DSP_L4 :: u32 where "INT_DSP_L4 \<equiv> 0x00004000"
abbreviation (input) INT_SCC :: u32 where "INT_SCC \<equiv> 0x00020000"
abbreviation (input) INT_R2M_DMA :: u32 where "INT_R2M_DMA \<equiv> 0x00040000"
abbreviation (input) INT_M2R_DMA :: u32 where "INT_M2R_DMA \<equiv> 0x00080000"
abbreviation (input) INT_DSP_DMA :: u32 where "INT_DSP_DMA \<equiv> 0x00100000"
abbreviation (input) INT_SCC_DMA :: u32 where "INT_SCC_DMA \<equiv> 0x00200000"
abbreviation (input) INT_SND_IN_DMA :: u32 where "INT_SND_IN_DMA \<equiv> 0x00400000"
abbreviation (input) INT_SND_OUT_DMA :: u32 where "INT_SND_OUT_DMA \<equiv> 0x00800000"
abbreviation (input) INT_PRINTER_DMA :: u32 where "INT_PRINTER_DMA \<equiv> 0x01000000"
abbreviation (input) INT_DISK_DMA :: u32 where "INT_DISK_DMA \<equiv> 0x02000000"
abbreviation (input) INT_SCSI_DMA :: u32 where "INT_SCSI_DMA \<equiv> 0x04000000"
abbreviation (input) INT_EN_RX_DMA :: u32 where "INT_EN_RX_DMA \<equiv> 0x08000000"
abbreviation (input) INT_EN_TX_DMA :: u32 where "INT_EN_TX_DMA \<equiv> 0x10000000"
abbreviation (input) INT_TIMER :: u32 where "INT_TIMER \<equiv> 0x20000000"

abbreviation (input) INT_L7_MASK :: u32 where "INT_L7_MASK \<equiv> 0xC0000000"
abbreviation (input) INT_L6_MASK :: u32 where "INT_L6_MASK \<equiv> 0x3FFC0000"
abbreviation (input) INT_L5_MASK :: u32 where "INT_L5_MASK \<equiv> 0x00038000"
abbreviation (input) INT_L4_MASK :: u32 where "INT_L4_MASK \<equiv> 0x00004000"
abbreviation (input) INT_L3_MASK :: u32 where "INT_L3_MASK \<equiv> 0x00003FFC"
abbreviation (input) INT_L2_MASK :: u32 where "INT_L2_MASK \<equiv> 0x00000002"
abbreviation (input) INT_L1_MASK :: u32 where "INT_L1_MASK \<equiv> 0x00000001"

abbreviation (input) SET_INT :: u8 where "SET_INT \<equiv> 1"
abbreviation (input) RELEASE_INT :: u8 where "RELEASE_INT \<equiv> 0"

abbreviation (input) SCR2_TIMERIPL7 :: u8 where "SCR2_TIMERIPL7 \<equiv> 0x80"
abbreviation (input) SCR2_DSP_TXD_EN :: u8 where "SCR2_DSP_TXD_EN \<equiv> 0x80"
abbreviation (input) SCR2_DSP_INT_EN :: u8 where "SCR2_DSP_INT_EN \<equiv> 0x40"

abbreviation (input) INT_NONMASKABLE :: u32 where "INT_NONMASKABLE \<equiv> 0x80027640"
abbreviation (input) INT_ZEROBITS :: u32 where "INT_ZEROBITS \<equiv> 0xC22E7600"

abbreviation turbo :: "'a timing_scheme \<Rightarrow> bool" where
  "turbo s \<equiv> bTurbo (System (ConfigureParams s))"

text \<open>The registers at power-on, for examples.\<close>

definition sample_sysreg :: sysreg where
  "sample_sysreg = cycint.extend sample_cycint (sysreg.fields
     False False False [] 0 0 0x00012002 0 0 0 0 True 0 0 0 0xFFFF 0 0 0 1 0 0 0 0 0 0x80027640 0)"

section \<open>Operations\<close>

definition M68000_CheckInterrupt :: "'a sysreg_scheme \<Rightarrow> 'a sysreg_scheme" where
  "M68000_CheckInterrupt s = s\<lparr>spcflag_int := True\<rparr>"

definition scr_get_interrupt_level :: "'a sysreg_scheme \<Rightarrow> 'a sysreg_scheme" where
  "scr_get_interrupt_level s = (
     let interrupt = scrIntStat s AND scrIntMask s;
         level = (if interrupt = 0 then 0
                  else if tst interrupt INT_L7_MASK then 7
                  else if tst interrupt INT_TIMER \<and> tst (scr2_2 s) SCR2_TIMERIPL7 then 7
                  else if tst interrupt INT_L6_MASK then 6
                  else if tst interrupt INT_L5_MASK then 5
                  else if tst interrupt INT_L4_MASK then 4
                  else if tst interrupt INT_L3_MASK then 3
                  else if tst interrupt INT_L2_MASK then 2
                  else if tst interrupt INT_L1_MASK then 1
                  else 0)
     in M68000_CheckInterrupt (s\<lparr>scrIntLevel := level\<rparr>))"

definition set_interrupt :: "u32 \<Rightarrow> u8 \<Rightarrow> 'a sysreg_scheme \<Rightarrow> 'a sysreg_scheme" where
  "set_interrupt intr state s = scr_get_interrupt_level
     (if state = SET_INT then s\<lparr>scrIntStat := scrIntStat s OR intr\<rparr>
      else s\<lparr>scrIntStat := scrIntStat s AND NOT intr\<rparr>)"

definition IntRegStatRead :: "'a sysreg_scheme \<Rightarrow> u32" where
  "IntRegStatRead s = scrIntStat s"

definition IntRegStatWrite :: "u32 \<Rightarrow> 'a sysreg_scheme \<Rightarrow> 'a sysreg_scheme" where
  "IntRegStatWrite v s = s"

definition IntRegMaskRead :: "'a sysreg_scheme \<Rightarrow> u32" where
  "IntRegMaskRead s = (if turbo s then scrIntMask s AND NOT INT_ZEROBITS else scrIntMask s)"

definition IntRegMaskWrite :: "u32 \<Rightarrow> 'a sysreg_scheme \<Rightarrow> 'a sysreg_scheme" where
  "IntRegMaskWrite v s = scr_get_interrupt_level
     (s\<lparr>scrIntMask := v OR (if turbo s then INT_ZEROBITS else INT_NONMASKABLE)\<rparr>)"

definition scr_check_dsp_interrupt :: "'a sysreg_scheme \<Rightarrow> 'a sysreg_scheme" where
  "scr_check_dsp_interrupt s =
     (if turbo s then
        set_interrupt INT_DSP_L4
          (if tst (scr2_1 s) SCR2_DSP_TXD_EN then dsp_hreq_intr s OR dsp_txdn_intr s
           else dsp_hreq_intr s) s
      else if tst (scr2_3 s) SCR2_DSP_INT_EN then
        set_interrupt INT_DSP_L4
          (if nMachineType (System (ConfigureParams s)) = NEXT_CUBE030
           then dsp_hreq_intr s OR dsp_txdn_intr s
           else (dsp_hreq_intr s AND bmap_hreq_enable s) OR (dsp_txdn_intr s AND bmap_txdn_enable s)) s
      else set_interrupt INT_DSP_L3 (dsp_hreq_intr s) s)"

section \<open>The interrupt level\<close>

text \<open>The level at which each bit of the status register interrupts.\<close>

definition level_of :: "bool \<Rightarrow> nat \<Rightarrow> nat" where
  "level_of timer_ipl7 n =
     (if n \<ge> 30 then 7 else if n = 29 \<and> timer_ipl7 then 7 else if n \<ge> 18 then 6
      else if n \<ge> 15 then 5 else if n = 14 then 4 else if n \<ge> 2 then 3 else if n = 1 then 2 else 1)"

text \<open>The level that belongs to a set of requests: the highest level requested.\<close>

definition is_level :: "bool \<Rightarrow> u32 \<Rightarrow> nat \<Rightarrow> bool" where
  "is_level ipl7 req l \<longleftrightarrow> (\<forall>n < 32. bit req n \<longrightarrow> level_of ipl7 n \<le> l)
     \<and> (if req = 0 then l = 0 else \<exists>n < 32. bit req n \<and> level_of ipl7 n = l)"

lemma is_level_unique: "is_level i r l \<Longrightarrow> is_level i r l' \<Longrightarrow> l = l'"
  by (auto simp: is_level_def split: if_splits intro: order_antisym)

lemma tst_iff_bit: "tst x m \<longleftrightarrow> (\<exists>n < LENGTH('a). bit x n \<and> bit m n)" for x m :: "'a::len word"
proof
  assume "tst x m"
  then show "\<exists>n < LENGTH('a). bit x n \<and> bit m n"
    using bit_word_eqI [of "x AND m" 0] by (auto simp: tst_def bit_and_iff)
next
  assume "\<exists>n < LENGTH('a). bit x n \<and> bit m n"
  then obtain n where "bit (x AND m) n" by (auto simp: bit_and_iff)
  then show "tst x m" by (auto simp: tst_def)
qed

lemma mask_bits:
  fixes n :: nat
  assumes "n < 32"
  shows "bit INT_L7_MASK n \<longleftrightarrow> 30 \<le> n"
    and "bit INT_TIMER n \<longleftrightarrow> n = 29"
    and "bit INT_L6_MASK n \<longleftrightarrow> 18 \<le> n \<and> n < 30"
    and "bit INT_L5_MASK n \<longleftrightarrow> 15 \<le> n \<and> n < 18"
    and "bit INT_L4_MASK n \<longleftrightarrow> n = 14"
    and "bit INT_L3_MASK n \<longleftrightarrow> 2 \<le> n \<and> n < 14"
    and "bit INT_L2_MASK n \<longleftrightarrow> n = 1"
    and "bit INT_L1_MASK n \<longleftrightarrow> n = 0"
proof -
  have all: "n \<in> set [0..<32]" using assms by simp
  have "list_all (\<lambda>n. (bit INT_L7_MASK n \<longleftrightarrow> 30 \<le> n) \<and> (bit INT_TIMER n \<longleftrightarrow> n = 29)
      \<and> (bit INT_L6_MASK n \<longleftrightarrow> 18 \<le> n \<and> n < 30) \<and> (bit INT_L5_MASK n \<longleftrightarrow> 15 \<le> n \<and> n < 18)
      \<and> (bit INT_L4_MASK n \<longleftrightarrow> n = 14) \<and> (bit INT_L3_MASK n \<longleftrightarrow> 2 \<le> n \<and> n < 14)
      \<and> (bit INT_L2_MASK n \<longleftrightarrow> n = 1) \<and> (bit INT_L1_MASK n \<longleftrightarrow> n = 0)) [0..<32]"
    by code_simp
  with all show "bit INT_L7_MASK n \<longleftrightarrow> 30 \<le> n" "bit INT_TIMER n \<longleftrightarrow> n = 29"
    "bit INT_L6_MASK n \<longleftrightarrow> 18 \<le> n \<and> n < 30" "bit INT_L5_MASK n \<longleftrightarrow> 15 \<le> n \<and> n < 18"
    "bit INT_L4_MASK n \<longleftrightarrow> n = 14" "bit INT_L3_MASK n \<longleftrightarrow> 2 \<le> n \<and> n < 14"
    "bit INT_L2_MASK n \<longleftrightarrow> n = 1" "bit INT_L1_MASK n \<longleftrightarrow> n = 0"
    unfolding list_all_iff by blast+
qed

lemma tst_masks:
  fixes x :: u32
  shows "tst x INT_L7_MASK \<longleftrightarrow> (\<exists>n < 32. bit x n \<and> 30 \<le> n)"
    and "tst x INT_TIMER \<longleftrightarrow> bit x 29"
    and "tst x INT_L6_MASK \<longleftrightarrow> (\<exists>n < 32. bit x n \<and> 18 \<le> n \<and> n < 30)"
    and "tst x INT_L5_MASK \<longleftrightarrow> (\<exists>n < 32. bit x n \<and> 15 \<le> n \<and> n < 18)"
    and "tst x INT_L4_MASK \<longleftrightarrow> bit x 14"
    and "tst x INT_L3_MASK \<longleftrightarrow> (\<exists>n < 32. bit x n \<and> 2 \<le> n \<and> n < 14)"
    and "tst x INT_L2_MASK \<longleftrightarrow> bit x 1"
    and "tst x INT_L1_MASK \<longleftrightarrow> bit x 0"
proof -
  have T: "tst x m \<longleftrightarrow> (\<exists>n < 32. bit x n \<and> P n)" if "\<And>n. n < 32 \<Longrightarrow> bit m n \<longleftrightarrow> P n" for m P
    using that by (auto simp: tst_iff_bit)
  have E: "(\<exists>n < 32. bit x n \<and> n = k) \<longleftrightarrow> bit x k" if "k < 32" for k using that by auto
  show "tst x INT_L7_MASK \<longleftrightarrow> (\<exists>n < 32. bit x n \<and> 30 \<le> n)" by (rule T, rule mask_bits)
  show "tst x INT_TIMER \<longleftrightarrow> bit x 29" using T [of INT_TIMER "\<lambda>n. n = 29", OF mask_bits(2)] E [of 29] by simp
  show "tst x INT_L6_MASK \<longleftrightarrow> (\<exists>n < 32. bit x n \<and> 18 \<le> n \<and> n < 30)" by (rule T, rule mask_bits)
  show "tst x INT_L5_MASK \<longleftrightarrow> (\<exists>n < 32. bit x n \<and> 15 \<le> n \<and> n < 18)" by (rule T, rule mask_bits)
  show "tst x INT_L4_MASK \<longleftrightarrow> bit x 14" using T [of INT_L4_MASK "\<lambda>n. n = 14", OF mask_bits(5)] E [of 14] by simp
  show "tst x INT_L3_MASK \<longleftrightarrow> (\<exists>n < 32. bit x n \<and> 2 \<le> n \<and> n < 14)" by (rule T, rule mask_bits)
  show "tst x INT_L2_MASK \<longleftrightarrow> bit x 1" using T [of INT_L2_MASK "\<lambda>n. n = 1", OF mask_bits(7)] E [of 1] by simp
  show "tst x INT_L1_MASK \<longleftrightarrow> bit x 0" using T [of INT_L1_MASK "\<lambda>n. n = 0", OF mask_bits(8)] E [of 0] by simp
qed

lemma level_encoder:
  fixes l :: nat
  assumes "l = (if z then 0 else if a7 then 7 else if t7 then 7 else if a6 then 6
      else if a5 then 5 else if a4 then 4 else if a3 then 3 else if a2 then 2 else if a1 then 1 else 0)"
  shows "\<not> z \<Longrightarrow> a7 \<Longrightarrow> l = 7" "\<not> z \<Longrightarrow> t7 \<Longrightarrow> l = 7" "\<not> z \<Longrightarrow> a6 \<Longrightarrow> 6 \<le> l" "\<not> z \<Longrightarrow> a5 \<Longrightarrow> 5 \<le> l"
    "\<not> z \<Longrightarrow> a4 \<Longrightarrow> 4 \<le> l" "\<not> z \<Longrightarrow> a3 \<Longrightarrow> 3 \<le> l" "\<not> z \<Longrightarrow> a2 \<Longrightarrow> 2 \<le> l" "\<not> z \<Longrightarrow> a1 \<Longrightarrow> 1 \<le> l"
    "\<not> z \<Longrightarrow> 1 \<le> l \<Longrightarrow> a7 \<and> l = 7 \<or> t7 \<and> l = 7 \<or> a6 \<and> l = 6 \<and> \<not> t7 \<or> a5 \<and> l = 5 \<or> a4 \<and> l = 4
       \<or> a3 \<and> l = 3 \<or> a2 \<and> l = 2 \<or> a1 \<and> l = 1"
    "z \<Longrightarrow> l = 0"
  unfolding assms by (auto split: if_splits)

lemma scr_get_interrupt_level_is_level:
  "is_level (tst (scr2_2 s) SCR2_TIMERIPL7) (scrIntStat s AND scrIntMask s)
     (scrIntLevel (scr_get_interrupt_level s))"
proof -
  define r where "r = scrIntStat s AND scrIntMask s"
  define i where "i = tst (scr2_2 s) SCR2_TIMERIPL7"
  define l where "l = scrIntLevel (scr_get_interrupt_level s)"
  have l: "l = (if r = 0 then 0 else if \<exists>n < 32. bit r n \<and> 30 \<le> n then 7
      else if bit r 29 \<and> i then 7 else if \<exists>n < 32. bit r n \<and> 18 \<le> n \<and> n < 30 then 6
      else if \<exists>n < 32. bit r n \<and> 15 \<le> n \<and> n < 18 then 5 else if bit r 14 then 4
      else if \<exists>n < 32. bit r n \<and> 2 \<le> n \<and> n < 14 then 3 else if bit r 1 then 2
      else if bit r 0 then 1 else 0)"
    unfolding tst_masks [symmetric] i_def r_def l_def
    by (simp add: scr_get_interrupt_level_def M68000_CheckInterrupt_def Let_def)
  note enc = level_encoder [OF l]
  have upper: "level_of i n \<le> l" if n: "n < 32" "bit r n" for n
  proof -
    have "r \<noteq> 0" using n(2) by auto
    note enc = enc(1-8) [OF this]
    consider "30 \<le> n" | "n = 29" | "18 \<le> n" "n < 29" | "15 \<le> n" "n < 18" | "n = 14" | "2 \<le> n" "n < 14" | "n = 1" | "n = 0"
      by linarith
    then show ?thesis
    proof cases
      case 1
      then show ?thesis using n enc(1) by (auto simp: level_of_def)
    next
      case 2
      have "6 \<le> l" using n 2 by (intro enc(3) exI [of _ 29]) auto
      with 2 n enc(2) show ?thesis by (cases i) (simp_all add: level_of_def)
    next
      case 3
      have "6 \<le> l" using n 3 by (intro enc(3) exI [of _ n]) auto
      with 3 show ?thesis by (simp add: level_of_def)
    next
      case 4
      have "5 \<le> l" using n 4 by (intro enc(4) exI [of _ n]) auto
      with 4 show ?thesis by (simp add: level_of_def)
    next
      case 6
      have "3 \<le> l" using n 6 by (intro enc(6) exI [of _ n]) auto
      with 6 show ?thesis by (simp add: level_of_def)
    qed (use n enc(5,7,8) in \<open>simp_all add: level_of_def\<close>)
  qed
  moreover have "\<exists>n < 32. bit r n \<and> level_of i n = l" if "r \<noteq> 0"
  proof -
    have "\<exists>n < 32. bit r n" using that bit_word_eqI [of r 0] by auto
    then obtain m where "m < 32" "bit r m" by blast
    with upper [of m] have "1 \<le> l" by (simp add: level_of_def split: if_splits)
    note w = exI [where P = "\<lambda>n. n < 32 \<and> bit r n \<and> level_of i n = l"]
    from enc(9) [OF that \<open>1 \<le> l\<close>] show ?thesis
    proof (elim disjE conjE exE)
      fix n assume "n < 32" "bit r n" "30 \<le> n" "l = 7"
      then show ?thesis by (intro w [of n]) (simp add: level_of_def)
    next
      assume "bit r 29" "i" "l = 7"
      then show ?thesis by (intro w [of 29]) (simp add: level_of_def)
    next
      fix n assume "n < 32" "bit r n" "18 \<le> n" "n < 30" "l = 6" "\<not> (bit r 29 \<and> i)"
      then show ?thesis by (intro w [of n]) (cases "n = 29"; simp add: level_of_def)
    next
      fix n assume "n < 32" "bit r n" "15 \<le> n" "n < 18" "l = 5"
      then show ?thesis by (intro w [of n]) (simp add: level_of_def)
    next
      assume "bit r 14" "l = 4"
      then show ?thesis by (intro w [of 14]) (simp add: level_of_def)
    next
      fix n assume "n < 32" "bit r n" "2 \<le> n" "n < 14" "l = 3"
      then show ?thesis by (intro w [of n]) (simp add: level_of_def)
    next
      assume "bit r 1" "l = 2"
      then show ?thesis by (intro w [of 1]) (simp add: level_of_def)
    next
      assume "bit r 0" "l = 1"
      then show ?thesis by (intro w [of 0]) (simp add: level_of_def)
    qed
  qed
  ultimately show ?thesis
    unfolding is_level_def r_def [symmetric] i_def [symmetric] l_def [symmetric]
    using enc(10) by auto
qed


section \<open>Properties\<close>

lemma scr_get_interrupt_level_simps [simp]:
  "scrIntStat (scr_get_interrupt_level s) = scrIntStat s" "scrIntMask (scr_get_interrupt_level s) = scrIntMask s"
  "scr2_2 (scr_get_interrupt_level s) = scr2_2 s" "spcflag_int (scr_get_interrupt_level s)"
  "ConfigureParams (scr_get_interrupt_level s) = ConfigureParams s"
  by (simp_all add: scr_get_interrupt_level_def M68000_CheckInterrupt_def Let_def)

lemma set_interrupt_simps [simp]:
  "scrIntStat (set_interrupt i st s) = (if st = SET_INT then scrIntStat s OR i else scrIntStat s AND NOT i)"
  "scrIntMask (set_interrupt i st s) = scrIntMask s"
  "scr2_2 (set_interrupt i st s) = scr2_2 s" "spcflag_int (set_interrupt i st s)"
  "ConfigureParams (set_interrupt i st s) = ConfigureParams s"
  by (simp_all add: set_interrupt_def)

text \<open>
  C8. The level the CPU polls after \<open>set_interrupt\<close> is the highest level at which any
  unmasked interrupt requests (0 when there is none), the timer requesting at level 7 when
  \<open>SCR2_TIMERIPL7\<close> is set, and the CPU is told to look at it.
\<close>

theorem set_interrupt_level:
  "let s' = set_interrupt intr state s in
   is_level (tst (scr2_2 s) SCR2_TIMERIPL7) (scrIntStat s' AND scrIntMask s) (scrIntLevel s')
   \<and> spcflag_int s'"
  using scr_get_interrupt_level_is_level [of "s\<lparr>scrIntStat := scrIntStat s OR intr\<rparr>"]
    scr_get_interrupt_level_is_level [of "s\<lparr>scrIntStat := scrIntStat s AND NOT intr\<rparr>"]
  by (simp add: Let_def set_interrupt_def)

text \<open>
  C28. The mask register keeps the bits that software cannot clear: after a write of \<open>v\<close>,
  the nonmaskable bits (on Turbo machines: the reserved bits) are set and all others are
  those of \<open>v\<close>; a read returns the register, on Turbo machines without the reserved bits;
  and the interrupt level is the one that belongs to the new mask.
\<close>

theorem IntRegMask_write_read:
  "let s' = IntRegMaskWrite v s in
   scrIntMask s' = v OR (if turbo s then INT_ZEROBITS else INT_NONMASKABLE)
   \<and> IntRegMaskRead s' = (if turbo s then v AND NOT INT_ZEROBITS else v OR INT_NONMASKABLE)
   \<and> is_level (tst (scr2_2 s) SCR2_TIMERIPL7) (scrIntStat s AND scrIntMask s') (scrIntLevel s')"
  using scr_get_interrupt_level_is_level
    [of "s\<lparr>scrIntMask := v OR (if turbo s then INT_ZEROBITS else INT_NONMASKABLE)\<rparr>"]
    or_and_not_mask [of v INT_ZEROBITS]
  by (simp add: Let_def IntRegMaskWrite_def IntRegMaskRead_def)

end
