(* ===== verification/Maccess.thy ===== *)
theory Maccess
  imports Prelude
begin

text \<open>
  Host memory that the emulator allocates for the guest, and the big-endian access functions
  of \<open>cpu/maccess.h\<close>. A block of memory is its size and its bytes; the null pointer is the
  block of size 0. An access that is not completely inside the block is \<open>None\<close>.
\<close>

record mem_array =
  arr_size :: nat
  arr_byte :: "nat \<Rightarrow> u8"

abbreviation (input) NULL :: mem_array where
  "NULL \<equiv> \<lparr>arr_size = 0, arr_byte = (\<lambda>_. 0)\<rparr>"

definition memset0 :: "nat \<Rightarrow> mem_array \<Rightarrow> mem_array" where
  "memset0 n m = m\<lparr>arr_byte := (\<lambda>i. if i < n then 0 else arr_byte m i)\<rparr>"

text \<open>The three widths of an access.\<close>

datatype bus_size = SZ_BYTE | SZ_WORD | SZ_LONG

fun bytes_of :: "bus_size \<Rightarrow> nat" where
  "bytes_of SZ_BYTE = 1"
| "bytes_of SZ_WORD = 2"
| "bytes_of SZ_LONG = 4"

definition be_word :: "(nat \<Rightarrow> u8) \<Rightarrow> nat \<Rightarrow> u32" where
  "be_word f i = push_bit 8 (ucast (f i)) OR ucast (f (i + 1))"

definition be_long :: "(nat \<Rightarrow> u8) \<Rightarrow> nat \<Rightarrow> u32" where
  "be_long f i = push_bit 24 (ucast (f i)) OR push_bit 16 (ucast (f (i + 1)))
     OR push_bit 8 (ucast (f (i + 2))) OR ucast (f (i + 3))"

definition do_get_mem :: "bus_size \<Rightarrow> mem_array \<Rightarrow> u32 \<Rightarrow> u32 option" where
  "do_get_mem sz m a = (
     let i = unat a; f = arr_byte m in
     if i + bytes_of sz \<le> arr_size m then
       Some (case sz of SZ_BYTE \<Rightarrow> ucast (f i) | SZ_WORD \<Rightarrow> be_word f i | SZ_LONG \<Rightarrow> be_long f i)
     else None)"

definition do_put_mem :: "bus_size \<Rightarrow> mem_array \<Rightarrow> u32 \<Rightarrow> u32 \<Rightarrow> mem_array option" where
  "do_put_mem sz m a v = (
     let i = unat a; f = arr_byte m in
     if i + bytes_of sz \<le> arr_size m then
       Some (m\<lparr>arr_byte := (case sz of
           SZ_BYTE \<Rightarrow> f(i := ucast v)
         | SZ_WORD \<Rightarrow> f(i := ucast (drop_bit 8 v), i + 1 := ucast v)
         | SZ_LONG \<Rightarrow> f(i := ucast (drop_bit 24 v), i + 1 := ucast (drop_bit 16 v),
                       i + 2 := ucast (drop_bit 8 v), i + 3 := ucast v))\<rparr>)
     else None)"

section \<open>Storing and loading\<close>

text \<open>The part of a value that an access of a given width transfers.\<close>

fun truncate_to :: "bus_size \<Rightarrow> u32 \<Rightarrow> u32" where
  "truncate_to SZ_BYTE v = v AND 0xFF"
| "truncate_to SZ_WORD v = v AND 0xFFFF"
| "truncate_to SZ_LONG v = v"

lemma bit_FF: "bit (0xFF :: int) n \<longleftrightarrow> n < 8" "bit (0xFFFF :: int) n \<longleftrightarrow> n < 16"
  using bit_mask_iff [of 8 n, where ?'a = int] bit_mask_iff [of 16 n, where ?'a = int]
  by (auto simp: mask_eq_exp_minus_1)

lemma ucast_byte: "ucast (ucast v :: u8) = v AND (0xFF :: u32)"
  by (rule bit_word_eqI) (auto simp: bit_simps bit_FF)

lemma join_word: "push_bit 8 (ucast (ucast (drop_bit 8 v) :: u8)) OR ucast (ucast v :: u8) = v AND (0xFFFF :: u32)"
  by (rule bit_word_eqI) (auto simp: bit_simps bit_FF)

lemma join_long:
  "push_bit 24 (ucast (ucast (drop_bit 24 v) :: u8)) OR push_bit 16 (ucast (ucast (drop_bit 16 v) :: u8))
     OR push_bit 8 (ucast (ucast (drop_bit 8 v) :: u8)) OR ucast (ucast v :: u8) = (v :: u32)"
  (is "?l = v")
proof (rule bit_word_eqI)
  fix n assume "n < LENGTH(32)"
  then consider "n < 8" | "8 \<le> n" "n < 16" | "16 \<le> n" "n < 24" | "24 \<le> n" "n < 32" by fastforce
  then show "bit ?l n \<longleftrightarrow> bit v n"
    by cases (auto simp: bit_simps)
qed

lemma do_get_put_mem:
  assumes "do_put_mem sz m a v = Some m'"
  shows "do_get_mem sz m' a = Some (truncate_to sz v)" "arr_size m' = arr_size m"
proof -
  show "arr_size m' = arr_size m"
    using assms by (auto simp: do_put_mem_def Let_def split: if_splits)
  then show "do_get_mem sz m' a = Some (truncate_to sz v)"
    using assms
    by (cases sz) (auto simp: do_put_mem_def do_get_mem_def Let_def be_word_def be_long_def
        intro: ucast_byte join_word join_long split: if_splits)
qed

lemma do_get_mem_Some_iff: "do_get_mem sz m a \<noteq> None \<longleftrightarrow> unat a + bytes_of sz \<le> arr_size m"
  by (simp add: do_get_mem_def Let_def)

lemma do_put_mem_Some_iff: "do_put_mem sz m a v \<noteq> None \<longleftrightarrow> unat a + bytes_of sz \<le> arr_size m"
  by (simp add: do_put_mem_def Let_def)

text \<open>A store does not change what is loaded from bytes it does not touch.\<close>

lemma do_get_put_mem_other:
  assumes "do_put_mem sz m a v = Some m'"
    and "unat b + bytes_of sz' \<le> unat a \<or> unat a + bytes_of sz \<le> unat b"
  shows "do_get_mem sz' m' b = do_get_mem sz' m b"
  using assms
  by (cases sz; cases sz')
    (auto simp: do_put_mem_def do_get_mem_def Let_def be_word_def be_long_def split: if_splits)

end
