(* ===== verification/RtcNvram.thy ===== *)
theory RtcNvram
  imports IntCtl Maccess "HOL-Library.Signed_Division"
begin

text \<open>
  \<open>rtcnvram.c\<close>: the two real-time clock chips (MC68HC68T1, the old one with BCD registers,
  and MCCS1850, the new one with a 32-bit counter), the bit-serial interface through which
  the guest reaches them, and the configuration bytes in their battery-backed RAM.

  An access to the RAM arrays with an index out of their bounds is \<open>None\<close>. \<open>NEXTRom\<close> is the
  boot ROM image (allocated by \<open>memory_init\<close>). \<open>phase\<close> counts the bits of a transfer.
\<close>

section \<open>State\<close>

record RTC_TIME =
  t_sec :: u8
  t_min :: u8
  t_hour :: u8
  t_wday :: u8
  t_mday :: u8
  t_month :: u8
  t_year :: u8

record RTC_ALARM =
  a_sec :: u8
  a_min :: u8
  a_hour :: u8

record oldrtc_chip =
  ram :: "u8 list"
  rtc_time :: RTC_TIME
  rtc_alarm :: RTC_ALARM
  rtc_status :: u8
  clkctrl :: u8
  intctrl :: u8

record newrtc_chip =
  timecntr :: u32
  alarmcntr :: u32
  nrtc_status :: u8
  nrtc_control :: u8
  ram2 :: "u8 list"

record rtcnvram = sysreg +
  NEXTRom :: mem_array
  rtc_addr :: u8
  rtc_val :: u8
  rtc_data :: u8
  phase :: nat
  rtc :: oldrtc_chip
  newrtc :: newrtc_chip

abbreviation (input) RTC_ADDR_WRITE :: u8 where "RTC_ADDR_WRITE \<equiv> 0x80"
abbreviation (input) RTC_ADDR_CLOCK :: u8 where "RTC_ADDR_CLOCK \<equiv> 0x20"
abbreviation (input) RTC_ADDR_MASK :: u8 where "RTC_ADDR_MASK \<equiv> 0x7F"
abbreviation (input) RTC_ADDR_NEWRAM :: u8 where "RTC_ADDR_NEWRAM \<equiv> 0x40"

abbreviation (input) RTC_INT_SENSE :: u8 where "RTC_INT_SENSE \<equiv> 0x04"
abbreviation (input) RTC_START :: u8 where "RTC_START \<equiv> 0x80"
abbreviation (input) RTC_POWERDOWN :: u8 where "RTC_POWERDOWN \<equiv> 0x40"

abbreviation (input) NRTC_NEWCHIP :: u8 where "NRTC_NEWCHIP \<equiv> 0x80"
abbreviation (input) NRTC_FIRSTUP :: u8 where "NRTC_FIRSTUP \<equiv> 0x10"
abbreviation (input) NRTC_INT :: u8 where "NRTC_INT \<equiv> 0x08"
abbreviation (input) NRTC_INT_LBAT :: u8 where "NRTC_INT_LBAT \<equiv> 0x04"
abbreviation (input) NRTC_INT_ALARM :: u8 where "NRTC_INT_ALARM \<equiv> 0x02"
abbreviation (input) NRTC_INT_PDOWN :: u8 where "NRTC_INT_PDOWN \<equiv> 0x01"
abbreviation (input) NRTC_CTRL_0 :: u8 where "NRTC_CTRL_0 \<equiv> 0x4D"
abbreviation (input) NRTC_START :: u8 where "NRTC_START \<equiv> 0x80"
abbreviation (input) NRTC_POWERDOWN :: u8 where "NRTC_POWERDOWN \<equiv> 0x40"
abbreviation (input) NRTC_ENABLEALRM :: u8 where "NRTC_ENABLEALRM \<equiv> 0x10"
abbreviation (input) NRTC_CLRALARM :: u8 where "NRTC_CLRALARM \<equiv> 0x08"
abbreviation (input) NRTC_CLRFTU :: u8 where "NRTC_CLRFTU \<equiv> 0x04"
abbreviation (input) NRTC_LBE :: u8 where "NRTC_LBE \<equiv> 0x02"
abbreviation (input) NRTC_CLRPDOWN :: u8 where "NRTC_CLRPDOWN \<equiv> 0x01"

abbreviation upd_rtc :: "(oldrtc_chip \<Rightarrow> oldrtc_chip) \<Rightarrow> 'a rtcnvram_scheme \<Rightarrow> 'a rtcnvram_scheme" where
  "upd_rtc f s \<equiv> s\<lparr>rtc := f (rtc s)\<rparr>"

abbreviation upd_newrtc :: "(newrtc_chip \<Rightarrow> newrtc_chip) \<Rightarrow> 'a rtcnvram_scheme \<Rightarrow> 'a rtcnvram_scheme" where
  "upd_newrtc f s \<equiv> s\<lparr>newrtc := f (newrtc s)\<rparr>"

abbreviation upd_time :: "(RTC_TIME \<Rightarrow> RTC_TIME) \<Rightarrow> 'a rtcnvram_scheme \<Rightarrow> 'a rtcnvram_scheme" where
  "upd_time f s \<equiv> upd_rtc (\<lambda>r. r\<lparr>rtc_time := f (rtc_time r)\<rparr>) s"

abbreviation upd_alarm :: "(RTC_ALARM \<Rightarrow> RTC_ALARM) \<Rightarrow> 'a rtcnvram_scheme \<Rightarrow> 'a rtcnvram_scheme" where
  "upd_alarm f s \<equiv> upd_rtc (\<lambda>r. r\<lparr>rtc_alarm := f (rtc_alarm r)\<rparr>) s"

definition M68000_Stop :: "'a sysreg_scheme \<Rightarrow> 'a sysreg_scheme" where
  "M68000_Stop s = s\<lparr>spcflag_brk := True\<rparr>"

text \<open>\<open>Main_RequestQuit(false)\<close>.\<close>

definition Main_RequestQuit :: "'a sysreg_scheme \<Rightarrow> 'a sysreg_scheme" where
  "Main_RequestQuit s = M68000_Stop (s\<lparr>bQuitProgram := True\<rparr>)"

section \<open>MC68HC68T1\<close>

definition toBCD :: "int \<Rightarrow> u8" where
  "toBCD val = word_of_int (push_bit 4 ((val sdiv 10) smod 10) OR (val smod 10))"

definition toBCDyr :: "int \<Rightarrow> u8" where
  "toBCDyr val = word_of_int (push_bit 4 ((val sdiv 10) AND 0xF) OR (val smod 10))"

text \<open>The argument \<open>hour\<close> is \<open>rtc.time.hour\<close>, whose bit 7 selects the 12 hour format.\<close>

definition toBCDhr :: "u8 \<Rightarrow> int \<Rightarrow> u8" where
  "toBCDhr hour val =
     (if tst hour 0x80 then
        (let val = (if val smod 12 = 0 then val + 12 else val) in
         if val > 12 then toBCD (val - 12) OR 0xA0 else toBCD val OR 0x80)
      else toBCD val)"

definition fromBCD :: "u8 \<Rightarrow> int" where
  "fromBCD bcd = uint (drop_bit 4 (bcd AND 0xF0)) * 10 + uint (bcd AND 0xF)"

definition fromBCDhr :: "u8 \<Rightarrow> int" where
  "fromBCDhr bcd =
     (if tst bcd 0x80 then
        (let bcd = (if bcd AND 0x1F = 0x12 then bcd AND 0xA0 else bcd) in
         if tst bcd 0x20 then fromBCD (bcd AND 0x1F) + 12 else fromBCD (bcd AND 0x1F))
      else fromBCD bcd)"

definition oldrtc_get_time :: "'a rtcnvram_scheme \<Rightarrow> 'a rtcnvram_scheme" where
  "oldrtc_get_time s = (
     let (t, s1) = Timing_GetUnixTimeStruct s in
     upd_time (\<lambda>r. \<lparr>t_sec = toBCD (tm_sec t), t_min = toBCD (tm_min t),
       t_hour = toBCDhr (t_hour r) (tm_hour t), t_wday = toBCD (tm_wday t + 1),
       t_mday = toBCD (tm_mday t), t_month = toBCD (tm_mon t + 1), t_year = toBCDyr (tm_year t)\<rparr>) s1)"

definition oldrtc_set_time :: "'a rtcnvram_scheme \<Rightarrow> 'a rtcnvram_scheme" where
  "oldrtc_set_time s = (
     let r = rtc_time (rtc s) in
     Timing_SetUnixTimeStruct \<lparr>tm_sec = fromBCD (t_sec r), tm_min = fromBCD (t_min r),
       tm_hour = fromBCDhr (t_hour r), tm_mday = fromBCD (t_mday r), tm_mon = fromBCD (t_month r) - 1,
       tm_year = fromBCD (t_year r), tm_wday = fromBCD (t_wday r) - 1\<rparr> s)"


definition oldrtc_get_clock :: "'a rtcnvram_scheme \<Rightarrow> u8 \<times> 'a rtcnvram_scheme" where
  "oldrtc_get_clock s = (
     let a = rtc_addr s AND RTC_ADDR_MASK; r = rtc s; t = rtc_time r in
     if a = 0x20 then (t_sec t, s)
     else if a = 0x21 then (t_min t, s)
     else if a = 0x22 then (t_hour t, s)
     else if a = 0x23 then (t_wday t, s)
     else if a = 0x24 then (t_mday t, s)
     else if a = 0x25 then (t_month t, s)
     else if a = 0x26 then (t_year t, s)
     else if a = 0x30 then
       (rtc_status r AND 0x5F, upd_rtc (\<lambda>r. r\<lparr>rtc_status := rtc_status r AND RTC_INT_SENSE\<rparr>) s)
     else if a = 0x31 then (clkctrl r, s)
     else if a = 0x32 then (intctrl r, s)
     else (0, s))"

abbreviation set_time_if_running :: "'a rtcnvram_scheme \<Rightarrow> 'a rtcnvram_scheme" where
  "set_time_if_running s \<equiv> (if tst (clkctrl (rtc s)) RTC_START then oldrtc_set_time s else s)"

definition oldrtc_put_clock :: "u8 \<Rightarrow> u8 \<Rightarrow> 'a rtcnvram_scheme \<Rightarrow> 'a rtcnvram_scheme" where
  "oldrtc_put_clock addr val s = (
     let a = addr AND RTC_ADDR_MASK in
     if a = 0x20 then set_time_if_running (upd_time (\<lambda>t. t\<lparr>t_sec := val\<rparr>) s)
     else if a = 0x21 then set_time_if_running (upd_time (\<lambda>t. t\<lparr>t_min := val\<rparr>) s)
     else if a = 0x22 then set_time_if_running (upd_time (\<lambda>t. t\<lparr>t_hour := val AND 0xBF\<rparr>) s)
     else if a = 0x23 then set_time_if_running (upd_time (\<lambda>t. t\<lparr>t_wday := val AND 0x07\<rparr>) s)
     else if a = 0x24 then set_time_if_running (upd_time (\<lambda>t. t\<lparr>t_mday := val\<rparr>) s)
     else if a = 0x25 then set_time_if_running (upd_time (\<lambda>t. t\<lparr>t_month := val\<rparr>) s)
     else if a = 0x26 then set_time_if_running (upd_time (\<lambda>t. t\<lparr>t_year := val\<rparr>) s)
     else if a = 0x28 then upd_alarm (\<lambda>t. t\<lparr>a_sec := val\<rparr>) s
     else if a = 0x29 then upd_alarm (\<lambda>t. t\<lparr>a_min := val\<rparr>) s
     else if a = 0x2A then upd_alarm (\<lambda>t. t\<lparr>a_hour := val AND 0x3F\<rparr>) s
     else if a = 0x31 then
       (let changed = val XOR clkctrl (rtc s); s1 = upd_rtc (\<lambda>r. r\<lparr>clkctrl := val\<rparr>) s in
        if tst changed RTC_START \<and> tst val RTC_START then oldrtc_set_time s1 else s1)
     else if a = 0x32 then
       (let s1 = upd_rtc (\<lambda>r. r\<lparr>intctrl := val\<rparr>) s in
        if tst val RTC_POWERDOWN then Main_RequestQuit s1 else s1)
     else s)"

definition oldrtc_request_power_down :: "'a sysreg_scheme \<Rightarrow> 'a sysreg_scheme" where
  "oldrtc_request_power_down s = set_interrupt INT_POWER SET_INT s"

definition oldrtc_stop_pdown_request :: "'a sysreg_scheme \<Rightarrow> 'a sysreg_scheme" where
  "oldrtc_stop_pdown_request s = set_interrupt INT_POWER RELEASE_INT s"

abbreviation shift_in :: "u8 \<Rightarrow> u8 \<Rightarrow> u8" where
  "shift_in x rtdatabit \<equiv> push_bit 1 x OR (if rtdatabit \<noteq> 0 then 1 else 0)"

definition oldrtc_next_addr :: "u8 \<Rightarrow> u8" where
  "oldrtc_next_addr a =
     (if a = 0x1F \<or> a = 0x9F then 0x00 else if a = 0x32 \<or> a = 0xB2 then 0x20 else a + 1)"

text \<open>
  The parts of \<open>oldrtc_interface_io\<close>: loading the value that is read when the address is
  complete, shifting one data bit in or out, and storing the value that was written when it
  is complete.
\<close>

definition oldrtc_load :: "'a rtcnvram_scheme \<Rightarrow> 'a rtcnvram_scheme option" where
  "oldrtc_load s =
     (if \<not> tst (rtc_addr s) RTC_ADDR_WRITE then
        if tst (rtc_addr s) RTC_ADDR_CLOCK
        then let (v, s1) = oldrtc_get_clock s in Some (s1\<lparr>rtc_val := v\<rparr>)
        else do { v \<leftarrow> arr_get (ram (rtc s)) (unat (rtc_addr s AND RTC_ADDR_MASK));
                  Some (s\<lparr>rtc_val := v\<rparr>) }
      else Some s)"

definition rtc_shift :: "u8 \<Rightarrow> 'a rtcnvram_scheme \<Rightarrow> u8 \<times> 'a rtcnvram_scheme" where
  "rtc_shift rtdatabit s =
     (if tst (rtc_addr s) RTC_ADDR_WRITE
      then (rtdatabit, s\<lparr>rtc_val := shift_in (rtc_val s) rtdatabit\<rparr>)
      else (if tst (rtc_val s) (push_bit (16 - phase s) 1) then 1 else 0, s))"

definition oldrtc_store :: "'a rtcnvram_scheme \<Rightarrow> 'a rtcnvram_scheme option" where
  "oldrtc_store s =
     (if tst (rtc_addr s) RTC_ADDR_WRITE then
        if tst (rtc_addr s) RTC_ADDR_CLOCK
        then Some (oldrtc_put_clock (rtc_addr s) (rtc_val s) s)
        else do { m \<leftarrow> arr_set (ram (rtc s)) (unat (rtc_addr s AND RTC_ADDR_MASK)) (rtc_val s);
                  Some (upd_rtc (\<lambda>r. r\<lparr>ram := m\<rparr>) s) }
      else Some s)"

definition oldrtc_interface_io :: "u8 \<Rightarrow> 'a rtcnvram_scheme \<Rightarrow> (u8 \<times> 'a rtcnvram_scheme) option" where
  "oldrtc_interface_io rtdatabit s = (
     let s1 = s\<lparr>phase := phase s + 1\<rparr> in
     if phase s1 \<le> 8 then Some (rtdatabit, s1\<lparr>rtc_addr := shift_in (rtc_addr s1) rtdatabit\<rparr>)
     else do {
       s2 \<leftarrow> (if phase s1 = 9 then oldrtc_load s1 else Some s1);
       let (bit, s3) = rtc_shift rtdatabit s2;
       if phase s3 = 16 then do {
         s4 \<leftarrow> oldrtc_store s3;
         Some (bit, s4\<lparr>rtc_addr := oldrtc_next_addr (rtc_addr s4), phase := phase s4 - 8\<rparr>)
       }
       else Some (bit, s3)
     })"

definition oldrtc_interface_start :: "'a rtcnvram_scheme \<Rightarrow> 'a rtcnvram_scheme" where
  "oldrtc_interface_start s = (if tst (clkctrl (rtc s)) RTC_START then oldrtc_get_time s else s)"

section \<open>MCCS1850\<close>

definition newrtc_check_interrupt :: "'a rtcnvram_scheme \<Rightarrow> 'a rtcnvram_scheme" where
  "newrtc_check_interrupt s = (
     let st = nrtc_status (newrtc s); c = nrtc_control (newrtc s) in
     if tst st NRTC_INT_ALARM \<and> tst c NRTC_ENABLEALRM
        \<or> tst st NRTC_INT_LBAT \<and> tst c NRTC_LBE
        \<or> tst st NRTC_FIRSTUP \<or> tst st NRTC_INT_PDOWN
     then set_interrupt INT_POWER SET_INT (upd_newrtc (\<lambda>r. r\<lparr>nrtc_status := st OR NRTC_INT\<rparr>) s)
     else set_interrupt INT_POWER RELEASE_INT (upd_newrtc (\<lambda>r. r\<lparr>nrtc_status := st AND NOT NRTC_INT\<rparr>) s))"

definition newrtc_get_clock :: "'a rtcnvram_scheme \<Rightarrow> u8" where
  "newrtc_get_clock s = (
     let a = rtc_addr s AND RTC_ADDR_MASK; n = newrtc s in
     if a = 0x20 then ucast (drop_bit 24 (timecntr n))
     else if a = 0x21 then ucast (drop_bit 16 (timecntr n))
     else if a = 0x22 then ucast (drop_bit 8 (timecntr n))
     else if a = 0x23 then ucast (timecntr n)
     else if a = 0x24 then ucast (drop_bit 24 (alarmcntr n))
     else if a = 0x25 then ucast (drop_bit 16 (alarmcntr n))
     else if a = 0x26 then ucast (drop_bit 8 (alarmcntr n))
     else if a = 0x27 then ucast (alarmcntr n)
     else if a = 0x30 then (nrtc_status n AND 0x3F) OR NRTC_NEWCHIP
     else if a = 0x31 then nrtc_control n AND NOT NRTC_CTRL_0
     else 0)"

definition put_byte :: "u32 \<Rightarrow> nat \<Rightarrow> u8 \<Rightarrow> u32 \<Rightarrow> u32" where
  "put_byte keep k val x = (x AND keep) OR push_bit k (ucast val)"

abbreviation set_unix_if_running :: "'a rtcnvram_scheme \<Rightarrow> 'a rtcnvram_scheme" where
  "set_unix_if_running s \<equiv>
     (if tst (nrtc_control (newrtc s)) NRTC_START
      then Timing_SetUnixTime (ucast (timecntr (newrtc s))) s else s)"

definition newrtc_put_clock :: "u8 \<Rightarrow> 'a rtcnvram_scheme \<Rightarrow> 'a rtcnvram_scheme" where
  "newrtc_put_clock val s = (
     let a = rtc_addr s AND RTC_ADDR_MASK in
     if a = 0x20 then set_unix_if_running (upd_newrtc (\<lambda>n. n\<lparr>timecntr := put_byte 0x00FFFFFF 24 val (timecntr n)\<rparr>) s)
     else if a = 0x21 then set_unix_if_running (upd_newrtc (\<lambda>n. n\<lparr>timecntr := put_byte 0xFF00FFFF 16 val (timecntr n)\<rparr>) s)
     else if a = 0x22 then set_unix_if_running (upd_newrtc (\<lambda>n. n\<lparr>timecntr := put_byte 0xFFFF00FF 8 val (timecntr n)\<rparr>) s)
     else if a = 0x23 then set_unix_if_running (upd_newrtc (\<lambda>n. n\<lparr>timecntr := put_byte 0xFFFFFF00 0 val (timecntr n)\<rparr>) s)
     else if a = 0x24 then upd_newrtc (\<lambda>n. n\<lparr>alarmcntr := put_byte 0x00FFFFFF 24 val (alarmcntr n)\<rparr>) s
     else if a = 0x25 then upd_newrtc (\<lambda>n. n\<lparr>alarmcntr := put_byte 0xFF00FFFF 16 val (alarmcntr n)\<rparr>) s
     else if a = 0x26 then upd_newrtc (\<lambda>n. n\<lparr>alarmcntr := put_byte 0xFFFF00FF 8 val (alarmcntr n)\<rparr>) s
     else if a = 0x27 then upd_newrtc (\<lambda>n. n\<lparr>alarmcntr := put_byte 0xFFFFFF00 0 val (alarmcntr n)\<rparr>) s
     else if a = 0x31 then
       (let changed = val XOR nrtc_control (newrtc s);
            s1 = upd_newrtc (\<lambda>n. n\<lparr>nrtc_control := val\<rparr>) s in
        if tst val NRTC_POWERDOWN then Main_RequestQuit s1
        else
          let s2 = (if tst changed NRTC_START \<and> tst val RTC_START
                    then Timing_SetUnixTime (ucast (timecntr (newrtc s1))) s1 else s1);
              s3 = upd_newrtc (\<lambda>n. n\<lparr>nrtc_status := nrtc_status n
                     AND (if tst val NRTC_CLRFTU then NOT NRTC_FIRSTUP else NOT 0)
                     AND (if tst val NRTC_CLRALARM then NOT NRTC_INT_ALARM else NOT 0)
                     AND (if tst val NRTC_CLRPDOWN then NOT NRTC_INT_PDOWN else NOT 0)
                     AND (if \<not> tst val NRTC_LBE then NOT NRTC_INT_LBAT else NOT 0)\<rparr>) s2
          in newrtc_check_interrupt s3)
     else s)"


definition newrtc_request_power_down :: "'a rtcnvram_scheme \<Rightarrow> 'a rtcnvram_scheme" where
  "newrtc_request_power_down s =
     newrtc_check_interrupt (upd_newrtc (\<lambda>n. n\<lparr>nrtc_status := nrtc_status n OR NRTC_INT_PDOWN\<rparr>) s)"

definition newrtc_next_addr :: "u8 \<Rightarrow> u8" where
  "newrtc_next_addr a = (if a = 0x7F then 0x00 else if a = 0xFF then 0x80 else a + 1)"

definition newrtc_load :: "'a rtcnvram_scheme \<Rightarrow> 'a rtcnvram_scheme option" where
  "newrtc_load s =
     (if \<not> tst (rtc_addr s) RTC_ADDR_WRITE then
        if tst (rtc_addr s) RTC_ADDR_CLOCK then Some (s\<lparr>rtc_val := newrtc_get_clock s\<rparr>)
        else do { v \<leftarrow> (if tst (rtc_addr s) RTC_ADDR_NEWRAM
                         then arr_get (ram2 (newrtc s)) (unat (rtc_addr s AND 0x1F))
                         else arr_get (ram (rtc s)) (unat (rtc_addr s AND 0x1F)));
                  Some (s\<lparr>rtc_val := v\<rparr>) }
      else Some s)"

definition newrtc_store :: "'a rtcnvram_scheme \<Rightarrow> 'a rtcnvram_scheme option" where
  "newrtc_store s =
     (if tst (rtc_addr s) RTC_ADDR_WRITE then
        if tst (rtc_addr s) RTC_ADDR_CLOCK then Some (newrtc_put_clock (rtc_val s) s)
        else if tst (rtc_addr s) RTC_ADDR_NEWRAM then
          do { m \<leftarrow> arr_set (ram2 (newrtc s)) (unat (rtc_addr s AND 0x1F)) (rtc_val s);
               Some (upd_newrtc (\<lambda>r. r\<lparr>ram2 := m\<rparr>) s) }
        else
          do { m \<leftarrow> arr_set (ram (rtc s)) (unat (rtc_addr s AND 0x1F)) (rtc_val s);
               Some (upd_rtc (\<lambda>r. r\<lparr>ram := m\<rparr>) s) }
      else Some s)"

definition newrtc_interface_io :: "u8 \<Rightarrow> 'a rtcnvram_scheme \<Rightarrow> (u8 \<times> 'a rtcnvram_scheme) option" where
  "newrtc_interface_io rtdatabit s = (
     let s1 = s\<lparr>phase := phase s + 1\<rparr> in
     if phase s1 \<le> 8 then Some (rtdatabit, s1\<lparr>rtc_addr := shift_in (rtc_addr s1) rtdatabit\<rparr>)
     else do {
       s2 \<leftarrow> (if phase s1 = 9 then newrtc_load s1 else Some s1);
       let (bit, s3) = rtc_shift rtdatabit s2;
       if phase s3 = 16 then do {
         s4 \<leftarrow> newrtc_store s3;
         Some (bit, s4\<lparr>rtc_addr := newrtc_next_addr (rtc_addr s4), phase := phase s4 - 8\<rparr>)
       }
       else Some (bit, s3)
     })"

definition newrtc_interface_start :: "'a rtcnvram_scheme \<Rightarrow> 'a rtcnvram_scheme" where
  "newrtc_interface_start s =
     (if tst (nrtc_control (newrtc s)) NRTC_START
      then let (t, s1) = Timing_GetUnixTime s in upd_newrtc (\<lambda>n. n\<lparr>timecntr := ucast t\<rparr>) s1
      else s)"

section \<open>Common interface\<close>

abbreviation new_chip :: "'a timing_scheme \<Rightarrow> bool" where
  "new_chip s \<equiv> nRTC (System (ConfigureParams s)) = MCCS1850"

definition rtc_interface_write :: "u8 \<Rightarrow> 'a rtcnvram_scheme \<Rightarrow> 'a rtcnvram_scheme option" where
  "rtc_interface_write rtdatabit s = do {
     (d, s1) \<leftarrow> (if new_chip s then newrtc_interface_io rtdatabit s else oldrtc_interface_io rtdatabit s);
     Some (s1\<lparr>rtc_data := d\<rparr>)
   }"

definition rtc_interface_read :: "'a rtcnvram_scheme \<Rightarrow> u8" where
  "rtc_interface_read s = rtc_data s"

definition rtc_interface_start :: "'a rtcnvram_scheme \<Rightarrow> 'a rtcnvram_scheme" where
  "rtc_interface_start s = (if new_chip s then newrtc_interface_start s else oldrtc_interface_start s)"

definition rtc_interface_reset :: "'a rtcnvram_scheme \<Rightarrow> 'a rtcnvram_scheme" where
  "rtc_interface_reset s = s\<lparr>phase := 0, rtc_addr := 0, rtc_val := 0, rtc_data := (if turbo s then 0 else 1)\<rparr>"

definition rtc_request_power_down :: "'a rtcnvram_scheme \<Rightarrow> 'a rtcnvram_scheme" where
  "rtc_request_power_down s = (if new_chip s then newrtc_request_power_down s else oldrtc_request_power_down s)"

definition rtc_stop_pdown_request :: "'a rtcnvram_scheme \<Rightarrow> 'a rtcnvram_scheme" where
  "rtc_stop_pdown_request s = (if new_chip s then s else oldrtc_stop_pdown_request s)"


section \<open>NVRAM\<close>



text \<open>One word of the checksum loop: 16-bit addition with end-around carry.\<close>

definition checksum_step :: "u8 list \<Rightarrow> int \<Rightarrow> nat \<Rightarrow> int" where
  "checksum_step m sum0 i =
     (let sm = sum0 + (push_bit 8 (uint (m ! i)) OR uint (m ! (i + 1)))
      in if sm \<ge> 0x10000 then sm - 0x10000 + 1 else sm)"

definition nvram_checksum :: "u8 list \<Rightarrow> u8 list" where
  "nvram_checksum m = (
     let sm = 0xFFFF - foldl (checksum_step m) 0 (map (\<lambda>k. 2 * k) [0..<15])
     in m[30 := word_of_int (drop_bit 8 (sm AND 0xFF00)), 31 := word_of_int (sm AND 0xFF)])"









lemmas oldrtc_io_defs = oldrtc_interface_io_def oldrtc_load_def rtc_shift_def oldrtc_store_def

lemmas newrtc_io_defs = newrtc_interface_io_def newrtc_load_def rtc_shift_def newrtc_store_def

section \<open>BCD\<close>

lemma BCD_roundtrips:
  "list_all (\<lambda>v. fromBCD (toBCD v) = v) [0..99]"
  "list_all (\<lambda>v. fromBCD (toBCDyr v) = v) [0..159]"
  "list_all (\<lambda>v. fromBCDhr (toBCDhr 0x00 v) = v \<and> fromBCDhr (toBCDhr 0x80 v) = v) [0..23]"
  by code_simp+

lemma fromBCD_toBCD: "0 \<le> v \<Longrightarrow> v < 100 \<Longrightarrow> fromBCD (toBCD v) = v"
  using BCD_roundtrips(1) by (simp add: list_all_iff)

lemma fromBCD_toBCDyr: "0 \<le> v \<Longrightarrow> v < 160 \<Longrightarrow> fromBCD (toBCDyr v) = v"
  using BCD_roundtrips(2) by (simp add: list_all_iff)

lemma fromBCDhr_toBCDhr: "0 \<le> v \<Longrightarrow> v < 24 \<Longrightarrow> fromBCDhr (toBCDhr h v) = v"
proof -
  have "toBCDhr h v = toBCDhr (if tst h 0x80 then 0x80 else 0x00) v"
    by (simp add: toBCDhr_def)
  then show "0 \<le> v \<Longrightarrow> v < 24 \<Longrightarrow> fromBCDhr (toBCDhr h v) = v"
    using BCD_roundtrips(3) by (simp add: list_all_iff)
qed

section \<open>Checksum\<close>








lemma length_nvram_checksum [simp]: "length (nvram_checksum m) = length m"
  by (simp add: nvram_checksum_def Let_def)


section \<open>The clock registers\<close>

definition sample_rtcnvram :: rtcnvram where
  "sample_rtcnvram = sysreg.extend sample_sysreg (rtcnvram.fields \<lparr>arr_size = 0x20000, arr_byte = of_nat\<rparr> 0 0 0 0
     \<lparr>ram = replicate 32 0, rtc_time = \<lparr>t_sec = 0, t_min = 0, t_hour = 0x80, t_wday = 0, t_mday = 0,
        t_month = 0, t_year = 0\<rparr>, rtc_alarm = \<lparr>a_sec = 0, a_min = 0, a_hour = 0\<rparr>,
        rtc_status = 0, clkctrl = 0, intctrl = 0\<rparr>
     \<lparr>timecntr = 0, alarmcntr = 0, nrtc_status = 0, nrtc_control = 0, ram2 = replicate 32 0\<rparr>)"

lemmas sample_rtc_defs = sample_rtcnvram_def sample_sysreg_def sample_cycint_def sample_timing_def
  sample_config_def timing.defs cycint.defs sysreg.defs rtcnvram.defs

lemma month_len_le: "m \<le> 11 \<Longrightarrow> month_len l m \<le> 31"
  using months [of m] by (auto simp: month_len_def)

lemma gmtime_ranges:
  "0 \<le> tm_sec (gmtime t) \<and> tm_sec (gmtime t) < 60" "0 \<le> tm_min (gmtime t) \<and> tm_min (gmtime t) < 60"
  "0 \<le> tm_hour (gmtime t) \<and> tm_hour (gmtime t) < 24" "0 \<le> tm_mon (gmtime t) \<and> tm_mon (gmtime t) \<le> 11"
  "1 \<le> tm_mday (gmtime t) \<and> tm_mday (gmtime t) \<le> 31"
proof -
  have s: "0 \<le> t mod 86400" "t mod 86400 < 86400" by simp_all
  then have "0 \<le> t mod 86400 div 3600" "t mod 86400 div 3600 < 24"
    by (simp_all add: pos_imp_zdiv_nonneg_iff div_less_iff_less_mult [of 3600] del: pos_mod_bound)
  then show "0 \<le> tm_sec (gmtime t) \<and> tm_sec (gmtime t) < 60" "0 \<le> tm_min (gmtime t) \<and> tm_min (gmtime t) < 60"
    "0 \<le> tm_hour (gmtime t) \<and> tm_hour (gmtime t) < 24"
    by (simp_all add: gmtime_def Let_def case_prod_beta)
  show "0 \<le> tm_mon (gmtime t) \<and> tm_mon (gmtime t) \<le> 11" using gmtime_month_day by blast
  have "nat (tm_mon (gmtime t)) \<le> 11" using gmtime_month_day [of t] by auto
  from month_len_le [OF this] show "1 \<le> tm_mday (gmtime t) \<and> tm_mday (gmtime t) \<le> 31"
    using gmtime_month_day [of t] by (meson order_trans)
qed

lemma timegm_wday: "timegm (t\<lparr>tm_wday := w\<rparr>) = timegm t"
  by (simp add: timegm_def Let_def)

text \<open>
  C19. The old chip's registers hold the time without loss: reading the time into the BCD
  registers and setting the clock from them leaves the Unix time as it was, in the 12 and
  in the 24 hour format, for the years 1900 to 2059 (clock on cycle time).
\<close>

theorem oldrtc_get_set_time:
  assumes "\<not> currentIsRealtime s" "\<not> enableRealtime s"
    and "t = fst (Timing_GetUnixTime s)"
    and "0 \<le> tm_year (gmtime (sint t))" "tm_year (gmtime (sint t)) < 160"
  shows "fst (Timing_GetUnixTime (oldrtc_set_time (oldrtc_get_time s))) = t"
proof -
  let ?g = "gmtime (sint t)"
  have get: "Timing_GetUnixTimeStruct s = (?g, s)"
    using assms(1,2) by (simp add: assms(3) Timing_GetUnixTimeStruct_def Timing_GetUnixTime_def
        Timing_GetTimeSec_def Timing_GetTime_cycles)
  let ?r = "rtc_time (rtc (oldrtc_get_time s))"
  define tm where "tm = \<lparr>tm_sec = fromBCD (t_sec ?r), tm_min = fromBCD (t_min ?r),
       tm_hour = fromBCDhr (t_hour ?r), tm_mday = fromBCD (t_mday ?r), tm_mon = fromBCD (t_month ?r) - 1,
       tm_year = fromBCD (t_year ?r), tm_wday = fromBCD (t_wday ?r) - 1\<rparr>"
  have "tm = ?g\<lparr>tm_wday := fromBCD (t_wday ?r) - 1\<rparr>"
    using gmtime_ranges [of "sint t"] assms(4,5)
    by (simp add: tm_def oldrtc_get_time_def get fromBCD_toBCD fromBCD_toBCDyr fromBCDhr_toBCDhr)
  then have "word_of_int (timegm tm) = t"
    by (simp add: timegm_wday timegm_gmtime)
  moreover have "oldrtc_set_time (oldrtc_get_time s) = Timing_SetUnixTime (word_of_int (timegm tm)) (oldrtc_get_time s)"
    by (simp add: oldrtc_set_time_def tm_def Let_def Timing_SetUnixTimeStruct_def)
  ultimately show ?thesis
    using assms(1,2) by (simp add: oldrtc_get_time_def get Timing_SetUnixTime_def Timing_GetUnixTime_def
        Timing_GetTimeSec_def Timing_GetTime_cycles)
qed

theorem oldrtc_get_set_time_witness:
  "\<not> currentIsRealtime sample_rtcnvram \<and> \<not> enableRealtime sample_rtcnvram
   \<and> fst (Timing_GetUnixTime sample_rtcnvram) = 552225600
   \<and> fst (Timing_GetUnixTime (oldrtc_set_time (oldrtc_get_time sample_rtcnvram))) = 552225600"
proof -
  have h: "\<not> currentIsRealtime sample_rtcnvram" "\<not> enableRealtime sample_rtcnvram"
    by (simp_all add: sample_rtc_defs)
  moreover have t: "fst (Timing_GetUnixTime sample_rtcnvram) = 552225600"
    using h by (simp add: Timing_GetUnixTime_def Timing_GetTimeSec_def Timing_GetTime_cycles) (simp add: sample_rtc_defs)
  moreover have "sint (552225600 :: u64) = 552225600" by simp
  moreover have "tm_year (gmtime 552225600) = 87" by code_simp
  ultimately show ?thesis
    using oldrtc_get_set_time [of sample_rtcnvram 552225600] by simp
qed

section \<open>The serial protocol\<close>

text \<open>A transfer as the guest makes it: the bits of a byte, most significant first.\<close>

definition byte_bits :: "u8 \<Rightarrow> bool list" where
  "byte_bits v = map (bit v) [7, 6, 5, 4, 3, 2, 1, 0]"

fun rtc_send :: "bool list \<Rightarrow> 'a rtcnvram_scheme \<Rightarrow> 'a rtcnvram_scheme option" where
  "rtc_send [] s = Some s"
| "rtc_send (b # bs) s = do { s1 \<leftarrow> rtc_interface_write (if b then 1 else 0) s; rtc_send bs s1 }"

fun rtc_receive :: "nat \<Rightarrow> 'a rtcnvram_scheme \<Rightarrow> (bool list \<times> 'a rtcnvram_scheme) option" where
  "rtc_receive 0 s = Some ([], s)"
| "rtc_receive (Suc n) s = do {
     s1 \<leftarrow> rtc_interface_write 0 s;
     (bs, s2) \<leftarrow> rtc_receive n s1;
     Some ((rtc_interface_read s1 \<noteq> 0) # bs, s2) }"

definition push_bits :: "bool list \<Rightarrow> u8 \<Rightarrow> u8" where
  "push_bits bs x = foldl (\<lambda>x b. push_bit 1 x OR (if b then 1 else 0)) x bs"

lemma push_bits_simps [simp]:
  "push_bits [] x = x" "push_bits (b # bs) x = push_bits bs (push_bit 1 x OR (if b then 1 else 0))"
  by (simp_all add: push_bits_def)

lemma bits8: "n < 8 \<Longrightarrow> n = 0 \<or> n = 1 \<or> n = 2 \<or> n = 3 \<or> n = 4 \<or> n = 5 \<or> n = 6 \<or> n = (7::nat)"
  by linarith

lemma push_byte_bits: "push_bits (byte_bits v) x = v"
proof (rule bit_word_eqI)
  fix n assume "n < LENGTH(8)"
  then have "n = 0 \<or> n = 1 \<or> n = 2 \<or> n = 3 \<or> n = 4 \<or> n = 5 \<or> n = 6 \<or> n = 7" using bits8 by simp
  moreover have "256 * x = 0"
  proof -
    have "256 * x = push_bit 8 x" by (simp add: push_bit_eq_mult)
    also have "\<dots> = 0" by (rule bit_word_eqI) (simp add: bit_push_bit_iff)
    finally show ?thesis .
  qed
  ultimately show "bit (push_bits (byte_bits v) x) n \<longleftrightarrow> bit v n"
    by (elim disjE) (simp_all add: byte_bits_def bit_or_iff bit_push_bit_iff bit_1_iff)
qed

lemma rtc_send_append: "rtc_send (as @ bs) s = do { s1 \<leftarrow> rtc_send as s; rtc_send bs s1 }"
  by (induction as arbitrary: s) (auto split: Option.bind_split)

lemma rtc_send_address:
  assumes "phase s + length bs \<le> 8"
  shows "\<exists>d. rtc_send bs s = Some (s\<lparr>phase := phase s + length bs, rtc_addr := push_bits bs (rtc_addr s), rtc_data := d\<rparr>)"
  using assms
proof (induction bs arbitrary: s)
  case Nil
  show ?case by (rule exI [of _ "rtc_data s"]) simp
next
  case (Cons b bs)
  let ?s = "s\<lparr>phase := phase s + 1, rtc_addr := push_bit 1 (rtc_addr s) OR (if b then 1 else 0),
    rtc_data := (if b then 1 else 0)\<rparr>"
  have "rtc_interface_write (if b then 1 else 0) s = Some ?s"
    using Cons.prems by (simp add: rtc_interface_write_def newrtc_io_defs oldrtc_io_defs Let_def)
  then show ?case using Cons.IH [of ?s] Cons.prems by simp
qed

lemma rtc_send_data:
  assumes "8 \<le> phase s" "phase s + length bs < 16" "tst (rtc_addr s) RTC_ADDR_WRITE"
  shows "\<exists>d. rtc_send bs s = Some (s\<lparr>phase := phase s + length bs, rtc_val := push_bits bs (rtc_val s), rtc_data := d\<rparr>)"
  using assms
proof (induction bs arbitrary: s)
  case Nil
  show ?case by (rule exI [of _ "rtc_data s"]) simp
next
  case (Cons b bs)
  let ?s = "s\<lparr>phase := phase s + 1, rtc_val := push_bit 1 (rtc_val s) OR (if b then 1 else 0),
    rtc_data := (if b then 1 else 0)\<rparr>"
  have "rtc_interface_write (if b then 1 else 0) s = Some ?s"
    using Cons.prems by (simp add: rtc_interface_write_def newrtc_io_defs oldrtc_io_defs Let_def)
  then show ?case using Cons.IH [of ?s] Cons.prems by simp
qed

text \<open>The bits of the value read leave the chip in order.\<close>

lemma tst_push_bit_1: "k < 8 \<Longrightarrow> tst (v::u8) (push_bit k 1) \<longleftrightarrow> bit v k"
  by (simp add: push_bit_eq_mult tst_power2)

lemma rtc_receive_data:
  assumes "8 < phase s" "phase s + n < 16" "\<not> tst (rtc_addr s) RTC_ADDR_WRITE"
  shows "\<exists>d. rtc_receive n s = Some (map (\<lambda>k. bit (rtc_val s) (15 - phase s - k)) [0..<n],
    s\<lparr>phase := phase s + n, rtc_data := d\<rparr>)"
  using assms
proof (induction n arbitrary: s)
  case 0
  show ?case by (rule exI [of _ "rtc_data s"]) simp
next
  case (Suc n)
  let ?b = "bit (rtc_val s) (15 - phase s)"
  let ?s = "s\<lparr>phase := phase s + 1, rtc_data := (if ?b then 1 else 0)\<rparr>"
  have "tst (rtc_val s) (push_bit (15 - phase s) 1) \<longleftrightarrow> ?b" using Suc.prems by (intro tst_push_bit_1) simp
  then have w: "rtc_interface_write 0 s = Some ?s"
    using Suc.prems by (simp add: rtc_interface_write_def newrtc_io_defs oldrtc_io_defs Let_def)
  have "map (\<lambda>k. bit (rtc_val s) (15 - phase s - k)) [0..<Suc n]
    = ?b # map (\<lambda>k. bit (rtc_val s) (15 - (phase s + 1) - k)) [0..<n]"
    by (simp add: upt_conv_Cons map_Suc_upt [symmetric] del: upt_Suc)
  with w show ?case using Suc.IH [of ?s] Suc.prems by (auto simp: rtc_interface_read_def)
qed

text \<open>
  The two halves of an access to the RAM of the new chip, with the interface just reset:
  address and value, or address and eight reads.
\<close>

definition newrtc_ram :: "u8 \<Rightarrow> 'a rtcnvram_scheme \<Rightarrow> u8 list" where
  "newrtc_ram a s = (if tst a RTC_ADDR_NEWRAM then ram2 (newrtc s) else ram (rtc s))"

definition newrtc_ram_upd :: "u8 \<Rightarrow> u8 list \<Rightarrow> 'a rtcnvram_scheme \<Rightarrow> 'a rtcnvram_scheme" where
  "newrtc_ram_upd a m s = (if tst a RTC_ADDR_NEWRAM then upd_newrtc (\<lambda>r. r\<lparr>ram2 := m\<rparr>) s
     else upd_rtc (\<lambda>r. r\<lparr>ram := m\<rparr>) s)"

lemma length_byte_bits [simp]: "length (byte_bits v) = 8"
  by (simp add: byte_bits_def)

definition high_bits :: "u8 \<Rightarrow> bool list" where
  "high_bits v = map (bit v) [7, 6, 5, 4, 3, 2, 1]"

lemma length_high_bits [simp]: "length (high_bits v) = 7"
  by (simp add: high_bits_def)

lemma byte_bits_split: "byte_bits v = high_bits v @ [bit v 0]"
  by (simp add: byte_bits_def high_bits_def)

lemma push_bits_append: "push_bits (as @ bs) x = push_bits bs (push_bits as x)"
  by (simp add: push_bits_def)

lemma newrtc_ram_write:
  assumes "new_chip s" "phase s = 0" "tst a RTC_ADDR_WRITE" "\<not> tst a RTC_ADDR_CLOCK"
    and "unat (a AND 0x1F) < length (newrtc_ram a s)"
  shows "\<exists>d. rtc_send (byte_bits a @ byte_bits v) s =
    Some ((newrtc_ram_upd a ((newrtc_ram a s)[unat (a AND 0x1F) := v]) s)
      \<lparr>phase := 8, rtc_addr := newrtc_next_addr a, rtc_val := v, rtc_data := d\<rparr>)"
proof -
  obtain d1 where d1: "rtc_send (byte_bits a) s = Some (s\<lparr>phase := 8, rtc_addr := a, rtc_data := d1\<rparr>)"
    using rtc_send_address [of s "byte_bits a"] assms(2) by (auto simp: push_byte_bits)
  let ?s1 = "s\<lparr>phase := 8, rtc_addr := a, rtc_data := d1\<rparr>"
  define x where "x = push_bits (high_bits v) (rtc_val s)"
  obtain d2 where d2: "rtc_send (high_bits v) ?s1 =
      Some (?s1\<lparr>phase := 15, rtc_val := x, rtc_data := d2\<rparr>)"
    using rtc_send_data [of ?s1 "high_bits v"] assms(3) by (auto simp: x_def)
  let ?s2 = "?s1\<lparr>phase := 15, rtc_val := x, rtc_data := d2\<rparr>"
  have v: "push_bit 1 x OR (if bit v 0 then 1 else 0) = v"
    using push_byte_bits [of v "rtc_val s"] unfolding byte_bits_split push_bits_append x_def by simp
  have io: "newrtc_interface_io (if bit v 0 then 1 else 0) ?s2 =
    Some (if bit v 0 then 1 else 0, (newrtc_ram_upd a ((newrtc_ram a s)[unat (a AND 0x1F) := v]) ?s2)
      \<lparr>phase := 8, rtc_addr := newrtc_next_addr a, rtc_val := v\<rparr>)"
    using assms v
    by (cases "tst a RTC_ADDR_NEWRAM"; cases "bit v 0")
      (simp_all add: newrtc_io_defs Let_def newrtc_ram_def newrtc_ram_upd_def)
  have "rtc_send [bit v 0] ?s2 = Some ((newrtc_ram_upd a ((newrtc_ram a s)[unat (a AND 0x1F) := v]) ?s2)
      \<lparr>phase := 8, rtc_addr := newrtc_next_addr a, rtc_val := v, rtc_data := (if bit v 0 then 1 else 0)\<rparr>)"
    using assms(1) io by (cases "bit v 0") (simp_all add: rtc_interface_write_def)
  then have "rtc_send (byte_bits v) ?s1 = Some ((newrtc_ram_upd a ((newrtc_ram a s)[unat (a AND 0x1F) := v]) ?s2)
      \<lparr>phase := 8, rtc_addr := newrtc_next_addr a, rtc_val := v, rtc_data := (if bit v 0 then 1 else 0)\<rparr>)"
    unfolding byte_bits_split rtc_send_append d2 Option.bind.bind_lunit .
  then have "rtc_send (byte_bits a @ byte_bits v) s = Some ((newrtc_ram_upd a ((newrtc_ram a s)[unat (a AND 0x1F) := v]) ?s2)
      \<lparr>phase := 8, rtc_addr := newrtc_next_addr a, rtc_val := v, rtc_data := (if bit v 0 then 1 else 0)\<rparr>)"
    unfolding rtc_send_append d1 Option.bind.bind_lunit .
  then show ?thesis
    by (intro exI [of _ "if bit v 0 then 1 else 0"]) (cases "tst a RTC_ADDR_NEWRAM"; simp add: newrtc_ram_upd_def)
qed

lemma rtc_receive_append:
  "rtc_receive (m + n) s = do { (as, s1) \<leftarrow> rtc_receive m s; (bs, s2) \<leftarrow> rtc_receive n s1; Some (as @ bs, s2) }"
  by (induction m arbitrary: s) (auto split: Option.bind_splits)

lemma newrtc_ram_read:
  assumes "new_chip s" "phase s = 0" "\<not> tst a RTC_ADDR_WRITE" "\<not> tst a RTC_ADDR_CLOCK"
    and "unat (a AND 0x1F) < length (newrtc_ram a s)"
    and "v = newrtc_ram a s ! unat (a AND 0x1F)"
  shows "\<exists>s1 s2. rtc_send (byte_bits a) s = Some s1 \<and> rtc_receive 8 s1 = Some (byte_bits v, s2)"
proof -
  obtain d1 where d1: "rtc_send (byte_bits a) s = Some (s\<lparr>phase := 8, rtc_addr := a, rtc_data := d1\<rparr>)"
    using rtc_send_address [of s "byte_bits a"] assms(2) by (auto simp: push_byte_bits)
  let ?s1 = "s\<lparr>phase := 8, rtc_addr := a, rtc_data := d1\<rparr>"
  let ?s2 = "s\<lparr>phase := 9, rtc_addr := a, rtc_val := v, rtc_data := (if bit v 7 then 1 else 0)\<rparr>"
  have "tst v (push_bit 7 1) \<longleftrightarrow> bit v 7" by (rule tst_push_bit_1) simp
  then have w1: "rtc_interface_write 0 ?s1 = Some ?s2"
    using assms by (cases "tst a RTC_ADDR_NEWRAM")
      (simp_all add: rtc_interface_write_def newrtc_io_defs Let_def newrtc_ram_def)
  obtain d3 where r: "rtc_receive 6 ?s2 = Some (map (\<lambda>k. bit v (6 - k)) [0..<6], ?s2\<lparr>phase := 15, rtc_data := d3\<rparr>)"
    using rtc_receive_data [of ?s2 6] assms(3) by auto
  let ?s3 = "?s2\<lparr>phase := 15, rtc_data := d3\<rparr>"
  obtain s4 where w2: "rtc_interface_write 0 ?s3 = Some s4" "rtc_interface_read s4 = (if bit v 0 then 1 else 0)"
    using assms(1,3) tst_push_bit_1 [of 0 v]
    by (simp add: rtc_interface_write_def newrtc_io_defs Let_def rtc_interface_read_def)
  have b: "map (\<lambda>k. bit v (6 - k)) [0..<6] = [bit v 6, bit v 5, bit v 4, bit v 3, bit v 2, bit v 1]"
    by (simp add: upt_conv_Cons)
  have "rtc_receive (1 + (6 + 1)) ?s1 = Some ([bit v 7] @ map (\<lambda>k. bit v (6 - k)) [0..<6] @ [bit v 0], s4)"
    unfolding rtc_receive_append using r w1 w2 by (simp add: rtc_interface_read_def)
  then have "rtc_receive 8 ?s1 = Some (byte_bits v, s4)"
    unfolding b byte_bits_def by simp
  then show ?thesis using d1 by blast
qed

text \<open>
  C18. A byte written to the RAM of the new chip through the serial interface is read back
  through it: for each of the 64 addresses (bit 5 clear, bit 6 selecting the bank), after
  sending the address with the write bit and the eight bits of \<open>v\<close>, and resetting the
  interface, sending the address and clocking eight times delivers the bits of \<open>v\<close>; and no
  other byte of either bank changes.
\<close>

theorem newrtc_ram_roundtrip:
  assumes "new_chip s" "length (ram (rtc s)) = 32" "length (ram2 (newrtc s)) = 32"
    and "\<not> tst a RTC_ADDR_WRITE" "\<not> tst a RTC_ADDR_CLOCK"
  shows "\<exists>s1 s2 s3. rtc_send (byte_bits (a OR RTC_ADDR_WRITE) @ byte_bits v) (rtc_interface_reset s) = Some s1
    \<and> newrtc_ram a s1 = (newrtc_ram a s)[unat (a AND 0x1F) := v]
    \<and> newrtc_ram (a XOR RTC_ADDR_NEWRAM) s1 = newrtc_ram (a XOR RTC_ADDR_NEWRAM) s
    \<and> rtc_send (byte_bits a) (rtc_interface_reset s1) = Some s2
    \<and> rtc_receive 8 s2 = Some (byte_bits v, s3)"
proof -
  let ?a = "a OR RTC_ADDR_WRITE" and ?r = "rtc_interface_reset s"
  have m: "?a AND 0x1F = a AND 0x1F" "tst ?a RTC_ADDR_NEWRAM \<longleftrightarrow> tst a RTC_ADDR_NEWRAM"
    "tst ?a RTC_ADDR_WRITE" "tst ?a RTC_ADDR_CLOCK \<longleftrightarrow> tst a RTC_ADDR_CLOCK"
    by (simp_all add: bit.conj_disj_distrib2 tst_def)
  have x: "tst (a XOR RTC_ADDR_NEWRAM) RTC_ADDR_NEWRAM \<longleftrightarrow> \<not> tst a RTC_ADDR_NEWRAM"
  proof -
    have "bit (0x40::u8) 6" by code_simp
    then show ?thesis using tst_power2 [of a 6] tst_power2 [of "a XOR 0x40" 6] by (simp add: bit_xor_iff)
  qed
  have i: "unat (a AND 0x1F) < 32"
    using word_and_le1 [of a "0x1F"] by (simp add: word_le_nat_alt and.commute)
  have r: "new_chip ?r" "phase ?r = 0" "newrtc_ram b ?r = newrtc_ram b s" for b
    using assms by (simp_all add: rtc_interface_reset_def newrtc_ram_def)
  have len: "length (newrtc_ram a s) = 32" using assms by (simp add: newrtc_ram_def)
  have eq: "newrtc_ram ?a ?r = newrtc_ram a s" "newrtc_ram_upd ?a = newrtc_ram_upd a"
    using r m by (simp_all add: newrtc_ram_def newrtc_ram_upd_def fun_eq_iff)
  obtain d where d: "rtc_send (byte_bits ?a @ byte_bits v) ?r =
      Some ((newrtc_ram_upd a ((newrtc_ram a s)[unat (a AND 0x1F) := v]) ?r)
        \<lparr>phase := 8, rtc_addr := newrtc_next_addr ?a, rtc_val := v, rtc_data := d\<rparr>)"
    using newrtc_ram_write [of ?r ?a v] unfolding eq m(1) using r(1,2) m(3,4) assms(5) i len by auto
  let ?s1 = "(newrtc_ram_upd a ((newrtc_ram a s)[unat (a AND 0x1F) := v]) ?r)
        \<lparr>phase := 8, rtc_addr := newrtc_next_addr ?a, rtc_val := v, rtc_data := d\<rparr>"
  have s1: "newrtc_ram a ?s1 = (newrtc_ram a s)[unat (a AND 0x1F) := v]"
    "newrtc_ram (a XOR RTC_ADDR_NEWRAM) ?s1 = newrtc_ram (a XOR RTC_ADDR_NEWRAM) s"
    "new_chip ?s1"
    using assms x by (simp_all add: newrtc_ram_def newrtc_ram_upd_def rtc_interface_reset_def)
  let ?q = "rtc_interface_reset ?s1"
  have q: "new_chip ?q" "phase ?q = 0" "newrtc_ram a ?q = newrtc_ram a ?s1"
    using s1(3) by (simp_all add: rtc_interface_reset_def newrtc_ram_def)
  have "v = newrtc_ram a ?q ! unat (a AND 0x1F)" using q(3) s1(1) i len by simp
  from newrtc_ram_read [OF q(1,2) assms(4,5) _ this] obtain s2 s3 where
    "rtc_send (byte_bits a) ?q = Some s2" "rtc_receive 8 s2 = Some (byte_bits v, s3)"
    using q(3) s1(1) i len by auto
  with d s1 show ?thesis by blast
qed

theorem newrtc_ram_roundtrip_witness:
  "new_chip sample_rtcnvram \<and> length (ram (rtc sample_rtcnvram)) = 32
   \<and> length (ram2 (newrtc sample_rtcnvram)) = 32 \<and> \<not> tst (0x45::u8) RTC_ADDR_WRITE
   \<and> \<not> tst (0x45::u8) RTC_ADDR_CLOCK
   \<and> (\<exists>s1 s2 s3. rtc_send (byte_bits (0x45 OR RTC_ADDR_WRITE) @ byte_bits 0xA7) (rtc_interface_reset sample_rtcnvram) = Some s1
    \<and> rtc_send (byte_bits 0x45) (rtc_interface_reset s1) = Some s2
    \<and> rtc_receive 8 s2 = Some (byte_bits 0xA7, s3))"
proof -
  have h: "new_chip sample_rtcnvram" "length (ram (rtc sample_rtcnvram)) = 32"
    "length (ram2 (newrtc sample_rtcnvram)) = 32" "\<not> tst (0x45::u8) RTC_ADDR_WRITE" "\<not> tst (0x45::u8) RTC_ADDR_CLOCK"
    by (simp_all add: sample_rtc_defs tst_def)
  from newrtc_ram_roundtrip [OF this, of "0xA7"] h show ?thesis by blast
qed

section \<open>Array bounds\<close>

lemma set_interrupt_rtc [simp]:
  "rtc (set_interrupt i st s) = rtc s" "newrtc (set_interrupt i st s) = newrtc s"
  "phase (set_interrupt i st s) = phase s" "rtc_addr (set_interrupt i st s) = rtc_addr s"
  by (simp_all add: set_interrupt_def scr_get_interrupt_level_def M68000_CheckInterrupt_def Let_def)

lemma Timing_SetUnixTime_rtc [simp]:
  "rtc (Timing_SetUnixTime t s) = rtc s" "newrtc (Timing_SetUnixTime t s) = newrtc s"
  "phase (Timing_SetUnixTime t s) = phase s" "rtc_addr (Timing_SetUnixTime t s) = rtc_addr s"
  "ConfigureParams (Timing_SetUnixTime t s) = ConfigureParams s"
  by (simp_all add: Timing_SetUnixTime_def Timing_GetTimeSec_def Timing_GetTime_def Timing_GetRealTime_def Let_def)

lemma newrtc_put_clock_frame [simp]:
  "ram (rtc (newrtc_put_clock v s)) = ram (rtc s)" "ram2 (newrtc (newrtc_put_clock v s)) = ram2 (newrtc s)"
  "ConfigureParams (newrtc_put_clock v s) = ConfigureParams s"
  by (simp_all add: newrtc_put_clock_def newrtc_check_interrupt_def Main_RequestQuit_def M68000_Stop_def Let_def)

lemma newrtc_interface_io_total:
  assumes "length (ram (rtc s)) = 32" "length (ram2 (newrtc s)) = 32"
  shows "\<exists>d s'. newrtc_interface_io b s = Some (d, s') \<and> length (ram (rtc s')) = 32
    \<and> length (ram2 (newrtc s')) = 32 \<and> ConfigureParams s' = ConfigureParams s"
proof -
  have i: "unat (a AND 0x1F) < 32" for a :: u8
    using word_and_le1 [of a "0x1F"] by (simp add: word_le_nat_alt and.commute)
  show ?thesis
    using assms i by (simp add: newrtc_io_defs Let_def case_prod_beta)
qed


text \<open>
  C23. With the new chip no bit sequence reaches outside the RAM arrays: in every state with
  two banks of 32 bytes, whatever the phase and the address are, \<open>rtc_interface_write\<close>
  returns, and the banks keep their size.
\<close>

theorem newrtc_write_in_bounds:
  assumes "new_chip s" "length (ram (rtc s)) = 32" "length (ram2 (newrtc s)) = 32"
  shows "\<exists>s'. rtc_interface_write b s = Some s' \<and> new_chip s'
    \<and> length (ram (rtc s')) = 32 \<and> length (ram2 (newrtc s')) = 32"
  using newrtc_interface_io_total [OF assms(2,3), of b] assms(1)
  by (auto simp: rtc_interface_write_def)

theorem newrtc_write_in_bounds_witness:
  "new_chip sample_rtcnvram \<and> length (ram (rtc sample_rtcnvram)) = 32 \<and> length (ram2 (newrtc sample_rtcnvram)) = 32
   \<and> (\<exists>s'. rtc_interface_write 1 sample_rtcnvram = Some s' \<and> new_chip s'
      \<and> length (ram (rtc s')) = 32 \<and> length (ram2 (newrtc s')) = 32)"
proof -
  have "new_chip sample_rtcnvram" "length (ram (rtc sample_rtcnvram)) = 32" "length (ram2 (newrtc sample_rtcnvram)) = 32"
    by (simp_all add: sample_rtc_defs)
  with newrtc_write_in_bounds [OF this, of 1] show ?thesis by blast
qed

lemma oldrtc_get_clock_frame [simp]:
  "rtc_addr (snd (oldrtc_get_clock s)) = rtc_addr s" "phase (snd (oldrtc_get_clock s)) = phase s"
  by (simp_all add: oldrtc_get_clock_def Let_def)

lemma old_ram_index: "\<not> tst (a::u8) 0x20 \<Longrightarrow> unat (a AND 0x7F) < 32 \<longleftrightarrow> \<not> tst a 0x40"
proof -
  have "\<not> tst (a::u8) 0x20 \<longrightarrow> (unat (a AND 0x7F) < 32 \<longleftrightarrow> \<not> tst a 0x40)"
    by (rule all_u8) code_simp
  then show "\<not> tst a 0x20 \<Longrightarrow> unat (a AND 0x7F) < 32 \<longleftrightarrow> \<not> tst a 0x40" by blast
qed

text \<open>
  C24. With the old chip a guest can make the emulator read outside \<open>rtc.ram\<close>: after the
  interface is reset and an address byte is sent, the first data bit of a read is taken
  from outside the 32 bytes exactly when bit 6 of the address is set and bit 5 is clear
  (addresses \<open>0x40\<close> to \<open>0x5F\<close>), because the index is the address masked with \<open>0x7F\<close>.
\<close>

theorem oldrtc_read_out_of_bounds:
  assumes "\<not> new_chip s" "length (ram (rtc s)) = 32" "\<not> tst a RTC_ADDR_WRITE"
  shows "rtc_send (byte_bits a @ [b]) (rtc_interface_reset s) = None \<longleftrightarrow> tst a 0x40 \<and> \<not> tst a RTC_ADDR_CLOCK"
proof -
  let ?r = "rtc_interface_reset s"
  obtain d1 where d1: "rtc_send (byte_bits a) ?r = Some (?r\<lparr>phase := 8, rtc_addr := a, rtc_data := d1\<rparr>)"
    using rtc_send_address [of ?r "byte_bits a"] by (auto simp: push_byte_bits rtc_interface_reset_def)
  let ?s1 = "?r\<lparr>phase := 8, rtc_addr := a, rtc_data := d1\<rparr>"
  have io: "oldrtc_interface_io x ?s1 = None \<longleftrightarrow> tst a 0x40 \<and> \<not> tst a RTC_ADDR_CLOCK" for x
    using assms old_ram_index [of a]
    by (auto simp: oldrtc_io_defs Let_def case_prod_beta rtc_interface_reset_def arr_get_def)
  have "rtc_send [b] ?s1 = None \<longleftrightarrow> oldrtc_interface_io (if b then 1 else 0) ?s1 = None"
    using assms(1) by (auto simp: rtc_interface_write_def rtc_interface_reset_def bind_eq_None_conv split: prod.splits)
  then show ?thesis unfolding rtc_send_append d1 Option.bind.bind_lunit io .
qed

theorem oldrtc_read_out_of_bounds_witness:
  "let s = sample_rtcnvram\<lparr>ConfigureParams := sample_config\<lparr>System := (System sample_config)\<lparr>nRTC := MC68HC68T1\<rparr>\<rparr>\<rparr>
   in \<not> new_chip s \<and> length (ram (rtc s)) = 32 \<and> rtc_send (byte_bits 0x40 @ [True]) (rtc_interface_reset s) = None"
proof -
  let ?s = "sample_rtcnvram\<lparr>ConfigureParams := sample_config\<lparr>System := (System sample_config)\<lparr>nRTC := MC68HC68T1\<rparr>\<rparr>\<rparr>"
  have h: "\<not> new_chip ?s" "length (ram (rtc ?s)) = 32" "\<not> tst (0x40::u8) RTC_ADDR_WRITE"
    by (simp_all add: sample_rtc_defs tst_def)
  from oldrtc_read_out_of_bounds [OF this, of True] h show ?thesis by (simp add: Let_def tst_def)
qed

end
