(* ===== verification/SysReg.thy ===== *)
theory SysReg
  imports RtcNvram
begin

text \<open>
  The other registers of \<open>sysReg.c\<close>: the system control registers 1 and 2 with the software
  interrupts, the lines of the real-time clock and the DSP control bits, the hardclock
  (a periodic timer on top of the event scheduler), the event counter, and the registers
  of the video hardware. A write handler gets the byte or long the guest writes, a read
  handler returns the value the guest reads. The front panel LED is not modelled.
\<close>

section \<open>Operations\<close>

abbreviation (input) TYPE_NEXT :: u32 where "TYPE_NEXT \<equiv> 0"
abbreviation (input) TYPE_SLAB :: u32 where "TYPE_SLAB \<equiv> 1"
abbreviation (input) TYPE_CUBE :: u32 where "TYPE_CUBE \<equiv> 2"
abbreviation (input) TYPE_COLOR :: u32 where "TYPE_COLOR \<equiv> 3"
abbreviation (input) TYPE_TURBO :: u32 where "TYPE_TURBO \<equiv> 4"
abbreviation (input) SLOT_ID :: u32 where "SLOT_ID \<equiv> 0"
abbreviation (input) DMA_REVISION :: u32 where "DMA_REVISION \<equiv> 1"
abbreviation (input) BOARD_REV0 :: u32 where "BOARD_REV0 \<equiv> 0"
abbreviation (input) BOARD_REV1 :: u32 where "BOARD_REV1 \<equiv> 1"
abbreviation (input) MEM_120NS :: u32 where "MEM_120NS \<equiv> 0"
abbreviation (input) MEM_100NS :: u32 where "MEM_100NS \<equiv> 0"
abbreviation (input) MEM_80NS :: u32 where "MEM_80NS \<equiv> 2"
abbreviation (input) MEM_60NS :: u32 where "MEM_60NS \<equiv> 3"
abbreviation (input) CPU_16MHZ :: u32 where "CPU_16MHZ \<equiv> 0"
abbreviation (input) CPU_20MHZ :: u32 where "CPU_20MHZ \<equiv> 1"
abbreviation (input) CPU_25MHZ :: u32 where "CPU_25MHZ \<equiv> 2"
abbreviation (input) CPU_33MHZ :: u32 where "CPU_33MHZ \<equiv> 3"

abbreviation (input) SCR2_DSP_RESET :: u8 where "SCR2_DSP_RESET \<equiv> 0x80"
abbreviation (input) SCR2_DSP_BLK_END :: u8 where "SCR2_DSP_BLK_END \<equiv> 0x40"
abbreviation (input) SCR2_DSP_UNPKD :: u8 where "SCR2_DSP_UNPKD \<equiv> 0x20"
abbreviation (input) SCR2_SOFTINT2 :: u8 where "SCR2_SOFTINT2 \<equiv> 0x02"
abbreviation (input) SCR2_SOFTINT1 :: u8 where "SCR2_SOFTINT1 \<equiv> 0x01"
abbreviation (input) SCR2_RTDATA :: u8 where "SCR2_RTDATA \<equiv> 0x04"
abbreviation (input) SCR2_RTCLK :: u8 where "SCR2_RTCLK \<equiv> 0x02"
abbreviation (input) SCR2_RTCE :: u8 where "SCR2_RTCE \<equiv> 0x01"
abbreviation (input) SCR2_ROM :: u8 where "SCR2_ROM \<equiv> 0x80"
abbreviation (input) SCR2_DSP_MEM_EN :: u8 where "SCR2_DSP_MEM_EN \<equiv> 0x20"

definition system_type :: "CNF_SYSTEM \<Rightarrow> u32" where
  "system_type sys = (case nMachineType sys of
     NEXT_CUBE030 \<Rightarrow> TYPE_NEXT
   | NEXT_CUBE040 \<Rightarrow> TYPE_CUBE
   | NEXT_STATION \<Rightarrow> (if bColor sys then TYPE_COLOR else TYPE_SLAB))"

definition board_rev :: "CNF_SYSTEM \<Rightarrow> u32" where
  "board_rev sys = (case nMachineType sys of
     NEXT_CUBE030 \<Rightarrow> BOARD_REV1
   | NEXT_CUBE040 \<Rightarrow> (if nRTC sys = MCCS1850 then BOARD_REV1 else BOARD_REV0)
   | NEXT_STATION \<Rightarrow> (if nRTC sys = MCCS1850 then BOARD_REV1 else BOARD_REV0))"

definition memory_speed :: "MEMORY_SPEED \<Rightarrow> u32" where
  "memory_speed m = (case m of
     MEMORY_60NS \<Rightarrow> MEM_60NS | MEMORY_80NS \<Rightarrow> MEM_80NS | MEMORY_100NS \<Rightarrow> MEM_120NS | MEMORY_120NS \<Rightarrow> MEM_120NS)"

definition cpu_speed :: "int \<Rightarrow> u32" where
  "cpu_speed f = (if f < 20 then CPU_16MHZ else if f < 25 then CPU_20MHZ else if f < 33 then CPU_25MHZ else CPU_33MHZ)"

definition SCR_Reset :: "'a rtcnvram_scheme \<Rightarrow> 'a rtcnvram_scheme" where
  "SCR_Reset s = (
     let s1 = rtc_interface_reset (s\<lparr>
           scr_local_only := 1, hardclock_csr := 0, hardclock_counter := 0xFFFF, col_vid_intr := 0,
           bright_reg := 0, dsp_intr_at_block_end := 0, dsp_dma_unpacked := 0, dsp_hreq_intr := 0,
           dsp_txdn_intr := 0, scr1 := 0, scr2_0 := 0, scr2_1 := 0, scr2_2 := 0, scr2_3 := 0,
           scrIntStat := 0, scrIntMask := 0, scrIntLevel := 0\<rparr>);
         sys = System (ConfigureParams s)
     in if bTurbo sys then
          s1\<lparr>scr2_2 := 0x10, scr2_3 := 0x80, scr_have_dsp_memreset := True,
             scr1 := (if nMachineType sys = NEXT_STATION then push_bit 28 0xF else push_bit 28 SLOT_ID)
                     OR push_bit 12 TYPE_TURBO\<rparr>
        else
          s1\<lparr>scr1 := push_bit 28 SLOT_ID OR push_bit 16 DMA_REVISION OR push_bit 12 (system_type sys)
                     OR push_bit 8 (board_rev sys) OR push_bit 6 MEM_100NS
                     OR push_bit 4 (memory_speed (nMemorySpeed (Memory (ConfigureParams s))))
                     OR cpu_speed (nCpuFreq sys),
             scr_have_dsp_memreset := (system_type sys \<noteq> TYPE_NEXT \<or> board_rev sys > BOARD_REV1)\<rparr>)"

definition SCR1_Read :: "'a sysreg_scheme \<Rightarrow> u32" where
  "SCR1_Read s = scr1 s"

abbreviation dsp_call :: "dsp_call \<Rightarrow> 'a sysreg_scheme \<Rightarrow> 'a sysreg_scheme" where
  "dsp_call c s \<equiv> s\<lparr>dsp_calls := dsp_calls s @ [c]\<rparr>"

definition SCR2_Write0 :: "u8 \<Rightarrow> 'a sysreg_scheme \<Rightarrow> 'a sysreg_scheme" where
  "SCR2_Write0 v s = (
     let changed = scr2_0 s XOR v;
         s1 = s\<lparr>scr2_0 := v\<rparr>;
         s2 = (if tst changed SCR2_SOFTINT1
               then set_interrupt INT_SOFT1 (if tst v SCR2_SOFTINT1 then SET_INT else RELEASE_INT) s1 else s1);
         s3 = (if tst changed SCR2_SOFTINT2
               then set_interrupt INT_SOFT2 (if tst v SCR2_SOFTINT2 then SET_INT else RELEASE_INT) s2 else s2);
         s4 = (if tst changed SCR2_DSP_RESET then
                 (if tst v SCR2_DSP_RESET then
                    (let u = dsp_call (DSP_Start (NOT (drop_bit 3 v) AND 3)) s3
                     in if \<not> scr_have_dsp_memreset u then dsp_call DSP_EnableMemory u else u)
                  else
                    (let u = dsp_call DSP_Reset s3
                     in if \<not> scr_have_dsp_memreset u then dsp_call DSP_DisableMemory u else u))
               else s3);
         s5 = (if tst changed SCR2_DSP_BLK_END then s4\<lparr>dsp_intr_at_block_end := v AND SCR2_DSP_BLK_END\<rparr> else s4)
     in if tst changed SCR2_DSP_UNPKD then s5\<lparr>dsp_dma_unpacked := v AND SCR2_DSP_UNPKD\<rparr> else s5)"

definition SCR2_Read0 :: "'a sysreg_scheme \<Rightarrow> u8" where
  "SCR2_Read0 s = scr2_0 s"

definition SCR2_Write1 :: "u8 \<Rightarrow> 'a sysreg_scheme \<Rightarrow> 'a sysreg_scheme" where
  "SCR2_Write1 v s = (
     let changed = scr2_1 s XOR v; s1 = s\<lparr>scr2_1 := v\<rparr>
     in if turbo s1 \<and> tst changed SCR2_DSP_TXD_EN then scr_check_dsp_interrupt s1 else s1)"

definition SCR2_Read1 :: "'a sysreg_scheme \<Rightarrow> u8" where
  "SCR2_Read1 s = scr2_1 s"

definition SCR2_Write2 :: "u8 \<Rightarrow> 'a rtcnvram_scheme \<Rightarrow> 'a rtcnvram_scheme option" where
  "SCR2_Write2 v s = (
     let changed = scr2_2 s XOR v; s1 = s\<lparr>scr2_2 := v\<rparr> in
     if tst v SCR2_RTCE then
       (let s2 = (if tst changed SCR2_RTCE then rtc_interface_start s1 else s1) in
        if tst changed SCR2_RTCLK \<and> \<not> tst v SCR2_RTCLK
        then rtc_interface_write (v AND SCR2_RTDATA) s2 else Some s2)
     else if tst changed SCR2_RTCE then Some (rtc_interface_reset s1)
     else Some s1)"

definition SCR2_Read2 :: "'a rtcnvram_scheme \<Rightarrow> u8 \<times> 'a rtcnvram_scheme" where
  "SCR2_Read2 s = (
     let s1 = (if rtc_interface_read s \<noteq> 0 then s\<lparr>scr2_2 := scr2_2 s OR SCR2_RTDATA\<rparr>
               else s\<lparr>scr2_2 := scr2_2 s AND NOT SCR2_RTDATA\<rparr>)
     in (scr2_2 s1, s1))"

definition SCR2_Write3 :: "u8 \<Rightarrow> 'a sysreg_scheme \<Rightarrow> 'a sysreg_scheme" where
  "SCR2_Write3 v s = (
     let changed = scr2_3 s XOR v;
         s1 = s\<lparr>scr2_3 := v\<rparr>;
         s2 = (if tst changed SCR2_ROM
               then s1\<lparr>scr_local_only := (if turbo s1 then v AND SCR2_ROM else (v AND SCR2_ROM) XOR SCR2_ROM)\<rparr>
               else s1);
         s3 = (if \<not> turbo s2 \<and> tst changed SCR2_DSP_INT_EN \<and> tst (scrIntStat s2) (INT_DSP_L3 OR INT_DSP_L4)
               then scr_check_dsp_interrupt (set_interrupt (INT_DSP_L3 OR INT_DSP_L4) RELEASE_INT s2)
               else s2)
     in if tst changed SCR2_DSP_MEM_EN then
          (if turbo s3 then dsp_call (if tst v SCR2_DSP_MEM_EN then DSP_EnableMemory else DSP_DisableMemory) s3
           else if scr_have_dsp_memreset s3
           then dsp_call (if tst v SCR2_DSP_MEM_EN then DSP_DisableMemory else DSP_EnableMemory) s3
           else s3)
        else s3)"

definition SCR2_Read3 :: "'a sysreg_scheme \<Rightarrow> u8" where
  "SCR2_Read3 s = scr2_3 s"

subsection \<open>Hardclock\<close>

abbreviation (input) HARDCLOCK_ENABLE :: u8 where "HARDCLOCK_ENABLE \<equiv> 0x80"
abbreviation (input) HARDCLOCK_LATCH :: u8 where "HARDCLOCK_LATCH \<equiv> 0x40"

definition Hardclock_Interrupt_Handler :: "'a sysreg_scheme \<Rightarrow> 'a sysreg_scheme option" where
  "Hardclock_Interrupt_Handler s = (
     let s1 = set_interrupt INT_TIMER SET_INT s;
         (now, s2) = Timing_GetTime s1;
         s3 = Timing_Hardclock (uint (hardclock_counter s2))
                (sint (ucast (now - hardclock_last_time s2) :: u32)) s2;
         s4 = s3\<lparr>hardclock_counter := hardclock_latch s3\<rparr>
     in if hardclock_counter s4 \<noteq> 0
        then CycInt_UpdateTimeEvent (ucast (hardclock_counter s4)) 0 EVENT_HARDCLOCK_INTERRUPT
               (s4\<lparr>hardclock_last_time := now\<rparr>)
        else Some s4)"

text \<open>The counter after the time since the last event has passed.\<close>

definition count_down :: "u64 \<Rightarrow> u16 \<Rightarrow> u16" where
  "count_down diff counter = (if diff > ucast counter then 0 else ucast (ucast counter - diff))"

definition HardclockRead0 :: "'a sysreg_scheme \<Rightarrow> u8 \<times> 'a sysreg_scheme" where
  "HardclockRead0 s = (
     let s1 = (if tst (hardclock_csr s) HARDCLOCK_ENABLE \<and> hardclock_counter s \<noteq> 0
               then let (now, u) = Timing_GetTime s
                    in u\<lparr>hardclock_counter := count_down (now - hardclock_last_time u) (hardclock_counter u)\<rparr>
               else s)
     in (ucast (drop_bit 8 (hardclock_counter s1)), s1))"

definition HardclockRead1 :: "'a sysreg_scheme \<Rightarrow> u8" where
  "HardclockRead1 s = ucast (hardclock_counter s AND 0xFF)"

definition HardclockWrite0 :: "u8 \<Rightarrow> 'a sysreg_scheme \<Rightarrow> 'a sysreg_scheme" where
  "HardclockWrite0 v s = s\<lparr>hardclock_latch := (hardclock_latch s AND 0x00FF) OR push_bit 8 (ucast v)\<rparr>"

definition HardclockWrite1 :: "u8 \<Rightarrow> 'a sysreg_scheme \<Rightarrow> 'a sysreg_scheme" where
  "HardclockWrite1 v s = s\<lparr>hardclock_latch := (hardclock_latch s AND 0xFF00) OR ucast v\<rparr>"

definition HardclockWriteCSR :: "u8 \<Rightarrow> 'a sysreg_scheme \<Rightarrow> 'a sysreg_scheme option" where
  "HardclockWriteCSR v s = (
     let changed = hardclock_csr s XOR v;
         s1 = s\<lparr>hardclock_csr := v\<rparr>;
         s2 = (if tst v HARDCLOCK_LATCH then s1\<lparr>hardclock_counter := hardclock_latch s1\<rparr> else s1)
     in do {
       s3 \<leftarrow> (if tst v HARDCLOCK_ENABLE \<and> (tst v HARDCLOCK_LATCH \<or> tst changed HARDCLOCK_ENABLE) then
                if hardclock_counter s2 \<noteq> 0 then
                  (let (now, u) = Timing_GetTime s2
                   in CycInt_AddTimeEvent (ucast (hardclock_counter u)) 0 EVENT_HARDCLOCK_INTERRUPT
                        (u\<lparr>hardclock_last_time := now\<rparr>))
                else Some s2
              else if \<not> tst v HARDCLOCK_ENABLE \<and> tst changed HARDCLOCK_ENABLE then
                (let (now, u) = Timing_GetTime s2
                 in Some (CycInt_RemovePendingEvent EVENT_HARDCLOCK_INTERRUPT
                      (u\<lparr>hardclock_counter := count_down (now - hardclock_last_time u) (hardclock_counter u)\<rparr>)))
              else Some s2);
       Some (set_interrupt INT_TIMER RELEASE_INT
         (s3\<lparr>hardclock_csr := hardclock_csr s3 AND NOT HARDCLOCK_LATCH\<rparr>))
     })"

definition HardclockReadCSR :: "'a sysreg_scheme \<Rightarrow> u8 \<times> 'a sysreg_scheme" where
  "HardclockReadCSR s = (hardclock_csr s, set_interrupt INT_TIMER RELEASE_INT s)"

subsection \<open>Event counter and video\<close>

definition System_Timer_Read :: "'a sysreg_scheme \<Rightarrow> u32 \<times> 'a sysreg_scheme" where
  "System_Timer_Read s = (let (now, s1) = Timing_GetTime s
     in (ucast ((now - eventcounter_offset s1) AND 0xFFFFF), s1))"

definition System_Timer_Write :: "'a sysreg_scheme \<Rightarrow> 'a sysreg_scheme" where
  "System_Timer_Write s = (let (now, s1) = Timing_GetTime s in s1\<lparr>eventcounter_offset := now\<rparr>)"

abbreviation (input) VID_CMD_CLEAR_INT :: u8 where "VID_CMD_CLEAR_INT \<equiv> 0x01"
abbreviation (input) VID_CMD_ENABLE_INT :: u8 where "VID_CMD_ENABLE_INT \<equiv> 0x02"
abbreviation (input) VID_CMD_UNBLANK :: u8 where "VID_CMD_UNBLANK \<equiv> 0x04"
abbreviation (input) BRIGHTNESS_UNBLANK :: u8 where "BRIGHTNESS_UNBLANK \<equiv> 0x40"

definition ColorVideo_CMD_Write :: "u8 \<Rightarrow> 'a sysreg_scheme \<Rightarrow> 'a sysreg_scheme" where
  "ColorVideo_CMD_Write v s = (
     let s1 = s\<lparr>col_vid_intr := v\<rparr>
     in if tst v VID_CMD_CLEAR_INT then set_interrupt INT_DISK RELEASE_INT s1 else s1)"

definition color_video_enabled :: "'a sysreg_scheme \<Rightarrow> bool" where
  "color_video_enabled s = tst (col_vid_intr s) VID_CMD_UNBLANK"

definition color_video_interrupt :: "'a sysreg_scheme \<Rightarrow> 'a sysreg_scheme" where
  "color_video_interrupt s =
     (if tst (col_vid_intr s) VID_CMD_ENABLE_INT
      then let s1 = set_interrupt INT_DISK SET_INT s
           in s1\<lparr>col_vid_intr := col_vid_intr s1 AND NOT VID_CMD_ENABLE_INT\<rparr>
      else s)"

definition brighness_video_enabled :: "'a sysreg_scheme \<Rightarrow> bool" where
  "brighness_video_enabled s = tst (bright_reg s) BRIGHTNESS_UNBLANK"

definition Brightness_Write :: "u8 \<Rightarrow> 'a sysreg_scheme \<Rightarrow> 'a sysreg_scheme" where
  "Brightness_Write v s = s\<lparr>bright_reg := v\<rparr>"

section \<open>The registers as a state machine\<close>

text \<open>
  One access of the guest, one event, or one request of another device, which may set or
  clear any interrupt but the two software interrupts.
\<close>

inductive sysreg_step :: "'a rtcnvram_scheme \<Rightarrow> 'a rtcnvram_scheme \<Rightarrow> bool" where
  write0: "sysreg_step s (SCR2_Write0 v s)"
| write1: "sysreg_step s (SCR2_Write1 v s)"
| write2: "SCR2_Write2 v s = Some s' \<Longrightarrow> sysreg_step s s'"
| read2: "sysreg_step s (snd (SCR2_Read2 s))"
| write3: "sysreg_step s (SCR2_Write3 v s)"
| mask: "sysreg_step s (IntRegMaskWrite m s)"
| stat: "sysreg_step s (IntRegStatWrite m s)"
| clock: "Hardclock_Interrupt_Handler s = Some s' \<Longrightarrow> sysreg_step s s'"
| csr: "HardclockWriteCSR v s = Some s' \<Longrightarrow> sysreg_step s s'"
| read_csr: "sysreg_step s (snd (HardclockReadCSR s))"
| hc_read0: "sysreg_step s (snd (HardclockRead0 s))"
| hc_write0: "sysreg_step s (HardclockWrite0 v s)"
| hc_write1: "sysreg_step s (HardclockWrite1 v s)"
| timer_read: "sysreg_step s (snd (System_Timer_Read s))"
| timer_write: "sysreg_step s (System_Timer_Write s)"
| color: "sysreg_step s (ColorVideo_CMD_Write v s)"
| color_int: "sysreg_step s (color_video_interrupt s)"
| bright: "sysreg_step s (Brightness_Write v s)"
| power_down: "sysreg_step s (rtc_request_power_down s)"
| stop_power_down: "sysreg_step s (rtc_stop_pdown_request s)"
| device: "i AND 3 = 0 \<Longrightarrow> sysreg_step s (set_interrupt i st s)"

inductive sysreg_reachable :: "'a rtcnvram_scheme \<Rightarrow> bool" where
  reset: "sysreg_reachable (SCR_Reset s)"
| step: "sysreg_reachable s \<Longrightarrow> sysreg_step s s' \<Longrightarrow> sysreg_reachable s'"

definition soft_inv :: "'a sysreg_scheme \<Rightarrow> bool" where
  "soft_inv s \<longleftrightarrow> scrIntStat s AND 3 = ucast (scr2_0 s AND 3)"

text \<open>What keeps the invariant without looking at it: the two bits and the register stay.\<close>

definition soft_frame :: "'a sysreg_scheme \<Rightarrow> 'a sysreg_scheme \<Rightarrow> bool" where
  "soft_frame s s' \<longleftrightarrow> scrIntStat s' AND 3 = scrIntStat s AND 3 \<and> scr2_0 s' = scr2_0 s"

lemma soft_frame_inv: "soft_frame s s' \<Longrightarrow> soft_inv s \<Longrightarrow> soft_inv s'"
  by (simp add: soft_frame_def soft_inv_def)

lemma soft_frame_refl [simp]: "soft_frame s s"
  by (simp add: soft_frame_def)

lemma soft_frame_trans: "soft_frame s u \<Longrightarrow> soft_frame u s' \<Longrightarrow> soft_frame s s'"
  by (simp add: soft_frame_def)

lemma and3_disjoint:
  fixes x i :: u32
  assumes "i AND 3 = 0"
  shows "(x OR i) AND 3 = x AND 3" "(x AND NOT i) AND 3 = x AND 3"
proof -
  have b: "\<not> (bit i n \<and> bit (3::u32) n)" for n
    using assms by (metis bit_0_eq bit_and_iff bot_apply bot_bool_def)
  show "(x OR i) AND 3 = x AND 3" "(x AND NOT i) AND 3 = x AND 3"
    by (rule bit_word_eqI; use b in \<open>auto simp: bit_and_iff bit_or_iff bit_not_iff\<close>)+
qed

lemma set_interrupt_scr2_0 [simp]: "scr2_0 (set_interrupt i st s) = scr2_0 s"
  by (simp add: set_interrupt_def scr_get_interrupt_level_def M68000_CheckInterrupt_def Let_def)

lemma soft_frame_set_interrupt: "i AND 3 = 0 \<Longrightarrow> soft_frame s (set_interrupt i st s)"
  by (simp add: soft_frame_def and3_disjoint)

text \<open>The two fields after the operations of the other components.\<close>

lemma soft_fields_timing [simp]:
  "scrIntStat (snd (Timing_GetTime s)) = scrIntStat s" "scr2_0 (snd (Timing_GetTime s)) = scr2_0 s"
  "scrIntStat (Timing_SetUnixTime t s) = scrIntStat s" "scr2_0 (Timing_SetUnixTime t s) = scr2_0 s"
  "scrIntStat (snd (Timing_GetUnixTime s)) = scrIntStat s" "scr2_0 (snd (Timing_GetUnixTime s)) = scr2_0 s"
  "scrIntStat (Timing_Hardclock e a s) = scrIntStat s" "scr2_0 (Timing_Hardclock e a s) = scr2_0 s"
  by (simp_all add: Timing_GetTime_def Timing_GetRealTime_def Timing_SetUnixTime_def Timing_GetTimeSec_def
      Timing_GetUnixTime_def Timing_Hardclock_def Let_def)

lemma soft_fields_removed [simp]:
  "scrIntStat (CycInt_RemovePendingEvent i s) = scrIntStat s" "scr2_0 (CycInt_RemovePendingEvent i s) = scr2_0 s"
  by (simp_all add: CycInt_RemovePendingEvent_unlink)

lemma soft_frame_sched:
  assumes "s' = sched_upd s' s"
  shows "soft_frame s s'"
proof -
  have "scrIntStat s' = scrIntStat s" "scr2_0 s' = scr2_0 s"
    by (subst assms, simp add: sched_upd_def)+
  then show ?thesis by (simp add: soft_frame_def)
qed

lemma soft_fields_rtc [simp]:
  "scrIntStat (oldrtc_set_time s) = scrIntStat s" "scr2_0 (oldrtc_set_time s) = scr2_0 s"
  "scrIntStat (oldrtc_get_time s) = scrIntStat s" "scr2_0 (oldrtc_get_time s) = scr2_0 s"
  "scrIntStat (rtc_interface_start s) = scrIntStat s" "scr2_0 (rtc_interface_start s) = scr2_0 s"
  "scrIntStat (snd (oldrtc_get_clock s)) = scrIntStat s" "scr2_0 (snd (oldrtc_get_clock s)) = scr2_0 s"
  "scrIntStat (oldrtc_put_clock a v s) = scrIntStat s" "scr2_0 (oldrtc_put_clock a v s) = scr2_0 s"
  "scrIntStat (rtc_interface_reset s) = scrIntStat s" "scr2_0 (rtc_interface_reset s) = scr2_0 s"
  "scr2_0 (newrtc_put_clock v s) = scr2_0 s"
  by (simp_all add: oldrtc_set_time_def oldrtc_get_time_def Timing_SetUnixTimeStruct_def Timing_GetUnixTimeStruct_def
      rtc_interface_start_def newrtc_interface_start_def oldrtc_interface_start_def oldrtc_get_clock_def
      oldrtc_put_clock_def rtc_interface_reset_def newrtc_put_clock_def newrtc_check_interrupt_def
      Main_RequestQuit_def M68000_Stop_def Let_def case_prod_beta)

lemma soft_stat_set_interrupt: "i AND 3 = 0 \<Longrightarrow> scrIntStat (set_interrupt i st s) AND 3 = scrIntStat s AND 3"
  by (simp add: and3_disjoint)

lemma soft_stat_check [simp]: "scrIntStat (newrtc_check_interrupt s) AND 3 = scrIntStat s AND 3"
  by (simp add: newrtc_check_interrupt_def Let_def soft_stat_set_interrupt del: set_interrupt_simps)

lemma soft_stat_newrtc [simp]:
  "scrIntStat (newrtc_put_clock v s) AND 3 = scrIntStat s AND 3"
  by (simp add: newrtc_put_clock_def Main_RequestQuit_def M68000_Stop_def Let_def)

lemma rtc_parts_soft:
  "newrtc_load s = Some s' \<Longrightarrow> soft_frame s s'" "newrtc_store s = Some s' \<Longrightarrow> soft_frame s s'"
  "oldrtc_load s = Some s' \<Longrightarrow> soft_frame s s'" "oldrtc_store s = Some s' \<Longrightarrow> soft_frame s s'"
  by (auto simp: newrtc_load_def newrtc_store_def oldrtc_load_def oldrtc_store_def soft_frame_def
      bind_eq_Some_conv case_prod_beta split: if_splits)

lemma soft_frame_phase: "soft_frame (s\<lparr>phase := n\<rparr>) s' \<longleftrightarrow> soft_frame s s'"
  by (simp add: soft_frame_def)

lemma newrtc_io_soft: "newrtc_interface_io b s = Some (d, s') \<Longrightarrow> soft_frame s s'"
  by (auto simp: newrtc_interface_io_def rtc_shift_def Let_def case_prod_beta bind_eq_Some_conv soft_frame_def
      split: if_splits dest!: rtc_parts_soft(1,2))

lemma oldrtc_io_soft: "oldrtc_interface_io b s = Some (d, s') \<Longrightarrow> soft_frame s s'"
  by (auto simp: oldrtc_interface_io_def rtc_shift_def Let_def case_prod_beta bind_eq_Some_conv soft_frame_def
      split: if_splits dest!: rtc_parts_soft(3,4))

lemma soft_frame_rtc_write: "rtc_interface_write b s = Some s' \<Longrightarrow> soft_frame s s'"
  by (auto simp: rtc_interface_write_def bind_eq_Some_conv soft_frame_def split: if_splits
      dest!: newrtc_io_soft oldrtc_io_soft)

lemma soft_frame_write2: "SCR2_Write2 v s = Some s' \<Longrightarrow> soft_frame s s'"
  by (auto simp: SCR2_Write2_def Let_def soft_frame_def split: if_splits
      dest!: soft_frame_rtc_write)

lemma soft_frame_check_dsp: "soft_frame s (scr_check_dsp_interrupt s)"
  by (simp add: scr_check_dsp_interrupt_def soft_frame_set_interrupt)

lemma soft_frame_hardclock: "Hardclock_Interrupt_Handler s = Some s' \<Longrightarrow> soft_frame s s'"
  by (auto simp: Hardclock_Interrupt_Handler_def Let_def case_prod_beta soft_frame_def
      soft_stat_set_interrupt simp del: set_interrupt_simps(1) split: if_splits
      dest!: UpdateTimeEvent_frame soft_frame_sched)

lemma soft_frame_csr: "HardclockWriteCSR v s = Some s' \<Longrightarrow> soft_frame s s'"
  by (auto simp: HardclockWriteCSR_def Let_def case_prod_beta soft_frame_def bind_eq_Some_conv
      soft_stat_set_interrupt simp del: set_interrupt_simps(1) split: if_splits
      dest!: AddTimeEvent_frame soft_frame_sched)

lemma and3_ucast_iff:
  "(x::u32) AND 3 = ucast ((v::u8) AND 3) \<longleftrightarrow> (bit x 0 \<longleftrightarrow> bit v 0) \<and> (bit x 1 \<longleftrightarrow> bit v 1)"
proof -
  have m: "x AND 3 = take_bit 2 x" "v AND 3 = take_bit 2 v"
    by (simp_all add: take_bit_eq_mask mask_eq_exp_minus_1)
  have "(\<forall>n < 32. (n < 2 \<and> bit x n) = (n < 2 \<and> bit v n)) \<longleftrightarrow> (\<forall>n < 2. bit x n \<longleftrightarrow> bit v n)"
  proof (rule iffI; intro allI impI)
    fix n :: nat
    assume "\<forall>n < 32. (n < 2 \<and> bit x n) = (n < 2 \<and> bit v n)" "n < 2"
    then show "bit x n \<longleftrightarrow> bit v n" by (elim allE [of _ n]) simp
  qed blast
  then have "take_bit 2 x = ucast (take_bit 2 v) \<longleftrightarrow> (\<forall>n < 2. bit x n \<longleftrightarrow> bit v n)"
    by (simp add: bit_eq_iff bit_take_bit_iff bit_ucast_iff conj_commute cong: conj_cong)
  also have "\<dots> \<longleftrightarrow> (bit x 0 \<longleftrightarrow> bit v 0) \<and> (bit x 1 \<longleftrightarrow> bit v 1)"
    by (auto simp: numeral_2_eq_2 less_Suc_eq)
  finally show ?thesis by (simp only: m)
qed

lemma tst_1_2: "tst x 1 \<longleftrightarrow> bit x 0" "tst x 2 \<longleftrightarrow> bit x 1" for x :: "'a::len word"
  using tst_power2 [of x 0] tst_power2 [of x 1] by simp_all

lemma soft_inv_write0:
  assumes "soft_inv s"
  shows "soft_inv (SCR2_Write0 v s)"
proof -
  let ?c = "scr2_0 s XOR v"
  let ?s1 = "s\<lparr>scr2_0 := v\<rparr>"
  let ?s2 = "if tst ?c SCR2_SOFTINT1 then set_interrupt INT_SOFT1 (if tst v SCR2_SOFTINT1 then SET_INT else RELEASE_INT) ?s1 else ?s1"
  let ?s3 = "if tst ?c SCR2_SOFTINT2 then set_interrupt INT_SOFT2 (if tst v SCR2_SOFTINT2 then SET_INT else RELEASE_INT) ?s2 else ?s2"
  have st: "bit (scrIntStat s) 0 \<longleftrightarrow> bit (scr2_0 s) 0" "bit (scrIntStat s) 1 \<longleftrightarrow> bit (scr2_0 s) 1"
    using assms by (simp_all add: soft_inv_def and3_ucast_iff)
  have m: "bit (- 2 :: u32) 0 = False" "bit (- 2 :: u32) 1" "bit (- 3 :: u32) 0" "bit (- 3 :: u32) 1 = False"
    "bit (1 :: u32) 0" "bit (1 :: u32) 1 = False" "bit (2 :: u32) 0 = False" "bit (2 :: u32) 1"
    by code_simp+
  have "bit (scrIntStat ?s3) 0 \<longleftrightarrow> bit v 0" "bit (scrIntStat ?s3) 1 \<longleftrightarrow> bit v 1"
    using st m by (auto simp: tst_1_2 bit_xor_iff bit_or_iff bit_and_iff)
  moreover have "scr2_0 ?s3 = v" by simp
  ultimately have "soft_inv ?s3" by (simp add: soft_inv_def and3_ucast_iff del: set_interrupt_simps)
  moreover have "scrIntStat (SCR2_Write0 v s) = scrIntStat ?s3" "scr2_0 (SCR2_Write0 v s) = scr2_0 ?s3"
    by (simp_all add: SCR2_Write0_def Let_def)
  ultimately show ?thesis unfolding soft_inv_def by metis
qed

lemma soft_frame_small:
  "soft_frame s (SCR2_Write1 v s)" "soft_frame s (snd (SCR2_Read2 s))" "soft_frame s (IntRegMaskWrite m s)"
  "soft_frame s (IntRegStatWrite m s)" "soft_frame s (snd (HardclockReadCSR s))"
  "soft_frame s (snd (HardclockRead0 s))" "soft_frame s (HardclockWrite0 v s)" "soft_frame s (HardclockWrite1 v s)"
  "soft_frame s (snd (System_Timer_Read s))" "soft_frame s (System_Timer_Write s)"
  "soft_frame s (ColorVideo_CMD_Write v s)" "soft_frame s (color_video_interrupt s)" "soft_frame s (Brightness_Write v s)"
  "soft_frame s (rtc_request_power_down s)" "soft_frame s (rtc_stop_pdown_request s)"
proof -
  have "soft_frame (s\<lparr>scr2_1 := v\<rparr>) (scr_check_dsp_interrupt (s\<lparr>scr2_1 := v\<rparr>))" by (rule soft_frame_check_dsp)
  then show "soft_frame s (SCR2_Write1 v s)" by (simp add: SCR2_Write1_def Let_def soft_frame_def)
  show "soft_frame s (IntRegMaskWrite m s)"
    by (simp add: IntRegMaskWrite_def soft_frame_def scr_get_interrupt_level_def M68000_CheckInterrupt_def Let_def)
qed (simp_all add: soft_frame_def soft_stat_set_interrupt SCR2_Read2_def IntRegStatWrite_def HardclockReadCSR_def
    HardclockRead0_def HardclockWrite0_def HardclockWrite1_def System_Timer_Read_def System_Timer_Write_def
    ColorVideo_CMD_Write_def color_video_interrupt_def Brightness_Write_def rtc_request_power_down_def
    newrtc_request_power_down_def oldrtc_request_power_down_def rtc_stop_pdown_request_def
    oldrtc_stop_pdown_request_def newrtc_check_interrupt_def Let_def case_prod_beta
    del: set_interrupt_simps(1))

lemma soft_inv_step: "sysreg_step s s' \<Longrightarrow> soft_inv s \<Longrightarrow> soft_inv s'"
proof (induction rule: sysreg_step.induct)
  case (write0 s v)
  then show ?case by (rule soft_inv_write0)
next
  case (write3 s v)
  show ?case
  proof (rule soft_frame_inv [OF _ write3])
    have "soft_frame u (scr_check_dsp_interrupt (set_interrupt (INT_DSP_L3 OR INT_DSP_L4) RELEASE_INT u))" for u :: "'a rtcnvram_scheme"
      by (rule soft_frame_trans [OF soft_frame_set_interrupt soft_frame_check_dsp]) simp
    from this [of "s\<lparr>scr2_3 := v\<rparr>"] this [of "s\<lparr>scr2_3 := v, scr_local_only := (v AND SCR2_ROM) XOR SCR2_ROM\<rparr>"]
    show "soft_frame s (SCR2_Write3 v s)"
      by (simp add: SCR2_Write3_def Let_def soft_frame_def)
  qed
qed (auto intro: soft_frame_inv soft_frame_write2 soft_frame_hardclock soft_frame_csr soft_frame_set_interrupt
    soft_frame_small)

text \<open>
  C9. The software interrupts follow SCR2: in every state reachable from \<open>SCR_Reset\<close> by
  register accesses, timer events and requests of other devices, the two software
  interrupt bits of the interrupt status register are the two low bits of byte 0 of SCR2.
\<close>

theorem software_interrupts_follow_scr2:
  assumes "sysreg_reachable s"
  shows "tst (scrIntStat s) INT_SOFT1 = tst (scr2_0 s) SCR2_SOFTINT1
    \<and> tst (scrIntStat s) INT_SOFT2 = tst (scr2_0 s) SCR2_SOFTINT2"
proof -
  have "soft_inv s"
    using assms
  proof induction
    case (reset s)
    show ?case by (simp add: soft_inv_def SCR_Reset_def rtc_interface_reset_def Let_def)
  next
    case (step s s')
    then show ?case by (blast intro: soft_inv_step)
  qed
  then show ?thesis by (simp add: soft_inv_def and3_ucast_iff tst_1_2)
qed

theorem software_interrupts_follow_scr2_witness:
  "let s = SCR2_Write0 2 (SCR_Reset sample_rtcnvram) in
   sysreg_reachable s \<and> \<not> tst (scrIntStat s) INT_SOFT1 \<and> tst (scrIntStat s) INT_SOFT2"
proof -
  let ?s = "SCR2_Write0 2 (SCR_Reset sample_rtcnvram)"
  have r: "sysreg_reachable ?s"
    by (rule sysreg_reachable.step [OF sysreg_reachable.reset sysreg_step.write0])
  have "scr2_0 ?s = 2" by (simp add: SCR2_Write0_def Let_def)
  with r software_interrupts_follow_scr2 [OF r] show ?thesis by (simp add: Let_def tst_def)
qed

section \<open>The hardclock\<close>

text \<open>Which scheduler state the register operations leave alone.\<close>

lemma EventList_frames [simp]:
  "EventList (set_interrupt i st s) = EventList s" "nCyclesFirst (set_interrupt i st s) = nCyclesFirst s"
  "nTimeFirst (set_interrupt i st s) = nTimeFirst s"
  "EventList (Timing_Hardclock e a s) = EventList s" "nCyclesFirst (Timing_Hardclock e a s) = nCyclesFirst s"
  "nTimeFirst (Timing_Hardclock e a s) = nTimeFirst s"
  by (simp_all add: set_interrupt_def scr_get_interrupt_level_def M68000_CheckInterrupt_def Let_def Timing_Hardclock_def)

lemma cyc_inv_same:
  assumes "EventList s' = EventList s" "nCyclesFirst s' = nCyclesFirst s" "nTimeFirst s' = nTimeFirst s"
  shows "cyc_inv s' = cyc_inv s" "CycInt_EventPending i s' = CycInt_EventPending i s"
  using cyc_inv_frame(1) [OF assms] assms by (simp_all add: CycInt_EventPending_def)

lemma sched_upd_hardclock:
  assumes "s' = sched_upd s' s"
  shows "hardclock_counter s' = hardclock_counter s" "hardclock_csr s' = hardclock_csr s"
    "hardclock_latch s' = hardclock_latch s" "scrIntStat s' = scrIntStat s"
  by (subst assms, simp add: sched_upd_def)+

lemma hardclock_fields [simp]:
  "hardclock_counter (set_interrupt i st s) = hardclock_counter s" "hardclock_csr (set_interrupt i st s) = hardclock_csr s"
  "hardclock_latch (set_interrupt i st s) = hardclock_latch s"
  "hardclock_counter (snd (Timing_GetTime s)) = hardclock_counter s"
  "hardclock_csr (snd (Timing_GetTime s)) = hardclock_csr s" "hardclock_latch (snd (Timing_GetTime s)) = hardclock_latch s"
  "hardclock_latch (Timing_Hardclock e a s) = hardclock_latch s" "hardclock_csr (Timing_Hardclock e a s) = hardclock_csr s"
  by (simp_all add: set_interrupt_def scr_get_interrupt_level_def M68000_CheckInterrupt_def Let_def
      Timing_GetTime_def Timing_GetRealTime_def Timing_Hardclock_def)

lemma not_tst_clear_timer: "\<not> tst (x AND NOT INT_TIMER) INT_TIMER" "\<not> tst (c AND NOT HARDCLOCK_LATCH) HARDCLOCK_LATCH"
  by (rule tst_clear_self)+

lemma event_after_release:
  assumes "cyc_inv s"
  shows "cyc_inv (set_interrupt i st (s\<lparr>hardclock_csr := c\<rparr>))"
    "CycInt_EventPending j (set_interrupt i st (s\<lparr>hardclock_csr := c\<rparr>)) = CycInt_EventPending j s"
  using assms cyc_inv_same [of "set_interrupt i st (s\<lparr>hardclock_csr := c\<rparr>)" s] by simp_all

text \<open>
  C21. Writing the hardclock's control register starts and stops the timer. Enabling it with
  a latched period that is not zero always succeeds and leaves the hardclock event pending
  and the counter loaded with the period; disabling it cancels the event; either way
  no other event is touched, the latch command bit reads back as zero, and the timer
  interrupt is released.
\<close>

theorem HardclockWriteCSR_event:
  assumes "cyc_inv s"
    and "tst v HARDCLOCK_ENABLE \<and> tst v HARDCLOCK_LATCH \<and> hardclock_latch s \<noteq> 0
      \<or> \<not> tst v HARDCLOCK_ENABLE \<and> tst (hardclock_csr s) HARDCLOCK_ENABLE"
  shows "\<exists>s'. HardclockWriteCSR v s = Some s' \<and> cyc_inv s'
    \<and> (\<forall>j. CycInt_EventPending j s' =
          (if j = EVENT_HARDCLOCK_INTERRUPT then tst v HARDCLOCK_ENABLE else CycInt_EventPending j s))
    \<and> (tst v HARDCLOCK_ENABLE \<longrightarrow> hardclock_counter s' = hardclock_latch s)
    \<and> \<not> tst (hardclock_csr s') HARDCLOCK_LATCH \<and> \<not> tst (scrIntStat s') INT_TIMER"
proof (cases "tst v HARDCLOCK_ENABLE")
  case True
  with assms(2) have v: "tst v HARDCLOCK_LATCH" "hardclock_latch s \<noteq> 0" by auto
  let ?s2 = "s\<lparr>hardclock_csr := v, hardclock_counter := hardclock_latch s\<rparr>"
  let ?u = "(snd (Timing_GetTime ?s2))\<lparr>hardclock_last_time := fst (Timing_GetTime ?s2)\<rparr>"
  have u: "cyc_inv ?u" "CycInt_EventPending j ?u = CycInt_EventPending j s" for j
    using cyc_inv_same [of ?u s] assms(1) by (simp_all add: clock_read)
  obtain s3 where s3: "CycInt_AddTimeEvent (ucast (hardclock_latch s)) 0 EVENT_HARDCLOCK_INTERRUPT ?u = Some s3"
    "cyc_inv s3" "\<And>j. CycInt_EventPending j s3 \<longleftrightarrow> j = EVENT_HARDCLOCK_INTERRUPT \<or> CycInt_EventPending j ?u"
    using timeq.schedule_obtain [OF u(1), of EVENT_HARDCLOCK_INTERRUPT "(ucast (hardclock_latch s), 0)"] by auto
  have f: "hardclock_counter s3 = hardclock_latch s" "hardclock_csr s3 = v"
    using sched_upd_hardclock [OF AddTimeEvent_frame [OF s3(1)]] by simp_all
  have w: "HardclockWriteCSR v s = Some (set_interrupt INT_TIMER RELEASE_INT
      (s3\<lparr>hardclock_csr := hardclock_csr s3 AND NOT HARDCLOCK_LATCH\<rparr>))"
    using True v s3(1) by (simp add: HardclockWriteCSR_def Let_def case_prod_beta)
  show ?thesis
    unfolding w using True event_after_release [OF s3(2)] s3(3) u(2) f not_tst_clear_timer by simp
next
  case False
  with assms(2) have v: "tst (hardclock_csr s) HARDCLOCK_ENABLE" by auto
  have c: "tst (hardclock_csr s XOR v) HARDCLOCK_ENABLE"
    using v False tst_power2 [of _ 7, where ?'a = 8] by (auto simp: bit_xor_iff)
  define s2 where "s2 = (if tst v HARDCLOCK_LATCH then s\<lparr>hardclock_csr := v, hardclock_counter := hardclock_latch s\<rparr>
    else s\<lparr>hardclock_csr := v\<rparr>)"
  define u where "u = (snd (Timing_GetTime s2))\<lparr>hardclock_counter :=
    count_down (fst (Timing_GetTime s2) - hardclock_last_time (snd (Timing_GetTime s2))) (hardclock_counter (snd (Timing_GetTime s2)))\<rparr>"
  have u: "cyc_inv u" "CycInt_EventPending j u = CycInt_EventPending j s" for j
    using cyc_inv_same [of u s] assms(1) by (simp_all add: u_def s2_def clock_read)
  let ?s3 = "CycInt_RemovePendingEvent EVENT_HARDCLOCK_INTERRUPT u"
  have r: "cyc_inv ?s3" "\<And>j. CycInt_EventPending j ?s3 \<longleftrightarrow> j \<noteq> EVENT_HARDCLOCK_INTERRUPT \<and> CycInt_EventPending j u"
    using timeq.cancel_invar [OF u(1)] timeq.cancel_pending [OF u(1)] by blast+
  have w: "HardclockWriteCSR v s = Some (set_interrupt INT_TIMER RELEASE_INT
      (?s3\<lparr>hardclock_csr := hardclock_csr ?s3 AND NOT HARDCLOCK_LATCH\<rparr>))"
    using False c by (simp add: HardclockWriteCSR_def Let_def case_prod_beta u_def s2_def)
  show ?thesis
    unfolding w using False event_after_release [OF r(1)] r(2) u(2) not_tst_clear_timer by simp
qed


theorem HardclockWriteCSR_event_witness:
  "let s = sample_sysreg\<lparr>hardclock_latch := 1000\<rparr> in cyc_inv s
   \<and> (\<exists>s'. HardclockWriteCSR 0xC0 s = Some s' \<and> CycInt_EventPending EVENT_HARDCLOCK_INTERRUPT s'
      \<and> hardclock_counter s' = 1000 \<and> \<not> tst (hardclock_csr s') HARDCLOCK_LATCH)"
proof -
  let ?s = "sample_sysreg\<lparr>hardclock_latch := 1000\<rparr>"
  have "EventList ?s = EventList sample_cycint" "nCyclesFirst ?s = nCyclesFirst sample_cycint"
    "nTimeFirst ?s = nTimeFirst sample_cycint"
    by (simp_all add: sample_sysreg_def cycint.defs sysreg.defs)
  then have i: "cyc_inv ?s" using sample_cycint_inv
    by (simp add: cyc_inv_def cycle_queue_def time_queue_def)
  have t: "tst (0xC0::u8) 0x80" "tst (0xC0::u8) 0x40" by (simp_all add: tst_def)
  from HardclockWriteCSR_event [OF i, of "0xC0"] i t show ?thesis by (auto simp: Let_def)
qed

text \<open>The two readings of the clock during the handler, the second by the scheduler.\<close>

abbreviation first_reading :: "'a sysreg_scheme \<Rightarrow> u64" where
  "first_reading s \<equiv> fst (Timing_GetTime s)"

abbreviation second_reading :: "'a sysreg_scheme \<Rightarrow> u64" where
  "second_reading s \<equiv> fst (Timing_GetTime (snd (Timing_GetTime s)))"

text \<open>
  When the next event is due: a period after the last one, in cycles; in realtime mode in
  microseconds, and a period from now when more than half a period has been missed.
\<close>

definition next_hardclock :: "'a sysreg_scheme \<Rightarrow> u64" where
  "next_hardclock s = (
     let period = ucast (hardclock_latch s); last_due = ev_time (EventList s EVENT_HARDCLOCK_INTERRUPT) in
     if \<not> realtime s then last_due + period * word_of_int (cpu_freq s)
     else if second_reading s - last_due > period div 2 then second_reading s + period
     else last_due + period)"

lemma set_interrupt_reading [simp]:
  "fst (Timing_GetTime (set_interrupt i st s)) = fst (Timing_GetTime s)"
  "fst (Timing_GetTime (snd (Timing_GetTime (set_interrupt i st s)))) = fst (Timing_GetTime (snd (Timing_GetTime s)))"
  by (simp_all add: set_interrupt_def scr_get_interrupt_level_def M68000_CheckInterrupt_def Let_def Timing_GetTime_def Timing_GetRealTime_def)

lemma Timing_Hardclock_reading [simp]: "fst (Timing_GetTime (Timing_Hardclock e a s)) = fst (Timing_GetTime s)"
  by (simp add: Timing_GetTime_def Timing_GetRealTime_def Timing_Hardclock_def Let_def)

lemma Timing_GetTime_fields [simp]:
  "fst (Timing_GetTime (s\<lparr>hardclock_counter := c\<rparr>)) = fst (Timing_GetTime s)"
  "fst (Timing_GetTime (s\<lparr>hardclock_last_time := d\<rparr>)) = fst (Timing_GetTime s)"
  by (simp_all add: Timing_GetTime_def Timing_GetRealTime_def Let_def)

lemma hardclock_same [simp]:
  "ConfigureParams (set_interrupt i st s) = ConfigureParams s" "ConfigureParams (snd (Timing_GetTime s)) = ConfigureParams s"
  "ConfigureParams (Timing_Hardclock e a s) = ConfigureParams s"
  "nCyclesMainCounter (set_interrupt i st s) = nCyclesMainCounter s" "nCyclesMainCounter (Timing_Hardclock e a s) = nCyclesMainCounter s"
  by (simp_all add: set_interrupt_def scr_get_interrupt_level_def M68000_CheckInterrupt_def Let_def
      Timing_GetTime_def Timing_GetRealTime_def Timing_Hardclock_def)

lemma hardclock_effect:
  assumes "cyc_inv s" "\<not> CycInt_EventPending EVENT_HARDCLOCK_INTERRUPT s"
  shows "\<exists>s'. Hardclock_Interrupt_Handler s = Some s' \<and> cyc_inv s'
    \<and> tst (scrIntStat s') INT_TIMER \<and> hardclock_counter s' = hardclock_latch s \<and> hardclock_latch s' = hardclock_latch s
    \<and> (hardclock_latch s \<noteq> 0 \<longrightarrow> hardclock_last_time s' = first_reading s)
    \<and> (let due = (EVENT_HARDCLOCK_INTERRUPT, next_hardclock s) in
        cycle_abs s' = (if hardclock_latch s \<noteq> 0 \<and> \<not> realtime s then sched_insert due (cycle_abs s) else cycle_abs s)
        \<and> time_abs s' = (if hardclock_latch s \<noteq> 0 \<and> realtime s then sched_insert due (time_abs s) else time_abs s))
    \<and> ConfigureParams s' = ConfigureParams s \<and> nCyclesMainCounter s' = nCyclesMainCounter s"
proof -
  let ?s1 = "set_interrupt INT_TIMER SET_INT s"
  let ?now = "fst (Timing_GetTime ?s1)" and ?s2 = "snd (Timing_GetTime ?s1)"
  define s4 where "s4 = (Timing_Hardclock (uint (hardclock_counter ?s2))
      (sint (ucast (?now - hardclock_last_time ?s2) :: u32)) ?s2)\<lparr>hardclock_counter := hardclock_latch s\<rparr>"
  define u where "u = s4\<lparr>hardclock_last_time := ?now\<rparr>"
  have el: "EventList s4 = EventList s" "nCyclesFirst s4 = nCyclesFirst s" "nTimeFirst s4 = nTimeFirst s"
    "EventList u = EventList s" "nCyclesFirst u = nCyclesFirst s" "nTimeFirst u = nTimeFirst s"
    by (simp_all add: s4_def u_def clock_read)
  note abs4 = cyc_inv_frame [OF el(1-3)] and absu = cyc_inv_frame [OF el(4-6)]
  have same: "ConfigureParams s4 = ConfigureParams s" "ConfigureParams u = ConfigureParams s"
    "nCyclesMainCounter s4 = nCyclesMainCounter s" "nCyclesMainCounter u = nCyclesMainCounter s" by (simp_all add: s4_def u_def clock_read)
  have st: "tst (scrIntStat s4) INT_TIMER" "tst (scrIntStat u) INT_TIMER" "hardclock_counter u = hardclock_latch s"
    "hardclock_latch u = hardclock_latch s" "hardclock_last_time u = first_reading s" by (simp_all add: s4_def u_def)
  have h: "Hardclock_Interrupt_Handler s = (if hardclock_latch s \<noteq> 0
      then CycInt_UpdateTimeEvent (ucast (hardclock_latch s)) 0 EVENT_HARDCLOCK_INTERRUPT u else Some s4)"
    by (simp add: Hardclock_Interrupt_Handler_def Let_def case_prod_beta s4_def u_def)
  have absent: "sched_remove EVENT_HARDCLOCK_INTERRUPT (cycle_abs s) = cycle_abs s" "sched_remove EVENT_HARDCLOCK_INTERRUPT (time_abs s) = time_abs s"
    using assms pending_iff [OF assms(1)] by (auto intro!: sched_remove_absent)
  have reading: "fst (Timing_GetTime u) = second_reading s" by (simp add: u_def s4_def)
  show ?thesis
  proof (cases "hardclock_latch s = 0")
    case True
    with h abs4 st same assms(1) show ?thesis by (simp add: s4_def)
  next
    case False
    have "\<exists>s'. CycInt_UpdateTimeEvent (ucast (hardclock_latch s)) 0 EVENT_HARDCLOCK_INTERRUPT u = Some s' \<and> cyc_inv s'
        \<and> cycle_abs s' = (if \<not> realtime s then sched_insert (EVENT_HARDCLOCK_INTERRUPT, next_hardclock s) (cycle_abs s) else cycle_abs s)
        \<and> time_abs s' = (if realtime s then sched_insert (EVENT_HARDCLOCK_INTERRUPT, next_hardclock s) (time_abs s) else time_abs s)
        \<and> s' = sched_upd s' u"
    proof (cases "realtime s")
      case True
      have half: "drop_bit (Suc 0) x = x div 2" for x :: u64 by (simp add: drop_bit_eq_div)
      have if_add: "(if c then a else b) + d = (if c then a + d else b + d)" for c and a b d :: u64 by simp
      show ?thesis
        using UpdateTimeEvent_effect_realtime [of u EVENT_HARDCLOCK_INTERRUPT, OF _ _ _ refl refl refl, of "ucast (hardclock_latch s)" 0]
          True assms(1) absu absent same
        by (simp add: reading el half if_add next_hardclock_def Let_def conj_commute conj_left_commute cong: if_cong split: if_splits)
    next
      case False
      then show ?thesis
        using UpdateTimeEvent_effect_cycles [of u EVENT_HARDCLOCK_INTERRUPT "ucast (hardclock_latch s)" 0] assms(1) absu absent same
        by (simp add: el next_hardclock_def Let_def)
    qed
    then obtain s' where s': "CycInt_UpdateTimeEvent (ucast (hardclock_latch s)) 0 EVENT_HARDCLOCK_INTERRUPT u = Some s'" "cyc_inv s'"
        "cycle_abs s' = (if \<not> realtime s then sched_insert (EVENT_HARDCLOCK_INTERRUPT, next_hardclock s) (cycle_abs s) else cycle_abs s)"
        "time_abs s' = (if realtime s then sched_insert (EVENT_HARDCLOCK_INTERRUPT, next_hardclock s) (time_abs s) else time_abs s)"
        "s' = sched_upd s' u" by blast
    have last: "hardclock_last_time s' = hardclock_last_time u" "ConfigureParams s' = ConfigureParams u" "nCyclesMainCounter s' = nCyclesMainCounter u"
      by (subst s'(5), simp add: sched_upd_def)+
    with sched_upd_hardclock [OF s'(5)] h False s' st same show ?thesis by (simp add: Let_def)
  qed
qed

text \<open>
  C22. The hardclock's event handler always returns, raises the timer interrupt and reloads the
  counter from the latch. If the latch is not zero, it schedules the next event exactly one
  period after the one that it serves, or, in realtime mode and when more than half a period has
  been missed, one period from now; if it is zero, no event follows. No other event is touched.
\<close>

theorem Hardclock_Interrupt_Handler_reschedules:
  assumes "cyc_inv s" "\<not> CycInt_EventPending EVENT_HARDCLOCK_INTERRUPT s"
  shows "\<exists>s'. Hardclock_Interrupt_Handler s = Some s' \<and> cyc_inv s'
    \<and> tst (scrIntStat s') INT_TIMER \<and> hardclock_counter s' = hardclock_latch s
    \<and> (let due = (EVENT_HARDCLOCK_INTERRUPT, next_hardclock s) in
        cycle_abs s' = (if hardclock_latch s \<noteq> 0 \<and> \<not> realtime s then sched_insert due (cycle_abs s) else cycle_abs s)
        \<and> time_abs s' = (if hardclock_latch s \<noteq> 0 \<and> realtime s then sched_insert due (time_abs s) else time_abs s))"
  using hardclock_effect [OF assms] by blast

theorem Hardclock_Interrupt_Handler_reschedules_witness:
  "let s = sample_sysreg\<lparr>hardclock_latch := 1000\<rparr> in cyc_inv s \<and> \<not> CycInt_EventPending EVENT_HARDCLOCK_INTERRUPT s
   \<and> (\<exists>s'. Hardclock_Interrupt_Handler s = Some s' \<and> tst (scrIntStat s') INT_TIMER
      \<and> (EVENT_HARDCLOCK_INTERRUPT, ev_time (EventList s EVENT_HARDCLOCK_INTERRUPT) + 25000) \<in> set (cycle_abs s'))"
proof -
  let ?s = "sample_sysreg\<lparr>hardclock_latch := 1000\<rparr>"
  have el: "EventList ?s = EventList sample_cycint" "nCyclesFirst ?s = nCyclesFirst sample_cycint"
    "nTimeFirst ?s = nTimeFirst sample_cycint" "realtime ?s = False" "cpu_freq ?s = 25"
    using sample_cycint_fields(4,5) by (simp_all add: sample_sysreg_def cycint.defs sysreg.defs)
  then have i: "cyc_inv ?s" using sample_cycint_inv
    by (simp add: cyc_inv_def cycle_queue_def time_queue_def)
  have p: "\<not> CycInt_EventPending EVENT_HARDCLOCK_INTERRUPT ?s"
    using el by (simp add: CycInt_EventPending_def sample_cycint_def timing.defs cycint.defs)
  from Hardclock_Interrupt_Handler_reschedules [OF i p] i p el show ?thesis by (auto simp: Let_def next_hardclock_def)
qed

text \<open>
  The handler meets the scheduler's contract: together with handlers that meet it, and while no
  period reaches the end of the cycle counter. So \<open>CycInt_AddCycles\<close> dispatches a periodic
  hardclock, however late it is.
\<close>

definition hardclock_fits :: "'a sysreg_scheme \<Rightarrow> bool" where
  "hardclock_fits s \<longleftrightarrow> \<not> realtime s \<and> 0 < cpu_freq s \<and> int (unat (nCyclesMainCounter s)) + 65535 * cpu_freq s < 2 ^ 64"

lemma later_period:
  assumes "hardclock_fits s" "t \<le> nCyclesMainCounter s" "n \<noteq> 0"
  shows "t < t + ucast (n :: u16) * word_of_int (cpu_freq s)"
proof -
  let ?f = "cpu_freq s"
  have "uint n \<noteq> 0" using assms(3) by (simp only: uint_0_iff not_False_eq_True)
  then have n: "0 < uint n" "uint n \<le> 65535" using uint_ge_0 [of n] unsigned_less [of n, where ?'a = int] by (linarith, simp)
  have f: "0 < ?f" "int (unat (nCyclesMainCounter s)) + 65535 * ?f < 2 ^ 64" using assms(1) by (auto simp: hardclock_fits_def)
  have "uint n * ?f \<le> 65535 * ?f" using n f by (intro mult_right_mono) auto
  moreover have "uint t \<le> int (unat (nCyclesMainCounter s))" using assms(2) by (simp add: word_le_def)
  ultimately have lim: "uint t + uint n * ?f < 2 ^ 64" using f(2) by linarith
  have pos: "0 < uint n * ?f" using n(1) f(1) by simp
  have "?f < 2 ^ 64" using f by linarith
  then have "uint (word_of_int ?f :: u64) = ?f" using f(1) by (simp add: uint_word_of_int)
  moreover have "uint (ucast n :: u64) = uint n" using n by (simp add: unsigned_ucast_eq take_bit_int_eq_self)
  moreover have small: "uint n * ?f < 2 ^ 64" using lim uint_ge_0 [of t] by linarith
  ultimately have "uint (ucast n * word_of_int ?f :: u64) = uint n * ?f" using pos by (simp only: uint_word_ariths) simp
  then have "uint (t + ucast n * word_of_int ?f) = uint t + uint n * ?f"
    using lim pos uint_ge_0 [of t] by (simp only: uint_word_ariths) simp
  then show ?thesis using pos by (simp add: word_less_def)
qed

lemma hardclock_serves_cycles:
  assumes "serves_cycles hardclock_fits h"
  shows "serves_cycles hardclock_fits (h(EVENT_HARDCLOCK_INTERRUPT := Hardclock_Interrupt_Handler))"
  unfolding serves_cycles_def
proof (intro allI impI, elim conjE)
  fix s :: "'a sysreg_scheme" and i t es
  assume s: "hardclock_fits s" "cyc_inv s" "cycle_abs s = (i, t) # es" "t \<le> nCyclesMainCounter s"
  note head = queue_head(1) [OF s(2,3)]
  let ?s = "pop_cycles_event s"
  show "\<exists>s'. (h(EVENT_HARDCLOCK_INTERRUPT := Hardclock_Interrupt_Handler)) i ?s = Some s' \<and> hardclock_fits s' \<and> cyc_inv s'
      \<and> nCyclesMainCounter s' = nCyclesMainCounter s \<and> (\<forall>e \<in> set (cycle_abs s'). e \<in> set es \<or> t < snd e)"
  proof (cases "i = EVENT_HARDCLOCK_INTERRUPT")
    case True
    have fits: "hardclock_fits ?s" using s(1) by (simp add: hardclock_fits_def)
    have et: "ev_time (EventList ?s EVENT_HARDCLOCK_INTERRUPT) = t" using head True by (auto simp: pop_cycles_event_def Let_def)
    obtain s' where s': "Hardclock_Interrupt_Handler ?s = Some s'" "cyc_inv s'" "ConfigureParams s' = ConfigureParams ?s"
        "nCyclesMainCounter s' = nCyclesMainCounter ?s"
        "cycle_abs s' = (if hardclock_latch ?s \<noteq> 0 \<and> \<not> realtime ?s
           then sched_insert (EVENT_HARDCLOCK_INTERRUPT, next_hardclock ?s) (cycle_abs ?s) else cycle_abs ?s)"
      using hardclock_effect [of ?s] head True by (auto simp: Let_def)
    have "t < next_hardclock ?s" if "hardclock_latch ?s \<noteq> 0"
      using later_period [OF fits _ that, of t] s(4) fits et by (simp add: next_hardclock_def hardclock_fits_def Let_def)
    then show ?thesis using s' head fits True by (intro exI [of _ s']) (auto simp: hardclock_fits_def)
  next
    case False
    then show ?thesis using assms s unfolding serves_cycles_def by auto
  qed
qed

section \<open>The interrupt level and byte 2 of SCR2\<close>

text \<open>
  C25. \<open>SCR2_Write2\<close> changes the level at which the timer interrupts without encoding the
  level again: with only the timer requesting, at level 6, and the clock chip not selected,
  setting \<open>SCR2_TIMERIPL7\<close> stores the bit and leaves the level the CPU polls at 6, although the
  level that the new register asks for is 7.
\<close>

theorem SCR2_Write2_stale_level:
  assumes "scrIntStat s AND scrIntMask s = INT_TIMER" "scrIntLevel s = 6"
    and "\<not> tst (scr2_2 s) SCR2_TIMERIPL7" "\<not> tst (scr2_2 s) SCR2_RTCE"
  shows "\<exists>s'. SCR2_Write2 (scr2_2 s OR SCR2_TIMERIPL7) s = Some s' \<and> scrIntLevel s' = 6
    \<and> is_level (tst (scr2_2 s') SCR2_TIMERIPL7) (scrIntStat s' AND scrIntMask s') 7"
proof -
  have "\<not> tst (0x80::u8) 1" by (simp add: tst_def)
  moreover have "\<not> tst (scr2_2 s XOR (scr2_2 s OR 0x80)) 1"
    using assms(4) by (simp add: tst_1_2 bit_xor_iff bit_or_iff)
  ultimately have w: "SCR2_Write2 (scr2_2 s OR SCR2_TIMERIPL7) s = Some (s\<lparr>scr2_2 := scr2_2 s OR SCR2_TIMERIPL7\<rparr>)"
    using assms(4) by (simp add: SCR2_Write2_def Let_def)
  have "is_level True INT_TIMER 7"
    unfolding is_level_def using mask_bits(2) by (auto simp: level_of_def intro!: exI [of _ 29])
  with w assms show ?thesis by simp
qed

theorem SCR2_Write2_stale_level_witness:
  "let s = sample_rtcnvram\<lparr>scrIntStat := INT_TIMER, scrIntMask := INT_TIMER, scrIntLevel := 6\<rparr>
   in \<exists>s'. SCR2_Write2 (scr2_2 s OR SCR2_TIMERIPL7) s = Some s' \<and> scrIntLevel s' = 6
    \<and> is_level (tst (scr2_2 s') SCR2_TIMERIPL7) (scrIntStat s' AND scrIntMask s') 7"
  using SCR2_Write2_stale_level
    [of "sample_rtcnvram\<lparr>scrIntStat := INT_TIMER, scrIntMask := INT_TIMER, scrIntLevel := 6\<rparr>"]
  by (simp add: Let_def sample_rtc_defs)

end
