(* ===== verification/Scsi.thy ===== *)
theory Scsi
  imports RtcNvram
begin

text \<open>
  The SCSI disks of \<open>scsi.c\<close>: the bus status, the transfer buffer, seven targets, and the
  commands. A host file is a byte list with a name; \<open>host_files\<close> and \<open>host_writable\<close> are the
  host's file system. Positions and sizes are \<open>int\<close> where the code has \<open>int\<close>; \<open>time\<close> (an
  \<open>int64_t\<close> that stays far below its limits) is an \<open>int\<close>.

  A step outside an array (\<open>scsi_buffer.data\<close>, \<open>SCSIdisk\<close>, the table of shadow blocks) and
  \<open>abort()\<close> are \<open>None\<close>. \<open>SCSIbus.target\<close> is only set by \<open>SCSIdisk_Select\<close>, where the index is
  checked; the other functions use it without a check.
\<close>

section \<open>Host files\<close>

text \<open>An open file: its name and whether it may be written.\<close>

type_synonym FILE = "string \<times> bool"

definition File_Length :: "(string \<Rightarrow> u8 list option) \<Rightarrow> string \<Rightarrow> int" where
  "File_Length fs path = (case fs path of Some bs \<Rightarrow> int (length bs) | None \<Rightarrow> -1)"

text \<open>
  \<open>File_Open\<close> in the modes \<open>rb\<close> (\<open>rw\<close> false) and \<open>rb+\<close> (\<open>rw\<close> true). The names of the standard
  streams, which it treats specially, are not names of disk images.
\<close>

definition File_Open :: "(string \<Rightarrow> u8 list option) \<Rightarrow> (string \<Rightarrow> bool) \<Rightarrow> string \<Rightarrow> bool \<Rightarrow> FILE option" where
  "File_Open fs writable path rw =
     (if path = '''' then None
      else if fs path = None \<or> rw \<and> \<not> writable path then None
      else Some (path, rw))"

definition File_Close :: "FILE option \<Rightarrow> FILE option" where
  "File_Close fp = None"

text \<open>Copy \<open>bs\<close> to the positions from \<open>off\<close> on; used for \<open>memcpy\<close> and \<open>memset\<close>.\<close>

definition put_bytes :: "nat \<Rightarrow> u8 list \<Rightarrow> u8 list \<Rightarrow> u8 list" where
  "put_bytes off bs data = take off data @ bs @ drop (off + length bs) data"

text \<open>A read at the end of the file stores the bytes that are there.\<close>

definition File_Read :: "(string \<Rightarrow> u8 list option) \<Rightarrow> u8 list \<Rightarrow> nat \<Rightarrow> nat \<Rightarrow> FILE option \<Rightarrow> u8 list" where
  "File_Read fs data n offset fp =
     (case fp of
        None \<Rightarrow> data
      | Some (path, rw) \<Rightarrow>
          (case fs path of None \<Rightarrow> data | Some bs \<Rightarrow> put_bytes 0 (take n (drop offset bs)) data))"

text \<open>A write past the end extends the file; the gap reads as zeros.\<close>

definition File_Write ::
  "(string \<Rightarrow> u8 list option) \<Rightarrow> u8 list \<Rightarrow> nat \<Rightarrow> nat \<Rightarrow> FILE option \<Rightarrow> (string \<Rightarrow> u8 list option)" where
  "File_Write fs data n offset fp =
     (case fp of
        None \<Rightarrow> fs
      | Some (path, rw) \<Rightarrow>
          (case fs path of
             None \<Rightarrow> fs
           | Some bs \<Rightarrow>
               if rw then fs(path \<mapsto> put_bytes offset (take n data) (bs @ replicate (offset - length bs) 0))
               else fs))"

section \<open>State\<close>

abbreviation (input) ESP_MAX_DEVS :: nat where "ESP_MAX_DEVS \<equiv> 7"

abbreviation (input) PHASE_DO :: u8 where "PHASE_DO \<equiv> 0x00"
abbreviation (input) PHASE_DI :: u8 where "PHASE_DI \<equiv> 0x01"
abbreviation (input) PHASE_CD :: u8 where "PHASE_CD \<equiv> 0x02"
abbreviation (input) PHASE_ST :: u8 where "PHASE_ST \<equiv> 0x03"
abbreviation (input) PHASE_MO :: u8 where "PHASE_MO \<equiv> 0x06"
abbreviation (input) PHASE_MI :: u8 where "PHASE_MI \<equiv> 0x07"

abbreviation (input) SCSI_CDB_MAX_SIZE :: nat where "SCSI_CDB_MAX_SIZE \<equiv> 12"
abbreviation (input) SCSI_BLOCKSIZE :: u32 where "SCSI_BLOCKSIZE \<equiv> 512"
abbreviation (input) SCSI_CD_BLOCK :: u32 where "SCSI_CD_BLOCK \<equiv> 2048"
abbreviation (input) SCSI_MAX_BLOCK :: u32 where "SCSI_MAX_BLOCK \<equiv> 2048"

abbreviation (input) LUN_DISK :: u8 where "LUN_DISK \<equiv> 0"

abbreviation (input) STAT_GOOD :: u8 where "STAT_GOOD \<equiv> 0x00"
abbreviation (input) STAT_CHECK_COND :: u8 where "STAT_CHECK_COND \<equiv> 0x02"
abbreviation (input) MSG_COMPLETE :: u8 where "MSG_COMPLETE \<equiv> 0x00"
abbreviation (input) MSG_IDENTIFY_MASK :: u8 where "MSG_IDENTIFY_MASK \<equiv> 0x80"
abbreviation (input) MSG_LUNMASK :: u8 where "MSG_LUNMASK \<equiv> 0x07"

abbreviation (input) SK_NOSENSE :: u8 where "SK_NOSENSE \<equiv> 0x00"
abbreviation (input) SK_NOTREADY :: u8 where "SK_NOTREADY \<equiv> 0x02"
abbreviation (input) SK_ILLEGAL_REQ :: u8 where "SK_ILLEGAL_REQ \<equiv> 0x05"
abbreviation (input) SK_DATAPROTECT :: u8 where "SK_DATAPROTECT \<equiv> 0x07"

abbreviation (input) SC_NO_ERROR :: u8 where "SC_NO_ERROR \<equiv> 0x00"
abbreviation (input) SC_NOT_READY :: u8 where "SC_NOT_READY \<equiv> 0x04"
abbreviation (input) SC_INVALID_CMD :: u8 where "SC_INVALID_CMD \<equiv> 0x20"
abbreviation (input) SC_INVALID_LBA :: u8 where "SC_INVALID_LBA \<equiv> 0x21"
abbreviation (input) SC_INVALID_CDB :: u8 where "SC_INVALID_CDB \<equiv> 0x24"
abbreviation (input) SC_INVALID_LUN :: u8 where "SC_INVALID_LUN \<equiv> 0x25"
abbreviation (input) SC_WRITE_PROTECT :: u8 where "SC_WRITE_PROTECT \<equiv> 0x27"
abbreviation (input) SC_SAVE_UNSUPP :: u8 where "SC_SAVE_UNSUPP \<equiv> 0x39"

abbreviation (input) CMD_TEST_UNIT_RDY :: u8 where "CMD_TEST_UNIT_RDY \<equiv> 0x00"
abbreviation (input) CMD_REQ_SENSE :: u8 where "CMD_REQ_SENSE \<equiv> 0x03"
abbreviation (input) CMD_FORMAT_DRIVE :: u8 where "CMD_FORMAT_DRIVE \<equiv> 0x04"
abbreviation (input) CMD_REASSIGN :: u8 where "CMD_REASSIGN \<equiv> 0x07"
abbreviation (input) CMD_READ_SECTOR :: u8 where "CMD_READ_SECTOR \<equiv> 0x08"
abbreviation (input) CMD_WRITE_SECTOR :: u8 where "CMD_WRITE_SECTOR \<equiv> 0x0A"
abbreviation (input) CMD_SEEK :: u8 where "CMD_SEEK \<equiv> 0x0B"
abbreviation (input) CMD_INQUIRY :: u8 where "CMD_INQUIRY \<equiv> 0x12"
abbreviation (input) CMD_MODESELECT :: u8 where "CMD_MODESELECT \<equiv> 0x15"
abbreviation (input) CMD_MODESENSE :: u8 where "CMD_MODESENSE \<equiv> 0x1A"
abbreviation (input) CMD_SHIP :: u8 where "CMD_SHIP \<equiv> 0x1B"
abbreviation (input) CMD_READ_CAPACITY1 :: u8 where "CMD_READ_CAPACITY1 \<equiv> 0x25"
abbreviation (input) CMD_READ_SECTOR1 :: u8 where "CMD_READ_SECTOR1 \<equiv> 0x28"
abbreviation (input) CMD_WRITE_SECTOR1 :: u8 where "CMD_WRITE_SECTOR1 \<equiv> 0x2A"

abbreviation (input) DEVTYPE_DISK :: u8 where "DEVTYPE_DISK \<equiv> 0x00"
abbreviation (input) DEVTYPE_READONLY :: u8 where "DEVTYPE_READONLY \<equiv> 0x05"
abbreviation (input) DEVTYPE_NOTPRESENT :: u8 where "DEVTYPE_NOTPRESENT \<equiv> 0x7f"

record SCSIBusStatus =
  bus_target :: u8
  bus_phase :: u8

record SCSIBuffer =
  buf_data :: "u8 list"
  buf_limit :: int
  buf_size :: int
  buf_disk :: bool
  buf_time :: int

record SCSIsense =
  sense_key :: u8
  sense_code :: u8
  sense_valid :: bool
  sense_info :: u32

record SCSIdisk_t =
  devtype :: SCSI_DEVTYPE
  dsk :: "FILE option"
  disk_size :: u64
  blocksize :: u32
  readonly :: bool
  disk_lun :: u8
  disk_status :: u8
  disk_message :: u8
  sense :: SCSIsense
  lba :: u32
  blockcounter :: u32
  lastlba :: u32
  known :: int
  shadow :: "u8 list option list option"

record scsi = rtcnvram +
  host_files :: "string \<Rightarrow> u8 list option"
  host_writable :: "string \<Rightarrow> bool"
  SCSIbus :: SCSIBusStatus
  scsi_buffer :: SCSIBuffer
  SCSIdisk :: "SCSIdisk_t list"

abbreviation cur_target :: "'a scsi_scheme \<Rightarrow> nat" where
  "cur_target s \<equiv> unat (bus_target (SCSIbus s))"

abbreviation cur_disk :: "'a scsi_scheme \<Rightarrow> SCSIdisk_t" where
  "cur_disk s \<equiv> SCSIdisk s ! cur_target s"

definition upd_disk :: "(SCSIdisk_t \<Rightarrow> SCSIdisk_t) \<Rightarrow> 'a scsi_scheme \<Rightarrow> 'a scsi_scheme" where
  "upd_disk f s = s\<lparr>SCSIdisk := (SCSIdisk s)[cur_target s := f (cur_disk s)]\<rparr>"

definition set_phase :: "u8 \<Rightarrow> 'a scsi_scheme \<Rightarrow> 'a scsi_scheme" where
  "set_phase p s = s\<lparr>SCSIbus := (SCSIbus s)\<lparr>bus_phase := p\<rparr>\<rparr>"

definition upd_buffer :: "(SCSIBuffer \<Rightarrow> SCSIBuffer) \<Rightarrow> 'a scsi_scheme \<Rightarrow> 'a scsi_scheme" where
  "upd_buffer f s = s\<lparr>scsi_buffer := f (scsi_buffer s)\<rparr>"

text \<open>The assignments to status and sense data with which every command ends.\<close>

definition set_sense :: "u8 \<Rightarrow> u8 \<Rightarrow> u8 \<Rightarrow> SCSIdisk_t \<Rightarrow> SCSIdisk_t" where
  "set_sense st key code d = d\<lparr>disk_status := st,
     sense := (sense d)\<lparr>sense_key := key, sense_code := code, sense_valid := False\<rparr>\<rparr>"

abbreviation good :: "SCSIdisk_t \<Rightarrow> SCSIdisk_t" where
  "good \<equiv> set_sense STAT_GOOD SK_NOSENSE SC_NO_ERROR"

section \<open>Helpers\<close>

definition COMMAND_ReadInt16 :: "u8 list \<Rightarrow> nat \<Rightarrow> u32" where
  "COMMAND_ReadInt16 a i = push_bit 8 (ucast (a ! i)) OR ucast (a ! (i + 1))"

definition COMMAND_ReadInt24 :: "u8 list \<Rightarrow> nat \<Rightarrow> u32" where
  "COMMAND_ReadInt24 a i = push_bit 16 (ucast (a ! i)) OR push_bit 8 (ucast (a ! (i + 1))) OR ucast (a ! (i + 2))"

definition COMMAND_ReadInt32 :: "u8 list \<Rightarrow> nat \<Rightarrow> u32" where
  "COMMAND_ReadInt32 a i = push_bit 24 (ucast (a ! i)) OR push_bit 16 (ucast (a ! (i + 1)))
     OR push_bit 8 (ucast (a ! (i + 2))) OR ucast (a ! (i + 3))"

text \<open>The bytes of a number, as the replies store them.\<close>

abbreviation byte3 :: "u32 \<Rightarrow> u8" where "byte3 x \<equiv> ucast (drop_bit 24 x)"
abbreviation byte2 :: "u32 \<Rightarrow> u8" where "byte2 x \<equiv> ucast (drop_bit 16 x)"
abbreviation byte1 :: "u32 \<Rightarrow> u8" where "byte1 x \<equiv> ucast (drop_bit 8 x)"
abbreviation byte0 :: "u32 \<Rightarrow> u8" where "byte0 x \<equiv> ucast x"

definition ascii :: "string \<Rightarrow> u8 list" where
  "ascii str = map of_char str"

definition inquiry_bytes :: "u8 list" where
  "inquiry_bytes = [0x00, 0x00, 0x01, 0x01, 0x31, 0x00, 0x00, 0x1C] @ ascii ''Previous''
     @ ascii ''HDD             '' @ ascii ''B'' @ replicate 21 0"

definition inquiry_copy :: "u8 list \<Rightarrow> nat \<Rightarrow> nat \<Rightarrow> string \<Rightarrow> u8 list" where
  "inquiry_copy data offset maxlen str = put_bytes offset (ascii (take maxlen str)) data"

record known_disk =
  kd_dev :: SCSI_DEVTYPE
  kd_type :: u8
  kd_rmb :: u8
  kd_vend :: string
  kd_name :: string
  kd_vers :: string
  kd_len :: u8
  kd_c :: u32
  kd_h :: u32
  kd_s :: u32
  kd_bs :: u32

definition KNOWN_SIZE :: "known_disk \<Rightarrow> u32" where
  "KNOWN_SIZE k = kd_c k * kd_h k * kd_s k * kd_bs k"

definition known_disks :: "known_disk list" where
  "known_disks =
    [\<lparr>kd_dev = SD_HARDDISK, kd_type = DEVTYPE_DISK, kd_rmb = 0x00, kd_vend = ''MAXTOR'',
      kd_name = ''XT-8380S'', kd_vers = ''B3C'', kd_len = 31, kd_c = 1626, kd_h = 10, kd_s = 22, kd_bs = 1024\<rparr>,
     \<lparr>kd_dev = SD_HARDDISK, kd_type = DEVTYPE_DISK, kd_rmb = 0x00, kd_vend = ''MAXTOR'',
      kd_name = ''XT-8760S'', kd_vers = ''B3C'', kd_len = 31, kd_c = 1626, kd_h = 16, kd_s = 26, kd_bs = 1024\<rparr>,
     \<lparr>kd_dev = SD_CD, kd_type = DEVTYPE_READONLY, kd_rmb = 0x80, kd_vend = ''SONY'',
      kd_name = ''CD-ROM CDU-541'', kd_vers = ''2.6a'', kd_len = 31, kd_c = 0, kd_h = 0, kd_s = 0, kd_bs = 2048\<rparr>,
     \<lparr>kd_dev = SD_FLOPPY, kd_type = DEVTYPE_DISK, kd_rmb = 0x80, kd_vend = ''PLI'',
      kd_name = ''SUPER FLOPPY'', kd_vers = ''1.50'', kd_len = 31, kd_c = 0, kd_h = 0, kd_s = 0, kd_bs = 512\<rparr>]"

text \<open>The first entry that fits, or -1.\<close>

definition lookup_known :: "SCSI_DEVTYPE \<Rightarrow> int \<Rightarrow> int" where
  "lookup_known dev len =
     (case find (\<lambda>i. let k = known_disks ! i in kd_dev k = dev
          \<and> (uint (KNOWN_SIZE k) = len \<or> tst (kd_rmb k) 0x80) \<and> kd_bs k \<le> SCSI_MAX_BLOCK) [0..<4] of
        Some i \<Rightarrow> int i
      | None \<Rightarrow> -1)"

definition SCSI_GetTransferLength :: "u8 \<Rightarrow> u8 list \<Rightarrow> int" where
  "SCSI_GetTransferLength opcode cdb = (if opcode < 0x20 then uint (cdb ! 4) else uint (COMMAND_ReadInt16 cdb 7))"

definition SCSI_GetOffset :: "u8 \<Rightarrow> u8 list \<Rightarrow> u32" where
  "SCSI_GetOffset opcode cdb =
     (if opcode < 0x20 then COMMAND_ReadInt24 cdb 1 AND 0x1FFFFF else COMMAND_ReadInt32 cdb 2)"

definition SCSI_GetCount :: "u8 \<Rightarrow> u8 list \<Rightarrow> u32" where
  "SCSI_GetCount opcode cdb =
     (if opcode < 0x20 then (if cdb ! 4 = 0 then 0x100 else ucast (cdb ! 4)) else COMMAND_ReadInt16 cdb 7)"

abbreviation (input) FLP_CYLS :: u32 where "FLP_CYLS \<equiv> 80"
abbreviation (input) FLP_HEADS :: u32 where "FLP_HEADS \<equiv> 2"
abbreviation (input) HDD_SECTS :: u32 where "HDD_SECTS \<equiv> 32"
abbreviation (input) HDD_HEADS :: u32 where "HDD_HEADS \<equiv> 4"

definition SCSI_GuessGeometry :: "SCSI_DEVTYPE \<Rightarrow> u32 \<Rightarrow> u32 \<times> u32 \<times> u32" where
  "SCSI_GuessGeometry type sectors = (
     let (c, h, s) = (if type = SD_FLOPPY then (FLP_CYLS, FLP_HEADS, sectors div (FLP_CYLS * FLP_HEADS))
                      else (sectors div (HDD_HEADS * HDD_SECTS), HDD_HEADS, HDD_SECTS))
     in if s = 0 \<or> c = 0 \<or> sectors mod (c * h * s) \<noteq> 0
        then (if type = SD_FLOPPY then (c, h, s + 1) else (c + 1, h, s))
        else (c, h, s))"

abbreviation (input) SCSI_SEEK_TIME_HD :: int where "SCSI_SEEK_TIME_HD \<equiv> 20000"
abbreviation (input) SCSI_SECTOR_TIME_HD :: int where "SCSI_SECTOR_TIME_HD \<equiv> 700"
abbreviation (input) SCSI_SEEK_TIME_FD :: int where "SCSI_SEEK_TIME_FD \<equiv> 200000"
abbreviation (input) SCSI_SECTOR_TIME_FD :: int where "SCSI_SECTOR_TIME_FD \<equiv> 11000"
abbreviation (input) SCSI_SEEK_TIME_CD :: int where "SCSI_SEEK_TIME_CD \<equiv> 500000"
abbreviation (input) SCSI_SECTOR_TIME_CD :: int where "SCSI_SECTOR_TIME_CD \<equiv> 6500"

definition SCSI_GetTime :: "SCSIdisk_t \<Rightarrow> int" where
  "SCSI_GetTime d = (
     let scaled = (\<lambda>seektime sectortime.
           let seekoffset = (if lba d < lastlba d then uint (lastlba d - lba d) else uint (lba d - lastlba d));
               disksize = max 1 (uint (disk_size d div ucast (blocksize d)));
               seektime = min 500000 (seektime * seekoffset div disksize);
               sectors = max 1 (uint (blockcounter d))
           in seektime + sectortime * sectors * uint (blocksize d) div 1024)
     in case devtype d of
          SD_HARDDISK \<Rightarrow> scaled SCSI_SEEK_TIME_HD SCSI_SECTOR_TIME_HD
        | SD_CD \<Rightarrow> scaled SCSI_SEEK_TIME_CD SCSI_SECTOR_TIME_CD
        | SD_FLOPPY \<Rightarrow> scaled SCSI_SEEK_TIME_FD SCSI_SECTOR_TIME_FD
        | SD_NONE \<Rightarrow> 1000)"

text \<open>The number of blocks of a disk, as the C expressions compute it.\<close>

abbreviation sectors_of :: "SCSIdisk_t \<Rightarrow> u32" where
  "sectors_of d \<equiv> ucast (disk_size d div ucast (blocksize d))"

text \<open>The bytes of a mode page; the empty list is the return value 0.\<close>

definition SCSI_GetModePage :: "SCSIdisk_t \<Rightarrow> u8 \<Rightarrow> u8 list" where
  "SCSI_GetModePage d pagecode = (
     let (c, h, s) = (if known d < 0 then SCSI_GuessGeometry (devtype d) (sectors_of d)
                      else let k = known_disks ! nat (known d) in (kd_c k, kd_h k, kd_s k))
     in if pagecode = 0x00 then [0x00, 0x02, 0x80, 0x00]
        else if pagecode = 0x01 then [0x01, 0x02, 0x00, 0x1B]
        else if pagecode = 0x03 then
          [0x03, 0x16, 0x00, 0x00, 0x00, 0x00, 0x00, 0x00, 0x00, 0x00, byte1 s, byte0 s,
           byte1 (blocksize d), byte0 (blocksize d), 0x00, 0x01, 0x00, 0x00, 0x00, 0x00,
           if devtype d = SD_HARDDISK then 0x80 else 0xA0, 0x00, 0x00, 0x00]
        else if pagecode = 0x04 then
          [0x04, 0x12, byte2 c, byte1 c, byte0 c, byte0 h, 0x00, 0x00, 0x00, 0x00, 0x00, 0x00, 0x00, 0x00,
           0x00, 0x00, 0x00, 0x00, 0x00, 0x00]
        else [])"

section \<open>Commands\<close>

definition SCSI_TestUnitReady :: "u8 list \<Rightarrow> 'a scsi_scheme \<Rightarrow> 'a scsi_scheme" where
  "SCSI_TestUnitReady cdb s =
     set_phase PHASE_ST
       (if devtype (cur_disk s) \<noteq> SD_NONE \<and> devtype (cur_disk s) \<noteq> SD_HARDDISK \<and> dsk (cur_disk s) = None
        then upd_disk (set_sense STAT_CHECK_COND SK_NOTREADY SC_NOT_READY) s
        else upd_disk good s)"

text \<open>A reply in the buffer: its bytes from position 0 on, and the fields that describe it.\<close>

definition set_reply :: "int \<Rightarrow> SCSIBuffer \<Rightarrow> SCSIBuffer" where
  "set_reply len b = b\<lparr>buf_size := len, buf_limit := len, buf_disk := False, buf_time := 100\<rparr>"

definition put_reply :: "nat \<Rightarrow> u8 list \<Rightarrow> SCSIBuffer \<Rightarrow> SCSIBuffer" where
  "put_reply off bs b = b\<lparr>buf_data := put_bytes off bs (buf_data b)\<rparr>"

definition SCSI_ReadCapacity :: "u8 list \<Rightarrow> 'a scsi_scheme \<Rightarrow> 'a scsi_scheme" where
  "SCSI_ReadCapacity cdb s = (
     let bs = blocksize (cur_disk s);
         sectors = ucast (disk_size (cur_disk s) div ucast bs - 1) :: u32
     in set_phase PHASE_DI (upd_disk good
          (upd_buffer (set_reply 8 \<circ> put_reply 0 [byte3 sectors, byte2 sectors, byte1 sectors, byte0 sectors,
             byte3 bs, byte2 bs, byte1 bs, byte0 bs]) s)))"

text \<open>The error at the end of the disk, common to reading and writing.\<close>

definition invalid_lba :: "'a scsi_scheme \<Rightarrow> 'a scsi_scheme" where
  "invalid_lba s = set_phase PHASE_ST (upd_disk (\<lambda>d. d\<lparr>disk_status := STAT_CHECK_COND,
     sense := \<lparr>sense_key = SK_ILLEGAL_REQ, sense_code = SC_INVALID_LBA, sense_valid = True, sense_info = lba d\<rparr>\<rparr>) s)"

definition sector_offset :: "SCSIdisk_t \<Rightarrow> u64" where
  "sector_offset d = ucast (lba d) * ucast (blocksize d)"

text \<open>The block goes to the image file or, with write protection on, to the shadow blocks.\<close>

definition write_block :: "'a scsi_scheme \<Rightarrow> 'a scsi_scheme option" where
  "write_block s = (
     let d = cur_disk s; bs = unat (blocksize d) in
     if nWriteProtection (SCSI (ConfigureParams s)) \<noteq> WRITEPROT_ON then
       Some (s\<lparr>host_files := File_Write (host_files s) (buf_data (scsi_buffer s)) bs (unat (sector_offset d)) (dsk d)\<rparr>)
     else case shadow d of
       Some sh \<Rightarrow> do {
         sh' \<leftarrow> arr_set sh (unat (lba d)) (Some (take bs (buf_data (scsi_buffer s))));
         Some (upd_disk (\<lambda>d. d\<lparr>shadow := Some sh'\<rparr>) s)
       }
     | None \<Rightarrow> Some (upd_disk (\<lambda>d. d\<lparr>shadow := Some (replicate (unat (sectors_of d)) None)\<rparr>) s))"

definition scsi_write_sector :: "'a scsi_scheme \<Rightarrow> 'a scsi_scheme option" where
  "scsi_write_sector s =
     (if sector_offset (cur_disk s) < disk_size (cur_disk s) then do {
        s1 \<leftarrow> write_block s;
        let s2 = upd_buffer (\<lambda>b. b\<lparr>buf_size := 0, buf_limit := uint (blocksize (cur_disk s))\<rparr>) s1;
        let s3 = upd_disk (\<lambda>d. d\<lparr>lba := lba d + 1, blockcounter := blockcounter d - 1\<rparr>) s2;
        Some (if blockcounter (cur_disk s3) = 0 then set_phase PHASE_ST s3 else s3)
      }
      else Some (invalid_lba s))"

definition start_transfer :: "u8 list \<Rightarrow> SCSIdisk_t \<Rightarrow> SCSIdisk_t" where
  "start_transfer cdb d = d\<lparr>lastlba := lba d, lba := SCSI_GetOffset (cdb ! 0) cdb,
     blockcounter := SCSI_GetCount (cdb ! 0) cdb\<rparr>"

definition SCSI_WriteSector :: "u8 list \<Rightarrow> 'a scsi_scheme \<Rightarrow> 'a scsi_scheme" where
  "SCSI_WriteSector cdb s = (
     let s1 = upd_disk (start_transfer cdb) s; d = cur_disk s1 in
     if readonly d then set_phase PHASE_ST (upd_disk (set_sense STAT_CHECK_COND SK_DATAPROTECT SC_WRITE_PROTECT) s1)
     else set_phase (if blockcounter d \<noteq> 0 then PHASE_DO else PHASE_ST) (upd_disk good
       (upd_buffer (\<lambda>b. b\<lparr>buf_size := 0, buf_limit := uint (blocksize d), buf_disk := True,
          buf_time := SCSI_GetTime d\<rparr>) s1)))"

text \<open>The block comes from the shadow blocks if it is there, otherwise from the image file.\<close>

definition read_block :: "'a scsi_scheme \<Rightarrow> u8 list option" where
  "read_block s = (
     let d = cur_disk s; bs = unat (blocksize d); data = buf_data (scsi_buffer s);
         from_file = File_Read (host_files s) data bs (unat (sector_offset d)) (dsk d)
     in case shadow d of
          None \<Rightarrow> Some from_file
        | Some sh \<Rightarrow> do {
            e \<leftarrow> arr_get sh (unat (lba d));
            Some (case e of Some blk \<Rightarrow> put_bytes 0 blk data | None \<Rightarrow> from_file)
          })"

definition scsi_read_sector :: "'a scsi_scheme \<Rightarrow> 'a scsi_scheme option" where
  "scsi_read_sector s =
     (if blockcounter (cur_disk s) = 0 then Some (set_phase PHASE_ST s)
      else if sector_offset (cur_disk s) < disk_size (cur_disk s) then do {
        data \<leftarrow> read_block s;
        let s1 = upd_buffer (\<lambda>b. b\<lparr>buf_data := data, buf_size := uint (blocksize (cur_disk s)),
                   buf_limit := uint (blocksize (cur_disk s))\<rparr>) s;
        Some (upd_disk (\<lambda>d. d\<lparr>lba := lba d + 1, blockcounter := blockcounter d - 1\<rparr>) s1)
      }
      else Some (invalid_lba s))"

definition SCSI_ReadSector :: "u8 list \<Rightarrow> 'a scsi_scheme \<Rightarrow> 'a scsi_scheme option" where
  "SCSI_ReadSector cdb s = (
     let s1 = upd_disk (start_transfer cdb) s; d = cur_disk s1 in
     scsi_read_sector (set_phase (if blockcounter d \<noteq> 0 then PHASE_DI else PHASE_ST) (upd_disk good
       (upd_buffer (\<lambda>b. b\<lparr>buf_size := 0, buf_limit := 0, buf_disk := True, buf_time := SCSI_GetTime d\<rparr>) s1))))"

text \<open>The inquiry data, before the check of the logical unit, and their length.\<close>

definition inquiry_data :: "SCSIdisk_t \<Rightarrow> u8 list \<times> int" where
  "inquiry_data d =
     (if known d < 0 then
        let data = put_bytes 0 inquiry_bytes (replicate 2048 0);
            entry = (\<lambda>ty rmb name. inquiry_copy (data[0 := ty, 1 := rmb (data ! 1)]) 16 16 name)
        in (case devtype d of
              SD_HARDDISK \<Rightarrow> entry DEVTYPE_DISK (\<lambda>x. x AND NOT 0x80) ''HDD''
            | SD_CD \<Rightarrow> entry DEVTYPE_READONLY (\<lambda>x. x OR 0x80) ''CD-ROM''
            | SD_FLOPPY \<Rightarrow> entry DEVTYPE_DISK (\<lambda>x. x OR 0x80) ''FLOPPY''
            | SD_NONE \<Rightarrow> data, 54)
      else
        let k = known_disks ! nat (known d);
            data = put_bytes 0 ([kd_type k, kd_rmb k, 0x01, 0x01, kd_len k, 0, 0, 0] @ replicate 24 0x20) (replicate 2048 0);
            data = inquiry_copy data 8 8 (kd_vend k);
            data = inquiry_copy data 16 16 (kd_name k)
        in (inquiry_copy data 32 24 (kd_vers k), 5 + uint (kd_len k)))"

definition SCSI_Inquiry :: "u8 list \<Rightarrow> 'a scsi_scheme \<Rightarrow> 'a scsi_scheme" where
  "SCSI_Inquiry cdb s = (
     let (data, l) = inquiry_data (cur_disk s);
         data = (if disk_lun (cur_disk s) \<noteq> LUN_DISK then data[0 := DEVTYPE_NOTPRESENT] else data);
         len = min l (SCSI_GetTransferLength (cdb ! 0) cdb)
     in set_phase (if len \<noteq> 0 then PHASE_DI else PHASE_ST) (upd_disk good
          (upd_buffer (\<lambda>b. set_reply len (b\<lparr>buf_data := data\<rparr>)) s)))"

definition eject_disk :: "SCSIdisk_t \<Rightarrow> SCSIdisk_t" where
  "eject_disk d = d\<lparr>dsk := File_Close (dsk d), disk_size := 0, readonly := False\<rparr>"

definition SCSI_Eject :: "nat \<Rightarrow> 'a scsi_scheme \<Rightarrow> 'a scsi_scheme" where
  "SCSI_Eject i s = s\<lparr>SCSIdisk := (SCSIdisk s)[i := eject_disk (SCSIdisk s ! i)]\<rparr>"

definition upd_cnf_target :: "nat \<Rightarrow> (SCSIDISK \<Rightarrow> SCSIDISK) \<Rightarrow> 'a timing_scheme \<Rightarrow> 'a timing_scheme" where
  "upd_cnf_target i f s = (
     let c = ConfigureParams s; t = cnf_target (SCSI c)
     in s\<lparr>ConfigureParams := c\<lparr>SCSI := (SCSI c)\<lparr>cnf_target := t[i := f (t ! i)]\<rparr>\<rparr>\<rparr>)"

definition SCSI_StartStop :: "u8 list \<Rightarrow> 'a scsi_scheme \<Rightarrow> 'a scsi_scheme" where
  "SCSI_StartStop cdb s = set_phase PHASE_ST (upd_disk good
     (if cdb ! 4 AND 0x03 = 2 \<and> devtype (cur_disk s) \<noteq> SD_HARDDISK
      then upd_cnf_target (cur_target s) (\<lambda>t. t\<lparr>bDiskInserted := False, szImageName := ''''\<rparr>)
             (SCSI_Eject (cur_target s) s)
      else s))"

definition SCSI_RequestSense :: "u8 list \<Rightarrow> 'a scsi_scheme \<Rightarrow> 'a scsi_scheme" where
  "SCSI_RequestSense cdb s = (
     let len = SCSI_GetTransferLength (cdb ! 0) cdb;
         len = (if len \<le> 0 then 4 else if len > 22 then 22 else len);
         sn = sense (cur_disk s);
         data = put_bytes 0 (replicate (nat len) 0) (buf_data (scsi_buffer s));
         data = data[0 := 0x70, 2 := sense_key sn, 7 := 14, 12 := sense_code sn];
         data = (if sense_valid sn then
                   data[0 := data ! 0 OR 0x80, 3 := byte3 (sense_info sn), 4 := byte2 (sense_info sn),
                        5 := byte1 (sense_info sn), 6 := byte0 (sense_info sn)]
                 else data)
     in set_phase PHASE_DI (upd_disk (\<lambda>d. d\<lparr>disk_status := STAT_GOOD\<rparr>)
          (upd_buffer (\<lambda>b. set_reply len (b\<lparr>buf_data := data\<rparr>)) s)))"

text \<open>The mode pages for page code \<open>0x3F\<close>: pages 1 to \<open>0x3E\<close>, then page 0.\<close>

definition all_mode_pages :: "SCSIdisk_t \<Rightarrow> u8 list" where
  "all_mode_pages d = concat (map (\<lambda>p. SCSI_GetModePage d (of_nat p)) [1..<0x3F]) @ SCSI_GetModePage d 0x00"

definition mode_header :: "SCSIdisk_t \<Rightarrow> bool \<Rightarrow> u8 list" where
  "mode_header d dbd = [0x00, 0x00, if readonly d then 0x80 else 0x00, 0x08] @
     (if dbd then []
      else [0x00, byte2 (sectors_of d), byte1 (sectors_of d), byte0 (sectors_of d), 0x00,
            byte2 (blocksize d), byte1 (blocksize d), byte0 (blocksize d)])"

definition mode_error :: "u8 \<Rightarrow> 'a scsi_scheme \<Rightarrow> 'a scsi_scheme" where
  "mode_error code s = set_phase PHASE_ST (upd_disk (set_sense STAT_CHECK_COND SK_ILLEGAL_REQ code) s)"

definition SCSI_ModeSense :: "u8 list \<Rightarrow> 'a scsi_scheme \<Rightarrow> 'a scsi_scheme" where
  "SCSI_ModeSense cdb s = (
     let d = cur_disk s;
         pagecontrol = drop_bit 6 (cdb ! 2 AND 0xC0);
         pagecode = cdb ! 2 AND 0x3F;
         head = mode_header d (cdb ! 1 AND 0x08 \<noteq> 0);
         s1 = upd_buffer (put_reply 0 head) s
     in if pagecontrol = 1 then mode_error SC_INVALID_CDB s1
        else if pagecontrol = 3 then mode_error SC_SAVE_UNSUPP s1
        else
          let pages = (if pagecode = 0x3F then all_mode_pages d else SCSI_GetModePage d pagecode);
              s2 = upd_buffer (put_reply (length head) pages) s1
          in if pagecode \<noteq> 0x3F \<and> pages = [] then mode_error SC_INVALID_CDB s2
             else
               let total = int (length head) + int (length pages);
                   len = min total (SCSI_GetTransferLength (cdb ! 0) cdb)
               in set_phase (if len \<noteq> 0 then PHASE_DI else PHASE_ST) (upd_disk good
                    (upd_buffer (set_reply len \<circ> put_reply 0 [word_of_int (total - 1)]) s2)))"

definition SCSI_FormatDrive :: "u8 list \<Rightarrow> 'a scsi_scheme \<Rightarrow> 'a scsi_scheme option" where
  "SCSI_FormatDrive cdb s =
     (if tst (cdb ! 1) 0x10 then None else Some (set_phase PHASE_ST (upd_disk good s)))"

definition SCSI_ReassignBlocks :: "u8 list \<Rightarrow> 'a scsi_scheme \<Rightarrow> 'a scsi_scheme" where
  "SCSI_ReassignBlocks cdb s = set_phase PHASE_ST (upd_disk good s)"

abbreviation msg_complete :: "'a scsi_scheme \<Rightarrow> 'a scsi_scheme" where
  "msg_complete \<equiv> upd_disk (\<lambda>d. d\<lparr>disk_message := MSG_COMPLETE\<rparr>)"

definition lun_command :: "u8 list \<Rightarrow> 'a scsi_scheme \<Rightarrow> 'a scsi_scheme option" where
  "lun_command cdb s = (
     let opcode = cdb ! 0 in
     if opcode = CMD_TEST_UNIT_RDY then Some (SCSI_TestUnitReady cdb s)
     else if opcode = CMD_READ_CAPACITY1 then Some (SCSI_ReadCapacity cdb s)
     else if opcode = CMD_READ_SECTOR \<or> opcode = CMD_READ_SECTOR1 then SCSI_ReadSector cdb s
     else if opcode = CMD_WRITE_SECTOR \<or> opcode = CMD_WRITE_SECTOR1 then Some (SCSI_WriteSector cdb s)
     else if opcode = CMD_SEEK then None
     else if opcode = CMD_SHIP then Some (SCSI_StartStop cdb s)
     else if opcode = CMD_MODESELECT then None
     else if opcode = CMD_MODESENSE then Some (SCSI_ModeSense cdb s)
     else if opcode = CMD_FORMAT_DRIVE then SCSI_FormatDrive cdb s
     else if opcode = CMD_REASSIGN then Some (SCSI_ReassignBlocks cdb s)
     else Some (set_phase PHASE_ST (upd_disk (set_sense STAT_CHECK_COND SK_ILLEGAL_REQ SC_INVALID_CMD) s)))"

definition SCSI_Command :: "u8 list \<Rightarrow> 'a scsi_scheme \<Rightarrow> 'a scsi_scheme option" where
  "SCSI_Command cdb s = (
     let opcode = cdb ! 0 in
     if opcode = CMD_INQUIRY then Some (msg_complete (SCSI_Inquiry cdb s))
     else if opcode = CMD_REQ_SENSE then Some (msg_complete (SCSI_RequestSense cdb s))
     else if disk_lun (cur_disk s) \<noteq> LUN_DISK then
       Some (set_phase PHASE_ST (msg_complete (upd_disk (set_sense STAT_CHECK_COND SK_ILLEGAL_REQ SC_INVALID_LUN) s)))
     else map_option msg_complete (lun_command cdb s))"

section \<open>Disk access\<close>

text \<open>The result of \<open>SCSIdisk_Select\<close> is true on a selection timeout.\<close>

definition SCSIdisk_Select :: "u8 \<Rightarrow> 'a scsi_scheme \<Rightarrow> (bool \<times> 'a scsi_scheme) option" where
  "SCSIdisk_Select target s = do {
     d \<leftarrow> arr_get (SCSIdisk s) (unat target);
     Some (if devtype d = SD_NONE then (True, set_phase PHASE_ST s)
           else (False, s\<lparr>SCSIbus := (SCSIbus s)\<lparr>bus_target := target\<rparr>\<rparr>))
   }"

definition SCSIdisk_Receive_Data :: "u8 \<Rightarrow> 'a scsi_scheme \<Rightarrow> 'a scsi_scheme option" where
  "SCSIdisk_Receive_Data val s = (
     let b = scsi_buffer s in
     if buf_size b < 0 then None
     else do {
       data \<leftarrow> arr_set (buf_data b) (nat (buf_size b)) val;
       let s1 = upd_buffer (\<lambda>b. b\<lparr>buf_data := data, buf_size := buf_size b + 1\<rparr>) s;
       if buf_size b + 1 = buf_limit b then
         (if buf_disk b then scsi_write_sector s1 else Some (set_phase PHASE_ST s1))
       else Some s1
     })"

definition SCSIdisk_Send_Data :: "'a scsi_scheme \<Rightarrow> (u8 \<times> 'a scsi_scheme) option" where
  "SCSIdisk_Send_Data s = (
     let b = scsi_buffer s in
     if buf_limit b < buf_size b then None
     else do {
       val \<leftarrow> arr_get (buf_data b) (nat (buf_limit b - buf_size b));
       let s1 = upd_buffer (\<lambda>b. b\<lparr>buf_size := buf_size b - 1\<rparr>) s;
       s2 \<leftarrow> (if buf_size b - 1 = 0 then
                (if buf_disk b then scsi_read_sector s1 else Some (set_phase PHASE_ST s1))
              else Some s1);
       Some (val, s2)
     })"

definition SCSIdisk_Send_Status :: "'a scsi_scheme \<Rightarrow> u8 \<times> 'a scsi_scheme" where
  "SCSIdisk_Send_Status s = (disk_status (cur_disk s), set_phase PHASE_MI s)"

definition SCSIdisk_Send_Message :: "'a scsi_scheme \<Rightarrow> u8" where
  "SCSIdisk_Send_Message s = disk_message (cur_disk s)"

definition SCSIdisk_Receive_Command :: "u8 list \<Rightarrow> u8 \<Rightarrow> 'a scsi_scheme \<Rightarrow> 'a scsi_scheme option" where
  "SCSIdisk_Receive_Command cdb identify s = (
     let lun = (if tst identify MSG_IDENTIFY_MASK then identify AND MSG_LUNMASK
                else drop_bit 5 (cdb ! 1 AND 0xE0))
     in SCSI_Command cdb (upd_disk (\<lambda>d. d\<lparr>disk_lun := lun\<rparr>) s))"

definition SCSIdisk_Time :: "'a scsi_scheme \<Rightarrow> int \<times> 'a scsi_scheme" where
  "SCSIdisk_Time s = (
     let t = buf_time (scsi_buffer s) in
     (if t < 100 then 100 else t, upd_buffer (\<lambda>b. b\<lparr>buf_time := 0\<rparr>) s))"

section \<open>Inserting and ejecting\<close>

definition SCSI_LookupDisk :: "(string \<Rightarrow> u8 list option) \<Rightarrow> string \<Rightarrow> SCSIdisk_t \<Rightarrow> SCSIdisk_t" where
  "SCSI_LookupDisk fs name d = (
     let len = File_Length fs name; k = lookup_known (devtype d) len in
     d\<lparr>disk_size := (if len < 0 then 0 else word_of_int len),
       blocksize := (if k < 0 then blocksize d else kd_bs (known_disks ! nat k)), known := k\<rparr>)"

definition fresh_disk :: "(string \<Rightarrow> u8 list option) \<Rightarrow> SCSIDISK \<Rightarrow> SCSIdisk_t \<Rightarrow> SCSIdisk_t" where
  "fresh_disk fs t d = (
     let d1 = d\<lparr>devtype := nDeviceType t, disk_lun := 0, disk_status := 0, disk_message := 0,
           sense := \<lparr>sense_key = 0, sense_code = 0, sense_valid = False, sense_info = 0\<rparr>,
           lba := 0, lastlba := 0, blockcounter := 0,
           blocksize := (if nDeviceType t = SD_CD then SCSI_CD_BLOCK else SCSI_BLOCKSIZE)\<rparr>
     in (SCSI_LookupDisk fs (szImageName t) d1)\<lparr>shadow := None\<rparr>)"

definition open_image :: "(string \<Rightarrow> u8 list option) \<Rightarrow> (string \<Rightarrow> bool) \<Rightarrow> SCSIDISK \<Rightarrow> SCSIdisk_t \<Rightarrow> SCSIdisk_t" where
  "open_image fs wr t d = (
     let d1 = (if bWriteProtected t then d
               else d\<lparr>dsk := File_Open fs wr (szImageName t) True, readonly := False\<rparr>)
     in if bWriteProtected t \<or> dsk d1 = None
        then d1\<lparr>dsk := File_Open fs wr (szImageName t) False, readonly := True\<rparr> else d1)"

definition SCSI_Insert :: "nat \<Rightarrow> 'a scsi_scheme \<Rightarrow> 'a scsi_scheme" where
  "SCSI_Insert i s = (
     let t = cnf_target (SCSI (ConfigureParams s)) ! i;
         s1 = (if nDeviceType t = SD_HARDDISK then upd_cnf_target i (\<lambda>t. t\<lparr>bDiskInserted := True\<rparr>) s else s);
         t1 = cnf_target (SCSI (ConfigureParams s1)) ! i;
         d = fresh_disk (host_files s) t (SCSIdisk s ! i)
     in if devtype d \<noteq> SD_NONE \<and> bDiskInserted t1 then
          let s2 = (if nDeviceType t1 = SD_CD then upd_cnf_target i (\<lambda>t. t\<lparr>bWriteProtected := True\<rparr>) s1 else s1);
              d2 = open_image (host_files s) (host_writable s) (cnf_target (SCSI (ConfigureParams s2)) ! i) d;
              d3 = (if dsk d2 = None \<or> disk_size d2 = 0 then
                      let e = eject_disk d2 in if devtype d2 = SD_HARDDISK then e\<lparr>devtype := SD_NONE\<rparr> else e
                    else d2)
          in s2\<lparr>SCSIdisk := (SCSIdisk s)[i := d3]\<rparr>
        else s1\<lparr>SCSIdisk := (SCSIdisk s)[i := d]\<rparr>)"

definition SCSI_Init :: "'a scsi_scheme \<Rightarrow> 'a scsi_scheme" where
  "SCSI_Init s = foldl (\<lambda>s i. SCSI_Insert i s) s [0..<ESP_MAX_DEVS]"

definition SCSI_Uninit :: "'a scsi_scheme \<Rightarrow> 'a scsi_scheme" where
  "SCSI_Uninit s = foldl (\<lambda>s i. SCSI_Eject i s) s [0..<ESP_MAX_DEVS]"

definition SCSI_Reset :: "'a scsi_scheme \<Rightarrow> 'a scsi_scheme" where
  "SCSI_Reset s = SCSI_Init (SCSI_Uninit s)"

section \<open>Basic facts\<close>

lemma set_phase_sel [simp]:
  "SCSIdisk (set_phase p s) = SCSIdisk s" "scsi_buffer (set_phase p s) = scsi_buffer s"
  "host_files (set_phase p s) = host_files s" "ConfigureParams (set_phase p s) = ConfigureParams s"
  "bus_target (SCSIbus (set_phase p s)) = bus_target (SCSIbus s)" "bus_phase (SCSIbus (set_phase p s)) = p"
  "host_writable (set_phase p s) = host_writable s"
  by (simp_all add: set_phase_def)

lemma upd_disk_sel [simp]:
  "SCSIbus (upd_disk f s) = SCSIbus s" "scsi_buffer (upd_disk f s) = scsi_buffer s"
  "host_files (upd_disk f s) = host_files s" "ConfigureParams (upd_disk f s) = ConfigureParams s"
  "length (SCSIdisk (upd_disk f s)) = length (SCSIdisk s)" "host_writable (upd_disk f s) = host_writable s"
  by (simp_all add: upd_disk_def)

lemma upd_buffer_sel [simp]:
  "SCSIbus (upd_buffer f s) = SCSIbus s" "SCSIdisk (upd_buffer f s) = SCSIdisk s"
  "host_files (upd_buffer f s) = host_files s" "ConfigureParams (upd_buffer f s) = ConfigureParams s"
  "scsi_buffer (upd_buffer f s) = f (scsi_buffer s)" "host_writable (upd_buffer f s) = host_writable s"
  by (simp_all add: upd_buffer_def)

lemma cur_disk_upd [simp]:
  "cur_target s < length (SCSIdisk s) \<Longrightarrow> SCSIdisk (upd_disk f s) ! cur_target s = f (cur_disk s)"
  by (simp add: upd_disk_def)

lemma set_sense_sel [simp]:
  "blocksize (set_sense st k c d) = blocksize d" "disk_size (set_sense st k c d) = disk_size d"
  "shadow (set_sense st k c d) = shadow d" "lba (set_sense st k c d) = lba d"
  "blockcounter (set_sense st k c d) = blockcounter d" "dsk (set_sense st k c d) = dsk d"
  "disk_status (set_sense st k c d) = st" "readonly (set_sense st k c d) = readonly d"
  "known (set_sense st k c d) = known d" "devtype (set_sense st k c d) = devtype d"
  "disk_lun (set_sense st k c d) = disk_lun d"
  by (simp_all add: set_sense_def)

lemma put_bytes_length [simp]: "off + length bs \<le> length data \<Longrightarrow> length (put_bytes off bs data) = length data"
  by (simp add: put_bytes_def)

lemma inquiry_bytes_length: "length inquiry_bytes = 54"
  by (simp add: inquiry_bytes_def ascii_def)

section \<open>The invariant\<close>

text \<open>
  The well-formed state: seven targets, the selected one among them, a buffer of 2048
  bytes, block sizes that fit into it and divide the size of the disk (at most \<open>2 ^ 41\<close> bytes),
  shadow tables with an entry for every block; and in a data phase a transfer in progress
  that stays within the buffer.
\<close>

definition disk_ok :: "SCSIdisk_t \<Rightarrow> bool" where
  "disk_ok d \<longleftrightarrow> blocksize d \<in> {512, 1024, 2048} \<and> unat (blocksize d) dvd unat (disk_size d)
     \<and> unat (disk_size d) < 2 ^ 41 \<and> known d < 4
     \<and> (\<forall>sh. shadow d = Some sh \<longrightarrow> unat (disk_size d) div unat (blocksize d) \<le> length sh
          \<and> (\<forall>blk. Some blk \<in> set sh \<longrightarrow> length blk = unat (blocksize d)))"

definition transfer_ok :: "u8 \<Rightarrow> SCSIBuffer \<Rightarrow> bool" where
  "transfer_ok ph b \<longleftrightarrow> length (buf_data b) = 2048
     \<and> (ph = PHASE_DI \<longrightarrow> 0 < buf_size b \<and> buf_size b \<le> buf_limit b \<and> buf_limit b \<le> 2048)
     \<and> (ph = PHASE_DO \<longrightarrow> 0 \<le> buf_size b \<and> buf_size b < buf_limit b \<and> buf_limit b \<le> 2048)"

definition scsi_inv :: "'a scsi_scheme \<Rightarrow> bool" where
  "scsi_inv s \<longleftrightarrow> length (SCSIdisk s) = 7 \<and> cur_target s < 7 \<and> (\<forall>d \<in> set (SCSIdisk s). disk_ok d)
     \<and> transfer_ok (bus_phase (SCSIbus s)) (scsi_buffer s)"

lemma scsi_invD:
  assumes "scsi_inv s"
  shows "length (SCSIdisk s) = 7" "cur_target s < 7" "disk_ok (cur_disk s)"
    "length (buf_data (scsi_buffer s)) = 2048" "transfer_ok (bus_phase (SCSIbus s)) (scsi_buffer s)"
  using assms by (auto simp: scsi_inv_def transfer_ok_def)

lemma scsi_inv_intro:
  assumes "scsi_inv s" "disk_ok (f (cur_disk s))" "transfer_ok p b"
    "SCSIdisk s' = (SCSIdisk s)[cur_target s := f (cur_disk s)]" "bus_target (SCSIbus s') = bus_target (SCSIbus s)"
    "bus_phase (SCSIbus s') = p" "scsi_buffer s' = b"
  shows "scsi_inv s'"
  using assms by (auto simp: scsi_inv_def dest!: subsetD [OF set_update_subset_insert])

lemma disk_ok_cong:
  assumes "disk_ok d" "blocksize d' = blocksize d" "disk_size d' = disk_size d" "shadow d' = shadow d" "known d' = known d"
  shows "disk_ok d'"
  using assms by (simp add: disk_ok_def)

lemma disk_ok_set_sense [simp]: "disk_ok (set_sense st k c d) = disk_ok d"
  by (auto elim: disk_ok_cong)

lemma disk_ok_blocksize:
  assumes "disk_ok d"
  shows "0 < blocksize d" "unat (blocksize d) \<le> 2048" "0 < unat (blocksize d)"
    "0 < uint (blocksize d)" "uint (blocksize d) \<le> 2048" "blocksize d \<noteq> 0"
  using assms by (auto simp: disk_ok_def)

text \<open>The position of a block in the image, and how many blocks there are.\<close>

lemma unat_ucast_32_64 [simp]: "unat (ucast (x :: u32) :: u64) = unat x"
proof -
  have "unat x < 2 ^ 32" using unsigned_less [of x, where ?'a = nat] by simp
  then have "unat x < 2 ^ 64" by simp
  then show ?thesis by (simp add: unsigned_ucast_eq take_bit_nat_eq_self)
qed

lemma unat_sector_offset:
  assumes "disk_ok d"
  shows "unat (sector_offset d) = unat (lba d) * unat (blocksize d)"
proof -
  have "unat (lba d) < 2 ^ 32" using unsigned_less [of "lba d", where ?'a = nat] by simp
  then have "unat (lba d) * unat (blocksize d) < 2 ^ 32 * 2 ^ 12"
    using disk_ok_blocksize(2) [OF assms] by (intro mult_strict_mono) auto
  then show ?thesis
    by (simp add: sector_offset_def unat_word_ariths)
qed

lemma sector_in_range:
  assumes "disk_ok d"
  shows "sector_offset d < disk_size d \<longleftrightarrow> unat (lba d) < unat (disk_size d) div unat (blocksize d)"
proof -
  obtain n where n: "unat (disk_size d) = unat (blocksize d) * n"
    using assms by (auto simp: disk_ok_def)
  have "sector_offset d < disk_size d \<longleftrightarrow> unat (lba d) * unat (blocksize d) < unat (blocksize d) * n"
    by (simp add: word_less_nat_alt unat_sector_offset [OF assms] n)
  then show ?thesis
    using disk_ok_blocksize(3) [OF assms] by (simp add: n mult.commute)
qed

lemma unat_sectors_of:
  assumes "disk_ok d"
  shows "unat (sectors_of d) = unat (disk_size d) div unat (blocksize d)"
proof -
  have "512 \<le> unat (blocksize d)" and sz: "unat (disk_size d) < 2 ^ 41"
    using assms by (auto simp: disk_ok_def)
  then have "unat (disk_size d) div unat (blocksize d) \<le> unat (disk_size d) div 512"
    by (intro div_le_mono2) auto
  also have "\<dots> < 2 ^ 32" using sz by (simp add: less_mult_imp_div_less)
  finally show ?thesis
    by (simp add: unsigned_ucast_eq unat_div take_bit_nat_eq_self)
qed

text \<open>The part of the invariant that does not depend on the bus phase.\<close>

definition scsi_base :: "'a scsi_scheme \<Rightarrow> bool" where
  "scsi_base s \<longleftrightarrow> length (SCSIdisk s) = 7 \<and> cur_target s < 7 \<and> (\<forall>d \<in> set (SCSIdisk s). disk_ok d)
     \<and> length (buf_data (scsi_buffer s)) = 2048"

lemma scsi_baseD:
  assumes "scsi_base s"
  shows "length (SCSIdisk s) = 7" "cur_target s < 7" "disk_ok (cur_disk s)" "length (buf_data (scsi_buffer s)) = 2048"
  using assms by (auto simp: scsi_base_def)

lemma scsi_inv_base: "scsi_inv s \<longleftrightarrow> scsi_base s \<and> transfer_ok (bus_phase (SCSIbus s)) (scsi_buffer s)"
  by (auto simp: scsi_inv_def scsi_base_def transfer_ok_def)

lemma scsi_base_upd [intro]:
  "scsi_base s \<Longrightarrow> scsi_base (set_phase p s)"
  "scsi_base s \<Longrightarrow> disk_ok (f (cur_disk s)) \<Longrightarrow> scsi_base (upd_disk f s)"
  "scsi_base s \<Longrightarrow> length (buf_data (g (scsi_buffer s))) = 2048 \<Longrightarrow> scsi_base (upd_buffer g s)"
  "scsi_base s \<Longrightarrow> scsi_base (s\<lparr>host_files := fs\<rparr>)"
  by (auto simp: scsi_base_def upd_disk_def dest!: subsetD [OF set_update_subset_insert])

lemma disk_ok_shadow:
  assumes "disk_ok d" "unat (disk_size d) div unat (blocksize d) \<le> length sh"
    "\<And>blk. Some blk \<in> set sh \<Longrightarrow> length blk = unat (blocksize d)"
  shows "disk_ok (d\<lparr>shadow := Some sh\<rparr>)"
  using assms by (auto simp: disk_ok_def)

lemma write_block_total:
  assumes base: "scsi_base s" and rng: "sector_offset (cur_disk s) < disk_size (cur_disk s)"
  shows "\<exists>s'. write_block s = Some s' \<and> scsi_base s' \<and> SCSIbus s' = SCSIbus s \<and> scsi_buffer s' = scsi_buffer s
    \<and> ConfigureParams s' = ConfigureParams s \<and> (\<exists>sh. SCSIdisk s' = (SCSIdisk s)[cur_target s := (cur_disk s)\<lparr>shadow := sh\<rparr>])"
proof -
  let ?d = "cur_disk s" and ?blk = "take (unat (blocksize (cur_disk s))) (buf_data (scsi_buffer s))"
  note b = scsi_baseD [OF base]
  have blk: "length ?blk = unat (blocksize ?d)" using b(3,4) disk_ok_blocksize(2) by simp
  consider (image) "nWriteProtection (SCSI (ConfigureParams s)) \<noteq> WRITEPROT_ON"
    | (first) "nWriteProtection (SCSI (ConfigureParams s)) = WRITEPROT_ON" "shadow ?d = None"
    | (again) sh where "nWriteProtection (SCSI (ConfigureParams s)) = WRITEPROT_ON" "shadow ?d = Some sh" by blast
  then show ?thesis
  proof cases
    case image
    then have "write_block s = Some (s\<lparr>host_files := File_Write (host_files s) (buf_data (scsi_buffer s))
        (unat (blocksize ?d)) (unat (sector_offset ?d)) (dsk ?d)\<rparr>)"
      by (simp add: write_block_def Let_def)
    then show ?thesis
      using base by (auto intro!: scsi_base_upd exI [of _ "shadow ?d"])
  next
    case first
    have "disk_ok (?d\<lparr>shadow := Some (replicate (unat (sectors_of ?d)) None)\<rparr>)"
      using b(3) by (intro disk_ok_shadow) (simp_all add: unat_sectors_of)
    then show ?thesis
      using first base by (auto simp: write_block_def Let_def upd_disk_def [symmetric] intro!: scsi_base_upd) (auto simp: upd_disk_def)
  next
    case again
    have len: "unat (disk_size ?d) div unat (blocksize ?d) \<le> length sh" and sh: "\<And>blk. Some blk \<in> set sh \<Longrightarrow> length blk = unat (blocksize ?d)"
      using b(3) again by (auto simp: disk_ok_def)
    have "unat (lba ?d) < length sh" using rng b(3) len by (simp add: sector_in_range)
    moreover have "disk_ok (?d\<lparr>shadow := Some (sh[unat (lba ?d) := Some ?blk])\<rparr>)"
      using b(3) len sh blk by (intro disk_ok_shadow) (auto dest!: subsetD [OF set_update_subset_insert])
    ultimately show ?thesis
      using again base by (auto simp: write_block_def Let_def intro!: scsi_base_upd) (auto simp: upd_disk_def)
  qed
qed

lemma scsi_write_sector_total:
  assumes base: "scsi_base s"
  shows "\<exists>s'. scsi_write_sector s = Some s' \<and> scsi_base s' \<and> bus_target (SCSIbus s') = bus_target (SCSIbus s)
    \<and> (bus_phase (SCSIbus s') = PHASE_ST
       \<or> bus_phase (SCSIbus s') = bus_phase (SCSIbus s) \<and> buf_size (scsi_buffer s') = 0
         \<and> buf_limit (scsi_buffer s') = uint (blocksize (cur_disk s)))"
proof (cases "sector_offset (cur_disk s) < disk_size (cur_disk s)")
  case False
  have "scsi_base (invalid_lba s)"
    unfolding invalid_lba_def using base scsi_baseD(3) [OF base] by (intro scsi_base_upd) (auto elim: disk_ok_cong)
  with False show ?thesis by (simp add: scsi_write_sector_def) (simp add: invalid_lba_def)
next
  case True
  from write_block_total [OF base True] obtain s1 where s1: "write_block s = Some s1" "scsi_base s1"
    "SCSIbus s1 = SCSIbus s" by blast
  let ?s2 = "upd_buffer (\<lambda>b. b\<lparr>buf_size := 0, buf_limit := uint (blocksize (cur_disk s))\<rparr>) s1"
  let ?s3 = "upd_disk (\<lambda>d. d\<lparr>lba := lba d + 1, blockcounter := blockcounter d - 1\<rparr>) ?s2"
  have "scsi_base ?s3"
    using scsi_baseD(3,4) [OF s1(2)] s1(2) by (intro scsi_base_upd) (auto elim: disk_ok_cong)
  with True s1 show ?thesis by (auto simp: scsi_write_sector_def Let_def)
qed

lemma read_block_total:
  assumes base: "scsi_base s" and rng: "sector_offset (cur_disk s) < disk_size (cur_disk s)"
  shows "\<exists>data. read_block s = Some data \<and> length data = 2048"
proof -
  let ?d = "cur_disk s"
  note b = scsi_baseD [OF base]
  have bs: "unat (blocksize ?d) \<le> 2048" using b(3) by (rule disk_ok_blocksize)
  have img: "length (File_Read (host_files s) (buf_data (scsi_buffer s)) (unat (blocksize ?d))
      (unat (sector_offset ?d)) (dsk ?d)) = 2048"
    using b(4) bs by (auto simp: File_Read_def split: option.split)
  show ?thesis
  proof (cases "shadow ?d")
    case None
    with img show ?thesis by (simp add: read_block_def Let_def)
  next
    case (Some sh)
    have len: "unat (lba ?d) < length sh" using rng b(3) Some by (simp add: sector_in_range) (simp add: disk_ok_def)
    have "length blk = unat (blocksize ?d)" if "sh ! unat (lba ?d) = Some blk" for blk
      using b(3) Some nth_mem [OF len] that by (simp add: disk_ok_def)
    with img Some len b(4) bs show ?thesis
      by (auto simp: read_block_def Let_def split: option.split)
  qed
qed

lemma scsi_read_sector_total:
  assumes base: "scsi_base s"
  shows "\<exists>s'. scsi_read_sector s = Some s' \<and> scsi_base s' \<and> bus_target (SCSIbus s') = bus_target (SCSIbus s)
    \<and> (bus_phase (SCSIbus s') = PHASE_ST
       \<or> bus_phase (SCSIbus s') = bus_phase (SCSIbus s) \<and> buf_size (scsi_buffer s') = uint (blocksize (cur_disk s))
         \<and> buf_limit (scsi_buffer s') = uint (blocksize (cur_disk s)))"
proof -
  consider (finished) "blockcounter (cur_disk s) = 0"
    | (bad) "blockcounter (cur_disk s) \<noteq> 0" "\<not> sector_offset (cur_disk s) < disk_size (cur_disk s)"
    | (go) "blockcounter (cur_disk s) \<noteq> 0" "sector_offset (cur_disk s) < disk_size (cur_disk s)" by blast
  then show ?thesis
  proof cases
    case finished
    then show ?thesis using base by (auto simp: scsi_read_sector_def)
  next
    case bad
    have "scsi_base (invalid_lba s)"
      unfolding invalid_lba_def using base scsi_baseD(3) [OF base] by (intro scsi_base_upd) (auto elim: disk_ok_cong)
    with bad show ?thesis by (simp add: scsi_read_sector_def) (simp add: invalid_lba_def)
  next
    case go
    from read_block_total [OF base go(2)] obtain data where data: "read_block s = Some data" "length data = 2048" by blast
    let ?s1 = "upd_buffer (\<lambda>b. b\<lparr>buf_data := data, buf_size := uint (blocksize (cur_disk s)),
                   buf_limit := uint (blocksize (cur_disk s))\<rparr>) s"
    have "scsi_base (upd_disk (\<lambda>d. d\<lparr>lba := lba d + 1, blockcounter := blockcounter d - 1\<rparr>) ?s1)"
      using base data(2) scsi_baseD(3) [OF base] by (intro scsi_base_upd) (auto elim: disk_ok_cong)
    with go data show ?thesis by (auto simp: scsi_read_sector_def Let_def)
  qed
qed

lemma scsi_data_phases_total:
  assumes "scsi_inv s"
  shows "(bus_phase (SCSIbus s) = PHASE_DI \<longrightarrow> (\<exists>v s'. SCSIdisk_Send_Data s = Some (v, s') \<and> scsi_inv s'))
    \<and> (bus_phase (SCSIbus s) = PHASE_DO \<longrightarrow> (\<exists>s'. SCSIdisk_Receive_Data v s = Some s' \<and> scsi_inv s'))"
proof (intro conjI impI)
  have base: "scsi_base s" and tr: "transfer_ok (bus_phase (SCSIbus s)) (scsi_buffer s)"
    using assms by (auto simp: scsi_inv_base)
  note bs = disk_ok_blocksize [OF scsi_baseD(3) [OF base]]
  {
    assume ph: "bus_phase (SCSIbus s) = PHASE_DI"
    let ?s = "upd_buffer (\<lambda>b. b\<lparr>buf_size := buf_size b - 1\<rparr>) s"
    have base': "scsi_base ?s" using base scsi_baseD(4) [OF base] by (intro scsi_base_upd) auto
    from scsi_read_sector_total [OF this] obtain s2 where s2: "scsi_read_sector ?s = Some s2" "scsi_base s2"
      "bus_phase (SCSIbus s2) = PHASE_ST \<or> bus_phase (SCSIbus s2) = PHASE_DI
         \<and> buf_size (scsi_buffer s2) = uint (blocksize (cur_disk s)) \<and> buf_limit (scsi_buffer s2) = uint (blocksize (cur_disk s))"
      using ph by auto
    have "scsi_inv s2" using s2 bs by (auto simp: scsi_inv_base transfer_ok_def dest: scsi_baseD(4))
    moreover have "scsi_inv ?s" if "buf_size (scsi_buffer s) \<noteq> 1"
      using that tr ph base' by (auto simp: scsi_inv_base transfer_ok_def)
    moreover have "scsi_inv (set_phase PHASE_ST ?s)"
      using base' by (auto simp: scsi_inv_base transfer_ok_def dest: scsi_baseD(4))
    ultimately show "\<exists>v s'. SCSIdisk_Send_Data s = Some (v, s') \<and> scsi_inv s'"
      using tr ph s2(1) by (auto simp: SCSIdisk_Send_Data_def Let_def transfer_ok_def)
  next
    assume ph: "bus_phase (SCSIbus s) = PHASE_DO"
    let ?data = "(buf_data (scsi_buffer s))[nat (buf_size (scsi_buffer s)) := v]"
    let ?s = "upd_buffer (\<lambda>b. b\<lparr>buf_data := ?data, buf_size := buf_size b + 1\<rparr>) s"
    have base': "scsi_base ?s" using base scsi_baseD(4) [OF base] by (intro scsi_base_upd) auto
    from scsi_write_sector_total [OF this] obtain s2 where s2: "scsi_write_sector ?s = Some s2" "scsi_base s2"
      "bus_phase (SCSIbus s2) = PHASE_ST \<or> bus_phase (SCSIbus s2) = PHASE_DO
         \<and> buf_size (scsi_buffer s2) = 0 \<and> buf_limit (scsi_buffer s2) = uint (blocksize (cur_disk s))"
      using ph by auto
    have "scsi_inv s2" using s2 bs by (auto simp: scsi_inv_base transfer_ok_def dest: scsi_baseD(4))
    moreover have "scsi_inv ?s" if "buf_size (scsi_buffer s) + 1 \<noteq> buf_limit (scsi_buffer s)"
      using that tr ph base' by (auto simp: scsi_inv_base transfer_ok_def)
    moreover have "scsi_inv (set_phase PHASE_ST ?s)"
      using base' by (auto simp: scsi_inv_base transfer_ok_def dest: scsi_baseD(4))
    ultimately show "\<exists>s'. SCSIdisk_Receive_Data v s = Some s' \<and> scsi_inv s'"
      using tr ph s2(1) by (auto simp: SCSIdisk_Receive_Data_def Let_def transfer_ok_def)
  }
qed

section \<open>The commands keep the invariant\<close>

lemma upd_cnf_target_sel [simp]:
  fixes s :: "'a scsi_scheme"
  shows "SCSIdisk (upd_cnf_target i f s) = SCSIdisk s" "SCSIbus (upd_cnf_target i f s) = SCSIbus s"
    "scsi_buffer (upd_cnf_target i f s) = scsi_buffer s" "host_files (upd_cnf_target i f s) = host_files s"
    "host_writable (upd_cnf_target i f s) = host_writable s"
  by (simp_all add: upd_cnf_target_def Let_def)

lemma scsi_inv_ST: "scsi_base s \<Longrightarrow> scsi_inv (set_phase PHASE_ST s)"
  by (auto simp: scsi_inv_base transfer_ok_def dest: scsi_baseD(4))

lemma scsi_inv_reply:
  assumes "scsi_base s" "0 \<le> len" "len \<le> 2048" "p = (if len \<noteq> 0 then PHASE_DI else PHASE_ST)"
    and "scsi_buffer s = set_reply len b"
  shows "scsi_inv (set_phase p s)"
  using assms scsi_baseD(4) [OF assms(1)] by (auto simp: scsi_inv_base transfer_ok_def set_reply_def)

lemma set_reply_sel [simp]: "buf_data (set_reply len b) = buf_data b"
  by (simp add: set_reply_def)

lemma put_reply_length [simp]:
  "off + length bs \<le> length (buf_data b) \<Longrightarrow> length (buf_data (put_reply off bs b)) = length (buf_data b)"
  by (simp add: put_reply_def)

lemma good_base: "scsi_base s \<Longrightarrow> scsi_base (upd_disk (set_sense st k c) s)"
  using scsi_baseD(3) [of s] by (auto intro!: scsi_base_upd)

lemma inquiry_data_length:
  assumes "known d < 4"
  shows "length (fst (inquiry_data d)) = 2048 \<and> 0 < snd (inquiry_data d) \<and> snd (inquiry_data d) \<le> 2048"
proof (cases "known d < 0")
  case True
  then show ?thesis
    by (cases "devtype d") (simp_all add: inquiry_data_def Let_def inquiry_copy_def ascii_def inquiry_bytes_length)
next
  case False
  with assms have "nat (known d) \<in> {0, 1, 2, 3}" by auto
  then have "length (kd_vend (known_disks ! nat (known d))) \<le> 8 \<and> length (kd_name (known_disks ! nat (known d))) \<le> 16
      \<and> length (kd_vers (known_disks ! nat (known d))) \<le> 24 \<and> kd_len (known_disks ! nat (known d)) = 31"
    by (auto simp: known_disks_def)
  then show ?thesis
    using False by (simp add: inquiry_data_def Let_def inquiry_copy_def ascii_def)
qed

lemma transfer_length_bounds: "0 \<le> SCSI_GetTransferLength op cdb"
  by (simp add: SCSI_GetTransferLength_def)

lemma SCSI_Inquiry_inv:
  assumes "scsi_base s"
  shows "scsi_inv (SCSI_Inquiry cdb s)"
proof -
  let ?d = "cur_disk s"
  obtain data l where dl: "inquiry_data ?d = (data, l)" by force
  have "known ?d < 4" using scsi_baseD(3) [OF assms] by (simp add: disk_ok_def)
  with dl have len: "length data = 2048" "0 < l" "l \<le> 2048" using inquiry_data_length [of ?d] by auto
  let ?b = "\<lambda>b. set_reply (min l (SCSI_GetTransferLength (cdb ! 0) cdb))
     (b\<lparr>buf_data := if disk_lun ?d \<noteq> LUN_DISK then data[0 := DEVTYPE_NOTPRESENT] else data\<rparr>)"
  have "scsi_base (upd_buffer ?b s)" using assms len by (intro scsi_base_upd) auto
  then have "scsi_base (upd_disk good (upd_buffer ?b s))" by (rule good_base)
  then show ?thesis
    unfolding SCSI_Inquiry_def dl Let_def prod.case
    by (rule scsi_inv_reply) (use len transfer_length_bounds in \<open>auto\<close>)
qed

lemma SCSI_RequestSense_inv:
  assumes "scsi_base s"
  shows "scsi_inv (SCSI_RequestSense cdb s)"
proof -
  have *: "scsi_inv (set_phase PHASE_DI (upd_disk (\<lambda>d. d\<lparr>disk_status := STAT_GOOD\<rparr>)
      (upd_buffer (\<lambda>b. set_reply len (b\<lparr>buf_data := data\<rparr>)) s)))"
    if "0 < len" "len \<le> 22" "length data = 2048" for len data
  proof (rule scsi_inv_reply)
    show "scsi_base (upd_disk (\<lambda>d. d\<lparr>disk_status := STAT_GOOD\<rparr>) (upd_buffer (\<lambda>b. set_reply len (b\<lparr>buf_data := data\<rparr>)) s))"
      using assms that scsi_baseD(3) [OF assms] by (intro scsi_base_upd) (auto elim: disk_ok_cong)
  qed (use that in auto)
  show ?thesis
    unfolding SCSI_RequestSense_def Let_def using scsi_baseD(4) [OF assms] by (intro *) auto
qed

lemma SCSI_ReadCapacity_inv: "scsi_base s \<Longrightarrow> scsi_inv (SCSI_ReadCapacity cdb s)"
  unfolding SCSI_ReadCapacity_def Let_def
  by (rule scsi_inv_reply [where len = 8]) (auto intro!: good_base scsi_base_upd dest: scsi_baseD(4))

lemma mode_page_length: "length (SCSI_GetModePage d p) \<le> 24"
  by (simp add: SCSI_GetModePage_def Let_def case_prod_beta)

lemma all_mode_pages_length: "length (all_mode_pages d) \<le> 1600"
proof -
  have "length (concat (map (\<lambda>p. SCSI_GetModePage d (of_nat p)) ps)) \<le> 24 * length ps" for ps
    by (induction ps) (simp_all add: add_mono mode_page_length)
  from this [of "[1..<0x3F]"] show ?thesis
    using mode_page_length [of d 0] by (simp add: all_mode_pages_def)
qed

lemma SCSI_ModeSense_inv:
  assumes "scsi_base s"
  shows "scsi_inv (SCSI_ModeSense cdb s)"
proof -
  let ?d = "cur_disk s" and ?h = "mode_header (cur_disk s) (cdb ! 1 AND 0x08 \<noteq> 0)"
  let ?pages = "if cdb ! 2 AND 0x3F = 0x3F then all_mode_pages ?d else SCSI_GetModePage ?d (cdb ! 2 AND 0x3F)"
  let ?s1 = "upd_buffer (put_reply 0 ?h) s"
  let ?s2 = "upd_buffer (put_reply (length ?h) ?pages) ?s1"
  have h: "length ?h \<le> 12" "0 < length ?h" by (simp_all add: mode_header_def)
  have p: "length ?pages \<le> 1600"
    using all_mode_pages_length [of ?d] mode_page_length [of ?d "cdb ! 2 AND 0x3F"] by auto
  have b1: "scsi_base ?s1" using assms h scsi_baseD(4) [OF assms] by (intro scsi_base_upd) auto
  then have b2: "scsi_base ?s2" using h p scsi_baseD(4) [OF b1] by - (rule scsi_base_upd(3), auto)
  let ?len = "min (int (length ?h) + int (length ?pages)) (SCSI_GetTransferLength (cdb ! 0) cdb)"
  have "scsi_inv (set_phase (if ?len \<noteq> 0 then PHASE_DI else PHASE_ST) (upd_disk good
      (upd_buffer (set_reply ?len \<circ> put_reply 0 [word_of_int (int (length ?h) + int (length ?pages) - 1)]) ?s2)))"
  proof (rule scsi_inv_reply [where len = ?len])
    show "scsi_base (upd_disk good (upd_buffer (set_reply ?len \<circ> put_reply 0 [word_of_int (int (length ?h) + int (length ?pages) - 1)]) ?s2))"
      using b2 scsi_baseD(4) [OF b2] by - (rule good_base, rule scsi_base_upd(3), auto)
  qed (use h p transfer_length_bounds in auto)
  moreover have "scsi_inv (mode_error c ?s1)" "scsi_inv (mode_error c ?s2)" for c
    using b1 b2 by (simp_all add: mode_error_def scsi_inv_ST good_base)
  ultimately show ?thesis
    unfolding SCSI_ModeSense_def Let_def by auto
qed

lemma disk_ok_start_transfer [simp]: "disk_ok (start_transfer cdb d) = disk_ok d"
  by (auto simp: start_transfer_def elim: disk_ok_cong)

lemma SCSI_WriteSector_inv:
  assumes "scsi_base s"
  shows "scsi_inv (SCSI_WriteSector cdb s)"
proof -
  let ?s1 = "upd_disk (start_transfer cdb) s"
  have b1: "scsi_base ?s1" using assms scsi_baseD(3) [OF assms] by (intro scsi_base_upd) auto
  let ?g = "\<lambda>b. b\<lparr>buf_size := 0, buf_limit := uint (blocksize (cur_disk ?s1)), buf_disk := True,
          buf_time := SCSI_GetTime (cur_disk ?s1)\<rparr>"
  have "scsi_base (upd_disk good (upd_buffer ?g ?s1))"
    using b1 scsi_baseD(4) [OF b1] by - (rule good_base, rule scsi_base_upd(3), auto)
  moreover have "0 < uint (blocksize (cur_disk ?s1))" "uint (blocksize (cur_disk ?s1)) \<le> 2048"
    using disk_ok_blocksize [OF scsi_baseD(3) [OF b1]] by auto
  ultimately have "scsi_inv (set_phase (if c then PHASE_DO else PHASE_ST) (upd_disk good (upd_buffer ?g ?s1)))" for c
    using scsi_baseD(4) [OF b1] by (auto simp: scsi_inv_base transfer_ok_def)
  then show ?thesis
    using b1 unfolding SCSI_WriteSector_def Let_def by (auto intro!: scsi_inv_ST good_base)
qed

lemma SCSI_ReadSector_inv:
  assumes "scsi_base s"
  shows "\<exists>s'. SCSI_ReadSector cdb s = Some s' \<and> scsi_inv s' \<and> bus_target (SCSIbus s') = bus_target (SCSIbus s)
    \<and> bus_phase (SCSIbus s') \<in> {PHASE_DI, PHASE_ST}"
proof -
  let ?s1 = "upd_disk (start_transfer cdb) s"
  have b1: "scsi_base ?s1" using assms scsi_baseD(3) [OF assms] by (intro scsi_base_upd) auto
  let ?g = "\<lambda>b. b\<lparr>buf_size := 0, buf_limit := 0, buf_disk := True, buf_time := SCSI_GetTime (cur_disk ?s1)\<rparr>"
  let ?s2 = "upd_disk good (upd_buffer ?g ?s1)"
  let ?s3 = "set_phase (if blockcounter (cur_disk ?s1) \<noteq> 0 then PHASE_DI else PHASE_ST) ?s2"
  have b2: "scsi_base ?s2"
    using b1 scsi_baseD(4) [OF b1] by - (rule good_base, rule scsi_base_upd(3), auto)
  then have b3: "scsi_base ?s3" by (rule scsi_base_upd)
  have bs: "0 < uint (blocksize (cur_disk ?s3))" "uint (blocksize (cur_disk ?s3)) \<le> 2048"
    using disk_ok_blocksize [OF scsi_baseD(3) [OF b3]] by auto
  from scsi_read_sector_total [OF b3] obtain s' where s': "scsi_read_sector ?s3 = Some s'" "scsi_base s'"
    "bus_target (SCSIbus s') = bus_target (SCSIbus ?s3)"
    "bus_phase (SCSIbus s') = PHASE_ST \<or> bus_phase (SCSIbus s') = bus_phase (SCSIbus ?s3)
      \<and> buf_size (scsi_buffer s') = uint (blocksize (cur_disk ?s3)) \<and> buf_limit (scsi_buffer s') = uint (blocksize (cur_disk ?s3))"
    by blast
  then have "scsi_inv s'"
    using bs scsi_baseD(4) [OF s'(2)] by (auto simp: scsi_inv_base transfer_ok_def split: if_splits)
  moreover have "bus_phase (SCSIbus ?s3) \<in> {PHASE_DI, PHASE_ST}" by simp
  ultimately show ?thesis
    using s' unfolding SCSI_ReadSector_def Let_def by auto
qed

lemma disk_ok_eject: "disk_ok d \<Longrightarrow> disk_ok (eject_disk d)"
  by (auto simp: disk_ok_def eject_disk_def)

lemma SCSI_Eject_base: "scsi_base s \<Longrightarrow> i < 7 \<Longrightarrow> scsi_base (SCSI_Eject i s)"
  by (auto simp: scsi_base_def SCSI_Eject_def disk_ok_eject dest!: subsetD [OF set_update_subset_insert])

lemma upd_cnf_base: "scsi_base s \<Longrightarrow> scsi_base (upd_cnf_target i f s)"
  by (simp add: scsi_base_def)

lemma SCSI_StartStop_inv: "scsi_base s \<Longrightarrow> scsi_inv (SCSI_StartStop cdb s)"
  unfolding SCSI_StartStop_def
  by (intro scsi_inv_ST good_base) (auto intro!: upd_cnf_base SCSI_Eject_base dest: scsi_baseD(2))

lemma SCSI_TestUnitReady_inv: "scsi_base s \<Longrightarrow> scsi_inv (SCSI_TestUnitReady cdb s)"
  by (auto simp: SCSI_TestUnitReady_def intro!: scsi_inv_ST good_base)

lemma SCSI_Eject_sel [simp]: "SCSIbus (SCSI_Eject i s) = SCSIbus s"
  by (simp add: SCSI_Eject_def)

text \<open>The phases after a command, and the target that executed it.\<close>

lemma command_phases:
  "bus_phase (SCSIbus (SCSI_Inquiry cdb s)) \<in> {PHASE_DI, PHASE_ST}"
  "bus_phase (SCSIbus (SCSI_RequestSense cdb s)) = PHASE_DI"
  "bus_phase (SCSIbus (SCSI_ReadCapacity cdb s)) = PHASE_DI"
  "bus_phase (SCSIbus (SCSI_ModeSense cdb s)) \<in> {PHASE_DI, PHASE_ST}"
  "bus_phase (SCSIbus (SCSI_WriteSector cdb s)) \<in> {PHASE_DO, PHASE_ST}"
  "bus_phase (SCSIbus (SCSI_StartStop cdb s)) = PHASE_ST"
  "bus_phase (SCSIbus (SCSI_TestUnitReady cdb s)) = PHASE_ST"
  by (auto simp: SCSI_Inquiry_def SCSI_RequestSense_def SCSI_ReadCapacity_def SCSI_ModeSense_def mode_error_def
      SCSI_WriteSector_def SCSI_StartStop_def SCSI_TestUnitReady_def Let_def case_prod_beta)

lemma command_target [simp]:
  "bus_target (SCSIbus (SCSI_Inquiry cdb s)) = bus_target (SCSIbus s)"
  "bus_target (SCSIbus (SCSI_RequestSense cdb s)) = bus_target (SCSIbus s)"
  "bus_target (SCSIbus (SCSI_ReadCapacity cdb s)) = bus_target (SCSIbus s)"
  "bus_target (SCSIbus (SCSI_ModeSense cdb s)) = bus_target (SCSIbus s)"
  "bus_target (SCSIbus (SCSI_WriteSector cdb s)) = bus_target (SCSIbus s)"
  "bus_target (SCSIbus (SCSI_StartStop cdb s)) = bus_target (SCSIbus s)"
  "bus_target (SCSIbus (SCSI_TestUnitReady cdb s)) = bus_target (SCSIbus s)"
  by (auto simp: SCSI_Inquiry_def SCSI_RequestSense_def SCSI_ReadCapacity_def SCSI_ModeSense_def mode_error_def
      SCSI_WriteSector_def SCSI_StartStop_def SCSI_TestUnitReady_def Let_def case_prod_beta)

text \<open>The commands that end the emulator.\<close>

definition aborting :: "u8 list \<Rightarrow> bool" where
  "aborting cdb \<longleftrightarrow> cdb ! 0 = CMD_SEEK \<or> cdb ! 0 = CMD_MODESELECT \<or> cdb ! 0 = CMD_FORMAT_DRIVE \<and> tst (cdb ! 1) 0x10"

lemma lun_command_inv:
  assumes "scsi_base s"
  shows "case lun_command cdb s of None \<Rightarrow> aborting cdb
     | Some s' \<Rightarrow> scsi_inv s' \<and> bus_target (SCSIbus s') = bus_target (SCSIbus s)
         \<and> bus_phase (SCSIbus s') \<in> {PHASE_DI, PHASE_DO, PHASE_ST}"
  using assms command_phases [of cdb s] SCSI_ReadSector_inv [OF assms, of cdb]
  by (auto simp: lun_command_def Let_def aborting_def SCSI_FormatDrive_def SCSI_ReassignBlocks_def
      SCSI_ReadCapacity_inv SCSI_ModeSense_inv SCSI_WriteSector_inv SCSI_StartStop_inv SCSI_TestUnitReady_inv
      intro!: scsi_inv_ST good_base)

lemma msg_complete_inv: "scsi_inv s \<Longrightarrow> scsi_inv (msg_complete s)"
  using scsi_invD(3) [of s] by (auto simp: scsi_inv_base intro!: scsi_base_upd elim: disk_ok_cong)

lemma SCSIdisk_Receive_Command_inv:
  assumes "scsi_base s"
  shows "case SCSIdisk_Receive_Command cdb identify s of None \<Rightarrow> aborting cdb
     | Some s' \<Rightarrow> scsi_inv s' \<and> bus_phase (SCSIbus s') \<in> {PHASE_DI, PHASE_DO, PHASE_ST}
         \<and> SCSIdisk_Send_Message s' = MSG_COMPLETE"
proof -
  define s1 where "s1 = upd_disk (\<lambda>d. d\<lparr>disk_lun := if tst identify MSG_IDENTIFY_MASK then identify AND MSG_LUNMASK
                else drop_bit 5 (cdb ! 1 AND 0xE0)\<rparr>) s"
  have b1: "scsi_base s1"
    unfolding s1_def using assms scsi_baseD(3) [OF assms] by (intro scsi_base_upd) (auto elim: disk_ok_cong)
  have msg: "SCSIdisk_Send_Message (msg_complete s') = MSG_COMPLETE" if "scsi_inv s'" for s' :: "'a scsi_scheme"
    using scsi_invD(1,2) [OF that] by (simp add: SCSIdisk_Send_Message_def)
  have "scsi_inv (set_phase PHASE_ST (msg_complete (upd_disk (set_sense STAT_CHECK_COND SK_ILLEGAL_REQ SC_INVALID_LUN) s1)))"
    by (rule scsi_inv_ST, rule scsi_base_upd(2), rule good_base [OF b1],
        rule disk_ok_cong [OF scsi_baseD(3) [OF good_base [OF b1]]]) simp_all
  moreover have "SCSIdisk_Send_Message (set_phase PHASE_ST (msg_complete (upd_disk (set_sense STAT_CHECK_COND SK_ILLEGAL_REQ SC_INVALID_LUN) s1))) = MSG_COMPLETE"
    using scsi_baseD(1,2) [OF good_base [OF b1]] by (simp add: SCSIdisk_Send_Message_def upd_disk_def)
  moreover have "SCSIdisk_Receive_Command cdb identify s = SCSI_Command cdb s1"
    by (simp add: SCSIdisk_Receive_Command_def Let_def s1_def)
  ultimately show ?thesis
    using lun_command_inv [OF b1, of cdb] command_phases(1,2) [of cdb s1]
      msg_complete_inv [OF SCSI_Inquiry_inv [OF b1]] msg_complete_inv [OF SCSI_RequestSense_inv [OF b1]]
      msg [OF SCSI_Inquiry_inv [OF b1]] msg [OF SCSI_RequestSense_inv [OF b1]]
    by (auto simp: SCSI_Command_def Let_def msg msg_complete_inv split: option.splits)
qed

section \<open>Inserting disks\<close>

text \<open>
  The images named in the configuration hold whole blocks of 2048 bytes; an image that
  cannot be opened counts as empty.
\<close>

definition images_ok :: "'a scsi_scheme \<Rightarrow> bool" where
  "images_ok s \<longleftrightarrow> length (cnf_target (SCSI (ConfigureParams s))) = 7 \<and>
     (\<forall>t \<in> set (cnf_target (SCSI (ConfigureParams s))). \<forall>bs. host_files s (szImageName t) = Some bs
        \<longrightarrow> 2048 dvd length bs \<and> length bs < 2 ^ 41)"

lemma lookup_known_range: "lookup_known dev len < 4"
  by (auto simp: lookup_known_def find_Some_iff split: option.split simp del: upt_rec_numeral)

lemma known_blocksize: "0 \<le> k \<Longrightarrow> k < 4 \<Longrightarrow> kd_bs (known_disks ! nat k) \<in> {512, 1024, 2048}"
proof -
  assume "0 \<le> k" "k < 4"
  then have "nat k \<in> {0, 1, 2, 3}" by auto
  then show ?thesis by (auto simp: known_disks_def)
qed

lemma fresh_disk_ok:
  assumes "\<forall>bs. fs (szImageName t) = Some bs \<longrightarrow> 2048 dvd length bs \<and> length bs < 2 ^ 41"
  shows "disk_ok (fresh_disk fs t d)"
proof -
  let ?k = "lookup_known (nDeviceType t) (File_Length fs (szImageName t))"
  have bs: "blocksize (fresh_disk fs t d) \<in> {512, 1024, 2048}"
    using known_blocksize [of ?k] lookup_known_range
    by (auto simp: fresh_disk_def SCSI_LookupDisk_def Let_def)
  then have dvd: "unat (blocksize (fresh_disk fs t d)) dvd 2048" by auto
  have "unat (disk_size (fresh_disk fs t d)) = nat (max 0 (File_Length fs (szImageName t)))
      \<and> 2048 dvd nat (max 0 (File_Length fs (szImageName t))) \<and> nat (max 0 (File_Length fs (szImageName t))) < 2 ^ 41"
  proof (cases "fs (szImageName t)")
    case None
    then show ?thesis by (simp add: fresh_disk_def SCSI_LookupDisk_def Let_def File_Length_def)
  next
    case (Some b)
    with assms have "2048 dvd length b" "length b < 2 ^ 41" by auto
    with Some show ?thesis
      by (simp add: fresh_disk_def SCSI_LookupDisk_def Let_def File_Length_def unat_of_nat)
  qed
  then have "2048 dvd unat (disk_size (fresh_disk fs t d))" "unat (disk_size (fresh_disk fs t d)) < 2 ^ 41" by auto
  moreover have "known (fresh_disk fs t d) < 4" "shadow (fresh_disk fs t d) = None"
    using lookup_known_range by (simp_all add: fresh_disk_def SCSI_LookupDisk_def Let_def)
  ultimately show ?thesis
    using bs dvd unfolding disk_ok_def by (auto intro: dvd_trans)
qed

lemma open_image_ok: "disk_ok (open_image fs wr t d) = disk_ok d"
  by (auto simp: open_image_def Let_def elim: disk_ok_cong)

text \<open>
  What inserting or ejecting one target leaves of the others: only the entry of the target
  changes, and the names of the images stay.
\<close>

lemma cnf_names:
  fixes s :: "'a scsi_scheme"
  assumes "\<And>t. szImageName (f t) = szImageName t"
  shows "images_ok (upd_cnf_target i f s) = images_ok s"
proof -
  let ?c = "cnf_target (SCSI (ConfigureParams s))"
  have eq: "cnf_target (SCSI (ConfigureParams (upd_cnf_target i f s))) = ?c[i := f (?c ! i)]"
    by (simp add: upd_cnf_target_def Let_def)
  have "szImageName ` set (?c[i := f (?c ! i)]) = szImageName ` set ?c"
  proof (cases "i < length ?c")
    case True
    have "map szImageName (?c[i := f (?c ! i)]) = map szImageName ?c"
      using True by (simp add: map_update assms) (metis list_update_id map_update nth_map)
    then show ?thesis by (metis list.set_map)
  qed (simp add: not_less list_update_beyond)
  then have "(\<forall>t \<in> set (?c[i := f (?c ! i)]). P (szImageName t)) \<longleftrightarrow> (\<forall>t \<in> set ?c. P (szImageName t))" for P
    by (metis (no_types, lifting) image_iff)
  from this [of "\<lambda>n. \<forall>bs. host_files s n = Some bs \<longrightarrow> 2048 dvd length bs \<and> length bs < 2 ^ 41"]
  show ?thesis by (simp add: images_ok_def eq)
qed

lemma SCSI_Insert_facts:
  fixes s :: "'a scsi_scheme"
  assumes "images_ok s" "i < 7" "length (SCSIdisk s) = 7"
  shows "images_ok (SCSI_Insert i s) \<and> SCSIbus (SCSI_Insert i s) = SCSIbus s
    \<and> scsi_buffer (SCSI_Insert i s) = scsi_buffer s
    \<and> (\<exists>d. disk_ok d \<and> SCSIdisk (SCSI_Insert i s) = (SCSIdisk s)[i := d])"
proof -
  let ?t = "cnf_target (SCSI (ConfigureParams s)) ! i"
  let ?d = "fresh_disk (host_files s) ?t (SCSIdisk s ! i)"
  have "?t \<in> set (cnf_target (SCSI (ConfigureParams s)))"
    using assms(1,2) by (simp add: images_ok_def)
  then have d: "disk_ok ?d"
    using assms(1) by (intro fresh_disk_ok) (auto simp: images_ok_def)
  define s1 where "s1 = (if nDeviceType ?t = SD_HARDDISK then upd_cnf_target i (\<lambda>t. t\<lparr>bDiskInserted := True\<rparr>) s else s)"
  define s2 where "s2 = (if nDeviceType (cnf_target (SCSI (ConfigureParams s1)) ! i) = SD_CD
    then upd_cnf_target i (\<lambda>t. t\<lparr>bWriteProtected := True\<rparr>) s1 else s1)"
  have ok: "images_ok s1" "images_ok s2"
    using assms(1) by (simp_all add: s1_def s2_def cnf_names)
  have sel: "SCSIbus s1 = SCSIbus s" "SCSIbus s2 = SCSIbus s" "scsi_buffer s1 = scsi_buffer s"
    "scsi_buffer s2 = scsi_buffer s" by (simp_all add: s1_def s2_def)
  have fr: "images_ok (x\<lparr>SCSIdisk := ds\<rparr>) = images_ok x" for x :: "'a scsi_scheme" and ds
    by (simp add: images_ok_def)
  let ?d2 = "open_image (host_files s) (host_writable s) (cnf_target (SCSI (ConfigureParams s2)) ! i) ?d"
  have d2: "disk_ok ?d2" using d by (simp add: open_image_ok)
  have d3: "disk_ok (if dsk ?d2 = None \<or> disk_size ?d2 = 0 then
      let e = eject_disk ?d2 in if devtype ?d2 = SD_HARDDISK then e\<lparr>devtype := SD_NONE\<rparr> else e else ?d2)"
    using d2 disk_ok_eject [OF d2] by (auto simp: Let_def elim: disk_ok_cong)
  show ?thesis
    unfolding SCSI_Insert_def Let_def [of ?t] s1_def [symmetric] Let_def [of s1]
    using d d3 ok sel by (auto simp: Let_def fr s2_def [symmetric])
qed

lemma SCSI_Uninit_facts:
  "images_ok (SCSI_Uninit s) = images_ok s \<and> SCSIbus (SCSI_Uninit s) = SCSIbus s
    \<and> scsi_buffer (SCSI_Uninit s) = scsi_buffer s \<and> length (SCSIdisk (SCSI_Uninit s)) = length (SCSIdisk s)"
proof -
  have "images_ok (foldl (\<lambda>s i. SCSI_Eject i s) s is) = images_ok s
    \<and> SCSIbus (foldl (\<lambda>s i. SCSI_Eject i s) s is) = SCSIbus s
    \<and> scsi_buffer (foldl (\<lambda>s i. SCSI_Eject i s) s is) = scsi_buffer s
    \<and> length (SCSIdisk (foldl (\<lambda>s i. SCSI_Eject i s) s is)) = length (SCSIdisk s)" for "is"
    by (induction "is" arbitrary: s) (simp_all add: SCSI_Eject_def images_ok_def)
  then show ?thesis by (simp only: SCSI_Uninit_def)
qed

lemma SCSI_Init_facts:
  assumes "images_ok s" "length (SCSIdisk s) = 7" "n \<le> 7"
  defines "t \<equiv> foldl (\<lambda>s i. SCSI_Insert i s) s [0..<n]"
  shows "images_ok t \<and> SCSIbus t = SCSIbus s \<and> scsi_buffer t = scsi_buffer s \<and> length (SCSIdisk t) = 7
    \<and> (\<forall>i < n. disk_ok (SCSIdisk t ! i))"
  using assms(3) unfolding t_def
proof (induction n)
  case (Suc n)
  then show ?case
    using SCSI_Insert_facts [of "foldl (\<lambda>s i. SCSI_Insert i s) s [0..<n]" n]
    by (auto simp: nth_list_update less_Suc_eq)
qed (use assms in simp)

lemma SCSI_Reset_base:
  assumes "images_ok s" "length (SCSIdisk s) = 7" "cur_target s < 7" "length (buf_data (scsi_buffer s)) = 2048"
  shows "scsi_base (SCSI_Reset s) \<and> SCSIbus (SCSI_Reset s) = SCSIbus s"
  using SCSI_Uninit_facts [of s] SCSI_Init_facts [of "SCSI_Uninit s" 7] assms
  by (auto simp: SCSI_Reset_def SCSI_Init_def scsi_base_def in_set_conv_nth simp del: upt_rec_numeral)

text \<open>
  What the controller can do with the disks: reset them, select a target, send a command
  (in the command phase), and move bytes in the data phases and read the status.
\<close>

inductive scsi_reachable :: "'a scsi_scheme \<Rightarrow> bool" where
  reset: "images_ok s \<Longrightarrow> length (SCSIdisk s) = 7 \<Longrightarrow> cur_target s < 7
    \<Longrightarrow> length (buf_data (scsi_buffer s)) = 2048 \<Longrightarrow> bus_phase (SCSIbus s) = PHASE_ST
    \<Longrightarrow> scsi_reachable (SCSI_Reset s)"
| select: "scsi_reachable s \<Longrightarrow> SCSIdisk_Select t s = Some (timeout, s') \<Longrightarrow> scsi_reachable s'"
| command: "scsi_reachable s \<Longrightarrow> SCSIdisk_Receive_Command cdb identify (set_phase PHASE_CD s) = Some s'
    \<Longrightarrow> scsi_reachable s'"
| send: "scsi_reachable s \<Longrightarrow> bus_phase (SCSIbus s) = PHASE_DI \<Longrightarrow> SCSIdisk_Send_Data s = Some (v, s')
    \<Longrightarrow> scsi_reachable s'"
| receive: "scsi_reachable s \<Longrightarrow> bus_phase (SCSIbus s) = PHASE_DO \<Longrightarrow> SCSIdisk_Receive_Data v s = Some s'
    \<Longrightarrow> scsi_reachable s'"
| status: "scsi_reachable s \<Longrightarrow> scsi_reachable (snd (SCSIdisk_Send_Status s))"

lemma SCSIdisk_Select_inv:
  assumes "scsi_inv s" "SCSIdisk_Select t s = Some (timeout, s')"
  shows "scsi_inv s'"
  using assms by (auto simp: SCSIdisk_Select_def arr_get_def scsi_inv_def transfer_ok_def split: if_splits)

lemma scsi_reachable_inv: "scsi_reachable s \<Longrightarrow> scsi_inv s"
proof (induction rule: scsi_reachable.induct)
  case (reset s)
  then have "scsi_base (SCSI_Reset s)" "bus_phase (SCSIbus (SCSI_Reset s)) = PHASE_ST"
    using SCSI_Reset_base [of s] by auto
  then show ?case by (auto simp: scsi_inv_base transfer_ok_def dest: scsi_baseD(4))
next
  case (select s t timeout s')
  then show ?case by (blast intro: SCSIdisk_Select_inv)
next
  case (command s cdb identify s')
  then have "scsi_base (set_phase PHASE_CD s)" by (auto simp: scsi_inv_base)
  from SCSIdisk_Receive_Command_inv [OF this, of cdb identify] command show ?case by simp
next
  case (send s v s')
  then show ?case using scsi_data_phases_total [of s] by auto
next
  case (receive s v s')
  then show ?case using scsi_data_phases_total [of s v] by auto
next
  case (status s)
  then show ?case by (auto simp: scsi_inv_base transfer_ok_def SCSIdisk_Send_Status_def)
qed

text \<open>
  C5. The disks never leave their arrays: in every state reachable from \<open>SCSI_Reset\<close> (with
  images of whole blocks), a byte can be sent in the data-in phase and taken in the
  data-out phase, also at the end of a sector or of the disk; and every command is
  executed, except seek, mode select and format with parameters, for which the emulator
  calls \<open>abort()\<close>. A command ends in a data phase or in the status phase, with the
  message \<open>command complete\<close>.
\<close>

theorem scsi_reachable_safe:
  assumes "scsi_reachable s"
  shows "(bus_phase (SCSIbus s) = PHASE_DI \<longrightarrow> SCSIdisk_Send_Data s \<noteq> None)
    \<and> (bus_phase (SCSIbus s) = PHASE_DO \<longrightarrow> SCSIdisk_Receive_Data v s \<noteq> None)
    \<and> (\<not> aborting cdb \<longrightarrow> (\<exists>s'. SCSIdisk_Receive_Command cdb identify (set_phase PHASE_CD s) = Some s'
         \<and> bus_phase (SCSIbus s') \<in> {PHASE_DI, PHASE_DO, PHASE_ST} \<and> SCSIdisk_Send_Message s' = MSG_COMPLETE))"
proof -
  have inv: "scsi_inv s" using assms by (rule scsi_reachable_inv)
  then have "scsi_base (set_phase PHASE_CD s)" by (auto simp: scsi_inv_base)
  from SCSIdisk_Receive_Command_inv [OF this, of cdb identify] scsi_data_phases_total [OF inv, of v] show ?thesis
    by (auto split: option.splits)
qed

text \<open>A machine with one hard disk of four blocks of 512 bytes, for examples.\<close>

definition sample_disk :: SCSIdisk_t where
  "sample_disk = \<lparr>devtype = SD_NONE, dsk = None, disk_size = 0, blocksize = 512, readonly = False, disk_lun = 0,
     disk_status = 0, disk_message = 0, sense = \<lparr>sense_key = 0, sense_code = 0, sense_valid = False, sense_info = 0\<rparr>,
     lba = 0, blockcounter = 0, lastlba = 0, known = -1, shadow = None\<rparr>"

definition sample_scsi :: scsi where
  "sample_scsi = (rtcnvram.extend sample_rtcnvram (scsi.fields [''hd.img'' \<mapsto> replicate 2048 0x11] (\<lambda>f. True)
     \<lparr>bus_target = 0, bus_phase = PHASE_ST\<rparr>
     \<lparr>buf_data = replicate 2048 0, buf_limit = 0, buf_size = 0, buf_disk = False, buf_time = 0\<rparr>
     (replicate 7 sample_disk)))\<lparr>ConfigureParams := sample_config\<lparr>SCSI := \<lparr>cnf_target =
       \<lparr>szImageName = ''hd.img'', nDeviceType = SD_HARDDISK, bDiskInserted = True, bWriteProtected = False\<rparr>
       # replicate 6 \<lparr>szImageName = '''', nDeviceType = SD_NONE, bDiskInserted = False, bWriteProtected = False\<rparr>,
       nWriteProtection = WRITEPROT_OFF\<rparr>\<rparr>\<rparr>"

lemmas sample_scsi_defs = sample_scsi_def sample_disk_def sample_rtc_defs scsi.defs

lemma sample_scsi_reachable: "scsi_reachable (SCSI_Reset sample_scsi)"
  by (rule scsi_reachable.reset) (auto simp: sample_scsi_defs images_ok_def)

theorem scsi_reachable_safe_witness:
  "scsi_reachable (SCSI_Reset sample_scsi) \<and> \<not> aborting (replicate 12 0)
   \<and> (\<exists>s'. SCSIdisk_Receive_Command (replicate 12 0) 0x80 (set_phase PHASE_CD (SCSI_Reset sample_scsi)) = Some s'
        \<and> SCSIdisk_Send_Message s' = MSG_COMPLETE)"
  using scsi_reachable_safe [OF sample_scsi_reachable, where cdb = "replicate 12 0" and identify = "0x80"] sample_scsi_reachable
  by (auto simp: aborting_def)

section \<open>Transfers and the disk image\<close>

text \<open>Taking \<open>n\<close> bytes from the target in the data-in phase, and giving it bytes in the data-out phase.\<close>

fun send_n :: "nat \<Rightarrow> 'a scsi_scheme \<Rightarrow> (u8 list \<times> 'a scsi_scheme) option" where
  "send_n 0 s = Some ([], s)"
| "send_n (Suc n) s = do {
     (v, s1) \<leftarrow> SCSIdisk_Send_Data s;
     (vs, s2) \<leftarrow> send_n n s1;
     Some (v # vs, s2)
   }"

fun receive_all :: "u8 list \<Rightarrow> 'a scsi_scheme \<Rightarrow> 'a scsi_scheme option" where
  "receive_all [] s = Some s"
| "receive_all (v # vs) s = do { s1 \<leftarrow> SCSIdisk_Receive_Data v s; receive_all vs s1 }"

text \<open>The selected disk is backed by the image file with the bytes \<open>img\<close>.\<close>

definition has_image :: "bool \<Rightarrow> 'a scsi_scheme \<Rightarrow> u8 list \<Rightarrow> bool" where
  "has_image rw s img \<longleftrightarrow> (\<exists>path. dsk (cur_disk s) = Some (path, rw) \<and> host_files s path = Some img)
     \<and> length img = unat (disk_size (cur_disk s)) \<and> shadow (cur_disk s) = None"

lemma send_n_add: "send_n (m + n) s = do { (xs, s1) \<leftarrow> send_n m s; (ys, s2) \<leftarrow> send_n n s1; Some (xs @ ys, s2) }"
proof (induction m arbitrary: s)
  case 0
  show ?case by (cases "send_n n s") auto
next
  case (Suc m)
  show ?case
    by (cases "SCSIdisk_Send_Data s") (auto simp: Suc split: Option.bind_splits)
qed

lemma receive_all_Nil [simp]: "receive_all [] = Some"
  by (rule ext) simp

lemma receive_all_append: "receive_all (xs @ ys) s = do { s1 \<leftarrow> receive_all xs s; receive_all ys s1 }"
proof (induction xs arbitrary: s)
  case (Cons x xs)
  then show ?case by (cases "SCSIdisk_Receive_Data x s") auto
qed simp

lemma send_n_part:
  assumes "buf_size (scsi_buffer s) \<le> buf_limit (scsi_buffer s)"
    and "buf_limit (scsi_buffer s) \<le> int (length (buf_data (scsi_buffer s)))" and "int n < buf_size (scsi_buffer s)"
  shows "send_n n s = Some (take n (drop (nat (buf_limit (scsi_buffer s) - buf_size (scsi_buffer s))) (buf_data (scsi_buffer s))),
           upd_buffer (\<lambda>b. b\<lparr>buf_size := buf_size b - int n\<rparr>) s)"
  using assms
proof (induction n arbitrary: s)
  case 0
  show ?case by (simp add: upd_buffer_def)
next
  case (Suc n)
  let ?b = "scsi_buffer s" and ?s1 = "upd_buffer (\<lambda>b. b\<lparr>buf_size := buf_size b - 1\<rparr>) s"
  let ?k = "nat (buf_limit ?b - buf_size ?b)"
  have k: "?k < length (buf_data ?b)" using Suc.prems by linarith
  have "SCSIdisk_Send_Data s = Some (buf_data ?b ! ?k, ?s1)"
    using Suc.prems k by (simp add: SCSIdisk_Send_Data_def Let_def)
  moreover have "send_n n ?s1 = Some (take n (drop (nat (buf_limit ?b - (buf_size ?b - 1))) (buf_data ?b)),
      upd_buffer (\<lambda>b. b\<lparr>buf_size := buf_size b - int n\<rparr>) ?s1)"
    using Suc.IH [of ?s1] Suc.prems by simp
  moreover have "nat (buf_limit ?b - (buf_size ?b - 1)) = Suc ?k" using Suc.prems(1) by linarith
  moreover have "drop ?k (buf_data ?b) = buf_data ?b ! ?k # drop (Suc ?k) (buf_data ?b)"
    using k by (simp add: Cons_nth_drop_Suc)
  ultimately show ?case by (simp add: upd_buffer_def algebra_simps)
qed

lemma less_unat_iff: "i < unat x \<longleftrightarrow> int i < uint x"
  by (simp only: unat_eq_nat_uint zless_nat_eq_int_zless)

lemma send_n_phase:
  assumes "buf_size (scsi_buffer s) \<le> buf_limit (scsi_buffer s)"
    and "buf_limit (scsi_buffer s) \<le> int (length (buf_data (scsi_buffer s)))" "int n < buf_size (scsi_buffer s)"
  shows "\<exists>xs u. send_n n s = Some (xs, u) \<and> bus_phase (SCSIbus u) = bus_phase (SCSIbus s)"
  using send_n_part [OF assms] by simp

text \<open>Sending a whole sector: its bytes, and the next sector is read.\<close>

lemma send_sector:
  assumes "0 < n" "buf_size (scsi_buffer s) = int n" "buf_limit (scsi_buffer s) = int n"
    and "n \<le> length (buf_data (scsi_buffer s))" "buf_disk (scsi_buffer s)"
  shows "send_n n s = do { s' \<leftarrow> scsi_read_sector (upd_buffer (\<lambda>b. b\<lparr>buf_size := 0\<rparr>) s);
           Some (take n (buf_data (scsi_buffer s)), s') }"
proof -
  obtain m where n: "n = m + 1" using assms(1) by (cases n) auto
  let ?s1 = "upd_buffer (\<lambda>b. b\<lparr>buf_size := buf_size b - int m\<rparr>) s"
  have "send_n m s = Some (take m (buf_data (scsi_buffer s)), ?s1)"
    using send_n_part [of s m] assms n by simp
  moreover have "SCSIdisk_Send_Data ?s1 = do {
      s' \<leftarrow> scsi_read_sector (upd_buffer (\<lambda>b. b\<lparr>buf_size := 0\<rparr>) s); Some (buf_data (scsi_buffer s) ! m, s') }"
    using assms n by (simp add: SCSIdisk_Send_Data_def Let_def upd_buffer_def)
  moreover have "take n (buf_data (scsi_buffer s)) = take m (buf_data (scsi_buffer s)) @ [buf_data (scsi_buffer s) ! m]"
    using assms(4) n by (simp add: take_Suc_conv_app_nth)
  ultimately show ?thesis
    unfolding n send_n_add by (auto split: Option.bind_splits)
qed

lemma put_bytes_0_take [simp]: "length bs \<le> length data \<Longrightarrow> take (length bs) (put_bytes 0 bs data) = bs"
  by (simp add: put_bytes_def)

lemma block_in_image:
  assumes "has_image rw s img" "disk_ok (cur_disk s)" "unat (lba (cur_disk s)) < length img div unat (blocksize (cur_disk s))"
  shows "length (take (unat (blocksize (cur_disk s))) (drop (unat (lba (cur_disk s)) * unat (blocksize (cur_disk s))) img))
    = unat (blocksize (cur_disk s))"
proof -
  let ?n = "unat (blocksize (cur_disk s))" and ?l = "unat (lba (cur_disk s))"
  have "Suc ?l * ?n \<le> length img div ?n * ?n" using assms(3) by (intro mult_right_mono) auto
  also have "\<dots> \<le> length img" by simp
  finally show ?thesis by simp
qed

lemma unat_lba_Suc:
  assumes "disk_ok d" "l = unat (lba d)" "l < unat (disk_size d) div unat (blocksize d)"
  shows "unat (lba d + 1) = Suc l"
proof -
  have "Suc l < 2 ^ 32"
    using assms unat_sectors_of [OF assms(1)] unsigned_less [of "sectors_of d", where ?'a = nat] by simp
  then show ?thesis using assms(2) by (simp add: unat_word_ariths)
qed

lemma read_sector_image:
  assumes base: "scsi_base s" and img: "has_image rw s img" and bc: "blockcounter (cur_disk s) \<noteq> 0"
    and bs: "bs = unat (blocksize (cur_disk s))" and l: "l = unat (lba (cur_disk s))" "l < length img div bs"
  shows "\<exists>s'. scsi_read_sector s = Some s' \<and> scsi_base s' \<and> has_image rw s' img \<and> SCSIbus s' = SCSIbus s
    \<and> (\<exists>data. scsi_buffer s' = (scsi_buffer s)\<lparr>buf_data := data, buf_size := uint (blocksize (cur_disk s)),
            buf_limit := uint (blocksize (cur_disk s))\<rparr> \<and> take bs data = take bs (drop (l * bs) img))
    \<and> cur_disk s' = (cur_disk s)\<lparr>lba := lba (cur_disk s) + 1, blockcounter := blockcounter (cur_disk s) - 1\<rparr>"
proof -
  let ?d = "cur_disk s" and ?blk = "take bs (drop (l * bs) img)"
  let ?data = "put_bytes 0 ?blk (buf_data (scsi_buffer s))"
  note b = scsi_baseD [OF base] and k = disk_ok_blocksize [OF scsi_baseD(3) [OF base]]
  have sz: "length img = unat (disk_size ?d)" and sh: "shadow ?d = None" using img by (auto simp: has_image_def)
  have off: "sector_offset ?d < disk_size ?d" using l b(3) by (simp add: sector_in_range bs sz)
  have len: "length ?blk = bs" using block_in_image [OF img b(3)] l bs by simp
  have "read_block s = Some ?data"
    using img by (auto simp: read_block_def Let_def sh File_Read_def has_image_def unat_sector_offset [OF b(3)] bs l)
  define s' where "s' = upd_disk (\<lambda>d. d\<lparr>lba := lba d + 1, blockcounter := blockcounter d - 1\<rparr>)
      (upd_buffer (\<lambda>b. b\<lparr>buf_data := ?data, buf_size := uint (blocksize ?d), buf_limit := uint (blocksize ?d)\<rparr>) s)"
  have "scsi_read_sector s = Some s'"
    using off bc \<open>read_block s = Some ?data\<close> by (simp add: scsi_read_sector_def Let_def s'_def)
  moreover have d: "cur_disk s' = ?d\<lparr>lba := lba ?d + 1, blockcounter := blockcounter ?d - 1\<rparr>"
    using b(1,2) by (simp add: s'_def upd_disk_def)
  moreover have "scsi_base s'"
    unfolding s'_def using base len b(3,4) k(2) by (intro scsi_base_upd) (auto simp: bs elim: disk_ok_cong)
  moreover have "has_image rw s' img"
    using img unfolding has_image_def d by (simp add: s'_def)
  moreover have "take bs ?data = ?blk"
    using len b(4) k(2) put_bytes_0_take [of ?blk "buf_data (scsi_buffer s)"] by (simp add: bs)
  ultimately show ?thesis by (auto simp: s'_def)
qed

lemma read_blocks:
  assumes "scsi_base s" "has_image rw s img" "buf_disk (scsi_buffer s)"
    and "buf_size (scsi_buffer s) = uint (blocksize (cur_disk s))" "buf_limit (scsi_buffer s) = uint (blocksize (cur_disk s))"
    and "bs = unat (blocksize (cur_disk s))" "l = unat (lba (cur_disk s))" "unat (blockcounter (cur_disk s)) = n"
    and "l + n \<le> length img div bs"
  shows "\<exists>s'. send_n (Suc n * bs) s = Some (take bs (buf_data (scsi_buffer s)) @ take (n * bs) (drop (l * bs) img), s')
    \<and> bus_phase (SCSIbus s') = PHASE_ST \<and> bus_target (SCSIbus s') = bus_target (SCSIbus s)
    \<and> disk_status (cur_disk s') = disk_status (cur_disk s) \<and> has_image rw s' img
    \<and> (\<forall>i < Suc n * bs. \<exists>xs u. send_n i s = Some (xs, u) \<and> bus_phase (SCSIbus u) = bus_phase (SCSIbus s))"
  using assms
proof (induction n arbitrary: s l)
  case 0
  let ?s0 = "upd_buffer (\<lambda>b. b\<lparr>buf_size := 0\<rparr>) s"
  note b = scsi_baseD [OF 0(1)] and k = disk_ok_blocksize [OF scsi_baseD(3) [OF 0(1)]]
  have "blockcounter (cur_disk s) = 0" using 0(8) by (simp only: unsigned_eq_0_iff)
  then have "scsi_read_sector ?s0 = Some (set_phase PHASE_ST ?s0)" by (simp add: scsi_read_sector_def)
  then show ?case
    using send_sector [of bs s] send_n_phase [of s] 0 b k by (auto simp: has_image_def less_unat_iff)
next
  case (Suc n)
  let ?s0 = "upd_buffer (\<lambda>b. b\<lparr>buf_size := 0\<rparr>) s" and ?d = "cur_disk s"
  note b = scsi_baseD [OF Suc.prems(1)] and k = disk_ok_blocksize [OF scsi_baseD(3) [OF Suc.prems(1)]]
  have rng: "l < length img div bs" and bc: "blockcounter ?d \<noteq> 0" using Suc.prems(8,9) by auto
  have "scsi_base ?s0" "has_image rw ?s0 img"
    using Suc.prems(1,2) b(4) by (auto simp: has_image_def intro: scsi_base_upd)
  then obtain s1 data where read: "scsi_read_sector ?s0 = Some s1" and s1: "scsi_base s1" "has_image rw s1 img"
    "SCSIbus s1 = SCSIbus s" "scsi_buffer s1 = (scsi_buffer s)\<lparr>buf_data := data, buf_size := uint (blocksize ?d),
            buf_limit := uint (blocksize ?d)\<rparr>" and data: "take bs data = take bs (drop (l * bs) img)"
    and d1: "cur_disk s1 = ?d\<lparr>lba := lba ?d + 1, blockcounter := blockcounter ?d - 1\<rparr>"
    using read_sector_image [of ?s0 rw img bs l] Suc.prems(6,7) rng bc by auto
  have "unat (lba ?d + 1) = Suc l"
    using unat_lba_Suc [OF b(3) Suc.prems(7)] rng Suc.prems(2,6) by (simp add: has_image_def)
  moreover have "unat (blockcounter ?d - 1) = n"
    using Suc.prems(8) by (simp add: unat_minus_one [OF bc])
  ultimately obtain s' where s': "send_n (Suc n * bs) s1
      = Some (take bs (buf_data (scsi_buffer s1)) @ take (n * bs) (drop (Suc l * bs) img), s')"
    "bus_phase (SCSIbus s') = PHASE_ST" "bus_target (SCSIbus s') = bus_target (SCSIbus s1)"
    "disk_status (cur_disk s') = disk_status (cur_disk s1)" "has_image rw s' img"
    and phases: "\<And>i. i < Suc n * bs \<Longrightarrow> \<exists>xs u. send_n i s1 = Some (xs, u) \<and> bus_phase (SCSIbus u) = bus_phase (SCSIbus s1)"
    using Suc.IH [of s1 "Suc l"] Suc.prems(3,6,9) s1 d1 by auto
  have "take bs (drop (l * bs) img) @ take (n * bs) (drop (Suc l * bs) img) = take (Suc n * bs) (drop (l * bs) img)"
    by (simp add: take_add ac_simps)
  moreover have sent: "send_n bs s = Some (take bs (buf_data (scsi_buffer s)), s1)"
    using send_sector [of bs s] Suc.prems(3-6) b k read by simp
  moreover have "Suc (Suc n) * bs = bs + Suc n * bs" by simp
  moreover have "\<exists>xs u. send_n i s = Some (xs, u) \<and> bus_phase (SCSIbus u) = bus_phase (SCSIbus s)" if "i < bs + Suc n * bs" for i
  proof (cases "i < bs")
    case True
    then show ?thesis using send_n_phase [of s i] Suc.prems(4-6) b(4) k by (simp add: less_unat_iff)
  next
    case False
    then have "i - bs < Suc n * bs" using that by linarith
    then show ?thesis
      using phases [of "i - bs"] False s1(3) sent send_n_add [of bs "i - bs" s] by (auto simp del: mult_Suc)
  qed
  ultimately show ?case
    using s' s1 d1 data by (simp add: send_n_add del: mult_Suc)
qed

lemma put_bytes_append: "off \<le> length data \<Longrightarrow> put_bytes (off + length xs) ys (put_bytes off xs data) = put_bytes off (xs @ ys) data"
  by (simp add: put_bytes_def ac_simps)

lemma put_bytes_Cons: "off < length data \<Longrightarrow> put_bytes (Suc off) ys (data[off := x]) = put_bytes off (x # ys) data"
  by (simp add: put_bytes_def take_Suc_conv_app_nth)

lemma put_bytes_Nil [simp]: "put_bytes off [] data = data"
  by (simp add: put_bytes_def)

lemma receive_part:
  assumes "0 \<le> buf_size (scsi_buffer s)" "buf_size (scsi_buffer s) + int (length vs) < buf_limit (scsi_buffer s)"
    and "buf_limit (scsi_buffer s) \<le> int (length (buf_data (scsi_buffer s)))"
  shows "receive_all vs s = Some (upd_buffer (\<lambda>b. b\<lparr>buf_data := put_bytes (nat (buf_size b)) vs (buf_data b),
           buf_size := buf_size b + int (length vs)\<rparr>) s)"
  using assms
proof (induction vs arbitrary: s)
  case Nil
  show ?case by (simp add: upd_buffer_def)
next
  case (Cons v vs)
  let ?b = "scsi_buffer s"
  let ?s1 = "upd_buffer (\<lambda>b. b\<lparr>buf_data := (buf_data ?b)[nat (buf_size ?b) := v], buf_size := buf_size b + 1\<rparr>) s"
  have k: "nat (buf_size ?b) < length (buf_data ?b)" using Cons.prems by simp
  then have "SCSIdisk_Receive_Data v s = Some ?s1"
    using Cons.prems by (simp add: SCSIdisk_Receive_Data_def Let_def)
  moreover have "receive_all vs ?s1 = Some (upd_buffer (\<lambda>b. b\<lparr>buf_data := put_bytes (nat (buf_size b)) vs (buf_data b),
           buf_size := buf_size b + int (length vs)\<rparr>) ?s1)"
    using Cons.IH [of ?s1] Cons.prems by simp
  moreover have "nat (buf_size ?b + 1) = Suc (nat (buf_size ?b))" using Cons.prems(1) by simp
  ultimately show ?case using k by (simp add: upd_buffer_def put_bytes_Cons algebra_simps)
qed

text \<open>Receiving a whole sector: the bytes are in the buffer, and the sector is written.\<close>

lemma receive_sector:
  assumes "blk \<noteq> []" "buf_size (scsi_buffer s) = 0" "buf_limit (scsi_buffer s) = int (length blk)"
    and "length blk \<le> length (buf_data (scsi_buffer s))" "buf_disk (scsi_buffer s)"
  shows "receive_all blk s = scsi_write_sector (upd_buffer (\<lambda>b. b\<lparr>buf_data := put_bytes 0 blk (buf_data b),
    buf_size := int (length blk)\<rparr>) s)"
proof -
  obtain xs x where blk: "blk = xs @ [x]" using assms(1) by (cases blk rule: rev_exhaust) auto
  let ?s1 = "upd_buffer (\<lambda>b. b\<lparr>buf_data := put_bytes 0 xs (buf_data b), buf_size := int (length xs)\<rparr>) s"
  have "receive_all xs s = Some ?s1"
    using receive_part [of s xs] assms blk by (simp add: upd_buffer_def)
  moreover have "(put_bytes 0 xs (buf_data (scsi_buffer s)))[length xs := x] = put_bytes 0 blk (buf_data (scsi_buffer s))"
    using assms(4) blk put_bytes_Cons [of "length xs" "put_bytes 0 xs (buf_data (scsi_buffer s))" "[]" x]
      put_bytes_append [of 0 "buf_data (scsi_buffer s)" xs "[x]"] by simp
  moreover have "length xs < length (put_bytes 0 xs (buf_data (scsi_buffer s)))" using assms(4) blk by simp
  ultimately show ?thesis
    using assms blk
    by (simp add: receive_all_append SCSIdisk_Receive_Data_def Let_def upd_buffer_def add.commute)
qed

lemma write_sector_image:
  assumes base: "scsi_base s" and img: "has_image True s img"
    and wp: "nWriteProtection (SCSI (ConfigureParams s)) \<noteq> WRITEPROT_ON"
    and bs: "bs = unat (blocksize (cur_disk s))" and l: "l = unat (lba (cur_disk s))" "l < length img div bs"
  shows "\<exists>s'. scsi_write_sector s = Some s' \<and> scsi_base s'
    \<and> has_image True s' (put_bytes (l * bs) (take bs (buf_data (scsi_buffer s))) img)
    \<and> ConfigureParams s' = ConfigureParams s \<and> bus_target (SCSIbus s') = bus_target (SCSIbus s)
    \<and> bus_phase (SCSIbus s') = (if blockcounter (cur_disk s) = 1 then PHASE_ST else bus_phase (SCSIbus s))
    \<and> scsi_buffer s' = (scsi_buffer s)\<lparr>buf_size := 0, buf_limit := uint (blocksize (cur_disk s))\<rparr>
    \<and> cur_disk s' = (cur_disk s)\<lparr>lba := lba (cur_disk s) + 1, blockcounter := blockcounter (cur_disk s) - 1\<rparr>"
proof -
  let ?d = "cur_disk s" and ?blk = "take bs (buf_data (scsi_buffer s))"
  note b = scsi_baseD [OF base]
  obtain path where path: "dsk ?d = Some (path, True)" "host_files s path = Some img"
    and sz: "length img = unat (disk_size ?d)" and sh: "shadow ?d = None"
    using img by (auto simp: has_image_def)
  have rng: "sector_offset ?d < disk_size ?d" using l b(3) by (simp add: sector_in_range bs sz)
  have "length (take bs (drop (l * bs) img)) = bs" using block_in_image [OF img b(3)] l bs by simp
  then have fit: "l * bs + bs \<le> length img" using disk_ok_blocksize(3) [OF b(3)] by (auto simp: bs)
  have "length ?blk = bs" using disk_ok_blocksize(2) [OF b(3)] b(4) by (simp add: bs)
  then have len: "length (put_bytes (l * bs) ?blk img) = length img" using fit by simp
  let ?s1 = "s\<lparr>host_files := (host_files s)(path \<mapsto> put_bytes (l * bs) ?blk img)\<rparr>"
  have "write_block s = Some ?s1"
    using wp path fit b(3) by (simp add: write_block_def Let_def File_Write_def unat_sector_offset bs l)
  define s3 where "s3 = upd_disk (\<lambda>d. d\<lparr>lba := lba d + 1, blockcounter := blockcounter d - 1\<rparr>)
    (upd_buffer (\<lambda>b. b\<lparr>buf_size := 0, buf_limit := uint (blocksize ?d)\<rparr>) ?s1)"
  have d3: "cur_disk s3 = ?d\<lparr>lba := lba ?d + 1, blockcounter := blockcounter ?d - 1\<rparr>"
    using b(1,2) by (simp add: s3_def upd_disk_def)
  have "scsi_write_sector s = Some (if blockcounter (cur_disk s3) = 0 then set_phase PHASE_ST s3 else s3)"
    using rng \<open>write_block s = Some ?s1\<close> by (simp add: scsi_write_sector_def Let_def s3_def)
  moreover have "scsi_base s3"
    unfolding s3_def using base b(3,4) by (intro scsi_base_upd) (auto elim: disk_ok_cong)
  moreover have "has_image True s3 (put_bytes (l * bs) ?blk img)"
    unfolding has_image_def d3 using path sz sh len by (simp add: s3_def)
  moreover have "SCSIbus s3 = SCSIbus s" "ConfigureParams s3 = ConfigureParams s"
    "scsi_buffer s3 = (scsi_buffer s)\<lparr>buf_size := 0, buf_limit := uint (blocksize ?d)\<rparr>"
    by (simp_all add: s3_def)
  moreover have "has_image True (set_phase p s3) x = has_image True s3 x" for p x by (simp add: has_image_def)
  ultimately show ?thesis
    using d3 by (auto intro: scsi_base_upd)
qed

lemma write_blocks:
  assumes "scsi_base s" "has_image True s img" "buf_disk (scsi_buffer s)"
    and "nWriteProtection (SCSI (ConfigureParams s)) \<noteq> WRITEPROT_ON"
    and "buf_size (scsi_buffer s) = 0" "buf_limit (scsi_buffer s) = uint (blocksize (cur_disk s))"
    and "bs = unat (blocksize (cur_disk s))" "l = unat (lba (cur_disk s))" "unat (blockcounter (cur_disk s)) = Suc n"
    and "l + Suc n \<le> length img div bs" "length data = Suc n * bs"
  shows "\<exists>s'. receive_all data s = Some s' \<and> bus_phase (SCSIbus s') = PHASE_ST
    \<and> bus_target (SCSIbus s') = bus_target (SCSIbus s) \<and> disk_status (cur_disk s') = disk_status (cur_disk s)
    \<and> has_image True s' (put_bytes (l * bs) data img)"
  using assms
proof (induction n arbitrary: s l img data)
  case (0 s l img data)
  note b = scsi_baseD [OF 0(1)] and k = disk_ok_blocksize [OF scsi_baseD(3) [OF 0(1)]]
  let ?s1 = "upd_buffer (\<lambda>b. b\<lparr>buf_data := put_bytes 0 data (buf_data b), buf_size := int (length data)\<rparr>) s"
  have len: "length data = bs" "data \<noteq> []" using 0 k by auto
  have "receive_all data s = scsi_write_sector ?s1"
    using receive_sector [of data s] 0 len b k by simp
  moreover have "blockcounter (cur_disk s) = 1" using 0(9) by (simp add: word_unat_eq_iff)
  moreover have "scsi_base ?s1" using 0(1,7) len b k by (intro scsi_base_upd) auto
  moreover have "has_image True ?s1 img" using 0(2) by (simp add: has_image_def)
  moreover have "take bs (put_bytes 0 data (buf_data (scsi_buffer s))) = data"
    using len b(4) k(2) 0(7) put_bytes_0_take [of data "buf_data (scsi_buffer s)"] by simp
  ultimately show ?case
    using write_sector_image [of ?s1 img bs l] 0 by auto
next
  case (Suc n s l img data)
  note b = scsi_baseD [OF Suc.prems(1)] and k = disk_ok_blocksize [OF scsi_baseD(3) [OF Suc.prems(1)]]
  let ?blk = "take bs data" and ?rest = "drop bs data"
  let ?s1 = "upd_buffer (\<lambda>b. b\<lparr>buf_data := put_bytes 0 ?blk (buf_data b), buf_size := int (length ?blk)\<rparr>) s"
  have len: "length ?blk = bs" "?blk \<noteq> []" "length ?rest = Suc n * bs" using Suc.prems k by auto
  have recv: "receive_all ?blk s = scsi_write_sector ?s1"
    using receive_sector [of ?blk s] Suc.prems len b k by simp
  have base1: "scsi_base ?s1" using Suc.prems(1,7) len b k by (intro scsi_base_upd) auto
  have img1: "has_image True ?s1 img" using Suc.prems(2) by (simp add: has_image_def)
  have blk: "take bs (put_bytes 0 ?blk (buf_data (scsi_buffer s))) = ?blk"
    using len b(4) k(2) Suc.prems(7) put_bytes_0_take [of ?blk "buf_data (scsi_buffer s)"] by simp
  have lt: "l < length img div bs" using Suc.prems(10) by simp
  obtain s2 where s2: "scsi_write_sector ?s1 = Some s2" "scsi_base s2"
    "has_image True s2 (put_bytes (l * bs) ?blk img)" "ConfigureParams s2 = ConfigureParams s"
    "bus_target (SCSIbus s2) = bus_target (SCSIbus s)"
    "scsi_buffer s2 = (scsi_buffer ?s1)\<lparr>buf_size := 0, buf_limit := uint (blocksize (cur_disk s))\<rparr>"
    "cur_disk s2 = (cur_disk s)\<lparr>lba := lba (cur_disk s) + 1, blockcounter := blockcounter (cur_disk s) - 1\<rparr>"
    using write_sector_image [OF base1 img1, of bs l] Suc.prems(4,7,8) lt blk by auto
  have sz: "length img = unat (disk_size (cur_disk s))" using Suc.prems(2) by (simp add: has_image_def)
  have "length (take bs (drop (l * bs) img)) = bs" using block_in_image [OF Suc.prems(2) b(3)] lt Suc.prems(7,8) by simp
  then have fit: "l * bs + bs \<le> length img" using k(3) Suc.prems(7) by auto
  then have img2: "length (put_bytes (l * bs) ?blk img) = length img" using len by simp
  have "unat (lba (cur_disk s) + 1) = Suc l"
    using unat_lba_Suc [OF b(3) Suc.prems(8)] lt by (simp add: sz Suc.prems(7))
  moreover have "unat (blockcounter (cur_disk s) - 1) = Suc n"
    using Suc.prems(9) by (subst unat_minus_one) auto
  ultimately obtain s' where s': "receive_all ?rest s2 = Some s'" "bus_phase (SCSIbus s') = PHASE_ST"
    "bus_target (SCSIbus s') = bus_target (SCSIbus s2)" "disk_status (cur_disk s') = disk_status (cur_disk s2)"
    "has_image True s' (put_bytes (Suc l * bs) ?rest (put_bytes (l * bs) ?blk img))"
    using Suc.IH [OF s2(2,3), of "Suc l" ?rest] s2 Suc.prems(3,4,7,10) len(3) img2 by auto
  moreover have "put_bytes (Suc l * bs) ?rest (put_bytes (l * bs) ?blk img) = put_bytes (l * bs) data img"
    using put_bytes_append [of "l * bs" img ?blk ?rest] fit len(1) by (simp add: add.commute)
  moreover have "receive_all data s = receive_all ?rest s2"
    using receive_all_append [of ?blk ?rest s] recv s2(1) by simp
  ultimately show ?case using s2 by simp
qed

lemma start_transfer_base:
  assumes "scsi_base s"
  shows "scsi_base (upd_disk (start_transfer cdb) s)"
    "cur_disk (upd_disk (start_transfer cdb) s) = start_transfer cdb (cur_disk s)"
  using assms scsi_baseD [OF assms] by (auto intro!: scsi_base_upd)

lemma start_transfer_sel [simp]:
  "lba (start_transfer cdb d) = SCSI_GetOffset (cdb ! 0) cdb"
  "blockcounter (start_transfer cdb d) = SCSI_GetCount (cdb ! 0) cdb"
  "blocksize (start_transfer cdb d) = blocksize d" "disk_size (start_transfer cdb d) = disk_size d"
  "dsk (start_transfer cdb d) = dsk d" "shadow (start_transfer cdb d) = shadow d" "readonly (start_transfer cdb d) = readonly d"
  by (simp_all add: start_transfer_def)

text \<open>
  C6. A write command stores its data in the image: on a disk that is not write protected,
  for every address and count in the command block that stay within the disk, the target
  takes exactly \<open>count\<close> blocks of data, the bytes are then in the image file from the byte
  \<open>address * block size\<close> on, all other bytes of the file are as before, and the target is in
  the status phase with the status good.
\<close>

theorem scsi_write_refines_image:
  assumes "scsi_inv s" "has_image True s img" "\<not> readonly (cur_disk s)"
    and "nWriteProtection (SCSI (ConfigureParams s)) \<noteq> WRITEPROT_ON"
    and "bs = unat (blocksize (cur_disk s))" "l = unat (SCSI_GetOffset (cdb ! 0) cdb)"
    and "n = unat (SCSI_GetCount (cdb ! 0) cdb)" "0 < n" "l + n \<le> length img div bs" "length data = n * bs"
  shows "\<exists>s'. receive_all data (SCSI_WriteSector cdb s) = Some s' \<and> has_image True s' (put_bytes (l * bs) data img)
    \<and> bus_phase (SCSIbus s') = PHASE_ST \<and> SCSIdisk_Send_Status s' = (STAT_GOOD, set_phase PHASE_MI s')"
proof -
  have base: "scsi_base s" using assms(1) by (simp add: scsi_inv_base)
  note st = start_transfer_base [OF base, of cdb] and b = scsi_baseD [OF base]
  let ?d = "start_transfer cdb (cur_disk s)"
  let ?s1 = "upd_disk (start_transfer cdb) s"
  let ?s2 = "upd_buffer (\<lambda>b. b\<lparr>buf_size := 0, buf_limit := uint (blocksize ?d), buf_disk := True, buf_time := SCSI_GetTime ?d\<rparr>) ?s1"
  let ?s4 = "set_phase PHASE_DO (upd_disk good ?s2)"
  have "SCSI_GetCount (cdb ! 0) cdb \<noteq> 0" using assms(7,8) by (metis unat_0 less_irrefl)
  moreover have "SCSIdisk ?s1 ! cur_target s = ?d" using b by simp
  ultimately have cmd: "SCSI_WriteSector cdb s = ?s4"
    using assms(3) by (simp add: SCSI_WriteSector_def Let_def)
  have d4: "cur_disk ?s4 = good ?d" using b by (simp add: upd_disk_def)
  have "scsi_base ?s2" using st(1) scsi_baseD(4) [OF st(1)] by - (rule scsi_base_upd(3), auto)
  then have "scsi_base ?s4" by (intro scsi_base_upd(1) good_base)
  moreover have "has_image True ?s4 img" using assms(2) d4 unfolding has_image_def by simp
  moreover have "unat (blockcounter (cur_disk ?s4)) = Suc (n - 1)" using assms(7,8) d4 by simp
  ultimately obtain s' where "receive_all data ?s4 = Some s'" "bus_phase (SCSIbus s') = PHASE_ST"
    "disk_status (cur_disk s') = disk_status (good ?d)" "has_image True s' (put_bytes (l * bs) data img)"
    using write_blocks [of ?s4 img bs l "n - 1" data] assms d4 by auto
  then show ?thesis using cmd by (auto simp: SCSIdisk_Send_Status_def)
qed

lemma read_command:
  assumes "scsi_inv s" "has_image rw s img"
    and "bs = unat (blocksize (cur_disk s))" "l = unat (SCSI_GetOffset (cdb ! 0) cdb)"
    and "n = unat (SCSI_GetCount (cdb ! 0) cdb)" "0 < n" "l + n \<le> length img div bs"
  shows "\<exists>s1 s2. SCSI_ReadSector cdb s = Some s1 \<and> bus_phase (SCSIbus s1) = PHASE_DI
    \<and> send_n (n * bs) s1 = Some (take (n * bs) (drop (l * bs) img), s2) \<and> has_image rw s2 img
    \<and> bus_phase (SCSIbus s2) = PHASE_ST \<and> SCSIdisk_Send_Status s2 = (STAT_GOOD, set_phase PHASE_MI s2)
    \<and> (\<forall>i < n * bs. \<exists>xs u. send_n i s1 = Some (xs, u) \<and> bus_phase (SCSIbus u) = PHASE_DI)"
proof -
  have base: "scsi_base s" using assms(1) by (simp add: scsi_inv_base)
  note st = start_transfer_base [OF base, of cdb] and b = scsi_baseD [OF base]
  let ?d = "start_transfer cdb (cur_disk s)"
  let ?s2 = "upd_buffer (\<lambda>b. b\<lparr>buf_size := 0, buf_limit := 0, buf_disk := True, buf_time := SCSI_GetTime ?d\<rparr>)
    (upd_disk (start_transfer cdb) s)"
  define s3 where "s3 = set_phase PHASE_DI (upd_disk good ?s2)"
  have cnt: "SCSI_GetCount (cdb ! 0) cdb \<noteq> 0" using assms(5,6) by (metis unat_0 less_irrefl)
  then have cmd: "SCSI_ReadSector cdb s = scsi_read_sector s3"
    using st(2) by (simp add: SCSI_ReadSector_def Let_def s3_def)
  have d3: "cur_disk s3 = good ?d" using b by (simp add: s3_def upd_disk_def)
  have "scsi_base ?s2" using st(1) scsi_baseD(4) [OF st(1)] by - (rule scsi_base_upd(3), auto)
  then have base3: "scsi_base s3" unfolding s3_def by (intro scsi_base_upd(1) good_base)
  have img3: "has_image rw s3 img" using assms(2) d3 unfolding has_image_def by (simp add: s3_def)
  obtain s4 data where read: "scsi_read_sector s3 = Some s4" and s4: "scsi_base s4" "has_image rw s4 img"
    "SCSIbus s4 = SCSIbus s3" "scsi_buffer s4 = (scsi_buffer s3)\<lparr>buf_data := data, buf_size := uint (blocksize ?d),
            buf_limit := uint (blocksize ?d)\<rparr>" and data: "take bs data = take bs (drop (l * bs) img)"
    and d4: "cur_disk s4 = (good ?d)\<lparr>lba := lba ?d + 1, blockcounter := blockcounter ?d - 1\<rparr>"
    using read_sector_image [OF base3 img3, of bs l] cnt assms(3-7) d3 by auto
  have l1: "Suc l = unat (lba (cur_disk s4))"
    using unat_lba_Suc [of "good ?d" l] b(3) d4 assms(2-7) by (simp add: has_image_def)
  have n1: "unat (blockcounter (cur_disk s4)) = n - 1"
    using d4 assms(5,6) by (simp add: unat_minus_one [OF cnt])
  have buf: "buf_disk (scsi_buffer s4)" "buf_size (scsi_buffer s4) = uint (blocksize (cur_disk s4))"
    "buf_limit (scsi_buffer s4) = uint (blocksize (cur_disk s4))" "bs = unat (blocksize (cur_disk s4))"
    "buf_data (scsi_buffer s4) = data"
    using s4(4) d4 assms(3) by (simp_all add: s3_def)
  have le: "Suc l + (n - 1) \<le> length img div bs" using assms(6,7) by linarith
  obtain s' where s': "send_n (Suc (n - 1) * bs) s4
      = Some (take bs data @ take ((n - 1) * bs) (drop (Suc l * bs) img), s')"
    "bus_phase (SCSIbus s') = PHASE_ST" "disk_status (cur_disk s') = STAT_GOOD" "has_image rw s' img"
    "\<And>i. i < Suc (n - 1) * bs \<Longrightarrow> \<exists>xs u. send_n i s4 = Some (xs, u) \<and> bus_phase (SCSIbus u) = bus_phase (SCSIbus s4)"
    using read_blocks [OF s4(1,2) buf(1-4) l1 n1 le] buf(5) d4 by auto
  have "take bs (drop (l * bs) img) @ take ((n - 1) * bs) (drop (Suc l * bs) img) = take (Suc (n - 1) * bs) (drop (l * bs) img)"
    by (simp add: take_add ac_simps)
  with s'(1) data have "send_n (n * bs) s4 = Some (take (n * bs) (drop (l * bs) img), s')"
    using assms(6) by simp
  then show ?thesis
    using cmd read s' s4(3) assms(6) by (auto simp: SCSIdisk_Send_Status_def s3_def)
qed

text \<open>
  C7. A read command delivers the bytes of the image: for every address and count in the
  command block that stay within the disk, the target sends exactly \<open>count\<close> blocks, the
  bytes of the image file from the byte \<open>address * block size\<close> on, is in the data-in phase
  before each of them and then in the status phase with the status good; the image is not
  changed.
\<close>

theorem scsi_read_refines_image:
  assumes "scsi_inv s" "has_image rw s img"
    and "bs = unat (blocksize (cur_disk s))" "l = unat (SCSI_GetOffset (cdb ! 0) cdb)"
    and "n = unat (SCSI_GetCount (cdb ! 0) cdb)" "0 < n" "l + n \<le> length img div bs"
  shows "\<exists>s1 s2. SCSI_ReadSector cdb s = Some s1 \<and> bus_phase (SCSIbus s1) = PHASE_DI
    \<and> send_n (n * bs) s1 = Some (take (n * bs) (drop (l * bs) img), s2) \<and> has_image rw s2 img
    \<and> bus_phase (SCSIbus s2) = PHASE_ST \<and> SCSIdisk_Send_Status s2 = (STAT_GOOD, set_phase PHASE_MI s2)
    \<and> (\<forall>i < n * bs. \<exists>xs u. send_n i s1 = Some (xs, u) \<and> bus_phase (SCSIbus u) = PHASE_DI)"
  by (rule read_command [OF assms])

text \<open>The sample machine with its image opened, and the command blocks for block 1.\<close>

definition sample_ready :: scsi where
  "sample_ready = sample_scsi\<lparr>SCSIdisk := sample_disk\<lparr>devtype := SD_HARDDISK, dsk := Some (''hd.img'', True),
     disk_size := 2048\<rparr> # replicate 6 sample_disk\<rparr>"

lemma sample_ready_facts:
  "scsi_inv sample_ready" "has_image True sample_ready (replicate 2048 0x11)" "\<not> readonly (cur_disk sample_ready)"
  "nWriteProtection (SCSI (ConfigureParams sample_ready)) \<noteq> WRITEPROT_ON" "unat (blocksize (cur_disk sample_ready)) = 512"
  by (auto simp: sample_ready_def sample_scsi_defs scsi_inv_def transfer_ok_def disk_ok_def has_image_def)

definition sample_cdb :: "u8 \<Rightarrow> u8 list" where
  "sample_cdb opcode = [opcode, 0, 0, 1, 1, 0] @ replicate 6 0"

lemma sample_cdb_facts:
  "SCSI_GetOffset (sample_cdb 0x0A ! 0) (sample_cdb 0x0A) = 1" "SCSI_GetCount (sample_cdb 0x0A ! 0) (sample_cdb 0x0A) = 1"
  "SCSI_GetOffset (sample_cdb 0x08 ! 0) (sample_cdb 0x08) = 1" "SCSI_GetCount (sample_cdb 0x08 ! 0) (sample_cdb 0x08) = 1"
  by (simp_all add: SCSI_GetOffset_def SCSI_GetCount_def sample_cdb_def COMMAND_ReadInt24_def)

theorem scsi_write_refines_image_witness:
  "\<exists>s'. receive_all (replicate 512 0x22) (SCSI_WriteSector (sample_cdb 0x0A) sample_ready) = Some s'
     \<and> has_image True s' (put_bytes 512 (replicate 512 0x22) (replicate 2048 0x11))"
  using scsi_write_refines_image [OF sample_ready_facts(1-4), of 512 1 "sample_cdb 0x0A" 1 "replicate 512 0x22"]
    sample_ready_facts(5) sample_cdb_facts by auto

theorem scsi_read_refines_image_witness:
  "\<exists>s1 s2. SCSI_ReadSector (sample_cdb 0x08) sample_ready = Some s1
     \<and> send_n 512 s1 = Some (take 512 (drop 512 (replicate 2048 0x11)), s2)"
  using scsi_read_refines_image [OF sample_ready_facts(1,2), of 512 1 "sample_cdb 0x08" 1]
    sample_ready_facts(5) sample_cdb_facts by (auto simp del: take_replicate drop_replicate)

section \<open>Errors\<close>

text \<open>
  C26. Reading past the end of the disk is reported with the failing block: when a read
  starts at a block that is not on the disk, no data are sent, the status is check
  condition, and a request sense command that asks for 14 bytes gets the sense key illegal
  request, the code invalid block address, the valid bit, and the block number, most
  significant byte first.
\<close>

theorem scsi_invalid_lba_reported:
  assumes "scsi_inv s" "SCSI_GetCount (cdb ! 0) cdb \<noteq> 0"
    and "unat (disk_size (cur_disk s)) div unat (blocksize (cur_disk s)) \<le> unat (SCSI_GetOffset (cdb ! 0) cdb)"
    and "cdb' ! 0 = CMD_REQ_SENSE" "cdb' ! 4 = 14"
  shows "\<exists>s1. SCSI_ReadSector cdb s = Some s1 \<and> bus_phase (SCSIbus s1) = PHASE_ST
    \<and> fst (SCSIdisk_Send_Status s1) = STAT_CHECK_COND
    \<and> (let s2 = SCSI_RequestSense cdb' s1; lba' = SCSI_GetOffset (cdb ! 0) cdb in
       bus_phase (SCSIbus s2) = PHASE_DI \<and> buf_size (scsi_buffer s2) = 14
       \<and> take 14 (buf_data (scsi_buffer s2)) = [0xF0, 0, SK_ILLEGAL_REQ, byte3 lba', byte2 lba', byte1 lba', byte0 lba',
           14, 0, 0, 0, 0, SC_INVALID_LBA, 0])"
proof -
  have base: "scsi_base s" using assms(1) by (simp add: scsi_inv_base)
  note st = start_transfer_base [OF base, of cdb] and b = scsi_baseD [OF base]
  let ?d = "start_transfer cdb (cur_disk s)" and ?l = "SCSI_GetOffset (cdb ! 0) cdb"
  define s3 where "s3 = set_phase PHASE_DI (upd_disk good (upd_buffer (\<lambda>b. b\<lparr>buf_size := 0, buf_limit := 0, buf_disk := True,
    buf_time := SCSI_GetTime ?d\<rparr>) (upd_disk (start_transfer cdb) s)))"
  have cmd: "SCSI_ReadSector cdb s = scsi_read_sector s3"
    using st(2) assms(2) by (simp add: SCSI_ReadSector_def Let_def s3_def)
  have d3: "cur_disk s3 = good ?d" "length (SCSIdisk s3) = 7" "cur_target s3 < 7" using b by (simp_all add: s3_def upd_disk_def)
  have "\<not> sector_offset (good ?d) < disk_size (good ?d)"
    using sector_in_range [of "good ?d"] b(3) assms(3) by simp
  then have "scsi_read_sector s3 = Some (invalid_lba s3)"
    using d3 assms(2) by (simp add: scsi_read_sector_def)
  moreover have "cur_disk (invalid_lba s3) = (good ?d)\<lparr>disk_status := STAT_CHECK_COND, sense := \<lparr>sense_key = SK_ILLEGAL_REQ,
      sense_code = SC_INVALID_LBA, sense_valid = True, sense_info = ?l\<rparr>\<rparr>"
    using d3 by (simp add: invalid_lba_def upd_disk_def)
  moreover have "bus_phase (SCSIbus (invalid_lba s3)) = PHASE_ST" by (simp add: invalid_lba_def)
  moreover have "length (buf_data (scsi_buffer (invalid_lba s3))) = 2048" using b(4) by (simp add: invalid_lba_def s3_def)
  moreover have "put_bytes 0 (replicate 14 0) data = [0, 0, 0, 0, 0, 0, 0, 0, 0, 0, 0, 0, 0, 0] @ drop 14 data" for data :: "u8 list"
    by (simp add: put_bytes_def numeral_eq_Suc)
  ultimately show ?thesis
    using cmd assms(4,5) by (simp add: SCSIdisk_Send_Status_def SCSI_RequestSense_def Let_def SCSI_GetTransferLength_def set_reply_def)
qed

theorem scsi_invalid_lba_reported_witness:
  "\<exists>s1. SCSI_ReadSector ([8, 0, 0, 9, 1, 0] @ replicate 6 0) sample_ready = Some s1
     \<and> take 14 (buf_data (scsi_buffer (SCSI_RequestSense ([3, 0, 0, 0, 14, 0] @ replicate 6 0) s1)))
       = [0xF0, 0, 5, 0, 0, 0, 9, 14, 0, 0, 0, 0, 0x21, 0]"
proof -
  have "unat (disk_size (cur_disk sample_ready)) = 2048"
    by (simp add: sample_ready_def sample_scsi_defs)
  then show ?thesis
    using scsi_invalid_lba_reported [OF sample_ready_facts(1), of "[8, 0, 0, 9, 1, 0] @ replicate 6 0" "[3, 0, 0, 0, 14, 0] @ replicate 6 0"]
      sample_ready_facts(5) by (auto simp: SCSI_GetOffset_def SCSI_GetCount_def COMMAND_ReadInt24_def Let_def)
qed

text \<open>
  C27. With write protection on, the first block written to a disk is lost: while the disk has
  no table of shadow blocks, writing a block only creates the table, and reading the block
  back delivers what it held before, not what was written.
\<close>

theorem scsi_first_shadow_write_lost:
  assumes "scsi_inv s" "nWriteProtection (SCSI (ConfigureParams s)) = WRITEPROT_ON" "shadow (cur_disk s) = None"
    and "sector_offset (cur_disk s) < disk_size (cur_disk s)"
  shows "\<exists>s'. write_block s = Some s' \<and> shadow (cur_disk s') \<noteq> None \<and> read_block s' = read_block s"
proof -
  have base: "scsi_base s" using assms(1) by (simp add: scsi_inv_base)
  note b = scsi_baseD [OF base]
  define s' where "s' = upd_disk (\<lambda>d. d\<lparr>shadow := Some (replicate (unat (sectors_of d)) None)\<rparr>) s"
  have "write_block s = Some s'" using assms(2,3) by (simp add: write_block_def Let_def s'_def)
  moreover have d: "cur_disk s' = (cur_disk s)\<lparr>shadow := Some (replicate (unat (sectors_of (cur_disk s))) None)\<rparr>"
    using b(1,2) by (simp add: s'_def upd_disk_def)
  moreover have "sector_offset (cur_disk s') = sector_offset (cur_disk s)" by (simp add: sector_offset_def d)
  moreover have "unat (lba (cur_disk s)) < unat (sectors_of (cur_disk s))"
    using assms(4) b(3) by (simp add: sector_in_range unat_sectors_of)
  ultimately show ?thesis
    using assms(3) by (simp add: read_block_def Let_def) (simp add: s'_def)
qed

definition sample_protected :: scsi where
  "sample_protected = sample_ready\<lparr>ConfigureParams := (ConfigureParams sample_ready)\<lparr>SCSI :=
     (SCSI (ConfigureParams sample_ready))\<lparr>nWriteProtection := WRITEPROT_ON\<rparr>\<rparr>\<rparr>"

theorem scsi_first_shadow_write_lost_witness:
  "scsi_inv sample_protected \<and> nWriteProtection (SCSI (ConfigureParams sample_protected)) = WRITEPROT_ON
   \<and> (\<exists>s'. write_block sample_protected = Some s' \<and> read_block s' = read_block sample_protected)"
proof -
  have h: "scsi_inv sample_protected" "nWriteProtection (SCSI (ConfigureParams sample_protected)) = WRITEPROT_ON"
    "shadow (cur_disk sample_protected) = None"
    "sector_offset (cur_disk sample_protected) < disk_size (cur_disk sample_protected)"
    using sample_ready_facts(1)
    by (simp_all add: sample_protected_def scsi_inv_def) (simp_all add: sample_ready_def sample_scsi_defs sector_offset_def)
  from scsi_first_shadow_write_lost [OF h] h show ?thesis by blast
qed

end
