(* ===== verification/Bmap.thy ===== *)
theory Bmap
  imports Scsi
begin

text \<open>
  The BMAP chip of \<open>bmap.c\<close>: sixteen registers, of which four have side effects, and access to
  them by byte, word and long word. A write to the data direction register may reset the
  machine: \<open>Reset_Warm\<close>, which reaches every device of the emulator, is an argument.
\<close>

section \<open>Registers\<close>

abbreviation (input) BMAP_RCNTL :: u32 where "BMAP_RCNTL \<equiv> 0x1"
abbreviation (input) BMAP_BURWREN :: u32 where "BMAP_BURWREN \<equiv> 0x3"
abbreviation (input) BMAP_DDIR :: u32 where "BMAP_DDIR \<equiv> 0xC"
abbreviation (input) BMAP_DRW :: u32 where "BMAP_DRW \<equiv> 0xD"

abbreviation (input) BMAP_LO :: u32 where "BMAP_LO \<equiv> 0x40000000"
abbreviation (input) BMAP_DSP_HREQ :: u32 where "BMAP_DSP_HREQ \<equiv> 0x20000000"
abbreviation (input) BMAP_DSP_TXD :: u32 where "BMAP_DSP_TXD \<equiv> 0x10000000"
abbreviation (input) BMAP_RESET :: u32 where "BMAP_RESET \<equiv> 0x40000000"
abbreviation (input) BMAP_HEARTBEAT :: u32 where "BMAP_HEARTBEAT \<equiv> 0x20000000"
abbreviation (input) BMAP_TPE_ILBC :: u32 where "BMAP_TPE_ILBC \<equiv> 0x10000000"
abbreviation (input) BMAP_TPE :: u32 where "BMAP_TPE \<equiv> 0x90000000"

record bmap = scsi +
  NEXTbmap :: "u32 list"
  bmap_rom_local :: u8
  bmap_tpe_select :: u8

definition bmap_get :: "u32 \<Rightarrow> 'a bmap_scheme \<Rightarrow> u32 option" where
  "bmap_get bmap_reg s = do {
     val \<leftarrow> arr_get (NEXTbmap s) (unat bmap_reg);
     let e = Ethernet (ConfigureParams s);
     Some (if bmap_reg = BMAP_DRW then
             (val AND NOT (BMAP_HEARTBEAT OR BMAP_TPE_ILBC)) OR
             (if bEthernetConnected e \<and> bTwistedPair e then BMAP_TPE_ILBC else BMAP_HEARTBEAT)
           else val)
   }"

text \<open>A flag that follows a bit: it is only assigned when it has to change.\<close>

definition follow :: "u8 \<Rightarrow> bool \<Rightarrow> u8" where
  "follow f on = (if f = 0 \<and> on then 1 else if f \<noteq> 0 \<and> \<not> on then 0 else f)"

definition bmap_side_effect ::
  "('a bmap_scheme \<Rightarrow> 'a bmap_scheme option) \<Rightarrow> u32 \<Rightarrow> u32 \<Rightarrow> u32 \<Rightarrow> 'a bmap_scheme \<Rightarrow> 'a bmap_scheme option" where
  "bmap_side_effect Reset_Warm bmap_reg old val s =
     (if bmap_reg = BMAP_RCNTL then
        Some (s\<lparr>bmap_rom_local := follow (bmap_rom_local s) (tst val BMAP_LO)\<rparr>)
      else if bmap_reg = BMAP_BURWREN then
        Some (scr_check_dsp_interrupt (s\<lparr>
          bmap_hreq_enable := follow (bmap_hreq_enable s) (tst val BMAP_DSP_HREQ),
          bmap_txdn_enable := follow (bmap_txdn_enable s) (tst val BMAP_DSP_TXD)\<rparr>))
      else if bmap_reg = BMAP_DDIR then
        (if tst val BMAP_RESET then Reset_Warm s else Some s)
      else if bmap_reg = BMAP_DRW then
        Some (if val AND BMAP_TPE \<noteq> old AND BMAP_TPE then
                (if val AND BMAP_TPE = BMAP_TPE then s\<lparr>bmap_tpe_select := 1\<rparr>
                 else if val AND BMAP_TPE = 0 then s\<lparr>bmap_tpe_select := 0\<rparr> else s)
              else s)
      else Some s)"

definition bmap_put ::
  "('a bmap_scheme \<Rightarrow> 'a bmap_scheme option) \<Rightarrow> u32 \<Rightarrow> u32 \<Rightarrow> 'a bmap_scheme \<Rightarrow> 'a bmap_scheme option" where
  "bmap_put Reset_Warm bmap_reg val s = do {
     old \<leftarrow> arr_get (NEXTbmap s) (unat bmap_reg);
     s1 \<leftarrow> bmap_side_effect Reset_Warm bmap_reg old val s;
     regs \<leftarrow> arr_set (NEXTbmap s1) (unat bmap_reg) val;
     Some (s1\<lparr>NEXTbmap := regs\<rparr>)
   }"

section \<open>Access by long word, word and byte\<close>

definition bmap_lget :: "u32 \<Rightarrow> 'a bmap_scheme \<Rightarrow> u32 option" where
  "bmap_lget addr s = (if tst addr 3 then Some 0 else bmap_get (drop_bit 2 addr) s)"

definition word_shift :: "u32 \<Rightarrow> nat" where
  "word_shift addr = (2 - unat (addr AND 2)) * 8"

definition byte_shift :: "u32 \<Rightarrow> nat" where
  "byte_shift addr = (3 - unat (addr AND 3)) * 8"

definition bmap_wget :: "u32 \<Rightarrow> 'a bmap_scheme \<Rightarrow> u32 option" where
  "bmap_wget addr s =
     (if tst addr 1 then Some 0
      else map_option (\<lambda>w. drop_bit (word_shift addr) w AND 0xFFFF) (bmap_get (drop_bit 2 addr) s))"

definition bmap_bget :: "u32 \<Rightarrow> 'a bmap_scheme \<Rightarrow> u32 option" where
  "bmap_bget addr s = map_option (\<lambda>b. drop_bit (byte_shift addr) b AND 0xFF) (bmap_get (drop_bit 2 addr) s)"

definition bmap_lput ::
  "('a bmap_scheme \<Rightarrow> 'a bmap_scheme option) \<Rightarrow> u32 \<Rightarrow> u32 \<Rightarrow> 'a bmap_scheme \<Rightarrow> 'a bmap_scheme option" where
  "bmap_lput Reset_Warm addr l s = (if tst addr 3 then Some s else bmap_put Reset_Warm (drop_bit 2 addr) l s)"

definition bmap_wput ::
  "('a bmap_scheme \<Rightarrow> 'a bmap_scheme option) \<Rightarrow> u32 \<Rightarrow> u32 \<Rightarrow> 'a bmap_scheme \<Rightarrow> 'a bmap_scheme option" where
  "bmap_wput Reset_Warm addr w s =
     (if tst addr 1 then Some s
      else do {
        val \<leftarrow> arr_get (NEXTbmap s) (unat (drop_bit 2 addr));
        let val = val AND NOT (push_bit (word_shift addr) 0xFFFF);
        bmap_put Reset_Warm (drop_bit 2 addr) (val OR push_bit (word_shift addr) w) s
      })"

definition bmap_bput ::
  "('a bmap_scheme \<Rightarrow> 'a bmap_scheme option) \<Rightarrow> u32 \<Rightarrow> u32 \<Rightarrow> 'a bmap_scheme \<Rightarrow> 'a bmap_scheme option" where
  "bmap_bput Reset_Warm addr b s = do {
     val \<leftarrow> arr_get (NEXTbmap s) (unat (drop_bit 2 addr));
     let val = val AND NOT (push_bit (byte_shift addr) 0xFF);
     bmap_put Reset_Warm (drop_bit 2 addr) (val OR push_bit (byte_shift addr) b) s
   }"

definition BMAP_Reset :: "'a bmap_scheme \<Rightarrow> 'a bmap_scheme" where
  "BMAP_Reset s = s\<lparr>NEXTbmap := (replicate 16 0)[unat BMAP_RCNTL := BMAP_LO],
     bmap_rom_local := 1, bmap_tpe_select := 0, bmap_hreq_enable := 0, bmap_txdn_enable := 0\<rparr>"

section \<open>The flags follow the registers\<close>

text \<open>
  What the other devices read of the chip: each flag has the value of its register bit, and
  the ethernet selection that of the two transceiver bits whenever these agree.
\<close>

definition bmap_inv :: "'a bmap_scheme \<Rightarrow> bool" where
  "bmap_inv s \<longleftrightarrow> length (NEXTbmap s) = 16
     \<and> bmap_rom_local s = of_bool (tst (NEXTbmap s ! 1) BMAP_LO)
     \<and> bmap_hreq_enable s = of_bool (tst (NEXTbmap s ! 3) BMAP_DSP_HREQ)
     \<and> bmap_txdn_enable s = of_bool (tst (NEXTbmap s ! 3) BMAP_DSP_TXD)
     \<and> (NEXTbmap s ! 13 AND BMAP_TPE = BMAP_TPE \<longrightarrow> bmap_tpe_select s = 1)
     \<and> (NEXTbmap s ! 13 AND BMAP_TPE = 0 \<longrightarrow> bmap_tpe_select s = 0)"

lemma follow_of_bool [simp]: "follow (of_bool b) on = of_bool on"
  by (simp add: follow_def)

lemma bmap_fields_set_interrupt [simp]:
  "NEXTbmap (set_interrupt i st s) = NEXTbmap s" "bmap_rom_local (set_interrupt i st s) = bmap_rom_local s"
  "bmap_tpe_select (set_interrupt i st s) = bmap_tpe_select s"
  "bmap_hreq_enable (set_interrupt i st s) = bmap_hreq_enable s"
  "bmap_txdn_enable (set_interrupt i st s) = bmap_txdn_enable s"
  by (simp_all add: set_interrupt_def scr_get_interrupt_level_def M68000_CheckInterrupt_def Let_def)

lemma bmap_fields_check_dsp [simp]:
  "NEXTbmap (scr_check_dsp_interrupt s) = NEXTbmap s" "bmap_rom_local (scr_check_dsp_interrupt s) = bmap_rom_local s"
  "bmap_tpe_select (scr_check_dsp_interrupt s) = bmap_tpe_select s"
  "bmap_hreq_enable (scr_check_dsp_interrupt s) = bmap_hreq_enable s"
  "bmap_txdn_enable (scr_check_dsp_interrupt s) = bmap_txdn_enable s"
  by (simp_all add: scr_check_dsp_interrupt_def)

lemma bmap_inv_Reset: "bmap_inv (BMAP_Reset s)"
  by (simp add: bmap_inv_def BMAP_Reset_def)


lemma bmap_put_inv:
  assumes inv: "bmap_inv s" and reg: "unat bmap_reg < 16"
    and rw: "\<And>s. bmap_inv s \<Longrightarrow> \<exists>s'. Reset_Warm s = Some s' \<and> bmap_inv s'"
  shows "\<exists>s'. bmap_put Reset_Warm bmap_reg val s = Some s' \<and> bmap_inv s'"
proof -
  have len: "length (NEXTbmap s) = 16" using inv by (simp add: bmap_inv_def)
  have idx: "unat bmap_reg = 1 \<longleftrightarrow> bmap_reg = 1" "unat bmap_reg = 3 \<longleftrightarrow> bmap_reg = 3"
    "unat bmap_reg = 13 \<longleftrightarrow> bmap_reg = 0xD"
    by (simp_all add: word_unat_eq_iff)
  obtain s1 where s1: "bmap_side_effect Reset_Warm bmap_reg (NEXTbmap s ! unat bmap_reg) val s = Some s1"
    "length (NEXTbmap s1) = 16" "bmap_inv (s1\<lparr>NEXTbmap := (NEXTbmap s1)[unat bmap_reg := val]\<rparr>)"
  proof (cases "bmap_reg = BMAP_DDIR")
    case True
    from rw [OF inv] obtain s2 where "Reset_Warm s = Some s2" "bmap_inv s2" by blast
    with True inv that show ?thesis
      by (cases "tst val BMAP_RESET") (auto simp: bmap_side_effect_def bmap_inv_def)
  next
    case False
    with inv that show ?thesis
      by (cases "bmap_reg = 1"; cases "bmap_reg = 3"; cases "bmap_reg = 0xD")
        (auto simp: bmap_side_effect_def bmap_inv_def nth_list_update Let_def idx [simplified] split: if_splits)
  qed
  with len reg show ?thesis by (auto simp: bmap_put_def)
qed

lemma bmap_index: "addr < 64 \<Longrightarrow> unat (drop_bit 2 addr :: u32) < 16"
  unfolding unat_drop_bit_eq by (simp add: drop_bit_eq_div word_less_nat_alt)

text \<open>
  The states that writes of any width to the sixteen registers reach after a reset.
\<close>

inductive bmap_reachable :: "('a bmap_scheme \<Rightarrow> 'a bmap_scheme option) \<Rightarrow> 'a bmap_scheme \<Rightarrow> bool"
  for Reset_Warm where
  reset: "bmap_reachable Reset_Warm (BMAP_Reset s)"
| lput: "bmap_reachable Reset_Warm s \<Longrightarrow> addr < 64 \<Longrightarrow> bmap_lput Reset_Warm addr l s = Some s' \<Longrightarrow> bmap_reachable Reset_Warm s'"
| wput: "bmap_reachable Reset_Warm s \<Longrightarrow> addr < 64 \<Longrightarrow> bmap_wput Reset_Warm addr l s = Some s' \<Longrightarrow> bmap_reachable Reset_Warm s'"
| bput: "bmap_reachable Reset_Warm s \<Longrightarrow> addr < 64 \<Longrightarrow> bmap_bput Reset_Warm addr l s = Some s' \<Longrightarrow> bmap_reachable Reset_Warm s'"

lemma bmap_writes_inv:
  assumes inv: "bmap_inv s" and a: "addr < 64"
    and rw: "\<And>s. bmap_inv s \<Longrightarrow> \<exists>s'. Reset_Warm s = Some s' \<and> bmap_inv s'"
  shows "\<exists>s'. bmap_lput Reset_Warm addr l s = Some s' \<and> bmap_inv s'"
    "\<exists>s'. bmap_wput Reset_Warm addr l s = Some s' \<and> bmap_inv s'"
    "\<exists>s'. bmap_bput Reset_Warm addr l s = Some s' \<and> bmap_inv s'"
proof -
  note put = bmap_put_inv [OF inv bmap_index [OF a] rw]
  have len: "length (NEXTbmap s) = 16" using inv by (simp add: bmap_inv_def)
  show "\<exists>s'. bmap_lput Reset_Warm addr l s = Some s' \<and> bmap_inv s'"
    using put [where val = l] inv by (auto simp: bmap_lput_def)
  show "\<exists>s'. bmap_wput Reset_Warm addr l s = Some s' \<and> bmap_inv s'"
    using put inv len bmap_index [OF a] by (auto simp: bmap_wput_def Let_def)
  show "\<exists>s'. bmap_bput Reset_Warm addr l s = Some s' \<and> bmap_inv s'"
    using put len bmap_index [OF a] by (auto simp: bmap_bput_def Let_def)
qed

text \<open>
  C33. Whatever is written to the BMAP registers after a reset, by long word, word or byte, the
  flags that the ROM mapping, the DSP interrupt logic and the ethernet transceiver read agree
  with the register bits, and every further write to a register succeeds. A warm reset, which
  a write may request, is assumed to succeed and to leave a consistent chip.
\<close>

theorem bmap_flags_follow_registers:
  assumes "bmap_reachable Reset_Warm s"
    and "\<And>s. bmap_inv s \<Longrightarrow> \<exists>s'. Reset_Warm s = Some s' \<and> bmap_inv s'"
  shows "bmap_inv s \<and> (\<forall>addr l. addr < 64 \<longrightarrow> bmap_lput Reset_Warm addr l s \<noteq> None
    \<and> bmap_wput Reset_Warm addr l s \<noteq> None \<and> bmap_bput Reset_Warm addr l s \<noteq> None)"
proof -
  have "bmap_inv s"
    using assms(1)
  proof induction
    case (reset s)
    show ?case by (rule bmap_inv_Reset)
  next
    case (lput s addr l s')
    then show ?case using bmap_writes_inv(1) [where Reset_Warm = Reset_Warm, OF lput.IH lput.hyps(2) assms(2), where l = l] by auto
  next
    case (wput s addr l s')
    then show ?case using bmap_writes_inv(2) [where Reset_Warm = Reset_Warm, OF wput.IH wput.hyps(2) assms(2), where l = l] by auto
  next
    case (bput s addr l s')
    then show ?case using bmap_writes_inv(3) [where Reset_Warm = Reset_Warm, OF bput.IH bput.hyps(2) assms(2), where l = l] by auto
  qed
  moreover from this have "bmap_lput Reset_Warm addr l s \<noteq> None \<and> bmap_wput Reset_Warm addr l s \<noteq> None
      \<and> bmap_bput Reset_Warm addr l s \<noteq> None" if "addr < 64" for addr l
    using bmap_writes_inv [where Reset_Warm = Reset_Warm, OF _ that assms(2), where s = s and l = l] by auto
  ultimately show ?thesis by blast
qed

text \<open>A reset chip for the examples.\<close>

definition sample_bmap :: bmap where
  "sample_bmap = BMAP_Reset (scsi.extend sample_scsi (bmap.fields [] 0 0))"

theorem bmap_flags_follow_registers_witness:
  "bmap_inv sample_bmap \<and> bmap_lput (Some \<circ> BMAP_Reset) 4 0 sample_bmap \<noteq> None"
proof -
  have "bmap_reachable (Some \<circ> BMAP_Reset) sample_bmap"
    unfolding sample_bmap_def by (rule bmap_reachable.reset)
  then show ?thesis
    using bmap_flags_follow_registers [of "Some \<circ> BMAP_Reset" sample_bmap] by (simp add: bmap_inv_Reset)
qed

section \<open>Byte lanes\<close>

lemma byte_shift_cases: "byte_shift addr \<in> {0, 8, 16, 24}"
proof -
  have "unat (addr AND 3) < 4"
    using word_and_le1 [of addr 3] unfolding word_le_nat_alt by simp
  then have "unat (addr AND 3) \<in> {0, 1, 2, 3}" by auto
  then show ?thesis by (auto simp: byte_shift_def)
qed

lemma byte_lane:
  assumes "k \<in> {0, 8, 16, 24}" "j \<in> {0, 8, 16, 24}" "b < (0x100 :: u32)"
  shows "drop_bit k ((v AND NOT (push_bit j 0xFF)) OR push_bit j b) AND 0xFF
    = (if k = j then b else drop_bit k v AND 0xFF)"
proof -
  have FF: "bit (0xFF :: int) n \<longleftrightarrow> n < 8" for n
    using bit_mask_iff [of 8 n, where ?'a = int] by (auto simp: mask_eq_exp_minus_1)
  have "take_bit 8 b = b" using assms(3)
    by (simp add: word_unat_eq_iff unsigned_take_bit_eq take_bit_nat_eq_self word_less_nat_alt)
  then have b: "n < 8" if "bit b n" for n using that by (metis bit_take_bit_iff)
  show ?thesis
    by (rule bit_word_eqI)
      (use assms(1,2) in \<open>auto simp: bit_simps FF dest: b\<close>)
qed


lemma bmap_put_plain:
  assumes "length (NEXTbmap s) = 16" "unat bmap_reg < 16" "bmap_reg \<noteq> BMAP_DDIR"
  shows "\<exists>s'. bmap_put Reset_Warm bmap_reg val s = Some s' \<and> NEXTbmap s' = (NEXTbmap s)[unat bmap_reg := val]
    \<and> ConfigureParams s' = ConfigureParams s"
  using assms
  by (auto simp: bmap_put_def bmap_side_effect_def scr_check_dsp_interrupt_def Let_def)

lemma same_byte_iff:
  "byte_shift a = byte_shift addr \<and> drop_bit 2 a = drop_bit 2 addr \<longleftrightarrow> a = addr"
proof
  assume *: "byte_shift a = byte_shift addr \<and> drop_bit 2 a = drop_bit 2 addr"
  have le: "unat (x AND 3) \<le> 3" for x :: u32
    using word_and_le1 [of x 3] unfolding word_le_nat_alt by simp
  from * have "3 - unat (a AND 3) = 3 - unat (addr AND 3)" by (simp add: byte_shift_def)
  with le [of a] le [of addr] have "a AND 3 = addr AND 3" by (simp add: word_unat_eq_iff)
  moreover have "x = push_bit 2 (drop_bit 2 x) OR (x AND 3)" for x :: u32
  proof -
    have three: "bit (3 :: int) n \<longleftrightarrow> n < 2" for n
      using bit_mask_iff [of 2 n, where ?'a = int] by (auto simp: mask_eq_exp_minus_1)
    have two: "Suc (Suc (n - 2)) = n" if "\<not> n < 2" for n using that by arith
    show ?thesis by (rule bit_word_eqI) (auto simp: bit_simps three two)
  qed
  ultimately show "a = addr" using * by metis
qed simp

text \<open>
  C35. A byte written to a BMAP register is read back, and every other byte of the chip is
  read as before. The data register is left out, whose transceiver bits always read as the
  configured network, and so is the data direction register, which may reset the machine.
\<close>

theorem bmap_byte_roundtrip:
  assumes "length (NEXTbmap s) = 16" "addr < 64" "a < 64" "b < 0x100"
    and "drop_bit 2 addr \<noteq> BMAP_DDIR" "drop_bit 2 addr \<noteq> BMAP_DRW"
  shows "\<exists>s'. bmap_bput Reset_Warm addr b s = Some s'
    \<and> bmap_bget a s' = (if a = addr then Some b else bmap_bget a s)"
proof -
  let ?r = "drop_bit 2 addr" let ?v = "NEXTbmap s ! unat ?r"
  let ?w = "(?v AND NOT (push_bit (byte_shift addr) 0xFF)) OR push_bit (byte_shift addr) b"
  obtain s' where s': "bmap_put Reset_Warm ?r ?w s = Some s'" "NEXTbmap s' = (NEXTbmap s)[unat ?r := ?w]"
    "ConfigureParams s' = ConfigureParams s"
    using bmap_put_plain [OF assms(1) bmap_index [OF assms(2)] assms(5)] by blast
  have get: "bmap_bget a s' = (if a = addr then Some b else bmap_bget a s)"
  proof (cases "drop_bit 2 a = ?r")
    case True
    then have "a = addr \<longleftrightarrow> byte_shift a = byte_shift addr" using same_byte_iff [of a addr] by auto
    then show ?thesis
      using True assms(1,6) bmap_index [OF assms(3)] s'
        byte_lane [where v = ?v, OF byte_shift_cases [of a] byte_shift_cases [of addr] assms(4)]
      by (auto simp: bmap_bget_def bmap_get_def Let_def)
  next
    case False
    then have "a \<noteq> addr" "unat (drop_bit 2 a) \<noteq> unat ?r"
      by (blast, simp add: word_unat_eq_iff)
    then show ?thesis using s' assms(1) bmap_index [OF assms(3)]
      by (auto simp: bmap_bget_def bmap_get_def Let_def nth_list_update)
  qed
  have "bmap_bput Reset_Warm addr b s = bmap_put Reset_Warm ?r ?w s"
    using assms(1) bmap_index [OF assms(2)] by (simp add: bmap_bput_def Let_def)
  with s' get show ?thesis by auto
qed

theorem bmap_byte_roundtrip_witness:
  "\<exists>s'. bmap_bput (Some \<circ> BMAP_Reset) 5 0x40 sample_bmap = Some s' \<and> bmap_bget 5 s' = Some 0x40"
proof -
  have "length (NEXTbmap sample_bmap) = 16" by (simp add: sample_bmap_def BMAP_Reset_def)
  then show ?thesis using bmap_byte_roundtrip [where s = sample_bmap and addr = 5 and a = 5 and b = "0x40"
      and Reset_Warm = "Some \<circ> BMAP_Reset"] by simp
qed

end
