(* ===== verification/Rom.thy ===== *)
theory Rom
  imports Scsi Maccess
begin

text \<open>
  Loading the boot ROM (\<open>rom.c\<close>): the image file is read into the buffer, and with a custom
  MAC address the address bytes and the CRC-32 over the first 22 bytes are replaced. The
  checksum loop is a \<open>for\<close> loop whose condition does the work; it is compared with the usual
  definition of the checksum.
\<close>

section \<open>The code\<close>

text \<open>
  The loop \<open>for (k=r=~0; (++k)&7 || ((n--) && (r^=buf[i++])); r=(r&1)*0xEDB88320^(r>>1));\<close> from
  one evaluation of its condition on. \<open>n\<close> counts the bytes that are left and \<open>i\<close> the bytes used.
\<close>

definition crc_shift :: "u32 \<Rightarrow> u32" where
  "crc_shift r = ((r AND 1) * 0xEDB88320) XOR drop_bit 1 r"

function crc_loop :: "(nat \<Rightarrow> u8) \<Rightarrow> u32 \<Rightarrow> u32 \<Rightarrow> nat \<Rightarrow> nat \<Rightarrow> u32" where
  "crc_loop buf k r n i = (
     let k = k + 1 in
     if tst k 7 then crc_loop buf k (crc_shift r) n i
     else if n = 0 then r
     else
       let r = r XOR ucast (buf i) in
       if r = 0 then r else crc_loop buf k (crc_shift r) (n - 1) (i + 1))"
  by pat_completeness auto

lemma unat_and_7: "unat (k AND 7 :: u32) = unat k mod 8"
proof -
  have "k AND 7 = take_bit 3 k" by (simp add: take_bit_eq_mask mask_eq_exp_minus_1)
  then have "unat (k AND 7) = take_bit 3 (unat k)" by (simp only: unsigned_take_bit_eq)
  then show ?thesis by (simp add: take_bit_eq_mod)
qed

lemma unat_Suc_mod_8: "unat (k + 1 :: u32) mod 8 = Suc (unat k) mod 8"
proof -
  have "unat (k + 1) = Suc (unat k) mod 2 ^ 32" by (simp add: unat_word_ariths)
  also have "\<dots> mod 8 = Suc (unat k) mod 8" by (simp add: mod_mod_cancel)
  finally show ?thesis .
qed

lemma tst_7_iff: "tst (k :: u32) 7 \<longleftrightarrow> unat k mod 8 \<noteq> 0"
  unfolding tst_def unat_and_7 [symmetric] by (simp add: word_unat_eq_iff)

termination crc_loop
proof (relation "measure (\<lambda>(buf, k, r, n, i). 8 * n + (7 - unat k mod 8))", goal_cases)
  case 1
  then show ?case by simp
next
  case (2 buf k r n i x)
  then have "Suc (unat k) mod 8 \<noteq> 0" by (simp add: tst_7_iff unat_Suc_mod_8)
  then have "unat x mod 8 = Suc (unat k mod 8)" "Suc (unat k mod 8) < 8"
    using 2 by (auto simp: unat_Suc_mod_8 mod_Suc split: if_splits)
  then show ?case by simp
next
  case (3 buf k r n i x xa)
  then show ?case by auto
qed

declare crc_loop.simps [simp del]

definition put_rom :: "nat \<Rightarrow> u8 list \<Rightarrow> mem_array \<Rightarrow> mem_array" where
  "put_rom off bs m = m\<lparr>arr_byte := (\<lambda>i. if off \<le> i \<and> i < off + length bs then bs ! (i - off) else arr_byte m i)\<rparr>"

definition rom_config :: "CNF_ROM \<Rightarrow> mem_array \<Rightarrow> mem_array" where
  "rom_config c buf =
     (if bUseCustomMac c then
        let buf = put_rom 11 (map (\<lambda>i. word_of_int (nRomCustomMac c ! i)) [3..<6]) buf;
            crc = NOT (crc_loop (arr_byte buf) (NOT 0) (NOT 0) 22 0)
        in put_rom 22 [byte3 crc, byte2 crc, byte1 crc, byte0 crc] buf
      else buf)"

text \<open>The result is the return value, 0 on success, and the buffer.\<close>

definition rom_load :: "mem_array \<Rightarrow> nat \<Rightarrow> 'a scsi_scheme \<Rightarrow> int \<times> mem_array" where
  "rom_load buf len s = (
     let c = ConfigureParams s;
         name = (if nMachineType (System c) = NEXT_CUBE030 then szRom030FileName (Rom c)
                 else if bTurbo (System c) then szRomTurboFileName (Rom c) else szRom040FileName (Rom c))
     in case File_Open (host_files s) (host_writable s) name False of
          None \<Rightarrow> (1, buf)
        | Some fp \<Rightarrow>
            (case host_files s (fst fp) of
               None \<Rightarrow> (0, rom_config (Rom c) buf)
             | Some bs \<Rightarrow> (0, rom_config (Rom c) (put_rom 0 (take len bs) buf))))"

section \<open>The checksum\<close>

text \<open>CRC-32, one bit and one byte at a time.\<close>

definition crc32_bit :: "u32 \<Rightarrow> u32" where
  "crc32_bit r = (if bit r 0 then 0xEDB88320 XOR drop_bit 1 r else drop_bit 1 r)"

definition crc32_byte :: "u32 \<Rightarrow> u8 \<Rightarrow> u32" where
  "crc32_byte r b = (crc32_bit ^^ 8) (r XOR ucast b)"

definition crc32 :: "u8 list \<Rightarrow> u32" where
  "crc32 bs = NOT (foldl crc32_byte (NOT 0) bs)"

text \<open>The register equals the next byte at some point.\<close>

fun crc_stops :: "u32 \<Rightarrow> u8 list \<Rightarrow> bool" where
  "crc_stops r [] \<longleftrightarrow> False"
| "crc_stops r (b # bs) \<longleftrightarrow> r = ucast b \<or> crc_stops (crc32_byte r b) bs"

lemma crc_shift_bit: "crc_shift r = crc32_bit r"
proof (cases "odd r")
  case True
  then have "r AND 1 = 1" by (simp add: and_one_eq mod_2_eq_odd)
  with True show ?thesis by (simp add: crc_shift_def crc32_bit_def bit_0)
next
  case False
  then have "r AND 1 = 0" by (simp add: and_one_eq mod_2_eq_odd)
  with False show ?thesis by (simp add: crc_shift_def crc32_bit_def bit_0)
qed

text \<open>The seven shifts between two bytes.\<close>

lemma crc_loop_shifts:
  assumes "unat k mod 8 + m = 7"
  shows "\<exists>k'. unat k' mod 8 = 7 \<and> crc_loop buf k r n i = crc_loop buf k' ((crc32_bit ^^ m) r) n i"
  using assms
proof (induction m arbitrary: k r)
  case 0
  then show ?case by auto
next
  case (Suc m)
  then have k: "unat (k + 1) mod 8 = Suc (unat k mod 8)" by (simp add: unat_Suc_mod_8 mod_Suc)
  with Suc.prems have "unat (k + 1) mod 8 + m = 7" by simp
  from Suc.IH [OF this, of "crc_shift r"] obtain k' where
    "unat k' mod 8 = 7" "crc_loop buf (k + 1) (crc_shift r) n i = crc_loop buf k' ((crc32_bit ^^ m) (crc_shift r)) n i"
    by blast
  moreover have "crc_loop buf k r n i = crc_loop buf (k + 1) (crc_shift r) n i"
    using k by (subst crc_loop.simps) (simp add: tst_7_iff)
  ultimately show ?case by (auto simp: crc_shift_bit funpow_swap1)
qed

lemma crc_loop_bytes:
  assumes "unat k mod 8 = 7"
  shows "crc_loop buf k r n i =
    (if crc_stops r (map buf [i..<i + n]) then 0 else foldl crc32_byte r (map buf [i..<i + n]))"
  using assms
proof (induction n arbitrary: k r i)
  case 0
  then have "\<not> tst (k + 1) 7" by (simp add: tst_7_iff unat_Suc_mod_8 mod_Suc)
  then show ?case by (subst crc_loop.simps) simp
next
  case (Suc n)
  then have k: "unat (k + 1) mod 8 = 0" by (simp add: unat_Suc_mod_8 mod_Suc)
  then have nt: "\<not> tst (k + 1) 7" by (simp add: tst_7_iff)
  let ?r = "r XOR ucast (buf i)"
  have "r = ?r XOR ucast (buf i)" by (simp add: xor.assoc)
  then have zero: "?r = 0 \<longleftrightarrow> r = ucast (buf i)" by auto
  have step: "crc_loop buf k r (Suc n) i = (if ?r = 0 then 0 else crc_loop buf (k + 1) (crc_shift ?r) n (i + 1))"
    using nt by (subst crc_loop.simps) (simp add: Let_def)
  obtain k' where k': "unat k' mod 8 = 7"
    "crc_loop buf (k + 1) (crc_shift ?r) n (i + 1) = crc_loop buf k' ((crc32_bit ^^ 7) (crc_shift ?r)) n (i + 1)"
    using crc_loop_shifts [of "k + 1" 7] k by (metis add_0)
  have "(crc32_bit ^^ 7) (crc_shift ?r) = crc32_byte r (buf i)"
    by (simp add: crc32_byte_def crc_shift_bit flip: funpow_Suc_right [THEN fun_cong, unfolded o_apply])
  with step zero k' Suc.IH [OF k'(1)] have "crc_loop buf k r (Suc n) i =
      (if r = ucast (buf i) \<or> crc_stops (crc32_byte r (buf i)) (map buf [i + 1..<i + 1 + n]) then 0
       else foldl crc32_byte (crc32_byte r (buf i)) (map buf [i + 1..<i + 1 + n]))"
    by simp
  moreover have "[i..<i + Suc n] = i # [i + 1..<i + 1 + n]" by (simp add: upt_conv_Cons)
  ultimately show ?case by simp
qed


lemma rom_crc:
  "NOT (crc_loop buf (NOT 0) (NOT 0) 22 0) =
     (if crc_stops (NOT 0) (map buf [0..<22]) then NOT 0 else crc32 (map buf [0..<22]))"
proof -
  have "(NOT 0 :: u32) = 0xFFFFFFFF" by simp
  then have "unat (NOT 0 :: u32) mod 8 = 7" by (simp only: unat_numeral) simp
  then show ?thesis by (simp add: crc_loop_bytes crc32_def del: upt_rec_numeral)
qed

text \<open>
  C34. With a custom MAC address the loaded ROM carries the CRC-32 of its first 22 bytes, the
  new address included, in bytes 22 to 25, and no other byte differs from the image file: the
  loop of \<open>rom_config\<close> computes the standard checksum. The exception is a ROM for which the
  checksum register once equals the next byte; then the loop ends early and the
  checksum is all ones.
\<close>

theorem rom_load_checksum:
  assumes "File_Open (host_files s) (host_writable s) name False = Some (name, False)"
    and "name = (let c = ConfigureParams s in
      if nMachineType (System c) = NEXT_CUBE030 then szRom030FileName (Rom c)
      else if bTurbo (System c) then szRomTurboFileName (Rom c) else szRom040FileName (Rom c))"
    and "host_files s name = Some bs" "length bs \<le> len" "bUseCustomMac (Rom (ConfigureParams s))"
    and "rom_load buf len s = (ret, m)"
  shows "ret = 0 \<and> (let head = map (arr_byte m) [0..<22] in
      be_long (arr_byte m) 22 = (if crc_stops (NOT 0) head then NOT 0 else crc32 head))
    \<and> arr_byte m 11 = word_of_int (nRomCustomMac (Rom (ConfigureParams s)) ! 3)
    \<and> arr_byte m 12 = word_of_int (nRomCustomMac (Rom (ConfigureParams s)) ! 4)
    \<and> arr_byte m 13 = word_of_int (nRomCustomMac (Rom (ConfigureParams s)) ! 5)
    \<and> (\<forall>i. i < length bs \<and> i \<notin> {11, 12, 13} \<union> {22..25} \<longrightarrow> arr_byte m i = bs ! i)"
proof -
  define c where "c = Rom (ConfigureParams s)"
  define b1 where "b1 = put_rom 11 (map (\<lambda>i. word_of_int (nRomCustomMac c ! i)) [3..<6]) (put_rom 0 bs buf)"
  define crc where "crc = NOT (crc_loop (arr_byte b1) (NOT 0) (NOT 0) 22 0)"
  have m: "ret = 0" "m = put_rom 22 [byte3 crc, byte2 crc, byte1 crc, byte0 crc] b1"
    using assms by (simp_all add: rom_load_def rom_config_def c_def b1_def crc_def Let_def del: upt_rec_numeral)
  have head: "map (arr_byte m) [0..<22] = map (arr_byte b1) [0..<22]"
    by (simp add: m put_rom_def del: upt_rec_numeral)
  have "be_long (arr_byte m) 22 = crc"
    using join_long [of crc] by (simp add: m put_rom_def be_long_def)
  then have "be_long (arr_byte m) 22 =
      (if crc_stops (NOT 0) (map (arr_byte m) [0..<22]) then NOT 0 else crc32 (map (arr_byte m) [0..<22]))"
    unfolding head using rom_crc [of "arr_byte b1"] by (simp only: crc_def)
  moreover have "arr_byte m 11 = word_of_int (nRomCustomMac c ! 3)"
    "arr_byte m 12 = word_of_int (nRomCustomMac c ! 4)" "arr_byte m 13 = word_of_int (nRomCustomMac c ! 5)"
    by (simp_all add: m b1_def put_rom_def)
  moreover have "arr_byte m i = bs ! i" if "i < length bs" "i \<notin> {11, 12, 13} \<union> {22..25}" for i
    using that by (auto simp: m b1_def put_rom_def)
  ultimately show ?thesis using m(1) by (simp add: c_def Let_def del: upt_rec_numeral)
qed

text \<open>A ROM file for which the loop ends early: \<open>FF FF FF FF 00\<close> brings the register to 0.\<close>

definition sample_rom :: scsi where
  "sample_rom = sample_scsi\<lparr>host_files := [''rom040'' \<mapsto> replicate 4 0xFF @ replicate 60 0]\<rparr>"

theorem rom_load_checksum_witness:
  "case rom_load NULL 0x20000 sample_rom of (ret, m) \<Rightarrow> ret = 0
     \<and> crc_stops (NOT 0) (map (arr_byte m) [0..<22]) \<and> be_long (arr_byte m) 22 = 0xFFFFFFFF \<and> arr_byte m 12 = 2"
proof -
  obtain ret m where rm: "rom_load NULL 0x20000 sample_rom = (ret, m)" by force
  note d = sample_rom_def sample_scsi_defs File_Open_def
  have *: "ret = 0 \<and> (let head = map (arr_byte m) [0..<22] in
      be_long (arr_byte m) 22 = (if crc_stops (NOT 0) head then NOT 0 else crc32 head))
    \<and> arr_byte m 11 = word_of_int (nRomCustomMac (Rom (ConfigureParams sample_rom)) ! 3)
    \<and> arr_byte m 12 = word_of_int (nRomCustomMac (Rom (ConfigureParams sample_rom)) ! 4)
    \<and> arr_byte m 13 = word_of_int (nRomCustomMac (Rom (ConfigureParams sample_rom)) ! 5)
    \<and> (\<forall>i. i < length (replicate 4 (0xFF :: u8) @ replicate 60 0) \<and> i \<notin> {11, 12, 13} \<union> {22..25} \<longrightarrow>
         arr_byte m i = (replicate 4 0xFF @ replicate 60 0) ! i)"
    by (rule rom_load_checksum [where name = "''rom040''" and len = "0x20000", OF _ _ _ _ _ rm])
      (simp_all add: d)
  then have b: "arr_byte m i = (replicate 4 0xFF @ replicate 60 0) ! i" if "i < 11" for i
    using that by simp
  have "[0..<22 :: nat] = [0, 1, 2, 3, 4] @ [5..<22]" by code_simp
  then have "map (arr_byte m) [0..<22] = [0xFF, 0xFF, 0xFF, 0xFF, 0] @ map (arr_byte m) [5..<22]"
    using b [of 0] b [of 1] b [of 2] b [of 3] b [of 4] by (simp add: nth_append del: upt_rec_numeral)
  moreover have "crc32_byte (crc32_byte (crc32_byte (crc32_byte (NOT 0) 0xFF) 0xFF) 0xFF) 0xFF = 0"
    by code_simp
  ultimately have "crc_stops (NOT 0) (map (arr_byte m) [0..<22])" by (simp del: upt_rec_numeral)
  with * show ?thesis unfolding rm by (simp add: d del: upt_rec_numeral)
qed

end
