(* ===== verification/MemBanks.thy ===== *)
theory MemBanks
  imports Bmap Rom
begin

text \<open>
  The memory map of the guest (\<open>cpu/memory.c\<close>): the table of banks that \<open>memory_init\<close> fills
  according to the configured machine, ROM, main memory, video memory and the mirrors through
  which a write is combined with the old contents. The six function tables of the code
  (\<open>bank_lget\<close> and the others) are always filled together from one \<open>addrbank\<close>; here they are
  one table of bank names. \<open>get_long\<close>, \<open>put_byte\<close> and so on are \<open>mem_get\<close> and \<open>mem_put\<close> with
  the width as an argument. They return the value or the bus error that \<open>M68000_BusError\<close>
  throws, and the new state; \<open>None\<close> is an access outside the allocated memory, or \<open>abort()\<close>.

  The banks of other devices (I/O registers, TMC, NCC, NBIC, NextBus) are an argument, as is
  the warm reset. \<open>IoMem_Init\<close>, \<open>nextbus_init\<close> and \<open>nextbus_uninit\<close>, which prepare and release
  them, are left out of \<open>memory_init\<close> and \<open>memory_uninit\<close>.
\<close>

section \<open>Banks\<close>

datatype addrbank =
  BusErrMem_bank | ROM_bank | RAM_bank0 | RAM_bank1 | RAM_bank2 | RAM_bank3 | RAM_empty_bank
| RAM_mwf_bank | VRAM_bank | VRAM_mwf_bank | VRAM_color_bank | IO_bank | BMAP_bank | TMC_bank
| NCC_bank | NCC_cache_bank | NCC_tag_bank | NBIC_bank | NEXTBUS_slot_bank | NEXTBUS_board_bank

record bus_error =
  be_addr :: u32
  be_read :: bool
  be_size :: bus_size
  be_val :: u32

type_synonym ('v, 's) bus_access = "((bus_error + 'v) \<times> 's) option"

record 's devices =
  dev_get :: "addrbank \<Rightarrow> bus_size \<Rightarrow> u32 \<Rightarrow> 's \<Rightarrow> (u32, 's) bus_access"
  dev_put :: "addrbank \<Rightarrow> bus_size \<Rightarrow> u32 \<Rightarrow> u32 \<Rightarrow> 's \<Rightarrow> (unit, 's) bus_access"
  dev_Reset_Warm :: "'s \<Rightarrow> 's option"

record memory = bmap +
  NEXTVideo :: mem_array
  NEXTRam :: mem_array
  NEXTIo :: mem_array
  next_ram_bank_size :: u32
  next_ram_bank_mask :: u32
  next_ram_bank0_mask :: u32
  next_ram_bank1_mask :: u32
  next_ram_bank2_mask :: u32
  next_ram_bank3_mask :: u32
  mem_bank :: "u16 \<Rightarrow> addrbank"

abbreviation (input) NEXT_EPROM_START :: u32 where "NEXT_EPROM_START \<equiv> 0x00000000"
abbreviation (input) NEXT_EPROM_BMAP_START :: u32 where "NEXT_EPROM_BMAP_START \<equiv> 0x01000000"
abbreviation (input) NEXT_EPROM_SIZE :: u32 where "NEXT_EPROM_SIZE \<equiv> 0x01000000"
abbreviation (input) NEXT_EPROM_ALLOC :: nat where "NEXT_EPROM_ALLOC \<equiv> 0x00020000"
abbreviation (input) NEXT_EPROM_MASK :: u32 where "NEXT_EPROM_MASK \<equiv> 0x0001FFFF"
abbreviation (input) NEXT_RAM_START :: u32 where "NEXT_RAM_START \<equiv> 0x04000000"
abbreviation (input) NEXT_RAM_SIZE :: u32 where "NEXT_RAM_SIZE \<equiv> 0x04000000"
abbreviation (input) NEXT_RAM_MASK :: u32 where "NEXT_RAM_MASK \<equiv> 0x03FFFFFF"
abbreviation (input) NEXT_RAM_BANK_SIZE :: u32 where "NEXT_RAM_BANK_SIZE \<equiv> 0x01000000"
abbreviation (input) NEXT_RAM_BANK_SIZE_C :: u32 where "NEXT_RAM_BANK_SIZE_C \<equiv> 0x00800000"
abbreviation (input) NEXT_RAM_BANK_SIZE_T :: u32 where "NEXT_RAM_BANK_SIZE_T \<equiv> 0x02000000"
abbreviation (input) NEXT_RAM_BANK_SEL :: u32 where "NEXT_RAM_BANK_SEL \<equiv> 0x03000000"
abbreviation (input) NEXT_RAM_BANK_SEL_C :: u32 where "NEXT_RAM_BANK_SEL_C \<equiv> 0x01800000"
abbreviation (input) NEXT_RAM_BANK_SEL_T :: u32 where "NEXT_RAM_BANK_SEL_T \<equiv> 0x06000000"
abbreviation (input) NEXT_RAM_ALLOC :: nat where "NEXT_RAM_ALLOC \<equiv> 0x04000000"
abbreviation (input) NEXT_RAM_ALLOC_C :: nat where "NEXT_RAM_ALLOC_C \<equiv> 0x02000000"
abbreviation (input) NEXT_RAM_ALLOC_T :: nat where "NEXT_RAM_ALLOC_T \<equiv> 0x08000000"
abbreviation (input) NEXT_RAM_MWF0_START :: u32 where "NEXT_RAM_MWF0_START \<equiv> 0x10000000"
abbreviation (input) NEXT_RAM_MWF1_START :: u32 where "NEXT_RAM_MWF1_START \<equiv> 0x14000000"
abbreviation (input) NEXT_RAM_MWF2_START :: u32 where "NEXT_RAM_MWF2_START \<equiv> 0x18000000"
abbreviation (input) NEXT_RAM_MWF3_START :: u32 where "NEXT_RAM_MWF3_START \<equiv> 0x1C000000"
abbreviation (input) NEXT_VRAM_START :: u32 where "NEXT_VRAM_START \<equiv> 0x0B000000"
abbreviation (input) NEXT_VRAM_SIZE :: u32 where "NEXT_VRAM_SIZE \<equiv> 0x01000000"
abbreviation (input) NEXT_VRAM_ALLOC :: nat where "NEXT_VRAM_ALLOC \<equiv> 0x00040000"
abbreviation (input) NEXT_VRAM_MASK :: u32 where "NEXT_VRAM_MASK \<equiv> 0x0003FFFF"
abbreviation (input) NEXT_VRAM_MWF0_START :: u32 where "NEXT_VRAM_MWF0_START \<equiv> 0x0C000000"
abbreviation (input) NEXT_VRAM_MWF1_START :: u32 where "NEXT_VRAM_MWF1_START \<equiv> 0x0D000000"
abbreviation (input) NEXT_VRAM_MWF2_START :: u32 where "NEXT_VRAM_MWF2_START \<equiv> 0x0E000000"
abbreviation (input) NEXT_VRAM_MWF3_START :: u32 where "NEXT_VRAM_MWF3_START \<equiv> 0x0F000000"
abbreviation (input) NEXT_VRAM_COLOR_START :: u32 where "NEXT_VRAM_COLOR_START \<equiv> 0x2C000000"
abbreviation (input) NEXT_VRAM_COLOR_SIZE :: u32 where "NEXT_VRAM_COLOR_SIZE \<equiv> 0x01000000"
abbreviation (input) NEXT_VRAM_COLOR_ALLOC :: nat where "NEXT_VRAM_COLOR_ALLOC \<equiv> 0x00200000"
abbreviation (input) NEXT_VRAM_COLOR_MASK :: u32 where "NEXT_VRAM_COLOR_MASK \<equiv> 0x001FFFFF"
abbreviation (input) NEXT_VRAM_TURBO_START :: u32 where "NEXT_VRAM_TURBO_START \<equiv> 0x0C000000"
abbreviation (input) NEXT_IO_START :: u32 where "NEXT_IO_START \<equiv> 0x02000000"
abbreviation (input) NEXT_IO_BMAP_START :: u32 where "NEXT_IO_BMAP_START \<equiv> 0x02100000"
abbreviation (input) NEXT_IO_SIZE :: u32 where "NEXT_IO_SIZE \<equiv> 0x00020000"
abbreviation (input) NEXT_IO_ALLOC :: nat where "NEXT_IO_ALLOC \<equiv> 0x00020000"
abbreviation (input) NEXT_BMAP_START :: u32 where "NEXT_BMAP_START \<equiv> 0x020C0000"
abbreviation (input) NEXT_BMAP_START2 :: u32 where "NEXT_BMAP_START2 \<equiv> 0x820C0000"
abbreviation (input) NEXT_BMAP_SIZE :: u32 where "NEXT_BMAP_SIZE \<equiv> 0x00010000"
abbreviation (input) NEXT_BMAP_MASK :: u32 where "NEXT_BMAP_MASK \<equiv> 0x0000003F"
abbreviation (input) NEXT_TMC_START :: u32 where "NEXT_TMC_START \<equiv> 0x02200000"
abbreviation (input) NEXT_TMC_SIZE :: u32 where "NEXT_TMC_SIZE \<equiv> 0x00010000"
abbreviation (input) NEXT_NCC_START :: u32 where "NEXT_NCC_START \<equiv> 0x02210000"
abbreviation (input) NEXT_NCC_SIZE :: u32 where "NEXT_NCC_SIZE \<equiv> 0x00010000"
abbreviation (input) NEXT_NBIC_START :: u32 where "NEXT_NBIC_START \<equiv> 0x02020000"
abbreviation (input) NEXT_NBIC_SIZE :: u32 where "NEXT_NBIC_SIZE \<equiv> 0x00010000"
abbreviation (input) NEXT_CACHE_TAG_START :: u32 where "NEXT_CACHE_TAG_START \<equiv> 0x03E00000"
abbreviation (input) NEXT_CACHE_TAG_SIZE :: u32 where "NEXT_CACHE_TAG_SIZE \<equiv> 0x00100000"
abbreviation (input) NEXT_CACHE_START :: u32 where "NEXT_CACHE_START \<equiv> 0x03F00000"
abbreviation (input) NEXT_CACHE_SIZE :: u32 where "NEXT_CACHE_SIZE \<equiv> 0x00100000"
abbreviation (input) NEXTBUS_SLOT_START :: "u32 \<Rightarrow> u32" where "NEXTBUS_SLOT_START x \<equiv> 0xF0000000 OR push_bit 24 x"
abbreviation (input) NEXTBUS_SLOT_SIZE :: u32 where "NEXTBUS_SLOT_SIZE \<equiv> 0x01000000"
abbreviation (input) NEXTBUS_BOARD_START :: "u32 \<Rightarrow> u32" where "NEXTBUS_BOARD_START x \<equiv> push_bit 28 x"
abbreviation (input) NEXTBUS_BOARD_SIZE :: u32 where "NEXTBUS_BOARD_SIZE \<equiv> 0x10000000"

section \<open>Bank functions\<close>

definition bus_err :: "bool \<Rightarrow> bus_size \<Rightarrow> u32 \<Rightarrow> u32 \<Rightarrow> 's \<Rightarrow> ('v, 's) bus_access" where
  "bus_err rd sz addr val s = Some (Inl \<lparr>be_addr = addr, be_read = rd, be_size = sz, be_val = val\<rparr>, s)"

text \<open>A load that only depends on a memory block, and a store into one.\<close>

abbreviation load :: "bus_size \<Rightarrow> mem_array \<Rightarrow> u32 \<Rightarrow> 's \<Rightarrow> (u32, 's) bus_access" where
  "load sz m a s \<equiv> map_option (\<lambda>v. (Inr v, s)) (do_get_mem sz m a)"

abbreviation store_ram :: "bus_size \<Rightarrow> u32 \<Rightarrow> u32 \<Rightarrow> 'a memory_scheme \<Rightarrow> (unit, 'a memory_scheme) bus_access" where
  "store_ram sz a v s \<equiv> map_option (\<lambda>m. (Inr (), s\<lparr>NEXTRam := m\<rparr>)) (do_put_mem sz (NEXTRam s) a v)"

abbreviation store_video :: "bus_size \<Rightarrow> u32 \<Rightarrow> u32 \<Rightarrow> 'a memory_scheme \<Rightarrow> (unit, 'a memory_scheme) bus_access" where
  "store_video sz a v s \<equiv> map_option (\<lambda>m. (Inr (), s\<lparr>NEXTVideo := m\<rparr>)) (do_put_mem sz (NEXTVideo s) a v)"

definition BusErrMem_get :: "bus_size \<Rightarrow> u32 \<Rightarrow> 'a memory_scheme \<Rightarrow> (u32, 'a memory_scheme) bus_access" where
  "BusErrMem_get sz addr s = bus_err True sz addr 0 s"

definition BusErrMem_put :: "bus_size \<Rightarrow> u32 \<Rightarrow> u32 \<Rightarrow> 'a memory_scheme \<Rightarrow> (unit, 'a memory_scheme) bus_access" where
  "BusErrMem_put sz addr v s = bus_err False sz addr v s"

definition mem_rom_get :: "bus_size \<Rightarrow> u32 \<Rightarrow> 'a memory_scheme \<Rightarrow> (u32, 'a memory_scheme) bus_access" where
  "mem_rom_get sz addr s = load sz (NEXTRom s) (addr AND NEXT_EPROM_MASK) s"

definition mem_rom_put :: "bus_size \<Rightarrow> u32 \<Rightarrow> u32 \<Rightarrow> 'a memory_scheme \<Rightarrow> (unit, 'a memory_scheme) bus_access" where
  "mem_rom_put sz addr v s = (case sz of
     SZ_LONG \<Rightarrow> bus_err False SZ_LONG addr v s
   | SZ_WORD \<Rightarrow> bus_err False SZ_WORD addr v s
   | SZ_BYTE \<Rightarrow> bus_err True SZ_BYTE addr v s)"

definition mem_ram_bank_get :: "u32 \<Rightarrow> bus_size \<Rightarrow> u32 \<Rightarrow> 'a memory_scheme \<Rightarrow> (u32, 'a memory_scheme) bus_access" where
  "mem_ram_bank_get bank_mask sz addr s = load sz (NEXTRam s) (addr AND bank_mask) s"

definition mem_ram_bank_put ::
  "u32 \<Rightarrow> bus_size \<Rightarrow> u32 \<Rightarrow> u32 \<Rightarrow> 'a memory_scheme \<Rightarrow> (unit, 'a memory_scheme) bus_access" where
  "mem_ram_bank_put bank_mask sz addr v s = store_ram sz (addr AND bank_mask) v s"

definition mem_ram_empty_get :: "bus_size \<Rightarrow> u32 \<Rightarrow> 'a memory_scheme \<Rightarrow> (u32, 'a memory_scheme) bus_access" where
  "mem_ram_empty_get sz addr s = Some (Inr addr, s)"

definition mem_ram_empty_put :: "bus_size \<Rightarrow> u32 \<Rightarrow> u32 \<Rightarrow> 'a memory_scheme \<Rightarrow> (unit, 'a memory_scheme) bus_access" where
  "mem_ram_empty_put sz addr v s = Some (Inr (), s)"

definition mem_video_get :: "bus_size \<Rightarrow> u32 \<Rightarrow> 'a memory_scheme \<Rightarrow> (u32, 'a memory_scheme) bus_access" where
  "mem_video_get sz addr s = load sz (NEXTVideo s) (addr AND NEXT_VRAM_MASK) s"

definition mem_video_put :: "bus_size \<Rightarrow> u32 \<Rightarrow> u32 \<Rightarrow> 'a memory_scheme \<Rightarrow> (unit, 'a memory_scheme) bus_access" where
  "mem_video_put sz addr v s = store_video sz (addr AND NEXT_VRAM_MASK) v s"

definition mem_color_video_get :: "bus_size \<Rightarrow> u32 \<Rightarrow> 'a memory_scheme \<Rightarrow> (u32, 'a memory_scheme) bus_access" where
  "mem_color_video_get sz addr s = load sz (NEXTVideo s) (addr AND NEXT_VRAM_COLOR_MASK) s"

definition mem_color_video_put :: "bus_size \<Rightarrow> u32 \<Rightarrow> u32 \<Rightarrow> 'a memory_scheme \<Rightarrow> (unit, 'a memory_scheme) bus_access" where
  "mem_color_video_put sz addr v s = store_video sz (addr AND NEXT_VRAM_COLOR_MASK) v s"

text \<open>Memory write functions: every two-bit pixel is looked up in a table.\<close>

definition mwf0 :: "nat list list" where
  "mwf0 = [[0, 0, 0, 0], [0, 0, 1, 1], [0, 1, 1, 2], [0, 1, 2, 3]]"

definition mwf1 :: "nat list list" where
  "mwf1 = [[0, 1, 2, 3], [1, 2, 3, 3], [2, 3, 3, 3], [3, 3, 3, 3]]"

definition mwf2 :: "nat list list" where
  "mwf2 = [[0, 0, 0, 0], [1, 1, 0, 0], [2, 1, 1, 0], [3, 2, 1, 0]]"

definition mwf3 :: "nat list list" where
  "mwf3 = [[0, 1, 2, 3], [1, 2, 2, 3], [2, 2, 3, 3], [3, 3, 3, 3]]"

fun mwf_table :: "nat \<Rightarrow> nat list list option" where
  "mwf_table function =
     (if function = 0 then Some mwf0 else if function = 1 then Some mwf1
      else if function = 2 then Some mwf2 else if function = 3 then Some mwf3 else None)"

definition memory_write_func :: "u32 \<Rightarrow> u32 \<Rightarrow> nat \<Rightarrow> nat \<Rightarrow> u32 option" where
  "memory_write_func old new function len = do {
     table \<leftarrow> mwf_table function;
     Some (foldl (\<lambda>v i.
       let a = unat (drop_bit (i * 2) old AND 3); b = unat (drop_bit (i * 2) new AND 3)
       in v OR push_bit (i * 2) (of_nat (table ! a ! b))) 0 [0..<len * 4])
   }"

definition mwf_ones :: "bus_size \<Rightarrow> u32" where
  "mwf_ones sz = (case sz of SZ_LONG \<Rightarrow> 0xFFFFFFFF | SZ_WORD \<Rightarrow> 0xFFFF | SZ_BYTE \<Rightarrow> 0xFF)"

definition mem_ram_mwf_get :: "bus_size \<Rightarrow> u32 \<Rightarrow> 'a memory_scheme \<Rightarrow> (u32, 'a memory_scheme) bus_access" where
  "mem_ram_mwf_get sz addr s = (
     let function = unat (drop_bit 26 addr AND 0x3)
     in Some (Inr (if function = 0 then mwf_ones sz else 0), s))"

definition mem_video_mwf_get :: "bus_size \<Rightarrow> u32 \<Rightarrow> 'a memory_scheme \<Rightarrow> (u32, 'a memory_scheme) bus_access" where
  "mem_video_mwf_get sz addr s = (
     let function = unat (drop_bit 24 addr AND 0x3)
     in Some (Inr (if function = 0 then mwf_ones sz else 0), s))"

definition bmap_bus_error :: "u32 \<Rightarrow> bool" where
  "bmap_bus_error addr \<longleftrightarrow> addr AND (NEXT_BMAP_SIZE - 1) > NEXT_BMAP_MASK"

definition mem_bmap_get :: "bus_size \<Rightarrow> u32 \<Rightarrow> 'a memory_scheme \<Rightarrow> (u32, 'a memory_scheme) bus_access" where
  "mem_bmap_get sz addr s =
     (if bmap_bus_error addr then bus_err True sz addr 0 s
      else map_option (\<lambda>v. (Inr v, s)) ((case sz of
             SZ_LONG \<Rightarrow> bmap_lget | SZ_WORD \<Rightarrow> bmap_wget | SZ_BYTE \<Rightarrow> bmap_bget) (addr AND NEXT_BMAP_MASK) s))"

definition mem_bmap_put ::
  "('a memory_scheme \<Rightarrow> 'a memory_scheme option) \<Rightarrow> bus_size \<Rightarrow> u32 \<Rightarrow> u32 \<Rightarrow> 'a memory_scheme
    \<Rightarrow> (unit, 'a memory_scheme) bus_access" where
  "mem_bmap_put Reset_Warm sz addr v s =
     (if bmap_bus_error addr then bus_err False sz addr v s
      else map_option (\<lambda>s. (Inr (), s)) ((case sz of
             SZ_LONG \<Rightarrow> bmap_lput Reset_Warm | SZ_WORD \<Rightarrow> bmap_wput Reset_Warm
           | SZ_BYTE \<Rightarrow> bmap_bput Reset_Warm) (addr AND NEXT_BMAP_MASK) v s))"

section \<open>Dispatch\<close>

definition bankindex :: "u32 \<Rightarrow> u16" where
  "bankindex addr = ucast (drop_bit 16 addr)"

text \<open>The cache controller has word and byte functions that read 0 and ignore writes.\<close>

definition dummy_get :: "'s \<Rightarrow> (u32, 's) bus_access" where
  "dummy_get s = Some (Inr 0, s)"

definition dummy_put :: "'s \<Rightarrow> (unit, 's) bus_access" where
  "dummy_put s = Some (Inr (), s)"

definition mem_get ::
  "'a memory_scheme devices \<Rightarrow> bus_size \<Rightarrow> u32 \<Rightarrow> 'a memory_scheme \<Rightarrow> (u32, 'a memory_scheme) bus_access" where
  "mem_get dev sz addr s = (
     let bank = mem_bank s (bankindex addr) in
     case bank of
       BusErrMem_bank \<Rightarrow> BusErrMem_get sz addr s
     | ROM_bank \<Rightarrow> mem_rom_get sz addr s
     | RAM_bank0 \<Rightarrow> mem_ram_bank_get (next_ram_bank0_mask s) sz addr s
     | RAM_bank1 \<Rightarrow> mem_ram_bank_get (next_ram_bank1_mask s) sz addr s
     | RAM_bank2 \<Rightarrow> mem_ram_bank_get (next_ram_bank2_mask s) sz addr s
     | RAM_bank3 \<Rightarrow> mem_ram_bank_get (next_ram_bank3_mask s) sz addr s
     | RAM_empty_bank \<Rightarrow> mem_ram_empty_get sz addr s
     | RAM_mwf_bank \<Rightarrow> mem_ram_mwf_get sz addr s
     | VRAM_bank \<Rightarrow> mem_video_get sz addr s
     | VRAM_mwf_bank \<Rightarrow> mem_video_mwf_get sz addr s
     | VRAM_color_bank \<Rightarrow> mem_color_video_get sz addr s
     | BMAP_bank \<Rightarrow> mem_bmap_get sz addr s
     | NCC_bank \<Rightarrow> (if sz = SZ_LONG then dev_get dev bank sz addr s else dummy_get s)
     | NCC_tag_bank \<Rightarrow> (if sz = SZ_LONG then dev_get dev bank sz addr s else dummy_get s)
     | _ \<Rightarrow> dev_get dev bank sz addr s)"

text \<open>A write through a mirror reads the old value, combines and writes again.\<close>

definition mwf_put ::
  "'a memory_scheme devices \<Rightarrow> (bus_size \<Rightarrow> u32 \<Rightarrow> u32 \<Rightarrow> 'a memory_scheme \<Rightarrow> (unit, 'a memory_scheme) bus_access)
    \<Rightarrow> nat \<Rightarrow> bus_size \<Rightarrow> u32 \<Rightarrow> u32 \<Rightarrow> 'a memory_scheme \<Rightarrow> (unit, 'a memory_scheme) bus_access" where
  "mwf_put dev put function sz addr v s = do {
     (r, s1) \<leftarrow> mem_get dev sz addr s;
     case r of
       Inl e \<Rightarrow> Some (Inl e, s1)
     | Inr old \<Rightarrow> do {
         val \<leftarrow> memory_write_func old v function (bytes_of sz);
         put sz addr val s1
       }
   }"

definition mem_ram_mwf_put ::
  "'a memory_scheme devices \<Rightarrow> (bus_size \<Rightarrow> u32 \<Rightarrow> u32 \<Rightarrow> 'a memory_scheme \<Rightarrow> (unit, 'a memory_scheme) bus_access)
    \<Rightarrow> bus_size \<Rightarrow> u32 \<Rightarrow> u32 \<Rightarrow> 'a memory_scheme \<Rightarrow> (unit, 'a memory_scheme) bus_access" where
  "mem_ram_mwf_put dev put sz addr v s =
     mwf_put dev put (unat (drop_bit 26 addr AND 0x3)) sz (NEXT_RAM_START OR (addr AND NEXT_RAM_MASK)) v s"

definition mem_video_mwf_put ::
  "'a memory_scheme devices \<Rightarrow> (bus_size \<Rightarrow> u32 \<Rightarrow> u32 \<Rightarrow> 'a memory_scheme \<Rightarrow> (unit, 'a memory_scheme) bus_access)
    \<Rightarrow> bus_size \<Rightarrow> u32 \<Rightarrow> u32 \<Rightarrow> 'a memory_scheme \<Rightarrow> (unit, 'a memory_scheme) bus_access" where
  "mem_video_mwf_put dev put sz addr v s =
     mwf_put dev put (unat (drop_bit 24 addr AND 0x3)) sz (NEXT_VRAM_START OR (addr AND NEXT_VRAM_MASK)) v s"

text \<open>
  The dispatch of a write. \<open>put\<close> stands for the nested write of a mirror, which goes to main
  or video memory and not to a mirror again; so \<open>mem_put\<close> needs two levels
  (\<open>mem_put_unfold\<close> below shows that it is the recursive function).
\<close>

definition put_step ::
  "'a memory_scheme devices \<Rightarrow> (bus_size \<Rightarrow> u32 \<Rightarrow> u32 \<Rightarrow> 'a memory_scheme \<Rightarrow> (unit, 'a memory_scheme) bus_access)
    \<Rightarrow> bus_size \<Rightarrow> u32 \<Rightarrow> u32 \<Rightarrow> 'a memory_scheme \<Rightarrow> (unit, 'a memory_scheme) bus_access" where
  "put_step dev put sz addr v s = (
     let bank = mem_bank s (bankindex addr) in
     case bank of
       BusErrMem_bank \<Rightarrow> BusErrMem_put sz addr v s
     | ROM_bank \<Rightarrow> mem_rom_put sz addr v s
     | RAM_bank0 \<Rightarrow> mem_ram_bank_put (next_ram_bank0_mask s) sz addr v s
     | RAM_bank1 \<Rightarrow> mem_ram_bank_put (next_ram_bank1_mask s) sz addr v s
     | RAM_bank2 \<Rightarrow> mem_ram_bank_put (next_ram_bank2_mask s) sz addr v s
     | RAM_bank3 \<Rightarrow> mem_ram_bank_put (next_ram_bank3_mask s) sz addr v s
     | RAM_empty_bank \<Rightarrow> mem_ram_empty_put sz addr v s
     | RAM_mwf_bank \<Rightarrow> mem_ram_mwf_put dev put sz addr v s
     | VRAM_bank \<Rightarrow> mem_video_put sz addr v s
     | VRAM_mwf_bank \<Rightarrow> mem_video_mwf_put dev put sz addr v s
     | VRAM_color_bank \<Rightarrow> mem_color_video_put sz addr v s
     | BMAP_bank \<Rightarrow> mem_bmap_put (dev_Reset_Warm dev) sz addr v s
     | NCC_bank \<Rightarrow> (if sz = SZ_LONG then dev_put dev bank sz addr v s else dummy_put s)
     | NCC_tag_bank \<Rightarrow> (if sz = SZ_LONG then dev_put dev bank sz addr v s else dummy_put s)
     | _ \<Rightarrow> dev_put dev bank sz addr v s)"

definition mem_put ::
  "'a memory_scheme devices \<Rightarrow> bus_size \<Rightarrow> u32 \<Rightarrow> u32 \<Rightarrow> 'a memory_scheme \<Rightarrow> (unit, 'a memory_scheme) bus_access" where
  "mem_put dev = put_step dev (put_step dev (\<lambda>sz addr v s. None))"

section \<open>Initialisation\<close>

text \<open>The bank sizes are brought to a size that the machine supports; the sum is returned.\<close>

definition check_banksize :: "CNF_SYSTEM \<Rightarrow> int \<Rightarrow> int" where
  "check_banksize c n =
     (if bTurbo c then (if n \<le> 0 then 0 else if n \<le> 2 then 2 else if n \<le> 8 then 8 else 32)
      else if bColor c then (if n \<le> 0 then 0 else if n \<le> 2 then 2 else 8)
      else (if n \<le> 0 then 0 else if n \<le> 1 then 1 else if n \<le> 4 then 4 else 16))"

definition Configuration_CheckMemory :: "CNF_SYSTEM \<Rightarrow> int list \<Rightarrow> int \<times> int list" where
  "Configuration_CheckMemory c banksize = (
     let sizes = map (check_banksize c) banksize;
         sizes = (if \<not> bTurbo c \<and> \<not> bColor c \<and> nMachineType c = NEXT_STATION then sizes[2 := 0, 3 := 0] else sizes)
     in (sizes ! 0 + sizes ! 1 + sizes ! 2 + sizes ! 3, sizes))"

definition map_banks :: "addrbank \<Rightarrow> u32 \<Rightarrow> u32 \<Rightarrow> (u16 \<Rightarrow> addrbank) \<Rightarrow> (u16 \<Rightarrow> addrbank)" where
  "map_banks bank start len t = foldl (\<lambda>t bnr. t(of_nat bnr := bank)) t [unat start..<unat (start + len)]"

definition init_mem_banks :: "u16 \<Rightarrow> addrbank" where
  "init_mem_banks = (\<lambda>i. BusErrMem_bank)"

text \<open>The calls of \<open>map_banks\<close> in \<open>memory_init\<close>, in order, with addresses instead of bank numbers.\<close>

definition bank_maps :: "CNF_SYSTEM \<Rightarrow> u32 \<Rightarrow> u32 list \<Rightarrow> (addrbank \<times> u32 \<times> u32) list" where
  "bank_maps c ram_bank_size banksize =
     [(ROM_bank, NEXT_EPROM_START, NEXT_EPROM_SIZE)]
     @ (if nMachineType c \<noteq> NEXT_CUBE030 then [(ROM_bank, NEXT_EPROM_BMAP_START, NEXT_EPROM_SIZE)] else [])
     @ map (\<lambda>i. (if banksize ! i \<noteq> 0 then [RAM_bank0, RAM_bank1, RAM_bank2, RAM_bank3] ! i else RAM_empty_bank,
                 NEXT_RAM_START + ram_bank_size * of_nat i, ram_bank_size)) [0, 1, 2, 3]
     @ (if \<not> bColor c \<and> \<not> bTurbo c then
          [(RAM_mwf_bank, NEXT_RAM_MWF0_START, NEXT_RAM_SIZE), (RAM_mwf_bank, NEXT_RAM_MWF1_START, NEXT_RAM_SIZE),
           (RAM_mwf_bank, NEXT_RAM_MWF2_START, NEXT_RAM_SIZE), (RAM_mwf_bank, NEXT_RAM_MWF3_START, NEXT_RAM_SIZE)]
        else [])
     @ (if bTurbo c \<and> bColor c then [(VRAM_color_bank, NEXT_VRAM_TURBO_START, NEXT_VRAM_COLOR_SIZE)]
        else if bTurbo c then [(VRAM_bank, NEXT_VRAM_TURBO_START, NEXT_VRAM_SIZE)]
        else if bColor c then [(VRAM_color_bank, NEXT_VRAM_COLOR_START, NEXT_VRAM_COLOR_SIZE)]
        else [(VRAM_bank, NEXT_VRAM_START, NEXT_VRAM_SIZE),
              (VRAM_mwf_bank, NEXT_VRAM_MWF0_START, NEXT_VRAM_SIZE), (VRAM_mwf_bank, NEXT_VRAM_MWF1_START, NEXT_VRAM_SIZE),
              (VRAM_mwf_bank, NEXT_VRAM_MWF2_START, NEXT_VRAM_SIZE), (VRAM_mwf_bank, NEXT_VRAM_MWF3_START, NEXT_VRAM_SIZE)])
     @ [(IO_bank, NEXT_IO_START, NEXT_IO_SIZE)]
     @ (if nMachineType c \<noteq> NEXT_CUBE030 then
          (IO_bank, NEXT_IO_BMAP_START, NEXT_IO_SIZE) #
          (if \<not> bTurbo c then [(BMAP_bank, NEXT_BMAP_START, NEXT_BMAP_SIZE), (BMAP_bank, NEXT_BMAP_START2, NEXT_BMAP_SIZE)]
           else [])
        else [])
     @ (if bTurbo c then
          (TMC_bank, NEXT_TMC_START, NEXT_TMC_SIZE) #
          (if nCpuFreq c = 40 then
             [(NCC_bank, NEXT_NCC_START, NEXT_NCC_SIZE), (NCC_cache_bank, NEXT_CACHE_START, NEXT_CACHE_SIZE),
              (NCC_tag_bank, NEXT_CACHE_TAG_START, NEXT_CACHE_TAG_SIZE)]
           else [])
        else [])
     @ (if nMachineType c \<noteq> NEXT_STATION \<and> bNBIC c then
          (if \<not> bTurbo c then [(NBIC_bank, NEXT_NBIC_START, NEXT_NBIC_SIZE)] else [])
          @ map (\<lambda>i. (NEXTBUS_board_bank, NEXTBUS_BOARD_START i, NEXTBUS_BOARD_SIZE)) [2, 3, 4, 5, 6, 7]
          @ map (\<lambda>i. (NEXTBUS_slot_bank, NEXTBUS_SLOT_START (of_nat i), NEXTBUS_SLOT_SIZE)) [0..<16]
        else [])"

definition memory_uninit :: "'a memory_scheme \<Rightarrow> 'a memory_scheme" where
  "memory_uninit s = s\<lparr>NEXTRom := NULL, NEXTVideo := NULL, NEXTRam := NULL, NEXTIo := NULL\<rparr>"

text \<open>The machine-dependent sizes: bank size, bank selection mask, video memory, main memory.\<close>

definition ram_layout :: "CNF_SYSTEM \<Rightarrow> u32 \<times> u32 \<times> nat \<times> nat" where
  "ram_layout c =
     (if bTurbo c then
        (NEXT_RAM_BANK_SIZE_T, NEXT_RAM_BANK_SEL_T, if bColor c then NEXT_VRAM_COLOR_ALLOC else NEXT_VRAM_ALLOC, NEXT_RAM_ALLOC_T)
      else if bColor c then (NEXT_RAM_BANK_SIZE_C, NEXT_RAM_BANK_SEL_C, NEXT_VRAM_COLOR_ALLOC, NEXT_RAM_ALLOC_C)
      else (NEXT_RAM_BANK_SIZE, NEXT_RAM_BANK_SEL, NEXT_VRAM_ALLOC, NEXT_RAM_ALLOC))"

definition bank_mask :: "u32 \<Rightarrow> u32 \<Rightarrow> u32" where
  "bank_mask sel banksize = (if banksize \<noteq> 0 then sel OR (banksize - 1) else 0)"

definition memory_init :: "(nat \<Rightarrow> mem_array) \<Rightarrow> 'a memory_scheme \<Rightarrow> int \<times> 'a memory_scheme" where
  "memory_init malloc_aligned s = (
     let sys = System (ConfigureParams s);
         sizes = snd (Configuration_CheckMemory sys (nMemoryBankSize (Memory (ConfigureParams s))));
         s = s\<lparr>ConfigureParams := (ConfigureParams s)\<lparr>Memory := (Memory (ConfigureParams s))\<lparr>nMemoryBankSize := sizes\<rparr>\<rparr>\<rparr>;
         (bank_size, bank_sel, vram_size, ram_size) = ram_layout sys;
         s = s\<lparr>next_ram_bank_size := bank_size, next_ram_bank_mask := bank_sel\<rparr>;
         s = memory_uninit s;
         s = s\<lparr>NEXTRam := malloc_aligned ram_size, NEXTVideo := malloc_aligned vram_size,
               NEXTIo := malloc_aligned NEXT_IO_ALLOC, NEXTRom := malloc_aligned NEXT_EPROM_ALLOC\<rparr>
     in if arr_size (NEXTRom s) = 0 \<or> arr_size (NEXTVideo s) = 0 \<or> arr_size (NEXTRam s) = 0 \<or> arr_size (NEXTIo s) = 0
        then (1, s)
        else
          let s = s\<lparr>NEXTRom := memset0 NEXT_EPROM_ALLOC (NEXTRom s), NEXTVideo := memset0 vram_size (NEXTVideo s),
                    NEXTRam := memset0 ram_size (NEXTRam s), NEXTIo := memset0 NEXT_IO_ALLOC (NEXTIo s)\<rparr>;
              (ret, rom) = rom_load (NEXTRom s) NEXT_EPROM_ALLOC s;
              s = s\<lparr>NEXTRom := rom\<rparr>
          in if ret \<noteq> 0 then (1, s)
             else
               let banksize = map (\<lambda>i. push_bit 20 (word_of_int (sizes ! i)) :: u32) [0, 1, 2, 3]
               in (0, s\<lparr>mem_bank := foldl (\<lambda>t (bank, start, size). map_banks bank (drop_bit 16 start) (drop_bit 16 size) t)
                          init_mem_banks (bank_maps sys bank_size banksize),
                        next_ram_bank0_mask := bank_mask bank_sel (banksize ! 0),
                        next_ram_bank1_mask := bank_mask bank_sel (banksize ! 1),
                        next_ram_bank2_mask := bank_mask bank_sel (banksize ! 2),
                        next_ram_bank3_mask := bank_mask bank_sel (banksize ! 3)\<rparr>))"


section \<open>The address map\<close>

text \<open>The banks that one entry of \<open>bank_maps\<close> covers.\<close>

fun covers :: "addrbank \<times> u32 \<times> u32 \<Rightarrow> u16 \<Rightarrow> bool" where
  "covers (bank, start, len) i \<longleftrightarrow> unat (drop_bit 16 start) \<le> unat i
     \<and> unat i < unat (drop_bit 16 start) + unat (drop_bit 16 len)"

fun no_wrap :: "addrbank \<times> u32 \<times> u32 \<Rightarrow> bool" where
  "no_wrap (bank, start, len) \<longleftrightarrow> unat (drop_bit 16 start) + unat (drop_bit 16 len) \<le> 0x10000"

lemma map_banks_apply:
  assumes "unat start + unat len \<le> 0x10000"
  shows "map_banks bank start len t i =
    (if unat start \<le> unat i \<and> unat i < unat start + unat len then bank else t i)"
proof -
  have fold: "foldl (\<lambda>t bnr. t(of_nat bnr := bank)) t [m..<n] i =
      (if m \<le> unat i \<and> unat i < n then bank else t i)" if "n \<le> 0x10000" for m n
    using that
  proof (induction n)
    case 0
    then show ?case by simp
  next
    case (Suc n)
    have "i = of_nat n \<longleftrightarrow> unat i = n"
      using Suc.prems by (auto simp: word_unat_eq_iff unat_of_nat)
    with Suc show ?case by (auto simp: less_Suc_eq)
  qed
  have "unat (start + len) = unat start + unat len"
    using assms by (simp add: unat_word_ariths)
  with fold [of "unat (start + len)"] assms show ?thesis by (simp add: map_banks_def)
qed

abbreviation apply_maps :: "(addrbank \<times> u32 \<times> u32) list \<Rightarrow> (u16 \<Rightarrow> addrbank) \<Rightarrow> (u16 \<Rightarrow> addrbank)" where
  "apply_maps maps t \<equiv> foldl (\<lambda>t (bank, start, size). map_banks bank (drop_bit 16 start) (drop_bit 16 size) t) t maps"

lemma apply_map1:
  "no_wrap e \<Longrightarrow> apply_maps [e] t i = (if covers e i then fst e else t i)"
  by (cases e) (simp add: map_banks_apply)

lemma apply_maps_miss:
  "list_all no_wrap maps \<Longrightarrow> list_all (\<lambda>e. \<not> covers e i) maps \<Longrightarrow> apply_maps maps t i = t i"
  by (induction maps arbitrary: t) (auto simp: map_banks_apply)

lemma apply_maps_in:
  "list_all no_wrap maps \<Longrightarrow> apply_maps maps t i = t i \<or> apply_maps maps t i \<in> fst ` set maps"
proof (induction maps arbitrary: t)
  case Nil
  then show ?case by simp
next
  case (Cons e maps)
  obtain bank start len where e: "e = (bank, start, len)" by (cases e)
  let ?t = "map_banks bank (drop_bit 16 start) (drop_bit 16 len) t"
  have "?t i = t i \<or> ?t i = bank" using Cons.prems e by (simp add: map_banks_apply)
  with Cons.IH [of ?t] Cons.prems e show ?case by auto
qed

lemma bankindex_unat: "unat (bankindex a) = unat a div 0x10000"
proof -
  have "unat (drop_bit 16 a) = unat a div 0x10000" unfolding unat_drop_bit_eq by (simp add: drop_bit_eq_div)
  moreover have "unat a div 0x10000 < 2 ^ 16" using unsigned_less [of a, where ?'a = nat] by simp
  ultimately show ?thesis by (simp add: bankindex_def unsigned_ucast_eq take_bit_nat_eq_self)
qed

text \<open>The entries after those of main memory leave main memory alone.\<close>

definition ram_end :: "CNF_SYSTEM \<Rightarrow> nat" where
  "ram_end c = (if bTurbo c then 0xC00 else if bColor c then 0x600 else 0x800)"

definition maps_before :: "CNF_SYSTEM \<Rightarrow> (addrbank \<times> u32 \<times> u32) list" where
  "maps_before c = [(ROM_bank, NEXT_EPROM_START, NEXT_EPROM_SIZE)]
     @ (if nMachineType c \<noteq> NEXT_CUBE030 then [(ROM_bank, NEXT_EPROM_BMAP_START, NEXT_EPROM_SIZE)] else [])"

definition maps_ram :: "u32 \<Rightarrow> u32 list \<Rightarrow> (addrbank \<times> u32 \<times> u32) list" where
  "maps_ram ram_bank_size banksize =
     map (\<lambda>i. (if banksize ! i \<noteq> 0 then [RAM_bank0, RAM_bank1, RAM_bank2, RAM_bank3] ! i else RAM_empty_bank,
                 NEXT_RAM_START + ram_bank_size * of_nat i, ram_bank_size)) [0, 1, 2, 3]"

definition maps_after :: "CNF_SYSTEM \<Rightarrow> (addrbank \<times> u32 \<times> u32) list" where
  "maps_after c = drop (length (maps_before c) + 4) (bank_maps c 0 [])"

lemma bank_maps_split: "bank_maps c n bs = maps_before c @ maps_ram n bs @ maps_after c"
  by (simp add: bank_maps_def maps_before_def maps_ram_def maps_after_def)

lemma maps_after_ok:
  "list_all no_wrap (maps_after c)"
  "0x400 \<le> unat i \<Longrightarrow> unat i < ram_end c \<Longrightarrow> list_all (\<lambda>e. \<not> covers e i) (maps_after c)"
proof -
  have upt: "[0..<16] = [0, 1, 2, 3, 4, 5, 6, 7, 8, 9, 10, 11, 12, 13, 14, 15]" by code_simp
  note d = maps_after_def maps_before_def bank_maps_def upt ram_end_def
  show "list_all no_wrap (maps_after c)" by (simp add: d)
  assume "0x400 \<le> unat i" "unat i < ram_end c"
  then show "list_all (\<lambda>e. \<not> covers e i) (maps_after c)"
    by (cases "bTurbo c"; cases "bColor c") (simp_all add: d)
qed


text \<open>The size of a bank's window, as the exponent of two; the window; the bank of an index.\<close>

definition window_bits :: "CNF_SYSTEM \<Rightarrow> nat" where
  "window_bits c = (if bTurbo c then 25 else if bColor c then 23 else 24)"

definition in_window :: "CNF_SYSTEM \<Rightarrow> nat \<Rightarrow> u32 \<Rightarrow> bool" where
  "in_window c k a \<longleftrightarrow> 0x04000000 + k * 2 ^ window_bits c \<le> unat a \<and> unat a < 0x04000000 + (k + 1) * 2 ^ window_bits c"

abbreviation RAM_bank :: "nat \<Rightarrow> addrbank" where
  "RAM_bank k \<equiv> [RAM_bank0, RAM_bank1, RAM_bank2, RAM_bank3] ! k"

lemma lt_4_cases: "k < 4 \<longleftrightarrow> k = 0 \<or> k = 1 \<or> k = 2 \<or> k = (3 :: nat)"
  by auto

lemma maps_ram_apply:
  assumes "k < 4" "in_window c k a"
  shows "apply_maps (maps_ram (fst (ram_layout c)) bs) t (bankindex a) =
    (if bs ! k \<noteq> 0 then RAM_bank k else RAM_empty_bank)"
proof -
  have div: "n * 0x10000 \<le> unat a \<Longrightarrow> n \<le> unat a div 0x10000" "unat a < n * 0x10000 \<Longrightarrow> unat a div 0x10000 < n" for n
    by (simp_all add: less_eq_div_iff_mult_less_eq div_less_iff_less_mult)
  let ?n = "2 ^ window_bits c div 0x10000"
  have "0x400 + k * ?n \<le> unat (bankindex a) \<and> unat (bankindex a) < 0x400 + (k + 1) * ?n"
    using assms(2) div [of "0x400 + k * ?n"] div [of "0x400 + (k + 1) * ?n"]
    by (simp add: in_window_def bankindex_unat window_bits_def split: if_splits)
  with assms(1) show ?thesis
    unfolding lt_4_cases
    by (elim disjE; cases "bTurbo c"; cases "bColor c")
      (simp_all add: maps_ram_def ram_layout_def window_bits_def map_banks_apply)
qed

lemma window_index:
  assumes "k < 4" "in_window c k a"
  shows "0x400 \<le> unat (bankindex a)" "unat (bankindex a) < ram_end c"
  using assms by (auto simp: in_window_def bankindex_unat window_bits_def ram_end_def lt_4_cases split: if_splits)

lemma ram_map:
  assumes "k < 4" "in_window c k a"
  shows "apply_maps (bank_maps c (fst (ram_layout c)) bs) t (bankindex a) =
    (if bs ! k \<noteq> 0 then RAM_bank k else RAM_empty_bank)"
  using maps_ram_apply [OF assms] apply_maps_miss [OF maps_after_ok(1) maps_after_ok(2) [OF window_index [OF assms]]]
  by (simp add: bank_maps_split del: foldl_Cons)

section \<open>Bank masks\<close>

text \<open>The sizes that \<open>Configuration_CheckMemory\<close> leaves are 0 or a power of two that fits the window.\<close>

lemma check_banksize_power:
  assumes "check_banksize c n \<noteq> 0"
  shows "\<exists>m. 20 \<le> m \<and> m \<le> window_bits c \<and> (push_bit 20 (word_of_int (check_banksize c n)) :: u32) = 2 ^ m"
proof -
  have *: "(push_bit 20 (word_of_int 1) :: u32) = 2 ^ 20" "(push_bit 20 (word_of_int 2) :: u32) = 2 ^ 21"
    "(push_bit 20 (word_of_int 4) :: u32) = 2 ^ 22" "(push_bit 20 (word_of_int 8) :: u32) = 2 ^ 23"
    "(push_bit 20 (word_of_int 16) :: u32) = 2 ^ 24" "(push_bit 20 (word_of_int 32) :: u32) = 2 ^ 25"
    by simp_all
  have "(check_banksize c n, window_bits c) \<in>
      {(2, 25), (8, 25), (32, 25), (2, 23), (8, 23), (1, 24), (4, 24), (16, 24)}"
    using assms by (auto simp: check_banksize_def window_bits_def split: if_splits)
  then show ?thesis
    by (elim insertE emptyE) (auto simp: * simp del: of_int_numeral word_of_int_1
      intro: exI [of _ 20] exI [of _ 21] exI [of _ 22] exI [of _ 23] exI [of _ 24] exI [of _ 25])
qed

text \<open>What a bank mask does to an address.\<close>

lemma unat_and_bank_mask:
  assumes "m \<le> n" "n \<le> 25" "20 \<le> m"
  shows "unat (a AND bank_mask (push_bit n 3) (2 ^ m) :: u32) = (unat a div 2 ^ n mod 4) * 2 ^ n + unat a mod 2 ^ m"
proof -
  have three: "bit (3 :: int) j \<longleftrightarrow> j < 2" for j
    using bit_mask_iff [of 2 j, where ?'a = int] by (auto simp: mask_eq_exp_minus_1)
  have nz: "(2 ^ m :: u32) \<noteq> 0" using assms by simp
  have mask: "bank_mask (push_bit n 3) (2 ^ m) = push_bit n 3 OR (mask m :: u32)"
    using nz by (simp add: bank_mask_def mask_eq_exp_minus_1)
  have "a AND (push_bit n 3 OR mask m) = push_bit n (take_bit 2 (drop_bit n a)) OR take_bit m a"
    by (rule bit_word_eqI) (use assms in \<open>auto simp: bit_simps three\<close>)
  moreover have "push_bit n (take_bit 2 (drop_bit n a)) AND take_bit m a = 0"
    by (rule bit_word_eqI) (use assms in \<open>auto simp: bit_simps\<close>)
  ultimately have eq: "a AND bank_mask (push_bit n 3) (2 ^ m) = push_bit n (take_bit 2 (drop_bit n a)) + take_bit m a"
    using mask by (simp add: disjunctive_add_eq_or)
  have q: "unat (take_bit 2 (drop_bit n a)) = unat a div 2 ^ n mod 4"
    unfolding unsigned_take_bit_eq unat_drop_bit_eq by (simp add: take_bit_eq_mod drop_bit_eq_div)
  have bound: "(unat a div 2 ^ n mod 4) * 2 ^ n + unat a mod 2 ^ m < 2 ^ 32"
  proof -
    have "(2 ^ n :: nat) \<le> 2 ^ 25" using assms(2) by (intro power_increasing) auto
    moreover have "unat a div 2 ^ n mod 4 \<le> 3" by simp
    ultimately have "(unat a div 2 ^ n mod 4) * 2 ^ n \<le> 3 * 2 ^ 25" by (intro mult_mono) auto
    moreover have "unat a mod 2 ^ m < 2 ^ m" by simp
    moreover have "(2 ^ m :: nat) \<le> 2 ^ 25" using assms by (intro power_increasing) auto
    ultimately have "(unat a div 2 ^ n mod 4) * 2 ^ n + unat a mod 2 ^ m < 3 * 2 ^ 25 + 2 ^ 25" by linarith
    then show ?thesis by simp
  qed
  have 1: "unat (push_bit n (take_bit 2 (drop_bit n a))) = (unat a div 2 ^ n mod 4) * 2 ^ n"
    unfolding unsigned_push_bit_eq q using bound by (simp add: push_bit_eq_mult take_bit_nat_eq_self)
  have 2: "unat (take_bit m a) = unat a mod 2 ^ m"
    unfolding unsigned_take_bit_eq by (simp add: take_bit_eq_mod)
  show ?thesis
    unfolding eq unat_word_ariths 1 2 using bound by simp
qed

end
