(* ===== verification/MemBus.thy ===== *)
theory MemBus
  imports MemBanks
begin

text \<open>
  Properties of the memory map of \<open>MemBanks\<close>: what \<open>memory_init\<close> establishes, that aligned
  accesses stay inside the allocated blocks, main memory as a store, and the mirrors that
  combine a write with the old contents.
\<close>

section \<open>The invariant of the memory\<close>

abbreviation ram_mask :: "nat \<Rightarrow> 'a memory_scheme \<Rightarrow> u32" where
  "ram_mask k s \<equiv> [next_ram_bank0_mask s, next_ram_bank1_mask s, next_ram_bank2_mask s, next_ram_bank3_mask s] ! k"

text \<open>
  The allocated blocks are large enough for what the bank functions can address, and the
  targets of the mirrors are main memory and video memory.
\<close>

definition mem_ok :: "'a memory_scheme \<Rightarrow> bool" where
  "mem_ok s \<longleftrightarrow> 4 dvd arr_size (NEXTRam s) \<and> (\<forall>k < 4. unat (ram_mask k s) < arr_size (NEXTRam s))
     \<and> arr_size (NEXTRom s) = 0x20000 \<and> arr_size (NEXTVideo s) \<in> {0x40000, 0x200000}
     \<and> (\<forall>i. mem_bank s i = VRAM_color_bank \<longrightarrow> arr_size (NEXTVideo s) = 0x200000)
     \<and> (\<forall>i j. mem_bank s i = RAM_mwf_bank \<and> 0x400 \<le> unat j \<and> unat j < 0x800 \<longrightarrow>
          mem_bank s j \<in> {RAM_bank0, RAM_bank1, RAM_bank2, RAM_bank3, RAM_empty_bank})
     \<and> (\<forall>i j. mem_bank s i = VRAM_mwf_bank \<and> 0xB00 \<le> unat j \<and> unat j < 0xB04 \<longrightarrow> mem_bank s j = VRAM_bank)"

definition malloc_ok :: "(nat \<Rightarrow> mem_array) \<Rightarrow> bool" where
  "malloc_ok malloc_aligned \<longleftrightarrow> (\<forall>n. arr_size (malloc_aligned n) = n)"

text \<open>The configured sizes after the check, and the banks in bytes.\<close>

definition bank_sizes :: "'a memory_scheme \<Rightarrow> int list" where
  "bank_sizes s = snd (Configuration_CheckMemory (System (ConfigureParams s)) (nMemoryBankSize (Memory (ConfigureParams s))))"

abbreviation bank_bytes :: "int \<Rightarrow> u32" where
  "bank_bytes n \<equiv> push_bit 20 (word_of_int n)"

lemma rom_load_size: "rom_load buf n s = (ret, m) \<Longrightarrow> arr_size m = arr_size buf"
  by (auto simp: rom_load_def rom_config_def put_rom_def Let_def split: option.splits if_splits)

lemma memset0_size [simp]: "arr_size (memset0 n m) = arr_size m"
  by (simp add: memset0_def)

lemma memory_init_fields:
  assumes "memory_init malloc_aligned s = (0, s')" "malloc_ok malloc_aligned"
  shows "mem_bank s' = apply_maps (bank_maps (System (ConfigureParams s)) (fst (ram_layout (System (ConfigureParams s))))
      (map (\<lambda>i. bank_bytes (bank_sizes s ! i)) [0, 1, 2, 3])) init_mem_banks"
    and "k < 4 \<Longrightarrow> ram_mask k s' = bank_mask (fst (snd (ram_layout (System (ConfigureParams s))))) (bank_bytes (bank_sizes s ! k))"
    and "arr_size (NEXTRam s') = snd (snd (snd (ram_layout (System (ConfigureParams s)))))"
    and "arr_size (NEXTVideo s') = fst (snd (snd (ram_layout (System (ConfigureParams s)))))"
    and "arr_size (NEXTRom s') = 0x20000" "NEXTbmap s' = NEXTbmap s"
proof -
  obtain n sel v r where lay: "ram_layout (System (ConfigureParams s)) = (n, sel, v, r)" by (metis prod_cases4)
  then have nz: "0 < v" "0 < r" by (auto simp: ram_layout_def split: if_splits)
  have sz: "arr_size (malloc_aligned n) = n" for n using assms(2) by (simp add: malloc_ok_def)
  note d = memory_init_def Let_def lay memory_uninit_def sz bank_sizes_def
  show "mem_bank s' = apply_maps (bank_maps (System (ConfigureParams s)) (fst (ram_layout (System (ConfigureParams s))))
      (map (\<lambda>i. bank_bytes (bank_sizes s ! i)) [0, 1, 2, 3])) init_mem_banks"
    using assms(1) nz by (auto simp: d split: prod.splits if_splits)
  show "k < 4 \<Longrightarrow> ram_mask k s' = bank_mask (fst (snd (ram_layout (System (ConfigureParams s))))) (bank_bytes (bank_sizes s ! k))"
    using assms(1) nz by (auto simp: d lt_4_cases split: prod.splits if_splits)
  show "arr_size (NEXTRam s') = snd (snd (snd (ram_layout (System (ConfigureParams s)))))"
    "arr_size (NEXTVideo s') = fst (snd (snd (ram_layout (System (ConfigureParams s)))))" "NEXTbmap s' = NEXTbmap s"
    using assms(1) nz by (auto simp: d split: prod.splits if_splits)
  show "arr_size (NEXTRom s') = 0x20000"
    using assms(1) nz by (auto simp: d dest: rom_load_size split: prod.splits if_splits)
qed


lemma ram_layout_bits:
  "fst (snd (ram_layout c)) = push_bit (window_bits c) 3" "snd (snd (snd (ram_layout c))) = 4 * 2 ^ window_bits c"
  "window_bits c \<le> 25" "20 \<le> window_bits c"
  by (simp_all add: ram_layout_def window_bits_def)

abbreviation four_banks :: "'a memory_scheme \<Rightarrow> bool" where
  "four_banks s \<equiv> length (nMemoryBankSize (Memory (ConfigureParams s))) = 4"

lemma bank_size_power:
  assumes "four_banks s" "k < 4" "bank_sizes s ! k \<noteq> 0"
  shows "\<exists>m. 20 \<le> m \<and> m \<le> window_bits (System (ConfigureParams s)) \<and> bank_bytes (bank_sizes s ! k) = 2 ^ m"
proof -
  have "bank_sizes s ! k = 0 \<or> (\<exists>n. bank_sizes s ! k = check_banksize (System (ConfigureParams s)) n)"
    using assms(1,2) by (auto simp: bank_sizes_def Configuration_CheckMemory_def Let_def nth_list_update)
  with assms(3) show ?thesis using check_banksize_power by metis
qed

lemma bank_bytes_eq_0:
  assumes "four_banks s" "k < 4"
  shows "bank_bytes (bank_sizes s ! k) = 0 \<longleftrightarrow> bank_sizes s ! k = 0"
proof (cases "bank_sizes s ! k = 0")
  case False
  from bank_size_power [OF assms this] obtain m where
    m: "m \<le> window_bits (System (ConfigureParams s))" "bank_bytes (bank_sizes s ! k) = 2 ^ m" by blast
  then have "m < 32" using ram_layout_bits(3) [of "System (ConfigureParams s)"] by simp
  with m show ?thesis using False by simp
qed simp

lemma bank_mask_bound:
  assumes "m \<le> n" "n \<le> 25" "20 \<le> m"
  shows "unat (bank_mask (push_bit n 3) (2 ^ m) :: u32) < 4 * 2 ^ n"
proof -
  have "unat (bank_mask (push_bit n 3) (2 ^ m) :: u32) = (unat (NOT 0 :: u32) div 2 ^ n mod 4) * 2 ^ n + unat (NOT 0 :: u32) mod 2 ^ m"
    using unat_and_bank_mask [OF assms, of "NOT 0"] by simp
  moreover have "(unat (NOT 0 :: u32) div 2 ^ n mod 4) * 2 ^ n \<le> 3 * 2 ^ n" by simp
  moreover have "unat (NOT 0 :: u32) mod 2 ^ m < 2 ^ m" by simp
  moreover have "(2 ^ m :: nat) \<le> 2 ^ n" using assms(1) by (intro power_increasing) auto
  ultimately have "unat (bank_mask (push_bit n 3) (2 ^ m) :: u32) < 3 * 2 ^ n + 2 ^ n" by linarith
  then show ?thesis by simp
qed

lemma index_window:
  assumes "0x400 \<le> unat i" "unat i < 0x800" "\<not> bTurbo c" "\<not> bColor c"
  shows "\<exists>k a. k < 4 \<and> in_window c k a \<and> bankindex a = i"
proof -
  let ?a = "push_bit 16 (ucast i) :: u32" and ?k = "(unat i - 0x400) div 0x100"
  have "unat i < 2 ^ 16" using unsigned_less [of i, where ?'a = nat] by simp
  then have a: "unat ?a = unat i * 0x10000"
    unfolding unsigned_push_bit_eq by (simp add: unsigned_ucast_eq push_bit_eq_mult take_bit_nat_eq_self)
  have "?k < 4" using assms by (simp add: div_less_iff_less_mult)
  moreover have "in_window c ?k ?a"
  proof -
    have "?k * 0x100 \<le> unat i - 0x400" "unat i - 0x400 < (?k + 1) * 0x100"
      by (simp_all add: dividend_less_div_times)
    then have "0x400 + ?k * 0x100 \<le> unat i" "unat i < 0x400 + (?k + 1) * 0x100"
      using assms by linarith+
    then show ?thesis using assms(3,4) unfolding in_window_def a window_bits_def by simp
  qed
  moreover have "bankindex ?a = i" by (simp add: word_unat_eq_iff bankindex_unat a)
  ultimately show ?thesis by blast
qed

lemma video_map:
  assumes "\<not> bTurbo c" "\<not> bColor c" "0xB00 \<le> unat i" "unat i < 0xB04"
  shows "apply_maps (maps_after c) t i = VRAM_bank"
proof -
  have upt: "[0..<16] = [0, 1, 2, 3, 4, 5, 6, 7, 8, 9, 10, 11, 12, 13, 14, 15]" by code_simp
  let ?post = "drop 5 (maps_after c)"
  have split: "maps_after c = take 4 (maps_after c) @ [(VRAM_bank, NEXT_VRAM_START, NEXT_VRAM_SIZE)] @ ?post"
    using assms(1,2) by (simp add: maps_after_def maps_before_def bank_maps_def)
  have "list_all no_wrap ?post" using maps_after_ok(1) [of c] by (simp add: list_all_iff) (meson in_set_dropD)
  moreover have "list_all (\<lambda>e. \<not> covers e i) ?post"
    using assms by (simp add: maps_after_def maps_before_def bank_maps_def upt)
  ultimately have "apply_maps ?post t' i = t' i" for t' by (rule apply_maps_miss)
  moreover have "apply_maps [(VRAM_bank, NEXT_VRAM_START, NEXT_VRAM_SIZE)] t' i = VRAM_bank" for t'
    using assms by (simp add: map_banks_apply)
  ultimately show ?thesis by (subst split) simp
qed


lemma bank_maps_banks:
  "VRAM_color_bank \<in> fst ` set (bank_maps c n bs) \<Longrightarrow> bColor c"
  "RAM_mwf_bank \<in> fst ` set (bank_maps c n bs) \<Longrightarrow> \<not> bColor c \<and> \<not> bTurbo c"
  "VRAM_mwf_bank \<in> fst ` set (bank_maps c n bs) \<Longrightarrow> \<not> bColor c \<and> \<not> bTurbo c"
proof -
  have ram: "(if bs ! i \<noteq> 0 then RAM_bank i else RAM_empty_bank) \<in> {RAM_bank0, RAM_bank1, RAM_bank2, RAM_bank3, RAM_empty_bank}"
    if "i \<in> set [0, 1, 2, 3]" for i using that by auto
  show "VRAM_color_bank \<in> fst ` set (bank_maps c n bs) \<Longrightarrow> bColor c"
    by (rule ccontr) (cases "bTurbo c", auto simp: bank_maps_def dest!: ram split: if_splits)
  show "RAM_mwf_bank \<in> fst ` set (bank_maps c n bs) \<Longrightarrow> \<not> bColor c \<and> \<not> bTurbo c"
    by (rule ccontr) (cases "bTurbo c"; cases "bColor c"; auto simp: bank_maps_def split: if_splits)
  show "VRAM_mwf_bank \<in> fst ` set (bank_maps c n bs) \<Longrightarrow> \<not> bColor c \<and> \<not> bTurbo c"
    by (rule ccontr) (cases "bTurbo c"; cases "bColor c"; auto simp: bank_maps_def split: if_splits)
qed

lemma mem_ok_memory_init:
  assumes init: "memory_init malloc_aligned s = (0, s')" "malloc_ok malloc_aligned" and four: "four_banks s"
  shows "mem_ok s'"
proof -
  define c where "c = System (ConfigureParams s)"
  define bs where "bs = map (\<lambda>i. bank_bytes (bank_sizes s ! i)) [0, 1, 2, 3]"
  note f = memory_init_fields [OF init, folded c_def, folded bs_def]
  have bank: "mem_bank s' = apply_maps (maps_after c) (apply_maps (maps_ram (fst (ram_layout c)) bs) (apply_maps (maps_before c) init_mem_banks))"
    using f(1) by (simp add: bank_maps_split)
  have mask: "unat (ram_mask k s') < arr_size (NEXTRam s')" if k: "k < 4" for k
  proof (cases "bank_sizes s ! k = 0")
    case True
    then have "ram_mask k s' = 0" using f(2) [OF k] by (simp add: bank_mask_def)
    then show ?thesis using f(3) by (simp add: ram_layout_bits)
  next
    case False
    from bank_size_power [OF four k False] obtain m where
      m: "20 \<le> m" "m \<le> window_bits c" "bank_bytes (bank_sizes s ! k) = 2 ^ m" unfolding c_def by blast
    then show ?thesis
      using f(2) [OF k] f(3) bank_mask_bound [OF m(2) _ m(1)] by (simp add: ram_layout_bits)
  qed
  have nw: "list_all no_wrap (bank_maps c (fst (ram_layout c)) bs)"
    using maps_after_ok(1) [of c]
    by (cases "bTurbo c"; cases "bColor c") (simp_all add: bank_maps_split maps_before_def maps_ram_def ram_layout_def)
  have range: "mem_bank s' i \<in> insert BusErrMem_bank (fst ` set (bank_maps c (fst (ram_layout c)) bs))" for i
    using apply_maps_in [OF nw, of init_mem_banks i] f(1) by (auto simp: init_mem_banks_def)
  have color: "bColor c" if "mem_bank s' i = VRAM_color_bank" for i
    using range [of i] that bank_maps_banks(1) [of c] by auto
  have mono: "\<not> bColor c \<and> \<not> bTurbo c" if "mem_bank s' i = RAM_mwf_bank \<or> mem_bank s' i = VRAM_mwf_bank" for i
    using that
  proof
    assume "mem_bank s' i = RAM_mwf_bank"
    with range [of i] have "RAM_mwf_bank \<in> fst ` set (bank_maps c (fst (ram_layout c)) bs)" by simp
    then show ?thesis by (rule bank_maps_banks(2))
  next
    assume "mem_bank s' i = VRAM_mwf_bank"
    with range [of i] have "VRAM_mwf_bank \<in> fst ` set (bank_maps c (fst (ram_layout c)) bs)" by simp
    then show ?thesis by (rule bank_maps_banks(3))
  qed
  have ram: "mem_bank s' j \<in> {RAM_bank0, RAM_bank1, RAM_bank2, RAM_bank3, RAM_empty_bank}"
    if "mem_bank s' i = RAM_mwf_bank" "0x400 \<le> unat j" "unat j < 0x800" for i j
  proof -
    from mono [of i] that(1) index_window [OF that(2,3), of c] obtain k a where
      "k < 4" "in_window c k a" "bankindex a = j" by blast
    with ram_map [where bs = bs and t = init_mem_banks, of k c a] f(1) show ?thesis by (auto simp: lt_4_cases)
  qed
  have vid: "mem_bank s' j = VRAM_bank" if "mem_bank s' i = VRAM_mwf_bank" "0xB00 \<le> unat j" "unat j < 0xB04" for i j
    using mono [of i] that video_map [of c j] by (simp add: bank)
  have "4 dvd arr_size (NEXTRam s')" using f(3) by (simp add: ram_layout_bits)
  moreover have "arr_size (NEXTVideo s') \<in> {0x40000, 0x200000}" "bColor c \<longrightarrow> arr_size (NEXTVideo s') = 0x200000"
    using f(4) by (auto simp: ram_layout_def)
  ultimately show ?thesis
    unfolding mem_ok_def using mask f(5) color ram vid by blast
qed


section \<open>Aligned accesses stay inside the allocated memory\<close>

definition aligned :: "bus_size \<Rightarrow> u32 \<Rightarrow> bool" where
  "aligned sz a \<longleftrightarrow> bytes_of sz dvd unat a"

lemma aligned_and_mask: "aligned sz a \<Longrightarrow> aligned sz (a AND m)"
proof -
  obtain n where n: "bytes_of sz = 2 ^ n"
    by (cases sz) (auto intro: that [of 0] that [of 1] that [of 2])
  have iff: "aligned sz x \<longleftrightarrow> take_bit n x = 0" for x
  proof -
    have "unat (take_bit n x) = unat x mod 2 ^ n" unfolding unsigned_take_bit_eq by (simp add: take_bit_eq_mod)
    then show ?thesis by (simp add: aligned_def n dvd_eq_mod_eq_0 word_unat_eq_iff)
  qed
  assume "aligned sz a"
  then show "aligned sz (a AND m)" by (simp add: iff)
qed

lemma in_block:
  assumes "aligned sz a" "unat m < n" "4 dvd n"
  shows "unat (a AND m) + bytes_of sz \<le> n"
proof -
  have "unat (a AND m) \<le> unat m" using word_and_le1 [of a m] by (simp add: word_le_nat_alt)
  with assms(2) have "unat (a AND m) < n" by simp
  moreover have "bytes_of sz dvd unat (a AND m)" using aligned_and_mask [OF assms(1)] by (simp add: aligned_def)
  moreover have "bytes_of sz dvd n" using assms(3) by (cases sz) (auto elim: dvd_trans [rotated])
  ultimately obtain i k where "unat (a AND m) = bytes_of sz * i" "n = bytes_of sz * k" "i < k"
    by (metis dvdE mult_less_cancel1)
  then show ?thesis using mult_le_mono2 [of "Suc i" k "bytes_of sz"] by simp
qed


lemma load_total:
  "aligned sz a \<Longrightarrow> unat m < arr_size b \<Longrightarrow> 4 dvd arr_size b \<Longrightarrow> \<exists>v. do_get_mem sz b (a AND m) = Some v"
  "aligned sz a \<Longrightarrow> unat m < arr_size b \<Longrightarrow> 4 dvd arr_size b \<Longrightarrow>
     \<exists>b'. do_put_mem sz b (a AND m) v = Some b' \<and> arr_size b' = arr_size b"
proof -
  assume *: "aligned sz a" "unat m < arr_size b" "4 dvd arr_size b"
  note le = in_block [OF *]
  show "\<exists>v. do_get_mem sz b (a AND m) = Some v" using le do_get_mem_Some_iff [of sz b "a AND m"] by blast
  show "\<exists>b'. do_put_mem sz b (a AND m) v = Some b' \<and> arr_size b' = arr_size b"
    using le do_put_mem_Some_iff [of sz b "a AND m" v] do_get_put_mem(2) [of sz b "a AND m" v] by blast
qed

text \<open>The state of the memory and of the BMAP registers is well-formed.\<close>

abbreviation bus_ok :: "'a memory_scheme \<Rightarrow> bool" where
  "bus_ok s \<equiv> mem_ok s \<and> length (NEXTbmap s) = 16"

text \<open>What is assumed of the devices: they return, and they leave the memory well-formed.\<close>

definition device_ok :: "'a memory_scheme devices \<Rightarrow> bool" where
  "device_ok dev \<longleftrightarrow> (\<forall>s. bus_ok s \<longrightarrow>
     (\<forall>bank sz addr. \<exists>r s'. dev_get dev bank sz addr s = Some (r, s') \<and> bus_ok s')
     \<and> (\<forall>bank sz addr v. \<exists>r s'. dev_put dev bank sz addr v s = Some (r, s') \<and> bus_ok s')
     \<and> (\<exists>s'. dev_Reset_Warm dev s = Some s' \<and> bus_ok s'))"

lemma bmap_lanes_total:
  assumes "length (NEXTbmap s) = 16" "a < 64"
  shows "\<exists>v. bmap_lget a s = Some v" "\<exists>v. bmap_wget a s = Some v" "\<exists>v. bmap_bget a s = Some v"
  using assms bmap_index [OF assms(2)] by (auto simp: bmap_lget_def bmap_wget_def bmap_bget_def bmap_get_def Let_def)

lemma and_3F: "(a AND 0x3F :: u32) < 64"
  using word_and_le1 [of a "0x3F"] by (simp add: word_le_nat_alt word_less_nat_alt)

lemma mem_ok_store:
  "mem_ok s \<Longrightarrow> arr_size m = arr_size (NEXTRam s) \<Longrightarrow> mem_ok (s\<lparr>NEXTRam := m\<rparr>)"
  "mem_ok s \<Longrightarrow> arr_size m = arr_size (NEXTVideo s) \<Longrightarrow> mem_ok (s\<lparr>NEXTVideo := m\<rparr>)"
  unfolding mem_ok_def by (elim conjE, intro conjI; simp)+

lemma mem_okD:
  assumes "mem_ok s"
  shows "4 dvd arr_size (NEXTRam s)" "unat (next_ram_bank0_mask s) < arr_size (NEXTRam s)"
    "unat (next_ram_bank1_mask s) < arr_size (NEXTRam s)" "unat (next_ram_bank2_mask s) < arr_size (NEXTRam s)"
    "unat (next_ram_bank3_mask s) < arr_size (NEXTRam s)" "arr_size (NEXTRom s) = 0x20000"
    "0x3FFFF < arr_size (NEXTVideo s)" "mem_bank s i = VRAM_color_bank \<Longrightarrow> arr_size (NEXTVideo s) = 0x200000"
    "4 dvd arr_size (NEXTVideo s)"
proof -
  have "unat (ram_mask k s) < arr_size (NEXTRam s)" if "k < 4" for k using assms that by (simp add: mem_ok_def)
  from this [of 0] this [of 1] this [of 2] this [of 3]
  show "unat (next_ram_bank0_mask s) < arr_size (NEXTRam s)" "unat (next_ram_bank1_mask s) < arr_size (NEXTRam s)"
    "unat (next_ram_bank2_mask s) < arr_size (NEXTRam s)" "unat (next_ram_bank3_mask s) < arr_size (NEXTRam s)"
    by simp_all
  have v: "arr_size (NEXTVideo s) \<in> {0x40000, 0x200000}" using assms by (simp add: mem_ok_def)
  then show "0x3FFFF < arr_size (NEXTVideo s)" "4 dvd arr_size (NEXTVideo s)" by auto
  show "4 dvd arr_size (NEXTRam s)" "arr_size (NEXTRom s) = 0x20000" using assms by (simp_all add: mem_ok_def)
  show "mem_bank s i = VRAM_color_bank \<Longrightarrow> arr_size (NEXTVideo s) = 0x200000" using assms by (auto simp: mem_ok_def)
qed


lemma mem_get_total:
  assumes ok: "bus_ok s" and al: "aligned sz a" and dev: "device_ok dev"
  shows "\<exists>r s'. mem_get dev sz a s = Some (r, s') \<and> bus_ok s'"
proof -
  note m = mem_okD [OF conjunct1 [OF ok]]
  have dg: "\<exists>r s'. dev_get dev bank sz a s = Some (r, s') \<and> bus_ok s'" for bank
    using dev ok by (auto simp: device_ok_def)
  have ld: "\<exists>r s'. load sz b (a AND k) s = Some (r, s') \<and> bus_ok s'" if "unat k < arr_size b" "4 dvd arr_size b" for b k
    using load_total(1) [OF al that] ok by auto
  show ?thesis
  proof (cases "mem_bank s (bankindex a)")
    case BMAP_bank
    then show ?thesis
      using ok bmap_lanes_total [of s, OF _ and_3F [of a]]
      by (cases sz) (auto simp: mem_get_def mem_bmap_get_def bus_err_def)
  next
    case NCC_bank
    then show ?thesis using dg [of NCC_bank] ok by (cases "sz = SZ_LONG") (auto simp: mem_get_def dummy_get_def)
  next
    case NCC_tag_bank
    then show ?thesis using dg [of NCC_tag_bank] ok by (cases "sz = SZ_LONG") (auto simp: mem_get_def dummy_get_def)
  qed (use m ld [of "next_ram_bank0_mask s" "NEXTRam s"] ld [of "next_ram_bank1_mask s" "NEXTRam s"]
      ld [of "next_ram_bank2_mask s" "NEXTRam s"] ld [of "next_ram_bank3_mask s" "NEXTRam s"]
      ld [of "0x1FFFF" "NEXTRom s"] ld [of "0x3FFFF" "NEXTVideo s"] ld [of "0x1FFFFF" "NEXTVideo s"] dg ok in
      \<open>simp_all add: mem_get_def BusErrMem_get_def mem_rom_get_def mem_ram_bank_get_def mem_ram_empty_get_def
        mem_video_get_def mem_color_video_get_def mem_ram_mwf_get_def mem_video_mwf_get_def dummy_get_def bus_err_def\<close>)
qed

text \<open>The writes to the BMAP chip leave the memory alone, a reset apart.\<close>

lemma mem_fields_set_interrupt [simp]:
  "NEXTRam (set_interrupt i st s) = NEXTRam s" "NEXTVideo (set_interrupt i st s) = NEXTVideo s"
  "NEXTRom (set_interrupt i st s) = NEXTRom s" "mem_bank (set_interrupt i st s) = mem_bank s"
  "next_ram_bank0_mask (set_interrupt i st s) = next_ram_bank0_mask s"
  "next_ram_bank1_mask (set_interrupt i st s) = next_ram_bank1_mask s"
  "next_ram_bank2_mask (set_interrupt i st s) = next_ram_bank2_mask s"
  "next_ram_bank3_mask (set_interrupt i st s) = next_ram_bank3_mask s"
  by (simp_all add: set_interrupt_def scr_get_interrupt_level_def M68000_CheckInterrupt_def Let_def)

lemma mem_ok_set_interrupt [simp]: "mem_ok (set_interrupt i st s) = mem_ok s"
  by (simp add: mem_ok_def)

lemma mem_ok_bmap [simp]:
  "mem_ok (s\<lparr>NEXTbmap := r\<rparr>) = mem_ok s" "mem_ok (s\<lparr>bmap_rom_local := f\<rparr>) = mem_ok s"
  "mem_ok (s\<lparr>bmap_tpe_select := f\<rparr>) = mem_ok s" "mem_ok (s\<lparr>bmap_hreq_enable := f, bmap_txdn_enable := g\<rparr>) = mem_ok s"
  by (simp_all add: mem_ok_def)

lemma bmap_put_bus_ok:
  assumes "bus_ok s" "unat r < 16" "\<exists>s'. Reset_Warm s = Some s' \<and> bus_ok s'"
  shows "\<exists>s'. bmap_put Reset_Warm r v s = Some s' \<and> bus_ok s'"
  using assms by (auto simp: bmap_put_def bmap_side_effect_def scr_check_dsp_interrupt_def Let_def)

lemma bmap_writes_bus_ok:
  assumes "bus_ok s" "a < 64" "\<exists>s'. Reset_Warm s = Some s' \<and> bus_ok s'"
  shows "\<exists>s'. bmap_lput Reset_Warm a v s = Some s' \<and> bus_ok s'" "\<exists>s'. bmap_wput Reset_Warm a v s = Some s' \<and> bus_ok s'"
    "\<exists>s'. bmap_bput Reset_Warm a v s = Some s' \<and> bus_ok s'"
  using assms(1) bmap_put_bus_ok [where Reset_Warm = Reset_Warm, OF assms(1) bmap_index [OF assms(2)] assms(3)] bmap_index [OF assms(2)]
  by (auto simp: bmap_lput_def bmap_wput_def bmap_bput_def Let_def)

text \<open>The banks whose write functions do not write through another address.\<close>

definition plain_bank :: "addrbank \<Rightarrow> bool" where
  "plain_bank b \<longleftrightarrow> b \<noteq> RAM_mwf_bank \<and> b \<noteq> VRAM_mwf_bank"

lemma put_step_plain:
  "plain_bank (mem_bank s (bankindex a)) \<Longrightarrow> put_step dev put1 sz a v s = put_step dev put2 sz a v s"
  by (simp add: put_step_def plain_bank_def Let_def split: addrbank.splits)

lemma put_step_total:
  assumes ok: "bus_ok s" and al: "aligned sz a" and dev: "device_ok dev" and plain: "plain_bank (mem_bank s (bankindex a))"
  shows "\<exists>r s'. put_step dev put sz a v s = Some (r, s') \<and> bus_ok s'"
proof -
  note m = mem_okD [OF conjunct1 [OF ok]]
  have dg: "\<exists>r s'. dev_put dev bank sz a v s = Some (r, s') \<and> bus_ok s'" for bank
    using dev ok by (auto simp: device_ok_def)
  have st: "\<exists>r s'. store_ram sz (a AND k) v s = Some (r, s') \<and> bus_ok s'" if "unat k < arr_size (NEXTRam s)" for k
    using load_total(2) [OF al that m(1), of v] ok mem_ok_store(1) [of s] by auto
  have sv: "\<exists>r s'. store_video sz (a AND k) v s = Some (r, s') \<and> bus_ok s'" if "unat k < arr_size (NEXTVideo s)" for k
    using load_total(2) [OF al that m(9), of v] ok mem_ok_store(2) [of s] by auto
  show ?thesis
  proof (cases "mem_bank s (bankindex a)")
    case BMAP_bank
    have reset: "\<exists>s'. dev_Reset_Warm dev s = Some s' \<and> bus_ok s'" using dev ok by (auto simp: device_ok_def)
    show ?thesis
      using BMAP_bank bmap_writes_bus_ok [where Reset_Warm = "dev_Reset_Warm dev" and v = v, OF ok and_3F [of a] reset] ok
      by (cases sz) (auto simp: put_step_def mem_bmap_put_def bus_err_def)
  next
    case NCC_bank
    then show ?thesis using dg [of NCC_bank] ok by (cases "sz = SZ_LONG") (auto simp: put_step_def dummy_put_def)
  next
    case NCC_tag_bank
    then show ?thesis using dg [of NCC_tag_bank] ok by (cases "sz = SZ_LONG") (auto simp: put_step_def dummy_put_def)
  qed (use m st [of "next_ram_bank0_mask s"] st [of "next_ram_bank1_mask s"]
      st [of "next_ram_bank2_mask s"] st [of "next_ram_bank3_mask s"]
      sv [of "0x3FFFF"] sv [of "0x1FFFFF"] dg ok plain in
      \<open>simp_all add: put_step_def BusErrMem_put_def mem_rom_put_def mem_ram_bank_put_def mem_ram_empty_put_def
        mem_video_put_def mem_color_video_put_def dummy_put_def bus_err_def plain_bank_def split: bus_size.splits\<close>)
qed


text \<open>The address behind a mirror lies in main or video memory.\<close>

lemma push_and_take: "push_bit n x AND take_bit n y = (0 :: u32)"
  by (rule bit_word_eqI) (auto simp: bit_simps)

lemma ram_target: "unat (NEXT_RAM_START OR (a AND NEXT_RAM_MASK)) = 0x04000000 + unat a mod 0x04000000"
proof -
  have m: "a AND NEXT_RAM_MASK = take_bit 26 a" by (simp add: take_bit_eq_mask mask_eq_exp_minus_1)
  have "NEXT_RAM_START AND take_bit 26 a = 0"
    using push_and_take [of 26 1 a] by simp
  then have "NEXT_RAM_START OR (a AND NEXT_RAM_MASK) = NEXT_RAM_START + take_bit 26 a"
    unfolding m by (rule disjunctive_add_eq_or [symmetric])
  moreover have t: "unat (take_bit 26 a) = unat a mod 0x04000000"
    unfolding unsigned_take_bit_eq by (simp add: take_bit_eq_mod)
  ultimately show ?thesis by (simp only: unat_word_ariths t) simp
qed

lemma video_target: "unat (NEXT_VRAM_START OR (a AND NEXT_VRAM_MASK)) = 0x0B000000 + unat a mod 0x00040000"
proof -
  have m: "a AND NEXT_VRAM_MASK = take_bit 18 a" by (simp add: take_bit_eq_mask mask_eq_exp_minus_1)
  have "NEXT_VRAM_START AND take_bit 18 a = 0"
    using push_and_take [of 18 704 a] by simp
  then have "NEXT_VRAM_START OR (a AND NEXT_VRAM_MASK) = NEXT_VRAM_START + take_bit 18 a"
    unfolding m by (rule disjunctive_add_eq_or [symmetric])
  moreover have t: "unat (take_bit 18 a) = unat a mod 0x00040000"
    unfolding unsigned_take_bit_eq by (simp add: take_bit_eq_mod)
  ultimately show ?thesis by (simp only: unat_word_ariths t) simp
qed

lemma mirror_aligned:
  "aligned sz a \<Longrightarrow> aligned sz (NEXT_RAM_START OR (a AND NEXT_RAM_MASK))"
  "aligned sz a \<Longrightarrow> aligned sz (NEXT_VRAM_START OR (a AND NEXT_VRAM_MASK))"
  unfolding aligned_def ram_target video_target
  by (cases sz; simp add: dvd_mod_iff dvd_add_right_iff)+

lemma ram_target_bank:
  assumes "mem_ok s" "mem_bank s i = RAM_mwf_bank"
  shows "mem_bank s (bankindex (NEXT_RAM_START OR (a AND NEXT_RAM_MASK)))
    \<in> {RAM_bank0, RAM_bank1, RAM_bank2, RAM_bank3, RAM_empty_bank}"
proof -
  have "0x400 \<le> (0x04000000 + unat a mod 0x04000000) div 0x10000" "(0x04000000 + unat a mod 0x04000000) div 0x10000 < 0x800"
    by (simp_all add: div_less_iff_less_mult)
  then show ?thesis using assms unfolding mem_ok_def bankindex_unat [symmetric] ram_target [symmetric] by blast
qed

lemma video_target_bank:
  assumes "mem_ok s" "mem_bank s i = VRAM_mwf_bank"
  shows "mem_bank s (bankindex (NEXT_VRAM_START OR (a AND NEXT_VRAM_MASK))) = VRAM_bank"
proof -
  have "0xB00 \<le> (0x0B000000 + unat a mod 0x00040000) div 0x10000" "(0x0B000000 + unat a mod 0x00040000) div 0x10000 < 0xB04"
    by (simp_all add: div_less_iff_less_mult)
  then show ?thesis using assms unfolding mem_ok_def bankindex_unat [symmetric] video_target [symmetric] by blast
qed

lemma write_func_total: "f < 4 \<Longrightarrow> \<exists>r. memory_write_func old v f n = Some r"
  by (auto simp: memory_write_func_def lt_4_cases)

lemma and_3_lt: "unat (x AND 3 :: u32) < 4"
  using word_and_le1 [of x 3] by (simp add: word_le_nat_alt)

text \<open>A load from main or video memory does not change the state.\<close>

lemma mem_get_pure:
  assumes "mem_bank s (bankindex a) \<in> {RAM_bank0, RAM_bank1, RAM_bank2, RAM_bank3, RAM_empty_bank, VRAM_bank}"
    "bus_ok s" "aligned sz a" "device_ok dev"
  shows "\<exists>v. mem_get dev sz a s = Some (Inr v, s)"
proof -
  from mem_get_total [OF assms(2-4)] obtain r s' where "mem_get dev sz a s = Some (r, s')" by blast
  then show ?thesis
    using assms(1)
    by (auto simp: mem_get_def mem_ram_bank_get_def mem_ram_empty_get_def mem_video_get_def)
qed

lemma mwf_put_total:
  assumes bank: "mem_bank s (bankindex a) \<in> {RAM_bank0, RAM_bank1, RAM_bank2, RAM_bank3, RAM_empty_bank, VRAM_bank}"
    and ok: "bus_ok s" "aligned sz a" "device_ok dev" and f: "f < 4"
  shows "\<exists>old val. mem_get dev sz a s = Some (Inr old, s) \<and> memory_write_func old v f (bytes_of sz) = Some val
    \<and> (\<forall>put. mwf_put dev put f sz a v s = put sz a val s)"
proof -
  from mem_get_pure [OF bank ok] obtain old where "mem_get dev sz a s = Some (Inr old, s)" by blast
  moreover from write_func_total [OF f] obtain val where "memory_write_func old v f (bytes_of sz) = Some val" by blast
  ultimately show ?thesis by (simp add: mwf_put_def)
qed

lemma plain_bankI:
  "b \<in> {RAM_bank0, RAM_bank1, RAM_bank2, RAM_bank3, RAM_empty_bank, VRAM_bank} \<Longrightarrow> plain_bank b"
  by (auto simp: plain_bank_def)

lemma mem_put_total:
  assumes ok: "bus_ok s" "aligned sz a" "device_ok dev"
  shows "(\<exists>r s'. mem_put dev sz a v s = Some (r, s') \<and> bus_ok s')
    \<and> mem_put dev sz a v s = put_step dev (mem_put dev) sz a v s"
proof (cases "plain_bank (mem_bank s (bankindex a))")
  case True
  then show ?thesis
    using put_step_total [OF ok True] put_step_plain [OF True] unfolding mem_put_def by metis
next
  case False
  define t where "t = (if mem_bank s (bankindex a) = RAM_mwf_bank then NEXT_RAM_START OR (a AND NEXT_RAM_MASK)
    else NEXT_VRAM_START OR (a AND NEXT_VRAM_MASK))"
  define f where "f = (if mem_bank s (bankindex a) = RAM_mwf_bank then unat (drop_bit 26 a AND 3) else unat (drop_bit 24 a AND 3))"
  have bank: "mem_bank s (bankindex t) \<in> {RAM_bank0, RAM_bank1, RAM_bank2, RAM_bank3, RAM_empty_bank, VRAM_bank}"
    using False ok(1) ram_target_bank [of s _ a] video_target_bank [of s _ a] by (auto simp: t_def plain_bank_def)
  have al: "aligned sz t" using mirror_aligned [OF ok(2)] by (simp add: t_def)
  have "f < 4" by (simp add: f_def and_3_lt)
  from mwf_put_total [OF bank ok(1) al ok(3) this] obtain old val where
    val: "mem_get dev sz t s = Some (Inr old, s)" "memory_write_func old v f (bytes_of sz) = Some val"
    "\<forall>put. mwf_put dev put f sz t v s = put sz t val s" by blast
  have step: "put_step dev put sz a v s = put sz t val s" for put
    using False val(3) by (auto simp: put_step_def plain_bank_def t_def f_def mem_ram_mwf_put_def mem_video_mwf_put_def)
  have plain: "plain_bank (mem_bank s (bankindex t))" using bank by (rule plain_bankI)
  show ?thesis
    using put_step_total [OF ok(1) al ok(3) plain] put_step_plain [OF plain] step unfolding mem_put_def by metis
qed


section \<open>Reachable states\<close>

inductive bus_reachable :: "'a memory_scheme devices \<Rightarrow> (nat \<Rightarrow> mem_array) \<Rightarrow> 'a memory_scheme \<Rightarrow> bool"
  for dev malloc_aligned where
  init: "four_banks s \<Longrightarrow> length (NEXTbmap s) = 16 \<Longrightarrow> memory_init malloc_aligned s = (0, s')
    \<Longrightarrow> bus_reachable dev malloc_aligned s'"
| get: "bus_reachable dev malloc_aligned s \<Longrightarrow> aligned sz a \<Longrightarrow> mem_get dev sz a s = Some (r, s')
    \<Longrightarrow> bus_reachable dev malloc_aligned s'"
| put: "bus_reachable dev malloc_aligned s \<Longrightarrow> aligned sz a \<Longrightarrow> mem_put dev sz a v s = Some (r', s')
    \<Longrightarrow> bus_reachable dev malloc_aligned s'"

lemma bus_reachable_ok:
  assumes "bus_reachable dev malloc_aligned s" "malloc_ok malloc_aligned" "device_ok dev"
  shows "bus_ok s"
  using assms(1)
proof induction
  case (init s s')
  then show ?case using mem_ok_memory_init [OF init(3) assms(2) init(1)] memory_init_fields(6) [OF init(3) assms(2)] by simp
next
  case (get s sz a r s')
  then show ?case using mem_get_total [OF get.IH get.hyps(2) assms(3)] by auto
next
  case (put s sz a v r' s')
  then show ?case using mem_put_total [OF put.IH put.hyps(2) assms(3), of v] by auto
qed

text \<open>
  C16. In every state reached from \<open>memory_init\<close> by aligned accesses, whatever the configured
  machine and bank sizes, each further aligned access of any width to any address returns: it
  stays inside the allocated memory, and a write through a mirror ends after one nested write.
  Devices are assumed to return and not to damage the memory tables.
\<close>

theorem bus_access_safe:
  assumes "bus_reachable dev malloc_aligned s" "malloc_ok malloc_aligned" "device_ok dev" "aligned sz a"
  shows "mem_get dev sz a s \<noteq> None \<and> mem_put dev sz a v s \<noteq> None
    \<and> mem_put dev sz a v s = put_step dev (mem_put dev) sz a v s"
  using mem_get_total [OF bus_reachable_ok [OF assms(1-3)] assms(4,3)]
    mem_put_total [OF bus_reachable_ok [OF assms(1-3)] assms(4,3), of v] by (metis option.distinct(1))

text \<open>A machine with a ROM image, and devices that answer every access with a bus error.\<close>

definition sample_memory :: memory where
  "sample_memory = bmap.extend (sample_bmap\<lparr>host_files := [''rom040'' \<mapsto> replicate 64 0]\<rparr>)
     (memory.fields NULL NULL NULL 0 0 0 0 0 0 init_mem_banks)"

definition sample_devices :: "'a memory_scheme devices" where
  "sample_devices = \<lparr>dev_get = (\<lambda>bank sz addr s. bus_err True sz addr 0 s),
     dev_put = (\<lambda>bank sz addr v s. bus_err False sz addr v s), dev_Reset_Warm = Some \<circ> BMAP_Reset\<rparr>"

definition sample_malloc :: "nat \<Rightarrow> mem_array" where
  "sample_malloc n = \<lparr>arr_size = n, arr_byte = (\<lambda>_. 0)\<rparr>"

lemma sample_malloc_ok: "malloc_ok sample_malloc"
  by (simp add: malloc_ok_def sample_malloc_def)

lemma sample_devices_ok: "device_ok sample_devices"
  by (auto simp: device_ok_def sample_devices_def bus_err_def BMAP_Reset_def mem_ok_def)

lemmas sample_memory_defs = sample_memory_def sample_bmap_def BMAP_Reset_def sample_scsi_defs bmap.defs memory.defs

lemma sample_memory_init: "fst (memory_init sample_malloc sample_memory) = 0" "four_banks sample_memory"
  "length (NEXTbmap sample_memory) = 16"
  by (simp_all add: memory_init_def memory_uninit_def sample_malloc_def sample_memory_defs ram_layout_def rom_load_def
      File_Open_def memset0_def Let_def)

abbreviation sample_bus :: memory where
  "sample_bus \<equiv> snd (memory_init sample_malloc sample_memory)"

lemma sample_bus_init: "memory_init sample_malloc sample_memory = (0, sample_bus)"
  using sample_memory_init(1) by (simp add: prod_eq_iff)

lemma sample_bus_reachable: "bus_reachable sample_devices sample_malloc sample_bus"
  using sample_memory_init sample_bus_init by (auto intro: bus_reachable.init)

theorem bus_access_safe_witness:
  "bus_reachable sample_devices sample_malloc sample_bus \<and> aligned SZ_LONG 0x04000010
   \<and> mem_put sample_devices SZ_LONG 0x04000010 7 sample_bus \<noteq> None"
proof -
  have al: "aligned SZ_LONG 0x04000010" by (simp add: aligned_def)
  from bus_access_safe [OF sample_bus_reachable sample_malloc_ok sample_devices_ok al, of 7] al sample_bus_reachable
  show ?thesis by blast
qed

section \<open>Main memory is a store\<close>

lemma ram_bank_access:
  assumes "mem_bank s (bankindex a) = RAM_bank k" "k < 4"
  shows "mem_get dev sz a s = load sz (NEXTRam s) (a AND ram_mask k s) s"
    "mem_put dev sz a v s = store_ram sz (a AND ram_mask k s) v s"
  using assms
  by (auto simp: lt_4_cases mem_get_def mem_put_def put_step_def mem_ram_bank_get_def mem_ram_bank_put_def)

lemma bank_size_bytes:
  assumes "four_banks s" "k < 4"
  shows "unat (bank_bytes (bank_sizes s ! k)) = nat (bank_sizes s ! k) * 2 ^ 20"
proof -
  have "bank_sizes s ! k \<in> {0, 1, 2, 4, 8, 16, 32}"
    using assms by (auto simp: bank_sizes_def Configuration_CheckMemory_def check_banksize_def Let_def nth_list_update)
  then show ?thesis by (elim insertE emptyE) simp_all
qed

text \<open>The cell behind an address of bank \<open>k\<close>: the bank's part of main memory, and the offset in it.\<close>

abbreviation bank_length :: "'a memory_scheme \<Rightarrow> nat \<Rightarrow> nat" where
  "bank_length s k \<equiv> nat (bank_sizes s ! k) * 2 ^ 20"

lemma window_div:
  assumes "in_window c k a"
  shows "unat a div 2 ^ window_bits c = 2 ^ (26 - window_bits c) + k"
proof -
  have "(2 ^ (26 - window_bits c) + k) * 2 ^ window_bits c = 0x04000000 + k * 2 ^ window_bits c"
    using ram_layout_bits(3) [of c] by (simp add: add_mult_distrib flip: power_add)
  moreover have "(2 ^ (26 - window_bits c) + k + 1) * 2 ^ window_bits c = 0x04000000 + (k + 1) * 2 ^ window_bits c"
    using ram_layout_bits(3) [of c] by (simp add: add_mult_distrib flip: power_add)
  ultimately show ?thesis
    using assms by (intro div_nat_eqI) (simp_all add: in_window_def mult.commute)
qed

lemma ram_cell:
  assumes init: "memory_init malloc_aligned s = (0, s')" "malloc_ok malloc_aligned" and four: "four_banks s"
    and k: "k < 4" "bank_sizes s ! k \<noteq> 0" and w: "in_window (System (ConfigureParams s)) k a"
  shows "mem_bank s' (bankindex a) = RAM_bank k"
    "unat (a AND ram_mask k s') = (2 ^ (26 - window_bits (System (ConfigureParams s))) + k) mod 4
        * 2 ^ window_bits (System (ConfigureParams s)) + unat a mod bank_length s k"
    "bank_length s k \<le> 2 ^ window_bits (System (ConfigureParams s))" "0 < bank_length s k"
proof -
  let ?n = "window_bits (System (ConfigureParams s))"
  show "mem_bank s' (bankindex a) = RAM_bank k"
    using ram_map [OF k(1) w] memory_init_fields(1) [OF init] bank_bytes_eq_0 [OF four k(1)] k by (auto simp: lt_4_cases)
  from bank_size_power [OF four k] obtain m where
    m: "20 \<le> m" "m \<le> ?n" "bank_bytes (bank_sizes s ! k) = 2 ^ m" by blast
  have "m < 32" using m(2) ram_layout_bits(3) [of "System (ConfigureParams s)"] by simp
  then have "(2 ^ m :: nat) < 2 ^ 32" by (intro power_strict_increasing) auto
  then have "unat (2 ^ m :: u32) = 2 ^ m" using unat_of_nat [of "2 ^ m", where ?'a = 32] by simp
  then have len: "bank_length s k = 2 ^ m" using bank_size_bytes [OF four k(1)] m(3) by simp
  then show "bank_length s k \<le> 2 ^ ?n" "0 < bank_length s k" using m(2) by (simp_all add: power_increasing)
  show "unat (a AND ram_mask k s') = (2 ^ (26 - ?n) + k) mod 4 * 2 ^ ?n + unat a mod bank_length s k"
    using unat_and_bank_mask [OF m(2) ram_layout_bits(3) m(1), of a] memory_init_fields(2) [OF init k(1)] m(3)
    unfolding len window_div [OF w] ram_layout_bits(1) by simp
qed


lemma same_cell_iff:
  fixes n len len' x y i j :: nat
  assumes "x mod len + (i mod 4) * n = y mod len' + (j mod 4) * n" "len \<le> n" "len' \<le> n" "0 < len" "0 < len'"
  shows "i mod 4 = j mod 4 \<and> x mod len = y mod len'"
proof -
  have "x mod len < n" "y mod len' < n" using assms(2-5) by (meson less_le_trans mod_less_divisor)+
  moreover from this have "0 < n" by simp
  ultimately have "i mod 4 = (x mod len + (i mod 4) * n) div n" "j mod 4 = (y mod len' + (j mod 4) * n) div n" by simp_all
  with assms(1) have "i mod 4 = j mod 4" by simp
  with assms(1) show ?thesis by simp
qed

lemma mod_4_inj:
  fixes q k j :: nat
  assumes "(q + k) mod 4 = (q + j) mod 4" "k < 4" "j < 4"
  shows "k = j"
proof -
  have "4 dvd (int q + int k) - (int q + int j)" using assms(1) by (simp add: mod_eq_dvd_iff flip: of_nat_add zmod_int) (metis assms(1) mod_eq_dvd_iff of_nat_add of_nat_numeral zmod_int)
  then have "4 dvd int k - int j" by simp
  then show ?thesis using assms(2,3) by presburger
qed

text \<open>
  A state of the machine that \<open>memory_init\<close> has set up: the memory map and the size of main memory
  are those of \<open>memory_init\<close>, the contents of main memory and all other data are arbitrary.
\<close>

definition same_map :: "'a memory_scheme \<Rightarrow> 'a memory_scheme \<Rightarrow> bool" where
  "same_map s t \<longleftrightarrow> mem_bank t = mem_bank s \<and> (\<forall>k < 4. ram_mask k t = ram_mask k s) \<and> arr_size (NEXTRam t) = arr_size (NEXTRam s)"

lemma same_map_cell:
  assumes init: "memory_init malloc_aligned s = (0, s')" "malloc_ok malloc_aligned" and four: "four_banks s"
    and k: "k < 4" "bank_sizes s ! k \<noteq> 0" and w: "in_window (System (ConfigureParams s)) k a" and t: "same_map s' t"
  shows "mem_bank t (bankindex a) = RAM_bank k"
    "unat (a AND ram_mask k t) = (2 ^ (26 - window_bits (System (ConfigureParams s))) + k) mod 4
        * 2 ^ window_bits (System (ConfigureParams s)) + unat a mod bank_length s k"
    "unat (ram_mask k t) < arr_size (NEXTRam t)" "4 dvd arr_size (NEXTRam t)"
proof -
  note map = t [unfolded same_map_def, THEN conjunct1] t [unfolded same_map_def, THEN conjunct2, THEN conjunct1, rule_format, OF k(1)]
    t [unfolded same_map_def, THEN conjunct2, THEN conjunct2]
  show "mem_bank t (bankindex a) = RAM_bank k" unfolding map by (rule ram_cell(1) [OF init four k w])
  show "unat (a AND ram_mask k t) = (2 ^ (26 - window_bits (System (ConfigureParams s))) + k) mod 4
        * 2 ^ window_bits (System (ConfigureParams s)) + unat a mod bank_length s k" unfolding map by (rule ram_cell(2) [OF init four k w])
  have "mem_ok s'" by (rule mem_ok_memory_init [OF init four])
  then show "unat (ram_mask k t) < arr_size (NEXTRam t)" "4 dvd arr_size (NEXTRam t)" unfolding map using k(1) by (simp_all add: mem_ok_def)
qed

text \<open>
  C17. Main memory behaves as four separate stores. In the machine that \<open>memory_init\<close> sets up, for
  every configuration and every contents of memory, a long word written to an aligned address of
  a bank is read back at each address of the same bank that differs by a multiple of the bank's
  size, and every other address of any bank reads as before: the bank masks neither let banks
  overlap nor reach outside them.
\<close>

theorem ram_banks_store:
  assumes init: "memory_init malloc_aligned s = (0, s')" "malloc_ok malloc_aligned" and four: "four_banks s" and map: "same_map s' t"
    and k: "k < 4" "bank_sizes s ! k \<noteq> 0" "in_window (System (ConfigureParams s)) k a" "aligned SZ_LONG a"
    and j: "j < 4" "bank_sizes s ! j \<noteq> 0" "in_window (System (ConfigureParams s)) j b" "aligned SZ_LONG b"
  shows "\<exists>t' w. mem_put dev SZ_LONG a v t = Some (Inr (), t') \<and> mem_get dev SZ_LONG b t = Some (Inr w, t)
    \<and> mem_get dev SZ_LONG b t' = Some (Inr (if j = k \<and> unat a mod bank_length s k = unat b mod bank_length s k then v else w), t')"
proof -
  let ?c = "System (ConfigureParams s)"
  note A = same_map_cell [OF init four k(1-3) map] and B = same_map_cell [OF init four j(1-3) map]
  note lenA = ram_cell(3,4) [OF init four k(1-3)] and lenB = ram_cell(3,4) [OF init four j(1-3)]
  let ?x = "a AND ram_mask k t" and ?y = "b AND ram_mask j t"
  from load_total(2) [OF k(4) A(3,4), of v] obtain m where
    m: "do_put_mem SZ_LONG (NEXTRam t) ?x v = Some m" "arr_size m = arr_size (NEXTRam t)" by blast
  from load_total(1) [OF j(4) B(3,4)] obtain w where w: "do_get_mem SZ_LONG (NEXTRam t) ?y = Some w" by blast
  have put: "mem_put dev SZ_LONG a v t = Some (Inr (), t\<lparr>NEXTRam := m\<rparr>)"
    using ram_bank_access(2) [OF A(1) k(1), where dev = dev] m by simp
  have get: "mem_get dev SZ_LONG b t = Some (Inr w, t)"
    using ram_bank_access(1) [OF B(1) j(1), where dev = dev] w by simp
  have "mem_bank (t\<lparr>NEXTRam := m\<rparr>) (bankindex b) = RAM_bank j" using B(1) by simp
  from ram_bank_access(1) [OF this j(1), where dev = dev]
  have get2: "mem_get dev SZ_LONG b (t\<lparr>NEXTRam := m\<rparr>) = load SZ_LONG m ?y (t\<lparr>NEXTRam := m\<rparr>)" by simp
  have "?x = ?y \<longleftrightarrow> j = k \<and> unat a mod bank_length s k = unat b mod bank_length s k"
  proof
    assume "?x = ?y"
    then have "unat ?x = unat ?y" by simp
    then have "(2 ^ (26 - window_bits ?c) + k) mod 4 = (2 ^ (26 - window_bits ?c) + j) mod 4
        \<and> unat a mod bank_length s k = unat b mod bank_length s j"
      unfolding A(2) B(2) by (intro same_cell_iff [OF _ lenA(1) lenB(1) lenA(2) lenB(2)]) simp
    moreover have "k = j" if "(q + k) mod 4 = (q + j) mod 4" for q by (rule mod_4_inj [OF that k(1) j(1)])
    ultimately show "j = k \<and> unat a mod bank_length s k = unat b mod bank_length s k" by blast
  next
    assume "j = k \<and> unat a mod bank_length s k = unat b mod bank_length s k"
    then show "?x = ?y" using A(2) B(2) by (simp add: word_unat_eq_iff)
  qed
  moreover have "unat ?y + 4 \<le> unat ?x \<or> unat ?x + 4 \<le> unat ?y" if "?x \<noteq> ?y"
  proof -
    have "4 dvd unat ?x" "4 dvd unat ?y" using aligned_and_mask [OF k(4)] aligned_and_mask [OF j(4)] by (simp_all add: aligned_def)
    moreover have "unat ?x \<noteq> unat ?y" using that by (simp add: word_unat_eq_iff)
    ultimately show ?thesis by presburger
  qed
  ultimately show ?thesis
    using put get get2 w do_get_put_mem(1) [OF m(1)] do_get_put_mem_other [OF m(1), of ?y SZ_LONG] by auto
qed


lemma sample_bus_config:
  "System (ConfigureParams sample_memory) = System sample_config" "bank_sizes sample_memory = [16, 16, 0, 0]"
  "window_bits (System sample_config) = 24"
  by (simp_all add: sample_memory_defs bank_sizes_def Configuration_CheckMemory_def check_banksize_def window_bits_def Let_def)

text \<open>A machine in use: every byte of main memory is 0x55.\<close>

definition sample_used :: memory where
  "sample_used = sample_bus\<lparr>NEXTRam := (NEXTRam sample_bus)\<lparr>arr_byte := (\<lambda>i. 0x55)\<rparr>\<rparr>"

lemma sample_used_map: "same_map sample_bus sample_used"
  by (simp add: same_map_def sample_used_def)

lemma sample_used_load:
  "do_get_mem SZ_BYTE (NEXTRam sample_used) x = Some v \<Longrightarrow> v = 0x55" "do_get_mem SZ_LONG (NEXTRam sample_used) x = Some v \<Longrightarrow> v = 0x55555555"
  by (auto simp: sample_used_def do_get_mem_def be_long_def Let_def split: if_splits)

lemma sample_used_get:
  assumes "k < 2" "in_window (System sample_config) k a" "aligned sz a"
  shows "\<exists>v. mem_get dev sz a sample_used = Some (Inr v, sample_used) \<and> do_get_mem sz (NEXTRam sample_used) (a AND ram_mask k sample_used) = Some v"
proof -
  have k: "k < 4" "bank_sizes sample_memory ! k \<noteq> 0" using assms(1) by (auto simp: sample_bus_config less_2_cases_iff)
  note A = same_map_cell [OF sample_bus_init sample_malloc_ok sample_memory_init(2) k _ sample_used_map, of a]
  from load_total(1) [OF assms(3) A(3,4)] ram_bank_access(1) [OF A(1) k(1), of dev sz] assms(2) show ?thesis
    by (auto simp: sample_bus_config)
qed

lemma sample_used_values:
  "mem_get dev SZ_BYTE 0x04000010 sample_used = Some (Inr 0x55, sample_used)"
  "mem_get dev SZ_LONG 0x05000010 sample_used = Some (Inr 0x55555555, sample_used)"
  using sample_used_get [of 0 "0x04000010" SZ_BYTE dev] sample_used_get [of 1 "0x05000010" SZ_LONG dev] sample_used_load
  by (auto simp: in_window_def aligned_def sample_bus_config)

theorem ram_banks_store_witness:
  "\<exists>t. mem_put sample_devices SZ_LONG 0x04000010 7 sample_used = Some (Inr (), t)
     \<and> mem_get sample_devices SZ_LONG 0x05000010 t = Some (Inr 0x55555555, t)"
  using ram_banks_store [OF sample_bus_init sample_malloc_ok sample_memory_init(2) sample_used_map, of 0 "0x04000010" 1 "0x05000010"
      sample_devices 7] sample_used_values(2) [of sample_devices]
  by (auto simp: sample_bus_config in_window_def aligned_def)

section \<open>Memory write functions\<close>












end
