(* ===== verification/EspRegs.thy ===== *)
theory EspRegs
  imports MemBus
begin

text \<open>
  The lower half of the SCSI controller NCR53C90A (\<open>esp.c\<close>): its registers, the 16 byte FIFO, the
  end of a transfer, and the four functions through which the DMA channel fetches and delivers
  bytes. The upper half, the commands and the event handlers, uses the DMA controller and
  is in \<open>Esp\<close>.
\<close>

section \<open>State\<close>

record ESPDMASTATUS =
  espdma_control :: u8
  espdma_status :: u8

datatype SCSI_STATE = DISCONNECTED | INITIATOR | TARGET

datatype ESP_IO_STATE = ESP_IO_STATE_TRANSFERING | ESP_IO_STATE_FLUSHING | ESP_IO_STATE_DONE

record esp = memory +
  esp_dma :: ESPDMASTATUS
  esp_state :: SCSI_STATE
  esp_io_state :: ESP_IO_STATE
  esp_cmd_state :: u8
  writetranscountl :: u8
  writetranscounth :: u8
  esp_fifo :: "u8 list"
  esp_command :: "u8 list"
  esp_status :: u8
  selectbusid :: u8
  intstatus :: u8
  selecttimeout :: u8
  seqstep :: u8
  syncperiod :: u8
  fifoflags :: u8
  syncoffset :: u8
  esp_configuration :: u8
  clockconv :: u8
  esptest :: u8
  esp_counter :: u32
  mode_dma :: u8

abbreviation (input) ESP_FIFO_SIZE :: u8 where "ESP_FIFO_SIZE \<equiv> 16"

abbreviation (input) ESP_CMD_INPROGRESS :: u8 where "ESP_CMD_INPROGRESS \<equiv> 0x01"
abbreviation (input) ESP_CMD_WAITING :: u8 where "ESP_CMD_WAITING \<equiv> 0x02"

abbreviation (input) CMD_DMA :: u8 where "CMD_DMA \<equiv> 0x80"
abbreviation (input) CMD_CMD :: u8 where "CMD_CMD \<equiv> 0x7f"
abbreviation (input) CMD_TYP_MASK :: u8 where "CMD_TYP_MASK \<equiv> 0x70"
abbreviation (input) CMD_TYP_MSC :: u8 where "CMD_TYP_MSC \<equiv> 0x00"
abbreviation (input) CMD_TYP_TGT :: u8 where "CMD_TYP_TGT \<equiv> 0x20"
abbreviation (input) CMD_TYP_INR :: u8 where "CMD_TYP_INR \<equiv> 0x10"
abbreviation (input) CMD_TYP_DIS :: u8 where "CMD_TYP_DIS \<equiv> 0x40"
abbreviation (input) CMD_NOP :: u8 where "CMD_NOP \<equiv> 0x00"
abbreviation (input) CMD_FLUSH :: u8 where "CMD_FLUSH \<equiv> 0x01"
abbreviation (input) CMD_RESET :: u8 where "CMD_RESET \<equiv> 0x02"
abbreviation (input) CMD_BUSRESET :: u8 where "CMD_BUSRESET \<equiv> 0x03"
abbreviation (input) CMD_TI :: u8 where "CMD_TI \<equiv> 0x10"
abbreviation (input) CMD_ICCS :: u8 where "CMD_ICCS \<equiv> 0x11"
abbreviation (input) CMD_MSGACC :: u8 where "CMD_MSGACC \<equiv> 0x12"
abbreviation (input) CMD_PAD :: u8 where "CMD_PAD \<equiv> 0x18"
abbreviation (input) CMD_SATN :: u8 where "CMD_SATN \<equiv> 0x1a"
abbreviation (input) CMD_RESEL :: u8 where "CMD_RESEL \<equiv> 0x40"
abbreviation (input) CMD_SEL :: u8 where "CMD_SEL \<equiv> 0x41"
abbreviation (input) CMD_SELATN :: u8 where "CMD_SELATN \<equiv> 0x42"
abbreviation (input) CMD_SELATNS :: u8 where "CMD_SELATNS \<equiv> 0x43"
abbreviation (input) CMD_ENSEL :: u8 where "CMD_ENSEL \<equiv> 0x44"
abbreviation (input) CMD_DISSEL :: u8 where "CMD_DISSEL \<equiv> 0x45"
abbreviation (input) CMD_SEMSG :: u8 where "CMD_SEMSG \<equiv> 0x20"
abbreviation (input) CMD_SESTAT :: u8 where "CMD_SESTAT \<equiv> 0x21"
abbreviation (input) CMD_SEDAT :: u8 where "CMD_SEDAT \<equiv> 0x22"
abbreviation (input) CMD_DISSEQ :: u8 where "CMD_DISSEQ \<equiv> 0x23"
abbreviation (input) CMD_TERMSEQ :: u8 where "CMD_TERMSEQ \<equiv> 0x24"
abbreviation (input) CMD_TCCS :: u8 where "CMD_TCCS \<equiv> 0x25"
abbreviation (input) CMD_DIS :: u8 where "CMD_DIS \<equiv> 0x27"
abbreviation (input) CMD_RMSGSEQ :: u8 where "CMD_RMSGSEQ \<equiv> 0x28"
abbreviation (input) CMD_RCOMM :: u8 where "CMD_RCOMM \<equiv> 0x29"
abbreviation (input) CMD_RDATA :: u8 where "CMD_RDATA \<equiv> 0x2A"
abbreviation (input) CMD_RCSEQ :: u8 where "CMD_RCSEQ \<equiv> 0x2B"

abbreviation (input) STAT_MASK :: u8 where "STAT_MASK \<equiv> 0xF8"
abbreviation (input) STAT_PHASE :: u8 where "STAT_PHASE \<equiv> 0x07"
abbreviation (input) STAT_VGC :: u8 where "STAT_VGC \<equiv> 0x08"
abbreviation (input) STAT_TC :: u8 where "STAT_TC \<equiv> 0x10"
abbreviation (input) STAT_PE :: u8 where "STAT_PE \<equiv> 0x20"
abbreviation (input) STAT_GE :: u8 where "STAT_GE \<equiv> 0x40"
abbreviation (input) STAT_INT :: u8 where "STAT_INT \<equiv> 0x80"

abbreviation (input) BUSID_DID :: u8 where "BUSID_DID \<equiv> 0x07"

abbreviation (input) INTR_FC :: u8 where "INTR_FC \<equiv> 0x08"
abbreviation (input) INTR_BS :: u8 where "INTR_BS \<equiv> 0x10"
abbreviation (input) INTR_DC :: u8 where "INTR_DC \<equiv> 0x20"
abbreviation (input) INTR_ILL :: u8 where "INTR_ILL \<equiv> 0x40"
abbreviation (input) INTR_RST :: u8 where "INTR_RST \<equiv> 0x80"

abbreviation (input) CFG1_RESREPT :: u8 where "CFG1_RESREPT \<equiv> 0x40"

abbreviation (input) ESP_CLOCK_FREQ :: int where "ESP_CLOCK_FREQ \<equiv> 20"
abbreviation (input) ESP_DELAY :: u64 where "ESP_DELAY \<equiv> 100"

abbreviation (input) ESPCTRL_ENABLE_INT :: u8 where "ESPCTRL_ENABLE_INT \<equiv> 0x20"
abbreviation (input) ESPCTRL_MODE_DMA :: u8 where "ESPCTRL_MODE_DMA \<equiv> 0x10"
abbreviation (input) ESPCTRL_FLUSH :: u8 where "ESPCTRL_FLUSH \<equiv> 0x04"
abbreviation (input) ESPCTRL_RESET :: u8 where "ESPCTRL_RESET \<equiv> 0x02"

abbreviation (input) ESPSTAT_STATE_MASK :: u8 where "ESPSTAT_STATE_MASK \<equiv> 0xc0"
abbreviation (input) ESPSTAT_STATE_D0S1 :: u8 where "ESPSTAT_STATE_D0S1 \<equiv> 0x40"
abbreviation (input) ESPSTAT_STATE_D1S0 :: u8 where "ESPSTAT_STATE_D1S0 \<equiv> 0xc0"

abbreviation phase :: "'a esp_scheme \<Rightarrow> u8" where
  "phase s \<equiv> bus_phase (SCSIbus s)"

abbreviation esp_control :: "'a esp_scheme \<Rightarrow> u8" where
  "esp_control s \<equiv> espdma_control (esp_dma s)"

section \<open>Simple registers\<close>

definition ESP_DMA_CTRL_Read :: "'a esp_scheme \<Rightarrow> u8" where
  "ESP_DMA_CTRL_Read s = espdma_control (esp_dma s)"

definition ESP_DMA_FIFO_STAT_Read :: "'a esp_scheme \<Rightarrow> u8" where
  "ESP_DMA_FIFO_STAT_Read s = espdma_status (esp_dma s)"

definition ESP_DMA_FIFO_STAT_Write :: "u8 \<Rightarrow> 'a esp_scheme \<Rightarrow> 'a esp_scheme" where
  "ESP_DMA_FIFO_STAT_Write val s = s\<lparr>esp_dma := (esp_dma s)\<lparr>espdma_status := val\<rparr>\<rparr>"

definition ESP_DMA_set_status :: "'a esp_scheme \<Rightarrow> 'a esp_scheme" where
  "ESP_DMA_set_status s = (
     let st = espdma_status (esp_dma s) in
     ESP_DMA_FIFO_STAT_Write
       (if st AND ESPSTAT_STATE_MASK = ESPSTAT_STATE_D0S1
        then (st AND NOT ESPSTAT_STATE_MASK) OR ESPSTAT_STATE_D1S0
        else (st AND NOT ESPSTAT_STATE_MASK) OR ESPSTAT_STATE_D0S1) s)"

definition ESP_TransCountL_Read :: "'a esp_scheme \<Rightarrow> u8" where
  "ESP_TransCountL_Read s = ucast (esp_counter s AND 0xFF)"

definition ESP_TransCountL_Write :: "u8 \<Rightarrow> 'a esp_scheme \<Rightarrow> 'a esp_scheme" where
  "ESP_TransCountL_Write val s = s\<lparr>writetranscountl := val\<rparr>"

definition ESP_TransCountH_Read :: "'a esp_scheme \<Rightarrow> u8" where
  "ESP_TransCountH_Read s = ucast (drop_bit 8 (esp_counter s) AND 0xFF)"

definition ESP_TransCountH_Write :: "u8 \<Rightarrow> 'a esp_scheme \<Rightarrow> 'a esp_scheme" where
  "ESP_TransCountH_Write val s = s\<lparr>writetranscounth := val\<rparr>"

definition ESP_Command_Read :: "'a esp_scheme \<Rightarrow> u8" where
  "ESP_Command_Read s = esp_command s ! 0"

definition ESP_Status_Read :: "'a esp_scheme \<Rightarrow> u8" where
  "ESP_Status_Read s = (esp_status s AND STAT_MASK) OR (phase s AND STAT_PHASE)"

definition ESP_SelectBusID_Write :: "u8 \<Rightarrow> 'a esp_scheme \<Rightarrow> 'a esp_scheme" where
  "ESP_SelectBusID_Write val s = s\<lparr>selectbusid := val\<rparr>"

definition ESP_SelectTimeout_Write :: "u8 \<Rightarrow> 'a esp_scheme \<Rightarrow> 'a esp_scheme" where
  "ESP_SelectTimeout_Write val s = s\<lparr>selecttimeout := val\<rparr>"

definition ESP_SeqStep_Read :: "'a esp_scheme \<Rightarrow> u8" where
  "ESP_SeqStep_Read s = seqstep s"

definition ESP_SyncPeriod_Write :: "u8 \<Rightarrow> 'a esp_scheme \<Rightarrow> 'a esp_scheme" where
  "ESP_SyncPeriod_Write val s = s\<lparr>syncperiod := val\<rparr>"

definition ESP_FIFOflags_Read :: "'a esp_scheme \<Rightarrow> u8" where
  "ESP_FIFOflags_Read s = fifoflags s"

definition ESP_SyncOffset_Write :: "u8 \<Rightarrow> 'a esp_scheme \<Rightarrow> 'a esp_scheme" where
  "ESP_SyncOffset_Write val s = s\<lparr>syncoffset := val\<rparr>"

definition ESP_Configuration_Read :: "'a esp_scheme \<Rightarrow> u8" where
  "ESP_Configuration_Read s = esp_configuration s"

definition ESP_Configuration_Write :: "u8 \<Rightarrow> 'a esp_scheme \<Rightarrow> 'a esp_scheme" where
  "ESP_Configuration_Write val s = s\<lparr>esp_configuration := val\<rparr>"

definition ESP_ClockConv_Write :: "u8 \<Rightarrow> 'a esp_scheme \<Rightarrow> 'a esp_scheme" where
  "ESP_ClockConv_Write val s = s\<lparr>clockconv := val\<rparr>"

definition ESP_Test_Write :: "u8 \<Rightarrow> 'a esp_scheme \<Rightarrow> 'a esp_scheme" where
  "ESP_Test_Write val s = s\<lparr>esptest := val\<rparr>"

text \<open>The second configuration register exists only in the newer chip, whose value is not changed.\<close>

definition ESP_Conf2_Read :: "u8 \<Rightarrow> 'a esp_scheme \<Rightarrow> u8" where
  "ESP_Conf2_Read io s = (if nSCSI (System (ConfigureParams s)) = NCR53C90 then 0x00 else io)"

section \<open>Commands in the command register\<close>

definition esp_command_clear :: "'a esp_scheme \<Rightarrow> 'a esp_scheme" where
  "esp_command_clear s = (
     let s = s\<lparr>esp_command := (esp_command s)[0 := 0x00]\<rparr> in
     if esp_command s ! 1 AND CMD_CMD \<noteq> CMD_RESET
     then s\<lparr>esp_command := (esp_command s)[1 := 0x00], esp_cmd_state := esp_cmd_state s AND NOT ESP_CMD_WAITING\<rparr>
     else s)"

text \<open>The end of a transfer; \<open>wr\<close> is true for a transfer from the disk to memory.\<close>

definition esp_transfer_done :: "bool \<Rightarrow> 'a esp_scheme \<Rightarrow> (bool \<times> 'a esp_scheme) option" where
  "esp_transfer_done wr s =
     (if esp_counter s = 0 then do {
        s \<leftarrow> CycInt_AddTimeEvent ESP_DELAY 20 EVENT_ESP_INTERRUPT
               (s\<lparr>intstatus := INTR_BS, esp_status := esp_status s OR STAT_TC\<rparr>);
        Some (True, s)
      }
      else if (wr \<and> phase s \<noteq> PHASE_DI) \<or> (\<not> wr \<and> phase s \<noteq> PHASE_DO) then do {
        s \<leftarrow> CycInt_AddTimeEvent ESP_DELAY 20 EVENT_ESP_INTERRUPT ((esp_command_clear s)\<lparr>intstatus := INTR_BS\<rparr>);
        Some (True, s)
      }
      else Some (False, s))"

section \<open>The FIFO\<close>

definition esp_dma_not_ready :: "'a esp_scheme \<Rightarrow> bool" where
  "esp_dma_not_ready s \<longleftrightarrow> esp_io_state s = ESP_IO_STATE_TRANSFERING \<and> \<not> tst (esp_control s) ESPCTRL_MODE_DMA
     \<and> 0 < esp_counter s \<and> phase s = PHASE_DI"

definition esp_fifo_read :: "'a esp_scheme \<Rightarrow> (u8 \<times> 'a esp_scheme) option" where
  "esp_fifo_read s =
     (if 0 < fifoflags s then
        Some (esp_fifo s ! 0, s\<lparr>esp_fifo := (drop 1 (esp_fifo s)) @ [0x00], fifoflags := fifoflags s - 1\<rparr>)
      else if esp_dma_not_ready s then do {
        (val, s) \<leftarrow> SCSIdisk_Send_Data s;
        (fin, s) \<leftarrow> esp_transfer_done True (s\<lparr>esp_counter := esp_counter s - 1\<rparr>);
        Some (val, if fin then s\<lparr>esp_io_state := ESP_IO_STATE_DONE\<rparr> else s)
      }
      else Some (0x00, s))"

definition esp_fifo_write :: "u8 \<Rightarrow> 'a esp_scheme \<Rightarrow> 'a esp_scheme option" where
  "esp_fifo_write val s =
     (if fifoflags s = ESP_FIFO_SIZE then do {
        f \<leftarrow> arr_set (esp_fifo s) (unat (fifoflags s) - 1) val;
        Some (s\<lparr>esp_fifo := f, esp_status := esp_status s OR STAT_GE\<rparr>)
      }
      else do {
        let n = fifoflags s + 1;
        f \<leftarrow> (if n = 0 then None else arr_set (esp_fifo s) (unat n - 1) val);
        Some (s\<lparr>esp_fifo := f, fifoflags := n\<rparr>)
      })"

definition esp_fifo_clear :: "'a esp_scheme \<Rightarrow> 'a esp_scheme" where
  "esp_fifo_clear s = s\<lparr>esp_fifo := replicate (unat ESP_FIFO_SIZE) 0, fifoflags := fifoflags s AND 0xE0\<rparr>"

definition ESP_FIFO_Read :: "'a esp_scheme \<Rightarrow> (u8 \<times> 'a esp_scheme) option" where
  "ESP_FIFO_Read s = esp_fifo_read s"

definition ESP_FIFO_Write :: "u8 \<Rightarrow> 'a esp_scheme \<Rightarrow> 'a esp_scheme option" where
  "ESP_FIFO_Write val s = esp_fifo_write val s"

section \<open>The interface to the DMA channel\<close>

definition ESP_Send_Ready :: "'a esp_scheme \<Rightarrow> bool" where
  "ESP_Send_Ready s \<longleftrightarrow> (0 < esp_counter s \<and> phase s = PHASE_DI) \<or> 0 < fifoflags s"

definition ESP_Send_Data :: "'a esp_scheme \<Rightarrow> (u8 \<times> 'a esp_scheme) option" where
  "ESP_Send_Data s =
     (if 0 < fifoflags s then esp_fifo_read s
      else SCSIdisk_Send_Data (s\<lparr>esp_counter := esp_counter s - 1\<rparr>))"

definition ESP_Receive_Ready :: "'a esp_scheme \<Rightarrow> bool" where
  "ESP_Receive_Ready s \<longleftrightarrow> tst (esp_control s) ESPCTRL_MODE_DMA \<and> 0 < esp_counter s \<and> phase s = PHASE_DO"

definition ESP_Receive_Data :: "u8 \<Rightarrow> 'a esp_scheme \<Rightarrow> 'a esp_scheme option" where
  "ESP_Receive_Data val s = SCSIdisk_Receive_Data val (s\<lparr>esp_counter := esp_counter s - 1\<rparr>)"

section \<open>The FIFO is a queue that overwrites its last byte\<close>

context overwriting_fifo
begin

lemma enter_all_append: "enter_all q (xs @ ys) = enter_all (enter_all q xs) ys"
  by (induction xs arbitrary: q) auto

text \<open>What remains of a sequence that is entered into an empty buffer.\<close>

lemma enter_all_keeps:
  assumes "invar q" "elems q = []" "0 < cap"
  shows "invar (enter_all q xs)"
    and "elems (enter_all q xs) = (if length xs \<le> cap then xs else take (cap - 1) xs @ [last xs])"
proof -
  have inv: "invar (enter_all q ys)" if "invar q" for q ys
    using that by (induction ys arbitrary: q) (auto simp: invar_enter)
  show "invar (enter_all q xs)" using inv assms(1) .
  show "elems (enter_all q xs) = (if length xs \<le> cap then xs else take (cap - 1) xs @ [last xs])"
  proof (cases "length xs \<le> cap")
    case True
    then show ?thesis using enter_all_elems [of q xs] assms by simp
  next
    case False
    let ?q = "enter_all q (take cap xs)"
    have "elems ?q = take cap xs" using enter_all_elems [of q "take cap xs"] assms by simp
    moreover have "enter_all q xs = enter_all ?q (drop cap xs)" by (simp flip: enter_all_append)
    ultimately show ?thesis
      using enter_all_overflow [of ?q "drop cap xs"] inv [OF assms(1)] False assms(3)
      by (simp add: butlast_take)
  qed
qed

end

definition fifo_ok :: "'a esp_scheme \<Rightarrow> bool" where
  "fifo_ok s \<longleftrightarrow> length (esp_fifo s) = 16 \<and> fifoflags s \<le> ESP_FIFO_SIZE"

definition fifo_bytes :: "'a esp_scheme \<Rightarrow> u8 list" where
  "fifo_bytes s = take (unat (fifoflags s)) (esp_fifo s)"

lemma fifo_okD:
  assumes "fifo_ok s"
  shows "length (esp_fifo s) = 16" "unat (fifoflags s) \<le> 16" "length (fifo_bytes s) = unat (fifoflags s)"
  using assms by (auto simp: fifo_ok_def fifo_bytes_def word_le_nat_alt)

lemma fifo_write_room:
  assumes "fifo_ok s" "unat (fifoflags s) < 16"
  shows "esp_fifo_write val s = Some (s\<lparr>esp_fifo := (esp_fifo s)[unat (fifoflags s) := val], fifoflags := fifoflags s + 1\<rparr>)"
    and "unat (fifoflags s + 1) = unat (fifoflags s) + 1"
proof -
  show u: "unat (fifoflags s + 1) = unat (fifoflags s) + 1"
    using assms(2) unat_add_lem [of "fifoflags s" 1] by simp
  then have "fifoflags s + 1 \<noteq> 0" by (metis add_is_0 unat_0 zero_neq_one)
  moreover have "fifoflags s \<noteq> 16" using assms(2) by auto
  ultimately show "esp_fifo_write val s
      = Some (s\<lparr>esp_fifo := (esp_fifo s)[unat (fifoflags s) := val], fifoflags := fifoflags s + 1\<rparr>)"
    using u assms fifo_okD [OF assms(1)] by (simp add: esp_fifo_write_def)
qed

lemma fifo_write_full:
  assumes "fifo_ok s" "unat (fifoflags s) = 16"
  shows "esp_fifo_write val s = Some (s\<lparr>esp_fifo := (esp_fifo s)[15 := val], esp_status := esp_status s OR STAT_GE\<rparr>)"
proof -
  have "fifoflags s = 16" using assms(2) by (simp add: word_unat_eq_iff)
  then show ?thesis using fifo_okD(1) [OF assms(1)] by (simp add: esp_fifo_write_def)
qed

lemma esp_fifo_write_spec:
  assumes "fifo_ok s"
  shows "\<exists>s'. esp_fifo_write val s = Some s' \<and> fifo_ok s'
    \<and> fifo_bytes s' = (if length (fifo_bytes s) < 16 then fifo_bytes s @ [val] else butlast (fifo_bytes s) @ [val])
    \<and> (tst (esp_status s') STAT_GE \<longleftrightarrow> tst (esp_status s) STAT_GE \<or> length (fifo_bytes s) = 16)"
proof (cases "unat (fifoflags s) < 16")
  case True
  note w = fifo_write_room [OF assms True] and k = fifo_okD [OF assms]
  have "fifo_ok (s\<lparr>esp_fifo := (esp_fifo s)[unat (fifoflags s) := val], fifoflags := fifoflags s + 1\<rparr>)"
    using True k w(2) by (simp add: fifo_ok_def word_le_nat_alt)
  then show ?thesis using w k True by (simp add: fifo_bytes_def take_Suc_conv_app_nth)
next
  case False
  then have full: "unat (fifoflags s) = 16" using fifo_okD(2) [OF assms] by simp
  have "esp_fifo s = butlast (esp_fifo s) @ [last (esp_fifo s)]" using fifo_okD(1) [OF assms] by (cases "esp_fifo s") auto
  then have "(esp_fifo s)[15 := val] = butlast (esp_fifo s) @ [val]"
    using fifo_okD(1) [OF assms] list_update_append [of "butlast (esp_fifo s)" "[last (esp_fifo s)]" 15 val] by simp
  then show ?thesis
    using fifo_write_full [OF assms full, of val] full fifo_okD [OF assms] assms
    by (simp add: fifo_ok_def fifo_bytes_def)
qed

lemma esp_fifo_read_spec:
  assumes "fifo_ok s" "fifo_bytes s \<noteq> []"
  shows "\<exists>s'. esp_fifo_read s = Some (hd (fifo_bytes s), s') \<and> fifo_ok s' \<and> fifo_bytes s' = tl (fifo_bytes s)"
proof -
  note k = fifo_okD [OF assms(1)]
  have pos: "0 < fifoflags s" using assms(2) k(3) by (auto simp: word_gt_0)
  then have n: "0 < unat (fifoflags s)" by (simp add: word_less_nat_alt)
  have u: "unat (fifoflags s - 1) = unat (fifoflags s) - 1" using pos by (intro unat_minus_one) auto
  obtain x xs where f: "esp_fifo s = x # xs" using k(1) by (cases "esp_fifo s") auto
  have "fifo_ok (s\<lparr>esp_fifo := xs @ [0], fifoflags := fifoflags s - 1\<rparr>)"
    using k u f by (simp add: fifo_ok_def word_le_nat_alt)
  then show ?thesis
    using pos n u k f by (cases "unat (fifoflags s)") (auto simp: esp_fifo_read_def fifo_bytes_def)
qed

interpretation esp_fifo: overwriting_fifo
  "\<lambda>s val. the (esp_fifo_write val s)" "\<lambda>s. apfst Some (the (esp_fifo_read s))" fifo_bytes fifo_ok 16
proof unfold_locales
  fix s :: "'a esp_scheme" and x
  assume ok: "fifo_ok s"
  from esp_fifo_write_spec [OF ok, of x] show "fifo_ok (the (esp_fifo_write x s))" by auto
  show "length (fifo_bytes s) \<le> 16" using fifo_okD [OF ok] by simp
  from esp_fifo_write_spec [OF ok, of x]
  show "length (fifo_bytes s) < 16 \<Longrightarrow> fifo_bytes (the (esp_fifo_write x s)) = fifo_bytes s @ [x]" by auto
  from esp_fifo_write_spec [OF ok, of x]
  show "length (fifo_bytes s) = 16 \<Longrightarrow> fifo_bytes (the (esp_fifo_write x s)) = butlast (fifo_bytes s) @ [x]" by auto
  assume "fifo_bytes s \<noteq> []"
  from esp_fifo_read_spec [OF ok this]
  show "fifo_ok (snd (apfst Some (the (esp_fifo_read s))))"
    "fst (apfst Some (the (esp_fifo_read s))) = Some (hd (fifo_bytes s))"
    "fifo_bytes (snd (apfst Some (the (esp_fifo_read s)))) = tl (fifo_bytes s)" by auto
qed

text \<open>Guest software that writes a sequence of bytes to the FIFO register, and reads some.\<close>

fun fifo_write_all :: "u8 list \<Rightarrow> 'a esp_scheme \<Rightarrow> 'a esp_scheme option" where
  "fifo_write_all [] s = Some s"
| "fifo_write_all (x # xs) s = do { s \<leftarrow> ESP_FIFO_Write x s; fifo_write_all xs s }"

fun fifo_read_n :: "nat \<Rightarrow> 'a esp_scheme \<Rightarrow> (u8 list \<times> 'a esp_scheme) option" where
  "fifo_read_n 0 s = Some ([], s)"
| "fifo_read_n (Suc n) s = do { (x, s) \<leftarrow> ESP_FIFO_Read s; (xs, s) \<leftarrow> fifo_read_n n s; Some (x # xs, s) }"

lemma fifo_write_all_eq: "fifo_ok s \<Longrightarrow> fifo_write_all xs s = Some (esp_fifo.enter_all s xs)"
proof (induction xs arbitrary: s)
  case (Cons x xs)
  from esp_fifo_write_spec [OF Cons.prems, of x] obtain s1 where "esp_fifo_write x s = Some s1" "fifo_ok s1" by blast
  with Cons.IH [of s1] show ?case by (simp add: ESP_FIFO_Write_def)
qed simp

lemma fifo_read_n_eq:
  "fifo_ok s \<Longrightarrow> n \<le> length (fifo_bytes s) \<Longrightarrow>
    fifo_read_n n s = Some (take n (fifo_bytes s), snd (esp_fifo.leave_n n s))"
proof (induction n arbitrary: s)
  case (Suc n)
  then have "fifo_bytes s \<noteq> []" by auto
  from esp_fifo_read_spec [OF Suc.prems(1) this] obtain s1
    where s1: "esp_fifo_read s = Some (hd (fifo_bytes s), s1)" "fifo_ok s1" "fifo_bytes s1 = tl (fifo_bytes s)" by blast
  then show ?case
    using Suc.IH [of s1] Suc.prems by (cases "fifo_bytes s") (auto simp: ESP_FIFO_Read_def case_prod_beta Let_def)
qed simp

text \<open>
  C38. The FIFO register is a queue of sixteen bytes: after a flush, bytes written to it are
  read back in order; when more than sixteen are written, the first fifteen and the last
  written byte remain. The counter in the FIFO flags register is the number of bytes.
\<close>

theorem esp_fifo_stream:
  assumes "fifo_ok s"
  shows "\<exists>s1 s2. fifo_write_all xs (esp_fifo_clear s) = Some s1
    \<and> unat (ESP_FIFOflags_Read s1) = min 16 (length xs)
    \<and> fifo_read_n (min 16 (length xs)) s1 = Some (if length xs \<le> 16 then xs else take 15 xs @ [last xs], s2)
    \<and> ESP_FIFOflags_Read s2 = 0"
proof -
  let ?s0 = "esp_fifo_clear s"
  have "f \<le> 16 \<longrightarrow> f AND 0xE0 = 0" for f :: u8 by (rule all_u8) code_simp
  then have "fifoflags s AND 0xE0 = 0" using assms by (simp add: fifo_ok_def)
  then have s0: "fifo_ok ?s0" "fifo_bytes ?s0 = []" by (simp_all add: esp_fifo_clear_def fifo_ok_def fifo_bytes_def)
  define s1 where "s1 = esp_fifo.enter_all ?s0 xs"
  have ok1: "fifo_ok s1" and el1: "fifo_bytes s1 = (if length xs \<le> 16 then xs else take 15 xs @ [last xs])"
    using esp_fifo.enter_all_keeps [OF s0] by (simp_all add: s1_def)
  define s2 where "s2 = snd (esp_fifo.leave_n (min 16 (length xs)) s1)"
  have len: "length (fifo_bytes s1) = min 16 (length xs)" using el1 by auto
  have "fifo_ok s2" "fifo_bytes s2 = []"
    using esp_fifo.leave_n_elems [OF ok1, of "min 16 (length xs)"] len by (simp_all add: s2_def)
  then have "unat (fifoflags s2) = 0" using fifo_okD(3) by fastforce
  then have "fifoflags s2 = 0" by (simp add: unat_eq_0)
  then show ?thesis
    using fifo_write_all_eq [OF s0(1), of xs] fifo_read_n_eq [OF ok1, of "min 16 (length xs)"] len el1 fifo_okD(3) [OF ok1]
    by (intro exI [of _ s1] exI [of _ s2]) (simp add: s1_def s2_def ESP_FIFOflags_Read_def)
qed

text \<open>The controller after power on, in the sample machine.\<close>

definition sample_esp :: esp where
  "sample_esp = memory.extend sample_bus (esp.fields \<lparr>espdma_control = 0, espdma_status = 0\<rparr> DISCONNECTED ESP_IO_STATE_DONE
     0 0 0 (replicate 16 0) [0, 0] 0 0 0 0 0 0 0 0 0 0 0 0 0)"

lemma sample_esp_fields [simp]:
  "esp_fifo sample_esp = replicate 16 0" "fifoflags sample_esp = 0" "esp_command sample_esp = [0, 0]"
  by (simp_all add: sample_esp_def memory.defs esp.defs)

theorem esp_fifo_stream_witness:
  "\<exists>s1 s2. fifo_write_all (map of_nat [0..<20]) (esp_fifo_clear sample_esp) = Some s1
     \<and> fifo_read_n 16 s1 = Some (map of_nat [0..<15] @ [19], s2)"
proof -
  have "fifo_ok sample_esp" by (simp add: fifo_ok_def)
  from esp_fifo_stream [OF this, of "map of_nat [0..<20]"] show ?thesis
    by (auto simp: take_map last_map simp del: upt_rec_numeral)
qed

end
