(* ===== verification/Dma.thy ===== *)
theory Dma
  imports EspRegs
begin

text \<open>
  The DMA controller (\<open>dma.c\<close>): twelve channels with their registers, chaining, interrupts, and
  the transfers between memory and the devices. Memory is accessed with \<open>mem_get\<close> and \<open>mem_put\<close>,
  whose argument \<open>dev\<close> stands for the I/O registers, so a transfer may reach any register. The
  buffers of the devices that are not modelled (floppy, optical disk, sound, printer,
  ethernet) are fields of the state. \<open>TRY ... CATCH\<close> is a case distinction on the result of a memory
  access: after a bus error the state at the time of the error is kept.
\<close>

section \<open>State\<close>

datatype DMA_CHANNEL =
    CHANNEL_SCSI | CHANNEL_SOUNDOUT | CHANNEL_DISK | CHANNEL_SOUNDIN | CHANNEL_PRINTER | CHANNEL_SCC
  | CHANNEL_DSP | CHANNEL_EN_TX | CHANNEL_EN_RX | CHANNEL_VIDEO | CHANNEL_M2R | CHANNEL_R2M

record dma_regs =
  dma_csr :: u32
  dma_saved_next :: u32
  dma_saved_limit :: u32
  dma_saved_start :: u32
  dma_saved_stop :: u32
  dma_next :: u32
  dma_limit :: u32
  dma_start :: u32
  dma_stop :: u32
  dma_direction :: u32

text \<open>The internal buffer of a channel, and the buffers of devices.\<close>

record dma_burst =
  burst_size :: int
  burst_limit :: int
  burst_buf :: "u8 list"

record device_buffer =
  db_data :: "u8 list"
  db_size :: u32
  db_limit :: u32

record packet_buffer =
  pb_data :: "u8 list"
  pb_size :: int
  pb_limit :: int

record dma = esp +
  dma :: "DMA_CHANNEL \<Rightarrow> dma_regs"
  espdma :: dma_burst
  modma :: dma_burst
  m2m_buffer :: "u32 list"
  m2m_buffer_size :: int
  floppy_select :: bool
  flp_buffer :: device_buffer
  ecc_buffer :: "device_buffer list"
  eccin :: nat
  eccout :: nat
  snd_buffer :: "u8 list"
  snd_buffer_len :: int
  lp_buffer :: packet_buffer
  enet_tx_buffer :: packet_buffer
  enet_rx_buffer :: packet_buffer
  saved_nibble :: u8

abbreviation (input) DMA_BURST_SIZE :: int where "DMA_BURST_SIZE \<equiv> 16"

abbreviation (input) DMA_ENABLE :: u32 where "DMA_ENABLE \<equiv> 0x01000000"
abbreviation (input) DMA_SUPDATE :: u32 where "DMA_SUPDATE \<equiv> 0x02000000"
abbreviation (input) DMA_COMPLETE :: u32 where "DMA_COMPLETE \<equiv> 0x08000000"
abbreviation (input) DMA_BUSEXC :: u32 where "DMA_BUSEXC \<equiv> 0x10000000"
abbreviation (input) DMA_SETENABLE :: u32 where "DMA_SETENABLE \<equiv> 0x00010000"
abbreviation (input) DMA_SETSUPDATE :: u32 where "DMA_SETSUPDATE \<equiv> 0x00020000"
abbreviation (input) DMA_DEV2M :: u32 where "DMA_DEV2M \<equiv> 0x00040000"
abbreviation (input) DMA_CLRCOMPLETE :: u32 where "DMA_CLRCOMPLETE \<equiv> 0x00080000"
abbreviation (input) DMA_RESET :: u32 where "DMA_RESET \<equiv> 0x00100000"
abbreviation (input) DMA_INITBUF :: u32 where "DMA_INITBUF \<equiv> 0x00200000"
abbreviation (input) DMA_BUFRESET :: u32 where "DMA_BUFRESET \<equiv> 0x00800000"
abbreviation (input) EN_EOP :: u32 where "EN_EOP \<equiv> 0x80000000"
abbreviation (input) EN_BOP :: u32 where "EN_BOP \<equiv> 0x40000000"
abbreviation (input) SND_BUFFER_LIMIT :: int where "SND_BUFFER_LIMIT \<equiv> 2048"

definition upd_dma :: "DMA_CHANNEL \<Rightarrow> (dma_regs \<Rightarrow> dma_regs) \<Rightarrow> 'a dma_scheme \<Rightarrow> 'a dma_scheme" where
  "upd_dma c f s = s\<lparr>dma := (dma s)(c := f (dma s c))\<rparr>"

abbreviation set_next :: "DMA_CHANNEL \<Rightarrow> u32 \<Rightarrow> 'a dma_scheme \<Rightarrow> 'a dma_scheme" where
  "set_next c v \<equiv> upd_dma c (\<lambda>r. r\<lparr>dma_next := v\<rparr>)"

text \<open>C arrays indexed by a signed integer.\<close>

definition geti :: "'v list \<Rightarrow> int \<Rightarrow> 'v option" where
  "geti xs i = (if 0 \<le> i then arr_get xs (nat i) else None)"

definition seti :: "'v list \<Rightarrow> int \<Rightarrow> 'v \<Rightarrow> 'v list option" where
  "seti xs i v = (if 0 \<le> i then arr_set xs (nat i) v else None)"

definition dma_getlong :: "u8 list \<Rightarrow> int \<Rightarrow> u32 option" where
  "dma_getlong buf pos =
     (if 0 \<le> pos \<and> nat pos + 3 < length buf then Some (be_long (\<lambda>i. buf ! i) (nat pos)) else None)"

definition dma_putlong :: "u32 \<Rightarrow> u8 list \<Rightarrow> int \<Rightarrow> u8 list option" where
  "dma_putlong val buf pos =
     (if 0 \<le> pos \<and> nat pos + 3 < length buf
      then Some (put_bytes (nat pos) [byte3 val, byte2 val, byte1 val, byte0 val] buf) else None)"

definition get_channel :: "u32 \<Rightarrow> DMA_CHANNEL option" where
  "get_channel address = map_of
     [(0x010, CHANNEL_SCSI), (0x040, CHANNEL_SOUNDOUT), (0x050, CHANNEL_DISK), (0x080, CHANNEL_SOUNDIN),
      (0x090, CHANNEL_PRINTER), (0x0c0, CHANNEL_SCC), (0x0d0, CHANNEL_DSP), (0x110, CHANNEL_EN_TX),
      (0x150, CHANNEL_EN_RX), (0x180, CHANNEL_VIDEO), (0x1d0, CHANNEL_M2R), (0x1c0, CHANNEL_R2M)]
     (address AND 0x0001ffff)"

fun get_interrupt_type :: "DMA_CHANNEL \<Rightarrow> u32" where
  "get_interrupt_type CHANNEL_SCSI = INT_SCSI_DMA"
| "get_interrupt_type CHANNEL_SOUNDOUT = INT_SND_OUT_DMA"
| "get_interrupt_type CHANNEL_DISK = INT_DISK_DMA"
| "get_interrupt_type CHANNEL_SOUNDIN = INT_SND_IN_DMA"
| "get_interrupt_type CHANNEL_PRINTER = INT_PRINTER_DMA"
| "get_interrupt_type CHANNEL_SCC = INT_SCC_DMA"
| "get_interrupt_type CHANNEL_DSP = INT_DSP_DMA"
| "get_interrupt_type CHANNEL_EN_TX = INT_EN_TX_DMA"
| "get_interrupt_type CHANNEL_EN_RX = INT_EN_RX_DMA"
| "get_interrupt_type CHANNEL_VIDEO = INT_VIDEO"
| "get_interrupt_type CHANNEL_M2R = INT_M2R_DMA"
| "get_interrupt_type CHANNEL_R2M = INT_R2M_DMA"

definition dma_initialize_buffer :: "DMA_CHANNEL \<Rightarrow> u8 \<Rightarrow> 'a dma_scheme \<Rightarrow> 'a dma_scheme" where
  "dma_initialize_buffer channel offset s = (case channel of
     CHANNEL_SCSI \<Rightarrow> (ESP_DMA_FIFO_STAT_Write 0 s)\<lparr>espdma := (espdma s)\<lparr>burst_size := 0, burst_limit := uint offset\<rparr>\<rparr>
   | CHANNEL_DISK \<Rightarrow> s\<lparr>modma := (modma s)\<lparr>burst_size := 0, burst_limit := uint offset\<rparr>\<rparr>
   | _ \<Rightarrow> s)"

section \<open>Registers\<close>

definition DMA_CSR_Read :: "u32 \<Rightarrow> 'a dma_scheme \<Rightarrow> u32 option" where
  "DMA_CSR_Read addr s = do { c \<leftarrow> get_channel addr; Some (dma_csr (dma s c)) }"

text \<open>Memory to memory transfers start when both channels are enabled.\<close>

definition dma_m2m :: "'a dma_scheme \<Rightarrow> 'a dma_scheme option" where
  "dma_m2m s = (
     let w = dma s CHANNEL_R2M; r = dma s CHANNEL_M2R in
     if tst (dma_csr r) DMA_ENABLE \<and> tst (dma_csr w) DMA_ENABLE then
       (if (dma_limit w - dma_next w) mod 16 \<noteq> 0 \<or> (dma_limit r - dma_next r) mod 16 \<noteq> 0 then Some s
        else CycInt_AddCyclesEvent 4 EVENT_DMA_M2M_IO s)
     else Some s)"

definition upd_csr :: "DMA_CHANNEL \<Rightarrow> (u32 \<Rightarrow> u32) \<Rightarrow> 'a dma_scheme \<Rightarrow> 'a dma_scheme" where
  "upd_csr c f = upd_dma c (\<lambda>r. r\<lparr>dma_csr := f (dma_csr r)\<rparr>)"

definition DMA_CSR_Write :: "u32 \<Rightarrow> u32 \<Rightarrow> 'a dma_scheme \<Rightarrow> 'a dma_scheme option" where
  "DMA_CSR_Write addr writecsr s = do {
     channel \<leftarrow> get_channel addr;
     let s = upd_dma channel (\<lambda>r. r\<lparr>dma_direction := writecsr AND DMA_DEV2M\<rparr>) s;
     let s = (if tst writecsr DMA_RESET
              then upd_csr channel (\<lambda>x. x AND NOT (DMA_COMPLETE OR DMA_SUPDATE OR DMA_ENABLE)) s else s);
     let s = (if tst writecsr DMA_INITBUF then dma_initialize_buffer channel 0 s else s);
     let s = (if tst writecsr DMA_SETSUPDATE then upd_csr channel (\<lambda>x. x OR DMA_SUPDATE) s else s);
     s \<leftarrow> (if tst writecsr DMA_SETENABLE then
             let s = upd_csr channel (\<lambda>x. x OR DMA_ENABLE) s in
             if channel = CHANNEL_R2M \<or> channel = CHANNEL_M2R then
               dma_m2m (if dma_next (dma s channel) = dma_limit (dma s channel)
                        then upd_csr channel (\<lambda>x. x AND NOT DMA_ENABLE) s else s)
             else Some s
           else Some s);
     let s = (if tst writecsr DMA_CLRCOMPLETE then upd_csr channel (\<lambda>x. x AND NOT DMA_COMPLETE) s else s);
     Some (if tst (dma_csr (dma s channel)) DMA_COMPLETE then s
           else set_interrupt (get_interrupt_type channel) RELEASE_INT s)
   }"

text \<open>The address registers are at a fixed distance from the control register of their channel.\<close>

definition DMA_reg_Read :: "(dma_regs \<Rightarrow> u32) \<Rightarrow> u32 \<Rightarrow> u32 \<Rightarrow> 'a dma_scheme \<Rightarrow> u32 option" where
  "DMA_reg_Read reg dist addr s = do { c \<leftarrow> get_channel (addr - dist); Some (reg (dma s c)) }"

definition DMA_reg_Write ::
  "((u32 \<Rightarrow> u32) \<Rightarrow> dma_regs \<Rightarrow> dma_regs) \<Rightarrow> u32 \<Rightarrow> u32 \<Rightarrow> u32 \<Rightarrow> 'a dma_scheme \<Rightarrow> 'a dma_scheme option" where
  "DMA_reg_Write upd dist addr val s = do { c \<leftarrow> get_channel (addr - dist); Some (upd_dma c (upd (\<lambda>_. val)) s) }"

definition DMA_Saved_Next_Read :: "u32 \<Rightarrow> 'a dma_scheme \<Rightarrow> u32 option" where
  "DMA_Saved_Next_Read = DMA_reg_Read dma_saved_next 0x3FF0"

definition DMA_Saved_Next_Write :: "u32 \<Rightarrow> u32 \<Rightarrow> 'a dma_scheme \<Rightarrow> 'a dma_scheme option" where
  "DMA_Saved_Next_Write = DMA_reg_Write dma_saved_next_update 0x3FF0"

definition DMA_Saved_Limit_Read :: "u32 \<Rightarrow> 'a dma_scheme \<Rightarrow> u32 option" where
  "DMA_Saved_Limit_Read = DMA_reg_Read dma_saved_limit 0x3FF4"

definition DMA_Saved_Limit_Write :: "u32 \<Rightarrow> u32 \<Rightarrow> 'a dma_scheme \<Rightarrow> 'a dma_scheme option" where
  "DMA_Saved_Limit_Write = DMA_reg_Write dma_saved_limit_update 0x3FF4"

definition DMA_Saved_Start_Read :: "u32 \<Rightarrow> 'a dma_scheme \<Rightarrow> u32 option" where
  "DMA_Saved_Start_Read = DMA_reg_Read dma_saved_start 0x3FF8"

definition DMA_Saved_Start_Write :: "u32 \<Rightarrow> u32 \<Rightarrow> 'a dma_scheme \<Rightarrow> 'a dma_scheme option" where
  "DMA_Saved_Start_Write = DMA_reg_Write dma_saved_start_update 0x3FF8"

definition DMA_Saved_Stop_Read :: "u32 \<Rightarrow> 'a dma_scheme \<Rightarrow> u32 option" where
  "DMA_Saved_Stop_Read = DMA_reg_Read dma_saved_stop 0x3FFC"

definition DMA_Saved_Stop_Write :: "u32 \<Rightarrow> u32 \<Rightarrow> 'a dma_scheme \<Rightarrow> 'a dma_scheme option" where
  "DMA_Saved_Stop_Write = DMA_reg_Write dma_saved_stop_update 0x3FFC"

definition DMA_Next_Read :: "u32 \<Rightarrow> 'a dma_scheme \<Rightarrow> u32 option" where
  "DMA_Next_Read = DMA_reg_Read dma_next 0x4000"

definition DMA_Next_Write :: "u32 \<Rightarrow> u32 \<Rightarrow> 'a dma_scheme \<Rightarrow> 'a dma_scheme option" where
  "DMA_Next_Write = DMA_reg_Write dma_next_update 0x4000"

definition DMA_Limit_Read :: "u32 \<Rightarrow> 'a dma_scheme \<Rightarrow> u32 option" where
  "DMA_Limit_Read = DMA_reg_Read dma_limit 0x4004"

definition DMA_Limit_Write :: "u32 \<Rightarrow> u32 \<Rightarrow> 'a dma_scheme \<Rightarrow> 'a dma_scheme option" where
  "DMA_Limit_Write = DMA_reg_Write dma_limit_update 0x4004"

definition DMA_Start_Read :: "u32 \<Rightarrow> 'a dma_scheme \<Rightarrow> u32 option" where
  "DMA_Start_Read = DMA_reg_Read dma_start 0x4008"

definition DMA_Start_Write :: "u32 \<Rightarrow> u32 \<Rightarrow> 'a dma_scheme \<Rightarrow> 'a dma_scheme option" where
  "DMA_Start_Write = DMA_reg_Write dma_start_update 0x4008"

definition DMA_Stop_Read :: "u32 \<Rightarrow> 'a dma_scheme \<Rightarrow> u32 option" where
  "DMA_Stop_Read = DMA_reg_Read dma_stop 0x400C"

definition DMA_Stop_Write :: "u32 \<Rightarrow> u32 \<Rightarrow> 'a dma_scheme \<Rightarrow> 'a dma_scheme option" where
  "DMA_Stop_Write = DMA_reg_Write dma_stop_update 0x400C"

definition DMA_Init_Read :: "u32 \<Rightarrow> 'a dma_scheme \<Rightarrow> u32 option" where
  "DMA_Init_Read = DMA_reg_Read dma_next 0x4200"

definition DMA_Init_Write :: "u32 \<Rightarrow> u32 \<Rightarrow> 'a dma_scheme \<Rightarrow> 'a dma_scheme option" where
  "DMA_Init_Write addr val s = do {
     channel \<leftarrow> get_channel (addr - 0x4200);
     Some (dma_initialize_buffer channel (ucast (val AND 0xF)) (set_next channel val s))
   }"

section \<open>Interrupts\<close>

definition dma_interrupt :: "DMA_CHANNEL \<Rightarrow> 'a dma_scheme \<Rightarrow> 'a dma_scheme" where
  "dma_interrupt channel s = (
     let s = (if dma_next (dma s channel) = dma_limit (dma s channel) then
                let s = upd_csr channel (\<lambda>x. x OR DMA_COMPLETE) s in
                if tst (dma_csr (dma s channel)) DMA_SUPDATE then
                  upd_dma channel (\<lambda>r. r\<lparr>dma_next := dma_start r, dma_limit := dma_stop r,
                                         dma_csr := dma_csr r AND NOT DMA_SUPDATE\<rparr>) s
                else upd_csr channel (\<lambda>x. x AND NOT DMA_ENABLE) s
              else s)
     in if tst (dma_csr (dma s channel)) DMA_COMPLETE
        then set_interrupt (get_interrupt_type channel) SET_INT s else s)"

text \<open>The end of \<open>TRY\<close>: a bus error stops the channel.\<close>

fun dma_catch :: "DMA_CHANNEL \<Rightarrow> (bus_error + 'v) \<times> 'a dma_scheme \<Rightarrow> 'a dma_scheme" where
  "dma_catch channel (Inr _, s) = s"
| "dma_catch channel (Inl _, s) = upd_csr channel (\<lambda>x. (x AND NOT DMA_ENABLE) OR (DMA_COMPLETE OR DMA_BUSEXC)) s"

section \<open>Buffered channels\<close>

text \<open>
  The functions of the SCSI channel and of the optical disk channel differ only in the names of
  the buffer and in the device at the other end. A port collects what differs.
\<close>

record 's dma_port =
  port_channel :: DMA_CHANNEL
  port_burst :: "'s \<Rightarrow> dma_burst"
  port_upd :: "(dma_burst \<Rightarrow> dma_burst) \<Rightarrow> 's \<Rightarrow> 's"
  port_send_ready :: "'s \<Rightarrow> bool"
  port_send :: "'s \<Rightarrow> (u8 \<times> 's) option"
  port_receive_ready :: "'s \<Rightarrow> bool"
  port_receive :: "u8 \<Rightarrow> 's \<Rightarrow> 's option"
  port_status :: "'s \<Rightarrow> 's"

partial_function (option) fill_burst :: "'a dma_scheme dma_port \<Rightarrow> 'a dma_scheme \<Rightarrow> 'a dma_scheme option" where
  "fill_burst p s =
     (if burst_limit (port_burst p s) < DMA_BURST_SIZE \<and> port_send_ready p s then do {
        (val, s) \<leftarrow> port_send p s;
        buf \<leftarrow> seti (burst_buf (port_burst p s)) (burst_limit (port_burst p s)) val;
        fill_burst p (port_upd p (\<lambda>b. b\<lparr>burst_buf := buf, burst_limit := burst_limit b + 1, burst_size := burst_size b + 1\<rparr>) s)
      }
      else Some s)"

partial_function (option) drain_burst ::
  "'a dma_scheme devices \<Rightarrow> 'a dma_scheme dma_port \<Rightarrow> 'a dma_scheme \<Rightarrow> (unit, 'a dma_scheme) bus_access" where
  "drain_burst dev p s = (
     let r = dma s (port_channel p); b = port_burst p s in
     if dma_next r < dma_limit r \<and> 0 < burst_size b then do {
       val \<leftarrow> dma_getlong (burst_buf b) (DMA_BURST_SIZE - burst_size b);
       (res, s) \<leftarrow> mem_put dev SZ_LONG (dma_next r) val s;
       case res of
         Inl e \<Rightarrow> Some (Inl e, s)
       | Inr _ \<Rightarrow> drain_burst dev p (port_upd p (\<lambda>b. b\<lparr>burst_size := burst_size b - 4\<rparr>)
                    (upd_dma (port_channel p) (\<lambda>r. r\<lparr>dma_next := dma_next r + 4\<rparr>) s))
     }
     else Some (Inr (), s))"

partial_function (option) write_bursts ::
  "'a dma_scheme devices \<Rightarrow> 'a dma_scheme dma_port \<Rightarrow> 'a dma_scheme \<Rightarrow> (unit, 'a dma_scheme) bus_access" where
  "write_bursts dev p s =
     (if dma_next (dma s (port_channel p)) \<le> dma_limit (dma s (port_channel p)) then do {
        s \<leftarrow> (if burst_limit (port_burst p s) < DMA_BURST_SIZE then fill_burst p s else Some s);
        if burst_limit (port_burst p s) < DMA_BURST_SIZE then Some (Inr (), s)
        else do {
          (res, s) \<leftarrow> drain_burst dev p (port_status p s);
          case res of
            Inl e \<Rightarrow> Some (Inl e, s)
          | Inr _ \<Rightarrow>
              if 0 < burst_size (port_burst p s) then Some (Inr (), s)
              else write_bursts dev p (port_upd p (\<lambda>b. b\<lparr>burst_limit := burst_size b\<rparr>) s)
        }
      }
      else Some (Inr (), s))"

definition bad_alignment :: "dma_regs \<Rightarrow> bool" where
  "bad_alignment r \<longleftrightarrow> dma_limit r mod 16 \<noteq> 0 \<or> dma_next r mod 4 \<noteq> 0"

definition port_write_memory ::
  "'a dma_scheme devices \<Rightarrow> 'a dma_scheme dma_port \<Rightarrow> 'a dma_scheme \<Rightarrow> 'a dma_scheme option" where
  "port_write_memory dev p s = (
     let c = port_channel p in
     if \<not> tst (dma_csr (dma s c)) DMA_ENABLE then Some s
     else if bad_alignment (dma s c) then None
     else do {
       r \<leftarrow> write_bursts dev p s;
       Some (dma_interrupt c (dma_catch c r))
     })"

partial_function (option) load_burst ::
  "'a dma_scheme devices \<Rightarrow> 'a dma_scheme dma_port \<Rightarrow> 'a dma_scheme \<Rightarrow> (unit, 'a dma_scheme) bus_access" where
  "load_burst dev p s = (
     let r = dma s (port_channel p) in
     if dma_next r < dma_limit r \<and> burst_limit (port_burst p s) < DMA_BURST_SIZE then do {
       (res, s) \<leftarrow> mem_get dev SZ_LONG (dma_next r) s;
       case res of
         Inl e \<Rightarrow> Some (Inl e, s)
       | Inr val \<Rightarrow> do {
           buf \<leftarrow> dma_putlong val (burst_buf (port_burst p s)) (burst_limit (port_burst p s));
           load_burst dev p
             (port_upd p (\<lambda>b. b\<lparr>burst_buf := buf, burst_limit := burst_limit b + 4, burst_size := burst_size b + 4\<rparr>)
               (upd_dma (port_channel p) (\<lambda>r. r\<lparr>dma_next := dma_next r + 4\<rparr>) s))
         }
     }
     else Some (Inr (), s))"

partial_function (option) unload_burst :: "'a dma_scheme dma_port \<Rightarrow> 'a dma_scheme \<Rightarrow> 'a dma_scheme option" where
  "unload_burst p s = (
     let b = port_burst p s in
     if 0 < burst_size b \<and> port_receive_ready p s then do {
       val \<leftarrow> geti (burst_buf b) (burst_limit b - burst_size b);
       s \<leftarrow> port_receive p val s;
       unload_burst p (port_upd p (\<lambda>b. b\<lparr>burst_size := burst_size b - 1\<rparr>) s)
     }
     else Some s)"

partial_function (option) read_bursts ::
  "'a dma_scheme devices \<Rightarrow> 'a dma_scheme dma_port \<Rightarrow> 'a dma_scheme \<Rightarrow> (unit, 'a dma_scheme) bus_access" where
  "read_bursts dev p s =
     (if dma_next (dma s (port_channel p)) < dma_limit (dma s (port_channel p)) then do {
        (res, s) \<leftarrow> (if burst_limit (port_burst p s) < DMA_BURST_SIZE then load_burst dev p s else Some (Inr (), s));
        case res of
          Inl e \<Rightarrow> Some (Inl e, s)
        | Inr _ \<Rightarrow>
            if burst_limit (port_burst p s) < DMA_BURST_SIZE then Some (Inr (), s)
            else do {
              s \<leftarrow> unload_burst p (port_status p s);
              if 0 < burst_size (port_burst p s) then Some (Inr (), s)
              else read_bursts dev p (port_upd p (\<lambda>b. b\<lparr>burst_limit := burst_size b\<rparr>) s)
            }
      }
      else Some (Inr (), s))"

definition port_read_memory ::
  "'a dma_scheme devices \<Rightarrow> 'a dma_scheme dma_port \<Rightarrow> 'a dma_scheme \<Rightarrow> 'a dma_scheme option" where
  "port_read_memory dev p s = (
     let c = port_channel p in
     if \<not> tst (dma_csr (dma s c)) DMA_ENABLE then Some s
     else if bad_alignment (dma s c) then None
     else do {
       r \<leftarrow> read_bursts dev p s;
       Some (dma_interrupt c (dma_catch c r))
     })"

subsection \<open>Channel SCSI\<close>

definition flp_send :: "'a dma_scheme \<Rightarrow> (u8 \<times> 'a dma_scheme) option" where
  "flp_send s = (
     let b = flp_buffer s in do {
       val \<leftarrow> arr_get (db_data b) (unat (db_limit b - db_size b));
       Some (val, s\<lparr>flp_buffer := b\<lparr>db_size := db_size b - 1\<rparr>\<rparr>)
     })"

definition flp_receive :: "u8 \<Rightarrow> 'a dma_scheme \<Rightarrow> 'a dma_scheme option" where
  "flp_receive val s = (
     let b = flp_buffer s in do {
       d \<leftarrow> arr_set (db_data b) (unat (db_size b)) val;
       Some (s\<lparr>flp_buffer := b\<lparr>db_data := d, db_size := db_size b + 1\<rparr>\<rparr>)
     })"

definition esp_port :: "'a dma_scheme dma_port" where
  "esp_port = \<lparr>port_channel = CHANNEL_SCSI, port_burst = espdma, port_upd = espdma_update,
     port_send_ready = (\<lambda>s. if floppy_select s then 0 < db_size (flp_buffer s) else ESP_Send_Ready s),
     port_send = (\<lambda>s. if floppy_select s then flp_send s else ESP_Send_Data s),
     port_receive_ready = (\<lambda>s. if floppy_select s then db_size (flp_buffer s) < db_limit (flp_buffer s) else ESP_Receive_Ready s),
     port_receive = (\<lambda>val s. if floppy_select s then flp_receive val s else ESP_Receive_Data val s),
     port_status = ESP_DMA_set_status\<rparr>"

definition dma_esp_write_memory :: "'a dma_scheme devices \<Rightarrow> 'a dma_scheme \<Rightarrow> 'a dma_scheme option" where
  "dma_esp_write_memory dev = port_write_memory dev esp_port"

definition dma_esp_read_memory :: "'a dma_scheme devices \<Rightarrow> 'a dma_scheme \<Rightarrow> 'a dma_scheme option" where
  "dma_esp_read_memory dev = port_read_memory dev esp_port"

text \<open>Flushing writes one long word, padded with zeros.\<close>

function pad_burst :: "dma_burst \<Rightarrow> dma_burst option" where
  "pad_burst b =
     (if burst_size b < 4 then do {
        buf \<leftarrow> seti (burst_buf b) (burst_limit b) 0;
        pad_burst (b\<lparr>burst_buf := buf, burst_limit := burst_limit b + 1, burst_size := burst_size b + 1\<rparr>)
      }
      else Some b)"
  by pat_completeness auto

termination pad_burst
  by (relation "measure (\<lambda>b. nat (4 - burst_size b))") auto

declare pad_burst.simps [simp del]

definition dma_esp_flush_buffer :: "'a dma_scheme devices \<Rightarrow> 'a dma_scheme \<Rightarrow> 'a dma_scheme option" where
  "dma_esp_flush_buffer dev s = (
     let r = dma s CHANNEL_SCSI in
     if \<not> tst (dma_csr r) DMA_ENABLE \<or> dma_direction r \<noteq> DMA_DEV2M then Some s
     else if bad_alignment r then None
     else do {
       r \<leftarrow> (if dma_next r < dma_limit r then do {
               b \<leftarrow> pad_burst (espdma s);
               let s = s\<lparr>espdma := b\<rparr>;
               val \<leftarrow> dma_getlong (burst_buf b) (burst_limit b - burst_size b);
               (res, s) \<leftarrow> mem_put dev SZ_LONG (dma_next r) val s;
               case res of
                 Inl e \<Rightarrow> Some (Inl e, s)
               | Inr _ \<Rightarrow>
                   let s = upd_dma CHANNEL_SCSI (\<lambda>r. r\<lparr>dma_next := dma_next r + 4\<rparr>) s;
                       s = espdma_update (\<lambda>b. b\<lparr>burst_size := burst_size b - 4\<rparr>) s
                   in Some (Inr (), if burst_size (espdma s) = 0
                                    then espdma_update (\<lambda>b. b\<lparr>burst_limit := burst_size b\<rparr>) s else s)
             }
             else Some (Inr (), s));
       Some (dma_interrupt CHANNEL_SCSI (dma_catch CHANNEL_SCSI r))
     })"

subsection \<open>Channel MO\<close>

definition ecc_send :: "'a dma_scheme \<Rightarrow> (u8 \<times> 'a dma_scheme) option" where
  "ecc_send s = do {
     b \<leftarrow> arr_get (ecc_buffer s) (eccout s);
     val \<leftarrow> arr_get (db_data b) (unat (db_limit b - db_size b));
     Some (val, s\<lparr>ecc_buffer := (ecc_buffer s)[eccout s := b\<lparr>db_size := db_size b - 1\<rparr>]\<rparr>)
   }"

definition ecc_receive :: "u8 \<Rightarrow> 'a dma_scheme \<Rightarrow> 'a dma_scheme option" where
  "ecc_receive val s = do {
     b \<leftarrow> arr_get (ecc_buffer s) (eccin s);
     d \<leftarrow> arr_set (db_data b) (unat (db_size b)) val;
     Some (s\<lparr>ecc_buffer := (ecc_buffer s)[eccin s := b\<lparr>db_data := d, db_size := db_size b + 1\<rparr>]\<rparr>)
   }"

definition mo_port :: "'a dma_scheme dma_port" where
  "mo_port = \<lparr>port_channel = CHANNEL_DISK, port_burst = modma, port_upd = modma_update,
     port_send_ready = (\<lambda>s. 0 < db_size (ecc_buffer s ! eccout s)), port_send = ecc_send,
     port_receive_ready = (\<lambda>s. db_size (ecc_buffer s ! eccin s) < db_limit (ecc_buffer s ! eccin s)),
     port_receive = ecc_receive, port_status = (\<lambda>s. s)\<rparr>"

definition dma_mo_write_memory :: "'a dma_scheme devices \<Rightarrow> 'a dma_scheme \<Rightarrow> 'a dma_scheme option" where
  "dma_mo_write_memory dev = port_write_memory dev mo_port"

definition dma_mo_read_memory :: "'a dma_scheme devices \<Rightarrow> 'a dma_scheme \<Rightarrow> 'a dma_scheme option" where
  "dma_mo_read_memory dev = port_read_memory dev mo_port"

section \<open>Unbuffered channels\<close>

text \<open>
  Sound output, printer and ethernet transmission read single bytes until the channel's end or
  until the device's buffer is full.
\<close>

partial_function (option) read_bytes ::
  "'a dma_scheme devices \<Rightarrow> DMA_CHANNEL \<Rightarrow> (dma_regs \<Rightarrow> u32) \<Rightarrow> ('a dma_scheme \<Rightarrow> bool)
    \<Rightarrow> (u8 \<Rightarrow> 'a dma_scheme \<Rightarrow> 'a dma_scheme option) \<Rightarrow> 'a dma_scheme \<Rightarrow> (unit, 'a dma_scheme) bus_access" where
  "read_bytes dev c lim ready store s =
     (if dma_next (dma s c) < lim (dma s c) \<and> ready s then do {
        (res, s) \<leftarrow> mem_get dev SZ_BYTE (dma_next (dma s c)) s;
        case res of
          Inl e \<Rightarrow> Some (Inl e, s)
        | Inr val \<Rightarrow> do {
            s \<leftarrow> store (ucast val) s;
            read_bytes dev c lim ready store (upd_dma c (\<lambda>r. r\<lparr>dma_next := dma_next r + 1\<rparr>) s)
          }
      }
      else Some (Inr (), s))"

definition snd_store :: "u8 \<Rightarrow> 'a dma_scheme \<Rightarrow> 'a dma_scheme option" where
  "snd_store val s = do {
     b \<leftarrow> seti (snd_buffer s) (snd_buffer_len s) val;
     Some (s\<lparr>snd_buffer := b, snd_buffer_len := snd_buffer_len s + 1\<rparr>)
   }"

definition dma_sndout_read_memory :: "'a dma_scheme devices \<Rightarrow> 'a dma_scheme \<Rightarrow> 'a dma_scheme option" where
  "dma_sndout_read_memory dev s = (
     let c = CHANNEL_SOUNDOUT in
     if tst (dma_csr (dma s c)) DMA_ENABLE then
       let s = (if tst (dma_limit (dma s c)) 3 \<or> tst (dma_next (dma s c)) 3
                then upd_dma c (\<lambda>r. r\<lparr>dma_next := dma_next r AND NOT 3, dma_limit := dma_limit r AND NOT 3\<rparr>) s else s)
       in do {
         r \<leftarrow> read_bytes dev c dma_limit (\<lambda>s. snd_buffer_len s < SND_BUFFER_LIMIT) snd_store s;
         Some (dma_catch c r)
       }
     else Some s)"

definition dma_sndout_intr :: "'a dma_scheme \<Rightarrow> 'a dma_scheme" where
  "dma_sndout_intr s = (
     let s = s\<lparr>snd_buffer_len := 0\<rparr>
     in if tst (dma_csr (dma s CHANNEL_SOUNDOUT)) DMA_ENABLE then dma_interrupt CHANNEL_SOUNDOUT s else s)"

definition dma_sndin_write_memory :: "'a dma_scheme devices \<Rightarrow> u32 \<Rightarrow> 'a dma_scheme \<Rightarrow> (bool \<times> 'a dma_scheme) option" where
  "dma_sndin_write_memory dev val s = (
     let c = CHANNEL_SOUNDIN; r = dma s c in
     if tst (dma_csr r) DMA_ENABLE then
       (if dma_next r mod 4 \<noteq> 0 \<or> dma_limit r mod 4 \<noteq> 0 then None
        else do {
          s \<leftarrow> (if dma_next r < dma_limit r then do {
                  (res, s) \<leftarrow> mem_put dev SZ_LONG (dma_next r) val s;
                  Some (case res of
                    Inl e \<Rightarrow> dma_catch c (res, s)
                  | Inr _ \<Rightarrow> upd_dma c (\<lambda>r. r\<lparr>dma_next := dma_next r + 4\<rparr>) s)
                }
                else Some s);
          let s = upd_dma c (\<lambda>r. r\<lparr>dma_saved_limit := dma_next r\<rparr>) s;
          Some (dma_next (dma s c) = dma_limit (dma s c), s)
        })
     else Some (True, s))"

definition dma_sndin_intr :: "'a dma_scheme \<Rightarrow> bool \<times> 'a dma_scheme" where
  "dma_sndin_intr s = (
     let s = (if tst (dma_csr (dma s CHANNEL_SOUNDIN)) DMA_ENABLE then dma_interrupt CHANNEL_SOUNDIN s else s)
     in (\<not> tst (dma_csr (dma s CHANNEL_SOUNDIN)) DMA_ENABLE, s))"

definition lp_store :: "u8 \<Rightarrow> 'a dma_scheme \<Rightarrow> 'a dma_scheme option" where
  "lp_store val s = do {
     d \<leftarrow> seti (pb_data (lp_buffer s)) (pb_size (lp_buffer s)) val;
     Some (s\<lparr>lp_buffer := (lp_buffer s)\<lparr>pb_data := d, pb_size := pb_size (lp_buffer s) + 1\<rparr>\<rparr>)
   }"

definition dma_printer_read_memory :: "'a dma_scheme devices \<Rightarrow> 'a dma_scheme \<Rightarrow> 'a dma_scheme option" where
  "dma_printer_read_memory dev s = (
     let c = CHANNEL_PRINTER in
     if tst (dma_csr (dma s c)) DMA_ENABLE then
       (if dma_limit (dma s c) mod 4 \<noteq> 0 \<or> dma_next (dma s c) mod 4 \<noteq> 0 then None
        else do {
          r \<leftarrow> read_bytes dev c dma_limit (\<lambda>s. pb_size (lp_buffer s) < pb_limit (lp_buffer s)) lp_store s;
          Some (dma_interrupt c (dma_catch c r))
        })
     else Some s)"

subsection \<open>Ethernet\<close>

definition ENADDR :: "u32 \<Rightarrow> u32" where
  "ENADDR x = x AND NOT (EN_EOP OR EN_BOP)"

definition dma_enet_interrupt :: "DMA_CHANNEL \<Rightarrow> 'a dma_scheme \<Rightarrow> 'a dma_scheme" where
  "dma_enet_interrupt channel s = (
     let s = upd_csr channel (\<lambda>x. x OR DMA_COMPLETE) s;
         s = (if tst (dma_csr (dma s channel)) DMA_SUPDATE then
                let s = upd_dma channel (\<lambda>r. r\<lparr>dma_next := dma_start r, dma_limit := dma_stop r\<rparr>) s;
                    s = (if bTurbo (System (ConfigureParams s))
                         then upd_dma channel (\<lambda>r. r\<lparr>dma_saved_next := dma_next r\<rparr>) s else s)
                in upd_csr channel (\<lambda>x. x AND NOT DMA_SUPDATE) s
              else upd_csr channel (\<lambda>x. x AND NOT DMA_ENABLE) s)
     in set_interrupt (get_interrupt_type channel) SET_INT s)"

partial_function (option) write_packet ::
  "'a dma_scheme devices \<Rightarrow> 'a dma_scheme \<Rightarrow> (unit, 'a dma_scheme) bus_access" where
  "write_packet dev s = (
     let r = dma s CHANNEL_EN_RX; b = enet_rx_buffer s in
     if dma_next r < dma_limit r \<and> 0 < pb_size b then do {
       val \<leftarrow> geti (pb_data b) (pb_limit b - pb_size b);
       (res, s) \<leftarrow> mem_put dev SZ_BYTE (dma_next r) (ucast val) s;
       case res of
         Inl e \<Rightarrow> Some (Inl e, s)
       | Inr _ \<Rightarrow> write_packet dev (upd_dma CHANNEL_EN_RX (\<lambda>r. r\<lparr>dma_next := dma_next r + 1\<rparr>)
           (s\<lparr>enet_rx_buffer := (enet_rx_buffer s)\<lparr>pb_size := pb_size (enet_rx_buffer s) - 1\<rparr>\<rparr>))
     }
     else Some (Inr (), s))"

definition save_nibble :: "'a dma_scheme \<Rightarrow> 'a dma_scheme" where
  "save_nibble s = (
     let c = CHANNEL_EN_RX; nibble = dma_next (dma s c) mod 16; s = s\<lparr>saved_nibble := ucast nibble\<rparr> in
     if tst (dma_csr (dma s c)) DMA_SUPDATE then s
     else
       let s = upd_dma c (\<lambda>r. r\<lparr>dma_next := dma_next r - ucast (saved_nibble s)\<rparr>) s
       in if dma_next (dma s c) < dma_limit (dma s c) then upd_dma c (\<lambda>r. r\<lparr>dma_next := dma_next r + 16\<rparr>) s else s)"

definition dma_enet_write_memory :: "'a dma_scheme devices \<Rightarrow> bool \<Rightarrow> 'a dma_scheme \<Rightarrow> 'a dma_scheme option" where
  "dma_enet_write_memory dev eop s = (
     let c = CHANNEL_EN_RX in
     if \<not> tst (dma_csr (dma s c)) DMA_ENABLE then Some s
     else if dma_limit (dma s c) mod 16 \<noteq> 0 \<or> dma_next (dma s c) mod 16 \<noteq> 0 then None
     else do {
       let s = (if pb_size (enet_rx_buffer s) = pb_limit (enet_rx_buffer s)
                then upd_dma c (\<lambda>r. r\<lparr>dma_saved_next := dma_next r\<rparr>) s else s);
       r \<leftarrow> write_packet dev s;
       let s = dma_catch c r;
       let s = (if pb_size (enet_rx_buffer s) = 0 then
                  let s = upd_dma c (\<lambda>r. r\<lparr>dma_saved_limit := dma_next r\<rparr>) s;
                      s = (if bTurbo (System (ConfigureParams s)) then save_nibble s else s)
                  in if eop then upd_dma c (\<lambda>r. r\<lparr>dma_next := dma_next r OR EN_BOP\<rparr>) s else s
                else s);
       Some (dma_enet_interrupt c s)
     })"

definition tx_store :: "u8 \<Rightarrow> 'a dma_scheme \<Rightarrow> 'a dma_scheme option" where
  "tx_store val s = do {
     d \<leftarrow> seti (pb_data (enet_tx_buffer s)) (pb_size (enet_tx_buffer s)) val;
     Some (s\<lparr>enet_tx_buffer := (enet_tx_buffer s)\<lparr>pb_data := d, pb_size := pb_size (enet_tx_buffer s) + 1\<rparr>\<rparr>)
   }"

definition dma_enet_read_memory :: "'a dma_scheme devices \<Rightarrow> 'a dma_scheme \<Rightarrow> (bool \<times> 'a dma_scheme) option" where
  "dma_enet_read_memory dev s = (
     let c = CHANNEL_EN_TX in
     if tst (dma_csr (dma s c)) DMA_ENABLE then do {
       let s = (if pb_size (enet_tx_buffer s) = 0 then upd_dma c (\<lambda>r. r\<lparr>dma_saved_next := dma_next r\<rparr>) s else s);
       r \<leftarrow> read_bytes dev c (\<lambda>r. ENADDR (dma_limit r)) (\<lambda>s. pb_size (enet_tx_buffer s) < pb_limit (enet_tx_buffer s)) tx_store s;
       let s = dma_catch c r;
       Some (tst (dma_limit (dma s c)) EN_EOP, dma_enet_interrupt c s)
     }
     else Some (False, s))"

subsection \<open>Memory to memory\<close>

partial_function (option) m2m_fill :: "'a dma_scheme devices \<Rightarrow> 'a dma_scheme \<Rightarrow> (unit, 'a dma_scheme) bus_access" where
  "m2m_fill dev s =
     (if m2m_buffer_size s < DMA_BURST_SIZE then do {
        (res, s) \<leftarrow> mem_get dev SZ_BYTE (dma_next (dma s CHANNEL_M2R)) s;
        case res of
          Inl e \<Rightarrow> Some (Inl e, s)
        | Inr val \<Rightarrow> do {
            b \<leftarrow> seti (m2m_buffer s) (m2m_buffer_size s) val;
            m2m_fill dev (upd_dma CHANNEL_M2R (\<lambda>r. r\<lparr>dma_next := dma_next r + 1\<rparr>)
              (s\<lparr>m2m_buffer := b, m2m_buffer_size := m2m_buffer_size s + 1\<rparr>))
          }
      }
      else Some (Inr (), s))"

partial_function (option) m2m_drain :: "'a dma_scheme devices \<Rightarrow> 'a dma_scheme \<Rightarrow> (unit, 'a dma_scheme) bus_access" where
  "m2m_drain dev s =
     (if 0 < m2m_buffer_size s then do {
        val \<leftarrow> geti (m2m_buffer s) (DMA_BURST_SIZE - m2m_buffer_size s);
        (res, s) \<leftarrow> mem_put dev SZ_BYTE (dma_next (dma s CHANNEL_R2M)) val s;
        case res of
          Inl e \<Rightarrow> Some (Inl e, s)
        | Inr _ \<Rightarrow> m2m_drain dev (upd_dma CHANNEL_R2M (\<lambda>r. r\<lparr>dma_next := dma_next r + 1\<rparr>)
                     (s\<lparr>m2m_buffer_size := m2m_buffer_size s - 1\<rparr>))
      }
      else Some (Inr (), s))"

definition dma_m2m_write_memory :: "'a dma_scheme devices \<Rightarrow> 'a dma_scheme \<Rightarrow> 'a dma_scheme option" where
  "dma_m2m_write_memory dev s = do {
     s \<leftarrow> (if dma_next (dma s CHANNEL_R2M) < dma_limit (dma s CHANNEL_R2M) then do {
             s \<leftarrow> (if dma_next (dma s CHANNEL_M2R) < dma_limit (dma s CHANNEL_M2R) then do {
                     r \<leftarrow> m2m_fill dev (s\<lparr>m2m_buffer_size := 0\<rparr>);
                     Some (dma_interrupt CHANNEL_M2R (dma_catch CHANNEL_M2R r))
                   }
                   else Some (s\<lparr>m2m_buffer_size := DMA_BURST_SIZE\<rparr>));
             r \<leftarrow> m2m_drain dev s;
             Some (dma_catch CHANNEL_R2M r)
           }
           else Some s);
     Some (dma_interrupt CHANNEL_R2M s)
   }"

definition DMA_M2M_IO_Handler :: "'a dma_scheme devices \<Rightarrow> 'a dma_scheme \<Rightarrow> 'a dma_scheme option" where
  "DMA_M2M_IO_Handler dev s =
     (if tst (dma_csr (dma s CHANNEL_R2M)) DMA_ENABLE then do {
        s \<leftarrow> dma_m2m_write_memory dev s;
        CycInt_UpdateCyclesEvent 4 EVENT_DMA_M2M_IO s
      }
      else Some s)"

subsection \<open>DSP, video and serial port\<close>

definition dsp_block_end :: "'a dma_scheme \<Rightarrow> 'a dma_scheme" where
  "dsp_block_end s =
     (if dma_next (dma s CHANNEL_DSP) = dma_limit (dma s CHANNEL_DSP)
      then dma_interrupt CHANNEL_DSP (s\<lparr>dsp_calls := dsp_calls s @ [DSP_SetIRQB]\<rparr>) else s)"

definition dma_dsp_write_memory :: "'a dma_scheme devices \<Rightarrow> u8 \<Rightarrow> 'a dma_scheme \<Rightarrow> 'a dma_scheme option" where
  "dma_dsp_write_memory dev val s = (
     let c = CHANNEL_DSP; r = dma s c in
     if \<not> tst (dma_csr r) DMA_ENABLE then Some s
     else do {
       s \<leftarrow> (if dma_next r < dma_limit r then do {
               (res, s) \<leftarrow> mem_put dev SZ_BYTE (dma_next r) (ucast val) s;
               Some (case res of
                 Inl e \<Rightarrow> dma_catch c (res, s)
               | Inr _ \<Rightarrow> upd_dma c (\<lambda>r. r\<lparr>dma_next := dma_next r + 1\<rparr>) s)
             }
             else Some s);
       Some (dsp_block_end s)
     })"

definition dma_dsp_read_memory :: "'a dma_scheme devices \<Rightarrow> 'a dma_scheme \<Rightarrow> (u8 \<times> 'a dma_scheme) option" where
  "dma_dsp_read_memory dev s = (
     let c = CHANNEL_DSP; r = dma s c in
     if \<not> tst (dma_csr r) DMA_ENABLE then Some (0, s)
     else do {
       (val, s) \<leftarrow> (if dma_next r < dma_limit r then do {
               (res, s) \<leftarrow> mem_get dev SZ_BYTE (dma_next r) s;
               Some (case res of
                 Inl e \<Rightarrow> (0, dma_catch c (res, s))
               | Inr v \<Rightarrow> (ucast v, upd_dma c (\<lambda>r. r\<lparr>dma_next := dma_next r + 1\<rparr>) s))
             }
             else Some (0, s));
       Some (val, dsp_block_end s)
     })"

definition dma_dsp_ready :: "'a dma_scheme \<Rightarrow> bool" where
  "dma_dsp_ready s \<longleftrightarrow> tst (dma_csr (dma s CHANNEL_DSP)) DMA_ENABLE
     \<and> dma_next (dma s CHANNEL_DSP) < dma_limit (dma s CHANNEL_DSP)"

definition dma_video_interrupt :: "'a dma_scheme \<Rightarrow> 'a dma_scheme" where
  "dma_video_interrupt s =
     (if dma_limit (dma s CHANNEL_VIDEO) = 0xEA
      then set_interrupt INT_VIDEO SET_INT (upd_csr CHANNEL_VIDEO (\<lambda>x. x OR DMA_COMPLETE) s) else s)"

text \<open>The serial channel does not catch bus errors: they reach the caller.\<close>

definition dma_scc_read_memory :: "'a dma_scheme devices \<Rightarrow> 'a dma_scheme \<Rightarrow> (u8, 'a dma_scheme) bus_access" where
  "dma_scc_read_memory dev s = (
     let c = CHANNEL_SCC; r = dma s c in
     if tst (dma_csr r) DMA_ENABLE then
       (if dma_next r < dma_limit r then do {
          (res, s) \<leftarrow> mem_get dev SZ_BYTE (dma_next r) s;
          Some (case res of
            Inl e \<Rightarrow> (Inl e, s)
          | Inr v \<Rightarrow> (Inr (ucast v), dma_interrupt c (upd_dma c (\<lambda>r. r\<lparr>dma_next := dma_next r + 1\<rparr>) s)))
        }
        else Some (Inr 0, dma_interrupt c s))
     else Some (Inr 0, s))"

definition dma_scc_ready :: "'a dma_scheme \<Rightarrow> bool" where
  "dma_scc_ready s \<longleftrightarrow> tst (dma_csr (dma s CHANNEL_SCC)) DMA_ENABLE
     \<and> dma_next (dma s CHANNEL_SCC) < dma_limit (dma s CHANNEL_SCC)"

section \<open>Turbo machines and reset\<close>

definition TDMA_CSR_Read :: "u32 \<Rightarrow> 'a dma_scheme \<Rightarrow> u32 option" where
  "TDMA_CSR_Read addr s = do { c \<leftarrow> get_channel addr; Some (dma_csr (dma s c)) }"

definition TDMA_CSR_Write :: "u32 \<Rightarrow> u32 \<Rightarrow> 'a dma_scheme \<Rightarrow> 'a dma_scheme option" where
  "TDMA_CSR_Write addr writecsr s = do {
     channel \<leftarrow> get_channel addr;
     let s = upd_dma channel (\<lambda>r. r\<lparr>dma_direction := writecsr AND DMA_DEV2M\<rparr>) s;
     let s = (if tst writecsr DMA_RESET
              then upd_csr channel (\<lambda>x. x AND NOT (DMA_COMPLETE OR DMA_SUPDATE OR DMA_ENABLE)) s else s);
     let s = (if tst writecsr DMA_BUFRESET then dma_initialize_buffer channel 0 s else s);
     let s = (if tst writecsr DMA_SETSUPDATE then upd_csr channel (\<lambda>x. x OR DMA_SUPDATE) s else s);
     let s = (if tst writecsr DMA_SETENABLE then upd_csr channel (\<lambda>x. x OR DMA_ENABLE) s else s);
     let s = (if tst writecsr DMA_CLRCOMPLETE then upd_csr channel (\<lambda>x. x AND NOT DMA_COMPLETE) s else s);
     Some (if tst (dma_csr (dma s channel)) DMA_COMPLETE then s
           else set_interrupt (get_interrupt_type channel) RELEASE_INT s)
   }"

definition TDMA_Saved_Limit_Read :: "'a dma_scheme \<Rightarrow> u32" where
  "TDMA_Saved_Limit_Read s = dma_saved_limit (dma s CHANNEL_EN_RX)"

text \<open>Sixteen bytes are flushed, padded with zeros.\<close>

fun tdma_flush_bytes :: "nat \<Rightarrow> 'a dma_scheme devices \<Rightarrow> 'a dma_scheme \<Rightarrow> (unit, 'a dma_scheme) bus_access" where
  "tdma_flush_bytes 0 dev s = Some (Inr (), s)"
| "tdma_flush_bytes (Suc n) dev s = (
     let r = dma s CHANNEL_SCSI; b = espdma s in
     if dma_next r < dma_limit r then do {
       val \<leftarrow> (if 0 < burst_size b then geti (burst_buf b) (burst_limit b - burst_size b) else Some 0);
       (res, s) \<leftarrow> mem_put dev SZ_BYTE (dma_next r) (ucast val) s;
       case res of
         Inl e \<Rightarrow> Some (Inl e, s)
       | Inr _ \<Rightarrow> tdma_flush_bytes n dev (upd_dma CHANNEL_SCSI (\<lambda>r. r\<lparr>dma_next := dma_next r + 1\<rparr>)
           (if 0 < burst_size b then espdma_update (\<lambda>b. b\<lparr>burst_size := burst_size b - 1\<rparr>) s else s))
     }
     else tdma_flush_bytes n dev s)"

definition tdma_esp_flush_buffer :: "'a dma_scheme devices \<Rightarrow> 'a dma_scheme \<Rightarrow> 'a dma_scheme option" where
  "tdma_esp_flush_buffer dev s = (
     let r = dma s CHANNEL_SCSI in
     if \<not> tst (dma_csr r) DMA_ENABLE \<or> dma_direction r \<noteq> DMA_DEV2M then Some s
     else do {
       (res, s) \<leftarrow> tdma_flush_bytes 16 dev s;
       let s = (case res of
           Inl e \<Rightarrow> dma_catch CHANNEL_SCSI (res, s)
         | Inr _ \<Rightarrow> if burst_size (espdma s) = 0 then espdma_update (\<lambda>b. b\<lparr>burst_limit := burst_size b\<rparr>) s else s);
       Some (dma_interrupt CHANNEL_SCSI s)
     })"

definition all_channels :: "DMA_CHANNEL list" where
  "all_channels = [CHANNEL_SCSI, CHANNEL_SOUNDOUT, CHANNEL_DISK, CHANNEL_SOUNDIN, CHANNEL_PRINTER, CHANNEL_SCC,
     CHANNEL_DSP, CHANNEL_EN_TX, CHANNEL_EN_RX, CHANNEL_VIDEO, CHANNEL_M2R, CHANNEL_R2M]"

definition DMA_Reset :: "'a dma_scheme \<Rightarrow> 'a dma_scheme" where
  "DMA_Reset s = CycInt_RemovePendingEvent EVENT_DMA_M2M_IO
     (foldl (\<lambda>s c. dma_initialize_buffer c 0 (upd_csr c (\<lambda>_. 0) s)) s all_channels)"

text \<open>The sample machine with idle channels and empty buffers.\<close>

definition sample_dma :: dma where
  "sample_dma = esp.extend sample_esp (dma.fields
     (\<lambda>_. \<lparr>dma_csr = 0, dma_saved_next = 0, dma_saved_limit = 0, dma_saved_start = 0, dma_saved_stop = 0, dma_next = 0,
       dma_limit = 0, dma_start = 0, dma_stop = 0, dma_direction = 0\<rparr>)
     \<lparr>burst_size = 0, burst_limit = 0, burst_buf = replicate 16 0\<rparr> \<lparr>burst_size = 0, burst_limit = 0, burst_buf = replicate 16 0\<rparr>
     (replicate 16 0) 0 False \<lparr>db_data = replicate 1024 0, db_size = 0, db_limit = 0\<rparr>
     (replicate 2 \<lparr>db_data = replicate 1296 0, db_size = 0, db_limit = 0\<rparr>) 0 0 (replicate 4096 0) 0
     \<lparr>pb_data = replicate 65536 0, pb_size = 0, pb_limit = 0\<rparr> \<lparr>pb_data = replicate 65536 0, pb_size = 0, pb_limit = 0\<rparr>
     \<lparr>pb_data = replicate 65536 0, pb_size = 0, pb_limit = 0\<rparr> 0)"

end
