(* ===== verification/Esp.thy ===== *)
theory Esp
  imports Dma
begin

text \<open>
  The upper half of the SCSI controller (\<open>esp.c\<close>): the command register with its waiting command,
  the commands, interrupts and the two event handlers.

  \<open>esp_start_command\<close> and \<open>esp_finish_command\<close> call each other, directly and through some
  commands. A command that waits is removed before it is started, so the nesting ends after
  two levels: the functions are built from bodies with the inner call as an argument, and
  \<open>esp_finish_command_unfold\<close> shows that they satisfy the recursive equations of the source.
  The bytes of the local array \<open>commandbuf\<close> that \<open>esp_select\<close> leaves uninitialised are the
  argument \<open>junk\<close>.
\<close>

section \<open>Transfers\<close>

partial_function (option) pio_in :: "'a dma_scheme \<Rightarrow> 'a dma_scheme option" where
  "pio_in s =
     (if fifoflags s < ESP_FIFO_SIZE \<and> 0 < esp_counter s \<and> phase s = PHASE_DI then do {
        (val, s) \<leftarrow> SCSIdisk_Send_Data s;
        s \<leftarrow> esp_fifo_write val s;
        pio_in (s\<lparr>esp_counter := esp_counter s - 1\<rparr>)
      }
      else Some s)"

definition esp_dma_write_memory :: "'a dma_scheme devices \<Rightarrow> 'a dma_scheme \<Rightarrow> 'a dma_scheme option" where
  "esp_dma_write_memory dev s =
     (if tst (esp_control s) ESPCTRL_MODE_DMA then dma_esp_write_memory dev s else pio_in s)"

partial_function (option) pio_out :: "'a dma_scheme \<Rightarrow> 'a dma_scheme option" where
  "pio_out s =
     (if 0 < fifoflags s \<and> 0 < esp_counter s \<and> phase s = PHASE_DO then do {
        (val, s) \<leftarrow> esp_fifo_read s;
        s \<leftarrow> SCSIdisk_Receive_Data val s;
        pio_out (s\<lparr>esp_counter := esp_counter s - 1\<rparr>)
      }
      else Some s)"

definition esp_dma_read_memory :: "'a dma_scheme devices \<Rightarrow> 'a dma_scheme \<Rightarrow> 'a dma_scheme option" where
  "esp_dma_read_memory dev s = do {
     s \<leftarrow> pio_out s;
     if tst (esp_control s) ESPCTRL_MODE_DMA then dma_esp_read_memory dev s else Some s
   }"

definition esp_transfer_info :: "'a dma_scheme \<Rightarrow> 'a dma_scheme option" where
  "esp_transfer_info s =
     (if mode_dma s \<noteq> 0 then
        let (t, s) = SCSIdisk_Time (s\<lparr>esp_io_state := ESP_IO_STATE_TRANSFERING\<rparr>)
        in CycInt_AddTimeEvent (word_of_int t) 100 EVENT_ESP_IO s
      else if phase s = PHASE_DI then do {
        (val, s) \<leftarrow> SCSIdisk_Send_Data s;
        s \<leftarrow> esp_fifo_write val s;
        CycInt_AddCyclesEvent 20 EVENT_ESP_INTERRUPT s
      }
      else if phase s = PHASE_MI \<or> phase s = PHASE_ST then CycInt_AddCyclesEvent 20 EVENT_ESP_INTERRUPT s
      else None)"

definition ESP_IO_Handler :: "'a dma_scheme devices \<Rightarrow> 'a dma_scheme \<Rightarrow> 'a dma_scheme option" where
  "ESP_IO_Handler dev s = (case esp_io_state s of
     ESP_IO_STATE_TRANSFERING \<Rightarrow>
       if phase s = PHASE_DI then do {
         s \<leftarrow> esp_dma_write_memory dev s;
         (fin, s) \<leftarrow> esp_transfer_done True s;
         CycInt_UpdateTimeEvent 100 0 EVENT_ESP_IO (if fin then s\<lparr>esp_io_state := ESP_IO_STATE_FLUSHING\<rparr> else s)
       }
       else if phase s = PHASE_DO then do {
         s \<leftarrow> esp_dma_read_memory dev s;
         (fin, s) \<leftarrow> esp_transfer_done False s;
         if fin then Some s else CycInt_UpdateTimeEvent 100 0 EVENT_ESP_IO s
       }
       else map_option snd (esp_transfer_done True s)
   | ESP_IO_STATE_FLUSHING \<Rightarrow> dma_esp_write_memory dev s
   | ESP_IO_STATE_DONE \<Rightarrow> Some s)"

partial_function (option) pad_in :: "'a dma_scheme \<Rightarrow> 'a dma_scheme option" where
  "pad_in s =
     (if phase s = PHASE_DI \<and> 0 < esp_counter s then do {
        (val, s) \<leftarrow> SCSIdisk_Send_Data s;
        pad_in (s\<lparr>esp_counter := esp_counter s - 1\<rparr>)
      }
      else Some s)"

partial_function (option) pad_out :: "'a dma_scheme \<Rightarrow> 'a dma_scheme option" where
  "pad_out s =
     (if phase s = PHASE_DO \<and> 0 < esp_counter s then do {
        s \<leftarrow> SCSIdisk_Receive_Data 0 s;
        pad_out (s\<lparr>esp_counter := esp_counter s - 1\<rparr>)
      }
      else Some s)"

definition esp_transfer_pad :: "'a dma_scheme \<Rightarrow> 'a dma_scheme option" where
  "esp_transfer_pad s =
     (if phase s = PHASE_DI then do { s \<leftarrow> pad_in s; (fin, s) \<leftarrow> esp_transfer_done True s; Some s }
      else if phase s = PHASE_DO then do { s \<leftarrow> pad_out s; (fin, s) \<leftarrow> esp_transfer_done False s; Some s }
      else None)"

section \<open>Other commands\<close>

definition esp_reset_soft :: "'a dma_scheme \<Rightarrow> 'a dma_scheme" where
  "esp_reset_soft s = (
     let s = s\<lparr>esp_status := esp_status s AND NOT STAT_TC, mode_dma := 0, esp_counter := 0, seqstep := 0x00\<rparr>;
         s = (esp_command_clear s)\<lparr>esp_state := DISCONNECTED, esp_io_state := ESP_IO_STATE_DONE\<rparr>
     in CycInt_RemovePendingEvent EVENT_ESP_IO s)"

fun read_cdb :: "nat \<Rightarrow> nat \<Rightarrow> u8 list \<Rightarrow> 'a dma_scheme \<Rightarrow> (u8 list \<times> 'a dma_scheme) option" where
  "read_cdb 0 i buf s = Some (buf, s)"
| "read_cdb (Suc n) i buf s =
     (if 0 < fifoflags s then do {
        (val, s) \<leftarrow> esp_fifo_read s;
        read_cdb n (i + 1) (buf[i := val]) s
      }
      else Some (buf, s))"

definition esp_select :: "u8 list \<Rightarrow> bool \<Rightarrow> 'a dma_scheme \<Rightarrow> 'a dma_scheme option" where
  "esp_select junk atn s = do {
     let target = selectbusid s AND BUSID_DID;
     (timeout, s) \<leftarrow> SCSIdisk_Select target (s\<lparr>seqstep := 0\<rparr>);
     if timeout then
       let s = (esp_command_clear (s\<lparr>intstatus := INTR_DC\<rparr>))\<lparr>esp_state := DISCONNECTED\<rparr>;
           seltout = uint (selecttimeout s) * 8192 * uint (clockconv s) div ESP_CLOCK_FREQ
       in CycInt_AddTimeEvent (word_of_int seltout) 0 EVENT_ESP_INTERRUPT s
     else if mode_dma s = 1 then None
     else do {
       (identify_msg, s) \<leftarrow> (if atn then esp_fifo_read (set_phase PHASE_MO (s\<lparr>seqstep := 1\<rparr>)) else Some (0, s));
       let s = (set_phase PHASE_CD s)\<lparr>seqstep := 3\<rparr>;
       (commandbuf, s) \<leftarrow> read_cdb SCSI_CDB_MAX_SIZE 0 junk s;
       s \<leftarrow> SCSIdisk_Receive_Command commandbuf identify_msg s;
       let s = (esp_command_clear (s\<lparr>seqstep := 4\<rparr>))\<lparr>intstatus := INTR_BS OR INTR_FC, esp_state := INITIATOR\<rparr>;
       CycInt_AddTimeEvent ESP_DELAY 20 EVENT_ESP_INTERRUPT s
     }
   }"

definition esp_initiator_command_complete :: "'a dma_scheme \<Rightarrow> 'a dma_scheme option" where
  "esp_initiator_command_complete s =
     (if mode_dma s = 1 then None
      else do {
        let (st, s) = SCSIdisk_Send_Status s;
        s \<leftarrow> esp_fifo_write st s;
        if phase s \<noteq> PHASE_MI then
          CycInt_AddTimeEvent ESP_DELAY 20 EVENT_ESP_INTERRUPT ((esp_command_clear s)\<lparr>intstatus := INTR_BS\<rparr>)
        else do {
          s \<leftarrow> esp_fifo_write (SCSIdisk_Send_Message s) s;
          CycInt_AddTimeEvent ESP_DELAY 20 EVENT_ESP_INTERRUPT (s\<lparr>intstatus := INTR_FC\<rparr>)
        }
      })"

definition esp_message_accepted :: "'a dma_scheme \<Rightarrow> 'a dma_scheme option" where
  "esp_message_accepted s =
     CycInt_AddTimeEvent ESP_DELAY 20 EVENT_ESP_INTERRUPT
       ((set_phase PHASE_DO s)\<lparr>intstatus := INTR_DC, esp_state := DISCONNECTED\<rparr>)"

section \<open>Command sequencing\<close>

text \<open>The bodies, with the inner call as an argument.\<close>

definition finish_body ::
  "(u8 \<Rightarrow> 'a dma_scheme \<Rightarrow> 'a dma_scheme option) \<Rightarrow> 'a dma_scheme \<Rightarrow> 'a dma_scheme option" where
  "finish_body start s = (
     let s = s\<lparr>esp_cmd_state := esp_cmd_state s AND NOT ESP_CMD_INPROGRESS\<rparr> in
     if tst (esp_cmd_state s) ESP_CMD_WAITING then
       let s = s\<lparr>esp_command := (esp_command s)[0 := esp_command s ! 1]\<rparr>;
           s = s\<lparr>esp_command := (esp_command s)[1 := 0x00], esp_cmd_state := esp_cmd_state s AND NOT ESP_CMD_WAITING\<rparr>
       in start (esp_command s ! 0) s
     else Some s)"

definition reset_hard_body :: "('a dma_scheme \<Rightarrow> 'a dma_scheme option) \<Rightarrow> 'a dma_scheme \<Rightarrow> 'a dma_scheme option" where
  "reset_hard_body finish s = do {
     let s = esp_fifo_clear (s\<lparr>clockconv := 0x02, esp_configuration := esp_configuration s AND NOT 0xF8\<rparr>);
     let s = s\<lparr>syncperiod := 0x05, syncoffset := 0x00, esp_status := esp_status s AND NOT STAT_INT\<rparr>;
     let s = set_interrupt INT_SCSI RELEASE_INT s;
     let s = s\<lparr>intstatus := 0x00, esp_status := esp_status s AND NOT (STAT_VGC OR STAT_PE OR STAT_GE)\<rparr>;
     s \<leftarrow> finish (esp_reset_soft s);
     Some (CycInt_RemovePendingEvent EVENT_ESP_INTERRUPT s)
   }"

definition bus_reset_body :: "('a dma_scheme \<Rightarrow> 'a dma_scheme option) \<Rightarrow> 'a dma_scheme \<Rightarrow> 'a dma_scheme option" where
  "bus_reset_body finish s = (
     let s = esp_reset_soft s in
     if \<not> tst (esp_configuration s) CFG1_RESREPT then
       let s = set_phase PHASE_DO (s\<lparr>intstatus := INTR_RST\<rparr>)
       in CycInt_AddCycleTimeEvent (if nMachineType (System (ConfigureParams s)) = NEXT_CUBE030 then 50 else 335) 0
            EVENT_ESP_INTERRUPT s
     else finish s)"

definition flush_fifo_body :: "('a dma_scheme \<Rightarrow> 'a dma_scheme option) \<Rightarrow> 'a dma_scheme \<Rightarrow> 'a dma_scheme option" where
  "flush_fifo_body finish s = finish (esp_fifo_clear s)"

definition illegal_command :: "'a dma_scheme \<Rightarrow> 'a dma_scheme option" where
  "illegal_command s = (
     let s = esp_command_clear s
     in CycInt_AddTimeEvent ESP_DELAY 20 EVENT_ESP_INTERRUPT (s\<lparr>intstatus := intstatus s OR INTR_ILL\<rparr>))"

definition wrong_state :: "u8 \<Rightarrow> SCSI_STATE \<Rightarrow> bool" where
  "wrong_state cmd st \<longleftrightarrow> cmd AND CMD_TYP_MASK \<noteq> CMD_TYP_MSC \<and>
     (st = TARGET \<and> \<not> tst cmd CMD_TYP_TGT \<or> st = INITIATOR \<and> \<not> tst cmd CMD_TYP_INR
      \<or> st = DISCONNECTED \<and> \<not> tst cmd CMD_TYP_DIS)"

definition load_counter :: "u8 \<Rightarrow> 'a dma_scheme \<Rightarrow> 'a dma_scheme" where
  "load_counter cmd s =
     (if tst cmd CMD_DMA then
        let n = ucast (writetranscountl s) OR push_bit 8 (ucast (writetranscounth s))
        in s\<lparr>esp_counter := (if n = 0 then 0x10000 else n), esp_status := esp_status s AND NOT STAT_TC, mode_dma := 1\<rparr>
      else s\<lparr>mode_dma := 0\<rparr>)"

definition start_body ::
  "u8 list \<Rightarrow> ('a dma_scheme \<Rightarrow> 'a dma_scheme option) \<Rightarrow> u8 \<Rightarrow> 'a dma_scheme \<Rightarrow> 'a dma_scheme option" where
  "start_body junk finish cmd s = (
     let s = s\<lparr>esp_cmd_state := esp_cmd_state s OR ESP_CMD_INPROGRESS\<rparr> in
     if wrong_state cmd (esp_state s) then illegal_command s
     else
       let s = load_counter cmd s; c = cmd AND CMD_CMD in
       if c = CMD_NOP then finish s
       else if c = CMD_FLUSH then flush_fifo_body finish s
       else if c = CMD_RESET then reset_hard_body finish s
       else if c = CMD_BUSRESET then bus_reset_body finish s
       else if c = CMD_RESEL then None
       else if c = CMD_SEL then esp_select junk False s
       else if c = CMD_SELATN then esp_select junk True s
       else if c = CMD_SELATNS then None
       else if c = CMD_ENSEL then finish s
       else if c = CMD_DISSEL then None
       else if c = CMD_TI then esp_transfer_info s
       else if c = CMD_ICCS then esp_initiator_command_complete s
       else if c = CMD_MSGACC then esp_message_accepted s
       else if c = CMD_PAD then esp_transfer_pad s
       else if c = CMD_SATN then None
       else if c \<in> {CMD_SEMSG, CMD_SESTAT, CMD_SEDAT, CMD_DISSEQ, CMD_TERMSEQ, CMD_TCCS, CMD_RMSGSEQ, CMD_RCOMM,
                    CMD_RDATA, CMD_RCSEQ} then None
       else if c = CMD_DIS then None
       else illegal_command s)"

definition esp_finish_command :: "u8 list \<Rightarrow> 'a dma_scheme \<Rightarrow> 'a dma_scheme option" where
  "esp_finish_command junk = finish_body (start_body junk (finish_body (\<lambda>cmd s. None)))"

definition esp_start_command :: "u8 list \<Rightarrow> u8 \<Rightarrow> 'a dma_scheme \<Rightarrow> 'a dma_scheme option" where
  "esp_start_command junk = start_body junk (esp_finish_command junk)"

definition esp_reset_hard :: "u8 list \<Rightarrow> 'a dma_scheme \<Rightarrow> 'a dma_scheme option" where
  "esp_reset_hard junk = reset_hard_body (esp_finish_command junk)"

definition esp_bus_reset :: "u8 list \<Rightarrow> 'a dma_scheme \<Rightarrow> 'a dma_scheme option" where
  "esp_bus_reset junk = bus_reset_body (esp_finish_command junk)"

definition esp_flush_fifo :: "u8 list \<Rightarrow> 'a dma_scheme \<Rightarrow> 'a dma_scheme option" where
  "esp_flush_fifo junk = flush_fifo_body (esp_finish_command junk)"

definition esp_command_write :: "u8 list \<Rightarrow> u8 \<Rightarrow> 'a dma_scheme \<Rightarrow> 'a dma_scheme option" where
  "esp_command_write junk cmd s = (
     let s = (if esp_command s ! 1 AND CMD_CMD = CMD_RESET \<and> cmd AND CMD_CMD \<noteq> CMD_NOP then s
              else
                let s = s\<lparr>esp_command := (esp_command s)[1 := cmd]\<rparr>
                in if tst (esp_cmd_state s) ESP_CMD_WAITING then s\<lparr>esp_status := esp_status s OR STAT_GE\<rparr> else s)
     in if esp_command s ! 1 AND CMD_CMD = CMD_RESET \<or> esp_command s ! 1 AND CMD_CMD = CMD_BUSRESET
        then esp_start_command junk (esp_command s ! 1) s
        else if tst (esp_cmd_state s) ESP_CMD_INPROGRESS
        then Some (s\<lparr>esp_cmd_state := esp_cmd_state s OR ESP_CMD_WAITING\<rparr>)
        else
          let s = s\<lparr>esp_command := (esp_command s)[0 := esp_command s ! 1]\<rparr>;
              s = s\<lparr>esp_command := (esp_command s)[1 := 0x00]\<rparr>
          in esp_start_command junk (esp_command s ! 0) s)"

definition ESP_Command_Write :: "u8 list \<Rightarrow> u8 \<Rightarrow> 'a dma_scheme \<Rightarrow> 'a dma_scheme option" where
  "ESP_Command_Write junk val s = esp_command_write junk val s"

section \<open>Interrupts\<close>

definition esp_raise_irq :: "'a dma_scheme \<Rightarrow> 'a dma_scheme" where
  "esp_raise_irq s =
     (if tst (esp_status s) STAT_INT then s
      else
        let s = s\<lparr>esp_status := esp_status s OR STAT_INT\<rparr>
        in if tst (esp_control s) ESPCTRL_ENABLE_INT then set_interrupt INT_SCSI SET_INT s else s)"

definition ESP_Interrupt_Handler :: "'a dma_scheme \<Rightarrow> 'a dma_scheme" where
  "ESP_Interrupt_Handler s = esp_raise_irq s"

definition esp_lower_irq :: "u8 list \<Rightarrow> 'a dma_scheme \<Rightarrow> 'a dma_scheme option" where
  "esp_lower_irq junk s =
     (if tst (esp_status s) STAT_INT then
        esp_finish_command junk (set_interrupt INT_SCSI RELEASE_INT (s\<lparr>esp_status := esp_status s AND NOT STAT_INT\<rparr>))
      else Some s)"

definition ESP_IntStatus_Read :: "u8 list \<Rightarrow> 'a dma_scheme \<Rightarrow> (u8 \<times> 'a dma_scheme) option" where
  "ESP_IntStatus_Read junk s = (
     let val = intstatus s in
     if tst (esp_status s) STAT_INT then do {
       s \<leftarrow> esp_lower_irq junk (s\<lparr>intstatus := 0x00, esp_status := esp_status s AND NOT (STAT_VGC OR STAT_PE OR STAT_GE)\<rparr>);
       Some (val, s)
     }
     else Some (val, s))"

definition ESP_DMA_CTRL_Write :: "'a dma_scheme devices \<Rightarrow> u8 list \<Rightarrow> u8 \<Rightarrow> 'a dma_scheme \<Rightarrow> 'a dma_scheme option" where
  "ESP_DMA_CTRL_Write dev junk val s = do {
     let s = s\<lparr>esp_dma := (esp_dma s)\<lparr>espdma_control := val\<rparr>\<rparr>;
     s \<leftarrow> (if tst (esp_control s) ESPCTRL_FLUSH then
             (if bTurbo (System (ConfigureParams s)) then tdma_esp_flush_buffer dev s else dma_esp_flush_buffer dev s)
           else Some s);
     s \<leftarrow> (if tst (esp_control s) ESPCTRL_RESET then esp_reset_hard junk s else Some s);
     Some (if tst (esp_control s) ESPCTRL_ENABLE_INT then
             (if tst (esp_status s) STAT_INT then set_interrupt INT_SCSI SET_INT s else s)
           else set_interrupt INT_SCSI RELEASE_INT s)
   }"

definition ESP_Reset :: "u8 list \<Rightarrow> 'a dma_scheme \<Rightarrow> 'a dma_scheme option" where
  "ESP_Reset junk s = esp_reset_hard junk s"

end
