(* ===== verification/DmaKeeper.thy ===== *)
theory DmaKeeper
  imports Dma
begin

text \<open>
  Invariants of a device that DMA transfers cannot break: the locale \<open>dma_keeper\<close> lists what an
  invariant has to be insensitive to, and shows that accesses to memory and whole transfers keep
  it, on every path, with bus errors and with register handlers that keep it as well.
\<close>

section \<open>The contract\<close>

text \<open>Every state that an operation can result in satisfies the predicate.\<close>

definition all_results :: "('s \<Rightarrow> bool) \<Rightarrow> ('r \<Rightarrow> 's) \<Rightarrow> 'r option \<Rightarrow> bool" where
  "all_results P st r \<longleftrightarrow> (\<forall>x. r = Some x \<longrightarrow> P (st x))"

lemma all_results_simps [simp]:
  "all_results P st None" "all_results P st (Some x) \<longleftrightarrow> P (st x)"
  by (simp_all add: all_results_def)

lemma all_resultsD: "all_results P st r \<Longrightarrow> r = Some x \<Longrightarrow> P (st x)"
  by (simp add: all_results_def)

lemma all_bind: "all_results P st' m \<Longrightarrow> (\<And>x. P (st' x) \<Longrightarrow> all_results Q st (f x)) \<Longrightarrow> all_results Q st (m \<bind> f)"
  by (cases m) simp_all

lemma all_map: "all_results P st' m \<Longrightarrow> (\<And>x. P (st' x) \<Longrightarrow> Q (st (f x))) \<Longrightarrow> all_results Q st (map_option f m)"
  by (cases m) simp_all

lemma all_bind_value:
  "(\<And>v. all_results Q st (f v)) \<Longrightarrow> all_results Q st (seti xs i x \<bind> f)"
  "(\<And>v. all_results Q st (g v)) \<Longrightarrow> all_results Q st (geti ys i \<bind> g)"
  "(\<And>v. all_results Q st (h v)) \<Longrightarrow> all_results Q st (dma_getlong zs i \<bind> h)"
  "(\<And>v. all_results Q st (k v)) \<Longrightarrow> all_results Q st (dma_putlong z zs i \<bind> k)"
  by (cases "seti xs i x"; cases "geti ys i"; cases "dma_getlong zs i"; cases "dma_putlong z zs i"; simp)+

lemma all_admissible: "option.admissible (\<lambda>f. \<forall>x. A x \<longrightarrow> all_results Q st (f (g x)))"
proof -
  have "(\<lambda>f. \<forall>x. A x \<longrightarrow> all_results Q st (f (g x))) = (\<lambda>f. \<forall>z y. f z = Some y \<longrightarrow> (\<exists>x. A x \<and> z = g x) \<longrightarrow> Q (st y))"
    by (auto simp: all_results_def fun_eq_iff)
  then show ?thesis using option_admissible [of "\<lambda>z y. (\<exists>x. A x \<and> z = g x) \<longrightarrow> Q (st y)"] by simp
qed

text \<open>Register handlers, which a transfer may reach.\<close>

definition keeping_devices :: "('a memory_scheme \<Rightarrow> bool) \<Rightarrow> 'a memory_scheme devices \<Rightarrow> bool" where
  "keeping_devices P dev \<longleftrightarrow> (\<forall>bank sz a v s. P s \<longrightarrow> all_results P snd (dev_get dev bank sz a s)
     \<and> all_results P snd (dev_put dev bank sz a v s) \<and> all_results P (\<lambda>x. x) (dev_Reset_Warm dev s))"

locale memory_keeper =
  fixes keep :: "'a dma_scheme \<Rightarrow> bool"
  assumes memory_fields [simp]: "keep (s\<lparr>NEXTRam := m\<rparr>) = keep s" "keep (s\<lparr>NEXTVideo := m\<rparr>) = keep s"
      "keep (s\<lparr>NEXTbmap := b\<rparr>) = keep s" "keep (s\<lparr>bmap_rom_local := x\<rparr>) = keep s" "keep (s\<lparr>bmap_hreq_enable := y\<rparr>) = keep s"
      "keep (s\<lparr>bmap_txdn_enable := y\<rparr>) = keep s" "keep (s\<lparr>bmap_tpe_select := x\<rparr>) = keep s" "keep (s\<lparr>dsp_calls := l\<rparr>) = keep s"
    and channel [simp]: "keep (upd_dma c f s) = keep s" "keep (set_interrupt (get_interrupt_type c) i s) = keep s"
      "keep (scr_check_dsp_interrupt s) = keep s"
begin

lemma mem_get_keeps:
  assumes "keeping_devices keep dev" "keep s"
  shows "all_results keep snd (mem_get dev sz a s)"
proof -
  have "all_results keep snd (dev_get dev bank sz b s)" for bank b
    using assms by (simp add: keeping_devices_def)
  then show ?thesis
    using assms(2)
    by (auto simp: all_results_def mem_get_def Let_def BusErrMem_get_def bus_err_def mem_rom_get_def mem_ram_bank_get_def mem_ram_empty_get_def
        mem_ram_mwf_get_def mem_video_get_def mem_video_mwf_get_def mem_color_video_get_def mem_bmap_get_def dummy_get_def
        split: addrbank.splits if_splits)
qed

lemma bmap_put_keeps:
  assumes "keeping_devices keep dev" "keep s"
  shows "all_results keep (\<lambda>x. x) (bmap_put (dev_Reset_Warm dev) r v s)"
proof -
  have "all_results keep (\<lambda>x. x) (dev_Reset_Warm dev s)" using assms by (simp add: keeping_devices_def)
  then show ?thesis
    using assms(2) by (auto simp: all_results_def bmap_put_def bmap_side_effect_def split: if_splits Option.bind_splits)
qed

lemma mem_bmap_put_keeps:
  assumes "keeping_devices keep dev" "keep s"
  shows "all_results keep snd (mem_bmap_put (dev_Reset_Warm dev) sz a v s)"
  using assms(2) bmap_put_keeps [OF assms]
  by (cases sz) (auto simp: all_results_def mem_bmap_put_def bus_err_def bmap_lput_def bmap_wput_def bmap_bput_def Let_def
      split: if_splits Option.bind_splits)

lemma put_step_keeps:
  assumes "keeping_devices keep dev" "keep s" "\<And>sz a v t. keep t \<Longrightarrow> all_results keep snd (put sz a v t)"
  shows "all_results keep snd (put_step dev put sz a v s)"
proof -
  have mwf: "keep s'" if "mwf_put dev put f sz b v s = Some (u, s')" for f b u s'
    using that all_resultsD [OF mem_get_keeps [OF assms(1,2)]] all_resultsD [OF assms(3) [OF all_resultsD [OF mem_get_keeps [OF assms(1,2)]]]]
    by (auto simp: mwf_put_def split: sum.splits Option.bind_splits)
  have dev: "all_results keep snd (dev_put dev bank sz b v s)" for bank sz b v
    using assms(1,2) by (simp add: keeping_devices_def)
  show ?thesis
    using assms(2) dev mem_bmap_put_keeps [OF assms(1,2)]
    by (auto simp: all_results_def put_step_def Let_def BusErrMem_put_def bus_err_def mem_rom_put_def mem_ram_bank_put_def mem_ram_empty_put_def
        mem_ram_mwf_put_def mem_video_put_def mem_video_mwf_put_def mem_color_video_put_def dummy_put_def
        split: addrbank.splits if_splits bus_size.splits intro: mwf)
qed

lemma mem_put_keeps: "keeping_devices keep dev \<Longrightarrow> keep s \<Longrightarrow> all_results keep snd (mem_put dev sz a v s)"
  unfolding mem_put_def by (intro put_step_keeps) simp_all

lemma dma_interrupt_keeps [simp]: "keep (dma_interrupt c s) = keep s" "keep (dma_catch c r) = keep (snd r)"
  by (simp_all add: dma_interrupt_def upd_csr_def Let_def) (cases "(c, r)" rule: dma_catch.cases; simp add: upd_csr_def)

text \<open>Channels without a buffer.\<close>

lemma read_bytes_keeps:
  assumes dev: "keeping_devices keep dev" and "keep s" and store: "\<And>v s. keep s \<Longrightarrow> all_results keep (\<lambda>s. s) (store v s)"
  shows "all_results keep snd (read_bytes dev c lim ready store s)"
  using assms(2)
proof (induction arbitrary: s rule: read_bytes.fixp_induct)
  case (3 f)
  note get = mem_get_keeps [OF dev 3(2)]
  show ?case
    using 3(2) by (auto simp: Let_def split: sum.split intro!: all_bind [OF get] all_bind [OF store] 3(1))
qed (simp_all add: all_admissible)

end

text \<open>A buffered channel: the operations of its device keep the invariant as well.\<close>

locale dma_keeper = memory_keeper +
  fixes p :: "'a dma_scheme dma_port"
  assumes port: "keep s \<Longrightarrow> keep (port_upd p g s)" "keep s \<Longrightarrow> keep (port_status p s)"
      "keep s \<Longrightarrow> port_send_ready p s \<Longrightarrow> all_results keep snd (port_send p s)"
      "keep s \<Longrightarrow> port_receive_ready p s \<Longrightarrow> all_results keep (\<lambda>x. x) (port_receive p v s)"
begin

text \<open>Each loop, by induction over its approximations.\<close>

lemma fill_keeps: "keep s \<Longrightarrow> all_results keep (\<lambda>x. x) (fill_burst p s)"
proof (induction arbitrary: s rule: fill_burst.fixp_induct)
  case (3 f)
  note send = port(3) [OF 3(2)]
  show ?case using 3(2) by (auto intro!: all_bind [OF send] all_bind_value 3(1) port(1))
qed (simp_all add: all_admissible)

lemma drain_keeps:
  assumes dev: "keeping_devices keep dev" and "keep s"
  shows "all_results keep snd (drain_burst dev p s)"
  using assms(2)
proof (induction arbitrary: s rule: drain_burst.fixp_induct)
  case (3 f)
  note put = mem_put_keeps [OF dev 3(2)]
  show ?case
    using 3(2) by (auto simp: Let_def split: sum.split intro!: all_bind [OF put] all_bind_value 3(1) port(1))
qed (simp_all add: all_admissible)

lemma write_bursts_keeps:
  assumes dev: "keeping_devices keep dev" and "keep s"
  shows "all_results keep snd (write_bursts dev p s)"
  using assms(2)
proof (induction arbitrary: s rule: write_bursts.fixp_induct)
  case (3 f)
  show ?case
    using 3(2) by (auto simp: Let_def split: sum.split intro!: all_bind [OF fill_keeps] all_bind [OF drain_keeps [OF dev]] 3(1) port(1,2))
qed (simp_all add: all_admissible)

lemma load_keeps:
  assumes dev: "keeping_devices keep dev" and "keep s"
  shows "all_results keep snd (load_burst dev p s)"
  using assms(2)
proof (induction arbitrary: s rule: load_burst.fixp_induct)
  case (3 f)
  note get = mem_get_keeps [OF dev 3(2)]
  show ?case
    using 3(2) by (auto simp: Let_def split: sum.split intro!: all_bind [OF get] all_bind_value 3(1) port(1))
qed (simp_all add: all_admissible)

lemma unload_keeps: "keep s \<Longrightarrow> all_results keep (\<lambda>x. x) (unload_burst p s)"
proof (induction arbitrary: s rule: unload_burst.fixp_induct)
  case (3 f)
  note recv = port(4) [OF 3(2)]
  show ?case using 3(2) by (auto simp: Let_def intro!: all_bind [OF recv] all_bind_value 3(1) port(1))
qed (simp_all add: all_admissible)

lemma read_bursts_keeps:
  assumes dev: "keeping_devices keep dev" and "keep s"
  shows "all_results keep snd (read_bursts dev p s)"
  using assms(2)
proof (induction arbitrary: s rule: read_bursts.fixp_induct)
  case (3 f)
  show ?case
    using 3(2) by (auto simp: Let_def split: sum.split intro!: all_bind [OF load_keeps [OF dev]] all_bind [OF unload_keeps] 3(1) port(1,2))
qed (simp_all add: all_admissible)

text \<open>Whole transfers.\<close>

lemma port_memory_keeps:
  assumes "keeping_devices keep dev" "keep s"
  shows "port_write_memory dev p s = Some t \<Longrightarrow> keep t" "port_read_memory dev p s = Some t \<Longrightarrow> keep t"
  using write_bursts_keeps [OF assms] read_bursts_keeps [OF assms] assms(2)
  by (auto simp: port_write_memory_def port_read_memory_def all_results_def Let_def split: if_splits Option.bind_splits)

end

end
