(* ===== verification/EspIrq.thy ===== *)
theory EspIrq
  imports Esp DmaKeeper
begin

text \<open>
  The interrupt of the SCSI controller: the request bit in the interrupt status register always
  agrees with the controller's own status and with the enable bit of its DMA control register.
\<close>

section \<open>The invariant\<close>

text \<open>
  The invariant \<open>scsi_irq\<close> of the controller does not hold while \<open>ESP_DMA_CTRL_Write\<close> flushes the DMA
  buffer, after it has changed the enable bit. The lemmas are therefore stated for any property
  \<open>Q\<close> of the three bits: the request, the status bit and the enable bit.
\<close>

definition irq_view :: "(bool \<Rightarrow> bool \<Rightarrow> bool \<Rightarrow> bool) \<Rightarrow> 'a esp_scheme \<Rightarrow> bool" where
  "irq_view Q s \<longleftrightarrow> Q (tst (scrIntStat s) INT_SCSI) (tst (esp_status s) STAT_INT) (tst (esp_control s) ESPCTRL_ENABLE_INT)"

lemma irq_view_fields [simp]:
  "irq_view Q (s\<lparr>SCSIbus := b\<rparr>) = irq_view Q s" "irq_view Q (s\<lparr>scsi_buffer := c\<rparr>) = irq_view Q s"
  "irq_view Q (s\<lparr>SCSIdisk := d\<rparr>) = irq_view Q s" "irq_view Q (s\<lparr>host_files := h\<rparr>) = irq_view Q s"
  "irq_view Q (s\<lparr>ConfigureParams := p\<rparr>) = irq_view Q s" "irq_view Q (s\<lparr>NEXTRam := m\<rparr>) = irq_view Q s"
  "irq_view Q (s\<lparr>NEXTVideo := m\<rparr>) = irq_view Q s" "irq_view Q (s\<lparr>NEXTbmap := r\<rparr>) = irq_view Q s"
  "irq_view Q (s\<lparr>bmap_rom_local := x\<rparr>) = irq_view Q s" "irq_view Q (s\<lparr>bmap_hreq_enable := x\<rparr>) = irq_view Q s"
  "irq_view Q (s\<lparr>bmap_txdn_enable := x\<rparr>) = irq_view Q s" "irq_view Q (s\<lparr>bmap_tpe_select := x\<rparr>) = irq_view Q s"
  "irq_view Q (s\<lparr>dsp_calls := l\<rparr>) = irq_view Q s"
  "irq_view Q (s\<lparr>esp_state := a\<rparr>) = irq_view Q s" "irq_view Q (s\<lparr>esp_io_state := io\<rparr>) = irq_view Q s"
  "irq_view Q (s\<lparr>esp_cmd_state := x8\<rparr>) = irq_view Q s" "irq_view Q (s\<lparr>esp_fifo := f\<rparr>) = irq_view Q s"
  "irq_view Q (s\<lparr>esp_command := f\<rparr>) = irq_view Q s" "irq_view Q (s\<lparr>selectbusid := x8\<rparr>) = irq_view Q s"
  "irq_view Q (s\<lparr>intstatus := x8\<rparr>) = irq_view Q s" "irq_view Q (s\<lparr>selecttimeout := x8\<rparr>) = irq_view Q s"
  "irq_view Q (s\<lparr>seqstep := x8\<rparr>) = irq_view Q s" "irq_view Q (s\<lparr>syncperiod := x8\<rparr>) = irq_view Q s"
  "irq_view Q (s\<lparr>fifoflags := x8\<rparr>) = irq_view Q s" "irq_view Q (s\<lparr>syncoffset := x8\<rparr>) = irq_view Q s"
  "irq_view Q (s\<lparr>esp_configuration := x8\<rparr>) = irq_view Q s" "irq_view Q (s\<lparr>clockconv := x8\<rparr>) = irq_view Q s"
  "irq_view Q (s\<lparr>esptest := x8\<rparr>) = irq_view Q s" "irq_view Q (s\<lparr>esp_counter := n\<rparr>) = irq_view Q s"
  "irq_view Q (s\<lparr>mode_dma := x8\<rparr>) = irq_view Q s" "irq_view Q (s\<lparr>writetranscountl := x8\<rparr>) = irq_view Q s"
  "irq_view Q (s\<lparr>writetranscounth := x8\<rparr>) = irq_view Q s"
  by (simp_all add: irq_view_def)

lemma irq_view_dma_fields [simp]:
  "irq_view Q (dma_update g s) = irq_view Q s" "irq_view Q (espdma_update b s) = irq_view Q s" "irq_view Q (modma_update b s) = irq_view Q s"
  "irq_view Q (s\<lparr>m2m_buffer := mb\<rparr>) = irq_view Q s" "irq_view Q (s\<lparr>m2m_buffer_size := i\<rparr>) = irq_view Q s"
  "irq_view Q (s\<lparr>flp_buffer := db\<rparr>) = irq_view Q s" "irq_view Q (s\<lparr>ecc_buffer := dbs\<rparr>) = irq_view Q s"
  "irq_view Q (s\<lparr>snd_buffer := f\<rparr>) = irq_view Q s" "irq_view Q (s\<lparr>snd_buffer_len := i\<rparr>) = irq_view Q s"
  "irq_view Q (s\<lparr>lp_buffer := pb\<rparr>) = irq_view Q s" "irq_view Q (s\<lparr>enet_tx_buffer := pb\<rparr>) = irq_view Q s"
  "irq_view Q (s\<lparr>enet_rx_buffer := pb\<rparr>) = irq_view Q s" "irq_view Q (s\<lparr>saved_nibble := x8\<rparr>) = irq_view Q s"
  by (simp_all add: irq_view_def)

text \<open>Other bits of the status register.\<close>

lemma tst_and_super [simp]: "n AND m = m \<Longrightarrow> tst (x AND n) m \<longleftrightarrow> tst x m"
  by (simp add: tst_def and.assoc)

lemma tst_and_clear [simp]: "n AND m = 0 \<Longrightarrow> \<not> tst (x AND n) m"
  by (simp add: tst_def and.assoc)

lemma tst_numerals [simp]: "tst (numeral a) (numeral b :: 'w::len word) \<longleftrightarrow> numeral a AND numeral b \<noteq> (0 :: 'w word)"
  "tst 1 (numeral b :: 'w word) \<longleftrightarrow> 1 AND numeral b \<noteq> (0 :: 'w word)"
  by (simp_all add: tst_def)

lemma irq_view_status [simp]:
  "tst v STAT_INT = tst (esp_status s) STAT_INT \<Longrightarrow> irq_view Q (s\<lparr>esp_status := v\<rparr>) = irq_view Q s"
  by (simp add: irq_view_def)

lemma irq_view_set_interrupt:
  assumes "i AND INT_SCSI = 0"
  shows "irq_view Q (set_interrupt i st s) = irq_view Q s"
proof -
  have "\<not> tst i INT_SCSI" using assms by (simp add: tst_def)
  then show ?thesis using assms by (simp add: irq_view_def set_interrupt_def scr_get_interrupt_level_def
      M68000_CheckInterrupt_def Let_def tst_clear_disjoint)
qed

lemma irq_view_dma_interrupt_bit [simp]: "irq_view Q (set_interrupt (get_interrupt_type c) st s) = irq_view Q s"
  by (rule irq_view_set_interrupt) (cases c; simp)

lemma irq_view_sched: "s' = sched_upd s' s \<Longrightarrow> irq_view Q s' = irq_view Q s"
  by (erule ssubst) (simp add: irq_view_def sched_upd_def)

lemma UpdateCyclesEvent_frame:
  assumes "CycInt_UpdateCyclesEvent c i s = Some s'"
  shows "s' = sched_upd s' s"
  by (rule sched_frame_bind [OF assms [unfolded CycInt_UpdateCyclesEvent_def Let_def remove_if_pending_eq case_prod_beta]])
    (auto intro!: sched_frame_intros)

lemma irq_view_events:
  "CycInt_AddTimeEvent rt ft i s = Some s' \<Longrightarrow> irq_view Q s' = irq_view Q s"
  "CycInt_UpdateTimeEvent rt ft i s = Some s' \<Longrightarrow> irq_view Q s' = irq_view Q s"
  "CycInt_AddCyclesEvent cy i s = Some s' \<Longrightarrow> irq_view Q s' = irq_view Q s"
  "CycInt_UpdateCyclesEvent cy i s = Some s' \<Longrightarrow> irq_view Q s' = irq_view Q s"
  by (rule irq_view_sched, erule AddTimeEvent_frame UpdateTimeEvent_frame AddCyclesEvent_frame UpdateCyclesEvent_frame)+

lemma irq_view_removed [simp]: "irq_view Q (CycInt_RemovePendingEvent i s) = irq_view Q s"
  by (rule irq_view_sched, rule sched_upd_removed)

lemma irq_view_AddCycleTimeEvent: "CycInt_AddCycleTimeEvent ct ft i s = Some s' \<Longrightarrow> irq_view Q s' = irq_view Q s"
  by (simp add: CycInt_AddCycleTimeEvent_def Let_def irq_view_events split: if_splits)

section \<open>Disks\<close>

lemma irq_view_parts [simp]:
  "irq_view Q (set_phase p s) = irq_view Q s" "irq_view Q (upd_disk f s) = irq_view Q s" "irq_view Q (upd_buffer g s) = irq_view Q s"
  "irq_view Q (upd_cnf_target i h s) = irq_view Q s" "irq_view Q (invalid_lba s) = irq_view Q s"
  by (simp_all add: set_phase_def upd_disk_def upd_buffer_def upd_cnf_target_def invalid_lba_def Let_def)

lemma irq_view_write_sector: "scsi_write_sector s = Some s' \<Longrightarrow> irq_view Q s' = irq_view Q s"
  by (auto simp: scsi_write_sector_def write_block_def Let_def split: if_splits option.splits Option.bind_splits)

lemma irq_view_read_sector: "scsi_read_sector s = Some s' \<Longrightarrow> irq_view Q s' = irq_view Q s"
  by (auto simp: scsi_read_sector_def Let_def split: if_splits Option.bind_splits)

lemma irq_view_data:
  "SCSIdisk_Send_Data s = Some (v, s') \<Longrightarrow> irq_view Q s' = irq_view Q s"
  "SCSIdisk_Receive_Data v s = Some s' \<Longrightarrow> irq_view Q s' = irq_view Q s"
  by (auto simp: SCSIdisk_Send_Data_def SCSIdisk_Receive_Data_def Let_def
      split: if_splits Option.bind_splits dest!: irq_view_write_sector irq_view_read_sector)

lemma irq_view_select:
  "SCSIdisk_Select t s = Some (b, s') \<Longrightarrow> irq_view Q s' = irq_view Q s" "irq_view Q (snd (SCSIdisk_Send_Status s)) = irq_view Q s"
  "irq_view Q (snd (SCSIdisk_Time s)) = irq_view Q s"
  by (auto simp: SCSIdisk_Select_def SCSIdisk_Send_Status_def SCSIdisk_Time_def Let_def split: if_splits Option.bind_splits)

lemma irq_view_command: "SCSI_Command cdb s = Some s' \<Longrightarrow> irq_view Q s' = irq_view Q s"
  by (auto simp: SCSI_Command_def lun_command_def SCSI_TestUnitReady_def SCSI_ReadCapacity_def SCSI_WriteSector_def
      SCSI_ReadSector_def SCSI_Inquiry_def SCSI_StartStop_def SCSI_Eject_def SCSI_RequestSense_def SCSI_ModeSense_def
      mode_error_def SCSI_FormatDrive_def SCSI_ReassignBlocks_def Let_def case_prod_beta
      split: if_splits option.splits Option.bind_splits dest!: irq_view_read_sector)

lemma irq_view_receive_command: "SCSIdisk_Receive_Command cdb i s = Some s' \<Longrightarrow> irq_view Q s' = irq_view Q s"
  by (auto simp: SCSIdisk_Receive_Command_def Let_def dest!: irq_view_command)

section \<open>FIFO and transfers\<close>

lemma irq_view_command_clear [simp]: "irq_view Q (esp_command_clear s) = irq_view Q s"
  by (simp add: esp_command_clear_def Let_def)

lemma irq_view_transfer_done: "esp_transfer_done w s = Some (b, s') \<Longrightarrow> irq_view Q s' = irq_view Q s"
  by (auto simp: esp_transfer_done_def split: if_splits Option.bind_splits dest!: irq_view_events(1))

lemma irq_view_fifo:
  "esp_fifo_read s = Some (v, s') \<Longrightarrow> irq_view Q s' = irq_view Q s"
  "esp_fifo_write v s = Some s' \<Longrightarrow> irq_view Q s' = irq_view Q s"
  "irq_view Q (esp_fifo_clear s) = irq_view Q s"
  by (auto simp: esp_fifo_read_def esp_fifo_write_def esp_fifo_clear_def Let_def
      split: if_splits Option.bind_splits dest!: irq_view_data irq_view_transfer_done)

section \<open>Memory and DMA\<close>

text \<open>Register handlers, which a DMA transfer may reach, are assumed to keep the invariant.\<close>

abbreviation irq_devices :: "(bool \<Rightarrow> bool \<Rightarrow> bool \<Rightarrow> bool) \<Rightarrow> 'a dma_scheme devices \<Rightarrow> bool" where
  "irq_devices Q \<equiv> keeping_devices (irq_view Q)"

lemma irq_view_check_dsp [simp]: "irq_view Q (scr_check_dsp_interrupt s) = irq_view Q s"
  by (simp add: scr_check_dsp_interrupt_def irq_view_set_interrupt)

lemma irq_view_stat_write [simp]: "irq_view Q (ESP_DMA_FIFO_STAT_Write v s) = irq_view Q s"
  by (simp add: ESP_DMA_FIFO_STAT_Write_def irq_view_def)

lemma irq_view_dma_parts [simp]:
  "irq_view Q (upd_dma c f s) = irq_view Q s" "irq_view Q (upd_csr c g s) = irq_view Q s"
  "irq_view Q (dma_interrupt c s) = irq_view Q s" "irq_view Q (dma_enet_interrupt c s) = irq_view Q s"
proof -
  show u: "irq_view Q (upd_dma c f s) = irq_view Q s" for f :: "dma_regs \<Rightarrow> dma_regs" and s :: "'a dma_scheme"
    by (simp add: upd_dma_def)
  have w: "irq_view Q (upd_csr c g s) = irq_view Q s" for g and s :: "'a dma_scheme" by (simp add: upd_csr_def u)
  then show "irq_view Q (upd_csr c g s) = irq_view Q s" .
  show "irq_view Q (dma_interrupt c s) = irq_view Q s" "irq_view Q (dma_enet_interrupt c s) = irq_view Q s"
    by (simp_all add: dma_interrupt_def dma_enet_interrupt_def Let_def u w)
qed

lemma irq_view_catch [simp]: "irq_view Q (dma_catch c r) = irq_view Q (snd r)"
  by (cases "(c, r)" rule: dma_catch.cases) auto

lemma irq_view_set_status [simp]: "irq_view Q (ESP_DMA_set_status s) = irq_view Q s"
  "irq_view Q (dma_initialize_buffer c off t) = irq_view Q t"
  by (simp_all add: ESP_DMA_set_status_def dma_initialize_buffer_def Let_def split: DMA_CHANNEL.splits)

section \<open>Channels\<close>

interpretation irq_scsi: dma_keeper "irq_view Q :: 'a dma_scheme \<Rightarrow> bool" esp_port for Q
  by unfold_locales (auto simp: esp_port_def flp_send_def flp_receive_def ESP_Send_Data_def ESP_Receive_Data_def all_results_def Let_def
      split: if_splits Option.bind_splits dest!: irq_view_fifo(1,2) irq_view_data)

interpretation irq_disk: dma_keeper "irq_view Q :: 'a dma_scheme \<Rightarrow> bool" mo_port for Q
  by unfold_locales (auto simp: mo_port_def ecc_send_def ecc_receive_def all_results_def split: Option.bind_splits)

section \<open>Sequences of operations\<close>

text \<open>
  Every result that an operation can have satisfies the invariant. The rules follow the structure
  of the definitions: \<open>irq_opt\<close> of a sequence reduces to its steps.
\<close>

abbreviation irq_opt :: "(bool \<Rightarrow> bool \<Rightarrow> bool \<Rightarrow> bool) \<Rightarrow> ('r \<Rightarrow> 'a esp_scheme) \<Rightarrow> 'r option \<Rightarrow> bool" where
  "irq_opt Q \<equiv> all_results (irq_view Q)"

abbreviation irq_step :: "(bool \<Rightarrow> bool \<Rightarrow> bool \<Rightarrow> bool) \<Rightarrow> 'a esp_scheme option \<Rightarrow> bool" where
  "irq_step Q \<equiv> irq_opt Q (\<lambda>s. s)"

abbreviation irq_result :: "(bool \<Rightarrow> bool \<Rightarrow> bool \<Rightarrow> bool) \<Rightarrow> ('v \<times> 'a esp_scheme) option \<Rightarrow> bool" where
  "irq_result Q \<equiv> irq_opt Q snd"

lemma irq_opt_simps [simp]:
  "irq_opt Q st (Some x) = irq_view Q (st x)" "irq_opt Q st None" "irq_opt Q st (map_option g r) = irq_opt Q (\<lambda>x. st (g x)) r"
  by (auto simp: all_results_def)

lemma irq_optD: "irq_opt Q st r \<Longrightarrow> r = Some x \<Longrightarrow> irq_view Q (st x)"
  by (simp add: all_results_def)

lemma irq_bind_mixed: "irq_step R m \<Longrightarrow> (\<And>s. irq_view R s \<Longrightarrow> irq_opt Q st (f s)) \<Longrightarrow> irq_opt Q st (m \<bind> f)"
  by (auto simp: all_results_def split: Option.bind_splits)

lemmas irq_bind_state = irq_bind_mixed [where R = Q and Q = Q for Q]

lemma irq_bind_result:
  "irq_result Q m \<Longrightarrow> (\<And>v s. irq_view Q s \<Longrightarrow> irq_opt Q st (f v s)) \<Longrightarrow> irq_opt Q st (m \<bind> (\<lambda>(v, s). f v s))"
  by (auto simp: all_results_def split: Option.bind_splits)

lemma irq_bind_pair:
  "irq_result Q m \<Longrightarrow> (\<And>x. irq_view Q (snd x) \<Longrightarrow> irq_opt Q st (f x)) \<Longrightarrow> irq_opt Q st (m \<bind> f)"
  for m :: "((bus_error + 'v) \<times> 'a esp_scheme) option"
  by (auto simp: all_results_def split: Option.bind_splits)

text \<open>Steps that only compute a value.\<close>

lemma irq_bind_value: "(\<And>v. irq_opt Q st (f v)) \<Longrightarrow> irq_opt Q st (m \<bind> f)"
  by (auto simp: all_results_def split: Option.bind_splits)

lemmas irq_bind_values = irq_bind_value [where m = "m :: u8 option" for m] irq_bind_value [where m = "m :: u32 option" for m]
  irq_bind_value [where m = "m :: u8 list option" for m] irq_bind_value [where m = "m :: u32 list option" for m]
  irq_bind_value [where m = "m :: device_buffer option" for m] irq_bind_value [where m = "m :: dma_burst option" for m]

lemma irq_let:
  "irq_view Q e \<Longrightarrow> (\<And>s. irq_view Q s \<Longrightarrow> irq_opt Q st (f s)) \<Longrightarrow> irq_opt Q st (let s = e in f s)"
  by simp

lemma irq_if: "(c \<Longrightarrow> irq_opt Q st a) \<Longrightarrow> (\<not> c \<Longrightarrow> irq_opt Q st b) \<Longrightarrow> irq_opt Q st (if c then a else b)"
  by simp

lemma irq_case_sum:
  "(\<And>e. r = Inl e \<Longrightarrow> irq_opt Q st (f e)) \<Longrightarrow> (\<And>v. r = Inr v \<Longrightarrow> irq_opt Q st (g v)) \<Longrightarrow>
    irq_opt Q st (case r of Inl e \<Rightarrow> f e | Inr v \<Rightarrow> g v)"
  by (cases r) auto

lemmas irq_rules = irq_bind_state irq_bind_result irq_bind_values irq_if irq_case_sum

lemma irq_basic:
  assumes "irq_view Q s"
  shows "irq_result Q (SCSIdisk_Send_Data s)" "irq_step Q (SCSIdisk_Receive_Data v s)" "irq_result Q (SCSIdisk_Select t s)"
    "irq_step Q (SCSIdisk_Receive_Command cdb i s)" "irq_result Q (esp_transfer_done w s)" "irq_result Q (esp_fifo_read s)"
    "irq_step Q (esp_fifo_write v s)" "irq_step Q (CycInt_AddTimeEvent rt ft e s)" "irq_step Q (CycInt_UpdateTimeEvent rt ft e s)"
    "irq_step Q (CycInt_AddCyclesEvent cy e s)" "irq_step Q (CycInt_AddCycleTimeEvent rt ft e s)"
    "irq_step Q (CycInt_UpdateCyclesEvent cy e s)"
  using assms by (auto simp: all_results_def dest: irq_view_data irq_view_select(1) irq_view_receive_command irq_view_transfer_done
      irq_view_fifo(1,2) irq_view_events irq_view_AddCycleTimeEvent)

lemmas irq_ops = irq_basic irq_scsi.mem_get_keeps irq_scsi.mem_put_keeps

text \<open>Loops keep the invariant when their bodies do: admissibility, by number of arguments.\<close>

lemma irq_admissible: "option.admissible (\<lambda>f. \<forall>x. A x \<longrightarrow> irq_opt Q st (f x))"
proof -
  have "(\<lambda>f. \<forall>x. A x \<longrightarrow> irq_opt Q st (f x)) = (\<lambda>f. \<forall>x y. f x = Some y \<longrightarrow> A x \<longrightarrow> irq_view Q (st y))"
    by (auto simp: all_results_def)
  then show ?thesis using option_admissible [of "\<lambda>x y. A x \<longrightarrow> irq_view Q (st y)"] by simp
qed

lemma irq_admissible2: "option.admissible (\<lambda>f. \<forall>x. A x \<longrightarrow> (\<forall>y. B y \<longrightarrow> irq_opt Q st (f (x, y))))"
proof -
  have "(\<lambda>f. \<forall>x. A x \<longrightarrow> (\<forall>y. B y \<longrightarrow> irq_opt Q st (f (x, y)))) = (\<lambda>f. \<forall>z. A (fst z) \<and> B (snd z) \<longrightarrow> irq_opt Q st (f z))"
    by auto
  then show ?thesis using irq_admissible [of "\<lambda>z. A (fst z) \<and> B (snd z)"] by simp
qed

lemma irq_flush: "irq_devices Q dev \<Longrightarrow> irq_view Q s \<Longrightarrow> irq_step Q (dma_esp_flush_buffer dev s)"
  by (auto simp: dma_esp_flush_buffer_def Let_def intro!: irq_rules irq_bind_pair irq_ops)

lemma irq_tdma_bytes: "irq_devices Q dev \<Longrightarrow> irq_view Q s \<Longrightarrow> irq_result Q (tdma_flush_bytes n dev s)"
  by (induction n arbitrary: s) (auto simp: Let_def intro!: irq_rules irq_ops)

lemma irq_tdma_flush: "irq_devices Q dev \<Longrightarrow> irq_view Q s \<Longrightarrow> irq_step Q (tdma_esp_flush_buffer dev s)"
  using irq_tdma_bytes [of Q dev s 16]
  by (auto simp: tdma_esp_flush_buffer_def Let_def all_results_def simp del: tdma_flush_bytes.simps
      split: Option.bind_splits sum.splits)

lemma irq_m2m_fill: "irq_devices Q dev \<Longrightarrow> irq_view Q s \<Longrightarrow> irq_result Q (m2m_fill dev s)"
proof (induction arbitrary: dev s rule: m2m_fill.fixp_induct)
  case (3 f)
  show ?case by (auto simp: Let_def intro!: irq_rules irq_ops 3)
qed (simp_all add: irq_admissible2)

lemma irq_m2m_drain: "irq_devices Q dev \<Longrightarrow> irq_view Q s \<Longrightarrow> irq_result Q (m2m_drain dev s)"
proof (induction arbitrary: dev s rule: m2m_drain.fixp_induct)
  case (3 f)
  show ?case by (auto simp: Let_def intro!: irq_rules irq_ops 3)
qed (simp_all add: irq_admissible2)

lemma irq_dma_ops:
  assumes "irq_devices Q dev" "irq_view Q s"
  shows "irq_step Q (dma_esp_write_memory dev s)" "irq_step Q (dma_esp_read_memory dev s)"
    "irq_step Q (dma_mo_write_memory dev s)" "irq_step Q (dma_mo_read_memory dev s)"
    "irq_step Q (DMA_M2M_IO_Handler dev s)"
proof -
  show "irq_step Q (DMA_M2M_IO_Handler dev s)" using assms
    by (auto simp: DMA_M2M_IO_Handler_def dma_m2m_write_memory_def
        intro!: irq_rules irq_bind_pair irq_ops irq_m2m_fill irq_m2m_drain)
qed (use irq_scsi.port_memory_keeps [OF assms] irq_disk.port_memory_keeps [OF assms]
  in \<open>auto simp: all_results_def dma_esp_write_memory_def dma_esp_read_memory_def dma_mo_write_memory_def dma_mo_read_memory_def\<close>)

section \<open>The controller\<close>

lemma irq_pio_in: "irq_view Q s \<Longrightarrow> irq_step Q (pio_in s)"
proof (induction arbitrary: s rule: pio_in.fixp_induct)
  case (3 f)
  show ?case by (auto intro!: irq_rules irq_ops 3)
qed (simp_all add: irq_admissible)

lemma irq_pio_out: "irq_view Q s \<Longrightarrow> irq_step Q (pio_out s)"
proof (induction arbitrary: s rule: pio_out.fixp_induct)
  case (3 f)
  show ?case by (auto intro!: irq_rules irq_ops 3)
qed (simp_all add: irq_admissible)

lemma irq_pad_in: "irq_view Q s \<Longrightarrow> irq_step Q (pad_in s)"
proof (induction arbitrary: s rule: pad_in.fixp_induct)
  case (3 f)
  show ?case by (auto intro!: irq_rules irq_ops 3)
qed (simp_all add: irq_admissible)

lemma irq_pad_out: "irq_view Q s \<Longrightarrow> irq_step Q (pad_out s)"
proof (induction arbitrary: s rule: pad_out.fixp_induct)
  case (3 f)
  show ?case by (auto intro!: irq_rules irq_ops 3)
qed (simp_all add: irq_admissible)

lemma irq_read_cdb: "irq_view Q s \<Longrightarrow> irq_result Q (read_cdb n i buf s)"
  by (induction n arbitrary: i buf s) (auto intro!: irq_rules irq_ops)

lemma irq_view_tuples [simp]:
  "irq_view Q (snd (SCSIdisk_Send_Status s)) = irq_view Q s" "irq_view Q (snd (SCSIdisk_Time s)) = irq_view Q s"
  "irq_view Q (esp_fifo_clear s) = irq_view Q s"
  by (simp_all add: irq_view_select irq_view_fifo)

lemma irq_esp_parts:
  assumes "irq_view Q s"
  shows "irq_step Q (esp_transfer_info s)" "irq_step Q (esp_transfer_pad s)" "irq_step Q (esp_select junk atn s)"
    "irq_step Q (esp_initiator_command_complete s)" "irq_step Q (esp_message_accepted s)" "irq_step Q (illegal_command s)"
    "irq_view Q (esp_reset_soft s)" "irq_view Q (load_counter cmd s)"
  using assms
  by (auto simp: esp_transfer_info_def esp_transfer_pad_def esp_select_def esp_initiator_command_complete_def
      esp_message_accepted_def illegal_command_def esp_reset_soft_def load_counter_def case_prod_beta Let_def
      intro!: irq_rules irq_ops irq_pad_in irq_pad_out irq_read_cdb)

section \<open>Commands and interrupts\<close>

text \<open>The request is exactly the enabled status bit; without the enable bit: it implies the status bit.\<close>

abbreviation scsi_irq :: "'a esp_scheme \<Rightarrow> bool" where
  "scsi_irq \<equiv> irq_view (\<lambda>intr st en. intr \<longleftrightarrow> st \<and> en)"

abbreviation scsi_pending :: "'a esp_scheme \<Rightarrow> bool" where
  "scsi_pending \<equiv> irq_view (\<lambda>intr st en. intr \<longrightarrow> st)"

abbreviation keeps_irq :: "'a esp_scheme option \<Rightarrow> bool" where
  "keeps_irq \<equiv> irq_step (\<lambda>intr st en. intr \<longleftrightarrow> st \<and> en)"

text \<open>Releasing the interrupt establishes the invariant.\<close>

lemma irq_view_release [simp]: "\<not> tst (esp_status s) STAT_INT \<Longrightarrow> scsi_irq (set_interrupt INT_SCSI RELEASE_INT s)"
  by (simp add: irq_view_def set_interrupt_def scr_get_interrupt_level_def M68000_CheckInterrupt_def Let_def)

lemma irq_bodies:
  assumes "\<And>s. scsi_irq s \<Longrightarrow> keeps_irq (finish s)"
  shows "keeps_irq (reset_hard_body finish s)" "scsi_irq s \<Longrightarrow> keeps_irq (bus_reset_body finish s)"
    "scsi_irq s \<Longrightarrow> keeps_irq (flush_fifo_body finish s)"
proof -
  show "keeps_irq (reset_hard_body finish s)"
    unfolding reset_hard_body_def Let_def
    by (rule irq_bind_state) (auto intro!: assms irq_esp_parts simp: esp_fifo_clear_def)
qed (auto simp: bus_reset_body_def flush_fifo_body_def Let_def intro!: irq_rules irq_ops irq_esp_parts assms)

lemma irq_start_body:
  assumes "\<And>s. scsi_irq s \<Longrightarrow> keeps_irq (finish s)" "scsi_irq s"
  shows "keeps_irq (start_body junk finish cmd s)"
  unfolding start_body_def Let_def using assms(2)
  by (intro irq_if irq_opt_simps(2) assms irq_bodies irq_esp_parts) simp_all

lemma irq_finish_body:
  assumes "\<And>cmd s. scsi_irq s \<Longrightarrow> keeps_irq (start cmd s)" "scsi_irq s"
  shows "keeps_irq (finish_body start s)"
  using assms(2) by (auto simp: finish_body_def Let_def intro!: assms(1))

lemma irq_finish: "scsi_irq s \<Longrightarrow> keeps_irq (esp_finish_command junk s)"
  unfolding esp_finish_command_def by (intro irq_finish_body irq_start_body) simp_all

lemma irq_start: "scsi_irq s \<Longrightarrow> keeps_irq (esp_start_command junk cmd s)"
  unfolding esp_start_command_def by (intro irq_start_body irq_finish) simp_all

lemma irq_commands:
  "scsi_irq s \<Longrightarrow> keeps_irq (ESP_Command_Write junk cmd s)" "keeps_irq (ESP_Reset junk s)"
  by (auto simp: ESP_Command_Write_def esp_command_write_def Let_def ESP_Reset_def esp_reset_hard_def
      intro!: irq_if irq_start irq_bodies irq_finish)

lemma irq_interrupts:
  assumes "scsi_irq s"
  shows "scsi_irq (ESP_Interrupt_Handler s)" "ESP_IntStatus_Read junk s = Some (v, s') \<Longrightarrow> scsi_irq s'"
proof -
  show "scsi_irq (ESP_Interrupt_Handler s)" using assms
    by (auto simp: ESP_Interrupt_Handler_def esp_raise_irq_def irq_view_def Let_def set_interrupt_def
        scr_get_interrupt_level_def M68000_CheckInterrupt_def)
  have "irq_result (\<lambda>intr st en. intr \<longleftrightarrow> st \<and> en) (ESP_IntStatus_Read junk s)" using assms
    by (auto simp: ESP_IntStatus_Read_def esp_lower_irq_def Let_def intro!: irq_rules irq_finish)
  then show "ESP_IntStatus_Read junk s = Some (v, s') \<Longrightarrow> scsi_irq s'" by (auto simp: all_results_def)
qed

lemma irq_io_handler: "irq_devices Q dev \<Longrightarrow> irq_view Q s \<Longrightarrow> irq_step Q (ESP_IO_Handler dev s)"
  by (auto simp: ESP_IO_Handler_def esp_dma_write_memory_def esp_dma_read_memory_def
      split: ESP_IO_STATE.split intro!: irq_rules irq_ops irq_dma_ops irq_pio_in irq_pio_out)

text \<open>While the DMA buffer is flushed, the enable bit has changed already.\<close>

definition esp_devices :: "'a dma_scheme devices \<Rightarrow> bool" where
  "esp_devices dev \<longleftrightarrow> irq_devices (\<lambda>intr st en. intr \<longleftrightarrow> st \<and> en) dev \<and> irq_devices (\<lambda>intr st en. intr \<longrightarrow> st) dev"

lemma irq_ctrl_write:
  assumes "esp_devices dev" "scsi_irq s"
  shows "keeps_irq (ESP_DMA_CTRL_Write dev junk val s)"
proof -
  let ?s = "s\<lparr>esp_dma := (esp_dma s)\<lparr>espdma_control := val\<rparr>\<rparr>" and ?W = "\<lambda>intr st en :: bool. intr \<longrightarrow> st"
  have dev: "irq_devices ?W dev" using assms(1) by (simp add: esp_devices_def)
  have s: "scsi_pending ?s" using assms(2) by (auto simp: irq_view_def)
  have flush: "irq_step ?W (if tst (esp_control ?s) ESPCTRL_FLUSH then
      (if bTurbo (System (ConfigureParams ?s)) then tdma_esp_flush_buffer dev ?s else dma_esp_flush_buffer dev ?s) else Some ?s)"
    by (intro irq_if irq_tdma_flush irq_flush dev s) (use s in simp)
  have "keeps_irq (esp_reset_hard junk t)" for t unfolding esp_reset_hard_def by (rule irq_bodies(1)) (rule irq_finish)
  then have "irq_step ?W (esp_reset_hard junk t)" for t by (fastforce simp: all_results_def irq_view_def)
  then have reset: "irq_step ?W (if tst (esp_control t) ESPCTRL_RESET then esp_reset_hard junk t else Some t)"
    if "scsi_pending t" for t using that by (intro irq_if) simp_all
  have fin: "scsi_irq (if tst (esp_control t) ESPCTRL_ENABLE_INT then
             (if tst (esp_status t) STAT_INT then set_interrupt INT_SCSI SET_INT t else t)
           else set_interrupt INT_SCSI RELEASE_INT t)" if "scsi_pending t" for t :: "'a dma_scheme"
    using that by (auto simp: irq_view_def set_interrupt_def scr_get_interrupt_level_def M68000_CheckInterrupt_def Let_def)
  show ?thesis unfolding ESP_DMA_CTRL_Write_def Let_def
    by (rule irq_bind_mixed [OF flush], rule irq_bind_mixed [OF reset], assumption, subst irq_opt_simps(1), rule fin)
qed

section \<open>The recursion of the command sequencer\<close>

abbreviation waiting :: "'a dma_scheme \<Rightarrow> bool" where
  "waiting s \<equiv> tst (esp_cmd_state s) ESP_CMD_WAITING"

lemma finish_body_idle: "\<not> waiting s \<Longrightarrow>
    finish_body start s = Some (s\<lparr>esp_cmd_state := esp_cmd_state s AND NOT ESP_CMD_INPROGRESS\<rparr>)"
  by (simp add: finish_body_def)

lemma cmd_state_frames [simp]:
  "esp_cmd_state (load_counter cmd s) = esp_cmd_state s" "esp_cmd_state (esp_fifo_clear s) = esp_cmd_state s"
  "esp_cmd_state (set_interrupt i st s) = esp_cmd_state s" "esp_cmd_state (CycInt_RemovePendingEvent e s) = esp_cmd_state s"
  by (simp_all add: load_counter_def esp_fifo_clear_def Let_def set_interrupt_def scr_get_interrupt_level_def
      M68000_CheckInterrupt_def CycInt_RemovePendingEvent_unlink)

lemma waiting_reset_soft: "\<not> waiting s \<Longrightarrow> \<not> waiting (esp_reset_soft s)"
  by (auto simp: esp_reset_soft_def esp_command_clear_def Let_def)

lemma start_body_idle:
  assumes "\<not> waiting s"
  shows "start_body junk (finish_body f) cmd s = start_body junk (finish_body g) cmd s"
proof -
  let ?s = "load_counter cmd (s\<lparr>esp_cmd_state := esp_cmd_state s OR ESP_CMD_INPROGRESS\<rparr>)"
  have idle: "\<not> waiting ?s" using assms by simp
  have fin: "finish_body f t = finish_body g t" if "\<not> waiting t" for t using that by (simp add: finish_body_idle)
  have "reset_hard_body (finish_body f) ?s = reset_hard_body (finish_body g) ?s"
    unfolding reset_hard_body_def Let_def by (subst fin) (use idle in \<open>auto intro!: waiting_reset_soft\<close>)
  moreover have "bus_reset_body (finish_body f) ?s = bus_reset_body (finish_body g) ?s"
    unfolding bus_reset_body_def Let_def using fin [OF waiting_reset_soft [OF idle]] by simp
  moreover have "flush_fifo_body (finish_body f) ?s = flush_fifo_body (finish_body g) ?s"
    unfolding flush_fifo_body_def using idle by (intro fin) simp
  ultimately show ?thesis
    unfolding start_body_def Let_def by (simp only: fin [OF idle])
qed

text \<open>
  The functions built from bodies are those of the source: finishing a command starts the
  waiting command with \<open>esp_start_command\<close>, in every state.
\<close>

lemma esp_finish_command_unfold: "esp_finish_command junk s = finish_body (esp_start_command junk) s"
  for s :: "'a dma_scheme"
proof -
  have "start_body junk (finish_body (\<lambda>cmd s. None)) cmd t = esp_start_command junk cmd t" if "\<not> waiting t"
    for cmd and t :: "'a dma_scheme"
    using start_body_idle [OF that] by (simp add: esp_start_command_def esp_finish_command_def)
  then show ?thesis
    by (cases "waiting s") (simp_all add: esp_finish_command_def finish_body_idle, simp add: finish_body_def Let_def)
qed

section \<open>Reachable states\<close>

text \<open>Everything that happens to the controller and its DMA channel, and the interrupts of other devices.\<close>

inductive esp_step :: "'a dma_scheme devices \<Rightarrow> 'a dma_scheme \<Rightarrow> 'a dma_scheme \<Rightarrow> bool" for dev where
  command: "ESP_Command_Write junk val s = Some s' \<Longrightarrow> esp_step dev s s'"
| fifo_read: "ESP_FIFO_Read s = Some (v, s') \<Longrightarrow> esp_step dev s s'"
| fifo_write: "ESP_FIFO_Write val s = Some s' \<Longrightarrow> esp_step dev s s'"
| intstatus: "ESP_IntStatus_Read junk s = Some (v, s') \<Longrightarrow> esp_step dev s s'"
| control: "ESP_DMA_CTRL_Write dev junk val s = Some s' \<Longrightarrow> esp_step dev s s'"
| dma_stat: "esp_step dev s (ESP_DMA_FIFO_STAT_Write val s)"
| count_l: "esp_step dev s (ESP_TransCountL_Write val s)"
| count_h: "esp_step dev s (ESP_TransCountH_Write val s)"
| busid: "esp_step dev s (ESP_SelectBusID_Write val s)"
| timeout: "esp_step dev s (ESP_SelectTimeout_Write val s)"
| configuration: "esp_step dev s (ESP_Configuration_Write val s)"
| clock: "esp_step dev s (ESP_ClockConv_Write val s)"
| interrupt: "esp_step dev s (ESP_Interrupt_Handler s)"
| transfer: "ESP_IO_Handler dev s = Some s' \<Longrightarrow> esp_step dev s s'"
| reset: "ESP_Reset junk s = Some s' \<Longrightarrow> esp_step dev s s'"
| dma_csr: "DMA_CSR_Write addr val s = Some s' \<Longrightarrow> esp_step dev s s'"
| tdma_csr: "TDMA_CSR_Write addr val s = Some s' \<Longrightarrow> esp_step dev s s'"
| dma_init: "DMA_Init_Write addr val s = Some s' \<Longrightarrow> esp_step dev s s'"
| dma_address: "DMA_reg_Write upd dist addr val s = Some s' \<Longrightarrow> esp_step dev s s'"
| dma_reset: "esp_step dev s (DMA_Reset s)"
| mo_write: "dma_mo_write_memory dev s = Some s' \<Longrightarrow> esp_step dev s s'"
| mo_read: "dma_mo_read_memory dev s = Some s' \<Longrightarrow> esp_step dev s s'"
| m2m: "DMA_M2M_IO_Handler dev s = Some s' \<Longrightarrow> esp_step dev s s'"
| other: "i AND INT_SCSI = 0 \<Longrightarrow> esp_step dev s (set_interrupt i st s)"
| cpu: "mem_get dev sz a s = Some (r, s') \<Longrightarrow> esp_step dev s s'"
| cpu_write: "mem_put dev sz a v s = Some (u, s') \<Longrightarrow> esp_step dev s s'"

inductive esp_reachable :: "'a dma_scheme devices \<Rightarrow> 'a dma_scheme \<Rightarrow> bool" for dev where
  init: "ESP_Reset junk s = Some s' \<Longrightarrow> esp_reachable dev s'"
| step: "esp_reachable dev s \<Longrightarrow> esp_step dev s s' \<Longrightarrow> esp_reachable dev s'"

lemma irq_bind_channel: "(\<And>v. irq_opt Q st (f v)) \<Longrightarrow> irq_opt Q st (get_channel a \<bind> f)"
  by (rule irq_bind_value)

lemma irq_csr_writes:
  assumes "irq_view Q s"
  shows "irq_step Q (DMA_CSR_Write addr val s)" "irq_step Q (TDMA_CSR_Write addr val s)"
    "irq_step Q (DMA_Init_Write addr val s)" "irq_step Q (DMA_reg_Write upd dist addr val s)"
proof -
  have m2m: "irq_step Q (dma_m2m t)" if "irq_view Q t" for t
    using that by (auto simp: dma_m2m_def Let_def intro!: irq_if irq_ops)
  show "irq_step Q (DMA_CSR_Write addr val s)" "irq_step Q (TDMA_CSR_Write addr val s)"
    unfolding DMA_CSR_Write_def TDMA_CSR_Write_def
    by (intro irq_bind_channel irq_let irq_bind_state irq_if m2m; simp add: assms)+
qed (use assms in \<open>auto simp: DMA_Init_Write_def DMA_reg_Write_def intro!: irq_bind_channel\<close>)

lemma irq_DMA_Reset: "irq_view Q (DMA_Reset s) = irq_view Q s"
  by (simp add: DMA_Reset_def all_channels_def)

lemma irq_register_writes [simp]:
  "irq_view Q (ESP_TransCountL_Write val s) = irq_view Q s" "irq_view Q (ESP_TransCountH_Write val s) = irq_view Q s"
  "irq_view Q (ESP_SelectBusID_Write val s) = irq_view Q s" "irq_view Q (ESP_SelectTimeout_Write val s) = irq_view Q s"
  "irq_view Q (ESP_Configuration_Write val s) = irq_view Q s" "irq_view Q (ESP_ClockConv_Write val s) = irq_view Q s"
  by (simp_all add: ESP_TransCountL_Write_def ESP_TransCountH_Write_def ESP_SelectBusID_Write_def
      ESP_SelectTimeout_Write_def ESP_Configuration_Write_def ESP_ClockConv_Write_def)

lemmas irq_optDs =
  irq_optD [OF irq_commands(1)] irq_optD [OF irq_commands(2)] irq_optD [OF irq_ctrl_write]
  irq_optD [OF irq_io_handler] irq_optD [OF irq_csr_writes(1)] irq_optD [OF irq_csr_writes(2)] irq_optD [OF irq_csr_writes(3)]
  irq_optD [OF irq_csr_writes(4)] irq_optD [OF irq_dma_ops(3)] irq_optD [OF irq_dma_ops(4)] irq_optD [OF irq_dma_ops(5)]
  irq_optD [OF irq_scsi.mem_get_keeps] irq_optD [OF irq_scsi.mem_put_keeps] irq_optD [OF irq_basic(6)] irq_optD [OF irq_basic(7)]

lemma irq_esp_step:
  assumes "esp_step dev s s'" "esp_devices dev" "scsi_irq s"
  shows "scsi_irq s'"
proof -
  note dev = assms(2) [unfolded esp_devices_def, THEN conjunct1]
  from assms(1) show ?thesis
    by cases
      (use assms(2,3) dev in \<open>auto simp: ESP_FIFO_Read_def ESP_FIFO_Write_def irq_DMA_Reset irq_view_set_interrupt
        dest: irq_optDs irq_interrupts(2) intro: irq_interrupts(1)\<close>)
qed

text \<open>
  C37. In every reachable state the SCSI request in the interrupt status register is set exactly
  when the controller reports an interrupt in its own status register and interrupts are
  enabled in its DMA control register. The handlers behind the I/O addresses, which a DMA
  transfer may reach, are assumed to keep this themselves.
\<close>

theorem scsi_interrupt_consistent:
  assumes "esp_reachable dev s" "esp_devices dev"
  shows "tst (IntRegStatRead s) INT_SCSI
    \<longleftrightarrow> tst (ESP_Status_Read s) STAT_INT \<and> tst (ESP_DMA_CTRL_Read s) ESPCTRL_ENABLE_INT"
proof -
  have "scsi_irq s" using assms(1)
  proof induction
    case (init junk s s')
    then show ?case using irq_commands(2) by (auto simp: all_results_def)
  next
    case (step s s')
    then show ?case using irq_esp_step [OF _ assms(2)] by blast
  qed
  moreover have "\<not> tst (phase s AND STAT_PHASE) STAT_INT" by simp
  ultimately show ?thesis
    by (simp add: irq_view_def IntRegStatRead_def ESP_Status_Read_def ESP_DMA_CTRL_Read_def)
qed

lemma sample_dma_fields:
  "esp_cmd_state sample_dma = 0" "esp_status sample_dma = 0" "esp_command sample_dma = [0, 0]"
  by (simp_all add: sample_dma_def sample_esp_def memory.defs esp.defs dma.defs)

lemma sample_esp_devices: "esp_devices sample_devices"
  by (auto simp: esp_devices_def keeping_devices_def all_results_def sample_devices_def bus_err_def BMAP_Reset_def)

text \<open>After a reset the guest enables the interrupt, and the controller raises it.\<close>

theorem scsi_interrupt_consistent_witness:
  "\<exists>s1 s2. ESP_Reset [] sample_dma = Some s1 \<and> ESP_DMA_CTRL_Write sample_devices [] ESPCTRL_ENABLE_INT s1 = Some s2
     \<and> tst (IntRegStatRead (ESP_Interrupt_Handler s2)) INT_SCSI"
proof -
  have "\<not> waiting sample_dma" by (simp add: sample_dma_fields)
  then obtain s1 where s1: "ESP_Reset [] sample_dma = Some s1"
    by (auto simp: ESP_Reset_def esp_reset_hard_def reset_hard_body_def esp_finish_command_def finish_body_idle waiting_reset_soft
        Let_def)
  obtain s2 where s2: "ESP_DMA_CTRL_Write sample_devices [] ESPCTRL_ENABLE_INT s1 = Some s2"
    by (simp add: ESP_DMA_CTRL_Write_def Let_def)
  have "tst (esp_control s2) ESPCTRL_ENABLE_INT" using s2
    by (auto simp: ESP_DMA_CTRL_Write_def set_interrupt_def scr_get_interrupt_level_def M68000_CheckInterrupt_def Let_def split: if_splits)
  then have "tst (esp_control (ESP_Interrupt_Handler s2)) ESPCTRL_ENABLE_INT" "tst (esp_status (ESP_Interrupt_Handler s2)) STAT_INT"
    by (auto simp: ESP_Interrupt_Handler_def esp_raise_irq_def set_interrupt_def scr_get_interrupt_level_def M68000_CheckInterrupt_def
        Let_def)
  moreover have "esp_reachable sample_devices (ESP_Interrupt_Handler s2)"
    using s1 s2 by (blast intro: esp_reachable.intros esp_step.interrupt esp_step.control)
  ultimately show ?thesis
    using scsi_interrupt_consistent [OF _ sample_esp_devices] s1 s2 by (auto simp: ESP_Status_Read_def ESP_DMA_CTRL_Read_def)
qed

end
