(* ===== verification/DmaTransfer.thy ===== *)
theory DmaTransfer
  imports EspIrq
begin

text \<open>
  A transfer of a buffered DMA channel from its device to memory: the interface \<open>burst_source\<close>
  of a device that delivers bytes, the theorem that the channel stores them in order, and its
  instances, the SCSI disk and the error correction buffer of the optical disk.
\<close>

section \<open>Storing bytes\<close>

definition store_bytes :: "nat \<Rightarrow> u8 list \<Rightarrow> mem_array \<Rightarrow> mem_array" where
  "store_bytes base xs m = m\<lparr>arr_byte := (\<lambda>i. if base \<le> i \<and> i < base + length xs then xs ! (i - base) else arr_byte m i)\<rparr>"

lemma store_bytes_size [simp]: "arr_size (store_bytes base xs m) = arr_size m"
  by (simp add: store_bytes_def)

lemma store_bytes_Nil [simp]: "store_bytes base [] m = m"
  by (rule mem_array.equality) (auto simp: store_bytes_def fun_eq_iff)

lemma store_bytes_append:
  "store_bytes (base + length xs) ys (store_bytes base xs m) = store_bytes base (xs @ ys) m"
  by (rule mem_array.equality) (auto simp: store_bytes_def nth_append fun_eq_iff)

lemma be_long_bytes:
  fixes f :: "nat \<Rightarrow> u8"
  shows "ucast (drop_bit 24 (be_long f i)) = f i" "ucast (drop_bit 16 (be_long f i)) = f (i + 1)"
    "ucast (drop_bit 8 (be_long f i)) = f (i + 2)" "ucast (be_long f i) = f (i + 3)"
  unfolding be_long_def by (rule bit_word_eqI, auto simp: bit_simps dest: bit_imp_le_length)+

lemma put_long_bytes:
  assumes "do_put_mem SZ_LONG m a (be_long (\<lambda>i. buf ! i) j) = Some m'" "j + 3 < length buf"
  shows "m' = store_bytes (unat a) (take 4 (drop j buf)) m"
proof -
  define ys where "ys = take 4 (drop j buf)"
  have ys: "length ys = 4" "ys ! 0 = buf ! j" "ys ! 1 = buf ! (j + 1)" "ys ! 2 = buf ! (j + 2)" "ys ! 3 = buf ! (j + 3)"
    using assms(2) by (simp_all add: ys_def)
  have "arr_byte m' i = arr_byte (store_bytes (unat a) ys m) i" for i
  proof -
    consider "i < unat a \<or> unat a + 4 \<le> i" | "i = unat a" | "i = unat a + 1" | "i = unat a + 2" | "i = unat a + 3" by linarith
    then show ?thesis
      using assms(1) ys by cases (auto simp: do_put_mem_def store_bytes_def be_long_bytes [simplified] Let_def split: if_splits)
  qed
  moreover have "arr_size m' = arr_size m" by (rule do_get_put_mem(2) [OF assms(1)])
  ultimately show ?thesis
    unfolding ys_def [symmetric] by (intro mem_array.equality) (simp_all add: fun_eq_iff)
qed

section \<open>A region of main memory\<close>

text \<open>The \<open>n\<close> bytes from \<open>a\<close> lie in one RAM bank, at consecutive places.\<close>

definition ram_region :: "nat \<Rightarrow> u32 \<Rightarrow> nat \<Rightarrow> 'a memory_scheme \<Rightarrow> bool" where
  "ram_region k a n s \<longleftrightarrow> k < 4 \<and> unat a + n < 2 ^ 32 \<and> unat (a AND ram_mask k s) + n \<le> arr_size (NEXTRam s)
     \<and> (\<forall>i < n. mem_bank s (bankindex (a + of_nat i)) = RAM_bank k
          \<and> unat ((a + of_nat i) AND ram_mask k s) = unat (a AND ram_mask k s) + i)"

lemma ram_region_address:
  assumes "ram_region k a n s" "i \<le> n"
  shows "unat (a + of_nat i) = unat a + i"
proof -
  have "unat (of_nat i :: u32) = i" using assms by (simp add: ram_region_def unat_of_nat)
  then show ?thesis using assms by (simp add: ram_region_def unat_word_ariths)
qed

lemma ram_regionD:
  assumes "ram_region k a n s" "i < n"
  shows "k < 4" "mem_bank s (bankindex (a + of_nat i)) = RAM_bank k"
    "unat ((a + of_nat i) AND ram_mask k s) = unat (a AND ram_mask k s) + i"
    "unat (a AND ram_mask k s) + n \<le> arr_size (NEXTRam s)"
  using assms by (auto simp: ram_region_def)

lemma region_put:
  assumes "ram_region k a n s" "i + 4 \<le> n" "j + 3 < length buf"
  shows "mem_put dev SZ_LONG (a + of_nat i) (be_long (\<lambda>x. buf ! x) j) s
    = Some (Inr (), s\<lparr>NEXTRam := store_bytes (unat (a AND ram_mask k s) + i) (take 4 (drop j buf)) (NEXTRam s)\<rparr>)"
proof -
  note r = ram_regionD [OF assms(1), of i]
  let ?x = "(a + of_nat i) AND ram_mask k s"
  have "do_put_mem SZ_LONG (NEXTRam s) ?x (be_long (\<lambda>x. buf ! x) j) \<noteq> None"
    unfolding do_put_mem_Some_iff using r assms(2) by simp
  then obtain m where m: "do_put_mem SZ_LONG (NEXTRam s) ?x (be_long (\<lambda>x. buf ! x) j) = Some m" by blast
  from put_long_bytes [OF m assms(3)] r assms(2) ram_bank_access(2) [OF r(2,1)] m show ?thesis by simp
qed

lemma region_get_byte:
  assumes "ram_region k a n s" "i < n"
  shows "mem_get dev SZ_BYTE (a + of_nat i) s = Some (Inr (ucast (arr_byte (NEXTRam s) (unat (a AND ram_mask k s) + i))), s)"
  using ram_regionD [OF assms] assms(2) ram_bank_access(1) [OF ram_regionD(2,1) [OF assms]]
  by (simp add: do_get_mem_def Let_def)

text \<open>After the initialisation a bank is one region, up to its first mirror.\<close>

lemma init_region:
  assumes init: "memory_init malloc_aligned s = (0, s')" "malloc_ok malloc_aligned" and four: "four_banks s"
    and k: "k < 4" "bank_sizes s ! k \<noteq> 0" and w: "in_window (System (ConfigureParams s)) k a"
    and n: "0 < n" "unat a mod bank_length s k + n \<le> bank_length s k"
      "unat a + n \<le> 0x04000000 + (k + 1) * 2 ^ window_bits (System (ConfigureParams s))"
  shows "ram_region k a n s'"
proof -
  let ?c = "System (ConfigureParams s)"
  have top: "0x04000000 + (k + 1) * 2 ^ window_bits ?c < 2 ^ 32"
    using k(1) by (auto simp: window_bits_def lt_4_cases)
  have addr: "unat (a + of_nat i) = unat a + i" if "i < n" for i
  proof -
    have "i < 2 ^ 32" "unat a + i < 2 ^ 32" using that n(3) top by linarith+
    then show ?thesis by (simp add: unat_word_ariths unat_of_nat)
  qed
  have win: "in_window ?c k (a + of_nat i)" if "i < n" for i
    using w n(3) that addr [OF that] by (simp add: in_window_def)
  have cell: "unat ((a + of_nat i) AND ram_mask k s') = unat (a AND ram_mask k s') + i" if "i < n" for i
  proof -
    have "(unat a + i) mod bank_length s k = unat a mod bank_length s k + i"
      using n(2) that mod_add_left_eq [of "unat a" "bank_length s k" i] by simp
    then show ?thesis using ram_cell(2) [OF init four k win [OF that]] ram_cell(2) [OF init four k w] addr [OF that] by simp
  qed
  have "unat ((a + of_nat (n - 1)) AND ram_mask k s') < arr_size (NEXTRam s')"
    using mem_ok_memory_init [OF init four] k(1) word_and_le1 [of "a + of_nat (n - 1)" "ram_mask k s'"]
    by (auto simp: mem_ok_def word_le_nat_alt intro: le_less_trans)
  then have "unat (a AND ram_mask k s') + n \<le> arr_size (NEXTRam s')" using cell [of "n - 1"] n(1) by simp
  then show ?thesis
    using k(1) n(3) top cell ram_cell(1) [OF init four k win] by (auto simp: ram_region_def)
qed

text \<open>
  What a transfer leaves alone: the memory map, so that the region stays where it is, the event
  lists, the state of the controllers, and everything that is not part of the DMA state.
\<close>

definition same_frame :: "'a dma_scheme \<Rightarrow> 'a dma_scheme \<Rightarrow> bool" where
  "same_frame s t \<longleftrightarrow> mem_bank t = mem_bank s \<and> arr_size (NEXTRam t) = arr_size (NEXTRam s)
     \<and> next_ram_bank0_mask t = next_ram_bank0_mask s \<and> next_ram_bank1_mask t = next_ram_bank1_mask s
     \<and> next_ram_bank2_mask t = next_ram_bank2_mask s \<and> next_ram_bank3_mask t = next_ram_bank3_mask s
     \<and> EventList t = EventList s \<and> nCyclesFirst t = nCyclesFirst s \<and> nTimeFirst t = nTimeFirst s
     \<and> esp_io_state t = esp_io_state s
     \<and> eccin t = eccin s \<and> eccout t = eccout s \<and> dma.more t = dma.more s"

lemma same_frame_trans: "same_frame s t \<Longrightarrow> same_frame t u \<Longrightarrow> same_frame s u"
  by (simp add: same_frame_def)

lemma same_frame_mask: "same_frame s t \<Longrightarrow> ram_mask k t = ram_mask k s"
  by (simp add: same_frame_def)

lemma same_frame_region: "same_frame s t \<Longrightarrow> ram_region k a n t = ram_region k a n s"
  using same_frame_mask [of s t k] by (simp add: ram_region_def same_frame_def)

lemma upd_dma_sel [simp]:
  "dma (upd_dma c f s) = (dma s)(c := f (dma s c))" "NEXTRam (upd_dma c f s) = NEXTRam s" "same_frame s (upd_dma c f s)"
  "same_frame s (s\<lparr>NEXTRam := store_bytes b xs (NEXTRam s)\<rparr>)" "same_frame s s"
  by (simp_all add: upd_dma_def same_frame_def)

section \<open>A completed channel\<close>

text \<open>The channel is enabled to store \<open>n\<close> bytes at \<open>a\<close>, in RAM bank \<open>k\<close>.\<close>

definition dma_armed :: "DMA_CHANNEL \<Rightarrow> nat \<Rightarrow> u32 \<Rightarrow> nat \<Rightarrow> 'a dma_scheme \<Rightarrow> bool" where
  "dma_armed c k a n s \<longleftrightarrow> tst (dma_csr (dma s c)) DMA_ENABLE \<and> dma_next (dma s c) = a \<and> dma_limit (dma s c) = a + of_nat n
     \<and> \<not> bad_alignment (dma s c) \<and> 16 dvd n \<and> ram_region k a n s"

text \<open>It has reached its limit and requests the interrupt of the channel.\<close>

definition dma_finished :: "DMA_CHANNEL \<Rightarrow> 'a dma_scheme \<Rightarrow> bool" where
  "dma_finished c s \<longleftrightarrow> tst (dma_csr (dma s c)) DMA_COMPLETE \<and> tst (scrIntStat s) (get_interrupt_type c)"

lemma set_interrupt_eq:
  "set_interrupt i st s = s\<lparr>scrIntStat := (if st = SET_INT then scrIntStat s OR i else scrIntStat s AND NOT i),
     scrIntLevel := scrIntLevel (set_interrupt i st s), spcflag_int := True\<rparr>"
  by (simp add: set_interrupt_def scr_get_interrupt_level_def M68000_CheckInterrupt_def Let_def)

lemma set_interrupt_frame [simp]:
  "dma (set_interrupt i st t) = dma t" "NEXTRam (set_interrupt i st t) = NEXTRam t"
  "same_frame s (set_interrupt i st t) = same_frame s t" "same_frame s (upd_dma c f t) = same_frame s t"
  by ((subst set_interrupt_eq)?, simp add: same_frame_def upd_dma_def)+

lemma same_frame_cyc: "same_frame s t \<Longrightarrow> cyc_inv t = cyc_inv s \<and> CycInt_EventPending i t = CycInt_EventPending i s"
  using cyc_inv_frame(1) [of t s] by (simp add: same_frame_def CycInt_EventPending_def)

lemma tst_set [simp]: "m \<noteq> 0 \<Longrightarrow> tst (x OR m) m"
  by (simp add: tst_def bit.conj_disj_distrib2)

lemma dma_interrupt_frame:
  "NEXTRam (dma_interrupt c s) = NEXTRam s" "same_frame s (dma_interrupt c s)"
  unfolding dma_interrupt_def Let_def upd_csr_def by simp_all

lemma dma_interrupt_finished:
  assumes "dma_next (dma s c) = dma_limit (dma s c)"
  shows "dma_finished c (dma_interrupt c s)"
proof -
  have [simp]: "get_interrupt_type c \<noteq> 0" by (cases c; simp)
  have s: "scrIntStat (set_interrupt i SET_INT u) = scrIntStat u OR i" for i and u :: "'a dma_scheme"
    by (subst set_interrupt_eq) simp
  show ?thesis using assms by (auto simp: dma_finished_def dma_interrupt_def upd_csr_def Let_def s)
qed

text \<open>Without chaining it is also disabled.\<close>

lemma dma_interrupt_stops:
  assumes "dma_next (dma s c) = dma_limit (dma s c)" "\<not> tst (dma_csr (dma s c)) DMA_SUPDATE"
  shows "\<not> tst (dma_csr (dma (dma_interrupt c s) c)) DMA_ENABLE"
proof -
  have "\<not> tst ((x OR DMA_COMPLETE) AND NOT DMA_ENABLE) DMA_ENABLE" for x by (simp add: tst_def and.assoc)
  moreover have "\<not> tst (dma_csr (dma s c) OR DMA_COMPLETE) DMA_SUPDATE"
    using assms(2) by (simp add: tst_def bit.conj_disj_distrib2)
  ultimately show ?thesis using assms(1) by (auto simp: dma_interrupt_def upd_csr_def Let_def)
qed

lemma region_stored:
  assumes "ram_region k a n t" "NEXTRam t = store_bytes (unat (a AND ram_mask k t)) xs m" "length xs = n" "i < n"
  shows "mem_get dev SZ_BYTE (a + of_nat i) t = Some (Inr (ucast (xs ! i)), t)"
  using region_get_byte [OF assms(1,4)] assms(2-4) by (simp add: store_bytes_def)

section \<open>A device that sends bytes\<close>

text \<open>
  The contract between a channel and its device: \<open>stream\<close> is what the device has to send. The device
  changes nothing but itself, and does not depend on the channel's registers and buffer or on
  main memory.
\<close>

definition same_dma :: "('a dma_scheme \<Rightarrow> dma_burst) \<Rightarrow> 'a dma_scheme \<Rightarrow> 'a dma_scheme \<Rightarrow> bool" where
  "same_dma burst s t \<longleftrightarrow> burst t = burst s \<and> dma t = dma s \<and> NEXTRam t = NEXTRam s \<and> same_frame s t"

locale burst_source =
  fixes p :: "'a dma_scheme dma_port"
    and ok :: "'a dma_scheme \<Rightarrow> bool"
    and stream :: "'a dma_scheme \<Rightarrow> u8 list"
  assumes ready: "ok s \<Longrightarrow> port_send_ready p s \<longleftrightarrow> stream s \<noteq> []"
    and send: "ok s \<Longrightarrow> stream s = x # xs \<Longrightarrow>
      \<exists>t. port_send p s = Some (x, t) \<and> ok t \<and> stream t = xs \<and> same_dma (port_burst p) s t"
    and upd: "port_burst p (port_upd p f s) = f (port_burst p s)" "ok s \<Longrightarrow> ok (port_upd p f s)"
      "stream (port_upd p f s) = stream s" "dma (port_upd p f s) = dma s" "NEXTRam (port_upd p f s) = NEXTRam s"
      "same_frame s (port_upd p f s)"
    and status: "ok s \<Longrightarrow> ok (port_status p s)" "stream (port_status p s) = stream s"
      "same_dma (port_burst p) s (port_status p s)"
    and regs: "ok s \<Longrightarrow> ok (upd_dma c g s)" "stream (upd_dma c g s) = stream s"
      "port_burst p (upd_dma c g s) = port_burst p s"
    and ram: "ok s \<Longrightarrow> ok (s\<lparr>NEXTRam := m\<rparr>)" "stream (s\<lparr>NEXTRam := m\<rparr>) = stream s"
      "port_burst p (s\<lparr>NEXTRam := m\<rparr>) = port_burst p s"
begin

lemma fill_stop: "ok s \<Longrightarrow> stream s = [] \<Longrightarrow> fill_burst p s = Some s"
  by (simp add: fill_burst.simps [of p s] ready)

lemma fill_full: "burst_limit (port_burst p s) = DMA_BURST_SIZE \<Longrightarrow> fill_burst p s = Some s"
  by (simp add: fill_burst.simps [of p s])

text \<open>Filling takes bytes from the device until the buffer is full or the device has no more.\<close>

lemma fill:
  assumes "ok s" "stream s = xs @ ys" "port_burst p s = \<lparr>burst_size = int n, burst_limit = int n, burst_buf = buf\<rparr>"
    and "n + length xs \<le> 16" "n + length xs = 16 \<or> ys = []" "length buf = 16"
  shows "\<exists>t buf'. fill_burst p s = Some t \<and> ok t \<and> stream t = ys
    \<and> port_burst p t = \<lparr>burst_size = int (n + length xs), burst_limit = int (n + length xs), burst_buf = buf'\<rparr>
    \<and> length buf' = 16 \<and> take (n + length xs) buf' = take n buf @ xs
    \<and> dma t = dma s \<and> NEXTRam t = NEXTRam s \<and> same_frame s t"
  using assms
proof (induction xs arbitrary: s n buf)
  case Nil
  then show ?case using fill_full [of s] fill_stop [of s] by (auto simp: same_frame_def)
next
  case (Cons x xs)
  then have n: "n < 16" by simp
  from send [OF Cons.prems(1), of x "xs @ ys"] Cons.prems(2) obtain t
    where t: "port_send p s = Some (x, t)" "ok t" "stream t = xs @ ys" "same_dma (port_burst p) s t" by auto
  let ?b = "\<lparr>burst_size = int (Suc n), burst_limit = int (Suc n), burst_buf = buf[n := x]\<rparr>"
  let ?t = "port_upd p (\<lambda>b. b\<lparr>burst_buf := buf[n := x], burst_limit := burst_limit b + 1, burst_size := burst_size b + 1\<rparr>) t"
  have "port_send_ready p s" using ready [OF Cons.prems(1)] Cons.prems(2) by simp
  then have step: "fill_burst p s = fill_burst p ?t"
    using t Cons.prems(3,6) n by (subst fill_burst.simps) (simp add: same_dma_def seti_def)
  have b: "port_burst p ?t = ?b" using t(4) Cons.prems(3) by (simp add: upd same_dma_def)
  obtain u buf' where u: "fill_burst p ?t = Some u" "ok u" "stream u = ys"
    "port_burst p u = \<lparr>burst_size = int (Suc n + length xs), burst_limit = int (Suc n + length xs), burst_buf = buf'\<rparr>"
    "length buf' = 16" "take (Suc n + length xs) buf' = take (Suc n) (buf[n := x]) @ xs"
    "dma u = dma ?t" "NEXTRam u = NEXTRam ?t" "same_frame ?t u"
    using Cons.IH [of ?t "Suc n" "buf[n := x]"] t(2,3) b Cons.prems(4,5,6) by (auto simp: upd)
  have "take (Suc n) (buf[n := x]) @ xs = take n buf @ x # xs"
    using n Cons.prems(6) by (simp add: take_Suc_conv_app_nth)
  moreover have "same_frame s u"
    using t(4) upd(6) [of t] u(9) by (auto simp: same_dma_def intro: same_frame_trans)
  ultimately show ?case using u step t(4) by (auto simp: upd same_dma_def)
qed

text \<open>Emptying a full buffer writes it to memory, one long word after the other.\<close>

lemma drain:
  assumes "ok s" "port_burst p s = \<lparr>burst_size = 4 * int j, burst_limit = 16, burst_buf = buf\<rparr>" "j \<le> 4" "length buf = 16"
    and "ram_region k a n s" "i + 4 * j \<le> n"
    and "dma_next (dma s (port_channel p)) = a + of_nat i" "unat a + i + 4 * j \<le> unat (dma_limit (dma s (port_channel p)))"
  shows "\<exists>t. drain_burst dev p s = Some (Inr (), t) \<and> ok t \<and> stream t = stream s
    \<and> port_burst p t = \<lparr>burst_size = 0, burst_limit = 16, burst_buf = buf\<rparr>
    \<and> dma t = dma (set_next (port_channel p) (a + of_nat (i + 4 * j)) s)
    \<and> NEXTRam t = store_bytes (unat (a AND ram_mask k s) + i) (drop (16 - 4 * j) buf) (NEXTRam s) \<and> same_frame s t"
  using assms
proof (induction j arbitrary: s i)
  case 0
  then show ?case by (auto simp: drain_burst.simps [of dev p s] fun_eq_iff)
next
  case (Suc j)
  let ?c = "port_channel p"
  let ?at = "unat (a AND ram_mask k s)"
  define q where "q = 16 - 4 * Suc j"
  have b: "port_burst p s = \<lparr>burst_size = 16 - int q, burst_limit = 16, burst_buf = buf\<rparr>" and q: "q + 3 < 16" "q < 16"
    using Suc.prems(2,3) by (auto simp: q_def)
  let ?s = "s\<lparr>NEXTRam := store_bytes (?at + i) (take 4 (drop q buf)) (NEXTRam s)\<rparr>"
  let ?t = "port_upd p (\<lambda>b. b\<lparr>burst_size := burst_size b - 4\<rparr>) (upd_dma ?c (\<lambda>r. r\<lparr>dma_next := dma_next r + 4\<rparr>) ?s)"
  have lt: "dma_next (dma s ?c) < dma_limit (dma s ?c)"
    using ram_region_address [OF Suc.prems(5), of i] Suc.prems(6,7,8) by (simp add: word_less_nat_alt)
  have get: "dma_getlong buf (int q) = Some (be_long (\<lambda>x. buf ! x) q)"
    using q Suc.prems(4) by (simp add: dma_getlong_def)
  have put: "mem_put dev SZ_LONG (dma_next (dma s ?c)) (be_long (\<lambda>x. buf ! x) q) s = Some (Inr (), ?s)"
    unfolding Suc.prems(7) by (rule region_put [OF Suc.prems(5)]) (use Suc.prems(4,6) q in simp_all)
  have step: "drain_burst dev p s = drain_burst dev p ?t"
    by (subst drain_burst.simps) (simp add: lt b q get put)
  have map: "same_frame s ?t"
    by (rule same_frame_trans [OF same_frame_trans [OF upd_dma_sel(4,3)] upd(6)])
  have sel: "stream ?t = stream s" "NEXTRam ?t = store_bytes (?at + i) (take 4 (drop q buf)) (NEXTRam s)"
    "dma ?t = dma (upd_dma ?c (\<lambda>r. r\<lparr>dma_next := dma_next r + 4\<rparr>) s)"
    by (simp_all add: upd regs ram)
  have "\<exists>t. drain_burst dev p ?t = Some (Inr (), t) \<and> ok t \<and> stream t = stream ?t
    \<and> port_burst p t = \<lparr>burst_size = 0, burst_limit = 16, burst_buf = buf\<rparr>
    \<and> dma t = dma (set_next ?c (a + of_nat (i + 4 + 4 * j)) ?t)
    \<and> NEXTRam t = store_bytes (unat (a AND ram_mask k ?t) + (i + 4)) (drop (16 - 4 * j) buf) (NEXTRam ?t) \<and> same_frame ?t t"
  proof (rule Suc.IH)
    show "ok ?t" using Suc.prems(1) by (intro upd(2) regs(1) ram(1))
    show "port_burst p ?t = \<lparr>burst_size = 4 * int j, burst_limit = 16, burst_buf = buf\<rparr>"
      using Suc.prems(2) by (simp add: upd regs ram)
    show "ram_region k a n ?t" using Suc.prems(5) same_frame_region [OF map] by blast
  qed (use Suc.prems(3,4,6,7,8) in \<open>auto simp: sel\<close>)
  then obtain t where t: "drain_burst dev p ?t = Some (Inr (), t)" "ok t" "stream t = stream ?t"
    "port_burst p t = \<lparr>burst_size = 0, burst_limit = 16, burst_buf = buf\<rparr>"
    "dma t = dma (set_next ?c (a + of_nat (i + 4 + 4 * j)) ?t)"
    "NEXTRam t = store_bytes (unat (a AND ram_mask k ?t) + (i + 4)) (drop (16 - 4 * j) buf) (NEXTRam ?t)" "same_frame ?t t" by blast
  have split: "drop q buf = take 4 (drop q buf) @ drop (16 - 4 * j) buf"
    using Suc.prems(3) append_take_drop_id [of 4 "drop q buf"] by (simp add: q_def add.commute)
  have len: "length (take 4 (drop q buf)) = 4" using q Suc.prems(4) by simp
  have "NEXTRam t = store_bytes (?at + i) (drop q buf) (NEXTRam s)"
    using store_bytes_append [of "?at + i" "take 4 (drop q buf)" "drop (16 - 4 * j) buf" "NEXTRam s"]
    unfolding t(6) same_frame_mask [OF map] len split [symmetric] sel by (simp add: add.assoc)
  then have "NEXTRam t = store_bytes (?at + i) (drop (16 - 4 * Suc j) buf) (NEXTRam s)" by (simp only: q_def)
  moreover have "dma t = dma (set_next ?c (a + of_nat (i + 4 * Suc j)) s)"
    unfolding t(5) by (simp add: sel add.assoc fun_eq_iff)
  ultimately show ?case
    using t(1-4) step same_frame_trans [OF map t(7)] sel(1) by auto
qed

text \<open>
  The loop of the channel: all complete bursts reach memory, the rest of the stream stays in the
  buffer.
\<close>

lemma write_all:
  assumes "ok s" "port_burst p s = \<lparr>burst_size = 0, burst_limit = 0, burst_buf = buf\<rparr>" "length buf = 16"
    and "ram_region k a n s" "length (stream s) div 16 = m" "i + 16 * m \<le> n"
    and "dma_next (dma s (port_channel p)) = a + of_nat i" "unat a + i + 16 * m \<le> unat (dma_limit (dma s (port_channel p)))"
  shows "\<exists>t buf'. write_bursts dev p s = Some (Inr (), t) \<and> ok t \<and> stream t = []
    \<and> port_burst p t = \<lparr>burst_size = int (length (stream s) mod 16), burst_limit = int (length (stream s) mod 16), burst_buf = buf'\<rparr>
    \<and> length buf' = 16 \<and> take (length (stream s) mod 16) buf' = drop (16 * m) (stream s)
    \<and> dma t = dma (set_next (port_channel p) (a + of_nat (i + 16 * m)) s)
    \<and> NEXTRam t = store_bytes (unat (a AND ram_mask k s) + i) (take (16 * m) (stream s)) (NEXTRam s) \<and> same_frame s t"
  using assms
proof (induction m arbitrary: s i buf)
  case 0
  let ?c = "port_channel p"
  have le: "dma_next (dma s ?c) \<le> dma_limit (dma s ?c)"
    using 0(7,8) ram_region_address [OF 0(4), of i] 0(6) by (simp add: word_le_nat_alt)
  have short: "length (stream s) < 16" using 0(5) by simp
  from fill [of s "stream s" "[]" 0 buf] 0(1,2,3) short obtain t buf' where t: "fill_burst p s = Some t" "ok t" "stream t = []"
    "port_burst p t = \<lparr>burst_size = int (length (stream s)), burst_limit = int (length (stream s)), burst_buf = buf'\<rparr>"
    "length buf' = 16" "take (length (stream s)) buf' = stream s" "dma t = dma s" "NEXTRam t = NEXTRam s" "same_frame s t" by auto
  have "write_bursts dev p s = Some (Inr (), t)"
    using le 0(2) t(1,4) short by (subst write_bursts.simps) simp
  then show ?case using t short 0(7) by (auto simp: fun_eq_iff)
next
  case (Suc m)
  let ?c = "port_channel p"
  let ?xs = "stream s"
  let ?at = "unat (a AND ram_mask k s)"
  have le: "dma_next (dma s ?c) \<le> dma_limit (dma s ?c)"
    using Suc.prems(7,8) ram_region_address [OF Suc.prems(4), of i] Suc.prems(6) by (simp add: word_le_nat_alt)
  have long: "16 \<le> length ?xs" using Suc.prems(5) by linarith
  from fill [of s "take 16 ?xs" "drop 16 ?xs" 0 buf] Suc.prems(1,2,3) long obtain t where
    t: "fill_burst p s = Some t" "ok t" "stream t = drop 16 ?xs"
    "port_burst p t = \<lparr>burst_size = 16, burst_limit = 16, burst_buf = take 16 ?xs\<rparr>"
    "dma t = dma s" "NEXTRam t = NEXTRam s" "same_frame s t" by auto
  let ?u = "port_status p t"
  have u: "ok ?u" "stream ?u = drop 16 ?xs" "port_burst p ?u = port_burst p t" "dma ?u = dma s" "NEXTRam ?u = NEXTRam s"
    "same_frame s ?u"
    using status [of t] t same_frame_trans by (auto simp: same_dma_def)
  obtain w where w: "drain_burst dev p ?u = Some (Inr (), w)" "ok w" "stream w = stream ?u"
    "port_burst p w = \<lparr>burst_size = 0, burst_limit = 16, burst_buf = take 16 ?xs\<rparr>"
    "dma w = dma (set_next ?c (a + of_nat (i + 16)) ?u)"
    "NEXTRam w = store_bytes (unat (a AND ram_mask k ?u) + i) (take 16 ?xs) (NEXTRam ?u)" "same_frame ?u w"
    using drain [of ?u 4 "take 16 ?xs" k a n i dev] u(1,3,4) t(4) long Suc.prems(4,6,7,8) same_frame_region [OF u(6)] by auto
  let ?v = "port_upd p (\<lambda>b. b\<lparr>burst_limit := burst_size b\<rparr>) w"
  have v: "ok ?v" "stream ?v = drop 16 ?xs" "port_burst p ?v = \<lparr>burst_size = 0, burst_limit = 0, burst_buf = take 16 ?xs\<rparr>"
    "dma ?v = dma (set_next ?c (a + of_nat (i + 16)) s)" "NEXTRam ?v = store_bytes (?at + i) (take 16 ?xs) (NEXTRam s)"
    using w u same_frame_mask [OF u(6), of k] by (simp_all add: upd)
  have map: "same_frame s ?v" by (rule same_frame_trans [OF same_frame_trans [OF u(6) w(7)] upd(6)])
  have step: "write_bursts dev p s = write_bursts dev p ?v"
    by (subst write_bursts.simps) (use le Suc.prems(2) t(1,4) u(3) w(1,4) in simp)
  have "\<exists>x buf'. write_bursts dev p ?v = Some (Inr (), x) \<and> ok x \<and> stream x = []
    \<and> port_burst p x = \<lparr>burst_size = int (length (stream ?v) mod 16), burst_limit = int (length (stream ?v) mod 16), burst_buf = buf'\<rparr>
    \<and> length buf' = 16 \<and> take (length (stream ?v) mod 16) buf' = drop (16 * m) (stream ?v)
    \<and> dma x = dma (set_next ?c (a + of_nat (i + 16 + 16 * m)) ?v)
    \<and> NEXTRam x = store_bytes (unat (a AND ram_mask k ?v) + (i + 16)) (take (16 * m) (stream ?v)) (NEXTRam ?v) \<and> same_frame ?v x"
  proof (rule Suc.IH)
    show "ram_region k a n ?v" using Suc.prems(4) same_frame_region [OF map] by blast
    show "length (stream ?v) div 16 = m" using Suc.prems(5) by (simp add: v)
  qed (use Suc.prems(6,7,8) long v in auto)
  then obtain x buf' where x: "write_bursts dev p ?v = Some (Inr (), x)" "ok x" "stream x = []"
    "port_burst p x = \<lparr>burst_size = int (length (stream ?v) mod 16), burst_limit = int (length (stream ?v) mod 16), burst_buf = buf'\<rparr>"
    "length buf' = 16" "take (length (stream ?v) mod 16) buf' = drop (16 * m) (stream ?v)"
    "dma x = dma (set_next ?c (a + of_nat (i + 16 + 16 * m)) ?v)"
    "NEXTRam x = store_bytes (unat (a AND ram_mask k ?v) + (i + 16)) (take (16 * m) (stream ?v)) (NEXTRam ?v)" "same_frame ?v x"
    by blast
  have md: "length (stream ?v) mod 16 = length ?xs mod 16" using long by (simp add: v mod_if)
  have tk: "take 16 ?xs @ take (16 * m) (drop 16 ?xs) = take (16 * Suc m) ?xs" by (simp add: take_add)
  have "NEXTRam x = store_bytes (?at + i) (take (16 * Suc m) ?xs) (NEXTRam s)"
    using store_bytes_append [of "?at + i" "take 16 ?xs" "take (16 * m) (drop 16 ?xs)" "NEXTRam s"] long
    unfolding x(8) v same_frame_mask [OF map] tk by (simp add: add.assoc)
  moreover have "dma x = dma (set_next ?c (a + of_nat (i + 16 * Suc m)) s)"
    unfolding x(7) by (simp add: v fun_eq_iff add.assoc)
  moreover have "drop (16 * m) (stream ?v) = drop (16 * Suc m) ?xs" by (simp add: v add.commute)
  ultimately show ?case
    using x(1-6) step md same_frame_trans [OF map x(9)] by auto
qed

lemma write_memory:
  assumes "ok s" "port_burst p s = \<lparr>burst_size = 0, burst_limit = 0, burst_buf = buf\<rparr>" "length buf = 16"
    and "tst (dma_csr (dma s (port_channel p))) DMA_ENABLE" "\<not> bad_alignment (dma s (port_channel p))"
    and "dma_next (dma s (port_channel p)) = a" "ram_region k a n s" "length (stream s) \<le> n"
    and "unat a + n \<le> unat (dma_limit (dma s (port_channel p)))" "m = length (stream s) div 16"
  shows "\<exists>t. port_write_memory dev p s = Some (dma_interrupt (port_channel p) t) \<and> ok t \<and> stream t = []
    \<and> burst_size (port_burst p t) = int (length (stream s) mod 16)
    \<and> dma t = dma (set_next (port_channel p) (a + of_nat (16 * m)) s)
    \<and> NEXTRam t = store_bytes (unat (a AND ram_mask k s)) (take (16 * m) (stream s)) (NEXTRam s) \<and> same_frame s t"
proof -
  have le: "16 * m \<le> n" using assms(8,10) by linarith
  have "unat a + 0 + 16 * m \<le> unat (dma_limit (dma s (port_channel p)))" using assms(9) le by linarith
  from write_all [OF assms(1-3,7), of m 0 dev] assms(6,10) le this show ?thesis
    using assms(4,5) by (auto simp: port_write_memory_def Let_def)
qed

text \<open>An armed channel stores the whole stream and requests its interrupt.\<close>

lemma write_armed:
  assumes "ok s" "port_burst p s = \<lparr>burst_size = 0, burst_limit = 0, burst_buf = buf\<rparr>" "length buf = 16"
    and "dma_armed (port_channel p) k a (length (stream s)) s"
  shows "\<exists>t. port_write_memory dev p s = Some (dma_interrupt (port_channel p) t) \<and> ok t \<and> stream t = []
    \<and> same_frame s t \<and> dma_finished (port_channel p) (dma_interrupt (port_channel p) t)
    \<and> (\<not> tst (dma_csr (dma s (port_channel p))) DMA_SUPDATE \<longrightarrow>
         \<not> tst (dma_csr (dma (dma_interrupt (port_channel p) t) (port_channel p))) DMA_ENABLE)
    \<and> NEXTRam t = store_bytes (unat (a AND ram_mask k s)) (stream s) (NEXTRam s)"
proof -
  let ?c = "port_channel p" and ?n = "length (stream s)"
  note armed = assms(4) [unfolded dma_armed_def]
  have lim: "unat (dma_limit (dma s ?c)) = unat a + ?n"
    using armed ram_region_address [of k a ?n s ?n] by simp
  have m: "16 * (?n div 16) = ?n" using armed by (intro dvd_mult_div_cancel) blast
  have "tst (dma_csr (dma s ?c)) DMA_ENABLE" "\<not> bad_alignment (dma s ?c)" "dma_next (dma s ?c) = a" "ram_region k a ?n s"
    using armed by blast+
  from write_memory [OF assms(1-3) this order.refl _ refl, of dev] lim
  obtain t where t: "port_write_memory dev p s = Some (dma_interrupt ?c t)" "ok t" "stream t = []"
    "dma t = dma (set_next ?c (a + of_nat ?n) s)"
    "NEXTRam t = store_bytes (unat (a AND ram_mask k s)) (take ?n (stream s)) (NEXTRam s)" "same_frame s t"
    unfolding m by auto
  have nxt: "dma_next (dma t ?c) = dma_limit (dma t ?c)" using armed by (simp add: t(4))
  have csr: "dma_csr (dma t ?c) = dma_csr (dma s ?c)" by (simp add: t(4))
  show ?thesis
    using t dma_interrupt_finished [OF nxt] dma_interrupt_stops [OF nxt] unfolding csr by auto
qed

end

section \<open>The optical disk buffer\<close>

definition ecc_ok :: "'a dma_scheme \<Rightarrow> bool" where
  "ecc_ok s \<longleftrightarrow> eccout s < length (ecc_buffer s)
     \<and> (let b = ecc_buffer s ! eccout s in db_size b \<le> db_limit b \<and> unat (db_limit b) \<le> length (db_data b))"

definition ecc_stream :: "'a dma_scheme \<Rightarrow> u8 list" where
  "ecc_stream s = (let b = ecc_buffer s ! eccout s
     in drop (unat (db_limit b - db_size b)) (take (unat (db_limit b)) (db_data b)))"

lemma ecc_sends:
  assumes "ecc_ok s" "ecc_stream s = x # xs"
  shows "\<exists>t. ecc_send s = Some (x, t) \<and> ecc_ok t \<and> ecc_stream t = xs \<and> same_dma modma s t"
proof -
  define b where "b = ecc_buffer s ! eccout s"
  let ?i = "unat (db_limit b - db_size b)" and ?d = "take (unat (db_limit b)) (db_data b)"
  have ok: "eccout s < length (ecc_buffer s)" "db_size b \<le> db_limit b" "unat (db_limit b) \<le> length (db_data b)"
    using assms(1) by (auto simp: ecc_ok_def b_def Let_def)
  have d: "drop ?i ?d = x # xs" using assms(2) by (simp add: ecc_stream_def b_def Let_def)
  then have i: "?i < length ?d" by (metis drop_all leI list.distinct(1))
  then have x: "db_data b ! ?i = x" and xs: "drop (Suc ?i) ?d = xs"
    using d by (simp_all add: Cons_nth_drop_Suc [symmetric])
  have i': "?i = unat (db_limit b) - unat (db_size b)" using ok(2) by (simp add: unat_sub word_le_nat_alt)
  then have "db_size b \<noteq> 0" using i ok(3) by (intro notI) auto
  then have m: "unat (db_size b - 1) = unat (db_size b) - 1" "0 < unat (db_size b)"
    by (simp_all add: unat_minus_one unat_gt_0)
  then have "db_size b - 1 \<le> db_limit b" using ok(2) by (simp add: word_le_nat_alt)
  moreover from this have "unat (db_limit b - (db_size b - 1)) = Suc ?i"
    using m ok(2) i' by (simp add: unat_sub word_le_nat_alt)
  ultimately show ?thesis
    using ok x xs i by (auto simp: ecc_send_def ecc_ok_def ecc_stream_def same_dma_def same_frame_def Let_def simp flip: b_def)
qed

interpretation mo_disk: burst_source mo_port ecc_ok ecc_stream
proof
  fix s :: "'a dma_scheme" and x xs
  assume "ecc_ok s"
  then show "port_send_ready mo_port s \<longleftrightarrow> ecc_stream s \<noteq> []"
    by (auto simp: mo_port_def ecc_ok_def ecc_stream_def Let_def word_less_nat_alt word_le_nat_alt unat_sub)
next
  fix s :: "'a dma_scheme" and x xs
  assume "ecc_ok s" "ecc_stream s = x # xs"
  then show "\<exists>t. port_send mo_port s = Some (x, t) \<and> ecc_ok t \<and> ecc_stream t = xs \<and> same_dma (port_burst mo_port) s t"
    using ecc_sends [of s x xs] by (simp add: mo_port_def)
qed (auto simp: mo_port_def ecc_ok_def ecc_stream_def same_dma_def same_frame_def upd_dma_def Let_def)

section \<open>The SCSI controller\<close>

text \<open>An update of something that the disks do not use.\<close>

definition beside :: "('a dma_scheme \<Rightarrow> 'a dma_scheme) \<Rightarrow> bool" where
  "beside h \<longleftrightarrow> (\<forall>s. SCSIbus (h s) = SCSIbus s \<and> scsi_buffer (h s) = scsi_buffer s \<and> SCSIdisk (h s) = SCSIdisk s
     \<and> host_files (h s) = host_files s \<and> (\<forall>f. SCSIbus_update f (h s) = h (SCSIbus_update f s))
     \<and> (\<forall>f. scsi_buffer_update f (h s) = h (scsi_buffer_update f s)) \<and> (\<forall>f. SCSIdisk_update f (h s) = h (SCSIdisk_update f s)))"

lemma beside_fields [simp]:
  "beside (esp_counter_update f)" "beside (NEXTRam_update g)" "beside (dma_update k)" "beside (espdma_update b)"
  "beside (esp_dma_update e)" "beside (upd_dma c u)"
  by (simp_all add: beside_def upd_dma_def)

lemma beside_send: "beside h \<Longrightarrow> SCSIdisk_Send_Data (h s) = map_option (\<lambda>(v, t). (v, h t)) (SCSIdisk_Send_Data s)"
  by (auto simp: beside_def SCSIdisk_Send_Data_def scsi_read_sector_def read_block_def upd_buffer_def upd_disk_def set_phase_def
      invalid_lba_def Let_def split: option.splits Option.bind_splits)

fun esp_bytes :: "nat \<Rightarrow> 'a dma_scheme \<Rightarrow> u8 list" where
  "esp_bytes 0 s = []"
| "esp_bytes (Suc n) s = (if phase s = PHASE_DI then
     (case SCSIdisk_Send_Data s of Some (v, t) \<Rightarrow> v # esp_bytes n t | None \<Rightarrow> []) else [])"

lemma bytes_beside: "beside h \<Longrightarrow> esp_bytes n (h s) = esp_bytes n s"
proof (induction n arbitrary: s)
  case (Suc n)
  moreover have "phase (h s) = phase s" using Suc.prems by (simp add: beside_def)
  ultimately show ?case by (auto simp: beside_send split: option.splits)
qed simp

definition esp_ok :: "'a dma_scheme \<Rightarrow> bool" where
  "esp_ok s \<longleftrightarrow> scsi_inv s \<and> fifoflags s = 0 \<and> \<not> floppy_select s"

definition esp_stream :: "'a dma_scheme \<Rightarrow> u8 list" where
  "esp_stream s = esp_bytes (unat (esp_counter s)) s"

lemma send_frame:
  assumes "SCSIdisk_Send_Data s = Some (v, t)"
  shows "same_dma espdma s t \<and> fifoflags t = fifoflags s \<and> floppy_select t = floppy_select s \<and> esp_counter t = esp_counter s"
  using assms by (auto simp: SCSIdisk_Send_Data_def scsi_read_sector_def upd_buffer_def upd_disk_def set_phase_def same_dma_def
      same_frame_def invalid_lba_def Let_def split: option.splits Option.bind_splits if_splits)

lemma esp_sends:
  assumes "esp_ok s" "esp_stream s = x # xs"
  shows "\<exists>t. ESP_Send_Data s = Some (x, t) \<and> esp_ok t \<and> esp_stream t = xs \<and> same_dma espdma s t"
proof -
  obtain n where n: "unat (esp_counter s) = Suc n" using assms(2) by (cases "unat (esp_counter s)") (auto simp: esp_stream_def)
  then have di: "phase s = PHASE_DI" using assms(2) by (auto simp: esp_stream_def split: if_splits)
  from scsi_data_phases_total [of s] assms(1) di obtain v t
    where t: "SCSIdisk_Send_Data s = Some (v, t)" "scsi_inv t" by (auto simp: esp_ok_def)
  let ?t = "t\<lparr>esp_counter := esp_counter s - 1\<rparr>"
  have "SCSIdisk_Send_Data (s\<lparr>esp_counter := esp_counter s - 1\<rparr>) = Some (v, ?t)"
    using beside_send [OF beside_fields(1), of "\<lambda>_. esp_counter s - 1" s] t(1) by simp
  then have send: "ESP_Send_Data s = Some (v, ?t)" using assms(1) by (simp add: ESP_Send_Data_def esp_ok_def)
  have "unat (esp_counter s - 1) = n" using n by (metis diff_Suc_1 nat.distinct(1) unat_0 unat_minus_one)
  then have "esp_stream s = v # esp_stream ?t"
    using n di t(1) bytes_beside [OF beside_fields(1), of n "\<lambda>_. esp_counter s - 1" t] by (simp add: esp_stream_def)
  moreover have "esp_ok ?t" "same_dma espdma s ?t"
    using assms(1) t(2) send_frame [OF t(1)] by (auto simp: esp_ok_def scsi_inv_def same_dma_def same_frame_def)
  ultimately show ?thesis using send assms(2) by auto
qed

lemma set_status_eq: "\<exists>e. ESP_DMA_set_status s = s\<lparr>esp_dma := e\<rparr>"
  by (auto simp: ESP_DMA_set_status_def ESP_DMA_FIFO_STAT_Write_def Let_def)

lemma esp_beside:
  assumes "beside h" "\<And>s. fifoflags (h s) = fifoflags s" "\<And>s. floppy_select (h s) = floppy_select s"
    "\<And>s. esp_counter (h s) = esp_counter s"
  shows "esp_ok (h s) = esp_ok s" "esp_stream (h s) = esp_stream s"
  using assms bytes_beside [OF assms(1)] by (simp_all add: esp_ok_def esp_stream_def) (simp add: beside_def scsi_inv_def)

lemma esp_fields [simp]:
  "esp_ok (espdma_update b s) = esp_ok s" "esp_stream (espdma_update b s) = esp_stream s"
  "esp_ok (upd_dma c u s) = esp_ok s" "esp_stream (upd_dma c u s) = esp_stream s"
  "esp_ok (s\<lparr>NEXTRam := m\<rparr>) = esp_ok s" "esp_stream (s\<lparr>NEXTRam := m\<rparr>) = esp_stream s"
  "esp_ok (ESP_DMA_set_status s) = esp_ok s" "esp_stream (ESP_DMA_set_status s) = esp_stream s"
  "same_dma espdma s (ESP_DMA_set_status s)"
  using set_status_eq [of s] by (auto simp: esp_beside same_dma_def same_frame_def) (auto simp: esp_beside upd_dma_def)

interpretation scsi_disk: burst_source esp_port esp_ok esp_stream
proof
  fix s :: "'a dma_scheme"
  assume "esp_ok s"
  then show "port_send_ready esp_port s \<longleftrightarrow> esp_stream s \<noteq> []"
    using scsi_data_phases_total [of s]
    by (cases "unat (esp_counter s)") (auto simp: esp_port_def esp_ok_def esp_stream_def ESP_Send_Ready_def word_less_nat_alt)
next
  fix s :: "'a dma_scheme" and x xs
  assume "esp_ok s" "esp_stream s = x # xs"
  then show "\<exists>t. port_send esp_port s = Some (x, t) \<and> esp_ok t \<and> esp_stream t = xs \<and> same_dma (port_burst esp_port) s t"
    using esp_sends [of s x xs] by (simp add: esp_port_def esp_ok_def)
qed (auto simp: esp_port_def same_frame_def, simp_all add: upd_dma_def)

end
