(* ===== verification/ScsiTransfer.thy ===== *)
theory ScsiTransfer
  imports DmaTransfer
begin

text \<open>
  Reading from a SCSI disk as the guest sees it: from the image file of the disk through the
  controller and the DMA channel to main memory.
\<close>

section \<open>The bytes of a read command\<close>

text \<open>What the disks use of the state.\<close>

definition same_target :: "'a scsi_scheme \<Rightarrow> 'b scsi_scheme \<Rightarrow> bool" where
  "same_target s u \<longleftrightarrow> SCSIbus u = SCSIbus s \<and> scsi_buffer u = scsi_buffer s \<and> SCSIdisk u = SCSIdisk s
     \<and> host_files u = host_files s"

lemma target_send:
  assumes "same_target s u" "SCSIdisk_Send_Data s = Some (v, t)"
  shows "\<exists>w. SCSIdisk_Send_Data u = Some (v, w) \<and> same_target t w"
  using assms
  by (auto simp: same_target_def SCSIdisk_Send_Data_def scsi_read_sector_def read_block_def upd_buffer_def upd_disk_def
      set_phase_def invalid_lba_def Let_def split: option.splits Option.bind_splits if_splits)

lemma bytes_send:
  assumes "send_n n s = Some (xs, t)" "same_target s u"
    and "\<forall>i < n. \<exists>ys w. send_n i s = Some (ys, w) \<and> bus_phase (SCSIbus w) = PHASE_DI"
  shows "esp_bytes n u = xs"
  using assms
proof (induction n arbitrary: s u xs)
  case (Suc n)
  from Suc.prems(1) obtain v s1 ys where s1: "SCSIdisk_Send_Data s = Some (v, s1)" "send_n n s1 = Some (ys, t)" "xs = v # ys"
    by (auto split: Option.bind_splits)
  from target_send [OF Suc.prems(2) s1(1)] obtain w where w: "SCSIdisk_Send_Data u = Some (v, w)" "same_target s1 w" by blast
  have "\<exists>ys w. send_n i s1 = Some (ys, w) \<and> bus_phase (SCSIbus w) = PHASE_DI" if "i < n" for i
    using Suc.prems(3) [rule_format, of "Suc i"] that s1(1) by (auto split: Option.bind_splits)
  with Suc.IH [OF s1(2) w(2)] have "esp_bytes n w = ys" by blast
  moreover have "phase u = PHASE_DI" using Suc.prems(3) [rule_format, of 0] Suc.prems(2) by (simp add: same_target_def)
  ultimately show ?case using w(1) s1(3) by simp
qed simp

lemma target_inv: "same_target s u \<Longrightarrow> scsi_inv u = scsi_inv s"
  by (simp add: same_target_def scsi_inv_def)

section \<open>The transfer\<close>

lemma set_interrupt_esp:
  "esp_counter (set_interrupt i st s) = esp_counter s" "SCSIbus (set_interrupt i st s) = SCSIbus s"
  by (subst set_interrupt_eq, simp)+

lemma esp_dma_interrupt [simp]:
  "esp_counter (dma_interrupt c s) = esp_counter s" "SCSIbus (dma_interrupt c s) = SCSIbus s"
  by (simp_all add: dma_interrupt_def upd_csr_def upd_dma_def Let_def set_interrupt_esp)

text \<open>Scheduling an event always returns; it becomes pending and only the scheduler changes.\<close>

lemma time_event_returns:
  assumes "cyc_inv s" "i \<noteq> EVENT_NULL"
  shows "\<exists>t. CycInt_AddTimeEvent rt ft i s = Some t \<and> cyc_inv t \<and> t = sched_upd t s
      \<and> (\<forall>j. CycInt_EventPending j t \<longleftrightarrow> j = i \<or> CycInt_EventPending j s)"
    "\<exists>t. CycInt_UpdateTimeEvent rt ft i s = Some t \<and> cyc_inv t \<and> t = sched_upd t s
      \<and> (\<forall>j. CycInt_EventPending j t \<longleftrightarrow> j = i \<or> CycInt_EventPending j s)"
proof -
  obtain t where t: "CycInt_AddTimeEvent rt ft i s = Some t" "cyc_inv t" "\<And>j. CycInt_EventPending j t \<longleftrightarrow> j = i \<or> CycInt_EventPending j s"
    using timeq.schedule_obtain [OF assms, of "(rt, ft)"] by auto
  from t AddTimeEvent_frame [OF t(1)] show "\<exists>t. CycInt_AddTimeEvent rt ft i s = Some t \<and> cyc_inv t \<and> t = sched_upd t s
      \<and> (\<forall>j. CycInt_EventPending j t \<longleftrightarrow> j = i \<or> CycInt_EventPending j s)" by blast
  obtain t where t: "CycInt_UpdateTimeEvent rt ft i s = Some t" "cyc_inv t" "\<And>j. CycInt_EventPending j t \<longleftrightarrow> j = i \<or> CycInt_EventPending j s"
    using updq.schedule_obtain [OF assms, of "(rt, ft)"] by auto
  from t UpdateTimeEvent_frame [OF t(1)] show "\<exists>t. CycInt_UpdateTimeEvent rt ft i s = Some t \<and> cyc_inv t \<and> t = sched_upd t s
      \<and> (\<forall>j. CycInt_EventPending j t \<longleftrightarrow> j = i \<or> CycInt_EventPending j s)" by blast
qed

lemma transfer_done:
  assumes "cyc_inv s" "\<not> (0 < esp_counter s \<and> phase s = PHASE_DI)"
  shows "\<exists>t. esp_transfer_done True s = Some (True, t) \<and> cyc_inv t \<and> CycInt_EventPending EVENT_ESP_INTERRUPT t
    \<and> dma t = dma s \<and> NEXTRam t = NEXTRam s \<and> ram_region k a n t = ram_region k a n s \<and> ram_mask k t = ram_mask k s
    \<and> scrIntStat t = scrIntStat s"
proof -
  define u where "u = (if esp_counter s = 0 then s\<lparr>intstatus := INTR_BS, esp_status := esp_status s OR STAT_TC\<rparr>
    else (esp_command_clear s)\<lparr>intstatus := INTR_BS\<rparr>)"
  have "cyc_inv u"
    using assms(1) cyc_inv_frame(1) [of u s] by (auto simp: u_def esp_command_clear_def Let_def)
  then have u: "cyc_inv u" "dma u = dma s" "NEXTRam u = NEXTRam s" "ram_region k a n u = ram_region k a n s" "ram_mask k u = ram_mask k s"
    "scrIntStat u = scrIntStat s"
    by (auto simp: u_def esp_command_clear_def ram_region_def Let_def)
  obtain t where t: "CycInt_AddTimeEvent ESP_DELAY 20 EVENT_ESP_INTERRUPT u = Some t" "cyc_inv t" "t = sched_upd t u"
    "CycInt_EventPending EVENT_ESP_INTERRUPT t"
    using time_event_returns(1) [OF u(1), of EVENT_ESP_INTERRUPT] by blast
  have "esp_transfer_done True s = Some (True, t)"
    using assms(2) t(1) by (auto simp: esp_transfer_done_def u_def word_gt_0)
  moreover have "dma t = dma u" "NEXTRam t = NEXTRam u" "ram_region k a n t = ram_region k a n u" "ram_mask k t = ram_mask k u"
    "scrIntStat t = scrIntStat u"
    by (subst t(3), simp add: sched_upd_def ram_region_def)+
  ultimately show ?thesis using t(2,4) u by simp
qed

text \<open>The controller is about to receive \<open>n\<close> bytes from the disk, with the DMA buffer empty.\<close>

definition esp_armed :: "nat \<Rightarrow> 'a dma_scheme \<Rightarrow> bool" where
  "esp_armed n s \<longleftrightarrow> esp_io_state s = ESP_IO_STATE_TRANSFERING \<and> tst (esp_control s) ESPCTRL_MODE_DMA
     \<and> unat (esp_counter s) = n \<and> fifoflags s = 0 \<and> \<not> floppy_select s
     \<and> (\<exists>buf. espdma s = \<lparr>burst_size = 0, burst_limit = 0, burst_buf = buf\<rparr> \<and> length buf = 16)"

lemma handler_stores_stream:
  assumes "scsi_inv u" "phase u = PHASE_DI" "esp_bytes n u = xs" "length xs = n"
    and "esp_armed n u" "dma_armed CHANNEL_SCSI k a n u" "cyc_inv u"
  shows "\<exists>t. ESP_IO_Handler dev u = Some t
    \<and> (\<forall>i < n. mem_get dev SZ_BYTE (a + of_nat i) t = Some (Inr (ucast (xs ! i)), t))
    \<and> (\<forall>j. j < unat (a AND ram_mask k u) \<or> unat (a AND ram_mask k u) + n \<le> j \<longrightarrow>
         arr_byte (NEXTRam t) j = arr_byte (NEXTRam u) j)
    \<and> dma_finished CHANNEL_SCSI t \<and> esp_io_state t = ESP_IO_STATE_FLUSHING
    \<and> CycInt_EventPending EVENT_ESP_INTERRUPT t \<and> cyc_inv t"
proof -
  note armed = assms(5) [unfolded esp_armed_def]
  let ?at = "unat (a AND ram_mask k u)"
  have ok: "esp_ok u" "esp_stream u = xs" using assms(1,3) armed by (simp_all add: esp_ok_def esp_stream_def)
  have region: "ram_region k a n u" using assms(6) by (simp add: dma_armed_def)
  obtain buf where buf: "espdma u = \<lparr>burst_size = 0, burst_limit = 0, burst_buf = buf\<rparr>" "length buf = 16" using armed by blast
  have port: "port_burst esp_port u = espdma u" "port_channel esp_port = CHANNEL_SCSI" by (simp_all add: esp_port_def)
  from scsi_disk.write_armed [OF ok(1), of buf k a dev] buf assms(4,6) ok(2)
  obtain r where r: "port_write_memory dev esp_port u = Some (dma_interrupt CHANNEL_SCSI r)" "esp_ok r" "esp_stream r = []"
    "same_frame u r" "dma_finished CHANNEL_SCSI (dma_interrupt CHANNEL_SCSI r)" "NEXTRam r = store_bytes ?at xs (NEXTRam u)"
    unfolding port by auto
  let ?r = "dma_interrupt CHANNEL_SCSI r"
  have frame: "same_frame u ?r" using same_frame_trans [OF r(4) dma_interrupt_frame(2)] .
  have "\<not> port_send_ready esp_port r" using scsi_disk.ready [OF r(2)] r(3) by simp
  then have "\<not> (0 < esp_counter ?r \<and> phase ?r = PHASE_DI)"
    using r(2) by (simp add: esp_port_def esp_ok_def ESP_Send_Ready_def)
  moreover have "cyc_inv ?r" using same_frame_cyc [OF frame] assms(7) by simp
  ultimately obtain w where w: "esp_transfer_done True ?r = Some (True, w)" "cyc_inv w" "CycInt_EventPending EVENT_ESP_INTERRUPT w"
    "dma w = dma ?r" "NEXTRam w = NEXTRam ?r" "ram_region k a n w = ram_region k a n ?r" "ram_mask k w = ram_mask k ?r"
    "scrIntStat w = scrIntStat ?r"
    using transfer_done [of ?r k a n] by blast
  let ?w = "w\<lparr>esp_io_state := ESP_IO_STATE_FLUSHING\<rparr>"
  have "cyc_inv ?w" using w(2) cyc_inv_frame(1) [of ?w w] by simp
  from time_event_returns(2) [OF this, of EVENT_ESP_IO 100 0]
  obtain t where t: "CycInt_UpdateTimeEvent 100 0 EVENT_ESP_IO ?w = Some t" "cyc_inv t" "t = sched_upd t ?w"
    "\<forall>j. CycInt_EventPending j t \<longleftrightarrow> j = EVENT_ESP_IO \<or> CycInt_EventPending j ?w" by blast
  have tf: "dma t = dma w" "NEXTRam t = NEXTRam w" "ram_region k a n t = ram_region k a n w" "ram_mask k t = ram_mask k w"
    "scrIntStat t = scrIntStat w" "esp_io_state t = ESP_IO_STATE_FLUSHING"
    by (subst t(3), simp add: sched_upd_def ram_region_def)+
  have ram: "NEXTRam t = store_bytes ?at xs (NEXTRam u)" "ram_region k a n t" "ram_mask k t = ram_mask k u"
    using tf w r(6) region same_frame_region [OF frame] same_frame_mask [OF frame] by (simp_all add: dma_interrupt_frame)
  have "ESP_IO_Handler dev u = Some t"
    using armed assms(2) r(1) w(1) t(1) by (simp add: ESP_IO_Handler_def esp_dma_write_memory_def dma_esp_write_memory_def)
  moreover have "\<forall>i < n. mem_get dev SZ_BYTE (a + of_nat i) t = Some (Inr (ucast (xs ! i)), t)"
    using region_stored [OF ram(2) _ assms(4)] ram(1) unfolding ram(3) by blast
  moreover have "\<forall>j. j < ?at \<or> ?at + n \<le> j \<longrightarrow> arr_byte (NEXTRam t) j = arr_byte (NEXTRam u) j"
    using assms(4) by (auto simp: ram(1) store_bytes_def)
  moreover have "dma_finished CHANNEL_SCSI t" using r(5) tf w by (simp add: dma_finished_def)
  moreover have "CycInt_EventPending EVENT_ESP_INTERRUPT t" using t(4) w(3) by (simp add: CycInt_EventPending_def)
  ultimately show ?thesis using tf(6) t(2) by blast
qed

text \<open>
  C11. Data read from a SCSI disk reach the memory of the guest. A read command for \<open>n\<close> blocks has
  been executed by the target; then the guest has set up the controller and the DMA channel,
  without touching the target, for these \<open>n * bs\<close> bytes and an address \<open>a\<close> of main memory. The
  next run of the event handler of the controller returns; then every byte of the region from
  \<open>a\<close> on is the byte of the image file at the place the command addressed, no other byte of
  memory has changed, the channel is complete and requests its interrupt, and the interrupt of
  the controller is scheduled.
\<close>

theorem scsi_read_reaches_memory:
  fixes s :: "'a scsi_scheme" and u :: "'b dma_scheme"
  assumes "scsi_inv s" "has_image rw s img"
    and "bs = unat (blocksize (cur_disk s))" "l = unat (SCSI_GetOffset (cdb ! 0) cdb)"
    and "n = unat (SCSI_GetCount (cdb ! 0) cdb)" "0 < n" "l + n \<le> length img div bs"
    and "SCSI_ReadSector cdb s = Some s1" "same_target s1 u"
    and "esp_armed (n * bs) u" "dma_armed CHANNEL_SCSI k a (n * bs) u" "cyc_inv u"
  shows "\<exists>t. ESP_IO_Handler dev u = Some t
    \<and> (\<forall>i < n * bs. mem_get dev SZ_BYTE (a + of_nat i) t = Some (Inr (ucast (img ! (l * bs + i))), t))
    \<and> (\<forall>j. j < unat (a AND ram_mask k u) \<or> unat (a AND ram_mask k u) + n * bs \<le> j \<longrightarrow>
         arr_byte (NEXTRam t) j = arr_byte (NEXTRam u) j)
    \<and> dma_finished CHANNEL_SCSI t \<and> esp_io_state t = ESP_IO_STATE_FLUSHING
    \<and> CycInt_EventPending EVENT_ESP_INTERRUPT t \<and> cyc_inv t"
proof -
  let ?xs = "take (n * bs) (drop (l * bs) img)"
  obtain s2 where s2: "bus_phase (SCSIbus s1) = PHASE_DI" "send_n (n * bs) s1 = Some (?xs, s2)"
    "\<forall>i < n * bs. \<exists>xs u. send_n i s1 = Some (xs, u) \<and> bus_phase (SCSIbus u) = PHASE_DI"
    using read_command [OF assms(1-7)] assms(8) by auto
  have inv: "scsi_inv u"
    using SCSI_ReadSector_inv [OF conjunct1 [OF assms(1) [unfolded scsi_inv_base]], of cdb] assms(8) target_inv [OF assms(9)] by auto
  have "l * bs + n * bs \<le> length img"
    using order_trans [OF mult_le_mono1 [OF assms(7)] div_times_less_eq_dividend] by (simp add: add_mult_distrib)
  then have len: "length ?xs = n * bs" "\<And>i. i < n * bs \<Longrightarrow> ?xs ! i = img ! (l * bs + i)" by simp_all
  have "phase u = PHASE_DI" using s2(1) assms(9) by (simp add: same_target_def)
  from handler_stores_stream [OF inv this bytes_send [OF s2(2) assms(9) s2(3)] len(1) assms(10-12), of dev] len(2)
  show ?thesis by auto
qed

text \<open>The sample machine, ready to receive a block from the target.\<close>

definition sample_transfer :: "scsi \<Rightarrow> dma" where
  "sample_transfer s = sample_dma\<lparr>EventList := EventList sample_cycint, nCyclesFirst := nCyclesFirst sample_cycint,
     nTimeFirst := nTimeFirst sample_cycint, SCSIbus := SCSIbus s, scsi_buffer := scsi_buffer s, SCSIdisk := SCSIdisk s,
     host_files := host_files s, esp_io_state := ESP_IO_STATE_TRANSFERING,
     esp_dma := \<lparr>espdma_control = ESPCTRL_MODE_DMA, espdma_status = 0\<rparr>, esp_counter := 512,
     dma := (dma sample_dma)(CHANNEL_SCSI := (dma sample_dma CHANNEL_SCSI)\<lparr>dma_csr := DMA_ENABLE,
       dma_next := 0x04000100, dma_limit := 0x04000300\<rparr>)\<rparr>"

lemma sample_transfer_facts:
  "same_target s (sample_transfer s)" "esp_armed 512 (sample_transfer s)"
  "dma_armed CHANNEL_SCSI 0 0x04000100 512 (sample_transfer s)" "cyc_inv (sample_transfer s)"
proof -
  show "same_target s (sample_transfer s)" by (simp add: same_target_def sample_transfer_def)
  show "esp_armed 512 (sample_transfer s)"
    by (simp add: esp_armed_def sample_transfer_def sample_dma_def sample_esp_def memory.defs esp.defs dma.defs)
  show "cyc_inv (sample_transfer s)"
    using cyc_inv_frame(1) [of "sample_transfer s" sample_cycint] sample_cycint_inv by (simp add: sample_transfer_def)
  have "ram_region 0 0x04000100 512 sample_bus"
    using init_region [OF sample_bus_init sample_malloc_ok sample_memory_init(2), of 0 "0x04000100" 512]
    by (simp add: sample_bus_config in_window_def)
  then have "ram_region 0 0x04000100 512 (sample_transfer s)"
    by (simp add: ram_region_def sample_transfer_def sample_dma_def sample_esp_def memory.defs esp.defs dma.defs)
  then show "dma_armed CHANNEL_SCSI 0 0x04000100 512 (sample_transfer s)"
    by (simp add: dma_armed_def sample_transfer_def bad_alignment_def)
qed

theorem scsi_read_reaches_memory_witness:
  "\<exists>s1 t. SCSI_ReadSector (sample_cdb 0x08) sample_ready = Some s1
     \<and> ESP_IO_Handler sample_devices (sample_transfer s1) = Some t
     \<and> mem_get sample_devices SZ_BYTE 0x04000107 t = Some (Inr (ucast (replicate 2048 (0x11 :: u8) ! 519)), t)"
proof -
  obtain s1 where s1: "SCSI_ReadSector (sample_cdb 0x08) sample_ready = Some s1"
    using read_command [OF sample_ready_facts(1,2), of 512 1 "sample_cdb 0x08" 1] sample_ready_facts(5) sample_cdb_facts by auto
  note f = sample_transfer_facts [of s1]
  from scsi_read_reaches_memory [OF sample_ready_facts(1,2) _ _ _ _ _ s1 f(1) _ _ f(4), of 512 1 1 0 "0x04000100" sample_devices] f(2,3)
    sample_ready_facts(5) sample_cdb_facts
  obtain t where t: "ESP_IO_Handler sample_devices (sample_transfer s1) = Some t"
    "\<forall>i < 512. mem_get sample_devices SZ_BYTE (0x04000100 + of_nat i) t = Some (Inr (ucast (replicate 2048 (0x11 :: u8) ! (512 + i))), t)"
    by auto
  from s1 t(1) t(2) [rule_format, of 7] show ?thesis by auto
qed

end
