(* ===== verification/EspLoops.thy ===== *)
theory EspLoops
  imports ScsiTransfer
begin

text \<open>
  The loops of the SCSI controller that move bytes without the DMA channel end: the byte counter
  decreases, and the target, the FIFO and the scheduler stay in a state in which no step fails.
\<close>

section \<open>Single bytes\<close>

text \<open>Everything the loops rely on.\<close>

definition esp_sound :: "'a dma_scheme \<Rightarrow> bool" where
  "esp_sound s \<longleftrightarrow> scsi_inv s \<and> fifo_ok s \<and> cyc_inv s"

text \<open>A byte sent or received changes the target and its image file only.\<close>

definition target_frame :: "'a dma_scheme \<Rightarrow> 'a dma_scheme \<Rightarrow> bool" where
  "target_frame s t \<longleftrightarrow>
     t = s\<lparr>SCSIbus := SCSIbus t, scsi_buffer := scsi_buffer t, SCSIdisk := SCSIdisk t, host_files := host_files t\<rparr>"

lemma target_frame_steps:
  "target_frame s s" "target_frame s t \<Longrightarrow> target_frame s (t\<lparr>SCSIbus := b\<rparr>)" "target_frame s t \<Longrightarrow> target_frame s (t\<lparr>scsi_buffer := f\<rparr>)"
  "target_frame s t \<Longrightarrow> target_frame s (t\<lparr>SCSIdisk := d\<rparr>)" "target_frame s t \<Longrightarrow> target_frame s (t\<lparr>host_files := h\<rparr>)"
  by (cases s; cases t; simp add: target_frame_def)+

lemma target_frame_parts:
  "target_frame s t \<Longrightarrow> target_frame s (set_phase p t)" "target_frame s t \<Longrightarrow> target_frame s (upd_disk g t)"
  "target_frame s t \<Longrightarrow> target_frame s (upd_buffer k t)" "target_frame s t \<Longrightarrow> target_frame s (invalid_lba t)"
  by (auto simp: set_phase_def upd_disk_def upd_buffer_def invalid_lba_def Let_def intro!: target_frame_steps)

lemma target_frame_data:
  "SCSIdisk_Send_Data s = Some (v, t) \<Longrightarrow> target_frame s t" "SCSIdisk_Receive_Data v s = Some t \<Longrightarrow> target_frame s t"
proof -
  have r: "target_frame s u" if "scsi_read_sector t = Some u" "target_frame s t" for t u
    using that by (auto simp: scsi_read_sector_def Let_def split: if_splits Option.bind_splits intro!: target_frame_parts)
  have w: "target_frame s u" if "scsi_write_sector t = Some u" "target_frame s t" for t u
    using that by (auto simp: scsi_write_sector_def write_block_def Let_def split: if_splits option.splits Option.bind_splits
        intro!: target_frame_parts target_frame_steps)
  show "SCSIdisk_Send_Data s = Some (v, t) \<Longrightarrow> target_frame s t"
    by (auto simp: SCSIdisk_Send_Data_def Let_def split: if_splits Option.bind_splits intro!: target_frame_parts target_frame_steps elim!: r)
  show "SCSIdisk_Receive_Data v s = Some t \<Longrightarrow> target_frame s t"
    by (auto simp: SCSIdisk_Receive_Data_def Let_def split: if_splits Option.bind_splits intro!: target_frame_parts target_frame_steps elim!: w)
qed

lemma target_frameD:
  assumes "target_frame s t"
  shows "esp_counter t = esp_counter s \<and> fifo_ok t = fifo_ok s \<and> fifoflags t = fifoflags s \<and> cyc_inv t = cyc_inv s \<and> esp_control t = esp_control s"
proof -
  note t = assms [unfolded target_frame_def]
  have "EventList t = EventList s" "nCyclesFirst t = nCyclesFirst s" "nTimeFirst t = nTimeFirst s" "esp_counter t = esp_counter s"
    "esp_fifo t = esp_fifo s" "fifoflags t = fifoflags s" "esp_control t = esp_control s"
    by (subst t, simp)+
  then show ?thesis using cyc_inv_frame(1) [of t s] by (simp add: fifo_ok_def)
qed

lemmas data_frame = target_frame_data [THEN target_frameD]

lemma sound_send:
  assumes "esp_sound s" "phase s = PHASE_DI"
  shows "\<exists>v t. SCSIdisk_Send_Data s = Some (v, t) \<and> esp_sound t \<and> esp_counter t = esp_counter s \<and> fifoflags t = fifoflags s
    \<and> esp_control t = esp_control s"
proof -
  obtain v t where "SCSIdisk_Send_Data s = Some (v, t)" "scsi_inv t"
    using scsi_data_phases_total [of s] assms by (auto simp: esp_sound_def)
  then show ?thesis using assms(1) data_frame(1) by (fastforce simp: esp_sound_def)
qed

lemma sound_receive:
  assumes "esp_sound s" "phase s = PHASE_DO"
  shows "\<exists>t. SCSIdisk_Receive_Data v s = Some t \<and> esp_sound t \<and> esp_counter t = esp_counter s \<and> fifoflags t = fifoflags s
    \<and> esp_control t = esp_control s"
proof -
  obtain t where "SCSIdisk_Receive_Data v s = Some t" "scsi_inv t"
    using scsi_data_phases_total [of s v] assms by (auto simp: esp_sound_def)
  then show ?thesis using assms(1) data_frame(2) by (fastforce simp: esp_sound_def)
qed

lemma sound_counter [simp]: "esp_sound (s\<lparr>esp_counter := c\<rparr>) = esp_sound s"
  using cyc_inv_frame(1) [of "s\<lparr>esp_counter := c\<rparr>" s] by (simp add: esp_sound_def scsi_inv_def fifo_ok_def)

lemma counter_less: "0 < esp_counter s \<Longrightarrow> unat (esp_counter s - 1) < unat (esp_counter s)"
  by (simp add: unat_minus_one word_gt_0 unat_gt_0)

lemma sound_fifo_write:
  assumes "esp_sound s" "fifoflags s < ESP_FIFO_SIZE"
  shows "\<exists>t. esp_fifo_write v s = Some t \<and> esp_sound t \<and> esp_counter t = esp_counter s \<and> esp_control t = esp_control s"
proof -
  have n: "unat (fifoflags s) < 16" using assms(2) by (simp add: word_less_nat_alt)
  have f: "fifo_ok s" using assms(1) by (simp add: esp_sound_def)
  let ?t = "s\<lparr>esp_fifo := (esp_fifo s)[unat (fifoflags s) := v], fifoflags := fifoflags s + 1\<rparr>"
  have "fifo_ok ?t" using n f fifo_write_room(2) [OF f n] by (simp add: fifo_ok_def word_le_nat_alt)
  then have "esp_sound ?t" using assms(1) cyc_inv_frame(1) [of ?t s] by (simp add: esp_sound_def scsi_inv_def)
  then show ?thesis using fifo_write_room(1) [OF f n] by simp
qed

lemma sound_fifo_read:
  assumes "esp_sound s" "0 < fifoflags s"
  shows "\<exists>v t. esp_fifo_read s = Some (v, t) \<and> esp_sound t \<and> esp_counter t = esp_counter s \<and> SCSIbus t = SCSIbus s
    \<and> esp_control t = esp_control s"
proof -
  let ?t = "s\<lparr>esp_fifo := drop 1 (esp_fifo s) @ [0x00], fifoflags := fifoflags s - 1\<rparr>"
  have f: "fifo_ok s" using assms(1) by (simp add: esp_sound_def)
  have "unat (fifoflags s - 1) = unat (fifoflags s) - 1" using assms(2) by (simp add: unat_minus_one word_gt_0)
  then have "fifo_ok ?t" using f by (auto simp: fifo_ok_def word_le_nat_alt)
  then have "esp_sound ?t" using assms(1) cyc_inv_frame(1) [of ?t s] by (simp add: esp_sound_def scsi_inv_def)
  then show ?thesis using assms(2) by (simp add: esp_fifo_read_def)
qed

section \<open>Loops\<close>

lemma pad_in_total:
  "esp_sound s \<Longrightarrow> \<exists>t. pad_in s = Some t \<and> esp_sound t \<and> \<not> (phase t = PHASE_DI \<and> 0 < esp_counter t)"
proof (induction "unat (esp_counter s)" arbitrary: s rule: less_induct)
  case less
  show ?case
  proof (cases "phase s = PHASE_DI \<and> 0 < esp_counter s")
    case True
    from sound_send [OF less.prems] True obtain v t where t: "SCSIdisk_Send_Data s = Some (v, t)" "esp_sound t" "esp_counter t = esp_counter s"
      by blast
    have "\<exists>u. pad_in (t\<lparr>esp_counter := esp_counter t - 1\<rparr>) = Some u \<and> esp_sound u \<and> \<not> (phase u = PHASE_DI \<and> 0 < esp_counter u)"
      using counter_less [of s] True t by (intro less.hyps) simp_all
    then show ?thesis using True t(1) by (subst pad_in.simps) simp
  qed (use less.prems in \<open>subst pad_in.simps, auto\<close>)
qed

lemma pad_out_total:
  "esp_sound s \<Longrightarrow> \<exists>t. pad_out s = Some t \<and> esp_sound t \<and> \<not> (phase t = PHASE_DO \<and> 0 < esp_counter t)"
proof (induction "unat (esp_counter s)" arbitrary: s rule: less_induct)
  case less
  show ?case
  proof (cases "phase s = PHASE_DO \<and> 0 < esp_counter s")
    case True
    from sound_receive [OF less.prems, of 0] True obtain t where t: "SCSIdisk_Receive_Data 0 s = Some t" "esp_sound t" "esp_counter t = esp_counter s"
      by blast
    have "\<exists>u. pad_out (t\<lparr>esp_counter := esp_counter t - 1\<rparr>) = Some u \<and> esp_sound u \<and> \<not> (phase u = PHASE_DO \<and> 0 < esp_counter u)"
      using counter_less [of s] True t by (intro less.hyps) simp_all
    then show ?thesis using True t(1) by (subst pad_out.simps) simp
  qed (use less.prems in \<open>subst pad_out.simps, auto\<close>)
qed

lemma pio_in_total: "esp_sound s \<Longrightarrow> \<exists>t. pio_in s = Some t \<and> esp_sound t"
proof (induction "unat (esp_counter s)" arbitrary: s rule: less_induct)
  case less
  show ?case
  proof (cases "fifoflags s < ESP_FIFO_SIZE \<and> 0 < esp_counter s \<and> phase s = PHASE_DI")
    case True
    from sound_send [OF less.prems] True obtain v t where t: "SCSIdisk_Send_Data s = Some (v, t)" "esp_sound t"
      "esp_counter t = esp_counter s" "fifoflags t = fifoflags s" by blast
    from sound_fifo_write [OF t(2), of v] True t(4) obtain w where w: "esp_fifo_write v t = Some w" "esp_sound w" "esp_counter w = esp_counter t"
      by auto
    have "\<exists>u. pio_in (w\<lparr>esp_counter := esp_counter w - 1\<rparr>) = Some u \<and> esp_sound u"
      using counter_less [of s] True t w by (intro less.hyps) simp_all
    then show ?thesis using True t(1) w(1) by (subst pio_in.simps) simp
  qed (use less.prems in \<open>subst pio_in.simps, auto\<close>)
qed

lemma pio_out_total: "esp_sound s \<Longrightarrow> \<exists>t. pio_out s = Some t \<and> esp_sound t \<and> esp_control t = esp_control s"
proof (induction "unat (esp_counter s)" arbitrary: s rule: less_induct)
  case less
  show ?case
  proof (cases "0 < fifoflags s \<and> 0 < esp_counter s \<and> phase s = PHASE_DO")
    case True
    from sound_fifo_read [OF less.prems] True obtain v w where w: "esp_fifo_read s = Some (v, w)" "esp_sound w"
      "esp_counter w = esp_counter s" "SCSIbus w = SCSIbus s" "esp_control w = esp_control s" by blast
    from sound_receive [OF w(2), of v] True w(4) obtain t where t: "SCSIdisk_Receive_Data v w = Some t" "esp_sound t"
      "esp_counter t = esp_counter w" "esp_control t = esp_control w" by auto
    have "\<exists>u. pio_out (t\<lparr>esp_counter := esp_counter t - 1\<rparr>) = Some u \<and> esp_sound u
      \<and> esp_control u = esp_control (t\<lparr>esp_counter := esp_counter t - 1\<rparr>)"
      using counter_less [of s] True t w by (intro less.hyps) simp_all
    then show ?thesis using True t(1,4) w(1,5) by (subst pio_out.simps) simp
  qed (use less.prems in \<open>subst pio_out.simps, auto\<close>)
qed

section \<open>Completion\<close>

lemma sound_sched:
  assumes "t = sched_upd t s" "cyc_inv t" "scsi_inv s" "fifo_ok s"
  shows "esp_sound t \<and> phase t = phase s \<and> esp_counter t = esp_counter s \<and> esp_control t = esp_control s"
proof -
  have "scsi_inv t = scsi_inv s" "fifo_ok t = fifo_ok s" "phase t = phase s" "esp_counter t = esp_counter s" "esp_control t = esp_control s"
    by (subst assms(1), simp add: sched_upd_def scsi_inv_def fifo_ok_def)+
  then show ?thesis using assms(2-4) by (simp add: esp_sound_def)
qed

lemma transfer_done_total:
  assumes "esp_sound s"
  shows "\<exists>b t. esp_transfer_done w s = Some (b, t) \<and> esp_sound t \<and> phase t = phase s \<and> esp_counter t = esp_counter s
    \<and> (b \<longleftrightarrow> esp_counter s = 0 \<or> phase s \<noteq> (if w then PHASE_DI else PHASE_DO))
    \<and> (b \<longrightarrow> CycInt_EventPending EVENT_ESP_INTERRUPT t)"
proof (cases "esp_counter s = 0 \<or> phase s \<noteq> (if w then PHASE_DI else PHASE_DO)")
  case True
  define u where "u = (if esp_counter s = 0 then s\<lparr>intstatus := INTR_BS, esp_status := esp_status s OR STAT_TC\<rparr>
    else (esp_command_clear s)\<lparr>intstatus := INTR_BS\<rparr>)"
  have "cyc_inv u"
    using assms cyc_inv_frame(1) [of u s] by (auto simp: u_def esp_command_clear_def esp_sound_def Let_def)
  from time_event_returns(1) [OF this, of EVENT_ESP_INTERRUPT ESP_DELAY 20]
  obtain t where t: "CycInt_AddTimeEvent ESP_DELAY 20 EVENT_ESP_INTERRUPT u = Some t" "cyc_inv t" "t = sched_upd t u"
    "CycInt_EventPending EVENT_ESP_INTERRUPT t" by blast
  have "scsi_inv u" "fifo_ok u" "phase u = phase s" "esp_counter u = esp_counter s"
    using assms by (auto simp: u_def esp_command_clear_def scsi_inv_def fifo_ok_def esp_sound_def Let_def)
  with sound_sched [OF t(3,2)] have "esp_sound t" "phase t = phase s" "esp_counter t = esp_counter s" by simp_all
  moreover have "esp_transfer_done w s = Some (True, t)"
    using True t(1) by (auto simp: esp_transfer_done_def u_def split: if_splits)
  ultimately show ?thesis using True t(4) by blast
next
  case False
  then show ?thesis using assms by (auto simp: esp_transfer_done_def)
qed

text \<open>
  C14. Transfers that do not use DMA end. In a state in which the target, the FIFO and the event lists
  are sound: transfer pad returns for both data phases, after the byte counter has reached zero
  or the target has left the data phase, with the interrupt scheduled; and with the DMA mode off
  each run of the event handler returns, whatever phase the target is in. The resulting states
  are sound again.
\<close>

theorem esp_transfers_terminate:
  assumes "esp_sound s"
  shows "(phase s = PHASE_DI \<or> phase s = PHASE_DO \<longrightarrow>
      (\<exists>t. esp_transfer_pad s = Some t \<and> esp_sound t \<and> (esp_counter t = 0 \<or> phase t \<noteq> phase s)
        \<and> CycInt_EventPending EVENT_ESP_INTERRUPT t))
    \<and> (\<not> tst (esp_control s) ESPCTRL_MODE_DMA \<and> esp_io_state s \<noteq> ESP_IO_STATE_FLUSHING \<longrightarrow>
      (\<exists>t. ESP_IO_Handler dev s = Some t \<and> esp_sound t))"
proof (intro conjI impI)
  assume "phase s = PHASE_DI \<or> phase s = PHASE_DO"
  then show "\<exists>t. esp_transfer_pad s = Some t \<and> esp_sound t \<and> (esp_counter t = 0 \<or> phase t \<noteq> phase s)
    \<and> CycInt_EventPending EVENT_ESP_INTERRUPT t"
  proof
    assume di: "phase s = PHASE_DI"
    obtain u where u: "pad_in s = Some u" "esp_sound u" "\<not> (phase u = PHASE_DI \<and> 0 < esp_counter u)"
      using pad_in_total [OF assms] by blast
    then show ?thesis using di transfer_done_total [OF u(2), of True] by (auto simp: esp_transfer_pad_def word_gt_0)
  next
    assume "phase s = PHASE_DO"
    moreover obtain u where u: "pad_out s = Some u" "esp_sound u" "\<not> (phase u = PHASE_DO \<and> 0 < esp_counter u)"
      using pad_out_total [OF assms] by blast
    ultimately show ?thesis using transfer_done_total [OF u(2), of False] by (auto simp: esp_transfer_pad_def word_gt_0)
  qed
next
  assume pio: "\<not> tst (esp_control s) ESPCTRL_MODE_DMA \<and> esp_io_state s \<noteq> ESP_IO_STATE_FLUSHING"
  have upd: "\<exists>v. CycInt_UpdateTimeEvent 100 0 EVENT_ESP_IO u = Some v \<and> esp_sound v" if "esp_sound u" for u :: "'a dma_scheme"
    using time_event_returns(2) [of u EVENT_ESP_IO 100 0] sound_sched that by (auto simp: esp_sound_def)
  have flush: "esp_sound (u\<lparr>esp_io_state := x\<rparr>) = esp_sound u" for u :: "'a dma_scheme" and x
    using cyc_inv_frame(1) [of "u\<lparr>esp_io_state := x\<rparr>" u] by (simp add: esp_sound_def scsi_inv_def fifo_ok_def)
  obtain u b v where u: "pio_in s = Some u" "esp_transfer_done True u = Some (b, v)" "esp_sound v"
    using pio_in_total [OF assms] transfer_done_total by blast
  obtain u' b' v' where u': "pio_out s = Some u'" "esp_control u' = esp_control s" "esp_transfer_done False u' = Some (b', v')" "esp_sound v'"
    using pio_out_total [OF assms] transfer_done_total by blast
  obtain b'' v'' where v'': "esp_transfer_done True s = Some (b'', v'')" "esp_sound v''"
    using transfer_done_total [OF assms] by blast
  show "\<exists>t. ESP_IO_Handler dev s = Some t \<and> esp_sound t"
    using pio assms u u' v'' upd [of v] upd [of v'] upd [of "v\<lparr>esp_io_state := ESP_IO_STATE_FLUSHING\<rparr>"]
    by (cases "esp_io_state s") (auto simp: ESP_IO_Handler_def esp_dma_write_memory_def esp_dma_read_memory_def flush)
qed

theorem esp_transfers_terminate_witness:
  "\<exists>s1 t. SCSI_ReadSector (sample_cdb 0x08) sample_ready = Some s1 \<and> esp_sound (sample_transfer s1)
     \<and> phase (sample_transfer s1) = PHASE_DI \<and> esp_transfer_pad (sample_transfer s1) = Some t
     \<and> CycInt_EventPending EVENT_ESP_INTERRUPT t"
proof -
  obtain s1 where s1: "SCSI_ReadSector (sample_cdb 0x08) sample_ready = Some s1" "bus_phase (SCSIbus s1) = PHASE_DI"
    using read_command [OF sample_ready_facts(1,2), of 512 1 "sample_cdb 0x08" 1] sample_ready_facts(5) sample_cdb_facts by auto
  note f = sample_transfer_facts [of s1]
  have "scsi_inv s1"
    using SCSI_ReadSector_inv [OF conjunct1 [OF sample_ready_facts(1) [unfolded scsi_inv_base]], of "sample_cdb 0x08"] s1(1) by auto
  moreover have "fifo_ok (sample_transfer s1)"
    by (simp add: fifo_ok_def sample_transfer_def sample_dma_def sample_esp_def memory.defs esp.defs dma.defs)
  ultimately have sound: "esp_sound (sample_transfer s1)" using f(4) target_inv [OF f(1)] by (simp add: esp_sound_def)
  have "phase (sample_transfer s1) = PHASE_DI" using s1(2) f(1) by (simp add: same_target_def)
  with esp_transfers_terminate [OF sound, of sample_devices] s1(1) sound show ?thesis by blast
qed

end
