(* ===== verification/GF256.thy ===== *)
theory GF256
  imports Prelude
begin

text \<open>
  The tables of the finite field with 256 elements in \<open>rs.c\<close>. \<open>t_exp\<close> holds the powers of
  the element 2 modulo the polynomial \<open>0x11d\<close>, three periods long so that sums of exponents
  need no reduction, and \<open>t_log\<close> the logarithms. The type \<open>gf256\<close> is the field that the
  tables describe, as an instance of the class \<open>field\<close>, so that the decoder is reasoned
  about with the field laws of the library.
\<close>

section \<open>The tables\<close>

definition t_exp :: "u8 list" where
  "t_exp = [
     0x01, 0x02, 0x04, 0x08, 0x10, 0x20, 0x40, 0x80, 0x1d, 0x3a, 0x74, 0xe8, 0xcd, 0x87, 0x13, 0x26,
     0x4c, 0x98, 0x2d, 0x5a, 0xb4, 0x75, 0xea, 0xc9, 0x8f, 0x03, 0x06, 0x0c, 0x18, 0x30, 0x60, 0xc0,
     0x9d, 0x27, 0x4e, 0x9c, 0x25, 0x4a, 0x94, 0x35, 0x6a, 0xd4, 0xb5, 0x77, 0xee, 0xc1, 0x9f, 0x23,
     0x46, 0x8c, 0x05, 0x0a, 0x14, 0x28, 0x50, 0xa0, 0x5d, 0xba, 0x69, 0xd2, 0xb9, 0x6f, 0xde, 0xa1,
     0x5f, 0xbe, 0x61, 0xc2, 0x99, 0x2f, 0x5e, 0xbc, 0x65, 0xca, 0x89, 0x0f, 0x1e, 0x3c, 0x78, 0xf0,
     0xfd, 0xe7, 0xd3, 0xbb, 0x6b, 0xd6, 0xb1, 0x7f, 0xfe, 0xe1, 0xdf, 0xa3, 0x5b, 0xb6, 0x71, 0xe2,
     0xd9, 0xaf, 0x43, 0x86, 0x11, 0x22, 0x44, 0x88, 0x0d, 0x1a, 0x34, 0x68, 0xd0, 0xbd, 0x67, 0xce,
     0x81, 0x1f, 0x3e, 0x7c, 0xf8, 0xed, 0xc7, 0x93, 0x3b, 0x76, 0xec, 0xc5, 0x97, 0x33, 0x66, 0xcc,
     0x85, 0x17, 0x2e, 0x5c, 0xb8, 0x6d, 0xda, 0xa9, 0x4f, 0x9e, 0x21, 0x42, 0x84, 0x15, 0x2a, 0x54,
     0xa8, 0x4d, 0x9a, 0x29, 0x52, 0xa4, 0x55, 0xaa, 0x49, 0x92, 0x39, 0x72, 0xe4, 0xd5, 0xb7, 0x73,
     0xe6, 0xd1, 0xbf, 0x63, 0xc6, 0x91, 0x3f, 0x7e, 0xfc, 0xe5, 0xd7, 0xb3, 0x7b, 0xf6, 0xf1, 0xff,
     0xe3, 0xdb, 0xab, 0x4b, 0x96, 0x31, 0x62, 0xc4, 0x95, 0x37, 0x6e, 0xdc, 0xa5, 0x57, 0xae, 0x41,
     0x82, 0x19, 0x32, 0x64, 0xc8, 0x8d, 0x07, 0x0e, 0x1c, 0x38, 0x70, 0xe0, 0xdd, 0xa7, 0x53, 0xa6,
     0x51, 0xa2, 0x59, 0xb2, 0x79, 0xf2, 0xf9, 0xef, 0xc3, 0x9b, 0x2b, 0x56, 0xac, 0x45, 0x8a, 0x09,
     0x12, 0x24, 0x48, 0x90, 0x3d, 0x7a, 0xf4, 0xf5, 0xf7, 0xf3, 0xfb, 0xeb, 0xcb, 0x8b, 0x0b, 0x16,
     0x2c, 0x58, 0xb0, 0x7d, 0xfa, 0xe9, 0xcf, 0x83, 0x1b, 0x36, 0x6c, 0xd8, 0xad, 0x47, 0x8e, 0x01,
     0x02, 0x04, 0x08, 0x10, 0x20, 0x40, 0x80, 0x1d, 0x3a, 0x74, 0xe8, 0xcd, 0x87, 0x13, 0x26, 0x4c,
     0x98, 0x2d, 0x5a, 0xb4, 0x75, 0xea, 0xc9, 0x8f, 0x03, 0x06, 0x0c, 0x18, 0x30, 0x60, 0xc0, 0x9d,
     0x27, 0x4e, 0x9c, 0x25, 0x4a, 0x94, 0x35, 0x6a, 0xd4, 0xb5, 0x77, 0xee, 0xc1, 0x9f, 0x23, 0x46,
     0x8c, 0x05, 0x0a, 0x14, 0x28, 0x50, 0xa0, 0x5d, 0xba, 0x69, 0xd2, 0xb9, 0x6f, 0xde, 0xa1, 0x5f,
     0xbe, 0x61, 0xc2, 0x99, 0x2f, 0x5e, 0xbc, 0x65, 0xca, 0x89, 0x0f, 0x1e, 0x3c, 0x78, 0xf0, 0xfd,
     0xe7, 0xd3, 0xbb, 0x6b, 0xd6, 0xb1, 0x7f, 0xfe, 0xe1, 0xdf, 0xa3, 0x5b, 0xb6, 0x71, 0xe2, 0xd9,
     0xaf, 0x43, 0x86, 0x11, 0x22, 0x44, 0x88, 0x0d, 0x1a, 0x34, 0x68, 0xd0, 0xbd, 0x67, 0xce, 0x81,
     0x1f, 0x3e, 0x7c, 0xf8, 0xed, 0xc7, 0x93, 0x3b, 0x76, 0xec, 0xc5, 0x97, 0x33, 0x66, 0xcc, 0x85,
     0x17, 0x2e, 0x5c, 0xb8, 0x6d, 0xda, 0xa9, 0x4f, 0x9e, 0x21, 0x42, 0x84, 0x15, 0x2a, 0x54, 0xa8,
     0x4d, 0x9a, 0x29, 0x52, 0xa4, 0x55, 0xaa, 0x49, 0x92, 0x39, 0x72, 0xe4, 0xd5, 0xb7, 0x73, 0xe6,
     0xd1, 0xbf, 0x63, 0xc6, 0x91, 0x3f, 0x7e, 0xfc, 0xe5, 0xd7, 0xb3, 0x7b, 0xf6, 0xf1, 0xff, 0xe3,
     0xdb, 0xab, 0x4b, 0x96, 0x31, 0x62, 0xc4, 0x95, 0x37, 0x6e, 0xdc, 0xa5, 0x57, 0xae, 0x41, 0x82,
     0x19, 0x32, 0x64, 0xc8, 0x8d, 0x07, 0x0e, 0x1c, 0x38, 0x70, 0xe0, 0xdd, 0xa7, 0x53, 0xa6, 0x51,
     0xa2, 0x59, 0xb2, 0x79, 0xf2, 0xf9, 0xef, 0xc3, 0x9b, 0x2b, 0x56, 0xac, 0x45, 0x8a, 0x09, 0x12,
     0x24, 0x48, 0x90, 0x3d, 0x7a, 0xf4, 0xf5, 0xf7, 0xf3, 0xfb, 0xeb, 0xcb, 0x8b, 0x0b, 0x16, 0x2c,
     0x58, 0xb0, 0x7d, 0xfa, 0xe9, 0xcf, 0x83, 0x1b, 0x36, 0x6c, 0xd8, 0xad, 0x47, 0x8e, 0x01, 0x02,
     0x04, 0x08, 0x10, 0x20, 0x40, 0x80, 0x1d, 0x3a, 0x74, 0xe8, 0xcd, 0x87, 0x13, 0x26, 0x4c, 0x98,
     0x2d, 0x5a, 0xb4, 0x75, 0xea, 0xc9, 0x8f, 0x03, 0x06, 0x0c, 0x18, 0x30, 0x60, 0xc0, 0x9d, 0x27,
     0x4e, 0x9c, 0x25, 0x4a, 0x94, 0x35, 0x6a, 0xd4, 0xb5, 0x77, 0xee, 0xc1, 0x9f, 0x23, 0x46, 0x8c,
     0x05, 0x0a, 0x14, 0x28, 0x50, 0xa0, 0x5d, 0xba, 0x69, 0xd2, 0xb9, 0x6f, 0xde, 0xa1, 0x5f, 0xbe,
     0x61, 0xc2, 0x99, 0x2f, 0x5e, 0xbc, 0x65, 0xca, 0x89, 0x0f, 0x1e, 0x3c, 0x78, 0xf0, 0xfd, 0xe7,
     0xd3, 0xbb, 0x6b, 0xd6, 0xb1, 0x7f, 0xfe, 0xe1, 0xdf, 0xa3, 0x5b, 0xb6, 0x71, 0xe2, 0xd9, 0xaf,
     0x43, 0x86, 0x11, 0x22, 0x44, 0x88, 0x0d, 0x1a, 0x34, 0x68, 0xd0, 0xbd, 0x67, 0xce, 0x81, 0x1f,
     0x3e, 0x7c, 0xf8, 0xed, 0xc7, 0x93, 0x3b, 0x76, 0xec, 0xc5, 0x97, 0x33, 0x66, 0xcc, 0x85, 0x17,
     0x2e, 0x5c, 0xb8, 0x6d, 0xda, 0xa9, 0x4f, 0x9e, 0x21, 0x42, 0x84, 0x15, 0x2a, 0x54, 0xa8, 0x4d,
     0x9a, 0x29, 0x52, 0xa4, 0x55, 0xaa, 0x49, 0x92, 0x39, 0x72, 0xe4, 0xd5, 0xb7, 0x73, 0xe6, 0xd1,
     0xbf, 0x63, 0xc6, 0x91, 0x3f, 0x7e, 0xfc, 0xe5, 0xd7, 0xb3, 0x7b, 0xf6, 0xf1, 0xff, 0xe3, 0xdb,
     0xab, 0x4b, 0x96, 0x31, 0x62, 0xc4, 0x95, 0x37, 0x6e, 0xdc, 0xa5, 0x57, 0xae, 0x41, 0x82, 0x19,
     0x32, 0x64, 0xc8, 0x8d, 0x07, 0x0e, 0x1c, 0x38, 0x70, 0xe0, 0xdd, 0xa7, 0x53, 0xa6, 0x51, 0xa2,
     0x59, 0xb2, 0x79, 0xf2, 0xf9, 0xef, 0xc3, 0x9b, 0x2b, 0x56, 0xac, 0x45, 0x8a, 0x09, 0x12, 0x24,
     0x48, 0x90, 0x3d, 0x7a, 0xf4, 0xf5, 0xf7, 0xf3, 0xfb, 0xeb, 0xcb, 0x8b, 0x0b, 0x16, 0x2c, 0x58,
     0xb0, 0x7d, 0xfa, 0xe9, 0xcf, 0x83, 0x1b, 0x36, 0x6c, 0xd8, 0xad, 0x47, 0x8e, 0x01, 0x02, 0x04]"

definition t_log :: "u8 list" where
  "t_log = [
     0x00, 0x00, 0x01, 0x19, 0x02, 0x32, 0x1a, 0xc6, 0x03, 0xdf, 0x33, 0xee, 0x1b, 0x68, 0xc7, 0x4b,
     0x04, 0x64, 0xe0, 0x0e, 0x34, 0x8d, 0xef, 0x81, 0x1c, 0xc1, 0x69, 0xf8, 0xc8, 0x08, 0x4c, 0x71,
     0x05, 0x8a, 0x65, 0x2f, 0xe1, 0x24, 0x0f, 0x21, 0x35, 0x93, 0x8e, 0xda, 0xf0, 0x12, 0x82, 0x45,
     0x1d, 0xb5, 0xc2, 0x7d, 0x6a, 0x27, 0xf9, 0xb9, 0xc9, 0x9a, 0x09, 0x78, 0x4d, 0xe4, 0x72, 0xa6,
     0x06, 0xbf, 0x8b, 0x62, 0x66, 0xdd, 0x30, 0xfd, 0xe2, 0x98, 0x25, 0xb3, 0x10, 0x91, 0x22, 0x88,
     0x36, 0xd0, 0x94, 0xce, 0x8f, 0x96, 0xdb, 0xbd, 0xf1, 0xd2, 0x13, 0x5c, 0x83, 0x38, 0x46, 0x40,
     0x1e, 0x42, 0xb6, 0xa3, 0xc3, 0x48, 0x7e, 0x6e, 0x6b, 0x3a, 0x28, 0x54, 0xfa, 0x85, 0xba, 0x3d,
     0xca, 0x5e, 0x9b, 0x9f, 0x0a, 0x15, 0x79, 0x2b, 0x4e, 0xd4, 0xe5, 0xac, 0x73, 0xf3, 0xa7, 0x57,
     0x07, 0x70, 0xc0, 0xf7, 0x8c, 0x80, 0x63, 0x0d, 0x67, 0x4a, 0xde, 0xed, 0x31, 0xc5, 0xfe, 0x18,
     0xe3, 0xa5, 0x99, 0x77, 0x26, 0xb8, 0xb4, 0x7c, 0x11, 0x44, 0x92, 0xd9, 0x23, 0x20, 0x89, 0x2e,
     0x37, 0x3f, 0xd1, 0x5b, 0x95, 0xbc, 0xcf, 0xcd, 0x90, 0x87, 0x97, 0xb2, 0xdc, 0xfc, 0xbe, 0x61,
     0xf2, 0x56, 0xd3, 0xab, 0x14, 0x2a, 0x5d, 0x9e, 0x84, 0x3c, 0x39, 0x53, 0x47, 0x6d, 0x41, 0xa2,
     0x1f, 0x2d, 0x43, 0xd8, 0xb7, 0x7b, 0xa4, 0x76, 0xc4, 0x17, 0x49, 0xec, 0x7f, 0x0c, 0x6f, 0xf6,
     0x6c, 0xa1, 0x3b, 0x52, 0x29, 0x9d, 0x55, 0xaa, 0xfb, 0x60, 0x86, 0xb1, 0xbb, 0xcc, 0x3e, 0x5a,
     0xcb, 0x59, 0x5f, 0xb0, 0x9c, 0xa9, 0xa0, 0x51, 0x0b, 0xf5, 0x16, 0xeb, 0x7a, 0x75, 0x2c, 0xd7,
     0x4f, 0xae, 0xd5, 0xe9, 0xe6, 0xe7, 0xad, 0xe8, 0x74, 0xd6, 0xf4, 0xea, 0xa8, 0x50, 0x58, 0xaf]"

text \<open>Table lookups with an index of type \<open>int\<close> and with a byte.\<close>

definition g_exp :: "nat \<Rightarrow> u8" where
  "g_exp i = t_exp ! i"

definition g_log :: "u8 \<Rightarrow> nat" where
  "g_log v = unat (t_log ! unat v)"

section \<open>What the tables contain\<close>

text \<open>Multiplication by the element 2.\<close>

definition xt :: "u8 \<Rightarrow> u8" where
  "xt a = push_bit 1 a XOR (if bit a 7 then 0x1d else 0)"

lemma t_exp_length [simp]: "length t_exp = 768"
  by (simp add: t_exp_def)

lemma t_log_length [simp]: "length t_log = 256"
  by (simp add: t_log_def)

lemma t_exp_steps: "list_all (\<lambda>(a, b). b = xt a) (zip t_exp (tl t_exp))"
  unfolding t_exp_def by code_simp

text \<open>
  The logarithms are checked against the exponentials with the table as a binary tree,
  which keeps the evaluation short.
\<close>

datatype 'a lookup_tree = Leaf 'a | Node "'a lookup_tree" "'a lookup_tree"

fun tree_of :: "nat \<Rightarrow> 'a list \<Rightarrow> 'a lookup_tree" where
  "tree_of 0 xs = Leaf (hd xs)"
| "tree_of (Suc n) xs = Node (tree_of n (take (2 ^ n) xs)) (tree_of n (drop (2 ^ n) xs))"

fun look :: "'a lookup_tree \<Rightarrow> nat \<Rightarrow> nat \<Rightarrow> 'a" where
  "look (Leaf x) n i = x"
| "look (Node l r) n i = (let h = n div 2 in if i < h then look l h i else look r h (i - h))"

lemma look_tree_of: "length xs = 2 ^ n \<Longrightarrow> i < 2 ^ n \<Longrightarrow> look (tree_of n xs) (2 ^ n) i = xs ! i"
proof (induction n arbitrary: xs i)
  case 0
  then show ?case by (cases xs) auto
next
  case (Suc n)
  then show ?case by (auto simp: Let_def min_def)
qed

fun logs_ok :: "u8 lookup_tree \<Rightarrow> int \<Rightarrow> u8 list \<Rightarrow> bool" where
  "logs_ok t a [] \<longleftrightarrow> True"
| "logs_ok t a (l # ls) \<longleftrightarrow> look t 256 (unat l) = word_of_int a \<and> unat l < 255 \<and> logs_ok t (a + 1) ls"

lemma logs_ok_nth:
  assumes "logs_ok t a ls" "i < length ls"
  shows "look t 256 (unat (ls ! i)) = word_of_int (a + int i) \<and> unat (ls ! i) < 255"
  using assms
proof (induction ls arbitrary: a i)
  case (Cons l ls)
  then show ?case by (cases i) (auto simp: algebra_simps)
qed simp

lemma t_log_ok: "logs_ok (tree_of 8 (take 256 t_exp)) 1 (tl t_log)"
  unfolding t_exp_def t_log_def by code_simp

lemma g_exp_Suc: "Suc k < 768 \<Longrightarrow> g_exp (Suc k) = xt (g_exp k)"
  using t_exp_steps by (auto simp: list_all_length g_exp_def nth_tl)

lemma g_exp_0 [simp]: "g_exp 0 = 1"
  by (simp add: g_exp_def t_exp_def)

lemma g_exp_power: "k < 768 \<Longrightarrow> g_exp k = (xt ^^ k) 1"
  by (induction k) (simp_all add: g_exp_Suc)

lemma g_exp_log: "v \<noteq> 0 \<Longrightarrow> g_exp (g_log v) = v \<and> g_log v < 255"
proof -
  assume v: "v \<noteq> 0"
  then have pos: "0 < unat v" by (simp add: unat_gt_0)
  have lt: "unat v < 256" using unsigned_less [of v, where ?'a = nat] by simp
  have idx: "t_log ! unat v = tl t_log ! (unat v - 1)"
    using pos lt by (simp add: nth_tl)
  have "look (tree_of 8 (take 256 t_exp)) 256 (unat (t_log ! unat v)) = word_of_int (1 + int (unat v - 1))
      \<and> unat (t_log ! unat v) < 255"
    using logs_ok_nth [OF t_log_ok, of "unat v - 1"] pos lt idx by simp
  moreover have "word_of_int (1 + int (unat v - 1)) = v"
    using pos by (simp add: of_nat_diff)
  ultimately show ?thesis
    using look_tree_of [of "take 256 t_exp" 8 "unat (t_log ! unat v)"]
    by (simp add: g_exp_def g_log_def)
qed

lemma g_log_lt: "g_log v < 255"
proof (cases "v = 0")
  case True
  then show ?thesis by (simp add: g_log_def t_log_def)
qed (simp add: g_exp_log)

lemma g_log_1 [simp]: "g_log 1 = 0"
  by (simp add: g_log_def t_log_def)

text \<open>Both tables are inverse to each other: a logarithm is taken by exactly one element.\<close>

lemma g_log_inj: "v \<noteq> 0 \<Longrightarrow> w \<noteq> 0 \<Longrightarrow> g_log v = g_log w \<Longrightarrow> v = w"
  by (metis g_exp_log)

lemma g_log_image: "g_log ` (- {0}) = {..<255}"
proof (rule card_subset_eq)
  show "g_log ` (- {0}) \<subseteq> {..<255}" by (auto simp: g_log_lt)
  have "inj_on g_log (- {0})" by (auto intro!: inj_onI g_log_inj)
  then have "card (g_log ` (- {0})) = card (- {0 :: u8})" by (rule card_image)
  also have "\<dots> = 255"
    by (simp add: Compl_eq_Diff_UNIV card_Diff_singleton card_word)
  finally show "card (g_log ` (- {0})) = card {..<255::nat}" by simp
qed simp

lemma g_log_exp: "k < 255 \<Longrightarrow> g_exp k \<noteq> 0 \<and> g_log (g_exp k) = k"
proof -
  assume "k < 255"
  then have "k \<in> g_log ` (- {0})" by (simp add: g_log_image)
  then obtain v where "v \<noteq> 0" "k = g_log v" by auto
  then show ?thesis using g_exp_log by metis
qed

lemma g_exp_255 [simp]: "g_exp 255 = 1"
  by (simp add: g_exp_def t_exp_def)

lemma xt_funpow_255: "(xt ^^ 255) 1 = 1"
  using g_exp_power [of 255] by simp

lemma xt_funpow_mod: "(xt ^^ k) 1 = (xt ^^ (k mod 255)) 1"
proof -
  have "(xt ^^ (255 * q)) 1 = 1" for q
    by (induction q) (simp_all add: funpow_add xt_funpow_255)
  then have "(xt ^^ (k mod 255 + 255 * (k div 255))) 1 = (xt ^^ (k mod 255)) 1"
    by (simp only: funpow_add comp_apply)
  then show ?thesis by simp
qed

lemma g_exp_mod: "k < 768 \<Longrightarrow> g_exp k = g_exp (k mod 255)"
  using xt_funpow_mod [of k] by (simp add: g_exp_power)

lemma g_exp_nonzero: "k < 768 \<Longrightarrow> g_exp k \<noteq> 0"
  using g_exp_mod [of k] g_log_exp [of "k mod 255"] by simp

lemma g_log_exp_mod: "k < 768 \<Longrightarrow> g_log (g_exp k) = k mod 255"
  using g_exp_mod [of k] g_log_exp [of "k mod 255"] by simp

section \<open>The field\<close>

lemma xt_linear: "xt (a XOR b) = xt a XOR xt b"
  by (rule bit_word_eqI) (auto simp: xt_def bit_xor_iff bit_push_bit_iff)

lemma xt_funpow_linear: "(xt ^^ k) (a XOR b) = (xt ^^ k) a XOR (xt ^^ k) b"
  by (induction k) (simp_all add: xt_linear)

lemma xt_funpow_0: "(xt ^^ k) 0 = 0"
  by (induction k) (simp_all add: xt_def)

text \<open>The product, computed the way the decoder does it.\<close>

definition gmul :: "u8 \<Rightarrow> u8 \<Rightarrow> u8" where
  "gmul a b = (if a = 0 \<or> b = 0 then 0 else g_exp (g_log a + g_log b))"

definition ginv :: "u8 \<Rightarrow> u8" where
  "ginv a = (if a = 0 then 0 else g_exp (255 - g_log a))"

lemma gmul_funpow: "a \<noteq> 0 \<Longrightarrow> gmul a b = (xt ^^ g_log a) b"
proof (cases "b = 0")
  case False
  assume a: "a \<noteq> 0"
  have "g_log a + g_log b < 768" using g_log_lt [of a] g_log_lt [of b] by simp
  then have "gmul a b = (xt ^^ g_log a) ((xt ^^ g_log b) 1)"
    using a False by (simp add: gmul_def g_exp_power funpow_add)
  moreover have "(xt ^^ g_log b) 1 = b"
    using g_exp_power [of "g_log b"] g_exp_log [OF False] by simp
  ultimately show ?thesis by simp
qed (simp add: gmul_def xt_funpow_0)

lemma gmul_xor: "gmul a (b XOR c) = gmul a b XOR gmul a c"
  by (cases "a = 0") (simp_all add: gmul_def [of 0] gmul_funpow xt_funpow_linear)

lemma gmul_commute: "gmul a b = gmul b a"
  by (simp add: gmul_def add.commute)

lemma gmul_nonzero: "a \<noteq> 0 \<Longrightarrow> b \<noteq> 0 \<Longrightarrow> gmul a b \<noteq> 0 \<and> g_log (gmul a b) = (g_log a + g_log b) mod 255"
  using g_log_lt [of a] g_log_lt [of b] by (simp add: gmul_def g_exp_nonzero g_log_exp_mod)

lemma gmul_assoc: "gmul (gmul a b) c = gmul a (gmul b c)"
proof (cases "a = 0 \<or> b = 0 \<or> c = 0")
  case False
  then have n: "a \<noteq> 0" "b \<noteq> 0" "c \<noteq> 0" by auto
  show ?thesis
  proof (rule g_log_inj)
    show "g_log (gmul (gmul a b) c) = g_log (gmul a (gmul b c))"
      using n by (simp add: gmul_nonzero mod_simps add.assoc)
  qed (use n in \<open>simp_all add: gmul_nonzero\<close>)
qed (auto simp: gmul_def)

lemma gmul_1: "gmul 1 a = a"
  using g_exp_log [of a] by (simp add: gmul_def)

lemma ginv_mult: "a \<noteq> 0 \<Longrightarrow> gmul (ginv a) a = 1"
proof -
  assume a: "a \<noteq> 0"
  have l: "g_log a < 255" by (rule g_log_lt)
  then have "ginv a \<noteq> 0" "g_log (ginv a) = (255 - g_log a) mod 255"
    using a by (simp_all add: ginv_def g_exp_nonzero g_log_exp_mod)
  then have "g_log (gmul (ginv a) a) = 0" "gmul (ginv a) a \<noteq> 0"
    using a l gmul_nonzero [of "ginv a" a] by (simp_all add: mod_simps)
  then show ?thesis using g_log_inj [of "gmul (ginv a) a" 1] by simp
qed

typedef gf256 = "UNIV :: u8 set" morphisms raw gf ..

setup_lifting type_definition_gf256

instantiation gf256 :: field
begin

lift_definition zero_gf256 :: gf256 is 0 .
lift_definition one_gf256 :: gf256 is 1 .
lift_definition plus_gf256 :: "gf256 \<Rightarrow> gf256 \<Rightarrow> gf256" is "(XOR)" .
lift_definition minus_gf256 :: "gf256 \<Rightarrow> gf256 \<Rightarrow> gf256" is "(XOR)" .
lift_definition uminus_gf256 :: "gf256 \<Rightarrow> gf256" is "\<lambda>x. x" .
lift_definition times_gf256 :: "gf256 \<Rightarrow> gf256 \<Rightarrow> gf256" is gmul .
lift_definition inverse_gf256 :: "gf256 \<Rightarrow> gf256" is ginv .
definition divide_gf256 :: "gf256 \<Rightarrow> gf256 \<Rightarrow> gf256" where "divide_gf256 a b = a * inverse b"

instance
proof
  fix a b c :: gf256
  show "a * b * c = a * (b * c)" by transfer (rule gmul_assoc)
  show "a * b = b * a" by transfer (rule gmul_commute)
  show "1 * a = a" by transfer (rule gmul_1)
  show "a + b + c = a + (b + c)" by transfer (rule xor.assoc)
  show "a + b = b + a" by transfer (rule xor.commute)
  show "0 + a = a" by transfer simp
  show "- a + a = 0" by transfer simp
  show "a - b = a + - b" by transfer simp
  show "(a + b) * c = a * c + b * c" by transfer (metis gmul_commute gmul_xor)
  show "(0::gf256) \<noteq> 1" by transfer simp
  show "a \<noteq> 0 \<Longrightarrow> inverse a * a = 1" by transfer (rule ginv_mult)
  show "a div b = a * inverse b" by (rule divide_gf256_def)
  show "inverse (0::gf256) = 0" by transfer (simp add: ginv_def)
qed

end

lemma gf_xor: "gf (a XOR b) = gf a + gf b"
  by (simp add: plus_gf256.abs_eq)

lemma gf_0 [simp]: "gf 0 = 0"
  by (simp add: zero_gf256.abs_eq)

lemma gf_1 [simp]: "gf 1 = 1"
  by (simp add: one_gf256.abs_eq)

lemma gf_eq_iff [simp]: "gf a = gf b \<longleftrightarrow> a = b"
  by (simp add: gf_inject)

lemma gf_eq_0_iff [simp]: "gf a = 0 \<longleftrightarrow> a = 0"
  using gf_eq_iff [of a 0] by (simp del: gf_eq_iff)

lemma gf_eq_1_iff [simp]: "gf a = 1 \<longleftrightarrow> a = 1"
  using gf_eq_iff [of a 1] by (simp del: gf_eq_iff)

lemma gf_add_self [simp]: "x + x = (0 :: gf256)"
  by transfer simp

lemma gf_add_self_left [simp]: "x + (x + y) = (y :: gf256)"
  by (simp flip: add.assoc)

lemma gf_add_eq_0_iff: "x + y = 0 \<longleftrightarrow> x = (y :: gf256)"
  by (metis add.right_neutral gf_add_self gf_add_self_left)

text \<open>The table lookups of the decoder are products, powers and quotients.\<close>

lemma gf_exp_power: "k < 768 \<Longrightarrow> gf (g_exp k) = gf 2 ^ k"
proof (induction k)
  case (Suc k)
  have two: "gmul 2 a = xt a" for a
  proof -
    have "g_log (2::u8) = 1" by (simp add: g_log_def t_log_def)
    then show ?thesis using gmul_funpow [of 2 a] by simp
  qed
  have "gf (g_exp (Suc k)) = gf 2 * gf (g_exp k)"
    using Suc.prems by (simp add: g_exp_Suc times_gf256.abs_eq two)
  with Suc show ?case by simp
qed simp

lemma gf_log: "a \<noteq> 0 \<Longrightarrow> gf 2 ^ g_log a = gf a"
  using gf_exp_power [of "g_log a"] g_exp_log [of a] by simp

lemma gf_exp_log_mult: "a \<noteq> 0 \<Longrightarrow> b \<noteq> 0 \<Longrightarrow> gf (g_exp (g_log a + g_log b)) = gf a * gf b"
  by (simp add: times_gf256.abs_eq gmul_def)

lemma gf_exp_log_power: "a \<noteq> 0 \<Longrightarrow> k < 513 \<Longrightarrow> gf (g_exp (g_log a + k)) = gf a * gf 2 ^ k"
  using g_log_lt [of a] by (simp add: gf_exp_power power_add gf_log)

lemma gf_2_255: "gf 2 ^ 255 = 1"
  using gf_exp_power [of 255] by simp

lemma gf_exp_log_inverse: "a \<noteq> 0 \<Longrightarrow> gf (g_exp (255 - g_log a)) = inverse (gf a)"
  by (simp add: inverse_gf256.abs_eq ginv_def)

lemma gf_exp_log_divide:
  assumes "a \<noteq> 0" "b \<noteq> 0"
  shows "gf (g_exp (g_log a + (255 - g_log b))) = gf a / gf b"
  using gf_exp_log_power [OF assms(1), of "255 - g_log b"] gf_exp_log_inverse [OF assms(2)]
    gf_exp_power [of "255 - g_log b"]
  by (simp add: divide_inverse)

end
