(* ===== verification/Rs.thy ===== *)
theory Rs
  imports GF256
begin

text \<open>
  The Reed-Solomon product code of \<open>rs.c\<close>, with which the magneto-optical disk controller
  protects a sector. 32 rows of 32 bytes are extended to 36 rows of 36 bytes; each row and
  each of the first 32 columns is a code word of a (36,32) code with generator polynomial
  \<open>(x-1)*(x-2)*(x-4)*(x-8)\<close>, whose first byte is the coefficient of the highest power.
  A sector is a list of bytes; a row or a column is a \<open>string\<close> given by its offset and the
  distance of its bytes. The positions the functions access are \<open>off + step * k\<close> for
  \<open>k < 36\<close>, within the 1296 bytes that the callers pass; indices into the tables of \<open>GF256\<close>
  are sums of logarithms, below the table's size.
\<close>

section \<open>Encoding\<close>

definition t_rem :: "u32 list" where
  "t_rem = [
     0x00000000, 0x0f367840, 0x1e6cf080, 0x115a88c0, 0x3cd8fd1d, 0x33ee855d, 0x22b40d9d, 0x2d8275dd,
     0x78ade73a, 0x779b9f7a, 0x66c117ba, 0x69f76ffa, 0x44751a27, 0x4b436267, 0x5a19eaa7, 0x552f92e7,
     0xf047d374, 0xff71ab34, 0xee2b23f4, 0xe11d5bb4, 0xcc9f2e69, 0xc3a95629, 0xd2f3dee9, 0xddc5a6a9,
     0x88ea344e, 0x87dc4c0e, 0x9686c4ce, 0x99b0bc8e, 0xb432c953, 0xbb04b113, 0xaa5e39d3, 0xa5684193,
     0xfd8ebbe8, 0xf2b8c3a8, 0xe3e24b68, 0xecd43328, 0xc15646f5, 0xce603eb5, 0xdf3ab675, 0xd00cce35,
     0x85235cd2, 0x8a152492, 0x9b4fac52, 0x9479d412, 0xb9fba1cf, 0xb6cdd98f, 0xa797514f, 0xa8a1290f,
     0x0dc9689c, 0x02ff10dc, 0x13a5981c, 0x1c93e05c, 0x31119581, 0x3e27edc1, 0x2f7d6501, 0x204b1d41,
     0x75648fa6, 0x7a52f7e6, 0x6b087f26, 0x643e0766, 0x49bc72bb, 0x468a0afb, 0x57d0823b, 0x58e6fa7b,
     0xe7016bcd, 0xe837138d, 0xf96d9b4d, 0xf65be30d, 0xdbd996d0, 0xd4efee90, 0xc5b56650, 0xca831e10,
     0x9fac8cf7, 0x909af4b7, 0x81c07c77, 0x8ef60437, 0xa37471ea, 0xac4209aa, 0xbd18816a, 0xb22ef92a,
     0x1746b8b9, 0x1870c0f9, 0x092a4839, 0x061c3079, 0x2b9e45a4, 0x24a83de4, 0x35f2b524, 0x3ac4cd64,
     0x6feb5f83, 0x60dd27c3, 0x7187af03, 0x7eb1d743, 0x5333a29e, 0x5c05dade, 0x4d5f521e, 0x42692a5e,
     0x1a8fd025, 0x15b9a865, 0x04e320a5, 0x0bd558e5, 0x26572d38, 0x29615578, 0x383bddb8, 0x370da5f8,
     0x6222371f, 0x6d144f5f, 0x7c4ec79f, 0x7378bfdf, 0x5efaca02, 0x51ccb242, 0x40963a82, 0x4fa042c2,
     0xeac80351, 0xe5fe7b11, 0xf4a4f3d1, 0xfb928b91, 0xd610fe4c, 0xd926860c, 0xc87c0ecc, 0xc74a768c,
     0x9265e46b, 0x9d539c2b, 0x8c0914eb, 0x833f6cab, 0xaebd1976, 0xa18b6136, 0xb0d1e9f6, 0xbfe791b6,
     0xd302d687, 0xdc34aec7, 0xcd6e2607, 0xc2585e47, 0xefda2b9a, 0xe0ec53da, 0xf1b6db1a, 0xfe80a35a,
     0xabaf31bd, 0xa49949fd, 0xb5c3c13d, 0xbaf5b97d, 0x9777cca0, 0x9841b4e0, 0x891b3c20, 0x862d4460,
     0x234505f3, 0x2c737db3, 0x3d29f573, 0x321f8d33, 0x1f9df8ee, 0x10ab80ae, 0x01f1086e, 0x0ec7702e,
     0x5be8e2c9, 0x54de9a89, 0x45841249, 0x4ab26a09, 0x67301fd4, 0x68066794, 0x795cef54, 0x766a9714,
     0x2e8c6d6f, 0x21ba152f, 0x30e09def, 0x3fd6e5af, 0x12549072, 0x1d62e832, 0x0c3860f2, 0x030e18b2,
     0x56218a55, 0x5917f215, 0x484d7ad5, 0x477b0295, 0x6af97748, 0x65cf0f08, 0x749587c8, 0x7ba3ff88,
     0xdecbbe1b, 0xd1fdc65b, 0xc0a74e9b, 0xcf9136db, 0xe2134306, 0xed253b46, 0xfc7fb386, 0xf349cbc6,
     0xa6665921, 0xa9502161, 0xb80aa9a1, 0xb73cd1e1, 0x9abea43c, 0x9588dc7c, 0x84d254bc, 0x8be42cfc,
     0x3403bd4a, 0x3b35c50a, 0x2a6f4dca, 0x2559358a, 0x08db4057, 0x07ed3817, 0x16b7b0d7, 0x1981c897,
     0x4cae5a70, 0x43982230, 0x52c2aaf0, 0x5df4d2b0, 0x7076a76d, 0x7f40df2d, 0x6e1a57ed, 0x612c2fad,
     0xc4446e3e, 0xcb72167e, 0xda289ebe, 0xd51ee6fe, 0xf89c9323, 0xf7aaeb63, 0xe6f063a3, 0xe9c61be3,
     0xbce98904, 0xb3dff144, 0xa2857984, 0xadb301c4, 0x80317419, 0x8f070c59, 0x9e5d8499, 0x916bfcd9,
     0xc98d06a2, 0xc6bb7ee2, 0xd7e1f622, 0xd8d78e62, 0xf555fbbf, 0xfa6383ff, 0xeb390b3f, 0xe40f737f,
     0xb120e198, 0xbe1699d8, 0xaf4c1118, 0xa07a6958, 0x8df81c85, 0x82ce64c5, 0x9394ec05, 0x9ca29445,
     0x39cad5d6, 0x36fcad96, 0x27a62556, 0x28905d16, 0x051228cb, 0x0a24508b, 0x1b7ed84b, 0x1448a00b,
     0x416732ec, 0x4e514aac, 0x5f0bc26c, 0x503dba2c, 0x7dbfcff1, 0x7289b7b1, 0x63d33f71, 0x6ce54731]"

definition ecc_block :: "u8 list \<Rightarrow> nat \<Rightarrow> nat \<Rightarrow> u32" where
  "ecc_block s off ss = foldl
     (\<lambda>r i. let r1 = (t_rem ! unat (drop_bit 24 r)) XOR push_bit 8 r
            in if i < 32 then r1 XOR ucast (s ! (off + i * ss)) else r1)
     (push_bit 24 (ucast (s ! off)) OR push_bit 16 (ucast (s ! (off + ss)))
        OR push_bit 8 (ucast (s ! (off + 2 * ss))) OR ucast (s ! (off + 3 * ss)))
     [4..<36]"

definition rs_encode_string :: "nat \<Rightarrow> nat \<Rightarrow> u8 list \<Rightarrow> u8 list" where
  "rs_encode_string off step sector = (
     let ecc = ecc_block sector off step
     in sector[off + 32 * step := ucast (drop_bit 24 ecc), off + 33 * step := ucast (drop_bit 16 ecc),
               off + 34 * step := ucast (drop_bit 8 ecc), off + 35 * step := ucast ecc])"

text \<open>\<open>memmove (sector + dst, sector + src, n)\<close>.\<close>

definition memmove_in :: "nat \<Rightarrow> nat \<Rightarrow> nat \<Rightarrow> u8 list \<Rightarrow> u8 list" where
  "memmove_in dst src n sector = take dst sector @ take n (drop src sector) @ drop (dst + n) sector"

definition rs_encode :: "u8 list \<Rightarrow> u8 list" where
  "rs_encode sector = (
     let s1 = foldl (\<lambda>s i. memmove_in (36 * i) (32 * i) 32 s) sector (rev [1..<32]);
         s2 = foldl (\<lambda>s i. rs_encode_string i 36 s) s1 [0..<32]
     in foldl (\<lambda>s i. rs_encode_string (36 * i) 1 s) s2 [0..<36])"

section \<open>Decoding\<close>

text \<open>The parity bytes stored in the string.\<close>

definition ref_ecc :: "u8 list \<Rightarrow> nat \<Rightarrow> nat \<Rightarrow> u32" where
  "ref_ecc sector off step =
     push_bit 24 (ucast (sector ! (off + 32 * step))) OR push_bit 16 (ucast (sector ! (off + 33 * step)))
       OR push_bit 8 (ucast (sector ! (off + 34 * step))) OR ucast (sector ! (off + 35 * step))"

text \<open>The syndromes: element \<open>i\<close> is the value of the polynomial at \<open>2 ^ (i - 1)\<close>.\<close>

definition syndrome :: "u8 list \<Rightarrow> nat \<Rightarrow> nat \<Rightarrow> u8 list" where
  "syndrome sector off step = foldl
     (\<lambda>syn i. let v = sector ! (off + step * (35 - i)); lv = g_log v in
        if v \<noteq> 0 then
          syn[1 := syn ! 1 XOR v, 2 := syn ! 2 XOR g_exp (lv + i),
              3 := syn ! 3 XOR g_exp (lv + 2 * i), 4 := syn ! 4 XOR g_exp (lv + 3 * i)]
        else syn)
     [1, 0, 0, 0, 0] [0..<36]"

text \<open>The variables of the Berlekamp-Massey algorithm.\<close>

record bm_state =
  sigma :: "u8 list"
  omega :: "u8 list"
  tau :: "u8 list"
  gamma :: "u8 list"
  bm_d :: int
  bm_b :: bool

definition bm_delta :: "nat \<Rightarrow> u8 list \<Rightarrow> u8 list \<Rightarrow> u8" where
  "bm_delta l sg syn = foldl
     (\<lambda>delta i. if sg ! i \<noteq> 0 \<and> syn ! (l - i) \<noteq> 0
                then delta XOR g_exp (g_log (sg ! i) + g_log (syn ! (l - i))) else delta)
     0 [0..<l + 1]"

text \<open>The conditional product \<open>if (t) x ^= t_exp[t_log[t] + ld]\<close>.\<close>

definition xor_prod :: "u8 \<Rightarrow> u8 \<Rightarrow> nat \<Rightarrow> u8" where
  "xor_prod x t ld = (if t \<noteq> 0 then x XOR g_exp (g_log t + ld) else x)"

definition bm_method_a :: "nat \<Rightarrow> u8 \<Rightarrow> bm_state \<Rightarrow> bm_state" where
  "bm_method_a l delta st = (
     let (ta, ga) = foldl (\<lambda>(ta, ga) i. (ta[l - i := ta ! (l - i - 1)], ga[l - i := ga ! (l - i - 1)]))
                      (tau st, gamma st) [0..<l];
         ta = ta[0 := 0]; ga = ga[0 := 0];
         ldelta = g_log delta;
         (sg, om) = (if delta \<noteq> 0 then
            foldl (\<lambda>(sg, om) i. (sg[i := xor_prod (sg ! i) (ta ! i) ldelta],
                                 om[i := xor_prod (om ! i) (ga ! i) ldelta]))
              (sigma st, omega st) [1..<l + 1]
          else (sigma st, omega st))
     in st\<lparr>sigma := sg, omega := om, tau := ta, gamma := ga\<rparr>)"

definition bm_method_b :: "nat \<Rightarrow> u8 \<Rightarrow> bm_state \<Rightarrow> bm_state" where
  "bm_method_b l delta st = (
     let ldelta = g_log delta;
         ildelta = unat ((of_nat ldelta :: u8) XOR 255);
         st1 = foldl (\<lambda>st i.
           st\<lparr>sigma := (sigma st)[i := xor_prod (sigma st ! i) (tau st ! (i - 1)) ldelta],
              omega := (omega st)[i := xor_prod (omega st ! i) (gamma st ! (i - 1)) ldelta],
              tau := (tau st)[i - 1 := if sigma st ! (i - 1) \<noteq> 0
                       then g_exp (g_log (sigma st ! (i - 1)) + ildelta) else 0],
              gamma := (gamma st)[i - 1 := if omega st ! (i - 1) \<noteq> 0
                       then g_exp (g_log (omega st ! (i - 1)) + ildelta) else 0]\<rparr>) st (rev [1..<l + 1])
     in st1\<lparr>bm_d := int l - bm_d st, bm_b := \<not> bm_b st\<rparr>)"

definition bm_step :: "u8 list \<Rightarrow> bm_state \<Rightarrow> nat \<Rightarrow> bm_state" where
  "bm_step syn st l = (
     let delta = bm_delta l (sigma st) syn;
         limit = int ((l + 1) div 2)
     in if delta = 0 \<or> bm_d st > limit \<or> (bm_d st = limit \<and> odd l \<and> \<not> bm_b st)
        then bm_method_a l delta st else bm_method_b l delta st)"

definition berlekamp_massey :: "u8 list \<Rightarrow> bm_state" where
  "berlekamp_massey syn = foldl (bm_step syn)
     \<lparr>sigma = [1, 0, 0, 0, 0], omega = [1, 0, 0, 0, 0], tau = [1, 0, 0, 0, 0],
      gamma = [0, 0, 0, 0, 0], bm_d = 0, bm_b = False\<rparr> [1..<5]"

text \<open>The search for the first root of \<open>sigma\<close>; 256 is the value of the counter after the loop.\<close>

definition find_root :: "u8 list \<Rightarrow> nat" where
  "find_root sg = (
     let ls1 = g_log (sg ! 1); ls2 = g_log (sg ! 2) in
     case find (\<lambda>epos1. (sg ! 0 XOR (if sg ! 1 \<noteq> 0 then g_exp (255 - epos1 + ls1) else 0))
                          XOR g_exp (2 * (255 - epos1) + ls2) = 0) [0..<256] of
       Some epos1 \<Rightarrow> epos1
     | None \<Rightarrow> 256)"

text \<open>
  The value of the error at position \<open>epos\<close> when the other one is at \<open>other\<close>. The logarithm
  is kept in a variable of type \<open>uint8_t\<close>, so the sum with the position is taken modulo 256.
\<close>

definition error_value :: "u8 list \<Rightarrow> nat \<Rightarrow> nat \<Rightarrow> u8" where
  "error_value om epos other = (
     let e0 = om ! 0;
         e1 = (if om ! 1 \<noteq> 0 then e0 XOR g_exp (g_log (om ! 1) + 255 - epos) else e0);
         e2 = (if om ! 2 \<noteq> 0 then e1 XOR g_exp (g_log (om ! 2) + 2 * (255 - epos)) else e1);
         err = (of_nat (g_log e2) :: u8) + of_nat epos;
         dv = g_log (1 XOR g_exp (255 + other - epos))
     in g_exp (255 + unat err - dv))"

definition rs_decode_string :: "nat \<Rightarrow> nat \<Rightarrow> u8 list \<Rightarrow> int \<times> u8 list" where
  "rs_decode_string off step sector = (
     if ref_ecc sector off step = ecc_block sector off step then (0, sector)
     else
       let st = berlekamp_massey (syndrome sector off step);
           sg = sigma st; om = omega st
       in if sg ! 3 \<noteq> 0 \<or> sg ! 4 \<noteq> 0 then (-1, sector)
          else if sg ! 2 \<noteq> 0 \<and> sg ! 0 \<noteq> 0 then
            let epos1 = find_root sg in
            if epos1 > 35 then (-1, sector)
            else
              let e2 = int (g_log (sg ! 2)) - int epos1 - int (g_log (sg ! 0));
                  e2 = (if e2 < 0 then e2 + 255 else e2)
              in if e2 > 35 then (-1, sector)
                 else
                   let epos2 = nat e2;
                       err1 = error_value om epos1 epos2; err2 = error_value om epos2 epos1;
                       s1 = sector[off + step * (35 - epos1) := sector ! (off + step * (35 - epos1)) XOR err1];
                       s2 = s1[off + step * (35 - epos2) := s1 ! (off + step * (35 - epos2)) XOR err2]
                   in (2, s2)
          else if sg ! 1 \<noteq> 0 \<and> sg ! 0 \<noteq> 0 then
            let epos = int (g_log (sg ! 1)) - int (g_log (sg ! 0)) in
            if epos > 35 then (-1, sector)
            else
              let pos = off + step * nat (35 - epos)
              in (1, sector[pos := sector ! pos XOR (sg ! 1 XOR om ! 1)])
          else (-1, sector))"

definition decode_rows :: "u8 list \<Rightarrow> int \<times> u8 list" where
  "decode_rows sector = foldl (\<lambda>(ecount, s) i.
     let (e, s') = rs_decode_string (36 * i) 1 s in (if e \<noteq> -1 then ecount + e else ecount, s'))
     (0, sector) [0..<36]"

text \<open>The loop over the columns returns from the function at the first uncorrectable one.\<close>

fun decode_columns :: "nat list \<Rightarrow> int \<Rightarrow> u8 list \<Rightarrow> int option \<times> u8 list" where
  "decode_columns [] ecount sector = (Some ecount, sector)"
| "decode_columns (i # is) ecount sector = (
     let (e, s) = rs_decode_string i 36 sector in
     if e = -1 then (None, s) else decode_columns is (ecount + e) s)"

definition rs_decode :: "u8 list \<Rightarrow> int \<times> u8 list" where
  "rs_decode sector = (
     let (ecount, s1) = decode_rows sector in
     case decode_columns [0..<32] ecount s1 of
       (None, s2) \<Rightarrow> (-1, s2)
     | (Some n, s2) \<Rightarrow> (n, foldl (\<lambda>s i. memmove_in (i * 32) (i * 36) 32 s) s2 [1..<32]))"

section \<open>Code words\<close>

text \<open>A string is a code word when its parity bytes are those of its data bytes.\<close>

definition codeword :: "nat \<Rightarrow> nat \<Rightarrow> u8 list \<Rightarrow> bool" where
  "codeword off step sector \<longleftrightarrow> ref_ecc sector off step = ecc_block sector off step"

definition byte :: "nat \<Rightarrow> u32 \<Rightarrow> u8" where
  "byte k r = ucast (drop_bit (8 * k) r)"

text \<open>The value at \<open>z\<close> of the polynomial whose coefficients are the bytes of \<open>r\<close>.\<close>

definition ev :: "gf256 \<Rightarrow> u32 \<Rightarrow> gf256" where
  "ev z r = gf (byte 3 r) * z ^ 3 + gf (byte 2 r) * z ^ 2 + gf (byte 1 r) * z + gf (byte 0 r)"

lemma byte_xor: "byte k (a XOR b) = byte k a XOR byte k b"
  by (rule bit_word_eqI) (simp add: byte_def bit_ucast_iff bit_drop_bit_eq bit_xor_iff)

lemma ev_xor: "ev z (a XOR b) = ev z a + ev z b"
  by (simp add: ev_def byte_xor gf_xor algebra_simps)

lemma byte_shift: "byte (Suc k) (push_bit 8 r) = (if k < 3 then byte k r else 0)" "byte 0 (push_bit 8 r) = 0"
  by (rule bit_word_eqI; auto simp: byte_def bit_ucast_iff bit_drop_bit_eq bit_push_bit_iff)+

lemma ev_shift: "ev z (push_bit 8 r) + gf (byte 3 r) * z ^ 4 = z * ev z r"
proof -
  have "byte 3 (push_bit 8 r) = byte 2 r" "byte 2 (push_bit 8 r) = byte 1 r" "byte 1 (push_bit 8 r) = byte 0 r"
    using byte_shift(1) [of 2 r] byte_shift(1) [of 1 r] byte_shift(1) [of 0 r] by (simp_all add: numeral_eq_Suc)
  then show ?thesis
    by (simp add: ev_def byte_shift algebra_simps power_numeral_reduce)
qed

lemma byte_ucast: "byte k (ucast v) = (if k = 0 then v else 0)"
  by (rule bit_word_eqI) (auto simp: byte_def bit_ucast_iff bit_drop_bit_eq dest: bit_imp_le_length)

lemma ev_ucast: "ev z (ucast v) = gf v"
  by (simp add: ev_def byte_ucast)

definition pack :: "u8 \<Rightarrow> u8 \<Rightarrow> u8 \<Rightarrow> u8 \<Rightarrow> u32" where
  "pack a b c d = push_bit 24 (ucast a) OR push_bit 16 (ucast b) OR push_bit 8 (ucast c) OR ucast d"

lemma byte_pack:
  "byte 3 (pack a b c d) = a" "byte 2 (pack a b c d) = b" "byte 1 (pack a b c d) = c" "byte 0 (pack a b c d) = d"
  by (rule bit_word_eqI; force simp: byte_def pack_def bit_ucast_iff bit_drop_bit_eq bit_push_bit_iff bit_or_iff
      dest: bit_imp_le_length)+

lemma ev_pack: "ev z (pack a b c d) = gf a * z ^ 3 + gf b * z ^ 2 + gf c * z + gf d"
  using byte_pack(3) [of a b c d] by (simp add: ev_def byte_pack)

lemma pack_bytes: "pack (byte 3 r) (byte 2 r) (byte 1 r) (byte 0 r) = r"
proof (rule bit_word_eqI)
  fix n assume "n < LENGTH(32)"
  then consider "n < 8" | "8 \<le> n" "n < 16" | "16 \<le> n" "n < 24" | "24 \<le> n" "n < 32" by force
  then show "bit (pack (byte 3 r) (byte 2 r) (byte 1 r) (byte 0 r)) n = bit r n"
    by cases (auto simp: byte_def pack_def bit_ucast_iff bit_drop_bit_eq bit_push_bit_iff bit_or_iff)
qed

text \<open>The roots of the generator polynomial.\<close>

definition root :: "nat \<Rightarrow> gf256" where
  "root j = gf 2 ^ j"

lemma gf_xt_funpow: "gf ((xt ^^ k) a) = gf 2 ^ k * gf a"
proof (induction k)
  case (Suc k)
  have "g_log (2::u8) = 1" by (simp add: g_log_def t_log_def)
  then have "gf (xt a) = gf 2 * gf a" for a
    using gmul_funpow [of 2 a] by (simp add: times_gf256.abs_eq)
  with Suc show ?case by (simp add: algebra_simps)
qed simp

lemma t_rem_length [simp]: "length t_rem = 256"
  by (simp add: t_rem_def)

text \<open>
  The table of remainders is linear: it is generated by its entries at the powers of two.
\<close>

fun lin_table :: "(u8 \<times> u32) list \<Rightarrow> (u8 \<times> u32) list" where
  "lin_table [] = [(0, 0)]"
| "lin_table (b # bs) = (let t = lin_table bs in t @ map (\<lambda>x. (fst b XOR fst x, snd b XOR snd x)) t)"

lemma lin_table_ev:
  assumes "\<forall>(a, r) \<in> set bs. ev z r = gf a * c"
  shows "\<forall>(a, r) \<in> set (lin_table bs). ev z r = gf a * c"
  using assms
proof (induction bs)
  case Nil
  then show ?case by (simp add: ev_def byte_def)
next
  case (Cons b bs)
  then show ?case by (auto simp: Let_def ev_xor gf_xor algebra_simps)
qed

definition rem_basis :: "(u8 \<times> u32) list" where
  "rem_basis = [(0x80, 0xd302d687), (0x40, 0xe7016bcd), (0x20, 0xfd8ebbe8), (0x10, 0xf047d374),
     (0x08, 0x78ade73a), (0x04, 0x3cd8fd1d), (0x02, 0x1e6cf080), (0x01, 0x0f367840)]"

lemma t_rem_lin_table: "zip (map word_of_int [0..255]) t_rem = lin_table rem_basis"
  unfolding t_rem_def rem_basis_def by code_simp

fun xts :: "nat \<Rightarrow> u8 \<Rightarrow> u8" where
  "xts 0 a = a"
| "xts (Suc k) a = xts k (xt a)"

lemma gf_xts: "gf (xts k a) = gf a * gf 2 ^ k"
proof (induction k arbitrary: a)
  case (Suc k)
  have "gf (xt a) = gf 2 * gf a" for a
    using gf_xt_funpow [of 1 a] by simp
  with Suc show ?case by (simp add: algebra_simps)
qed simp

definition ev_raw :: "nat \<Rightarrow> u32 \<Rightarrow> u8" where
  "ev_raw j r = xts j (xts j (xts j (byte 3 r) XOR byte 2 r) XOR byte 1 r) XOR byte 0 r"

fun basis_ok :: "nat \<Rightarrow> (u8 \<times> u32) list \<Rightarrow> bool" where
  "basis_ok j [] \<longleftrightarrow> True"
| "basis_ok j ((a, r) # bs) \<longleftrightarrow> ev_raw j r = xts (4 * j) a \<and> basis_ok j bs"

lemma basis_okD: "basis_ok j bs \<Longrightarrow> (a, r) \<in> set bs \<Longrightarrow> ev_raw j r = xts (4 * j) a"
  by (induction j bs rule: basis_ok.induct) auto

lemma rem_basis_roots: "basis_ok 0 rem_basis" "basis_ok 1 rem_basis" "basis_ok 2 rem_basis" "basis_ok 3 rem_basis"
  unfolding rem_basis_def by code_simp+

lemma ev_raw: "gf (ev_raw j r) = ev (root j) r"
  by (simp add: ev_raw_def ev_def root_def gf_xor gf_xts algebra_simps power2_eq_square power3_eq_cube)

lemma ev_t_rem:
  assumes "j < 4"
  shows "ev (root j) (t_rem ! unat a) = gf a * root j ^ 4"
proof -
  have j: "basis_ok j rem_basis"
    using assms rem_basis_roots by (auto simp: less_Suc_eq numeral_eq_Suc)
  have "\<forall>(a, r) \<in> set rem_basis. ev (root j) r = gf a * root j ^ 4"
  proof (clarify)
    fix a r assume "(a, r) \<in> set rem_basis"
    then have "ev_raw j r = xts (4 * j) a"
      using basis_okD [OF j] by blast
    then show "ev (root j) r = gf a * root j ^ 4"
      by (simp flip: ev_raw add: gf_xts) (simp add: root_def power_mult mult.commute [of 4])
  qed
  from lin_table_ev [OF this] have all: "\<forall>(a, r) \<in> set (zip (map word_of_int [0..255]) t_rem). ev (root j) r = gf a * root j ^ 4"
    by (simp add: t_rem_lin_table)
  have lt: "unat a < 256" using unsigned_less [of a, where ?'a = nat] by simp
  then have "(map word_of_int [0..255] ! unat a, t_rem ! unat a) \<in> set (zip (map word_of_int [0..255]) t_rem)"
    by (auto simp: set_zip intro!: exI [of _ "unat a"])
  moreover have "map word_of_int [0..255] ! unat a = a"
  proof -
    have "int (unat a) \<le> 255" using lt by linarith
    then have "[0..255] ! unat a = int (unat a)" using nth_upto [of 0 "unat a" 255] by presburger
    with lt show ?thesis by simp
  qed
  ultimately show ?thesis using all by fastforce
qed

text \<open>The value at \<open>z\<close> of the polynomial of a string, and of its first \<open>n\<close> bytes.\<close>

fun horner :: "gf256 \<Rightarrow> (nat \<Rightarrow> u8) \<Rightarrow> nat \<Rightarrow> gf256" where
  "horner z f 0 = 0"
| "horner z f (Suc n) = z * horner z f n + gf (f n)"

lemma horner_sum: "horner z f n = (\<Sum>i<n. gf (f i) * z ^ (n - Suc i))"
proof (induction n)
  case (Suc n)
  have eq: "z * (gf (f i) * z ^ (n - Suc i)) = gf (f i) * z ^ (n - i)" if "i < n" for i
    using that by (simp add: Suc_diff_Suc mult.left_commute flip: power_Suc)
  have "z * (\<Sum>i<n. gf (f i) * z ^ (n - Suc i)) = (\<Sum>i<n. gf (f i) * z ^ (n - i))"
    unfolding sum_distrib_left by (intro sum.cong refl eq) simp
  with Suc show ?case by simp
qed simp

definition string :: "nat \<Rightarrow> nat \<Rightarrow> u8 list \<Rightarrow> nat \<Rightarrow> u8" where
  "string off step sector k = sector ! (off + k * step)"

definition value_at :: "nat \<Rightarrow> nat \<Rightarrow> u8 list \<Rightarrow> gf256 \<Rightarrow> gf256" where
  "value_at off step sector z = (\<Sum>i<36. gf (sector ! (off + step * (35 - i))) * z ^ i)"

lemma value_at_horner: "value_at off step sector z = horner z (string off step sector) 36"
proof -
  have "value_at off step sector z
      = (\<Sum>i<36. gf (sector ! (off + step * (35 - (36 - Suc i)))) * z ^ (36 - Suc i))"
    unfolding value_at_def by (rule sum.nat_diff_reindex [symmetric])
  also have "\<dots> = (\<Sum>i<36. gf (string off step sector i) * z ^ (36 - Suc i))"
    by (rule sum.cong) (auto simp: string_def mult.commute)
  finally show ?thesis by (simp add: horner_sum)
qed

definition ecc_step :: "(nat \<Rightarrow> u8) \<Rightarrow> u32 \<Rightarrow> nat \<Rightarrow> u32" where
  "ecc_step f r i = (let r1 = (t_rem ! unat (drop_bit 24 r)) XOR push_bit 8 r
     in if i < 32 then r1 XOR ucast (f i) else r1)"

lemma ev_ecc_step:
  assumes "j < 4"
  shows "ev (root j) (ecc_step f r i) = root j * ev (root j) r + (if i < 32 then gf (f i) else 0)"
proof -
  have "unat r < 2 ^ 32" using unsigned_less [of r, where ?'a = nat] by simp
  then have "unat (drop_bit 24 r) = unat (byte 3 r)"
    by (simp add: byte_def unsigned_ucast_eq unsigned_drop_bit_eq take_bit_nat_eq_self drop_bit_nat_def)
  then have "ev (root j) ((t_rem ! unat (drop_bit 24 r)) XOR push_bit 8 r) = root j * ev (root j) r"
    using assms by (simp add: ev_xor ev_t_rem flip: ev_shift)
  then show ?thesis
    by (simp add: ecc_step_def Let_def ev_xor ev_ucast)
qed

lemma ecc_block_fold:
  "ecc_block s off ss = foldl (ecc_step (string off ss s))
     (pack (string off ss s 0) (string off ss s 1) (string off ss s 2) (string off ss s 3)) [4..<36]"
  unfolding ecc_block_def ecc_step_def [abs_def] pack_def string_def by (simp del: upt_rec_numeral)

lemma ref_ecc_pack:
  "ref_ecc s off ss = pack (string off ss s 32) (string off ss s 33) (string off ss s 34) (string off ss s 35)"
  by (simp add: ref_ecc_def pack_def string_def)

lemma ev_ecc_data:
  assumes "j < 4" "4 \<le> n" "n \<le> 32"
  shows "ev (root j) (foldl (ecc_step f) (pack (f 0) (f 1) (f 2) (f 3)) [4..<n]) = horner (root j) f n"
  using assms(2,3)
proof (induction n rule: dec_induct)
  case base
  show ?case by (simp add: ev_pack numeral_eq_Suc algebra_simps)
next
  case (step n)
  then show ?case by (simp add: ev_ecc_step [OF assms(1)])
qed

lemma ev_ecc_block:
  assumes "j < 4"
  shows "ev (root j) (ecc_block s off ss) = root j ^ 4 * horner (root j) (string off ss s) 32"
proof -
  let ?f = "string off ss s"
  let ?r = "foldl (ecc_step ?f) (pack (?f 0) (?f 1) (?f 2) (?f 3)) [4..<32]"
  have "[4..<36] = [4..<32] @ [32, 33, 34, 35]" by simp
  then have "ecc_block s off ss = foldl (ecc_step ?f) ?r [32, 33, 34, 35]"
    by (simp only: ecc_block_fold foldl_append)
  moreover have "ev (root j) ?r = horner (root j) ?f 32"
    using assms by (intro ev_ecc_data) auto
  ultimately show ?thesis
    by (simp add: ev_ecc_step [OF assms] power_numeral_reduce mult.assoc del: upt_rec_numeral)
qed

lemma horner_36: "horner z f 36 = z ^ 4 * horner z f 32 + ev z (pack (f 32) (f 33) (f 34) (f 35))"
proof -
  have "horner z f 36 = horner z f (Suc (Suc (Suc (Suc 32))))" by simp
  then show ?thesis by (simp only: horner.simps) (simp add: ev_pack power_numeral_reduce algebra_simps)
qed

text \<open>A code word has the four roots; the check of the parity bytes is the check of all four.\<close>

lemma codeword_value:
  assumes "codeword off step s" "j < 4"
  shows "value_at off step s (root j) = 0"
  using assms
  by (simp add: value_at_horner horner_36 codeword_def ev_ecc_block [symmetric] flip: ref_ecc_pack)

section \<open>Syndromes\<close>

lemma syndrome_prefix:
  assumes "n \<le> 36"
  shows "\<exists>a b c d. foldl
     (\<lambda>syn i. let v = f i; lv = g_log v in
        if v \<noteq> 0 then
          syn[1 := syn ! 1 XOR v, 2 := syn ! 2 XOR g_exp (lv + i),
              3 := syn ! 3 XOR g_exp (lv + 2 * i), 4 := syn ! 4 XOR g_exp (lv + 3 * i)]
        else syn)
     [1, 0, 0, 0, 0] [0..<n] = [1, a, b, c, d]
   \<and> gf a = (\<Sum>i<n. gf (f i) * root 0 ^ i) \<and> gf b = (\<Sum>i<n. gf (f i) * root 1 ^ i)
   \<and> gf c = (\<Sum>i<n. gf (f i) * root 2 ^ i) \<and> gf d = (\<Sum>i<n. gf (f i) * root 3 ^ i)"
  using assms
proof (induction n)
  case (Suc n)
  then have n: "n < 36" by simp
  from Suc obtain a b c d where IH: "foldl
     (\<lambda>syn i. let v = f i; lv = g_log v in
        if v \<noteq> 0 then
          syn[1 := syn ! 1 XOR v, 2 := syn ! 2 XOR g_exp (lv + i),
              3 := syn ! 3 XOR g_exp (lv + 2 * i), 4 := syn ! 4 XOR g_exp (lv + 3 * i)]
        else syn)
     [1, 0, 0, 0, 0] [0..<n] = [1, a, b, c, d]"
    and v: "gf a = (\<Sum>i<n. gf (f i) * root 0 ^ i)" "gf b = (\<Sum>i<n. gf (f i) * root 1 ^ i)"
      "gf c = (\<Sum>i<n. gf (f i) * root 2 ^ i)" "gf d = (\<Sum>i<n. gf (f i) * root 3 ^ i)"
    by auto
  have e: "gf (g_exp (g_log x + k * n)) = gf x * (gf 2 ^ k) ^ n" if "x \<noteq> 0" "k < 4" for x k
  proof -
    have "k * n \<le> 3 * n" using that(2) by (intro mult_right_mono) auto
    with n have "k * n < 513" by linarith
    with that(1) show ?thesis by (simp add: gf_exp_log_power power_mult)
  qed
  show ?case
  proof (cases "f n = 0")
    case True
    with IH v show ?thesis by simp
  next
    case False
    with IH v show ?thesis
      using e [OF False, of 1] e [OF False, of 2] e [OF False, of 3]
      by (simp add: Let_def gf_xor root_def numeral_eq_Suc)
  qed
qed simp

lemma syndrome_values:
  obtains a b c d where "syndrome s off step = [1, a, b, c, d]"
    "gf a = value_at off step s (root 0)" "gf b = value_at off step s (root 1)"
    "gf c = value_at off step s (root 2)" "gf d = value_at off step s (root 3)"
  using syndrome_prefix [of 36 "\<lambda>i. s ! (off + step * (35 - i))"]
  unfolding syndrome_def value_at_def by blast

section \<open>The Berlekamp-Massey steps for one error\<close>

lemma gf_xor_prod: "d \<noteq> 0 \<Longrightarrow> gf (xor_prod x t (g_log d)) = gf x + gf t * gf d"
  by (simp add: xor_prod_def gf_xor gf_exp_log_mult)

lemma gf_bm_delta: "gf (bm_delta l sg syn) = (\<Sum>i<l + 1. gf (sg ! i) * gf (syn ! (l - i)))"
proof -
  have "gf (foldl (\<lambda>delta i. if sg ! i \<noteq> 0 \<and> syn ! (l - i) \<noteq> 0
                then delta XOR g_exp (g_log (sg ! i) + g_log (syn ! (l - i))) else delta) 0 [0..<n])
      = (\<Sum>i<n. gf (sg ! i) * gf (syn ! (l - i)))" for n
    by (induction n) (auto simp: gf_xor gf_exp_log_mult)
  then show ?thesis by (simp only: bm_delta_def)
qed

lemma ildelta: "unat ((of_nat (g_log d) :: u8) XOR 255) = 255 - g_log d"
proof -
  have "\<forall>k < 255. unat ((of_nat k :: u8) XOR 255) = 255 - k" by code_simp
  then show ?thesis using g_log_lt by blast
qed

text \<open>A step with discrepancy 0 leaves \<open>sigma\<close> and \<open>omega\<close> alone.\<close>

lemma bm_step_0:
  assumes "bm_delta l (sigma st) syn = 0"
  shows "sigma (bm_step syn st l) = sigma st \<and> omega (bm_step syn st l) = omega st"
  using assms by (simp add: bm_step_def bm_method_a_def Let_def case_prod_beta)

lemma bm_first_step:
  assumes "a \<noteq> 0"
  shows "bm_step [1, a, b, c, d] \<lparr>sigma = [1, 0, 0, 0, 0], omega = [1, 0, 0, 0, 0], tau = [1, 0, 0, 0, 0],
      gamma = [0, 0, 0, 0, 0], bm_d = 0, bm_b = False\<rparr> 1
   = \<lparr>sigma = [1, a, 0, 0, 0], omega = [1, 0, 0, 0, 0], tau = [ginv a, 0, 0, 0, 0],
      gamma = [ginv a, 0, 0, 0, 0], bm_d = 1, bm_b = True\<rparr>"
proof -
  have "bm_delta 1 [1, 0, 0, 0, 0] [1, a, b, c, d] = a"
    using assms by (simp add: bm_delta_def g_exp_log)
  with assms show ?thesis
    by (simp add: bm_step_def bm_method_b_def Let_def xor_prod_def g_exp_log ildelta ginv_def)
qed

lemma rev_upt_3: "rev [Suc 0..<3] = [2, Suc 0]"
  by code_simp

lemma bm_second_step:
  assumes a: "a \<noteq> 0" and b: "gf b = A * gf a"
  shows "\<exists>x y ta ga d2 b2. bm_step [1, a, b, c, d] \<lparr>sigma = [1, a, 0, 0, 0], omega = [1, 0, 0, 0, 0],
      tau = [ginv a, 0, 0, 0, 0], gamma = [ginv a, 0, 0, 0, 0], bm_d = 1, bm_b = True\<rparr> 2
    = \<lparr>sigma = [1, x, 0, 0, 0], omega = [1, y, 0, 0, 0], tau = ta, gamma = ga, bm_d = d2, bm_b = b2\<rparr>
    \<and> gf x = A \<and> gf y = A + gf a"
proof -
  let ?st = "\<lparr>sigma = [1, a, 0, 0, 0], omega = [1, 0, 0, 0, 0],
      tau = [ginv a, 0, 0, 0, 0], gamma = [ginv a, 0, 0, 0, 0], bm_d = 1, bm_b = True\<rparr>"
  let ?dl = "bm_delta 2 [1, a, 0, 0, 0] [1, a, b, c, d]"
  have dl: "gf ?dl = gf a * (A + gf a)"
    by (simp add: gf_bm_delta b numeral_eq_Suc algebra_simps)
  have inv: "gf (ginv a) = inverse (gf a)" by (simp add: inverse_gf256.abs_eq)
  show ?thesis
  proof (cases "?dl = 0")
    case True
    then have "A = gf a" using dl a by (simp add: gf_add_eq_0_iff)
    moreover have "\<exists>ta ga d2 b2. bm_step [1, a, b, c, d] ?st 2
      = \<lparr>sigma = [1, a, 0, 0, 0], omega = [1, 0, 0, 0, 0], tau = ta, gamma = ga, bm_d = d2, bm_b = b2\<rparr>"
      using True by (auto simp: bm_step_def bm_method_a_def Let_def case_prod_beta)
    ultimately show ?thesis by force
  next
    case False
    have "\<exists>ta ga d2 b2. bm_step [1, a, b, c, d] ?st 2
      = \<lparr>sigma = [1, xor_prod a (ginv a) (g_log ?dl), 0, 0, 0],
         omega = [1, xor_prod 0 (ginv a) (g_log ?dl), 0, 0, 0], tau = ta, gamma = ga, bm_d = d2, bm_b = b2\<rparr>"
      using False rev_upt_3 by (auto simp: bm_step_def bm_method_b_def Let_def xor_prod_def [of _ 0])
    moreover have cancel: "inverse (gf a) * (gf a * t) = t" for t
      using a by (simp flip: mult.assoc)
    moreover have "gf (xor_prod 0 (ginv a) (g_log ?dl)) = A + gf a"
      using False by (simp add: gf_xor_prod dl inv cancel)
    moreover have "gf (xor_prod a (ginv a) (g_log ?dl)) = A"
      using False by (simp add: gf_xor_prod dl inv cancel add.left_commute)
    ultimately show ?thesis by blast
  qed
qed

lemma bm_single_error:
  assumes a: "a \<noteq> 0" and b: "gf b = A * gf a" and c: "gf c = A * gf b" and d: "gf d = A * gf c"
  shows "\<exists>x y. sigma (berlekamp_massey [1, a, b, c, d]) = [1, x, 0, 0, 0]
    \<and> omega (berlekamp_massey [1, a, b, c, d]) = [1, y, 0, 0, 0] \<and> gf x = A \<and> x XOR y = a"
proof -
  let ?syn = "[1, a, b, c, d]"
  obtain x y ta ga d2 b2 where 2: "bm_step ?syn \<lparr>sigma = [1, a, 0, 0, 0], omega = [1, 0, 0, 0, 0],
      tau = [ginv a, 0, 0, 0, 0], gamma = [ginv a, 0, 0, 0, 0], bm_d = 1, bm_b = True\<rparr> 2
    = \<lparr>sigma = [1, x, 0, 0, 0], omega = [1, y, 0, 0, 0], tau = ta, gamma = ga, bm_d = d2, bm_b = b2\<rparr>"
    and xy: "gf x = A" "gf y = A + gf a"
    using bm_second_step [OF a b] by blast
  let ?st = "\<lparr>sigma = [1, x, 0, 0, 0], omega = [1, y, 0, 0, 0], tau = ta, gamma = ga, bm_d = d2, bm_b = b2\<rparr>"
  have "gf (bm_delta 3 [1, x, 0, 0, 0] ?syn) = 0"
    by (simp add: gf_bm_delta xy c numeral_eq_Suc)
  then have 3: "sigma (bm_step ?syn ?st 3) = [1, x, 0, 0, 0]" "omega (bm_step ?syn ?st 3) = [1, y, 0, 0, 0]"
    using bm_step_0 [of 3 ?st ?syn] by simp_all
  have "gf (bm_delta 4 [1, x, 0, 0, 0] ?syn) = 0"
    by (simp add: gf_bm_delta xy d numeral_eq_Suc)
  then have 4: "sigma (bm_step ?syn (bm_step ?syn ?st 3) 4) = [1, x, 0, 0, 0]"
    "omega (bm_step ?syn (bm_step ?syn ?st 3) 4) = [1, y, 0, 0, 0]"
    using bm_step_0 [of 4 "bm_step ?syn ?st 3" ?syn] 3 by simp_all
  have "[1..<5] = [1, 2, 3, 4::nat]" by code_simp
  then have "berlekamp_massey ?syn = bm_step ?syn (bm_step ?syn ?st 3) 4"
    by (simp add: berlekamp_massey_def bm_first_step [OF a, unfolded One_nat_def] 2 del: upt_rec_numeral)
  moreover have "x XOR y = a" using xy by (simp add: gf_xor flip: gf_eq_iff)
  ultimately show ?thesis using 4 xy by auto
qed

section \<open>Correcting one error\<close>

lemma gf_root_power: "root j ^ k = (gf 2 ^ k) ^ j"
  by (simp add: root_def mult.commute flip: power_mult)

lemma value_at_error:
  assumes "p < 36" "0 < step" "off + 35 * step < length s"
  shows "value_at off step (s[off + p * step := s ! (off + p * step) XOR e]) z
    = value_at off step s z + gf e * z ^ (35 - p)"
proof -
  let ?s = "s[off + p * step := s ! (off + p * step) XOR e]"
  have len: "off + p * step < length s"
    using assms mult_le_mono1 [of p 35 step] by linarith
  have "gf (?s ! (off + step * (35 - i))) * z ^ i
      = gf (s ! (off + step * (35 - i))) * z ^ i + (if i = 35 - p then gf e * z ^ (35 - p) else 0)" if "i < 36" for i
  proof (cases "i = 35 - p")
    case True
    then have pos: "off + step * (35 - i) = off + p * step" using assms(1) by (simp add: mult.commute)
    show ?thesis unfolding pos using True len by (simp add: gf_xor distrib_right)
  next
    case False
    then have "35 - i \<noteq> p" using that by auto
    then have "off + step * (35 - i) \<noteq> off + p * step" using assms(2) by (simp add: mult.commute [of p])
    with False show ?thesis by simp
  qed
  then have "value_at off step ?s z = (\<Sum>i<36. gf (s ! (off + step * (35 - i))) * z ^ i
      + (if i = 35 - p then gf e * z ^ (35 - p) else 0))"
    unfolding value_at_def by (intro sum.cong) auto
  moreover have "35 - p < 36" by linarith
  ultimately show ?thesis
    by (simp add: value_at_def sum.distrib)
qed

text \<open>A string with one wrong byte is repaired, whichever byte it is and however it is changed.\<close>

lemma rs_decode_string_single:
  assumes cw: "codeword off step s" and p: "p < 36" and e: "e \<noteq> 0"
    and "0 < step" "off + 35 * step < length s"
  shows "rs_decode_string off step (s[off + p * step := s ! (off + p * step) XOR e]) = (1, s)"
proof -
  let ?s = "s[off + p * step := s ! (off + p * step) XOR e]"
  define k where "k = 35 - p"
  define A where "A = gf 2 ^ k"
  have val: "value_at off step ?s (root j) = gf e * A ^ j" if "j < 4" for j
    using value_at_error [OF p assms(4,5)] codeword_value [OF cw that] by (simp add: gf_root_power A_def k_def)
  obtain a b c d where syn: "syndrome ?s off step = [1, a, b, c, d]"
    and abcd: "gf a = gf e" "gf b = gf e * A" "gf c = gf e * A ^ 2" "gf d = gf e * A ^ 3"
    by (rule syndrome_values [of ?s off step]) (simp add: val)
  have ecc: "ref_ecc ?s off step \<noteq> ecc_block ?s off step"
    using codeword_value [of off step ?s 0] val [of 0] e by (auto simp: codeword_def)
  obtain x y where bm: "sigma (berlekamp_massey [1, a, b, c, d]) = [1, x, 0, 0, 0]"
      "omega (berlekamp_massey [1, a, b, c, d]) = [1, y, 0, 0, 0]" and xy: "gf x = A" "x XOR y = a"
    using bm_single_error [of a b A c d] e abcd
    by (auto simp: power2_eq_square power3_eq_cube ac_simps)
  have "k < 255" by (simp add: k_def)
  moreover from this have "x = g_exp k"
    using xy(1) by (simp add: A_def flip: gf_exp_power)
  ultimately have x: "x \<noteq> 0" "g_log x = k" using g_log_exp [of k] by auto
  have pos: "off + p * step < length s"
    using p assms(5) mult_le_mono1 [of p 35 step] by linarith
  have "nat (35 - int k) = p" "k \<le> 35" using p by (auto simp: k_def)
  moreover have "x XOR y = e" using xy(2) abcd(1) by simp
  ultimately show ?thesis
    using ecc x pos by (simp add: rs_decode_string_def syn Let_def bm mult.commute [of step] xor.assoc)
qed

lemma rs_decode_string_codeword: "codeword off step s \<Longrightarrow> rs_decode_string off step s = (0, s)"
  by (simp add: rs_decode_string_def codeword_def)

section \<open>Encoding a string\<close>

lemma codeword_cong:
  assumes "\<And>k. k < 36 \<Longrightarrow> string off step s k = string off' step' s' k"
  shows "codeword off step s = codeword off' step' s'"
proof -
  have "foldl (ecc_step (string off step s)) r [4..<36] = foldl (ecc_step (string off' step' s')) r [4..<36]" for r
    by (rule foldl_cong) (auto simp: ecc_step_def assms)
  then show ?thesis
    using assms by (simp add: codeword_def ref_ecc_pack ecc_block_fold del: upt_rec_numeral)
qed

lemma ecc_block_cong:
  assumes "\<And>k. k < 32 \<Longrightarrow> string off step s k = string off step s' k"
  shows "ecc_block s off step = ecc_block s' off step"
proof -
  have "foldl (ecc_step (string off step s)) r [4..<36] = foldl (ecc_step (string off step s')) r [4..<36]" for r
    by (rule foldl_cong) (auto simp: ecc_step_def assms)
  then show ?thesis
    using assms by (simp add: ecc_block_fold del: upt_rec_numeral)
qed

lemma rs_encode_string_length [simp]: "length (rs_encode_string off step s) = length s"
  by (simp add: rs_encode_string_def Let_def)

lemma rs_encode_string_other:
  assumes "\<And>k. 32 \<le> k \<Longrightarrow> k < 36 \<Longrightarrow> j \<noteq> off + k * step"
  shows "rs_encode_string off step s ! j = s ! j"
  using assms [of 32] assms [of 33] assms [of 34] assms [of 35] by (simp add: rs_encode_string_def Let_def)

lemma rs_encode_string_codeword:
  assumes "0 < step" "off + 35 * step < length s"
  shows "codeword off step (rs_encode_string off step s)"
proof -
  let ?s = "rs_encode_string off step s" and ?r = "ecc_block s off step"
  have "ecc_block ?s off step = ?r"
    using assms(1) by (intro ecc_block_cong) (auto simp: string_def intro!: rs_encode_string_other)
  moreover have "ref_ecc ?s off step = pack (byte 3 ?r) (byte 2 ?r) (byte 1 ?r) (byte 0 ?r)"
    using assms by (simp add: ref_ecc_pack string_def rs_encode_string_def Let_def byte_def)
  ultimately show ?thesis unfolding codeword_def by (simp only: pack_bytes)
qed

section \<open>Encoding a sector\<close>

lemma memmove_in_length [simp]: "src + n \<le> length s \<Longrightarrow> dst + n \<le> length s \<Longrightarrow> length (memmove_in dst src n s) = length s"
  by (simp add: memmove_in_def)

lemma memmove_in_nth:
  "src + n \<le> length s \<Longrightarrow> dst + n \<le> length s \<Longrightarrow> k < length s \<Longrightarrow>
   memmove_in dst src n s ! k = (if dst \<le> k \<and> k < dst + n then s ! (src + (k - dst)) else s ! k)"
proof -
  assume "src + n \<le> length s" "dst + n \<le> length s" "k < length s"
  then have "length (take n (drop src s)) = n" "length (take dst s) = dst" by simp_all
  then show ?thesis
    using \<open>src + n \<le> length s\<close> \<open>dst + n \<le> length s\<close> unfolding memmove_in_def
    by (cases "k < dst"; cases "k < dst + n") (auto simp: nth_append)
qed

lemma grid_eq: "c < 36 \<Longrightarrow> c' < 36 \<Longrightarrow> 36 * r + c = 36 * r' + c' \<longleftrightarrow> r = r' \<and> c = (c' :: nat)"
proof (intro iffI conjI)
  assume c: "c < 36" "c' < 36" and eq: "36 * r + c = 36 * r' + c'"
  have "(36 * r + c) div 36 = r" "(36 * r' + c') div 36 = r'" using c by simp_all
  with eq show "r = r'" by simp
  with eq show "c = c'" by simp
qed simp

lemma encode_spread:
  assumes "length s = 1296" "m \<le> 31"
  defines "t \<equiv> foldl (\<lambda>s i. memmove_in (36 * i) (32 * i) 32 s) s (rev [Suc m..<32])"
  shows "length t = 1296 \<and> (\<forall>k < 36 * Suc m. t ! k = s ! k)
    \<and> (\<forall>r c. m < r \<longrightarrow> r < 32 \<longrightarrow> c < 32 \<longrightarrow> t ! (36 * r + c) = s ! (32 * r + c))"
  using assms(2) unfolding t_def
proof (induction "31 - m" arbitrary: m)
  case 0
  then have "m = 31" by simp
  then show ?case by (simp add: assms(1))
next
  case (Suc n)
  let ?t = "foldl (\<lambda>s i. memmove_in (36 * i) (32 * i) 32 s) s (rev [Suc (Suc m)..<32])"
  have m: "m < 31" using Suc.hyps(2) by linarith
  then have IH: "length ?t = 1296" "\<forall>k < 36 * Suc (Suc m). ?t ! k = s ! k"
     "\<forall>r c. Suc m < r \<longrightarrow> r < 32 \<longrightarrow> c < 32 \<longrightarrow> ?t ! (36 * r + c) = s ! (32 * r + c)"
    using Suc.hyps(1) [of "Suc m"] Suc.hyps(2) by auto
  have "[Suc m..<32] = Suc m # [Suc (Suc m)..<32]" using m by (simp add: upt_conv_Cons)
  then have step: "foldl (\<lambda>s i. memmove_in (36 * i) (32 * i) 32 s) s (rev [Suc m..<32])
      = memmove_in (36 * Suc m) (32 * Suc m) 32 ?t" by simp
  have nth: "memmove_in (36 * Suc m) (32 * Suc m) 32 ?t ! k
      = (if 36 * Suc m \<le> k \<and> k < 36 * Suc m + 32 then ?t ! (32 * Suc m + (k - 36 * Suc m)) else ?t ! k)"
    if "k < 1296" for k
    using that m IH(1) by (intro memmove_in_nth) auto
  have "memmove_in (36 * Suc m) (32 * Suc m) 32 ?t ! (36 * r + c) = s ! (32 * r + c)"
    if "m < r" "r < 32" "c < 32" for r c
  proof (cases "r = Suc m")
    case True
    then show ?thesis using that IH(2) by (subst nth) auto
  next
    case False
    with that have "Suc m < r" by simp
    then show ?thesis using that IH(3) by (subst nth) auto
  qed
  moreover have "memmove_in (36 * Suc m) (32 * Suc m) 32 ?t ! k = s ! k" if "k < 36 * Suc m" for k
    using that m IH(2) by (subst nth) auto
  moreover have "length (memmove_in (36 * Suc m) (32 * Suc m) 32 ?t) = 1296"
    using IH(1) m by simp
  ultimately show ?case unfolding step by blast
qed

text \<open>Encoding the columns, then the rows: the columns stay code words.\<close>

lemma encode_columns:
  assumes "length s = 1296" "m \<le> 32"
  defines "t \<equiv> foldl (\<lambda>s i. rs_encode_string i 36 s) s [0..<m]"
  shows "length t = 1296 \<and> (\<forall>r c. r < 32 \<longrightarrow> c < 36 \<longrightarrow> t ! (36 * r + c) = s ! (36 * r + c))
    \<and> (\<forall>i < m. codeword i 36 t)"
  using assms(2) unfolding t_def
proof (induction m)
  case (Suc m)
  let ?t = "foldl (\<lambda>s i. rs_encode_string i 36 s) s [0..<m]"
  from Suc have IH: "length ?t = 1296" "\<forall>r c. r < 32 \<longrightarrow> c < 36 \<longrightarrow> ?t ! (36 * r + c) = s ! (36 * r + c)"
    "\<forall>i < m. codeword i 36 ?t" and m: "m < 32" by auto
  have "codeword i 36 (rs_encode_string m 36 ?t)" if "i < Suc m" for i
  proof (cases "i = m")
    case True
    then show ?thesis using IH(1) m by (simp add: rs_encode_string_codeword)
  next
    case False
    with that have "i < m" by simp
    have "codeword i 36 (rs_encode_string m 36 ?t) = codeword i 36 ?t"
      by (rule codeword_cong, unfold string_def, rule rs_encode_string_other)
        (use \<open>i < m\<close> m grid_eq [of i m] in \<open>simp add: ac_simps\<close>)
    then show ?thesis using IH(3) \<open>i < m\<close> by simp
  qed
  moreover have "rs_encode_string m 36 ?t ! (36 * r + c) = ?t ! (36 * r + c)" if "r < 32" "c < 36" for r c
    by (rule rs_encode_string_other) (use that m grid_eq [of c m r] in \<open>auto simp: ac_simps\<close>)
  ultimately show ?case using IH by simp
qed (simp add: assms(1))

lemma encode_rows:
  assumes "length s = 1296" "m \<le> 36" "\<forall>i < 32. codeword i 36 s"
  defines "t \<equiv> foldl (\<lambda>s i. rs_encode_string (36 * i) 1 s) s [0..<m]"
  shows "length t = 1296 \<and> (\<forall>r c. r < 36 \<longrightarrow> c < 32 \<longrightarrow> t ! (36 * r + c) = s ! (36 * r + c))
    \<and> (\<forall>i < m. codeword (36 * i) 1 t) \<and> (\<forall>i < 32. codeword i 36 t)"
  using assms(2) unfolding t_def
proof (induction m)
  case (Suc m)
  let ?t = "foldl (\<lambda>s i. rs_encode_string (36 * i) 1 s) s [0..<m]"
  from Suc have IH: "length ?t = 1296" "\<forall>r c. r < 36 \<longrightarrow> c < 32 \<longrightarrow> ?t ! (36 * r + c) = s ! (36 * r + c)"
    "\<forall>i < m. codeword (36 * i) 1 ?t" "\<forall>i < 32. codeword i 36 ?t" and m: "m < 36" by auto
  have "codeword (36 * i) 1 (rs_encode_string (36 * m) 1 ?t)" if "i < Suc m" for i
  proof (cases "i = m")
    case True
    then show ?thesis using IH(1) m by (simp add: rs_encode_string_codeword)
  next
    case False
    with that have "i < m" by simp
    have "codeword (36 * i) 1 (rs_encode_string (36 * m) 1 ?t) = codeword (36 * i) 1 ?t"
      by (rule codeword_cong, unfold string_def, rule rs_encode_string_other)
        (use \<open>i < m\<close> grid_eq [where r = i and r' = m] in simp)
    then show ?thesis using IH(3) \<open>i < m\<close> by simp
  qed
  moreover have "codeword i 36 (rs_encode_string (36 * m) 1 ?t)" if "i < 32" for i
  proof -
    have "codeword i 36 (rs_encode_string (36 * m) 1 ?t) = codeword i 36 ?t"
      by (rule codeword_cong, unfold string_def, rule rs_encode_string_other)
        (use that grid_eq [of i] in \<open>auto simp: ac_simps\<close>)
    then show ?thesis using IH(4) that by simp
  qed
  moreover have "rs_encode_string (36 * m) 1 ?t ! (36 * r + c) = ?t ! (36 * r + c)" if "r < 36" "c < 32" for r c
    by (rule rs_encode_string_other) (use that grid_eq [of c _ r m] in auto)
  ultimately show ?case using IH by simp
qed (simp add: assms(1,3))

lemma rs_encode_product_code:
  assumes "length s = 1296"
  shows "length (rs_encode s) = 1296" "i < 36 \<Longrightarrow> codeword (36 * i) 1 (rs_encode s)"
    "i < 32 \<Longrightarrow> codeword i 36 (rs_encode s)"
    "r < 32 \<Longrightarrow> c < 32 \<Longrightarrow> rs_encode s ! (36 * r + c) = s ! (32 * r + c)"
proof -
  let ?s1 = "foldl (\<lambda>s i. memmove_in (36 * i) (32 * i) 32 s) s (rev [1..<32])"
  let ?s2 = "foldl (\<lambda>s i. rs_encode_string i 36 s) ?s1 [0..<32]"
  have enc: "rs_encode s = foldl (\<lambda>s i. rs_encode_string (36 * i) 1 s) ?s2 [0..<36]"
    by (simp add: rs_encode_def Let_def del: upt_rec_numeral)
  note 1 = encode_spread [OF assms, of 0, folded One_nat_def]
  note 2 = encode_columns [of ?s1 32] and 3 = encode_rows [of ?s2 36]
  show "length (rs_encode s) = 1296" "i < 36 \<Longrightarrow> codeword (36 * i) 1 (rs_encode s)"
    "i < 32 \<Longrightarrow> codeword i 36 (rs_encode s)"
    unfolding enc using 1 2 3 by blast+
  have "?s1 ! (36 * r + c) = s ! (32 * r + c)" if "r < 32" "c < 32" for r c
    using 1 that by (cases "r = 0") auto
  moreover have "?s2 ! (36 * r + c) = ?s1 ! (36 * r + c)" if "r < 32" "c < 32" for r c
    using 1 2 that by (simp del: upt_rec_numeral)
  moreover have "rs_encode s ! (36 * r + c) = ?s2 ! (36 * r + c)" if "r < 32" "c < 32" for r c
    unfolding enc using 1 2 3 that by (simp del: upt_rec_numeral)
  ultimately show "r < 32 \<Longrightarrow> c < 32 \<Longrightarrow> rs_encode s ! (36 * r + c) = s ! (32 * r + c)"
    by presburger
qed

section \<open>Decoding a sector\<close>

text \<open>The bytes in which two sectors differ.\<close>

definition damage :: "u8 list \<Rightarrow> u8 list \<Rightarrow> nat set" where
  "damage t w = {k. k < length w \<and> t ! k \<noteq> w ! k}"

text \<open>At most one damaged byte in each of the 36 rows.\<close>

definition one_per_row :: "u8 list \<Rightarrow> u8 list \<Rightarrow> bool" where
  "one_per_row t w \<longleftrightarrow> (\<forall>r < 36. \<forall>c < 36. \<forall>c' < 36.
     t ! (36 * r + c) \<noteq> w ! (36 * r + c) \<and> t ! (36 * r + c') \<noteq> w ! (36 * r + c') \<longrightarrow> c = c')"

lemma decode_row:
  assumes "length u = 1296" "r < 36" "codeword (36 * r) 1 w"
    and "\<And>c c'. c < 36 \<Longrightarrow> c' < 36 \<Longrightarrow> u ! (36 * r + c) \<noteq> w ! (36 * r + c)
          \<Longrightarrow> u ! (36 * r + c') \<noteq> w ! (36 * r + c') \<Longrightarrow> c = c'"
  defines "bad \<equiv> {c. c < 36 \<and> u ! (36 * r + c) \<noteq> w ! (36 * r + c)}"
  shows "\<exists>v. rs_decode_string (36 * r) 1 u = (int (card bad), v) \<and> length v = 1296
    \<and> (\<forall>c < 36. v ! (36 * r + c) = w ! (36 * r + c))
    \<and> (\<forall>k. k < 36 * r \<or> 36 * r + 36 \<le> k \<longrightarrow> v ! k = u ! k)"
proof (cases "bad = {}")
  case True
  then have same: "u ! (36 * r + c) = w ! (36 * r + c)" if "c < 36" for c using that by (auto simp: bad_def)
  then have "codeword (36 * r) 1 u = codeword (36 * r) 1 w"
    by (intro codeword_cong) (simp add: string_def)
  with True same assms show ?thesis by (simp add: rs_decode_string_codeword)
next
  case False
  then obtain c where c: "c < 36" "u ! (36 * r + c) \<noteq> w ! (36 * r + c)" by (auto simp: bad_def)
  then have bad: "bad = {c}" using assms(4) by (auto simp: bad_def)
  let ?v = "u[36 * r + c := w ! (36 * r + c)]" and ?e = "u ! (36 * r + c) XOR w ! (36 * r + c)"
  have v: "?v ! (36 * r + k) = w ! (36 * r + k)" if "k < 36" for k
  proof (cases "k = c")
    case True
    then show ?thesis using that assms(1,2) by simp
  next
    case False
    then show ?thesis using that bad by (auto simp: bad_def)
  qed
  then have "codeword (36 * r) 1 ?v = codeword (36 * r) 1 w"
    by (intro codeword_cong) (simp add: string_def)
  moreover have mend: "w ! (36 * r + c) XOR ?e = u ! (36 * r + c)"
    by (rule bit_word_eqI) (auto simp: bit_xor_iff)
  moreover have "?e \<noteq> 0" using c(2) mend by force
  ultimately have "rs_decode_string (36 * r) 1 (?v[36 * r + c * 1 := ?v ! (36 * r + c * 1) XOR ?e]) = (1, ?v)"
    using assms(1-3) c(1) by (intro rs_decode_string_single) auto
  moreover have "?v[36 * r + c * 1 := ?v ! (36 * r + c * 1) XOR ?e] = u"
    using assms(1,2) c(1) mend by simp
  ultimately have "rs_decode_string (36 * r) 1 u = (int (card bad), ?v)"
    using bad by simp
  then show ?thesis using assms(1) v c(1) by auto
qed

lemma decode_rows_prefix:
  assumes len: "length t = 1296" "length w = 1296" and cw: "\<forall>r < 36. codeword (36 * r) 1 w"
    and one: "one_per_row t w" and m: "m \<le> 36"
  shows "\<exists>u. foldl (\<lambda>(ecount, s) i. let (e, s') = rs_decode_string (36 * i) 1 s
                in (if e \<noteq> -1 then ecount + e else ecount, s')) (0, t) [0..<m]
       = (int (card (damage t w \<inter> {..<36 * m})), u)
    \<and> length u = 1296 \<and> (\<forall>k < 36 * m. u ! k = w ! k) \<and> (\<forall>k. 36 * m \<le> k \<longrightarrow> u ! k = t ! k)"
  using m
proof (induction m)
  case 0
  then show ?case using len by simp
next
  case (Suc m)
  then obtain u where u: "foldl (\<lambda>(ecount, s) i. let (e, s') = rs_decode_string (36 * i) 1 s
                in (if e \<noteq> -1 then ecount + e else ecount, s')) (0, t) [0..<m]
       = (int (card (damage t w \<inter> {..<36 * m})), u)"
    "length u = 1296" "\<forall>k < 36 * m. u ! k = w ! k" "\<forall>k. 36 * m \<le> k \<longrightarrow> u ! k = t ! k" by auto
  let ?bad = "{c. c < 36 \<and> u ! (36 * m + c) \<noteq> w ! (36 * m + c)}"
  have m: "m < 36" using Suc.prems by simp
  have "c = c'" if "c < 36" "c' < 36" "u ! (36 * m + c) \<noteq> w ! (36 * m + c)" "u ! (36 * m + c') \<noteq> w ! (36 * m + c')" for c c'
    using one m that u(4) le_add1 unfolding one_per_row_def by metis
  from decode_row [OF u(2) m _ this] obtain v where v: "rs_decode_string (36 * m) 1 u = (int (card ?bad), v)" "length v = 1296"
    "\<forall>c < 36. v ! (36 * m + c) = w ! (36 * m + c)" "\<forall>k. k < 36 * m \<or> 36 * m + 36 \<le> k \<longrightarrow> v ! k = u ! k"
    using cw m by blast
  have "damage t w \<inter> {..<36 * Suc m} = (damage t w \<inter> {..<36 * m}) \<union> (\<lambda>c. 36 * m + c) ` ?bad" (is "?L = ?A \<union> ?B")
  proof (intro set_eqI iffI)
    fix k assume k: "k \<in> ?L"
    show "k \<in> ?A \<union> ?B"
    proof (cases "k < 36 * m")
      case False
      then have "k = 36 * m + (k - 36 * m)" "k - 36 * m < 36" using k by auto
      then show ?thesis using k u(4) False by (intro UnI2 image_eqI [of _ _ "k - 36 * m"]) (auto simp: damage_def)
    qed (use k in simp)
  qed (use u(4) len Suc.prems in \<open>auto simp: damage_def\<close>)
  moreover have "?A \<inter> ?B = {}" by auto
  ultimately have "card ?L = card ?A + card ?B" by (simp add: card_Un_disjoint)
  moreover have "card ?B = card ?bad" by (intro card_image) (simp add: inj_on_def)
  moreover have "v ! k = w ! k" if "k < 36 * Suc m" for k
  proof (cases "k < 36 * m")
    case False
    then have "k = 36 * m + (k - 36 * m)" "k - 36 * m < 36" using that by auto
    then show ?thesis using v(3) by metis
  qed (use u(3) v(4) in simp)
  ultimately show ?case using u v by simp
qed

lemma decode_columns_codewords:
  "\<forall>i \<in> set is. codeword i 36 s \<Longrightarrow> decode_columns is n s = (Some n, s)"
  by (induction "is" arbitrary: n) (simp_all add: rs_decode_string_codeword)

lemma decode_compact:
  assumes "length s = 1296" "m \<le> 32" "0 < m"
  defines "t \<equiv> foldl (\<lambda>s i. memmove_in (i * 32) (i * 36) 32 s) s [1..<m]"
  shows "length t = 1296 \<and> (\<forall>k. 32 * m \<le> k \<longrightarrow> k < 1296 \<longrightarrow> t ! k = s ! k)
    \<and> (\<forall>r c. r < m \<longrightarrow> c < 32 \<longrightarrow> t ! (32 * r + c) = s ! (36 * r + c))"
  using assms(3,2) unfolding t_def
proof (induction m rule: nat_induct_non_zero)
  case 1
  then show ?case by (simp add: assms(1))
next
  case (Suc m)
  let ?t = "foldl (\<lambda>s i. memmove_in (i * 32) (i * 36) 32 s) s [1..<m]"
  from Suc have IH: "length ?t = 1296" "\<forall>k. 32 * m \<le> k \<longrightarrow> k < 1296 \<longrightarrow> ?t ! k = s ! k"
    "\<forall>r c. r < m \<longrightarrow> c < 32 \<longrightarrow> ?t ! (32 * r + c) = s ! (36 * r + c)" and m: "0 < m" "m < 32" by auto
  have nth: "memmove_in (m * 32) (m * 36) 32 ?t ! k
      = (if m * 32 \<le> k \<and> k < m * 32 + 32 then ?t ! (m * 36 + (k - m * 32)) else ?t ! k)" if "k < 1296" for k
    using that m IH(1) by (intro memmove_in_nth) auto
  have "memmove_in (m * 32) (m * 36) 32 ?t ! (32 * r + c) = s ! (36 * r + c)" if "r < Suc m" "c < 32" for r c
  proof (cases "r = m")
    case True
    then show ?thesis using that m IH(2) by (subst nth) (auto simp: mult.commute)
  next
    case False
    with that have "r < m" by simp
    moreover from this have "32 * r + c < m * 32" using that(2) by linarith
    ultimately show ?thesis using that m IH(3) by (subst nth) auto
  qed
  moreover have "memmove_in (m * 32) (m * 36) 32 ?t ! k = s ! k" if "32 * Suc m \<le> k" "k < 1296" for k
    using that IH(2) by (subst nth) auto
  moreover have "[1..<Suc m] = [1..<m] @ [m]" using m by simp
  ultimately show ?case using IH(1) m by simp
qed

lemma rs_decode_rows:
  assumes "length s = 1296" "length t = 1296" "one_per_row t (rs_encode s)"
  shows "\<exists>d. rs_decode t = (int (card (damage t (rs_encode s))), d) \<and> length d = 1296 \<and> take 1024 d = take 1024 s"
proof -
  let ?w = "rs_encode s"
  let ?d = "foldl (\<lambda>s i. memmove_in (i * 32) (i * 36) 32 s) ?w [1..<32]"
  note enc = rs_encode_product_code [OF assms(1)]
  obtain u where rows: "decode_rows t = (int (card (damage t ?w \<inter> {..<1296})), u)"
    and u: "length u = 1296" "\<forall>k < 1296. u ! k = ?w ! k"
    using decode_rows_prefix [of t ?w 36] assms(2,3) enc by (auto simp: decode_rows_def simp del: upt_rec_numeral)
  have "u = ?w" using u enc(1) by (intro nth_equalityI) auto
  moreover have "damage t ?w \<inter> {..<1296} = damage t ?w" using enc(1) by (auto simp: damage_def)
  moreover have "decode_columns [0..<32] n ?w = (Some n, ?w)" for n
    using enc(3) by (intro decode_columns_codewords) auto
  ultimately have "rs_decode t = (int (card (damage t ?w)), ?d)"
    using rows by (simp add: rs_decode_def del: upt_rec_numeral)
  moreover
  have d: "length ?d = 1296" "\<forall>r c. r < 32 \<longrightarrow> c < 32 \<longrightarrow> ?d ! (32 * r + c) = ?w ! (36 * r + c)"
    using decode_compact [of ?w 32] enc(1) by auto
  have "?d ! k = s ! k" if "k < 1024" for k
  proof -
    have "?d ! (32 * (k div 32) + k mod 32) = ?w ! (36 * (k div 32) + k mod 32)"
      using that by (intro d(2) [rule_format]) auto
    also have "\<dots> = s ! (32 * (k div 32) + k mod 32)"
      using enc(4) [of "k div 32" "k mod 32"] that by simp
    finally show ?thesis by simp
  qed
  then have "take 1024 ?d = take 1024 s"
    using assms(1) d(1) by (intro nth_equalityI) auto
  ultimately show ?thesis using d(1) by simp
qed

text \<open>
  C4. The product code corrects one damaged byte in every row: whatever a 1296 byte buffer
  holds, encode its first 1024 bytes and let up to 36 bytes of the result be changed, at
  most one in each row of the product code. Decoding then returns the number of changed
  bytes, and the first 1024 bytes of the buffer are the original data. (With no change at
  all this is the round trip of encoding and decoding.)
\<close>

theorem rs_decode_corrects_rows:
  assumes "length s = 1296" "length t = 1296" "one_per_row t (rs_encode s)"
  shows "fst (rs_decode t) = int (card (damage t (rs_encode s)))
    \<and> take 1024 (snd (rs_decode t)) = take 1024 s"
  using rs_decode_rows [OF assms] by auto

lemma one_per_row_update: "one_per_row (w[k := v]) w"
proof -
  have "36 * r + c = k" if "w[k := v] ! (36 * r + c) \<noteq> w ! (36 * r + c)" for r c
    using that by (cases "36 * r + c = k") auto
  then show ?thesis unfolding one_per_row_def by (metis add_left_cancel)
qed

theorem rs_decode_corrects_rows_witness:
  "let s = replicate 1296 (7 :: u8); t = (rs_encode s)[100 := 0x55] in
   length s = 1296 \<and> length t = 1296 \<and> one_per_row t (rs_encode s)
   \<and> take 1024 (snd (rs_decode t)) = take 1024 s"
  using rs_decode_corrects_rows [of "replicate 1296 7" "(rs_encode (replicate 1296 7))[100 := 0x55]"]
    rs_encode_product_code(1) [of "replicate 1296 7"] one_per_row_update
  by (simp add: Let_def)

text \<open>The code word of zeros, for the examples with two damaged bytes in one string.\<close>

definition zero_string :: "u8 list" where
  "zero_string = replicate 36 0"

text \<open>
  Two wrong bytes in one string are not always corrected. On the code word of zeros with
  byte 1 changed to 3 and byte 34 changed to 241 the decoder reports 2 corrected errors but
  leaves a wrong byte behind: the sum of the logarithm and the position is reduced modulo
  256 instead of 255. With two bytes changed by the same value (bytes 0 and 28, to 194) it
  gives up.
\<close>

lemma rs_decode_string_double_errors:
  "rs_decode_string 0 1 (zero_string[1 := 3, 34 := 241]) = (2, zero_string[1 := 140])
   \<and> rs_decode_string 0 1 (zero_string[0 := 194, 28 := 194]) = (-1, zero_string[0 := 194, 28 := 194])"
  unfolding zero_string_def by code_simp

end
