(* ===== verification/Mo.thy ===== *)
theory Mo
  imports Rs DmaTransfer
begin

text \<open>
  The optical disk (\<open>mo.c\<close>): the optical storage processor with its registers, the formatter and the
  error correction with its two buffers, and the two drives. Sectors are encoded and decoded
  by \<open>Rs\<close>, moved to and from memory by the disk channel of \<open>Dma\<close>, and stored in image files.
\<close>

section \<open>State\<close>

record osp_regs =
  tracknuml :: u8
  tracknumh :: u8
  sector_num :: u8
  sector_count :: int
  osp_intstatus :: u8
  osp_intmask :: u8
  ctrlr_csr2 :: u8
  ctrlr_csr1 :: u8
  csrl :: u8
  csrh :: u8
  err_stat :: u8
  ecc_cnt :: u8
  osp_init :: u8
  osp_format :: u8
  osp_mark :: u8
  osp_flag :: "u8 list"

record mo_unit =
  drv_status :: u16
  dstat :: u16
  estat :: u16
  hstat :: u16
  drv_head :: u8
  head_pos :: u32
  ho_head_pos :: u32
  sec_offset :: u32
  drv_dsk :: "FILE option"
  spinning :: bool
  spiraling :: bool
  seeking :: bool
  drv_attn :: bool
  drv_complete :: bool
  drv_protected :: bool
  drv_inserted :: bool
  drv_enabled :: bool
  drv_connected :: bool

datatype ECC_MODE = ECC_MODE_READ | ECC_MODE_WRITE | ECC_MODE_VERIFY

datatype ECC_STATE = ECC_STATE_FILLING | ECC_STATE_DRAINING | ECC_STATE_ECCING | ECC_STATE_WAITING | ECC_STATE_DONE

datatype FMT_MODE = FMT_MODE_READ | FMT_MODE_WRITE | FMT_MODE_ERASE | FMT_MODE_VERIFY | FMT_MODE_READ_ID | FMT_MODE_IDLE

record mo = dma +
  osp :: osp_regs
  mo :: "mo_unit list"
  dnum :: nat
  sector_increment :: int
  ecc_mode :: ECC_MODE
  ecc_state :: ECC_STATE
  fmt_mode :: FMT_MODE
  write_timing :: bool
  sector_timer :: int
  ecc_repeat :: bool
  delayed_compl :: bool
  delayed_attn :: bool
  delayed_drive :: int

abbreviation (input) NO_HEAD :: u8 where "NO_HEAD \<equiv> 0"
abbreviation (input) READ_HEAD :: u8 where "READ_HEAD \<equiv> 1"
abbreviation (input) WRITE_HEAD :: u8 where "WRITE_HEAD \<equiv> 2"
abbreviation (input) ERASE_HEAD :: u8 where "ERASE_HEAD \<equiv> 3"
abbreviation (input) VERIFY_HEAD :: u8 where "VERIFY_HEAD \<equiv> 4"
abbreviation (input) RF_HEAD :: u8 where "RF_HEAD \<equiv> 5"
abbreviation (input) MOSEC_NUM_MASK :: u8 where "MOSEC_NUM_MASK \<equiv> 0x0F"
abbreviation (input) MOSEC_INCR_MASK :: u8 where "MOSEC_INCR_MASK \<equiv> 0xF0"
abbreviation (input) MOINT_CMD_COMPL :: u8 where "MOINT_CMD_COMPL \<equiv> 0x01"
abbreviation (input) MOINT_ATTN :: u8 where "MOINT_ATTN \<equiv> 0x02"
abbreviation (input) MOINT_OPER_COMPL :: u8 where "MOINT_OPER_COMPL \<equiv> 0x04"
abbreviation (input) MOINT_ECC_DONE :: u8 where "MOINT_ECC_DONE \<equiv> 0x08"
abbreviation (input) MOINT_TIMEOUT :: u8 where "MOINT_TIMEOUT \<equiv> 0x10"
abbreviation (input) MOINT_DATA_ERR :: u8 where "MOINT_DATA_ERR \<equiv> 0x80"
abbreviation (input) MOINT_RESET :: u8 where "MOINT_RESET \<equiv> 0x01"
abbreviation (input) MOINT_GPO :: u8 where "MOINT_GPO \<equiv> 0x02"
abbreviation (input) MOINT_OSP_MASK :: u8 where "MOINT_OSP_MASK \<equiv> 0xFC"
abbreviation (input) MOCSR2_DRIVE_SEL :: u8 where "MOCSR2_DRIVE_SEL \<equiv> 0x01"
abbreviation (input) MOCSR2_BUF_TOGGLE :: u8 where "MOCSR2_BUF_TOGGLE \<equiv> 0x04"
abbreviation (input) MOCSR2_CLR_BUFP :: u8 where "MOCSR2_CLR_BUFP \<equiv> 0x08"
abbreviation (input) MOCSR2_ECC_BLOCKS :: u8 where "MOCSR2_ECC_BLOCKS \<equiv> 0x10"
abbreviation (input) MOCSR2_ECC_MODE :: u8 where "MOCSR2_ECC_MODE \<equiv> 0x20"
abbreviation (input) MOCSR2_ECC_DIS :: u8 where "MOCSR2_ECC_DIS \<equiv> 0x40"
abbreviation (input) MOCSR2_SECT_TIMER :: u8 where "MOCSR2_SECT_TIMER \<equiv> 0x80"
abbreviation (input) ERRSTAT_ECC :: u8 where "ERRSTAT_ECC \<equiv> 0x01"
abbreviation (input) ERRSTAT_STARVE :: u8 where "ERRSTAT_STARVE \<equiv> 0x08"
abbreviation (input) MOINIT_ID_MASK :: u8 where "MOINIT_ID_MASK \<equiv> 0x03"
abbreviation (input) MOINIT_ID_0 :: u8 where "MOINIT_ID_0 \<equiv> 2"
abbreviation (input) MOINIT_ID_CMP_TRK :: u8 where "MOINIT_ID_CMP_TRK \<equiv> 0x20"
abbreviation (input) MO_SEC_PER_TRACK :: u32 where "MO_SEC_PER_TRACK \<equiv> 16"
abbreviation (input) MO_TRACK_OFFSET :: int where "MO_TRACK_OFFSET \<equiv> 4096"
abbreviation (input) MO_TRACK_LIMIT :: int where "MO_TRACK_LIMIT \<equiv> 15723"
abbreviation (input) MO_SECTORSIZE_DISK :: u32 where "MO_SECTORSIZE_DISK \<equiv> 1296"
abbreviation (input) MO_SECTORSIZE_DATA :: u32 where "MO_SECTORSIZE_DATA \<equiv> 1024"
abbreviation (input) SECTOR_IO_DELAY :: u64 where "SECTOR_IO_DELAY \<equiv> 1250"
abbreviation (input) CMD_DELAY :: int where "CMD_DELAY \<equiv> 40"
abbreviation (input) FMT_RESET :: u8 where "FMT_RESET \<equiv> 0x00"
abbreviation (input) FMT_ECC_READ :: u8 where "FMT_ECC_READ \<equiv> 0x80"
abbreviation (input) FMT_ECC_WRITE :: u8 where "FMT_ECC_WRITE \<equiv> 0x40"
abbreviation (input) FMT_RD_STAT :: u8 where "FMT_RD_STAT \<equiv> 0x20"
abbreviation (input) FMT_ID_READ :: u8 where "FMT_ID_READ \<equiv> 0x10"
abbreviation (input) FMT_VERIFY :: u8 where "FMT_VERIFY \<equiv> 0x08"
abbreviation (input) FMT_ERASE :: u8 where "FMT_ERASE \<equiv> 0x04"
abbreviation (input) FMT_READ :: u8 where "FMT_READ \<equiv> 0x02"
abbreviation (input) FMT_WRITE :: u8 where "FMT_WRITE \<equiv> 0x01"
abbreviation (input) SECTOR_TIMEOUT_COUNT :: int where "SECTOR_TIMEOUT_COUNT \<equiv> 32"
abbreviation (input) ECC_DELAY :: u64 where "ECC_DELAY \<equiv> 250"
abbreviation (input) DRV_SEK :: u16 where "DRV_SEK \<equiv> 0x0000"
abbreviation (input) DRV_HOS :: u16 where "DRV_HOS \<equiv> 0xA000"
abbreviation (input) DRV_REC :: u16 where "DRV_REC \<equiv> 0x1000"
abbreviation (input) DRV_RDS :: u16 where "DRV_RDS \<equiv> 0x2000"
abbreviation (input) DRV_RCA :: u16 where "DRV_RCA \<equiv> 0x2200"
abbreviation (input) DRV_RES :: u16 where "DRV_RES \<equiv> 0x2800"
abbreviation (input) DRV_RHS :: u16 where "DRV_RHS \<equiv> 0x2A00"
abbreviation (input) DRV_RGC :: u16 where "DRV_RGC \<equiv> 0x3000"
abbreviation (input) DRV_RVI :: u16 where "DRV_RVI \<equiv> 0x3F00"
abbreviation (input) DRV_SRH :: u16 where "DRV_SRH \<equiv> 0x4100"
abbreviation (input) DRV_SVH :: u16 where "DRV_SVH \<equiv> 0x4200"
abbreviation (input) DRV_SWH :: u16 where "DRV_SWH \<equiv> 0x4300"
abbreviation (input) DRV_SEH :: u16 where "DRV_SEH \<equiv> 0x4400"
abbreviation (input) DRV_SFH :: u16 where "DRV_SFH \<equiv> 0x4500"
abbreviation (input) DRV_RID :: u16 where "DRV_RID \<equiv> 0x5000"
abbreviation (input) DRV_RJ :: u16 where "DRV_RJ \<equiv> 0x5100"
abbreviation (input) DRV_SPM :: u16 where "DRV_SPM \<equiv> 0x5200"
abbreviation (input) DRV_STM :: u16 where "DRV_STM \<equiv> 0x5300"
abbreviation (input) DRV_LC :: u16 where "DRV_LC \<equiv> 0x5400"
abbreviation (input) DRV_ULC :: u16 where "DRV_ULC \<equiv> 0x5500"
abbreviation (input) DRV_EC :: u16 where "DRV_EC \<equiv> 0x5600"
abbreviation (input) DRV_SOO :: u16 where "DRV_SOO \<equiv> 0x5900"
abbreviation (input) DRV_SOF :: u16 where "DRV_SOF \<equiv> 0x5A00"
abbreviation (input) DRV_RSD :: u16 where "DRV_RSD \<equiv> 0x8000"
abbreviation (input) DRV_SD :: u16 where "DRV_SD \<equiv> 0xB000"
abbreviation (input) RJ_READ :: u16 where "RJ_READ \<equiv> 0x10"
abbreviation (input) RJ_VERIFY :: u16 where "RJ_VERIFY \<equiv> 0x20"
abbreviation (input) RJ_WRITE :: u16 where "RJ_WRITE \<equiv> 0x30"
abbreviation (input) RJ_ERASE :: u16 where "RJ_ERASE \<equiv> 0x40"
abbreviation (input) DS_INSERT :: u16 where "DS_INSERT \<equiv> 0x0004"
abbreviation (input) DS_RESET :: u16 where "DS_RESET \<equiv> 0x0008"
abbreviation (input) DS_CMD :: u16 where "DS_CMD \<equiv> 0x0020"
abbreviation (input) DS_STOPPED :: u16 where "DS_STOPPED \<equiv> 0x0200"
abbreviation (input) DS_WP :: u16 where "DS_WP \<equiv> 0x2000"
abbreviation (input) DS_EMPTY :: u16 where "DS_EMPTY \<equiv> 0x4000"
abbreviation (input) DS_BUSY :: u16 where "DS_BUSY \<equiv> 0x8000"
abbreviation (input) VI_VERSION :: u16 where "VI_VERSION \<equiv> 0x0880"

abbreviation drive :: "'a mo_scheme \<Rightarrow> mo_unit" where
  "drive s \<equiv> mo s ! dnum s"

abbreviation csr2 :: "'a mo_scheme \<Rightarrow> u8" where
  "csr2 s \<equiv> ctrlr_csr2 (osp s)"

definition upd_osp :: "(osp_regs \<Rightarrow> osp_regs) \<Rightarrow> 'a mo_scheme \<Rightarrow> 'a mo_scheme" where
  "upd_osp f s = s\<lparr>osp := f (osp s)\<rparr>"

definition upd_unit :: "nat \<Rightarrow> (mo_unit \<Rightarrow> mo_unit) \<Rightarrow> 'a mo_scheme \<Rightarrow> 'a mo_scheme" where
  "upd_unit i f s = s\<lparr>mo := (mo s)[i := f (mo s ! i)]\<rparr>"

abbreviation upd_drive :: "(mo_unit \<Rightarrow> mo_unit) \<Rightarrow> 'a mo_scheme \<Rightarrow> 'a mo_scheme" where
  "upd_drive f s \<equiv> upd_unit (dnum s) f s"

definition upd_ecc :: "nat \<Rightarrow> (device_buffer \<Rightarrow> device_buffer) \<Rightarrow> 'a mo_scheme \<Rightarrow> 'a mo_scheme" where
  "upd_ecc i f s = s\<lparr>ecc_buffer := (ecc_buffer s)[i := f (ecc_buffer s ! i)]\<rparr>"

abbreviation ecc_in :: "'a mo_scheme \<Rightarrow> device_buffer" where
  "ecc_in s \<equiv> ecc_buffer s ! eccin s"

abbreviation ecc_out :: "'a mo_scheme \<Rightarrow> device_buffer" where
  "ecc_out s \<equiv> ecc_buffer s ! eccout s"

text \<open>The sector of the image file; tracks outside the disk abort.\<close>

definition get_logical_sector :: "u32 \<Rightarrow> u32 option" where
  "get_logical_sector sector_id = (
     let tracknum = uint (drop_bit 8 (sector_id AND 0xFFFF00)) - MO_TRACK_OFFSET
     in if tracknum < 0 \<or> MO_TRACK_LIMIT \<le> tracknum then None
        else Some (word_of_int (tracknum * 16) + (sector_id AND 0x0F)))"

section \<open>Interrupts and signals\<close>

definition osp_set_interrupts :: "'a mo_scheme \<Rightarrow> 'a mo_scheme" where
  "osp_set_interrupts s =
     set_interrupt INT_DISK (if osp_intstatus (osp s) AND osp_intmask (osp s) \<noteq> 0 then SET_INT else RELEASE_INT) s"

definition osp_interrupt :: "u8 \<Rightarrow> 'a mo_scheme \<Rightarrow> 'a mo_scheme" where
  "osp_interrupt i s = osp_set_interrupts (upd_osp (\<lambda>r. r\<lparr>osp_intstatus := osp_intstatus r OR i\<rparr>) s)"

definition mo_connect_signals :: "'a mo_scheme \<Rightarrow> 'a mo_scheme" where
  "mo_connect_signals s = (
     let s = upd_osp (\<lambda>r. r\<lparr>osp_intstatus := (if drv_complete (drive s) then osp_intstatus r OR MOINT_CMD_COMPL
                               else osp_intstatus r AND NOT MOINT_CMD_COMPL)\<rparr>) s;
         s = upd_osp (\<lambda>r. r\<lparr>osp_intstatus := (if drv_attn (drive s) then osp_intstatus r OR MOINT_ATTN
                               else osp_intstatus r AND NOT MOINT_ATTN)\<rparr>) s
     in osp_set_interrupts s)"

definition mo_set_signals :: "bool \<Rightarrow> bool \<Rightarrow> int \<Rightarrow> 'a mo_scheme \<Rightarrow> 'a mo_scheme option" where
  "mo_set_signals complete attn d s =
     (if d < 0 then None
      else
        let i = nat d;
            s = upd_unit i (\<lambda>u. u\<lparr>drv_complete := complete, drv_attn := drv_attn u \<or> attn\<rparr>) s;
            s = upd_unit i (\<lambda>u. u\<lparr>spiraling := spiraling u \<and> \<not> drv_attn u, seeking := False\<rparr>) s
        in Some (mo_connect_signals s))"

definition mo_set_signals_delayed :: "bool \<Rightarrow> bool \<Rightarrow> int \<Rightarrow> 'a mo_scheme \<Rightarrow> 'a mo_scheme option" where
  "mo_set_signals_delayed complete attn delay s =
     (if 0 < delay then do {
        s \<leftarrow> (if 0 \<le> delayed_drive s \<and> delayed_drive s \<noteq> int (dnum s) then do {
                s \<leftarrow> mo_set_signals (delayed_compl s) (delayed_attn s) (delayed_drive s) s;
                Some (CycInt_RemovePendingEvent EVENT_MO_INTERRUPT s)
              }
              else Some s);
        CycInt_AddCycleTimeEvent (word_of_int delay) (word_of_int CMD_DELAY) EVENT_MO_INTERRUPT
          (s\<lparr>delayed_drive := int (dnum s), delayed_compl := complete, delayed_attn := attn\<rparr>)
      }
      else mo_set_signals complete attn (int (dnum s)) s)"

definition MO_Interrupt_Handler :: "'a mo_scheme \<Rightarrow> 'a mo_scheme option" where
  "MO_Interrupt_Handler s = do {
     s \<leftarrow> mo_set_signals (delayed_compl s) (delayed_attn s) (delayed_drive s) s;
     Some (s\<lparr>delayed_compl := False, delayed_attn := False, delayed_drive := -1\<rparr>)
   }"

section \<open>Error correction\<close>

definition ecc_toggle_buffer :: "'a mo_scheme \<Rightarrow> 'a mo_scheme" where
  "ecc_toggle_buffer s = (if eccin s = 0 then s\<lparr>eccout := 0, eccin := 1\<rparr> else s\<lparr>eccout := 1, eccin := 0\<rparr>)"

definition ecc_clear_buffer :: "'a mo_scheme \<Rightarrow> 'a mo_scheme" where
  "ecc_clear_buffer s = (
     let clear = (\<lambda>b. b\<lparr>db_size := 0, db_limit := MO_SECTORSIZE_DATA\<rparr>) in upd_ecc (eccin s) clear (upd_ecc (eccout s) clear s))"

definition ecc_decode :: "'a mo_scheme \<Rightarrow> 'a mo_scheme option" where
  "ecc_decode s =
     (if tst (csr2 s) MOCSR2_ECC_DIS \<and> \<not> tst (csr2 s) MOCSR2_ECC_MODE then
        Some (if tst (csr2 s) MOCSR2_ECC_BLOCKS \<and> ecc_repeat s then ecc_toggle_buffer s else s)
      else if db_size (ecc_in s) = MO_SECTORSIZE_DISK then
        let (num_errors, sector) = rs_decode (db_data (ecc_in s));
            s = upd_ecc (eccin s) (\<lambda>b. b\<lparr>db_data := sector, db_size := MO_SECTORSIZE_DATA, db_limit := MO_SECTORSIZE_DATA\<rparr>) s;
            s = (if num_errors < 0 then osp_interrupt MOINT_DATA_ERR (upd_osp (\<lambda>r. r\<lparr>err_stat := ERRSTAT_ECC\<rparr>) s)
                 else if ecc_cnt (osp s) = 0 then upd_osp (\<lambda>r. r\<lparr>ecc_cnt := word_of_int num_errors\<rparr>) s else s)
        in Some (ecc_toggle_buffer s)
      else None)"

definition ecc_encode :: "'a mo_scheme \<Rightarrow> 'a mo_scheme option" where
  "ecc_encode s =
     (if tst (csr2 s) MOCSR2_ECC_DIS \<and> tst (csr2 s) MOCSR2_ECC_MODE then
        Some (if tst (csr2 s) MOCSR2_ECC_BLOCKS \<and> \<not> ecc_repeat s then ecc_toggle_buffer s else s)
      else if db_limit (ecc_in s) = MO_SECTORSIZE_DATA then
        Some (ecc_toggle_buffer (upd_ecc (eccin s)
          (\<lambda>b. b\<lparr>db_data := rs_encode (db_data b), db_size := MO_SECTORSIZE_DISK, db_limit := MO_SECTORSIZE_DISK\<rparr>) s))
      else None)"

definition start_ecc :: "'a mo_scheme \<Rightarrow> 'a mo_scheme option" where
  "start_ecc = CycInt_AddCycleTimeEvent ECC_DELAY 80 EVENT_MO_ECC_IO"

definition ecc_write :: "'a mo_scheme \<Rightarrow> 'a mo_scheme option" where
  "ecc_write s =
     (if ecc_state s \<noteq> ECC_STATE_DONE then Some s
      else
        let s = s\<lparr>ecc_mode := ECC_MODE_WRITE, ecc_state := ECC_STATE_FILLING,
                  ecc_repeat := ecc_repeat s \<or> tst (csr2 s) MOCSR2_ECC_BLOCKS\<rparr>
        in start_ecc (upd_ecc (eccin s) (\<lambda>b. b\<lparr>db_size := 0, db_limit := MO_SECTORSIZE_DATA\<rparr>) s))"

definition ecc_read :: "'a mo_scheme \<Rightarrow> 'a mo_scheme option" where
  "ecc_read s =
     (if ecc_state s \<noteq> ECC_STATE_DONE then Some s
      else start_ecc (s\<lparr>ecc_mode := ECC_MODE_READ, ecc_state := ECC_STATE_ECCING,
                        ecc_repeat := ecc_repeat s \<or> tst (csr2 s) MOCSR2_ECC_BLOCKS\<rparr>))"

definition ecc_verify :: "'a mo_scheme \<Rightarrow> 'a mo_scheme option" where
  "ecc_verify s =
     (if ecc_state s \<noteq> ECC_STATE_DONE then Some s
      else start_ecc (s\<lparr>ecc_mode := ECC_MODE_VERIFY, ecc_state := ECC_STATE_ECCING\<rparr>))"

definition ecc_sequence_done :: "'a mo_scheme \<Rightarrow> 'a mo_scheme option" where
  "ecc_sequence_done s =
     (if ecc_repeat s then
        let s = s\<lparr>ecc_repeat := False\<rparr>
        in start_ecc (if ecc_mode s = ECC_MODE_WRITE
                      then (upd_ecc (eccin s) (\<lambda>b. b\<lparr>db_size := 0\<rparr>) s)\<lparr>ecc_state := ECC_STATE_FILLING\<rparr>
                      else s\<lparr>ecc_state := ECC_STATE_ECCING\<rparr>)
      else
        let s = s\<lparr>ecc_state := ECC_STATE_DONE\<rparr>
        in Some (if tst (csr2 s) MOCSR2_ECC_DIS then osp_interrupt MOINT_ECC_DONE s else s))"

text \<open>The states of the event handler; the result says whether the event is scheduled again.\<close>

definition ecc_filling :: "'a mo_scheme devices \<Rightarrow> 'a mo_scheme \<Rightarrow> (bool \<times> 'a mo_scheme) option" where
  "ecc_filling dev s = do {
     s \<leftarrow> (if db_size (ecc_in s) < db_limit (ecc_in s) then do {
             let s = upd_ecc (eccin s) (\<lambda>b. b\<lparr>db_limit := (if tst (csr2 s) MOCSR2_ECC_MODE then MO_SECTORSIZE_DISK
                                                          else MO_SECTORSIZE_DATA)\<rparr>) s;
             let old_size = db_size (ecc_in s);
             s \<leftarrow> dma_mo_read_memory dev s;
             Some (if db_size (ecc_in s) = old_size
                   then osp_interrupt MOINT_DATA_ERR (upd_osp (\<lambda>r. r\<lparr>err_stat := ERRSTAT_STARVE\<rparr>) s) else s)
           }
           else Some s);
     Some (True, if db_size (ecc_in s) = db_limit (ecc_in s) then s\<lparr>ecc_state := ECC_STATE_ECCING\<rparr> else s)
   }"

definition ecc_eccing :: "'a mo_scheme \<Rightarrow> (bool \<times> 'a mo_scheme) option" where
  "ecc_eccing s =
     (if ecc_mode s = ECC_MODE_WRITE then
        (if tst (csr2 s) MOCSR2_ECC_DIS then do {
           s \<leftarrow> ecc_decode s;
           s \<leftarrow> ecc_sequence_done s;
           Some (False, s)
         }
         else do {
           s \<leftarrow> ecc_encode s;
           let s = s\<lparr>ecc_state := ECC_STATE_WAITING\<rparr>;
           Some (True, if sector_count (osp s) = 1 then osp_interrupt MOINT_ECC_DONE s else s)
         })
      else if tst (csr2 s) MOCSR2_ECC_DIS then do {
        s \<leftarrow> ecc_encode (if tst (csr2 s) MOCSR2_ECC_BLOCKS
                         then upd_ecc (eccin s) (\<lambda>b. b\<lparr>db_size := MO_SECTORSIZE_DATA, db_limit := MO_SECTORSIZE_DATA\<rparr>) s else s);
        Some (True, s\<lparr>ecc_state := ECC_STATE_DRAINING\<rparr>)
      }
      else if db_size (ecc_in s) \<noteq> MO_SECTORSIZE_DISK then Some (True, s)
      else do {
        s \<leftarrow> ecc_decode s;
        let s = (if sector_count (osp s) = 0 then osp_interrupt MOINT_ECC_DONE s else s);
        if ecc_mode s = ECC_MODE_VERIFY then do {
          s \<leftarrow> ecc_sequence_done (ecc_clear_buffer s);
          Some (False, s)
        }
        else Some (True, s\<lparr>ecc_state := ECC_STATE_DRAINING\<rparr>)
      })"

definition ecc_draining :: "'a mo_scheme devices \<Rightarrow> 'a mo_scheme \<Rightarrow> (bool \<times> 'a mo_scheme) option" where
  "ecc_draining dev s = (
     let old_size = db_size (ecc_out s) in do {
       s \<leftarrow> dma_mo_write_memory dev s;
       if db_size (ecc_out s) = old_size then do { s \<leftarrow> ecc_sequence_done s; Some (False, s) }
       else if db_size (ecc_out s) = 0 then do {
         s \<leftarrow> dma_mo_write_memory dev s;
         s \<leftarrow> ecc_sequence_done s;
         Some (False, s)
       }
       else Some (True, s)
     })"

definition ecc_waiting :: "'a mo_scheme \<Rightarrow> (bool \<times> 'a mo_scheme) option" where
  "ecc_waiting s =
     (if db_size (ecc_out s) = 0 then do {
        s \<leftarrow> ecc_sequence_done s;
        s \<leftarrow> (if 0 < sector_count (osp s) then ecc_write s else Some s);
        Some (False, s)
      }
      else Some (True, s))"

definition MO_ECC_IO_Handler :: "'a mo_scheme devices \<Rightarrow> 'a mo_scheme \<Rightarrow> 'a mo_scheme option" where
  "MO_ECC_IO_Handler dev s = do {
     (again, s) \<leftarrow> (case ecc_state s of
         ECC_STATE_FILLING \<Rightarrow> ecc_filling dev s
       | ECC_STATE_ECCING \<Rightarrow> ecc_eccing s
       | ECC_STATE_DRAINING \<Rightarrow> ecc_draining dev s
       | ECC_STATE_WAITING \<Rightarrow> ecc_waiting s
       | ECC_STATE_DONE \<Rightarrow> Some (False, s));
     if again then CycInt_UpdateCycleTimeEvent ECC_DELAY 80 EVENT_MO_ECC_IO s else Some s
   }"

section \<open>Sectors\<close>

definition sector_position :: "u32 \<Rightarrow> nat" where
  "sector_position sec = unat (sec * MO_SECTORSIZE_DISK)"

definition mo_read_sector :: "u32 \<Rightarrow> 'a mo_scheme \<Rightarrow> 'a mo_scheme option" where
  "mo_read_sector sector_id s = do {
     sec \<leftarrow> get_logical_sector sector_id;
     let data = File_Read (host_files s) (db_data (ecc_in s)) (unat MO_SECTORSIZE_DISK) (sector_position sec) (drv_dsk (drive s));
     Some (upd_ecc (eccin s) (\<lambda>b. b\<lparr>db_data := data, db_size := MO_SECTORSIZE_DISK, db_limit := MO_SECTORSIZE_DISK\<rparr>) s)
   }"

definition mo_write_sector :: "u32 \<Rightarrow> 'a mo_scheme \<Rightarrow> 'a mo_scheme option" where
  "mo_write_sector sector_id s = do {
     sec \<leftarrow> get_logical_sector sector_id;
     if db_limit (ecc_out s) = MO_SECTORSIZE_DISK then
       let s = s\<lparr>host_files := File_Write (host_files s) (db_data (ecc_out s)) (unat MO_SECTORSIZE_DISK)
                                 (sector_position sec) (drv_dsk (drive s))\<rparr>
       in Some (upd_ecc (eccout s) (\<lambda>b. b\<lparr>db_size := 0, db_limit := MO_SECTORSIZE_DATA\<rparr>) s)
     else None
   }"

definition mo_erase_sector :: "u32 \<Rightarrow> 'a mo_scheme \<Rightarrow> 'a mo_scheme option" where
  "mo_erase_sector sector_id s = do {
     sec \<leftarrow> get_logical_sector sector_id;
     Some (s\<lparr>host_files := File_Write (host_files s) (replicate (unat MO_SECTORSIZE_DISK) 0xFF) (unat MO_SECTORSIZE_DISK)
                             (sector_position sec) (drv_dsk (drive s))\<rparr>)
   }"

definition mo_verify_sector :: "u32 \<Rightarrow> 'a mo_scheme \<Rightarrow> 'a mo_scheme option" where
  "mo_verify_sector sector_id s = mo_read_sector sector_id s"

section \<open>Formatter\<close>

definition fmt_sector_done :: "'a mo_scheme \<Rightarrow> 'a mo_scheme" where
  "fmt_sector_done s = (
     let r = osp s;
         n = sector_num r + word_of_int (sector_increment s);
         track = (push_bit 8 (ucast (tracknumh r)) OR ucast (tracknuml r)) + ucast (n div 16) :: u16;
         s = upd_osp (\<lambda>r. r\<lparr>sector_num := n mod 16, tracknumh := ucast (drop_bit 8 track), tracknuml := ucast track,
                             sector_count := sector_count r - 1\<rparr>) s
     in if sector_count (osp s) = 0 then osp_interrupt MOINT_OPER_COMPL (s\<lparr>fmt_mode := FMT_MODE_IDLE\<rparr>) else s)"

definition fmt_id :: "'a mo_scheme \<Rightarrow> u32" where
  "fmt_id s = push_bit 16 (ucast (tracknumh (osp s))) OR push_bit 8 (ucast (tracknuml (osp s))) OR ucast (sector_num (osp s))"

definition fmt_match_id :: "u32 \<Rightarrow> 'a mo_scheme \<Rightarrow> (bool \<times> 'a mo_scheme) option" where
  "fmt_match_id sector_id s =
     (if osp_init (osp s) AND MOINIT_ID_MASK = MOINIT_ID_0 \<or> tst (osp_init (osp s)) MOINIT_ID_CMP_TRK then None
      else if sector_id = fmt_id s then Some (True, s\<lparr>sector_timer := 0\<rparr>)
      else if tst (csr2 s) MOCSR2_SECT_TIMER then
        let id = fmt_id s; s = s\<lparr>sector_timer := sector_timer s + 1\<rparr>
        in Some (False, if SECTOR_TIMEOUT_COUNT < sector_timer s \<or> id < sector_id
                        then osp_interrupt MOINT_TIMEOUT (s\<lparr>sector_timer := 0, fmt_mode := FMT_MODE_IDLE\<rparr>) else s)
      else Some (False, s))"

definition fmt_io :: "u32 \<Rightarrow> 'a mo_scheme \<Rightarrow> 'a mo_scheme option" where
  "fmt_io sector_id s = (case fmt_mode s of
     FMT_MODE_IDLE \<Rightarrow> Some s
   | FMT_MODE_READ_ID \<Rightarrow>
       Some (osp_interrupt MOINT_OPER_COMPL (upd_osp (\<lambda>r. r\<lparr>tracknumh := ucast (drop_bit 16 sector_id),
         tracknuml := ucast (drop_bit 8 sector_id), sector_num := ucast (sector_id AND 0x0F)\<rparr>) s))
   | FMT_MODE_READ \<Rightarrow>
       if drv_head (drive s) \<noteq> READ_HEAD then None
       else do {
         (match, s) \<leftarrow> fmt_match_id sector_id s;
         if match then do {
           s \<leftarrow> mo_read_sector sector_id s;
           s \<leftarrow> ecc_read s;
           Some (fmt_sector_done s)
         }
         else Some s
       }
   | FMT_MODE_WRITE \<Rightarrow>
       if drv_head (drive s) \<noteq> WRITE_HEAD then None
       else do {
         (match, s) \<leftarrow> fmt_match_id sector_id s;
         s \<leftarrow> (if match \<and> write_timing s then map_option fmt_sector_done (mo_write_sector sector_id s)
               else Some (s\<lparr>write_timing := True\<rparr>));
         ecc_write s
       }
   | FMT_MODE_ERASE \<Rightarrow>
       if drv_head (drive s) \<noteq> ERASE_HEAD then None
       else do {
         (match, s) \<leftarrow> fmt_match_id sector_id s;
         if match then map_option fmt_sector_done (mo_erase_sector sector_id s) else Some s
       }
   | FMT_MODE_VERIFY \<Rightarrow>
       if drv_head (drive s) \<noteq> VERIFY_HEAD then None
       else do {
         (match, s) \<leftarrow> fmt_match_id sector_id s;
         if match then do {
           s \<leftarrow> mo_verify_sector sector_id s;
           s \<leftarrow> ecc_verify s;
           Some (fmt_sector_done s)
         }
         else Some s
       })"

definition osp_formatter_cmd :: "'a mo_scheme \<Rightarrow> 'a mo_scheme option" where
  "osp_formatter_cmd s = (
     let cmd = ctrlr_csr1 (osp s) in
     if cmd = FMT_RESET then
       Some (upd_osp (\<lambda>r. r\<lparr>ecc_cnt := 0, err_stat := 0\<rparr>) (s\<lparr>fmt_mode := FMT_MODE_IDLE, ecc_state := ECC_STATE_DONE\<rparr>))
     else do {
       s \<leftarrow> (if tst cmd FMT_ECC_READ then ecc_read s else Some s);
       s \<leftarrow> (if tst cmd FMT_ECC_WRITE then ecc_write s else Some s);
       let s = (if tst cmd FMT_RD_STAT
                then upd_osp (\<lambda>r. r\<lparr>csrh := ucast (drop_bit 8 (drv_status (drive s))), csrl := ucast (drv_status (drive s))\<rparr>) s else s);
       let s = (if tst cmd FMT_ID_READ then s\<lparr>fmt_mode := FMT_MODE_READ_ID\<rparr> else s);
       let s = (if tst cmd FMT_VERIFY then s\<lparr>fmt_mode := FMT_MODE_VERIFY\<rparr> else s);
       let s = (if tst cmd FMT_ERASE then s\<lparr>fmt_mode := FMT_MODE_ERASE\<rparr> else s);
       let s = (if tst cmd FMT_READ then s\<lparr>fmt_mode := FMT_MODE_READ\<rparr> else s);
       Some (if tst cmd FMT_WRITE then s\<lparr>write_timing := False, fmt_mode := FMT_MODE_WRITE\<rparr> else s)
     })"

definition osp_select :: "nat \<Rightarrow> 'a mo_scheme \<Rightarrow> 'a mo_scheme" where
  "osp_select d s = (
     let s = (if d \<noteq> dnum s \<and> drv_attn (mo s ! d) then upd_unit d (\<lambda>u. u\<lparr>drv_attn := False\<rparr>) s else s)
     in mo_connect_signals (s\<lparr>dnum := d\<rparr>))"

definition osp_formatter_cmd2 :: "'a mo_scheme \<Rightarrow> 'a mo_scheme" where
  "osp_formatter_cmd2 s = (
     let s = (if tst (csr2 s) MOCSR2_BUF_TOGGLE then ecc_toggle_buffer s else s);
         s = (if tst (csr2 s) MOCSR2_CLR_BUFP then ecc_clear_buffer s else s)
     in osp_select (unat (csr2 s AND MOCSR2_DRIVE_SEL)) s)"

section \<open>Drive commands\<close>

abbreviation (input) done_after :: "int \<Rightarrow> 'a mo_scheme \<Rightarrow> 'a mo_scheme option" where
  "done_after delay \<equiv> mo_set_signals_delayed True False delay"

definition mo_unimplemented_cmd :: "'a mo_scheme \<Rightarrow> 'a mo_scheme option" where
  "mo_unimplemented_cmd s = mo_set_signals_delayed True True CMD_DELAY (upd_drive (\<lambda>u. u\<lparr>dstat := dstat u OR DS_CMD\<rparr>) s)"

text \<open>The tests at the start of a command; what follows is the argument.\<close>

definition unless_empty :: "('a mo_scheme \<Rightarrow> 'a mo_scheme option) \<Rightarrow> 'a mo_scheme \<Rightarrow> 'a mo_scheme option" where
  "unless_empty f s = (if \<not> drv_inserted (drive s) then mo_set_signals_delayed True True CMD_DELAY s else f s)"

definition unless_protected :: "('a mo_scheme \<Rightarrow> 'a mo_scheme option) \<Rightarrow> 'a mo_scheme \<Rightarrow> 'a mo_scheme option" where
  "unless_protected f s =
     (if drv_protected (drive s) \<and> (drv_head (drive s) = ERASE_HEAD \<or> drv_head (drive s) = WRITE_HEAD)
      then mo_set_signals_delayed True True CMD_DELAY (upd_drive (\<lambda>u. u\<lparr>drv_head := NO_HEAD\<rparr>) s) else f s)"

definition unless_stopped :: "('a mo_scheme \<Rightarrow> 'a mo_scheme option) \<Rightarrow> 'a mo_scheme \<Rightarrow> 'a mo_scheme option" where
  "unless_stopped f s = (if \<not> spinning (drive s) then mo_unimplemented_cmd s else f s)"

definition seek_delay :: "u32 \<Rightarrow> u32 \<Rightarrow> int" where
  "seek_delay old new = (
     let t = (if new < old then old - new else new - old)
     in uint ((if 95000 < t then 95000 else t) + 5000))"

definition mo_seek :: "u16 \<Rightarrow> 'a mo_scheme \<Rightarrow> 'a mo_scheme option" where
  "mo_seek command = unless_stopped (\<lambda>s.
     let old = head_pos (drive s); new = (ho_head_pos (drive s) AND 0xF000) OR ucast (command AND 0x0FFF)
     in done_after (seek_delay old new) (upd_drive (\<lambda>u. u\<lparr>seeking := True, head_pos := new\<rparr>) s))"

definition mo_high_order_seek :: "u16 \<Rightarrow> 'a mo_scheme \<Rightarrow> 'a mo_scheme option" where
  "mo_high_order_seek command = unless_stopped (\<lambda>s.
     if 4 < command AND 0xF then mo_unimplemented_cmd s
     else done_after CMD_DELAY (upd_drive (\<lambda>u. u\<lparr>ho_head_pos := push_bit 12 (ucast (command AND 0xF))\<rparr>) s))"

definition mo_jump_head :: "u16 \<Rightarrow> 'a mo_scheme \<Rightarrow> 'a mo_scheme option" where
  "mo_jump_head command = unless_stopped (\<lambda>s.
     let offset = ucast (command AND 0x7) :: u32;
         move = (\<lambda>pos. if tst command 0x8 then pos - (8 - offset) else pos + offset);
         h = command AND 0xF0;
         head = (if h = RJ_READ then READ_HEAD else if h = RJ_VERIFY then VERIFY_HEAD else if h = RJ_WRITE then WRITE_HEAD
                 else if h = RJ_ERASE then ERASE_HEAD else NO_HEAD)
     in unless_protected (done_after 1600)
          (upd_drive (\<lambda>u. u\<lparr>seeking := True, head_pos := move (head_pos u), sec_offset := 0, drv_head := head\<rparr>) s))"

definition mo_recalibrate :: "'a mo_scheme \<Rightarrow> 'a mo_scheme option" where
  "mo_recalibrate = unless_stopped (\<lambda>s.
     done_after CMD_DELAY (upd_drive (\<lambda>u. u\<lparr>head_pos := 0, sec_offset := 0, spiraling := False\<rparr>) s))"

definition mo_return_drive_status :: "'a mo_scheme \<Rightarrow> 'a mo_scheme option" where
  "mo_return_drive_status s = (
     let st = (\<lambda>u. (dstat u AND NOT (DS_STOPPED OR DS_EMPTY OR DS_WP)) OR (if spinning u then 0 else DS_STOPPED)
                 OR (if drv_inserted u then 0 else DS_EMPTY) OR (if drv_protected u then DS_WP else 0))
     in done_after CMD_DELAY (upd_drive (\<lambda>u. u\<lparr>dstat := st u, drv_status := st u\<rparr>) s))"

definition mo_return_track_addr :: "'a mo_scheme \<Rightarrow> 'a mo_scheme option" where
  "mo_return_track_addr s = done_after CMD_DELAY (upd_drive (\<lambda>u. u\<lparr>drv_status := ucast (head_pos u)\<rparr>) s)"

definition mo_return_extended_status :: "'a mo_scheme \<Rightarrow> 'a mo_scheme option" where
  "mo_return_extended_status s = done_after CMD_DELAY (upd_drive (\<lambda>u. u\<lparr>drv_status := estat u\<rparr>) s)"

definition mo_return_hardware_status :: "'a mo_scheme \<Rightarrow> 'a mo_scheme option" where
  "mo_return_hardware_status s = done_after CMD_DELAY (upd_drive (\<lambda>u. u\<lparr>drv_status := hstat u\<rparr>) s)"

definition mo_return_version :: "'a mo_scheme \<Rightarrow> 'a mo_scheme option" where
  "mo_return_version s = done_after CMD_DELAY (upd_drive (\<lambda>u. u\<lparr>drv_status := VI_VERSION\<rparr>) s)"

definition mo_select_head :: "u8 \<Rightarrow> 'a mo_scheme \<Rightarrow> 'a mo_scheme option" where
  "mo_select_head head = unless_stopped (\<lambda>s.
     unless_protected (done_after CMD_DELAY) (upd_drive (\<lambda>u. u\<lparr>drv_head := head\<rparr>) s))"

definition mo_reset_attn_status :: "'a mo_scheme \<Rightarrow> 'a mo_scheme option" where
  "mo_reset_attn_status s =
     done_after CMD_DELAY (upd_drive (\<lambda>u. u\<lparr>dstat := 0, estat := 0, hstat := 0, drv_attn := False\<rparr>) s)"

definition mo_stop_spinning :: "'a mo_scheme \<Rightarrow> 'a mo_scheme option" where
  "mo_stop_spinning = unless_empty (\<lambda>s. done_after CMD_DELAY (upd_drive (\<lambda>u. u\<lparr>spinning := False, spiraling := False\<rparr>) s))"

definition mo_start_spinning :: "'a mo_scheme \<Rightarrow> 'a mo_scheme option" where
  "mo_start_spinning = unless_empty (\<lambda>s. done_after 1600000 (upd_drive (\<lambda>u. u\<lparr>spinning := True\<rparr>) s))"

text \<open>Ejection by the guest, and by the user interface, which gives the drive.\<close>

definition eject_unit :: "nat \<Rightarrow> 'a mo_scheme \<Rightarrow> 'a mo_scheme" where
  "eject_unit d s = (
     let s = upd_unit d (\<lambda>u. u\<lparr>drv_dsk := File_Close (drv_dsk u), drv_inserted := False, spinning := False, spiraling := False\<rparr>) s;
         cnf = mo_drive (MO (ConfigureParams s))
     in s\<lparr>ConfigureParams := (ConfigureParams s)\<lparr>MO := \<lparr>mo_drive =
            cnf[d := (cnf ! d)\<lparr>mo_bDiskInserted := False, mo_szImageName := ''''\<rparr>]\<rparr>\<rparr>\<rparr>)"

definition mo_eject_disk :: "int \<Rightarrow> 'a mo_scheme \<Rightarrow> 'a mo_scheme option" where
  "mo_eject_disk d s =
     (if d < 0 then
        let i = dnum s in unless_empty (\<lambda>s. map_option (eject_unit i) (done_after CMD_DELAY s)) s
      else Some (eject_unit (nat d) s))"

definition mo_insert_disk :: "nat \<Rightarrow> 'a mo_scheme \<Rightarrow> 'a mo_scheme option" where
  "mo_insert_disk d s = (
     let cnf = mo_drive (MO (ConfigureParams s)) ! d;
         rw = (if mo_bWriteProtected cnf then None else File_Open (host_files s) (host_writable s) (mo_szImageName cnf) True);
         ro = File_Open (host_files s) (host_writable s) (mo_szImageName cnf) False;
         s = upd_unit d (\<lambda>u. if rw \<noteq> None then u\<lparr>drv_dsk := rw, drv_protected := False\<rparr>
               else if ro \<noteq> None then u\<lparr>drv_dsk := ro, drv_protected := True\<rparr>
               else u\<lparr>drv_dsk := None, drv_inserted := False, drv_protected := False\<rparr>) s
     in if rw = None \<and> ro = None then Some s
        else mo_set_signals True False (int d) (upd_unit d (\<lambda>u. u\<lparr>dstat := dstat u OR DS_INSERT, drv_inserted := True,
               spinning := False, spiraling := False\<rparr>) s))"

definition mo_start_spiraling :: "'a mo_scheme \<Rightarrow> 'a mo_scheme option" where
  "mo_start_spiraling = unless_stopped (\<lambda>s. do {
     s \<leftarrow> (if \<not> spiraling (mo s ! 0) \<and> \<not> spiraling (mo s ! 1)
           then CycInt_AddCycleTimeEvent SECTOR_IO_DELAY 400 EVENT_MO_IO s else Some s);
     done_after CMD_DELAY (upd_drive (\<lambda>u. u\<lparr>spiraling := True\<rparr>) s)
   })"

definition mo_stop_spiraling :: "'a mo_scheme \<Rightarrow> 'a mo_scheme option" where
  "mo_stop_spiraling = unless_stopped (\<lambda>s. done_after CMD_DELAY (upd_drive (\<lambda>u. u\<lparr>spiraling := False\<rparr>) s))"

definition mo_self_diagnostic :: "'a mo_scheme \<Rightarrow> 'a mo_scheme option" where
  "mo_self_diagnostic s = done_after CMD_DELAY s"

definition mo_drive_cmd :: "u16 \<Rightarrow> 'a mo_scheme \<Rightarrow> 'a mo_scheme option" where
  "mo_drive_cmd command s =
     (if \<not> drv_connected (drive s) then Some s
      else if \<not> drv_complete (drive s) then
        mo_set_signals True True (int (dnum s)) (upd_drive (\<lambda>u. u\<lparr>dstat := dstat u OR DS_BUSY\<rparr>) s)
      else do {
        s \<leftarrow> mo_set_signals False False (int (dnum s)) s;
        if command AND 0xF000 = DRV_SEK then mo_seek command s
        else if command AND 0xF000 = DRV_SD then None
        else if command AND 0xFF00 = DRV_RJ then mo_jump_head command s
        else if command AND 0xFFF0 = DRV_HOS then mo_high_order_seek command s
        else if command = DRV_REC then mo_recalibrate s
        else if command = DRV_RDS then mo_return_drive_status s
        else if command = DRV_RCA then mo_return_track_addr s
        else if command = DRV_RES then mo_return_extended_status s
        else if command = DRV_RHS then mo_return_hardware_status s
        else if command = DRV_RGC then None
        else if command = DRV_RVI then mo_return_version s
        else if command = DRV_SRH then mo_select_head READ_HEAD s
        else if command = DRV_SVH then mo_select_head VERIFY_HEAD s
        else if command = DRV_SWH then mo_select_head WRITE_HEAD s
        else if command = DRV_SEH then mo_select_head ERASE_HEAD s
        else if command = DRV_SFH then mo_select_head RF_HEAD s
        else if command = DRV_RID then mo_reset_attn_status s
        else if command = DRV_SPM then mo_stop_spinning s
        else if command = DRV_STM then mo_start_spinning s
        else if command = DRV_LC \<or> command = DRV_ULC then None
        else if command = DRV_EC then mo_eject_disk (-1) s
        else if command = DRV_SOO then mo_start_spiraling s
        else if command = DRV_SOF then mo_stop_spiraling s
        else if command = DRV_RSD then mo_self_diagnostic s
        else mo_unimplemented_cmd s
      })"

section \<open>Rotation, start and reset\<close>

definition spiral_unit :: "nat \<Rightarrow> 'a mo_scheme \<Rightarrow> 'a mo_scheme option" where
  "spiral_unit i s =
     (if spiraling (mo s ! i) \<and> \<not> seeking (mo s ! i) then do {
        s \<leftarrow> (if i = dnum s then fmt_io (push_bit 8 (head_pos (mo s ! i)) OR sec_offset (mo s ! i)) s else Some s);
        Some (upd_unit i (\<lambda>u. u\<lparr>head_pos := head_pos u + (sec_offset u + 1) div MO_SEC_PER_TRACK,
                                sec_offset := (sec_offset u + 1) mod MO_SEC_PER_TRACK\<rparr>) s)
      }
      else Some s)"

definition mo_spiraling_operation :: "'a mo_scheme \<Rightarrow> 'a mo_scheme option" where
  "mo_spiraling_operation s =
     (if \<not> spiraling (mo s ! 0) \<and> \<not> spiraling (mo s ! 1) then Some s
      else do { s \<leftarrow> spiral_unit 0 s; spiral_unit 1 s })"

definition MO_IO_Handler :: "'a mo_scheme \<Rightarrow> 'a mo_scheme option" where
  "MO_IO_Handler s = do {
     s \<leftarrow> mo_spiraling_operation s;
     CycInt_UpdateCycleTimeEvent SECTOR_IO_DELAY 400 EVENT_MO_IO s
   }"

definition mo_stop :: "'a mo_scheme \<Rightarrow> 'a mo_scheme option" where
  "mo_stop s = mo_set_signals False False (int (dnum s)) (upd_drive (\<lambda>u. u\<lparr>drv_enabled := False, spinning := False,
     spiraling := False, seeking := False, drv_head := NO_HEAD, head_pos := 0, ho_head_pos := 0, sec_offset := 0,
     dstat := 0, estat := 0, hstat := 0, drv_attn := False\<rparr>) s)"

definition mo_start :: "'a mo_scheme \<Rightarrow> 'a mo_scheme option" where
  "mo_start s =
     (if drv_connected (drive s) \<and> \<not> drv_enabled (drive s)
      then done_after 500000 (upd_drive (\<lambda>u. u\<lparr>drv_enabled := True, dstat := DS_RESET\<rparr>) s) else Some s)"

definition MO_Insert :: "nat \<Rightarrow> 'a mo_scheme \<Rightarrow> 'a mo_scheme option" where
  "MO_Insert d s = mo_insert_disk d s"

definition MO_Eject :: "nat \<Rightarrow> 'a mo_scheme \<Rightarrow> 'a mo_scheme option" where
  "MO_Eject d s = mo_eject_disk (int d) s"

text \<open>The loop of the reset runs over the selected drive; after it, no drive is selected.\<close>

definition reset_unit :: "nat \<Rightarrow> 'a mo_scheme \<Rightarrow> 'a mo_scheme option" where
  "reset_unit d s = (
     let s = s\<lparr>dnum := d\<rparr>;
         s = upd_drive (\<lambda>u. u\<lparr>drv_dsk := File_Close (drv_dsk u), drv_connected := False, drv_inserted := False\<rparr>) s
     in do {
       s \<leftarrow> mo_stop s;
       let cnf = mo_drive (MO (ConfigureParams s)) ! d;
       if mo_bDriveConnected cnf then
         let s = upd_drive (\<lambda>u. u\<lparr>drv_connected := True, drv_enabled := True, drv_complete := True\<rparr>) s
         in if mo_bDiskInserted cnf then MO_Insert d s else Some s
       else Some s
     })"

definition MO_Reset :: "'a mo_scheme \<Rightarrow> 'a mo_scheme option" where
  "MO_Reset s = do {
     s \<leftarrow> reset_unit 0 s;
     s \<leftarrow> reset_unit 1 s;
     let s = (osp_select 0 (s\<lparr>dnum := 2\<rparr>))\<lparr>fmt_mode := FMT_MODE_IDLE, ecc_state := ECC_STATE_DONE\<rparr>;
     Some (CycInt_RemovePendingEvent EVENT_MO_ECC_IO (CycInt_RemovePendingEvent EVENT_MO_IO
       (CycInt_RemovePendingEvent EVENT_MO_INTERRUPT s)))
   }"

section \<open>Registers\<close>

definition MO_TrackNumH_Read :: "'a mo_scheme \<Rightarrow> u8" where
  "MO_TrackNumH_Read s = tracknumh (osp s)"

definition MO_TrackNumH_Write :: "u8 \<Rightarrow> 'a mo_scheme \<Rightarrow> 'a mo_scheme" where
  "MO_TrackNumH_Write val = upd_osp (\<lambda>r. r\<lparr>tracknumh := val\<rparr>)"

definition MO_TrackNumL_Read :: "'a mo_scheme \<Rightarrow> u8" where
  "MO_TrackNumL_Read s = tracknuml (osp s)"

definition MO_TrackNumL_Write :: "u8 \<Rightarrow> 'a mo_scheme \<Rightarrow> 'a mo_scheme" where
  "MO_TrackNumL_Write val = upd_osp (\<lambda>r. r\<lparr>tracknuml := val\<rparr>)"

definition MO_SectorIncr_Read :: "'a mo_scheme \<Rightarrow> u8" where
  "MO_SectorIncr_Read s = sector_num (osp s) AND MOSEC_NUM_MASK"

definition MO_SectorIncr_Write :: "u8 \<Rightarrow> 'a mo_scheme \<Rightarrow> 'a mo_scheme" where
  "MO_SectorIncr_Write val s =
     (upd_osp (\<lambda>r. r\<lparr>sector_num := val AND MOSEC_NUM_MASK\<rparr>) s)\<lparr>sector_increment := uint (drop_bit 4 (val AND MOSEC_INCR_MASK))\<rparr>"

definition MO_SectorCnt_Read :: "'a mo_scheme \<Rightarrow> u8" where
  "MO_SectorCnt_Read s = word_of_int (sector_count (osp s))"

definition MO_SectorCnt_Write :: "u8 \<Rightarrow> 'a mo_scheme \<Rightarrow> 'a mo_scheme" where
  "MO_SectorCnt_Write val = upd_osp (\<lambda>r. r\<lparr>sector_count := (if val = 0 then 0x100 else uint val)\<rparr>)"

definition MO_IntStatus_Read :: "'a mo_scheme \<Rightarrow> u8" where
  "MO_IntStatus_Read s = osp_intstatus (osp s)"

definition set_floppy_select :: "u8 \<Rightarrow> 'a mo_scheme \<Rightarrow> 'a mo_scheme" where
  "set_floppy_select sel s = s\<lparr>floppy_select := sel \<noteq> 0\<rparr>"

definition MO_IntStatus_Write :: "u8 \<Rightarrow> 'a mo_scheme \<Rightarrow> 'a mo_scheme option" where
  "MO_IntStatus_Write val s = do {
     let s = upd_osp (\<lambda>r. r\<lparr>osp_intstatus := osp_intstatus r AND NOT (val AND MOINT_OSP_MASK)\<rparr>) s;
     s \<leftarrow> (if tst val MOINT_RESET then mo_stop s else mo_start s);
     let s = osp_set_interrupts s;
     Some (if nMachineType (System (ConfigureParams s)) = NEXT_CUBE030 then set_floppy_select (val AND MOINT_GPO) s else s)
   }"

definition MO_IntMask_Read :: "'a mo_scheme \<Rightarrow> u8" where
  "MO_IntMask_Read s = osp_intmask (osp s)"

definition MO_IntMask_Write :: "u8 \<Rightarrow> 'a mo_scheme \<Rightarrow> 'a mo_scheme" where
  "MO_IntMask_Write val s = osp_set_interrupts (upd_osp (\<lambda>r. r\<lparr>osp_intmask := val\<rparr>) s)"

definition MOctrl_CSR2_Read :: "'a mo_scheme \<Rightarrow> u8" where
  "MOctrl_CSR2_Read s = ctrlr_csr2 (osp s)"

definition MOctrl_CSR2_Write :: "u8 \<Rightarrow> 'a mo_scheme \<Rightarrow> 'a mo_scheme" where
  "MOctrl_CSR2_Write val s = osp_formatter_cmd2 (upd_osp (\<lambda>r. r\<lparr>ctrlr_csr2 := val\<rparr>) s)"

definition MOctrl_CSR1_Read :: "'a mo_scheme \<Rightarrow> u8" where
  "MOctrl_CSR1_Read s = ctrlr_csr1 (osp s)"

definition MOctrl_CSR1_Write :: "u8 \<Rightarrow> 'a mo_scheme \<Rightarrow> 'a mo_scheme option" where
  "MOctrl_CSR1_Write val s = osp_formatter_cmd (upd_osp (\<lambda>r. r\<lparr>ctrlr_csr1 := val\<rparr>) s)"

definition MO_CSR_H_Read :: "'a mo_scheme \<Rightarrow> u8" where
  "MO_CSR_H_Read s = csrh (osp s)"

definition MO_CSR_H_Write :: "u8 \<Rightarrow> 'a mo_scheme \<Rightarrow> 'a mo_scheme" where
  "MO_CSR_H_Write val = upd_osp (\<lambda>r. r\<lparr>csrh := val\<rparr>)"

definition MO_CSR_L_Read :: "'a mo_scheme \<Rightarrow> u8" where
  "MO_CSR_L_Read s = csrl (osp s)"

definition MO_CSR_L_Write :: "u8 \<Rightarrow> 'a mo_scheme \<Rightarrow> 'a mo_scheme option" where
  "MO_CSR_L_Write val s = (
     let s = upd_osp (\<lambda>r. r\<lparr>csrl := val\<rparr>) s
     in mo_drive_cmd (push_bit 8 (ucast (csrh (osp s))) OR ucast (csrl (osp s))) s)"

definition MO_ErrStat_Read :: "'a mo_scheme \<Rightarrow> u8" where
  "MO_ErrStat_Read s = err_stat (osp s)"

definition MO_EccCnt_Read :: "'a mo_scheme \<Rightarrow> u8" where
  "MO_EccCnt_Read s = ecc_cnt (osp s)"

definition MO_Init_Write :: "u8 \<Rightarrow> 'a mo_scheme \<Rightarrow> 'a mo_scheme" where
  "MO_Init_Write val = upd_osp (\<lambda>r. r\<lparr>osp_init := val\<rparr>)"

definition MO_Format_Write :: "u8 \<Rightarrow> 'a mo_scheme \<Rightarrow> 'a mo_scheme" where
  "MO_Format_Write val = upd_osp (\<lambda>r. r\<lparr>osp_format := val\<rparr>)"

definition MO_Mark_Write :: "u8 \<Rightarrow> 'a mo_scheme \<Rightarrow> 'a mo_scheme" where
  "MO_Mark_Write val = upd_osp (\<lambda>r. r\<lparr>osp_mark := val\<rparr>)"

text \<open>The seven flag registers.\<close>

definition MO_Flag_Read :: "nat \<Rightarrow> 'a mo_scheme \<Rightarrow> u8" where
  "MO_Flag_Read i s = osp_flag (osp s) ! i"

definition MO_Flag_Write :: "nat \<Rightarrow> u8 \<Rightarrow> 'a mo_scheme \<Rightarrow> 'a mo_scheme" where
  "MO_Flag_Write i val = upd_osp (\<lambda>r. r\<lparr>osp_flag := (osp_flag r)[i := val]\<rparr>)"

end
