(* ===== verification/MoDisk.thy ===== *)
theory MoDisk
  imports Mo
begin

text \<open>
  The optical disk as a store of sectors: what is encoded and written to a sector is read and
  decoded again, also when the image was damaged meanwhile, and reaches the memory of the guest.
\<close>

section \<open>Sectors of an image\<close>

definition mo_sector :: "u8 list \<Rightarrow> nat \<Rightarrow> u8 list" where
  "mo_sector img n = take 1296 (drop (1296 * n) img)"

lemma get_logical_sector_bound:
  assumes "get_logical_sector sector_id = Some n"
  shows "unat n < 251568"
proof -
  define t where "t = uint (drop_bit 8 (sector_id AND 0xFFFF00)) - MO_TRACK_OFFSET"
  have t: "0 \<le> t" "t < MO_TRACK_LIMIT" "n = word_of_int (t * 16) + (sector_id AND 0x0F)"
    using assms by (auto simp: get_logical_sector_def Let_def t_def split: if_splits)
  have a: "unat (sector_id AND 0x0F) \<le> 15"
    using word_and_le1 [of sector_id "0x0F"] by (simp add: word_le_nat_alt)
  have "uint (word_of_int (t * 16) :: u32) = t * 16"
    using t(1,2) unfolding uint_word_of_int by (intro mod_pos_pos_trivial) auto
  then have "unat (word_of_int (t * 16) :: u32) = nat (t * 16)"
    by (simp only: unat_eq_nat_uint)
  then have "unat n \<le> nat (t * 16) + 15"
    using a unfolding t(3) by (simp add: unat_word_ariths)
  then show ?thesis using t(2) by linarith
qed

lemma sector_position_eq:
  assumes "get_logical_sector sector_id = Some n"
  shows "sector_position n = 1296 * unat n"
  using get_logical_sector_bound [OF assms] by (simp add: sector_position_def unat_word_ariths)

lemma sector_put:
  assumes "length bs = 1296"
  shows "mo_sector (put_bytes (1296 * n) bs (img @ replicate (1296 * n - length img) 0)) n = bs"
    "m \<noteq> n \<Longrightarrow> 1296 * (m + 1) \<le> length img
      \<Longrightarrow> mo_sector (put_bytes (1296 * n) bs (img @ replicate (1296 * n - length img) 0)) m = mo_sector img m"
proof -
  let ?d = "img @ replicate (1296 * n - length img) 0"
  show "mo_sector (put_bytes (1296 * n) bs ?d) n = bs"
    using assms by (simp add: mo_sector_def put_bytes_def)
  assume m: "m \<noteq> n" "1296 * (m + 1) \<le> length img"
  have "take 1296 (drop (1296 * m) (put_bytes (1296 * n) bs ?d)) = take 1296 (drop (1296 * m) ?d)"
  proof (cases "m < n")
    case True
    then have "1296 * m + 1296 \<le> 1296 * n" by linarith
    moreover from this have "take 1296 (drop (1296 * m) (take (1296 * n) ?d)) = take 1296 (drop (1296 * m) ?d)"
      by (simp only: drop_take take_take) (simp add: min_def)
    ultimately show ?thesis by (simp add: put_bytes_def)
  next
    case False
    then have "1296 * n + 1296 \<le> 1296 * m" using m(1) by linarith
    then obtain j where j: "1296 * m = 1296 * n + 1296 + j" using le_Suc_ex by blast
    obtain A where A: "take (1296 * n) ?d = A" "length A = 1296 * n" by simp
    have "drop (1296 * m) (put_bytes (1296 * n) bs ?d) = drop (1296 * m) ?d"
      unfolding put_bytes_def A j using A(2) assms by (simp add: add.commute)
    then show ?thesis by simp
  qed
  then show "mo_sector (put_bytes (1296 * n) bs ?d) m = mo_sector img m" using m(2) by (simp add: mo_sector_def)
qed

section \<open>Buffers\<close>

text \<open>The two buffers of the error correction, one for input and one for output.\<close>

definition mo_buffers :: "'a mo_scheme \<Rightarrow> bool" where
  "mo_buffers s \<longleftrightarrow> length (ecc_buffer s) = 2 \<and> (\<forall>i < 2. length (db_data (ecc_buffer s ! i)) = 1296)
     \<and> (eccin s = 0 \<and> eccout s = 1 \<or> eccin s = 1 \<and> eccout s = 0)"

lemma toggle_buffers: 
  assumes "mo_buffers s"
  shows "eccin (ecc_toggle_buffer s) = eccout s" "eccout (ecc_toggle_buffer s) = eccin s"
    "ecc_buffer (ecc_toggle_buffer s) = ecc_buffer s"
  using assms by (auto simp: mo_buffers_def ecc_toggle_buffer_def)

lemma upd_ecc_sel [simp]:
  "mo_buffers s \<Longrightarrow> ecc_buffer (upd_ecc (eccin s) f s) ! eccin s = f (ecc_in s)"
  "mo_buffers s \<Longrightarrow> ecc_buffer (upd_ecc (eccout s) f s) ! eccout s = f (ecc_out s)"
  "mo_buffers s \<Longrightarrow> ecc_buffer (upd_ecc (eccin s) f s) ! eccout s = ecc_out s"
  "mo_buffers s \<Longrightarrow> ecc_buffer (upd_ecc (eccout s) f s) ! eccin s = ecc_in s"
  "eccin (upd_ecc i f s) = eccin s" "eccout (upd_ecc i f s) = eccout s"
  by (auto simp: upd_ecc_def mo_buffers_def)

lemma mo_buffers_upd:
  assumes "mo_buffers s" "\<And>b. length (db_data b) = 1296 \<Longrightarrow> length (db_data (f b)) = 1296"
  shows "mo_buffers (upd_ecc i f s)"
  using assms by (cases "i < 2") (auto simp: mo_buffers_def upd_ecc_def nth_list_update)

text \<open>What belongs to the disk and not to the error correction.\<close>

definition same_disk :: "'a mo_scheme \<Rightarrow> 'a mo_scheme \<Rightarrow> bool" where
  "same_disk s t \<longleftrightarrow> host_files t = host_files s \<and> mo t = mo s \<and> dnum t = dnum s"

lemma ecc_encode_effect:
  assumes "mo_buffers s" "\<not> tst (csr2 s) MOCSR2_ECC_DIS" "db_limit (ecc_in s) = MO_SECTORSIZE_DATA"
  shows "\<exists>t. ecc_encode s = Some t \<and> same_disk s t
    \<and> db_data (ecc_out t) = rs_encode (db_data (ecc_in s)) \<and> db_limit (ecc_out t) = MO_SECTORSIZE_DISK"
proof -
  let ?f = "\<lambda>b. b\<lparr>db_data := rs_encode (db_data b), db_size := MO_SECTORSIZE_DISK, db_limit := MO_SECTORSIZE_DISK\<rparr>"
  let ?t = "upd_ecc (eccin s) ?f s"
  have b: "mo_buffers ?t" by (rule mo_buffers_upd [OF assms(1)]) (simp add: rs_encode_product_code(1))
  have "same_disk s (ecc_toggle_buffer ?t)" by (simp add: same_disk_def ecc_toggle_buffer_def upd_ecc_def)
  then show ?thesis using assms b toggle_buffers [OF b] by (simp add: ecc_encode_def)
qed

lemma mo_write_sector_effect:
  assumes "get_logical_sector sector_id = Some n" "db_limit (ecc_out s) = MO_SECTORSIZE_DISK"
    "length (db_data (ecc_out s)) = 1296" "drv_dsk (drive s) = Some (path, True)" "host_files s path = Some img"
  shows "\<exists>t img'. mo_write_sector sector_id s = Some t \<and> host_files t = (host_files s)(path \<mapsto> img')
    \<and> mo_sector img' (unat n) = db_data (ecc_out s)
    \<and> (\<forall>m. m \<noteq> unat n \<and> 1296 * (m + 1) \<le> length img \<longrightarrow> mo_sector img' m = mo_sector img m)"
proof -
  let ?d = "put_bytes (1296 * unat n) (db_data (ecc_out s)) (img @ replicate (1296 * unat n - length img) 0)"
  have "\<exists>t. mo_write_sector sector_id s = Some t \<and> host_files t = (host_files s)(path \<mapsto> ?d)"
    using assms by (simp add: mo_write_sector_def File_Write_def sector_position_eq upd_ecc_def)
  then show ?thesis using sector_put [OF assms(3), where n = "unat n" and img = img] by blast
qed

text \<open>The buffer after a sector has been read.\<close>

definition sector_read :: "u8 list \<Rightarrow> device_buffer \<Rightarrow> device_buffer" where
  "sector_read bs b = b\<lparr>db_data := bs, db_size := MO_SECTORSIZE_DISK, db_limit := MO_SECTORSIZE_DISK\<rparr>"

lemma mo_read_sector_eq:
  assumes "mo_buffers s" "get_logical_sector sector_id = Some n" "drv_dsk (drive s) = Some (path, rw)"
    "host_files s path = Some img" "length (mo_sector img (unat n)) = 1296"
  shows "mo_read_sector sector_id s = Some (upd_ecc (eccin s) (sector_read (mo_sector img (unat n))) s)"
proof -
  have "put_bytes 0 (mo_sector img (unat n)) (db_data (ecc_in s)) = mo_sector img (unat n)"
    using assms(1,5) by (auto simp: put_bytes_def mo_buffers_def)
  then show ?thesis
    using assms by (simp add: mo_read_sector_def File_Read_def sector_position_eq [OF assms(2)] mo_sector_def upd_ecc_def sector_read_def)
qed

lemma osp_interrupt_buffers [simp]:
  "ecc_buffer (osp_interrupt i s) = ecc_buffer s" "eccin (osp_interrupt i s) = eccin s" "eccout (osp_interrupt i s) = eccout s"
  by (simp_all add: osp_interrupt_def osp_set_interrupts_def upd_osp_def set_interrupt_def Let_def scr_get_interrupt_level_def M68000_CheckInterrupt_def)

lemma upd_osp_sel [simp]:
  "ecc_buffer (upd_osp g s) = ecc_buffer s" "eccin (upd_osp g s) = eccin s" "eccout (upd_osp g s) = eccout s"
  "osp (upd_osp g s) = g (osp s)"
  by (simp_all add: upd_osp_def)

lemma ecc_decode_eq:
  assumes "mo_buffers s" "\<not> tst (csr2 s) MOCSR2_ECC_DIS" "db_size (ecc_in s) = MO_SECTORSIZE_DISK"
    "rs_decode (db_data (ecc_in s)) = (int k, d)" "length d = 1296"
    and "u = upd_ecc (eccin s) (\<lambda>b. b\<lparr>db_data := d, db_size := MO_SECTORSIZE_DATA, db_limit := MO_SECTORSIZE_DATA\<rparr>) s"
    and "t = ecc_toggle_buffer (if ecc_cnt (osp s) = 0 then upd_osp (\<lambda>r. r\<lparr>ecc_cnt := of_nat k\<rparr>) u else u)"
  shows "ecc_decode s = Some t" "mo_buffers t" "db_data (ecc_out t) = d" "db_size (ecc_out t) = MO_SECTORSIZE_DATA"
    "db_limit (ecc_out t) = MO_SECTORSIZE_DATA" "osp t = (if ecc_cnt (osp s) = 0 then (osp s)\<lparr>ecc_cnt := of_nat k\<rparr> else osp s)"
proof -
  have b: "mo_buffers u" unfolding assms(6) using assms(5) by (intro mo_buffers_upd assms(1)) simp
  have o: "osp u = osp s" by (simp add: assms(6) upd_ecc_def)
  show "ecc_decode s = Some t" unfolding assms(7) using assms(1-4) o by (simp add: ecc_decode_def assms(6))
  show "mo_buffers t" unfolding assms(7) using b by (auto simp: mo_buffers_def ecc_toggle_buffer_def)
  have out: "eccout t = eccin u" "ecc_buffer t = ecc_buffer u" unfolding assms(7) using b
    by (auto simp: mo_buffers_def ecc_toggle_buffer_def)
  then show "db_data (ecc_out t) = d" "db_size (ecc_out t) = MO_SECTORSIZE_DATA" "db_limit (ecc_out t) = MO_SECTORSIZE_DATA"
    using assms(1) by (simp_all add: assms(6))
  show "osp t = (if ecc_cnt (osp s) = 0 then (osp s)\<lparr>ecc_cnt := of_nat k\<rparr> else osp s)"
    unfolding assms(7) using o by (simp add: ecc_toggle_buffer_def)
qed

lemma ecc_decode_effect:
  assumes "mo_buffers s" "\<not> tst (csr2 s) MOCSR2_ECC_DIS" "db_size (ecc_in s) = MO_SECTORSIZE_DISK"
    "rs_decode (db_data (ecc_in s)) = (int k, d)" "length d = 1296"
  shows "\<exists>t. ecc_decode s = Some t \<and> db_data (ecc_out t) = d \<and> db_size (ecc_out t) = MO_SECTORSIZE_DATA
    \<and> ecc_cnt (osp t) = (if ecc_cnt (osp s) = 0 then of_nat k else ecc_cnt (osp s)) \<and> err_stat (osp t) = err_stat (osp s)"
  using ecc_decode_eq [OF assms refl refl] by auto

section \<open>Round trip\<close>

lemma same_disk_drive: "same_disk s t \<Longrightarrow> drive t = drive s \<and> host_files t = host_files s"
  by (simp add: same_disk_def)

lemma mo_encode_write:
  assumes "mo_buffers s" "\<not> tst (csr2 s) MOCSR2_ECC_DIS" "db_limit (ecc_in s) = MO_SECTORSIZE_DATA"
    and "get_logical_sector sector_id = Some n" "drv_dsk (drive s) = Some (path, True)" "host_files s path = Some img"
  shows "\<exists>t img1. do { s \<leftarrow> ecc_encode s; mo_write_sector sector_id s } = Some t
    \<and> host_files t = (host_files s)(path \<mapsto> img1) \<and> mo_sector img1 (unat n) = rs_encode (db_data (ecc_in s))
    \<and> (\<forall>m. m \<noteq> unat n \<and> 1296 * (m + 1) \<le> length img \<longrightarrow> mo_sector img1 m = mo_sector img m)"
proof -
  obtain e where e: "ecc_encode s = Some e" "same_disk s e" "db_data (ecc_out e) = rs_encode (db_data (ecc_in s))"
    "db_limit (ecc_out e) = MO_SECTORSIZE_DISK"
    using ecc_encode_effect [OF assms(1-3)] by blast
  have len: "length (db_data (ecc_in s)) = 1296" using assms(1) by (auto simp: mo_buffers_def)
  show ?thesis
    using mo_write_sector_effect [OF assms(4) e(4), of path img] same_disk_drive [OF e(2)] assms(5,6) e(1,3)
      rs_encode_product_code(1) [OF len] by simp
qed

lemma mo_read_decode:
  assumes "mo_buffers u" "\<not> tst (csr2 u) MOCSR2_ECC_DIS" "drv_dsk (drive u) = Some (path, rw)" "host_files u path = Some img"
    and "get_logical_sector sector_id = Some n" "length (mo_sector img (unat n)) = 1296" "length d = 1296"
    and "one_per_row (mo_sector img (unat n)) (rs_encode d)"
  shows "\<exists>v. do { u \<leftarrow> mo_read_sector sector_id u; ecc_decode u } = Some v
    \<and> take 1024 (db_data (ecc_out v)) = take 1024 d \<and> err_stat (osp v) = err_stat (osp u)
    \<and> (ecc_cnt (osp u) = 0 \<longrightarrow> ecc_cnt (osp v) = of_nat (card (damage (mo_sector img (unat n)) (rs_encode d))))"
proof -
  let ?r = "upd_ecc (eccin u) (sector_read (mo_sector img (unat n))) u"
  have r: "mo_buffers ?r" using assms(6) by (intro mo_buffers_upd assms(1)) (simp add: sector_read_def)
  have o: "osp ?r = osp u" by (simp add: upd_ecc_def)
  obtain d' where d': "rs_decode (mo_sector img (unat n)) = (int (card (damage (mo_sector img (unat n)) (rs_encode d))), d')"
    "length d' = 1296" "take 1024 d' = take 1024 d"
    using rs_decode_rows [OF assms(7,6,8)] by blast
  show ?thesis
    using ecc_decode_effect [OF r _ _ _ d'(2)] assms(1,2) mo_read_sector_eq [OF assms(1,5,3,4,6)] d'(1,3) o
    by (auto simp: sector_read_def)
qed

text \<open>
  C12. What is written to a sector of the optical disk is read back. Encoding the input buffer and
  writing it to a sector changes, of the image file, no other sector. Later, whatever happened
  to the controller and the drives and if at most one byte in each row of the product code of
  the stored sector has changed, reading the sector and decoding it leaves in the output
  buffer the 1024 bytes that were in the input buffer; no error is signalled, and the error
  count register, if it was cleared, has the number of changed bytes.
\<close>

theorem mo_sector_roundtrip:
  fixes s :: "'a mo_scheme"
  assumes "mo_buffers s" "\<not> tst (csr2 s) MOCSR2_ECC_DIS" "db_limit (ecc_in s) = MO_SECTORSIZE_DATA"
    and "get_logical_sector sector_id = Some n" "drv_dsk (drive s) = Some (path, True)" "host_files s path = Some img"
  shows "\<exists>t img1. do { s \<leftarrow> ecc_encode s; mo_write_sector sector_id s } = Some t
    \<and> host_files t = (host_files s)(path \<mapsto> img1)
    \<and> (\<forall>m. m \<noteq> unat n \<and> 1296 * (m + 1) \<le> length img \<longrightarrow> mo_sector img1 m = mo_sector img m)
    \<and> (\<forall>(u :: 'b mo_scheme) rw img2. mo_buffers u \<and> \<not> tst (csr2 u) MOCSR2_ECC_DIS
         \<and> drv_dsk (drive u) = Some (path, rw) \<and> host_files u path = Some img2
         \<and> length (mo_sector img2 (unat n)) = 1296
         \<and> one_per_row (mo_sector img2 (unat n)) (mo_sector img1 (unat n)) \<longrightarrow>
       (\<exists>v. do { u \<leftarrow> mo_read_sector sector_id u; ecc_decode u } = Some v
          \<and> take 1024 (db_data (ecc_out v)) = take 1024 (db_data (ecc_in s)) \<and> err_stat (osp v) = err_stat (osp u)
          \<and> (ecc_cnt (osp u) = 0 \<longrightarrow>
               ecc_cnt (osp v) = of_nat (card (damage (mo_sector img2 (unat n)) (mo_sector img1 (unat n)))))))"
proof -
  have d: "length (db_data (ecc_in s)) = 1296" using assms(1) by (auto simp: mo_buffers_def)
  obtain t img1 where t: "do { s \<leftarrow> ecc_encode s; mo_write_sector sector_id s } = Some t"
    "host_files t = (host_files s)(path \<mapsto> img1)" "mo_sector img1 (unat n) = rs_encode (db_data (ecc_in s))"
    "\<forall>m. m \<noteq> unat n \<and> 1296 * (m + 1) \<le> length img \<longrightarrow> mo_sector img1 m = mo_sector img m"
    using mo_encode_write [OF assms] by blast
  note mo_read_decode [OF _ _ _ _ assms(4) _ d, folded t(3)]
  then show ?thesis
    by (intro exI [of _ t] exI [of _ img1] conjI allI impI) (use t(1,2,4) in blast)+
qed

text \<open>A machine with a disk in the first drive, after a reset of the controller.\<close>

definition sample_unit :: mo_unit where
  "sample_unit = \<lparr>drv_status = 0, dstat = 0, estat = 0, hstat = 0, drv_head = NO_HEAD, head_pos = 0, ho_head_pos = 0, sec_offset = 0,
     drv_dsk = None, spinning = False, spiraling = False, seeking = False, drv_attn = False, drv_complete = False,
     drv_protected = False, drv_inserted = False, drv_enabled = False, drv_connected = False\<rparr>"

definition sample_mo :: mo where
  "sample_mo = dma.extend (sample_dma\<lparr>eccout := 1, host_files := [''mo.img'' \<mapsto> replicate 12960 0x11],
       ecc_buffer := replicate 2 \<lparr>db_data = replicate 1296 7, db_size = 0, db_limit = MO_SECTORSIZE_DATA\<rparr>\<rparr>) (mo.fields
     \<lparr>tracknuml = 0, tracknumh = 0, sector_num = 0, sector_count = 0, osp_intstatus = 0, osp_intmask = 0, ctrlr_csr2 = 0,
       ctrlr_csr1 = 0, csrl = 0, csrh = 0, err_stat = 0, ecc_cnt = 0, osp_init = 0, osp_format = 0, osp_mark = 0,
       osp_flag = replicate 7 0\<rparr>
     [sample_unit\<lparr>drv_dsk := Some (''mo.img'', True), drv_connected := True, drv_inserted := True\<rparr>, sample_unit]
     0 0 ECC_MODE_READ ECC_STATE_DONE FMT_MODE_IDLE False 0 False False False (-1))"

lemma sample_mo_facts:
  "mo_buffers sample_mo" "csr2 sample_mo = 0" "db_limit (ecc_in sample_mo) = MO_SECTORSIZE_DATA"
  "drv_dsk (drive sample_mo) = Some (''mo.img'', True)" "host_files sample_mo ''mo.img'' = Some (replicate 12960 0x11)"
  by (simp_all add: sample_mo_def sample_dma_def mo.defs dma.defs esp.defs mo_buffers_def nth_Cons' less_2_cases_iff)

theorem mo_sector_roundtrip_witness:
  "get_logical_sector 0x100003 = Some 3 \<and> (\<exists>t img1. do { s \<leftarrow> ecc_encode sample_mo; mo_write_sector 0x100003 s } = Some t
    \<and> host_files t = (host_files sample_mo)(''mo.img'' \<mapsto> img1)
    \<and> mo_sector img1 4 = mo_sector (replicate 12960 0x11) 4)"
proof -
  have n: "get_logical_sector 0x100003 = Some 3" by code_simp
  show ?thesis
    using mo_sector_roundtrip [OF sample_mo_facts(1) _ sample_mo_facts(3) n sample_mo_facts(4,5)] n
    by (simp add: sample_mo_facts(2)) force
qed

end
