(* ===== verification/MoTransfer.thy ===== *)
theory MoTransfer
  imports MoDisk ScsiTransfer
begin

text \<open>
  Reading from the optical disk as the guest sees it: a sector found by the formatter is decoded
  and stored in main memory by two runs of the error correction's event handler.
\<close>

section \<open>Frames\<close>

text \<open>What the DMA transfer needs and what the steps before it do not change.\<close>

definition dma_frame :: "'a mo_scheme \<Rightarrow> 'a mo_scheme \<Rightarrow> bool" where
  "dma_frame s t \<longleftrightarrow> dma t = dma s \<and> modma t = modma s \<and> NEXTRam t = NEXTRam s \<and> mem_bank t = mem_bank s
     \<and> next_ram_bank0_mask t = next_ram_bank0_mask s \<and> next_ram_bank1_mask t = next_ram_bank1_mask s
     \<and> next_ram_bank2_mask t = next_ram_bank2_mask s \<and> next_ram_bank3_mask t = next_ram_bank3_mask s"

lemma dma_frame_trans: "dma_frame s t \<Longrightarrow> dma_frame t u \<Longrightarrow> dma_frame s u"
  by (simp add: dma_frame_def)

lemma dma_frame_mask: "dma_frame s t \<Longrightarrow> ram_mask k t = ram_mask k s"
  by (simp add: dma_frame_def)

lemma dma_frame_armed: "dma_frame s t \<Longrightarrow> dma_armed c k a n t = dma_armed c k a n s"
  using dma_frame_mask [of s t k] by (simp add: dma_armed_def ram_region_def dma_frame_def)

lemma set_interrupt_mo:
  "dma_frame s (set_interrupt i st t) = dma_frame s t" "cyc_inv (set_interrupt i st t) = cyc_inv t"
  "osp (set_interrupt i st t) = osp t" "ecc_buffer (set_interrupt i st t) = ecc_buffer t" "mo (set_interrupt i st t) = mo t"
  "eccin (set_interrupt i st t) = eccin t" "eccout (set_interrupt i st t) = eccout t" "dnum (set_interrupt i st t) = dnum t"
  "ecc_mode (set_interrupt i st t) = ecc_mode t" "ecc_state (set_interrupt i st t) = ecc_state t" "ecc_repeat (set_interrupt i st t) = ecc_repeat t"
  by (subst set_interrupt_eq, simp add: dma_frame_def cyc_inv_frame(1) [of "t\<lparr>scrIntStat := x, scrIntLevel := y, spcflag_int := z\<rparr>" t for x y z])+

lemma frame_updates [simp]:
  "dma_frame s (upd_osp f t) = dma_frame s t" "dma_frame s (upd_ecc i g t) = dma_frame s t"
  "dma_frame s (ecc_toggle_buffer t) = dma_frame s t" "dma_frame s (osp_interrupt v t) = dma_frame s t"
  "dma_frame s (t\<lparr>ecc_mode := m\<rparr>) = dma_frame s t" "dma_frame s (t\<lparr>ecc_state := x\<rparr>) = dma_frame s t"
  "dma_frame s (t\<lparr>ecc_repeat := b\<rparr>) = dma_frame s t" "dma_frame s (t\<lparr>sector_timer := n\<rparr>) = dma_frame s t"
  "dma_frame s (t\<lparr>fmt_mode := fm\<rparr>) = dma_frame s t" "dma_frame s (fmt_sector_done t) = dma_frame s t" "dma_frame s s"
  by (simp_all add: fmt_sector_done_def osp_interrupt_def osp_set_interrupts_def set_interrupt_mo Let_def)
    (simp_all add: dma_frame_def upd_osp_def upd_ecc_def ecc_toggle_buffer_def set_interrupt_mo)

lemma cyc_inv_mo_fields [simp]:
  "cyc_inv (upd_osp f t) = cyc_inv t" "cyc_inv (upd_ecc i g t) = cyc_inv t" "cyc_inv (ecc_toggle_buffer t) = cyc_inv t"
  "cyc_inv (t\<lparr>ecc_mode := m\<rparr>) = cyc_inv t" "cyc_inv (t\<lparr>ecc_state := x\<rparr>) = cyc_inv t"
  "cyc_inv (t\<lparr>ecc_repeat := b\<rparr>) = cyc_inv t" "cyc_inv (t\<lparr>sector_timer := n\<rparr>) = cyc_inv t"
  "cyc_inv (t\<lparr>fmt_mode := fm\<rparr>) = cyc_inv t"
  by (simp_all add: cyc_inv_def cycle_queue_def time_queue_def upd_osp_def upd_ecc_def ecc_toggle_buffer_def)

lemma cyc_inv_mo_steps [simp]:
  "cyc_inv (osp_interrupt v t) = cyc_inv t" "cyc_inv (fmt_sector_done t) = cyc_inv t"
  by (simp_all add: fmt_sector_done_def osp_interrupt_def osp_set_interrupts_def set_interrupt_mo Let_def)

lemma dma_frame_sched: "t = sched_upd t u \<Longrightarrow> dma_frame s t = dma_frame s u"
  by (erule ssubst) (simp add: dma_frame_def sched_upd_def)

text \<open>What scheduling leaves alone in the controller.\<close>

definition mo_frame :: "'a mo_scheme \<Rightarrow> 'a mo_scheme \<Rightarrow> bool" where
  "mo_frame s t \<longleftrightarrow> dma.more t = dma.more s \<and> ecc_buffer t = ecc_buffer s \<and> eccin t = eccin s \<and> eccout t = eccout s"

lemma mo_frameD:
  assumes "mo_frame s t"
  shows "osp t = osp s" "mo t = mo s" "dnum t = dnum s" "ecc_mode t = ecc_mode s" "ecc_state t = ecc_state s"
    "ecc_repeat t = ecc_repeat s" "fmt_mode t = fmt_mode s" "mo_buffers t = mo_buffers s" "ecc_in t = ecc_in s" "ecc_out t = ecc_out s"
  using assms by (simp_all add: mo_frame_def mo_buffers_def) (cases s; cases t; simp add: mo_frame_def)+

lemma mo_frame_sched: "t = sched_upd t s \<Longrightarrow> mo_frame s t"
  by (erule ssubst) (simp add: mo_frame_def sched_upd_def)

lemma cycle_event_returns:
  fixes s :: "'a mo_scheme"
  assumes "cyc_inv s"
  shows "\<exists>t. CycInt_AddCycleTimeEvent ct ft EVENT_MO_ECC_IO s = Some t \<and> cyc_inv t \<and> mo_frame s t
      \<and> dma_frame s t \<and> CycInt_EventPending EVENT_MO_ECC_IO t"
    "\<exists>t. CycInt_UpdateCycleTimeEvent ct ft EVENT_MO_ECC_IO s = Some t \<and> cyc_inv t \<and> mo_frame s t
      \<and> dma_frame s t \<and> CycInt_EventPending EVENT_MO_ECC_IO t"
proof -
  have pend: "CycInt_EventPending EVENT_MO_ECC_IO t" if "cyc_inv t" "(EVENT_MO_ECC_IO, x) \<in> set (cycle_abs t)" for t :: "'a mo_scheme" and x
    using that by (force simp: pending_iff)
  have frame: "mo_frame s t \<and> dma_frame s t" if "t = sched_upd t s" for t
    using that by (metis dma_frame_sched frame_updates(11) mo_frame_sched)
  obtain c where "CycInt_AddCycleTimeEvent ct ft EVENT_MO_ECC_IO s = CycInt_AddCyclesEvent c EVENT_MO_ECC_IO s"
    unfolding CycInt_AddCycleTimeEvent_def Let_def by blast
  then show "\<exists>t. CycInt_AddCycleTimeEvent ct ft EVENT_MO_ECC_IO s = Some t \<and> cyc_inv t \<and> mo_frame s t
      \<and> dma_frame s t \<and> CycInt_EventPending EVENT_MO_ECC_IO t"
    using AddCyclesEvent_effect [OF assms, of EVENT_MO_ECC_IO c] pend frame by fastforce
  obtain c where "CycInt_UpdateCycleTimeEvent ct ft EVENT_MO_ECC_IO s = CycInt_UpdateCyclesEvent c EVENT_MO_ECC_IO s"
    unfolding CycInt_UpdateCycleTimeEvent_def Let_def by blast
  then show "\<exists>t. CycInt_UpdateCycleTimeEvent ct ft EVENT_MO_ECC_IO s = Some t \<and> cyc_inv t \<and> mo_frame s t
      \<and> dma_frame s t \<and> CycInt_EventPending EVENT_MO_ECC_IO t"
    using UpdateCyclesEvent_effect [OF assms, of EVENT_MO_ECC_IO c] pend frame by fastforce
qed

section \<open>Draining\<close>

lemma set_interrupt_ecc: "ecc_buffer (set_interrupt i st s) = ecc_buffer s"
  by (subst set_interrupt_eq) simp

lemma ecc_dma_interrupt [simp]: "ecc_buffer (dma_interrupt c s) = ecc_buffer s"
  by (simp add: dma_interrupt_def upd_csr_def upd_dma_def Let_def set_interrupt_ecc)

lemma full_buffer:
  assumes "mo_buffers s" "db_size (ecc_out s) = MO_SECTORSIZE_DATA" "db_limit (ecc_out s) = MO_SECTORSIZE_DATA"
  shows "ecc_ok s" "ecc_stream s = take 1024 (db_data (ecc_out s))"
  using assms by (auto simp: ecc_ok_def ecc_stream_def mo_buffers_def Let_def)

lemma draining_stores:
  fixes s :: "'a mo_scheme"
  assumes "ecc_state s = ECC_STATE_DRAINING" "mo_buffers s"
    and "db_size (ecc_out s) = MO_SECTORSIZE_DATA" "db_limit (ecc_out s) = MO_SECTORSIZE_DATA" "xs = take 1024 (db_data (ecc_out s))"
    and "modma s = \<lparr>burst_size = 0, burst_limit = 0, burst_buf = buf\<rparr>" "length buf = 16"
    and "dma_armed CHANNEL_DISK k a 1024 s" "\<not> tst (dma_csr (dma s CHANNEL_DISK)) DMA_SUPDATE"
    and "\<not> ecc_repeat s" "\<not> tst (csr2 s) MOCSR2_ECC_DIS"
  shows "\<exists>t. MO_ECC_IO_Handler dev s = Some t \<and> ecc_state t = ECC_STATE_DONE \<and> osp t = osp s \<and> dma_finished CHANNEL_DISK t
    \<and> (\<forall>i < 1024. mem_get dev SZ_BYTE (a + of_nat i) t = Some (Inr (ucast (xs ! i)), t))
    \<and> (\<forall>j. j < unat (a AND ram_mask k s) \<or> unat (a AND ram_mask k s) + 1024 \<le> j \<longrightarrow> arr_byte (NEXTRam t) j = arr_byte (NEXTRam s) j)"
proof -
  let ?at = "unat (a AND ram_mask k s)"
  have len: "length xs = 1024" using assms(2,5) by (auto simp: mo_buffers_def)
  have port: "port_burst mo_port s = modma s" "port_channel mo_port = CHANNEL_DISK" by (simp_all add: mo_port_def)
  note full = full_buffer [OF assms(2-4), folded assms(5)]
  have region: "ram_region k a 1024 s" using assms(8) by (simp add: dma_armed_def)
  obtain r where r: "port_write_memory dev mo_port s = Some (dma_interrupt CHANNEL_DISK r)" "ecc_ok r" "ecc_stream r = []"
    "same_frame s r" "dma_finished CHANNEL_DISK (dma_interrupt CHANNEL_DISK r)" "NEXTRam r = store_bytes ?at xs (NEXTRam s)"
    "\<not> tst (dma_csr (dma (dma_interrupt CHANNEL_DISK r) CHANNEL_DISK)) DMA_ENABLE"
    using mo_disk.write_armed [OF full(1), of buf k a dev] assms(6-9) len full(2) unfolding port by auto
  let ?r = "dma_interrupt CHANNEL_DISK r"
  have frame: "same_frame s ?r" using same_frame_trans [OF r(4) dma_interrupt_frame(2)] .
  have same: "osp ?r = osp s" "ecc_repeat ?r = ecc_repeat s" "eccout ?r = eccout s"
    using frame by (cases s; cases ?r; simp add: same_frame_def)+
  have "\<not> port_send_ready mo_port r" using mo_disk.ready [OF r(2)] r(3) by simp
  moreover have "eccout r = eccout s" using r(4) by (simp add: same_frame_def)
  ultimately have empty: "db_size (ecc_out ?r) = 0" using same(3) by (simp add: mo_port_def word_gt_0)
  have again: "port_write_memory dev mo_port ?r = Some ?r" using r(7) by (simp add: port_write_memory_def port Let_def)
  let ?t = "?r\<lparr>ecc_state := ECC_STATE_DONE\<rparr>"
  have "MO_ECC_IO_Handler dev s = Some ?t"
    using assms(1,3,10,11) r(1) empty again same
    by (simp add: MO_ECC_IO_Handler_def ecc_draining_def dma_mo_write_memory_def ecc_sequence_done_def Let_def)
  moreover have "ram_mask k ?t = ram_mask k s" using same_frame_mask [OF frame] by simp
  moreover have "ram_region k a 1024 ?t"
    using region same_frame_region [OF frame, of k a 1024] by (simp add: ram_region_def)
  moreover have "NEXTRam ?t = store_bytes ?at xs (NEXTRam s)" using r(6) by (simp add: dma_interrupt_frame)
  ultimately show ?thesis
    using region_stored [of k a 1024 ?t xs "NEXTRam s" _ dev] len same(1) r(5)
    by (intro exI [of _ ?t]) (auto simp: store_bytes_def dma_finished_def)
qed

section \<open>Finding and decoding a sector\<close>

lemma osp_interrupt_mo [simp]:
  "ecc_repeat (osp_interrupt v s) = ecc_repeat s" "ecc_mode (osp_interrupt v s) = ecc_mode s"
  "mo_buffers (osp_interrupt v s) = mo_buffers s" "mo_buffers (s\<lparr>ecc_state := x\<rparr>) = mo_buffers s"
  "osp (osp_interrupt v s) = (osp s)\<lparr>osp_intstatus := osp_intstatus (osp s) OR v\<rparr>"
  by (simp_all add: osp_interrupt_def osp_set_interrupts_def set_interrupt_mo upd_osp_def mo_buffers_def)

lemma ecc_fields [simp]:
  "ecc_repeat (upd_ecc i f s) = ecc_repeat s" "ecc_repeat (upd_osp g s) = ecc_repeat s" "ecc_repeat (ecc_toggle_buffer s) = ecc_repeat s"
  "ecc_mode (upd_ecc i f s) = ecc_mode s" "ecc_mode (upd_osp g s) = ecc_mode s" "ecc_mode (ecc_toggle_buffer s) = ecc_mode s"
  by (simp_all add: upd_ecc_def upd_osp_def ecc_toggle_buffer_def)

lemma decode_frame:
  assumes "ecc_decode s = Some t"
  shows "dma_frame s t \<and> cyc_inv t = cyc_inv s \<and> ecc_repeat t = ecc_repeat s \<and> ecc_mode t = ecc_mode s"
  using assms by (auto simp: ecc_decode_def Let_def split: prod.splits if_splits)

text \<open>Decoding: the first run of the event handler.\<close>

lemma eccing_decodes:
  fixes s :: "'a mo_scheme"
  assumes "ecc_state s = ECC_STATE_ECCING" "ecc_mode s = ECC_MODE_READ" "\<not> tst (csr2 s) MOCSR2_ECC_DIS" "mo_buffers s"
    "db_size (ecc_in s) = MO_SECTORSIZE_DISK" "rs_decode (db_data (ecc_in s)) = (int n, d)" "length d = 1296" "cyc_inv s"
  shows "\<exists>t. MO_ECC_IO_Handler dev s = Some t \<and> ecc_state t = ECC_STATE_DRAINING \<and> mo_buffers t \<and> db_data (ecc_out t) = d
    \<and> db_size (ecc_out t) = MO_SECTORSIZE_DATA \<and> db_limit (ecc_out t) = MO_SECTORSIZE_DATA
    \<and> csr2 t = csr2 s \<and> ecc_repeat t = ecc_repeat s \<and> dma_frame s t \<and> cyc_inv t \<and> err_stat (osp t) = err_stat (osp s)
    \<and> (ecc_cnt (osp s) = 0 \<longrightarrow> ecc_cnt (osp t) = of_nat n)
    \<and> osp_intstatus (osp t) = osp_intstatus (osp s) OR (if sector_count (osp s) = 0 then MOINT_ECC_DONE else 0)"
proof -
  obtain v where v: "ecc_decode s = Some v" "mo_buffers v" "db_data (ecc_out v) = d" "db_size (ecc_out v) = MO_SECTORSIZE_DATA"
    "db_limit (ecc_out v) = MO_SECTORSIZE_DATA" "osp v = (if ecc_cnt (osp s) = 0 then (osp s)\<lparr>ecc_cnt := of_nat n\<rparr> else osp s)"
    using ecc_decode_eq [OF assms(4,3,5-7) refl refl] by blast
  note frame = decode_frame [OF v(1)]
  let ?w = "(if sector_count (osp v) = 0 then osp_interrupt MOINT_ECC_DONE v else v)\<lparr>ecc_state := ECC_STATE_DRAINING\<rparr>"
  have w: "mo_buffers ?w" "ecc_out ?w = ecc_out v" "csr2 ?w = csr2 s" "ecc_repeat ?w = ecc_repeat s" "dma_frame s ?w" "cyc_inv ?w"
    "osp ?w = (osp v)\<lparr>osp_intstatus := osp_intstatus (osp s) OR (if sector_count (osp s) = 0 then MOINT_ECC_DONE else 0)\<rparr>"
    using v frame assms(8) by (auto simp: osp_interrupt_buffers)
  obtain t where t: "CycInt_UpdateCycleTimeEvent ECC_DELAY 80 EVENT_MO_ECC_IO ?w = Some t" "cyc_inv t" "mo_frame ?w t" "dma_frame ?w t"
    using cycle_event_returns(2) [OF w(6)] by blast
  have "MO_ECC_IO_Handler dev s = Some t"
    using assms(1-3,5) v(1) frame t(1) by (simp add: MO_ECC_IO_Handler_def ecc_eccing_def Let_def)
  then show ?thesis
    using t(2) mo_frameD [OF t(3)] dma_frame_trans [OF w(5) t(4)] w v(3-6) by (auto simp del: frame_updates)
qed

text \<open>The formatter meets the sector it looks for.\<close>

definition mo_reading :: "u32 \<Rightarrow> 'a mo_scheme \<Rightarrow> bool" where
  "mo_reading sector_id s \<longleftrightarrow> fmt_mode s = FMT_MODE_READ \<and> drv_head (drive s) = READ_HEAD \<and> sector_id = fmt_id s
     \<and> osp_init (osp s) AND MOINIT_ID_MASK \<noteq> MOINIT_ID_0 \<and> \<not> tst (osp_init (osp s)) MOINIT_ID_CMP_TRK
     \<and> ecc_state s = ECC_STATE_DONE \<and> \<not> ecc_repeat s \<and> \<not> tst (csr2 s) MOCSR2_ECC_DIS \<and> \<not> tst (csr2 s) MOCSR2_ECC_BLOCKS
     \<and> mo_buffers s"

lemma fmt_sector_done_mo [simp]:
  "ecc_buffer (fmt_sector_done s) = ecc_buffer s" "eccin (fmt_sector_done s) = eccin s" "eccout (fmt_sector_done s) = eccout s"
  "ecc_state (fmt_sector_done s) = ecc_state s" "ecc_mode (fmt_sector_done s) = ecc_mode s" "ecc_repeat (fmt_sector_done s) = ecc_repeat s"
  "csr2 (fmt_sector_done s) = csr2 s" "ecc_cnt (osp (fmt_sector_done s)) = ecc_cnt (osp s)" "err_stat (osp (fmt_sector_done s)) = err_stat (osp s)"
  "sector_count (osp (fmt_sector_done s)) = sector_count (osp s) - 1" "mo_buffers (fmt_sector_done s) = mo_buffers s"
  "osp_intstatus (osp (fmt_sector_done s)) = osp_intstatus (osp s) OR (if sector_count (osp s) = 1 then MOINT_OPER_COMPL else 0)"
  by (simp_all add: fmt_sector_done_def osp_interrupt_def osp_set_interrupts_def set_interrupt_mo Let_def upd_osp_def mo_buffers_def)

lemma fmt_io_reads:
  fixes s :: "'a mo_scheme"
  assumes "mo_reading sector_id s" "get_logical_sector sector_id = Some n" "drv_dsk (drive s) = Some (path, rw)"
    "host_files s path = Some img" "length (mo_sector img (unat n)) = 1296" "cyc_inv s"
  shows "\<exists>t. fmt_io sector_id s = Some t \<and> ecc_state t = ECC_STATE_ECCING \<and> ecc_mode t = ECC_MODE_READ \<and> mo_buffers t
    \<and> db_data (ecc_in t) = mo_sector img (unat n) \<and> db_size (ecc_in t) = MO_SECTORSIZE_DISK \<and> csr2 t = csr2 s \<and> \<not> ecc_repeat t
    \<and> dma_frame s t \<and> cyc_inv t \<and> ecc_cnt (osp t) = ecc_cnt (osp s) \<and> err_stat (osp t) = err_stat (osp s)
    \<and> sector_count (osp t) = sector_count (osp s) - 1 \<and> CycInt_EventPending EVENT_MO_ECC_IO t
    \<and> osp_intstatus (osp t) = osp_intstatus (osp s) OR (if sector_count (osp s) = 1 then MOINT_OPER_COMPL else 0)"
proof -
  note r = assms(1) [unfolded mo_reading_def]
  let ?s = "s\<lparr>sector_timer := 0\<rparr>"
  let ?u = "upd_ecc (eccin s) (sector_read (mo_sector img (unat n))) ?s"
  let ?v = "?u\<lparr>ecc_mode := ECC_MODE_READ, ecc_state := ECC_STATE_ECCING, ecc_repeat := False\<rparr>"
  have s: "mo_buffers ?s" using r by (simp add: mo_buffers_def)
  then have l: "eccin s < length (ecc_buffer s)" by (auto simp: mo_buffers_def)
  have u: "mo_buffers ?u" using assms(5) by (intro mo_buffers_upd s) (simp add: sector_read_def)
  have read: "mo_read_sector sector_id ?s = Some ?u"
    using mo_read_sector_eq [OF s assms(2)] assms(3-5) by simp
  have v: "cyc_inv ?v" "dma_frame s ?v" "osp ?v = osp s" "\<not> ecc_repeat ?u" "mo_buffers ?v" "ecc_state ?u = ecc_state s"
    "ecc_in ?v = sector_read (mo_sector img (unat n)) (ecc_in s)"
    using assms(6) r u l by (simp_all add: mo_buffers_def) (simp_all add: upd_ecc_def)
  obtain t where t: "CycInt_AddCycleTimeEvent ECC_DELAY 80 EVENT_MO_ECC_IO ?v = Some t" "cyc_inv t" "mo_frame ?v t" "dma_frame ?v t"
    "CycInt_EventPending EVENT_MO_ECC_IO t"
    using cycle_event_returns(1) [OF v(1)] by blast
  have "ecc_read ?u = Some t"
    using t(1) v(3,4,6) r by (simp add: ecc_read_def start_ecc_def)
  then have io: "fmt_io sector_id s = Some (fmt_sector_done t)"
    using r read by (simp add: fmt_io_def fmt_match_id_def)
  have "CycInt_EventPending EVENT_MO_ECC_IO (fmt_sector_done t)"
    using t(5) by (simp add: CycInt_EventPending_def fmt_sector_done_def osp_interrupt_def osp_set_interrupts_def set_interrupt_def
        scr_get_interrupt_level_def M68000_CheckInterrupt_def upd_osp_def Let_def)
  then show ?thesis
    using io t(2) mo_frameD [OF t(3)] dma_frame_trans [OF v(2) t(4)] v
    by (intro exI [of _ "fmt_sector_done t"]) (simp add: sector_read_def)
qed

section \<open>The composition\<close>

text \<open>
  C13. Data read from the optical disk reach the memory of the guest. The formatter meets the sector
  it looks for, whose stored bytes are the code word of \<open>d\<close> with at most one damaged byte in
  each row, and the disk channel is set up for 1024 bytes at an address of main memory. Then
  the formatter starts the error correction, the next run of its event handler decodes the
  sector, and the run after that stores the data: every byte of the region is the byte of \<open>d\<close>,
  no other byte of memory has changed, the channel is complete and requests its interrupt, the
  error correction is idle again, no error is signalled, and the error count register, if it
  was cleared, has the number of damaged bytes. With the last sector of a request the
  completion of the operation and of the error correction are both signalled.
\<close>

theorem mo_read_reaches_memory:
  fixes s :: "'a mo_scheme"
  assumes "mo_reading sector_id s" "get_logical_sector sector_id = Some n" "drv_dsk (drive s) = Some (path, rw)"
    and "host_files s path = Some img" "w = mo_sector img (unat n)" "length w = 1296"
    and "length d = 1296" "one_per_row w (rs_encode d)"
    and "modma s = \<lparr>burst_size = 0, burst_limit = 0, burst_buf = buf\<rparr>" "length buf = 16"
    and "dma_armed CHANNEL_DISK k a 1024 s" "\<not> tst (dma_csr (dma s CHANNEL_DISK)) DMA_SUPDATE" "cyc_inv s"
  shows "\<exists>t1 t2 t3. fmt_io sector_id s = Some t1 \<and> CycInt_EventPending EVENT_MO_ECC_IO t1
    \<and> MO_ECC_IO_Handler dev t1 = Some t2 \<and> MO_ECC_IO_Handler dev t2 = Some t3
    \<and> (\<forall>i < 1024. mem_get dev SZ_BYTE (a + of_nat i) t3 = Some (Inr (ucast (d ! i)), t3))
    \<and> (\<forall>j. j < unat (a AND ram_mask k s) \<or> unat (a AND ram_mask k s) + 1024 \<le> j \<longrightarrow> arr_byte (NEXTRam t3) j = arr_byte (NEXTRam s) j)
    \<and> dma_finished CHANNEL_DISK t3 \<and> ecc_state t3 = ECC_STATE_DONE \<and> err_stat (osp t3) = err_stat (osp s)
    \<and> (ecc_cnt (osp s) = 0 \<longrightarrow> ecc_cnt (osp t3) = of_nat (card (damage w (rs_encode d))))
    \<and> osp_intstatus (osp t3) = osp_intstatus (osp s) OR (if sector_count (osp s) = 1 then MOINT_OPER_COMPL OR MOINT_ECC_DONE else 0)"
proof -
  obtain d' where d': "rs_decode w = (int (card (damage w (rs_encode d))), d')" "length d' = 1296" "take 1024 d' = take 1024 d"
    using rs_decode_rows [OF assms(7,6,8)] by blast
  obtain t1 where t1: "fmt_io sector_id s = Some t1" "CycInt_EventPending EVENT_MO_ECC_IO t1"
    "ecc_state t1 = ECC_STATE_ECCING" "ecc_mode t1 = ECC_MODE_READ" "mo_buffers t1" "db_data (ecc_in t1) = w"
    "db_size (ecc_in t1) = MO_SECTORSIZE_DISK" "csr2 t1 = csr2 s" "\<not> ecc_repeat t1" "dma_frame s t1" "cyc_inv t1"
    "ecc_cnt (osp t1) = ecc_cnt (osp s)" "err_stat (osp t1) = err_stat (osp s)" "sector_count (osp t1) = sector_count (osp s) - 1"
    "osp_intstatus (osp t1) = osp_intstatus (osp s) OR (if sector_count (osp s) = 1 then MOINT_OPER_COMPL else 0)"
    using fmt_io_reads [OF assms(1-4)] assms(5,6,13) by auto
  have dis: "\<not> tst (csr2 s) MOCSR2_ECC_DIS" using assms(1) by (simp add: mo_reading_def)
  obtain t2 where t2: "MO_ECC_IO_Handler dev t1 = Some t2" "ecc_state t2 = ECC_STATE_DRAINING" "mo_buffers t2" "db_data (ecc_out t2) = d'"
    "db_size (ecc_out t2) = MO_SECTORSIZE_DATA" "db_limit (ecc_out t2) = MO_SECTORSIZE_DATA" "csr2 t2 = csr2 t1"
    "\<not> ecc_repeat t2" "dma_frame t1 t2" "err_stat (osp t2) = err_stat (osp t1)"
    "ecc_cnt (osp t1) = 0 \<longrightarrow> ecc_cnt (osp t2) = of_nat (card (damage w (rs_encode d)))"
    "osp_intstatus (osp t2) = osp_intstatus (osp t1) OR (if sector_count (osp t1) = 0 then MOINT_ECC_DONE else 0)"
    using eccing_decodes [OF t1(3,4) _ t1(5,7) _ d'(2) t1(11), of "card (damage w (rs_encode d))" dev] dis t1(6,8,9) d'(1) by auto
  note frame = dma_frame_trans [OF t1(10) t2(9)]
  have m: "modma t2 = \<lparr>burst_size = 0, burst_limit = 0, burst_buf = buf\<rparr>" "dma t2 = dma s" "NEXTRam t2 = NEXTRam s"
    using frame assms(9) by (simp_all add: dma_frame_def)
  have "dma_armed CHANNEL_DISK k a 1024 t2" using dma_frame_armed [OF frame] assms(11) by simp
  from draining_stores [OF t2(2,3,5,6) refl m(1) assms(10) this, of dev]
  obtain t3 where t3: "MO_ECC_IO_Handler dev t2 = Some t3" "ecc_state t3 = ECC_STATE_DONE" "osp t3 = osp t2" "dma_finished CHANNEL_DISK t3"
    "\<forall>i < 1024. mem_get dev SZ_BYTE (a + of_nat i) t3 = Some (Inr (ucast (take 1024 d' ! i)), t3)"
    "\<forall>j. j < unat (a AND ram_mask k t2) \<or> unat (a AND ram_mask k t2) + 1024 \<le> j \<longrightarrow> arr_byte (NEXTRam t3) j = arr_byte (NEXTRam t2) j"
    using assms(12) t2(4,7,8) t1(8) dis m(2) by auto
  have "\<forall>i < 1024. mem_get dev SZ_BYTE (a + of_nat i) t3 = Some (Inr (ucast (d ! i)), t3)"
    using t3(5) unfolding d'(3) by simp
  with t3(6) show ?thesis
    using t1 t2 t3(1-4) dma_frame_mask [OF frame] m(3)
    by (intro exI [of _ t1] exI [of _ t2] exI [of _ t3]) (simp add: or.assoc)
qed

text \<open>The sample disk with one damaged byte in the sector the formatter looks for.\<close>

definition sample_sector :: "u8 list" where
  "sample_sector = (rs_encode (replicate 1296 7))[100 := 0x55]"

definition sample_reading :: mo where
  "sample_reading = sample_mo\<lparr>EventList := EventList sample_cycint, nCyclesFirst := nCyclesFirst sample_cycint,
     nTimeFirst := nTimeFirst sample_cycint, host_files := [''mo.img'' \<mapsto> replicate 3888 0 @ sample_sector],
     dma := (dma sample_dma)(CHANNEL_DISK := (dma sample_dma CHANNEL_DISK)\<lparr>dma_csr := DMA_ENABLE,
       dma_next := 0x04000100, dma_limit := 0x04000500\<rparr>),
     osp := (osp sample_mo)\<lparr>tracknumh := 0x10, sector_num := 3, sector_count := 1\<rparr>, fmt_mode := FMT_MODE_READ,
     mo := [(mo sample_mo ! 0)\<lparr>drv_head := READ_HEAD\<rparr>, sample_unit]\<rparr>"

lemma sample_sector_facts:
  "length sample_sector = 1296" "one_per_row sample_sector (rs_encode (replicate 1296 7))"
  using rs_encode_product_code(1) [of "replicate 1296 7"] one_per_row_update by (simp_all add: sample_sector_def)

lemma sample_reading_facts:
  "mo_reading 0x100003 sample_reading" "drv_dsk (drive sample_reading) = Some (''mo.img'', True)"
  "host_files sample_reading ''mo.img'' = Some (replicate 3888 0 @ sample_sector)"
  "modma sample_reading = \<lparr>burst_size = 0, burst_limit = 0, burst_buf = replicate 16 0\<rparr>"
  "dma_armed CHANNEL_DISK 0 0x04000100 1024 sample_reading" "\<not> tst (dma_csr (dma sample_reading CHANNEL_DISK)) DMA_SUPDATE"
  "cyc_inv sample_reading"
proof -
  note defs = sample_reading_def sample_mo_def sample_dma_def sample_unit_def mo.defs dma.defs esp.defs
  show "mo_reading 0x100003 sample_reading"
    by (simp add: mo_reading_def defs mo_buffers_def fmt_id_def nth_Cons' less_2_cases_iff)
  show "drv_dsk (drive sample_reading) = Some (''mo.img'', True)"
    "host_files sample_reading ''mo.img'' = Some (replicate 3888 0 @ sample_sector)"
    "modma sample_reading = \<lparr>burst_size = 0, burst_limit = 0, burst_buf = replicate 16 0\<rparr>"
    "\<not> tst (dma_csr (dma sample_reading CHANNEL_DISK)) DMA_SUPDATE"
    by (simp_all add: defs)
  show "cyc_inv sample_reading"
    using cyc_inv_frame(1) [of sample_reading sample_cycint] sample_cycint_inv by (simp add: sample_reading_def)
  have "ram_region 0 0x04000100 1024 sample_bus"
    using init_region [OF sample_bus_init sample_malloc_ok sample_memory_init(2), of 0 "0x04000100" 1024]
    by (simp add: sample_bus_config in_window_def)
  then have "ram_region 0 0x04000100 1024 sample_reading"
    by (simp add: ram_region_def defs sample_esp_def memory.defs)
  then show "dma_armed CHANNEL_DISK 0 0x04000100 1024 sample_reading"
    by (simp add: dma_armed_def sample_reading_def bad_alignment_def)
qed

theorem mo_read_reaches_memory_witness:
  "\<exists>t1 t2 t3. fmt_io 0x100003 sample_reading = Some t1 \<and> MO_ECC_IO_Handler sample_devices t1 = Some t2
     \<and> MO_ECC_IO_Handler sample_devices t2 = Some t3
     \<and> mem_get sample_devices SZ_BYTE 0x04000164 t3 = Some (Inr (ucast (replicate 1296 (7 :: u8) ! 100)), t3)"
proof -
  note f = sample_reading_facts
  have n: "get_logical_sector 0x100003 = Some 3" by code_simp
  have w: "mo_sector (replicate 3888 0 @ sample_sector) (unat (3 :: u32)) = sample_sector"
    using sample_sector_facts(1) by (simp add: mo_sector_def)
  obtain t1 t2 t3 where t: "fmt_io 0x100003 sample_reading = Some t1" "MO_ECC_IO_Handler sample_devices t1 = Some t2"
    "MO_ECC_IO_Handler sample_devices t2 = Some t3"
    "\<forall>i < 1024. mem_get sample_devices SZ_BYTE (0x04000100 + of_nat i) t3 = Some (Inr (ucast (replicate 1296 (7 :: u8) ! i)), t3)"
    using mo_read_reaches_memory [OF f(1) n f(2,3) w [symmetric] sample_sector_facts(1) _ sample_sector_facts(2) f(4) _ f(5-7), of sample_devices]
    by auto
  from t(1-3) t(4) [rule_format, of 100] show ?thesis by auto
qed

end
