(* ===== verification/MoSafe.thy ===== *)
theory MoSafe
  imports DmaKeeper MoTransfer
begin

text \<open>
  The data of the optical disk controller keep their types in every reachable state: the indices
  of buffers and drives stay in range, and the buffers keep their sizes. The request bit of the
  controller is no part of it: the colour video hardware, the Turbo memory controller and the
  Apple desktop bus set and clear the same bit.
\<close>

section \<open>The invariant\<close>

definition sector_buffer :: "device_buffer \<Rightarrow> bool" where
  "sector_buffer b \<longleftrightarrow> length (db_data b) = 1296 \<and> db_size b \<le> MO_SECTORSIZE_DISK \<and> db_limit b \<le> MO_SECTORSIZE_DISK"

definition mo_ok :: "'a mo_scheme \<Rightarrow> bool" where
  "mo_ok s \<longleftrightarrow> length (ecc_buffer s) = 2 \<and> (\<forall>b \<in> set (ecc_buffer s). sector_buffer b)
     \<and> (eccin s = 0 \<and> eccout s = 1 \<or> eccin s = 1 \<and> eccout s = 0)
     \<and> length (mo s) = 2 \<and> dnum s < 2 \<and> -1 \<le> delayed_drive s \<and> delayed_drive s < 2 \<and> length (osp_flag (osp s)) = 7"

text \<open>What the invariant does not look at.\<close>

lemma mo_ok_fields [simp]:
  "mo_ok (s\<lparr>NEXTRam := m\<rparr>) = mo_ok s" "mo_ok (s\<lparr>NEXTVideo := m\<rparr>) = mo_ok s" "mo_ok (s\<lparr>NEXTbmap := r\<rparr>) = mo_ok s"
  "mo_ok (s\<lparr>bmap_rom_local := x\<rparr>) = mo_ok s" "mo_ok (s\<lparr>bmap_hreq_enable := x\<rparr>) = mo_ok s"
  "mo_ok (s\<lparr>bmap_txdn_enable := x\<rparr>) = mo_ok s" "mo_ok (s\<lparr>bmap_tpe_select := x\<rparr>) = mo_ok s" "mo_ok (s\<lparr>dsp_calls := l\<rparr>) = mo_ok s"
  "mo_ok (s\<lparr>host_files := h\<rparr>) = mo_ok s" "mo_ok (s\<lparr>ConfigureParams := p\<rparr>) = mo_ok s" "mo_ok (s\<lparr>floppy_select := on\<rparr>) = mo_ok s"
  "mo_ok (modma_update u s) = mo_ok s" "mo_ok (upd_dma c d s) = mo_ok s" "mo_ok (s\<lparr>delayed_compl := on, delayed_attn := on'\<rparr>) = mo_ok s"
  "mo_ok (s\<lparr>sector_increment := k\<rparr>) = mo_ok s" "mo_ok (s\<lparr>ecc_mode := em\<rparr>) = mo_ok s" "mo_ok (s\<lparr>ecc_state := es\<rparr>) = mo_ok s"
  "mo_ok (s\<lparr>fmt_mode := fm\<rparr>) = mo_ok s" "mo_ok (s\<lparr>write_timing := on\<rparr>) = mo_ok s" "mo_ok (s\<lparr>sector_timer := k\<rparr>) = mo_ok s"
  "mo_ok (s\<lparr>ecc_repeat := on\<rparr>) = mo_ok s" "mo_ok (s\<lparr>delayed_compl := on\<rparr>) = mo_ok s" "mo_ok (s\<lparr>delayed_attn := on\<rparr>) = mo_ok s"
  "mo_ok (upd_unit i f s) = mo_ok s"
  "length (osp_flag (g (osp s))) = length (osp_flag (osp s)) \<Longrightarrow> mo_ok (upd_osp g s) = mo_ok s"
  by (simp_all add: mo_ok_def upd_unit_def upd_osp_def upd_dma_def)

lemma mo_ok_set_interrupt [simp]: "mo_ok (set_interrupt i st s) = mo_ok s"
  by (subst set_interrupt_eq) (simp add: mo_ok_def)

lemma mo_ok_check_dsp [simp]: "mo_ok (scr_check_dsp_interrupt s) = mo_ok s"
  by (simp add: scr_check_dsp_interrupt_def)

lemma mo_ok_signals [simp]:
  "mo_ok (osp_set_interrupts s) = mo_ok s" "mo_ok (osp_interrupt v s) = mo_ok s" "mo_ok (mo_connect_signals s) = mo_ok s"
  by (simp_all add: osp_set_interrupts_def osp_interrupt_def mo_connect_signals_def Let_def)

text \<open>What changes the buffers.\<close>

lemma mo_ok_ecc: "mo_ok s \<Longrightarrow> (\<And>b. sector_buffer b \<Longrightarrow> sector_buffer (f b)) \<Longrightarrow> mo_ok (upd_ecc i f s)"
  by (cases "i < length (ecc_buffer s)")
    (auto simp: mo_ok_def upd_ecc_def list_update_beyond dest!: set_update_subset_insert [THEN subsetD])

lemma mo_ok_toggle [simp]: "mo_ok s \<Longrightarrow> mo_ok (ecc_toggle_buffer s)"
  by (auto simp: mo_ok_def ecc_toggle_buffer_def)

lemma mo_ok_clear [simp]: "mo_ok s \<Longrightarrow> mo_ok (ecc_clear_buffer s)"
  unfolding ecc_clear_buffer_def Let_def by (intro mo_ok_ecc) (simp_all add: sector_buffer_def)

lemma mo_ok_select [simp]: "mo_ok s \<Longrightarrow> d < 2 \<Longrightarrow> mo_ok (osp_select d s)"
  by (simp add: osp_select_def Let_def) (simp add: mo_ok_def upd_unit_def)

lemma mo_ok_sector_done [simp]: "mo_ok s \<Longrightarrow> mo_ok (fmt_sector_done s)"
  by (simp add: fmt_sector_done_def Let_def)

text \<open>Events.\<close>

lemma mo_ok_sched: "t = sched_upd t s \<Longrightarrow> mo_ok t = mo_ok s"
  by (erule ssubst) (simp add: mo_ok_def sched_upd_def)

lemma mo_ok_removed [simp]: "mo_ok (CycInt_RemovePendingEvent e s) = mo_ok s"
  by (rule mo_ok_sched, rule sched_upd_removed)

abbreviation mo_keeps :: "'a mo_scheme option \<Rightarrow> bool" where
  "mo_keeps \<equiv> all_results mo_ok (\<lambda>s. s)"

lemma mo_event:
  assumes "mo_ok s"
  shows "mo_keeps (CycInt_AddCycleTimeEvent ct ft e s)" "mo_keeps (CycInt_UpdateCycleTimeEvent ct ft e s)"
  using assms
  by (auto simp: all_results_def CycInt_AddCycleTimeEvent_def CycInt_UpdateCycleTimeEvent_def Let_def
      dest!: mo_ok_sched [OF AddCyclesEvent_frame] mo_ok_sched [OF UpdateCyclesEvent_frame]
      mo_ok_sched [OF AddTimeEvent_frame] mo_ok_sched [OF UpdateTimeEvent_frame] split: if_splits)

text \<open>Sequences: the invariant after each step.\<close>

lemmas mo_bind = all_bind [where P = mo_ok and st' = "\<lambda>s. s"] all_bind [where P = "mo_ok :: 'a mo_scheme \<Rightarrow> bool" and st' = snd for P]

section \<open>Buffers of the error correction\<close>

lemma rs_decode_string_length [simp]: "length (snd (rs_decode_string off step s)) = length s"
  by (simp add: rs_decode_string_def Let_def)

lemma decode_columns_length: "length (snd (decode_columns ks n s)) = length s"
  by (induction ks arbitrary: n s) (simp_all add: case_prod_beta)

lemma rs_decode_length:
  assumes "length s = 1296"
  shows "length (snd (rs_decode s)) = 1296"
proof -
  have "length (snd (foldl (\<lambda>(ecount, s) i. let (e, s') = rs_decode_string (36 * i) 1 s in (if e \<noteq> -1 then ecount + e else ecount, s')) (n, s) ks))
      = length s" for n ks and s :: "u8 list"
    by (induction ks arbitrary: n s) (simp_all add: case_prod_beta)
  then have rows: "length (snd (decode_rows s)) = 1296" using assms unfolding decode_rows_def by metis
  have moved: "length (foldl (\<lambda>s i. memmove_in (i * 32) (i * 36) 32 s) v ks) = length v"
    if "length v = 1296" "\<forall>i \<in> set ks. i < 32" for v ks
    using that by (induction ks arbitrary: v) simp_all
  show ?thesis
    using rows decode_columns_length [of "[0..<32]" "fst (decode_rows s)" "snd (decode_rows s)"]
    by (auto simp: rs_decode_def case_prod_beta Let_def moved simp del: upt_rec_numeral split: option.split prod.split)
qed

lemma mo_ok_sector: "mo_ok s \<Longrightarrow> sector_buffer (ecc_in s)" "mo_ok s \<Longrightarrow> sector_buffer (ecc_out s)"
  by (auto simp: mo_ok_def)

lemma ecc_coding:
  assumes "mo_ok s"
  shows "mo_keeps (ecc_decode s)" "mo_keeps (ecc_encode s)"
proof -
  have d: "sector_buffer (b\<lparr>db_data := snd (rs_decode (db_data (ecc_in s))), db_size := MO_SECTORSIZE_DATA, db_limit := MO_SECTORSIZE_DATA\<rparr>)" for b
    using mo_ok_sector(1) [OF assms] by (simp add: sector_buffer_def rs_decode_length)
  have e: "sector_buffer (b\<lparr>db_data := rs_encode (db_data b), db_size := MO_SECTORSIZE_DISK, db_limit := MO_SECTORSIZE_DISK\<rparr>)" if "sector_buffer b" for b
    using that by (simp add: sector_buffer_def rs_encode_product_code(1))
  have "mo_ok (upd_ecc (eccin s) (\<lambda>b. b\<lparr>db_data := snd (rs_decode (db_data (ecc_in s))), db_size := MO_SECTORSIZE_DATA,
      db_limit := MO_SECTORSIZE_DATA\<rparr>) s)" (is "mo_ok ?t") by (rule mo_ok_ecc [OF assms d])
  then have t: "mo_ok ?t" .
  show "mo_keeps (ecc_decode s)"
    using assms t by (simp add: ecc_decode_def case_prod_beta Let_def mo_ok_toggle)
  show "mo_keeps (ecc_encode s)"
    using assms mo_ok_ecc [OF assms e] by (simp add: ecc_encode_def)
qed

text \<open>The channel between the buffers and memory.\<close>

lemma mo_ok_buffers:
  "mo_ok s \<Longrightarrow> sector_buffer b \<Longrightarrow> mo_ok (s\<lparr>ecc_buffer := (ecc_buffer s)[i := b]\<rparr>)"
  using mo_ok_ecc [of s "\<lambda>_. b" i] by (simp add: upd_ecc_def)

interpretation mo_channel: dma_keeper "mo_ok :: 'a mo_scheme \<Rightarrow> bool" mo_port
proof
  fix s :: "'a mo_scheme" and g v
  assume s: "mo_ok s"
  note out = mo_ok_sector(2) [OF s, unfolded sector_buffer_def] and inn = mo_ok_sector(1) [OF s, unfolded sector_buffer_def]
  show "mo_ok (port_upd mo_port g s)" "mo_ok (port_status mo_port s)" using s by (simp_all add: mo_port_def)
  show "all_results mo_ok snd (port_send mo_port s)" if "port_send_ready mo_port s"
  proof -
    have "db_size (ecc_out s) \<noteq> 0" using that by (simp add: mo_port_def word_gt_0)
    then have "db_size (ecc_out s) - 1 \<le> MO_SECTORSIZE_DISK"
      using out by (simp add: word_le_nat_alt unat_minus_one) linarith
    then show ?thesis
      using s out by (auto simp: mo_port_def ecc_send_def arr_get_def all_results_def sector_buffer_def
          split: Option.bind_splits if_splits intro!: mo_ok_buffers)
  qed
  show "all_results mo_ok (\<lambda>s. s) (port_receive mo_port v s)" if "port_receive_ready mo_port s"
  proof -
    have "db_size (ecc_in s) < MO_SECTORSIZE_DISK" using that inn by (auto simp: mo_port_def)
    then have "db_size (ecc_in s) + 1 \<le> MO_SECTORSIZE_DISK" by (rule inc_le)
    then show ?thesis
      using s inn by (auto simp: mo_port_def ecc_receive_def arr_get_def arr_set_def all_results_def sector_buffer_def
          split: Option.bind_splits if_splits intro!: mo_ok_buffers)
  qed
qed simp_all

lemma mo_dma:
  assumes "keeping_devices mo_ok dev" "mo_ok s"
  shows "mo_keeps (dma_mo_write_memory dev s)" "mo_keeps (dma_mo_read_memory dev s)"
  using mo_channel.port_memory_keeps [OF assms]
  by (auto simp: all_results_def dma_mo_write_memory_def dma_mo_read_memory_def)

section \<open>Signals and events\<close>

lemma mo_signals:
  assumes "mo_ok s"
  shows "mo_keeps (mo_set_signals c a d s)" "mo_keeps (mo_set_signals_delayed c a delay s)" "mo_keeps (MO_Interrupt_Handler s)"
proof -
  note s = assms
  show sig: "mo_keeps (mo_set_signals c a d s)" for c a d using s by (simp add: mo_set_signals_def Let_def)
  have drive: "mo_ok (s\<lparr>delayed_drive := d\<rparr>)" if "mo_ok s" "-1 \<le> d" "d < 2" for s :: "'a mo_scheme" and d
    using that by (simp add: mo_ok_def)
  have dnum: "int (dnum s) < 2" if "mo_ok s" for s :: "'a mo_scheme" using that by (simp add: mo_ok_def)
  show "mo_keeps (MO_Interrupt_Handler s)"
    unfolding MO_Interrupt_Handler_def by (rule mo_bind(1) [OF sig]) (simp add: drive)
  show "mo_keeps (mo_set_signals_delayed c a delay s)"
    unfolding mo_set_signals_delayed_def
    using s by (auto intro!: sig mo_event drive dnum mo_bind(1) [OF sig])
qed

section \<open>The controller\<close>

lemma mo_ecc_start:
  assumes "mo_ok s"
  shows "mo_keeps (start_ecc s)" "mo_keeps (ecc_write s)" "mo_keeps (ecc_read s)" "mo_keeps (ecc_verify s)" "mo_keeps (ecc_sequence_done s)"
proof -
  note s = assms
  have start: "mo_keeps (start_ecc s)" if "mo_ok s" for s :: "'a mo_scheme" unfolding start_ecc_def by (rule mo_event(1) [OF that])
  show "mo_keeps (start_ecc s)" "mo_keeps (ecc_write s)" "mo_keeps (ecc_read s)" "mo_keeps (ecc_verify s)" "mo_keeps (ecc_sequence_done s)"
    using s
    by (auto simp: ecc_write_def ecc_read_def ecc_verify_def ecc_sequence_done_def Let_def sector_buffer_def intro!: start mo_ok_ecc)
qed

lemma mo_states:
  assumes "keeping_devices mo_ok dev" "mo_ok s"
  shows "all_results mo_ok snd (ecc_filling dev s)" "all_results mo_ok snd (ecc_eccing s)"
    "all_results mo_ok snd (ecc_draining dev s)" "all_results mo_ok snd (ecc_waiting s)"
proof -
  note dma = mo_dma [OF assms(1)]
  have mode: "mo_ok (upd_ecc i (\<lambda>b. b\<lparr>db_limit := (if c then MO_SECTORSIZE_DISK else MO_SECTORSIZE_DATA)\<rparr>) s)" for i c
    by (rule mo_ok_ecc [OF assms(2)]) (simp add: sector_buffer_def)
  have ready: "mo_ok (upd_ecc i (\<lambda>b. b\<lparr>db_size := MO_SECTORSIZE_DATA, db_limit := MO_SECTORSIZE_DATA\<rparr>) s)" for i
    by (rule mo_ok_ecc [OF assms(2)]) (simp add: sector_buffer_def)
  show "all_results mo_ok snd (ecc_filling dev s)"
    using assms(2) mode [of "eccin s" True] mode [of "eccin s" False] by (auto simp: ecc_filling_def Let_def intro!: mo_bind(1) [OF dma(2)])
  show "all_results mo_ok snd (ecc_eccing s)"
    using assms(2) ready [of "eccin s"]
    by (auto simp: ecc_eccing_def Let_def intro!: mo_bind(1) [OF ecc_coding(1)] mo_bind(1) [OF ecc_coding(2)] mo_bind(1) [OF mo_ecc_start(5)])
  show "all_results mo_ok snd (ecc_draining dev s)"
    using assms(2) by (auto simp: ecc_draining_def Let_def intro!: mo_bind(1) [OF dma(1)] mo_bind(1) [OF mo_ecc_start(5)])
  show "all_results mo_ok snd (ecc_waiting s)"
    using assms(2) by (auto simp: ecc_waiting_def intro!: mo_bind(1) [OF mo_ecc_start(5)] mo_bind(1) [OF mo_ecc_start(2)])
qed

lemma mo_ecc_handler:
  assumes "keeping_devices mo_ok dev" "mo_ok s"
  shows "mo_keeps (MO_ECC_IO_Handler dev s)"
  unfolding MO_ECC_IO_Handler_def
  by (rule mo_bind(2)) (use mo_states [OF assms] assms(2) in \<open>auto simp: case_prod_beta split: ECC_STATE.split intro!: mo_event\<close>)

lemma mo_sectors:
  assumes "mo_ok s"
  shows "mo_keeps (mo_read_sector n s)" "mo_keeps (mo_write_sector n s)" "mo_keeps (mo_erase_sector n s)" "mo_keeps (mo_verify_sector n s)"
proof -
  have "length (File_Read h (db_data (ecc_in s)) 1296 k f) = 1296" for h k f
    using mo_ok_sector(1) [OF assms] by (auto simp: File_Read_def put_bytes_def sector_buffer_def split: option.split)
  then show "mo_keeps (mo_read_sector n s)" "mo_keeps (mo_verify_sector n s)"
    using assms by (auto simp: mo_verify_sector_def mo_read_sector_def sector_buffer_def Let_def all_results_def
        split: Option.bind_splits intro!: mo_ok_ecc)
  show "mo_keeps (mo_write_sector n s)" "mo_keeps (mo_erase_sector n s)"
    using assms by (auto simp: mo_write_sector_def mo_erase_sector_def sector_buffer_def Let_def all_results_def
        split: Option.bind_splits if_splits intro!: mo_ok_ecc)
qed

lemma mo_formatter:
  assumes "mo_ok s"
  shows "all_results mo_ok snd (fmt_match_id n s)" "mo_keeps (osp_formatter_cmd s)" "mo_ok (osp_formatter_cmd2 s)"
proof -
  show "all_results mo_ok snd (fmt_match_id n s)"
    using assms by (simp add: fmt_match_id_def Let_def)
  have "unat (v AND MOCSR2_DRIVE_SEL) < 2" for v :: u8
  proof -
    have "v AND 1 = 0 \<or> v AND 1 = 1" using and_one_eq [of v] by (cases "even v") auto
    then show ?thesis by auto
  qed
  then show "mo_ok (osp_formatter_cmd2 s)" using assms by (simp add: osp_formatter_cmd2_def Let_def)
  show "mo_keeps (osp_formatter_cmd s)"
    using assms by (auto simp: osp_formatter_cmd_def Let_def intro!: mo_ecc_start(2,3) mo_bind(1) [OF mo_ecc_start(3)] mo_bind(1) [OF mo_ecc_start(2)])
qed

lemma mo_fmt_io: "mo_ok s \<Longrightarrow> mo_keeps (fmt_io n s)"
  by (auto simp: fmt_io_def split: FMT_MODE.split
      intro!: mo_bind(2) [OF mo_formatter(1)] mo_bind(1) [OF mo_sectors(1)] mo_bind(1) [OF mo_sectors(4)] mo_bind(1) [OF mo_ecc_start(3)]
        mo_bind(1) [OF mo_ecc_start(4)] mo_ecc_start(2) mo_bind(1) [OF all_map [OF mo_sectors(2)]] all_map [OF mo_sectors(3)])

section \<open>The drives\<close>

lemma mo_guards:
  assumes "mo_ok s" "\<And>t. mo_ok t \<Longrightarrow> mo_keeps (f t)"
  shows "mo_keeps (unless_empty f s)" "mo_keeps (unless_protected f s)" "mo_keeps (unless_stopped f s)" "mo_keeps (mo_unimplemented_cmd s)"
  using assms by (auto simp: unless_empty_def unless_protected_def unless_stopped_def mo_unimplemented_cmd_def intro!: mo_signals(2))

lemma mo_ok_eject [simp]: "mo_ok (eject_unit d s) = mo_ok s"
  by (simp add: eject_unit_def Let_def)

lemma mo_commands:
  assumes "mo_ok s"
  shows "mo_keeps (mo_seek c s)" "mo_keeps (mo_high_order_seek c s)" "mo_keeps (mo_jump_head c s)" "mo_keeps (mo_recalibrate s)"
    "mo_keeps (mo_return_drive_status s)" "mo_keeps (mo_return_track_addr s)" "mo_keeps (mo_return_extended_status s)"
    "mo_keeps (mo_return_hardware_status s)" "mo_keeps (mo_return_version s)" "mo_keeps (mo_select_head h s)"
    "mo_keeps (mo_reset_attn_status s)" "mo_keeps (mo_stop_spinning s)" "mo_keeps (mo_start_spinning s)" "mo_keeps (mo_eject_disk d s)"
    "mo_keeps (mo_start_spiraling s)" "mo_keeps (mo_stop_spiraling s)" "mo_keeps (mo_self_diagnostic s)"
  unfolding mo_seek_def mo_high_order_seek_def mo_jump_head_def mo_recalibrate_def mo_return_drive_status_def mo_return_track_addr_def
    mo_return_extended_status_def mo_return_hardware_status_def mo_return_version_def mo_select_head_def mo_reset_attn_status_def
    mo_stop_spinning_def mo_start_spinning_def mo_eject_disk_def mo_start_spiraling_def mo_stop_spiraling_def mo_self_diagnostic_def Let_def
  using assms by (auto intro!: mo_guards mo_signals(2) all_map [OF mo_signals(2)] mo_bind(1) [OF mo_event(1)])

lemma mo_drive:
  assumes "mo_ok s"
  shows "mo_keeps (mo_drive_cmd c s)" "mo_keeps (mo_insert_disk d s)" "mo_keeps (mo_stop s)" "mo_keeps (mo_start s)"
    "mo_keeps (MO_IO_Handler s)"
proof -
  show "mo_keeps (mo_drive_cmd c s)"
    using assms unfolding mo_drive_cmd_def by (auto intro!: mo_signals(1) mo_bind(1) [OF mo_signals(1)] mo_commands mo_guards(4))
  show "mo_keeps (mo_insert_disk d s)" "mo_keeps (mo_stop s)" "mo_keeps (mo_start s)"
    using assms by (auto simp: mo_insert_disk_def mo_stop_def mo_start_def Let_def intro!: mo_signals)
  have unit: "mo_keeps (spiral_unit i s)" if "mo_ok s" for i and s :: "'a mo_scheme"
    using that by (auto simp: spiral_unit_def intro!: mo_bind(1) [OF mo_fmt_io])
  show "mo_keeps (MO_IO_Handler s)"
    unfolding MO_IO_Handler_def mo_spiraling_operation_def
    by (rule mo_bind(1)) (use assms in \<open>auto intro!: unit mo_event mo_bind(1) [OF unit]\<close>)
qed

lemma mo_reset: 
  assumes "mo_ok s"
  shows "mo_keeps (MO_Reset s)"
proof -
  have select: "mo_ok (s\<lparr>dnum := d\<rparr>)" if "mo_ok s" "d < 2" for s :: "'a mo_scheme" and d
    using that by (simp add: mo_ok_def)
  have unit: "mo_keeps (reset_unit d s)" if "mo_ok s" "d < 2" for d and s :: "'a mo_scheme"
    using select [OF that] by (auto simp: reset_unit_def MO_Insert_def Let_def intro!: mo_bind(1) [OF mo_drive(3)] mo_drive(2))
  have done_loop: "mo_ok (osp_select 0 (s\<lparr>dnum := 2\<rparr>))" if "mo_ok s" for s :: "'a mo_scheme"
    using that by (simp add: osp_select_def Let_def) (simp add: mo_ok_def upd_unit_def)
  show ?thesis
    unfolding MO_Reset_def by (intro mo_bind(1) [OF unit]) (simp_all add: assms done_loop Let_def)
qed

section \<open>Reachable states\<close>

text \<open>Everything that happens to the controller; other steps leave its data alone.\<close>

inductive mo_step :: "'a mo_scheme devices \<Rightarrow> 'a mo_scheme \<Rightarrow> 'a mo_scheme \<Rightarrow> bool" for dev where
  track_h: "mo_step dev s (MO_TrackNumH_Write v s)"
| track_l: "mo_step dev s (MO_TrackNumL_Write v s)"
| sector: "mo_step dev s (MO_SectorIncr_Write v s)"
| count: "mo_step dev s (MO_SectorCnt_Write v s)"
| intstatus: "MO_IntStatus_Write v s = Some t \<Longrightarrow> mo_step dev s t"
| intmask: "mo_step dev s (MO_IntMask_Write v s)"
| csr2: "mo_step dev s (MOctrl_CSR2_Write v s)"
| csr1: "MOctrl_CSR1_Write v s = Some t \<Longrightarrow> mo_step dev s t"
| csr_h: "mo_step dev s (MO_CSR_H_Write v s)"
| csr_l: "MO_CSR_L_Write v s = Some t \<Longrightarrow> mo_step dev s t"
| osp_init: "mo_step dev s (MO_Init_Write v s)"
| osp_format: "mo_step dev s (MO_Format_Write v s)"
| osp_mark: "mo_step dev s (MO_Mark_Write v s)"
| osp_flag: "mo_step dev s (MO_Flag_Write i v s)"
| interrupt: "MO_Interrupt_Handler s = Some t \<Longrightarrow> mo_step dev s t"
| error_correction: "MO_ECC_IO_Handler dev s = Some t \<Longrightarrow> mo_step dev s t"
| rotation: "MO_IO_Handler s = Some t \<Longrightarrow> mo_step dev s t"
| disk_in: "MO_Insert d s = Some t \<Longrightarrow> mo_step dev s t"
| disk_out: "MO_Eject d s = Some t \<Longrightarrow> mo_step dev s t"
| reset: "MO_Reset s = Some t \<Longrightarrow> mo_step dev s t"
| cpu_read: "mem_get dev sz a s = Some (r, t) \<Longrightarrow> mo_step dev s t"
| cpu_write: "mem_put dev sz a w s = Some (u, t) \<Longrightarrow> mo_step dev s t"
| dma_register: "mo_step dev s (upd_dma c f s)"
| any_interrupt: "mo_step dev s (set_interrupt i st s)"
| elsewhere: "dma.more t = dma.more s \<Longrightarrow> ecc_buffer t = ecc_buffer s \<Longrightarrow> eccin t = eccin s \<Longrightarrow> eccout t = eccout s \<Longrightarrow> mo_step dev s t"

inductive mo_reachable :: "'a mo_scheme devices \<Rightarrow> 'a mo_scheme \<Rightarrow> 'a mo_scheme \<Rightarrow> bool" for dev start where
  init: "mo_reachable dev start start"
| step: "mo_reachable dev start s \<Longrightarrow> mo_step dev s t \<Longrightarrow> mo_reachable dev start t"

lemma mo_write_ok:
  assumes "mo_ok s"
  shows "mo_keeps (MO_IntStatus_Write v s)" "mo_keeps (MOctrl_CSR1_Write v s)" "mo_keeps (MO_CSR_L_Write v s)"
    "mo_ok (MO_IntMask_Write v s)" "mo_ok (MOctrl_CSR2_Write v s)" "mo_ok (MO_Flag_Write i v s)"
proof -
  show "mo_keeps (MO_IntStatus_Write v s)"
    unfolding MO_IntStatus_Write_def Let_def
    using assms by (auto simp: set_floppy_select_def intro!: mo_drive mo_bind(1) [OF mo_drive(3)] mo_bind(1) [OF mo_drive(4)])
  show "mo_keeps (MOctrl_CSR1_Write v s)" "mo_keeps (MO_CSR_L_Write v s)" "mo_ok (MOctrl_CSR2_Write v s)" "mo_ok (MO_Flag_Write i v s)"
    using assms by (auto simp: MOctrl_CSR1_Write_def MO_CSR_L_Write_def MOctrl_CSR2_Write_def MO_Flag_Write_def Let_def
        intro!: mo_formatter mo_drive)
  show "mo_ok (MO_IntMask_Write v s)" using assms by (simp add: MO_IntMask_Write_def)
qed

lemma mo_step_ok:
  assumes "mo_step dev s t" "keeping_devices mo_ok dev" "mo_ok s"
  shows "mo_ok t"
  using assms(1)
proof cases
  case elsewhere
  have "osp t = osp s" "mo t = mo s" "dnum t = dnum s" "delayed_drive t = delayed_drive s"
    using elsewhere(1) by (cases s; cases t; simp)+
  with elsewhere(2-4) show ?thesis using assms(3) by (simp add: mo_ok_def)
qed (use assms(3) mo_write_ok [OF assms(3)] mo_drive [OF assms(3)] mo_commands(14) [OF assms(3)] mo_reset [OF assms(3)] mo_signals(3) [OF assms(3)]
    mo_ecc_handler [OF assms(2,3)] mo_channel.mem_get_keeps [OF assms(2,3)] mo_channel.mem_put_keeps [OF assms(2,3)]
  in \<open>auto simp: all_results_def mo_ok_set_interrupt MO_TrackNumH_Write_def MO_TrackNumL_Write_def MO_SectorIncr_Write_def MO_SectorCnt_Write_def
    MO_CSR_H_Write_def MO_Init_Write_def MO_Format_Write_def MO_Mark_Write_def MO_Insert_def MO_Eject_def\<close>)

text \<open>The variables of the controller when the program starts.\<close>

definition mo_power_on :: "'a mo_scheme \<Rightarrow> bool" where
  "mo_power_on s \<longleftrightarrow> ecc_buffer s = replicate 2 \<lparr>db_data = replicate 1296 0, db_size = 0, db_limit = 0\<rparr> \<and> eccin s = 0 \<and> eccout s = 1
     \<and> length (mo s) = 2 \<and> dnum s = 0 \<and> delayed_drive s = -1 \<and> osp_flag (osp s) = replicate 7 0"

text \<open>
  C15. From the start of the program on, the data of the optical disk controller keep their types,
  whatever the guest writes to the registers, whatever is read from the disks and whatever other
  devices do to the interrupt registers: the buffers of the error correction have 1296 bytes and
  never hold more, the two buffers in use are different ones, and the numbers of the selected
  drive and of the drive with a delayed completion are those of drives. The handlers behind the
  I/O addresses, which a DMA transfer may reach, are assumed to keep this themselves.
\<close>

theorem mo_state_typed:
  assumes "mo_power_on start" "mo_reachable dev start s" "keeping_devices mo_ok dev"
  shows "length (ecc_buffer s) = 2 \<and> (\<forall>b \<in> set (ecc_buffer s). length (db_data b) = 1296 \<and> db_size b \<le> MO_SECTORSIZE_DISK \<and> db_limit b \<le> MO_SECTORSIZE_DISK)
    \<and> eccin s < 2 \<and> eccout s < 2 \<and> eccin s \<noteq> eccout s \<and> length (mo s) = 2 \<and> dnum s < 2 \<and> delayed_drive s \<in> {-1, 0, 1}
    \<and> length (osp_flag (osp s)) = 7"
proof -
  have "mo_ok start" using assms(1) by (simp add: mo_power_on_def mo_ok_def sector_buffer_def)
  with assms(2) have "mo_ok s" by induction (use mo_step_ok [OF _ assms(3)] in blast)+
  then show ?thesis by (auto simp: mo_ok_def sector_buffer_def)
qed

definition sample_power_on :: mo where
  "sample_power_on = sample_mo\<lparr>ecc_buffer := replicate 2 \<lparr>db_data = replicate 1296 0, db_size = 0, db_limit = 0\<rparr>,
     mo := replicate 2 sample_unit, scrIntStat := 0\<rparr>"

lemma mo_reset_returns: "\<exists>t. MO_Reset s = Some t"
proof -
  have sig: "\<exists>t. mo_set_signals c a (int d) s = Some t" for c a d and s :: "'a mo_scheme"
    by (simp add: mo_set_signals_def Let_def)
  then have stop: "\<exists>t. mo_stop s = Some t" for s :: "'a mo_scheme" by (simp add: mo_stop_def)
  have insert: "\<exists>t. MO_Insert d s = Some t" for d and s :: "'a mo_scheme"
    using sig by (simp add: MO_Insert_def mo_insert_disk_def Let_def)
  have unit: "\<exists>t. reset_unit d s = Some t" for d and s :: "'a mo_scheme"
  proof -
    obtain u where "mo_stop (upd_drive (\<lambda>u. u\<lparr>drv_dsk := File_Close (drv_dsk u), drv_connected := False, drv_inserted := False\<rparr>) (s\<lparr>dnum := d\<rparr>)) = Some u"
      using stop by blast
    then show ?thesis using insert by (simp add: reset_unit_def Let_def)
  qed
  obtain u where "reset_unit 0 s = Some u" using unit by blast
  moreover obtain v where "reset_unit 1 u = Some v" using unit by blast
  ultimately show ?thesis by (simp add: MO_Reset_def Let_def)
qed

lemma sample_keeping: "keeping_devices mo_ok sample_devices"
  by (auto simp: keeping_devices_def sample_devices_def bus_err_def all_results_def BMAP_Reset_def)

text \<open>After the reset, and after another device has set the shared request.\<close>

theorem mo_state_typed_witness:
  "\<exists>t. MO_Reset sample_power_on = Some t \<and> mo_power_on sample_power_on \<and> dnum t < 2 \<and> length (ecc_buffer (set_interrupt INT_DISK SET_INT t)) = 2"
proof -
  have on: "mo_power_on sample_power_on"
    by (simp add: mo_power_on_def sample_power_on_def sample_mo_def sample_dma_def mo.defs dma.defs esp.defs)
  obtain t where t: "MO_Reset sample_power_on = Some t" using mo_reset_returns by blast
  then have r: "mo_reachable sample_devices sample_power_on t" by (blast intro: mo_reachable.intros mo_step.reset)
  then have "mo_reachable sample_devices sample_power_on (set_interrupt INT_DISK SET_INT t)"
    by (blast intro: mo_reachable.intros mo_step.any_interrupt)
  from mo_state_typed [OF on this sample_keeping] mo_state_typed [OF on r sample_keeping] on show ?thesis using t by blast
qed

end
