(* ===== verification/Snd.thy ===== *)
theory Snd
  imports Mo
begin

text \<open>
  The sound box (\<open>snd.c\<close>): playback and recording of samples, \<open>ulaw\<close> compression, double sampling
  and the serial volume control. The host's audio device is represented by the bytes put into
  its output queue, the fill level of that queue and the samples recorded. The branch of
  \<open>snd_adjust_volume_and_deemphasis\<close> that computes with floating-point numbers is an argument.
\<close>

section \<open>State\<close>

record sndout =
  snd_mode :: u8
  snd_mute :: u8
  snd_deemph :: u8
  attenuation :: "u8 list"

record snd = mo +
  sndout_state :: sndout
  foursamples :: u32
  ulawsamplecount :: int
  tmp_vol :: u16
  bit_num :: int
  gpo_old_data :: u8
  sound_output_inited :: bool
  sound_output_active :: bool
  sound_input_active :: bool
  sound_dsp_active :: bool
  audio_output :: "u8 list"
  audio_queue_size :: int
  audio_enabled :: bool
  audio_input :: "16 word list"
  dsp_input :: "16 word list"
  ssi_values :: "16 word list"

type_synonym 'a adjust = "sndout \<Rightarrow> u8 list \<Rightarrow> u8 list"

abbreviation (input) SND_CDDA_INTERVAL :: u64 where "SND_CDDA_INTERVAL \<equiv> 23"
abbreviation (input) SND_CODEC_INTERVAL :: u64 where "SND_CODEC_INTERVAL \<equiv> 125"
abbreviation (input) SND_MAX_VOL :: u8 where "SND_MAX_VOL \<equiv> 43"
abbreviation (input) SND_MODE_NORMAL :: u8 where "SND_MODE_NORMAL \<equiv> 0x00"
abbreviation (input) SND_MODE_DBL_RP :: u8 where "SND_MODE_DBL_RP \<equiv> 0x10"
abbreviation (input) SND_MODE_DBL_ZF :: u8 where "SND_MODE_DBL_ZF \<equiv> 0x30"
abbreviation (input) SND_SPEAKER_ENABLE :: u8 where "SND_SPEAKER_ENABLE \<equiv> 0x10"
abbreviation (input) SND_LOWPASS_ENABLE :: u8 where "SND_LOWPASS_ENABLE \<equiv> 0x08"
abbreviation (input) SND_INTFC_CLOCK :: u8 where "SND_INTFC_CLOCK \<equiv> 0x04"
abbreviation (input) SND_INTFC_DATA :: u8 where "SND_INTFC_DATA \<equiv> 0x02"
abbreviation (input) SND_INTFC_STROBE :: u8 where "SND_INTFC_STROBE \<equiv> 0x01"

section \<open>Compression\<close>

abbreviation (input) BIAS :: u16 where "BIAS \<equiv> 0x84"
abbreviation (input) CLIP :: u16 where "CLIP \<equiv> 32635"

definition exp_lut :: "u8 list" where
  "exp_lut = [
    0, 0, 1, 1, 2, 2, 2, 2, 3, 3, 3, 3, 3, 3, 3, 3,
    4, 4, 4, 4, 4, 4, 4, 4, 4, 4, 4, 4, 4, 4, 4, 4,
    5, 5, 5, 5, 5, 5, 5, 5, 5, 5, 5, 5, 5, 5, 5, 5,
    5, 5, 5, 5, 5, 5, 5, 5, 5, 5, 5, 5, 5, 5, 5, 5,
    6, 6, 6, 6, 6, 6, 6, 6, 6, 6, 6, 6, 6, 6, 6, 6,
    6, 6, 6, 6, 6, 6, 6, 6, 6, 6, 6, 6, 6, 6, 6, 6,
    6, 6, 6, 6, 6, 6, 6, 6, 6, 6, 6, 6, 6, 6, 6, 6,
    6, 6, 6, 6, 6, 6, 6, 6, 6, 6, 6, 6, 6, 6, 6, 6,
    7, 7, 7, 7, 7, 7, 7, 7, 7, 7, 7, 7, 7, 7, 7, 7,
    7, 7, 7, 7, 7, 7, 7, 7, 7, 7, 7, 7, 7, 7, 7, 7,
    7, 7, 7, 7, 7, 7, 7, 7, 7, 7, 7, 7, 7, 7, 7, 7,
    7, 7, 7, 7, 7, 7, 7, 7, 7, 7, 7, 7, 7, 7, 7, 7,
    7, 7, 7, 7, 7, 7, 7, 7, 7, 7, 7, 7, 7, 7, 7, 7,
    7, 7, 7, 7, 7, 7, 7, 7, 7, 7, 7, 7, 7, 7, 7, 7,
    7, 7, 7, 7, 7, 7, 7, 7, 7, 7, 7, 7, 7, 7, 7, 7,
    7, 7, 7, 7, 7, 7, 7, 7, 7, 7, 7, 7, 7, 7, 7, 7]"

definition snd_make_ulaw :: "16 word \<Rightarrow> u8" where
  "snd_make_ulaw sample = (
     let sign = ucast (drop_bit 8 sample) AND 0x80 :: u8;
         sample = (if sign \<noteq> 0 then - sample else sample);
         sample = (if CLIP < sample then CLIP else sample) + BIAS;
         exponent = exp_lut ! unat (drop_bit 7 sample AND 0xFF);
         mantissa = ucast (drop_bit (unat exponent + 3) sample) AND 0x0F
     in NOT (sign OR push_bit 4 exponent OR mantissa))"

section \<open>Output\<close>

text \<open>
  Doubling in place, from the last sample to the first: positions are in bytes. The multiplication
  of a sample with \<open>repeat\<close>, 0 or 1, keeps or clears its bytes. Positions before the buffer are \<open>None\<close>.
\<close>

definition put4 :: "nat \<Rightarrow> u8 list \<Rightarrow> u8 list \<Rightarrow> u8 list" where
  "put4 i ws buf = take i buf @ ws @ drop (i + 4) buf"

function double_loop :: "bool \<Rightarrow> nat \<Rightarrow> nat \<Rightarrow> u8 list \<Rightarrow> u8 list option" where
  "double_loop rep src dst buf =
     (if src < dst then
        if src < 4 \<or> dst < 8 \<or> length buf < dst then None
        else
          let copy = take 4 (drop (src - 4) buf);
              fill = (if rep then copy else replicate 4 0)
          in double_loop rep (src - 4) (dst - 8) (put4 (dst - 8) copy (put4 (dst - 4) fill buf))
      else Some buf)"
  by pat_completeness auto

termination double_loop
  by (relation "measure (\<lambda>(rep, src, dst, buf). dst - src)") auto

declare double_loop.simps [simp del]

definition snd_make_double_samples :: "u8 list \<Rightarrow> nat \<Rightarrow> bool \<Rightarrow> u8 list option" where
  "snd_make_double_samples buf len rep = double_loop rep len (len * 2) buf"

definition snd_adjust_volume_and_deemphasis :: "'a adjust \<Rightarrow> sndout \<Rightarrow> u8 list \<Rightarrow> nat \<Rightarrow> u8 list" where
  "snd_adjust_volume_and_deemphasis adjust st buf len =
     (if snd_mute st \<noteq> 0 then replicate len 0 @ drop len buf
      else if attenuation st ! 0 \<noteq> 0 \<or> attenuation st ! 1 \<noteq> 0 \<or> snd_deemph st \<noteq> 0
      then adjust st (take len buf) @ drop len buf
      else buf)"

text \<open>The result is the number of bytes sent and the buffer, which is changed in place.\<close>

definition snd_send_samples :: "'b adjust \<Rightarrow> u8 list \<Rightarrow> nat \<Rightarrow> 'a snd_scheme \<Rightarrow> (nat \<times> u8 list \<times> 'a snd_scheme) option" where
  "snd_send_samples adjust buf len s = (
     let m = snd_mode (sndout_state s) in
     if m = SND_MODE_NORMAL \<or> m = SND_MODE_DBL_RP \<or> m = SND_MODE_DBL_ZF then do {
       (buf, len) \<leftarrow> (if m = SND_MODE_NORMAL then Some (buf, len)
                      else map_option (\<lambda>b. (b, len * 2)) (snd_make_double_samples buf len (m = SND_MODE_DBL_RP)));
       let buf = snd_adjust_volume_and_deemphasis adjust (sndout_state s) buf len;
       Some (len, buf, s\<lparr>audio_output := audio_output s @ take len buf\<rparr>)
     }
     else Some (0, buf, s))"

definition snd_output_active :: "'a snd_scheme \<Rightarrow> bool" where
  "snd_output_active s = sound_output_active s"

definition snd_input_active :: "'a snd_scheme \<Rightarrow> bool" where
  "snd_input_active s = sound_input_active s"

text \<open>The code shifts the sample to the left, so that only its low byte reaches the buffer.\<close>

definition snd_send_sample :: "'b adjust \<Rightarrow> u32 \<Rightarrow> 'a snd_scheme \<Rightarrow> 'a snd_scheme option" where
  "snd_send_sample adjust val s =
     (if \<not> snd_output_active s then Some s
      else
        let buf = [ucast (push_bit 24 val), ucast (push_bit 16 val), ucast (push_bit 8 val), ucast val] @ replicate 4 0
        in map_option (\<lambda>(len, buf, s). s) (snd_send_samples adjust buf 4 s))"

section \<open>Volume control\<close>

definition snd_shift_volume_reg :: "u8 \<Rightarrow> 'a snd_scheme \<Rightarrow> 'a snd_scheme" where
  "snd_shift_volume_reg databit s =
     s\<lparr>tmp_vol := push_bit 1 (tmp_vol s) OR (if databit \<noteq> 0 then 1 else 0), bit_num := bit_num s + 1\<rparr>"

definition snd_volume_interface_reset :: "'a snd_scheme \<Rightarrow> 'a snd_scheme" where
  "snd_volume_interface_reset s = s\<lparr>bit_num := 0, tmp_vol := 0\<rparr>"

definition upd_sndout :: "(sndout \<Rightarrow> sndout) \<Rightarrow> 'a snd_scheme \<Rightarrow> 'a snd_scheme" where
  "upd_sndout f s = s\<lparr>sndout_state := f (sndout_state s)\<rparr>"

definition snd_save_volume_reg :: "'a snd_scheme \<Rightarrow> 'a snd_scheme" where
  "snd_save_volume_reg s =
     (if bit_num s \<noteq> 11 \<or> drop_bit 8 (tmp_vol s) AND 7 \<noteq> 7 then s
      else
        let chan_lr = drop_bit 6 (tmp_vol s AND 0xC0);
            vol_data = ucast (tmp_vol s AND 0x3F) :: u8;
            vol_data = (if SND_MAX_VOL < vol_data then SND_MAX_VOL else vol_data);
            s = (if tst chan_lr 1 then upd_sndout (\<lambda>r. r\<lparr>attenuation := (attenuation r)[0 := vol_data]\<rparr>) s else s)
        in if tst chan_lr 2 then upd_sndout (\<lambda>r. r\<lparr>attenuation := (attenuation r)[1 := vol_data]\<rparr>) s else s)"

definition snd_vol_access :: "u8 \<Rightarrow> 'a snd_scheme \<Rightarrow> 'a snd_scheme" where
  "snd_vol_access val s =
     snd_volume_interface_reset (snd_save_volume_reg (s\<lparr>bit_num := 11, tmp_vol := 0x700 OR ucast val\<rparr>))"

definition snd_gpo_access :: "u8 \<Rightarrow> 'a snd_scheme \<Rightarrow> 'a snd_scheme" where
  "snd_gpo_access val s = (
     let s = upd_sndout (\<lambda>r. r\<lparr>snd_mute := val AND SND_SPEAKER_ENABLE, snd_deemph := val AND SND_LOWPASS_ENABLE\<rparr>) s;
         s = (if tst val SND_INTFC_STROBE then snd_save_volume_reg s
              else if tst (gpo_old_data s) SND_INTFC_STROBE then snd_volume_interface_reset s
              else if tst val SND_INTFC_CLOCK \<and> \<not> tst (gpo_old_data s) SND_INTFC_CLOCK
              then snd_shift_volume_reg (val AND SND_INTFC_DATA) s
              else s)
     in s\<lparr>gpo_old_data := val\<rparr>)"

section \<open>Start and stop\<close>

text \<open>Opening and closing the host's devices is left out, but for the flags that the code keeps.\<close>

definition sound_unpause :: "'a snd_scheme \<Rightarrow> 'a snd_scheme" where
  "sound_unpause s = (
     let s = (if \<not> sound_output_inited s \<and> bEnableSound (Sound (ConfigureParams s)) then s\<lparr>sound_output_inited := True\<rparr> else s)
     in if sound_output_active s \<and> sound_output_inited s then s\<lparr>audio_enabled := True\<rparr> else s)"

definition sound_pause :: "'a snd_scheme \<Rightarrow> 'a snd_scheme" where
  "sound_pause s = (if sound_output_inited s then s\<lparr>sound_output_inited := False, audio_enabled := False\<rparr> else s)"

definition snd_start_output :: "u8 \<Rightarrow> 'a snd_scheme \<Rightarrow> 'a snd_scheme option" where
  "snd_start_output mode s = (
     let s = upd_sndout (\<lambda>r. r\<lparr>snd_mode := mode\<rparr>) s;
         s = (if sound_output_inited s then s\<lparr>audio_enabled := True\<rparr> else s);
         s = (if sound_output_active s then s else s\<lparr>sound_output_active := True, audio_queue_size := 0\<rparr>)
     in CycInt_AddTimeEvent 1 0 EVENT_SND_OUTPUT s)"

definition snd_stop_output :: "'a snd_scheme \<Rightarrow> 'a snd_scheme" where
  "snd_stop_output s = s\<lparr>sound_output_active := False\<rparr>"

definition snd_start_input :: "'a snd_scheme \<Rightarrow> 'a snd_scheme option" where
  "snd_start_input s = CycInt_AddTimeEvent 1 0 EVENT_SND_INPUT
     (if sound_input_active s then s else s\<lparr>ulawsamplecount := 0, sound_input_active := True\<rparr>)"

definition snd_stop_input :: "'a snd_scheme \<Rightarrow> 'a snd_scheme" where
  "snd_stop_input s = s\<lparr>sound_input_active := False\<rparr>"

definition snd_dsp_start :: "'a snd_scheme \<Rightarrow> 'a snd_scheme option" where
  "snd_dsp_start s =
     (if sound_dsp_active s then Some s else CycInt_AddCycleTimeEvent 5 0 EVENT_SND_DSP_INPUT (s\<lparr>sound_dsp_active := True\<rparr>))"

definition snd_dsp_stop :: "'a snd_scheme \<Rightarrow> 'a snd_scheme" where
  "snd_dsp_stop s = s\<lparr>sound_dsp_active := False\<rparr>"

definition Sound_Reset :: "'a snd_scheme \<Rightarrow> 'a snd_scheme" where
  "Sound_Reset s = s\<lparr>snd_buffer_len := 0\<rparr>"

definition Sound_Pause :: "bool \<Rightarrow> 'a snd_scheme \<Rightarrow> 'a snd_scheme" where
  "Sound_Pause pause s = (if pause then sound_pause s else sound_unpause s)"

text \<open>A sample from the host goes to the serial port of the DSP.\<close>

definition SND_DSP_Handler :: "'a snd_scheme \<Rightarrow> 'a snd_scheme option" where
  "SND_DSP_Handler s =
     (if \<not> sound_dsp_active s then Some s
      else
        let sampletime = drop_bit (if bEnableSound (Sound (ConfigureParams s)) then 2 else 1) SND_CDDA_INTERVAL;
            s = (case dsp_input s of [] \<Rightarrow> s | x # xs \<Rightarrow> s\<lparr>dsp_input := xs, ssi_values := ssi_values s @ [x]\<rparr>)
        in CycInt_UpdateCycleTimeEvent sampletime 0 EVENT_SND_DSP_INPUT s)"

end
