(* ===== verification/SndProps.thy ===== *)
theory SndProps
  imports Snd
begin

text \<open>The compression of samples and the doubling of samples are right.\<close>

section \<open>Compression\<close>

text \<open>The decoder of the telephone standard that the format follows, and the limit of the encoder.\<close>

definition ulaw_decode :: "u8 \<Rightarrow> int" where
  "ulaw_decode v = (
     let u = uint (NOT v); e = u div 16 mod 8; m = u mod 16; magnitude = (8 * m + 132) * 2 ^ nat e - 132
     in if 128 \<le> u then - magnitude else magnitude)"

definition clipped :: "int \<Rightarrow> int" where
  "clipped x = max (-32635) (min 32635 x)"

lemma exp_lut_log: "1 \<le> k \<Longrightarrow> k < 256 \<Longrightarrow> unat (exp_lut ! k) < 8 \<and> 2 ^ unat (exp_lut ! k) \<le> k \<and> k < 2 * 2 ^ unat (exp_lut ! k)"
proof -
  have "\<forall>k \<in> set [1..<256]. unat (exp_lut ! k) < 8 \<and> 2 ^ unat (exp_lut ! k) \<le> k \<and> k < 2 * 2 ^ unat (exp_lut ! k)"
    by code_simp
  then show "1 \<le> k \<Longrightarrow> k < 256 \<Longrightarrow> unat (exp_lut ! k) < 8 \<and> 2 ^ unat (exp_lut ! k) \<le> k \<and> k < 2 * 2 ^ unat (exp_lut ! k)"
    by auto
qed

lemma ulaw_byte:
  "e < 8 \<Longrightarrow> m < 16 \<Longrightarrow> s = 0 \<or> s = 0x80 \<Longrightarrow>
    uint (s OR push_bit 4 (of_nat e) OR of_nat m :: u8) = uint s + 16 * int e + int m"
proof -
  have "\<forall>e \<in> set [0..<8]. \<forall>m \<in> set [0..<16]. \<forall>s \<in> set [0, 0x80 :: u8].
      uint (s OR push_bit 4 (of_nat e) OR of_nat m :: u8) = uint s + 16 * int e + int m"
    by code_simp
  then show "e < 8 \<Longrightarrow> m < 16 \<Longrightarrow> s = 0 \<or> s = 0x80 \<Longrightarrow>
    uint (s OR push_bit 4 (of_nat e) OR of_nat m :: u8) = uint s + 16 * int e + int m"
    by auto
qed

text \<open>Magnitude and exponent, in whole numbers.\<close>

lemma ulaw_magnitude:
  fixes y e :: nat
  assumes "2 ^ (e + 7) \<le> y" "y < 2 ^ (e + 8)"
  shows "y div 2 ^ (e + 3) mod 16 = y div 2 ^ (e + 3) - 16"
    "\<bar>(8 * int (y div 2 ^ (e + 3) - 16) + 132) * 2 ^ e - int y\<bar> \<le> 4 * 2 ^ e"
proof -
  let ?q = "y div 2 ^ (e + 3)"
  have "16 \<le> ?q" using assms(1) by (simp add: less_eq_div_iff_mult_less_eq power_add)
  moreover have "?q < 32" using assms(2) by (simp add: div_less_iff_less_mult power_add)
  ultimately show "?q mod 16 = ?q - 16" by (simp add: mod_if)
  have "int y = int ?q * 2 ^ (e + 3) + int (y mod 2 ^ (e + 3))" 
    by (metis (mono_tags, lifting) of_nat_add of_nat_mult of_nat_numeral of_nat_power div_mult_mod_eq)
  moreover have "int (y mod 2 ^ (e + 3)) < 2 ^ (e + 3)" by (metis of_nat_less_iff of_nat_numeral of_nat_power mod_less_divisor zero_less_numeral zero_less_power)
  ultimately show "\<bar>(8 * int (?q - 16) + 132) * 2 ^ e - int y\<bar> \<le> 4 * 2 ^ e"
    using \<open>16 \<le> ?q\<close> by (simp add: power_add of_nat_diff algebra_simps abs_le_iff)
qed

text \<open>The sample's sign and magnitude as the encoder computes them.\<close>

lemma sint_cases: "sint x = (if uint x < 32768 then uint x else uint x - 65536)" for x :: "16 word"
proof -
  have "0 \<le> uint x" "uint x < 65536" using uint_lt2p [of x] by simp_all
  moreover have "sint x = (uint x + 32768) mod 65536 - 32768"
    by (simp add: sint_uint signed_take_bit_eq_take_bit_shift take_bit_eq_mod)
  moreover have "(uint x + 32768) mod 65536 = (uint x + 32768 - 65536) mod 65536" by (rule minus_mod_self2 [symmetric])
  ultimately show ?thesis by (cases "uint x < 32768") simp_all
qed

lemma sample_sign: "ucast (drop_bit 8 (x :: 16 word)) AND 0x80 = (if sint x < 0 then 0x80 else 0 :: u8)"
proof -
  have b: "(b AND 0x80) = (if 128 \<le> uint b then 0x80 else 0)" for b :: u8 by (rule all_u8) code_simp
  have "0 \<le> uint x div 256" "uint x div 256 < 256" using uint_lt2p [of x] by (simp_all add: div_less_iff_less_mult pos_imp_zdiv_nonneg_iff)
  then have "uint (ucast (drop_bit 8 x) :: u8) = uint x div 256"
    by (simp add: unsigned_ucast_eq drop_bit_eq_div take_bit_eq_mod uint_div)
  moreover have "128 \<le> uint x div 256 \<longleftrightarrow> 32768 \<le> uint x" by linarith
  ultimately show ?thesis using uint_lt2p [of x] by (simp add: b sint_cases)
qed

lemma sample_magnitude:
  fixes x :: "16 word"
  defines "a \<equiv> (if sint x < 0 then - x else x)"
  shows "int (unat (if CLIP < a then CLIP else a)) = \<bar>clipped (sint x)\<bar>"
proof -
  have r: "- 32768 \<le> sint x" "sint x < 32768" using sint_range_size [of x] by (simp_all add: word_size)
  have a: "int (unat a) = \<bar>sint x\<bar>"
  proof (cases "sint x < 0")
    case True
    then have "a = word_of_int (- sint x)" by (simp add: a_def)
    then have "uint a = - sint x mod 2 ^ 16" by (simp only: uint_word_of_int) simp
    then show ?thesis using True r by simp
  next
    case False
    then have "uint x = sint x" using r using False uint_lt2p [of x] by (simp add: sint_cases split: if_splits)
    then show ?thesis using False by (simp add: a_def)
  qed
  then have "CLIP < a \<longleftrightarrow> 32635 < \<bar>sint x\<bar>" by (simp add: word_less_def)
  then show ?thesis using a by (cases "32635 < \<bar>sint x\<bar>") (auto simp: clipped_def)
qed

lemma bounded_error:
  fixes M Y E v w :: int
  assumes "132 \<le> M" "\<bar>M - Y\<bar> \<le> 4 * E" "128 * E \<le> Y" "w = (if n then 132 - Y else Y - 132)" "v = (if n then 132 - M else M - 132)"
  shows "32 * \<bar>v - w\<bar> \<le> Y \<and> (if n then v \<le> 0 else 0 \<le> v)"
proof -
  have "\<bar>v - w\<bar> = \<bar>M - Y\<bar>" using assms(4,5) by (cases n) (simp_all add: abs_minus_commute)
  then show ?thesis using assms by (cases n) auto
qed

text \<open>
  C40. The compressed sample, decoded, differs from the sample by at most a thirty-second of its
  magnitude plus the bias of the format, after the limitation to 32635. No sample changes its sign.
\<close>

theorem snd_make_ulaw_error:
  "32 * \<bar>ulaw_decode (snd_make_ulaw x) - clipped (sint x)\<bar> \<le> \<bar>clipped (sint x)\<bar> + 132
    \<and> (if sint x < 0 then ulaw_decode (snd_make_ulaw x) \<le> 0 else 0 \<le> ulaw_decode (snd_make_ulaw x))"
proof -
  define a where "a = (if sint x < 0 then - x else x)"
  define w where "w = (if CLIP < a then CLIP else a) + BIAS"
  define y where "y = unat w"
  let ?s = "if sint x < 0 then 0x80 else 0 :: u8"
  have a: "int (unat (if CLIP < a then CLIP else a)) = \<bar>clipped (sint x)\<bar>" unfolding a_def by (rule sample_magnitude)
  moreover have "\<bar>clipped (sint x)\<bar> \<le> 32635" by (simp add: clipped_def abs_le_iff)
  ultimately have "unat (if CLIP < a then CLIP else a) \<le> 32635" by linarith
  then have y: "int y = \<bar>clipped (sint x)\<bar> + 132" using a by (simp add: y_def w_def unat_word_ariths(1))
  then have "132 \<le> y" "y < 32768" by (auto simp: clipped_def)
  define e where "e = unat (exp_lut ! (y div 128))"
  define m where "m = y div 2 ^ (e + 3) mod 16"
  have e: "e < 8" "2 ^ e \<le> y div 128" "y div 128 < 2 * 2 ^ e"
    using exp_lut_log [of "y div 128"] \<open>132 \<le> y\<close> \<open>y < 32768\<close> unfolding e_def by simp_all
  have range: "2 ^ (e + 7) \<le> y" "y < 2 ^ (e + 8)"
    using e(2,3) by (simp_all add: power_add less_eq_div_iff_mult_less_eq div_less_iff_less_mult)
  have low: "0xFF = (mask 8 :: u16)" "0x0F = (mask 4 :: u8)" by (simp_all add: mask_eq_exp_minus_1)
  have k: "unat (drop_bit 7 w AND 0xFF) = y div 128"
    unfolding low(1) take_bit_eq_mask [symmetric] unsigned_take_bit_eq unat_drop_bit_eq
    using \<open>y < 32768\<close> by (simp add: y_def drop_bit_eq_div take_bit_eq_mod)
  have mm: "ucast (drop_bit (e + 3) w) AND 0x0F = (of_nat m :: u8)"
    unfolding word_unat_eq_iff low(2) take_bit_eq_mask [symmetric] unsigned_take_bit_eq unsigned_ucast_eq unat_drop_bit_eq
    by (simp add: y_def m_def drop_bit_eq_div take_bit_eq_mod unat_of_nat mod_mod_cancel)
  have byte: "snd_make_ulaw x = NOT (?s OR push_bit 4 (of_nat e) OR of_nat m)"
  proof -
    have neg: "(?s \<noteq> 0) = (sint x < 0)" by simp
    have "exp_lut ! (y div 128) = of_nat e" by (simp add: e_def)
    then show ?thesis
      unfolding snd_make_ulaw_def Let_def sample_sign neg a_def [symmetric] w_def [symmetric] k e_def [symmetric] mm by simp
  qed
  have u: "uint (NOT (snd_make_ulaw x)) = uint ?s + 16 * int e + int m"
    unfolding byte bit.double_compl by (rule ulaw_byte) (use e(1) in \<open>auto simp: m_def\<close>)
  have dec: "ulaw_decode (snd_make_ulaw x) = (if sint x < 0 then -1 else 1) * ((8 * int m + 132) * 2 ^ e - 132)"
  proof -
    have m: "int m < 16" by (simp add: m_def)
    have parts: "v mod 16 = int m" "v div 16 mod 8 = int e" "128 \<le> v \<longleftrightarrow> b = 1" if "v = 16 * (8 * b + int e) + int m" "b = 0 \<or> b = 1" for v b
    proof -
      have "v div 16 = 8 * b + int e" "v mod 16 = int m" using m by (auto intro: int_div_pos_eq [OF that(1)] int_mod_pos_eq [OF that(1)])
      then show "v mod 16 = int m" "v div 16 mod 8 = int e" using e(1) by (simp_all add: mod_pos_pos_trivial)
      show "128 \<le> v \<longleftrightarrow> b = 1" using that m e(1) by auto
    qed
    show ?thesis using parts [of "16 * int e + int m" 0] parts [of "128 + 16 * int e + int m" 1] by (simp add: ulaw_decode_def Let_def u)
  qed
  have diff: "\<bar>(8 * int m + 132) * 2 ^ e - int y\<bar> \<le> 4 * 2 ^ e"
    using ulaw_magnitude [OF range] by (simp add: m_def)
  have big: "128 * 2 ^ e \<le> int y" 
  proof -
    have "int (2 ^ (e + 7)) \<le> int y" using range(1) by (simp only: of_nat_le_iff)
    then show ?thesis by (simp add: power_add mult.commute)
  qed
  have "132 \<le> (8 * int m + 132) * 2 ^ e" using mult_mono [of 132 "8 * int m + 132" 1 "2 ^ e"] by simp
  moreover have w: "clipped (sint x) = (if sint x < 0 then 132 - int y else int y - 132)" using y by (simp add: clipped_def)
  moreover have "ulaw_decode (snd_make_ulaw x) = (if sint x < 0 then 132 - (8 * int m + 132) * 2 ^ e else (8 * int m + 132) * 2 ^ e - 132)"
    using dec by simp
  ultimately show ?thesis unfolding y [symmetric] using bounded_error [OF _ diff big w] by blast
qed

section \<open>Doubling\<close>

text \<open>What doubling means: every sample of four bytes is followed by itself or by silence.\<close>

fun doubled :: "bool \<Rightarrow> u8 list \<Rightarrow> u8 list" where
  "doubled rep (a # b # c # d # xs) = [a, b, c, d] @ (if rep then [a, b, c, d] else [0, 0, 0, 0]) @ doubled rep xs"
| "doubled rep xs = []"

lemma doubled_append: "length xs = 4 * k \<Longrightarrow> doubled rep (xs @ ys) = doubled rep xs @ doubled rep ys"
proof (induction k arbitrary: xs)
  case (Suc k)
  then obtain a b c d zs where xs: "xs = a # b # c # d # zs" by (auto simp: length_Suc_conv eval_nat_numeral)
  then show ?case using Suc by simp
qed simp

lemma doubled_length: "length xs = 4 * k \<Longrightarrow> length (doubled rep xs) = 8 * k"
proof (induction k arbitrary: xs)
  case (Suc k)
  then obtain a b c d zs where xs: "xs = a # b # c # d # zs" by (auto simp: length_Suc_conv eval_nat_numeral)
  then show ?case using Suc by simp
qed simp

lemma put4_parts:
  assumes "length ws = 4" "i + 4 \<le> length buf"
  shows "length (put4 i ws buf) = length buf" "j \<le> i \<Longrightarrow> take j (put4 i ws buf) = take j buf" "drop i (put4 i ws buf) = ws @ drop (i + 4) buf"
  using assms by (simp_all add: put4_def min_def)

text \<open>Each step of the loop doubles one sample; those before it are still in place.\<close>

lemma double_loop_eq: "8 * k \<le> length buf \<Longrightarrow> double_loop rep (4 * k) (8 * k) buf = Some (doubled rep (take (4 * k) buf) @ drop (8 * k) buf)"
proof (induction k arbitrary: buf)
  case 0
  then show ?case by (simp add: double_loop.simps)
next
  case (Suc k)
  define copy where "copy = take 4 (drop (4 * k) buf)"
  define fill where "fill = (if rep then copy else replicate 4 (0 :: u8))"
  define buf1 where "buf1 = put4 (8 * k + 4) fill buf"
  define buf2 where "buf2 = put4 (8 * k) copy buf1"
  have len: "length copy = 4" "length fill = 4" using Suc.prems by (simp_all add: copy_def fill_def)
  have l1: "length buf1 = length buf" unfolding buf1_def by (rule put4_parts(1)) (use len Suc.prems in simp_all)
  have l2: "length buf2 = length buf" unfolding buf2_def by (subst put4_parts(1)) (use len l1 Suc.prems in simp_all)
  have "take (4 * k) buf2 = take (4 * k) buf1" unfolding buf2_def by (rule put4_parts(2)) (use len l1 Suc.prems in simp_all)
  also have "\<dots> = take (4 * k) buf" unfolding buf1_def by (rule put4_parts(2)) (use len Suc.prems in simp_all)
  finally have kept: "take (4 * k) buf2 = take (4 * k) buf" .
  have "drop (8 * k) buf2 = copy @ drop (8 * k + 4) buf1" unfolding buf2_def by (rule put4_parts(3)) (use len l1 Suc.prems in simp_all)
  also have "drop (8 * k + 4) buf1 = fill @ drop (8 * k + 4 + 4) buf" unfolding buf1_def by (rule put4_parts(3)) (use len Suc.prems in simp_all)
  finally have above: "drop (8 * k) buf2 = copy @ fill @ drop (8 * Suc k) buf" by simp
  have "double_loop rep (4 * Suc k) (8 * Suc k) buf = double_loop rep (4 * k) (8 * k) buf2"
    using Suc.prems by (subst double_loop.simps) (simp add: Let_def buf2_def buf1_def fill_def copy_def add.commute)
  also have "\<dots> = Some (doubled rep (take (4 * k) buf) @ copy @ fill @ drop (8 * Suc k) buf)"
    using Suc.IH [of buf2] Suc.prems l2 kept above by simp
  also have "take (4 * Suc k) buf = take (4 * k) buf @ copy" by (simp add: copy_def take_add [symmetric] add.commute)
  then have "doubled rep (take (4 * Suc k) buf) = doubled rep (take (4 * k) buf) @ doubled rep copy"
    using Suc.prems doubled_append [of "take (4 * k) buf" k rep copy] by simp
  moreover obtain a b c d where "copy = [a, b, c, d]" using len(1) by (auto simp: length_Suc_conv eval_nat_numeral)
  then have "doubled rep copy = copy @ fill" by (simp add: fill_def eval_nat_numeral)
  ultimately show ?case by simp
qed

lemma snd_make_double_samples_eq:
  assumes "len = 4 * k" "2 * len \<le> length buf"
  shows "snd_make_double_samples buf len rep = Some (doubled rep (take len buf) @ drop (2 * len) buf)"
  using double_loop_eq [of k buf rep] assms by (simp add: snd_make_double_samples_def mult.commute)

text \<open>A sample written by the processor: three of its bytes are lost.\<close>

lemma snd_send_sample_low_byte:
  assumes "sound_output_active s" "snd_mode (sndout_state s) = SND_MODE_NORMAL" "snd_mute (sndout_state s) = 0"
    "attenuation (sndout_state s) = [0, 0]" "snd_deemph (sndout_state s) = 0"
  shows "snd_send_sample adjust val s = Some (s\<lparr>audio_output := audio_output s @ [0, 0, 0, ucast val]\<rparr>)"
proof -
  have "ucast (push_bit 24 val) = (0 :: u8)" "ucast (push_bit 16 val) = (0 :: u8)" "ucast (push_bit 8 val) = (0 :: u8)"
    by (rule bit_word_eqI, auto simp: bit_simps)+
  then show ?thesis
    using assms by (simp add: snd_send_sample_def snd_output_active_def snd_send_samples_def snd_adjust_volume_and_deemphasis_def Let_def)
qed

end
