(* ===== verification/Kms.thy ===== *)
theory Kms
  imports Snd
begin

text \<open>
  The keyboard, mouse and sound interface (\<open>kms.c\<close>) and the sound loops of \<open>snd.c\<close> that run through
  it. \<open>Reset_Warm\<close>, which the reset keys call, is an argument, as are the memory's register handlers.
\<close>

section \<open>State\<close>

record kms_regs =
  st_sound :: u8
  st_km :: u8
  st_transmit :: u8
  st_cmd :: u8
  kms_command :: u8
  kms_data :: u32
  kmdata :: u32
  kms_rev :: u8
  km_addr :: u32
  km_data :: "u32 list"
  km_mask :: u32

record kms = snd +
  kms :: kms_regs
  kms_codec_dma_blockend :: bool
  m_button_right :: bool
  m_button_left :: bool

abbreviation (input) SNDOUT_DMA_ENABLE :: u8 where "SNDOUT_DMA_ENABLE \<equiv> 0x80"
abbreviation (input) SNDOUT_DMA_REQUEST :: u8 where "SNDOUT_DMA_REQUEST \<equiv> 0x40"
abbreviation (input) SNDOUT_DMA_UNDERRUN :: u8 where "SNDOUT_DMA_UNDERRUN \<equiv> 0x20"
abbreviation (input) SNDIN_DMA_ENABLE :: u8 where "SNDIN_DMA_ENABLE \<equiv> 0x08"
abbreviation (input) SNDIN_DMA_REQUEST :: u8 where "SNDIN_DMA_REQUEST \<equiv> 0x04"
abbreviation (input) SNDIN_DMA_OVERRUN :: u8 where "SNDIN_DMA_OVERRUN \<equiv> 0x02"
abbreviation (input) KM_INT :: u8 where "KM_INT \<equiv> 0x80"
abbreviation (input) KM_RECEIVED :: u8 where "KM_RECEIVED \<equiv> 0x40"
abbreviation (input) KM_OVERRUN :: u8 where "KM_OVERRUN \<equiv> 0x20"
abbreviation (input) NMI_RECEIVED :: u8 where "NMI_RECEIVED \<equiv> 0x10"
abbreviation (input) KMS_INT :: u8 where "KMS_INT \<equiv> 0x08"
abbreviation (input) KMS_RECEIVED :: u8 where "KMS_RECEIVED \<equiv> 0x04"
abbreviation (input) KMS_OVERRUN :: u8 where "KMS_OVERRUN \<equiv> 0x02"
abbreviation (input) KMS_ENABLE :: u8 where "KMS_ENABLE \<equiv> 0x02"
abbreviation (input) TX_LOOP :: u8 where "TX_LOOP \<equiv> 0x01"
abbreviation (input) KMSCMD_CODEC_IN :: u8 where "KMSCMD_CODEC_IN \<equiv> 0xC7"
abbreviation (input) KMSCMD_KM_RECV :: u8 where "KMSCMD_KM_RECV \<equiv> 0xC6"
abbreviation (input) KMSCMD_SO_REQ :: u8 where "KMSCMD_SO_REQ \<equiv> 0x07"
abbreviation (input) KMSCMD_SO_UNDR :: u8 where "KMSCMD_SO_UNDR \<equiv> 0x0F"
abbreviation (input) KMSCMD_RESET :: u8 where "KMSCMD_RESET \<equiv> 0xFF"
abbreviation (input) KMSCMD_ASNDOUT :: u8 where "KMSCMD_ASNDOUT \<equiv> 0xC7"
abbreviation (input) KMSCMD_KMPOLL :: u8 where "KMSCMD_KMPOLL \<equiv> 0xC6"
abbreviation (input) KMSCMD_KMREG :: u8 where "KMSCMD_KMREG \<equiv> 0xC5"
abbreviation (input) KMSCMD_CTRLOUT :: u8 where "KMSCMD_CTRLOUT \<equiv> 0xC4"
abbreviation (input) KMSCMD_VOLCTRL :: u8 where "KMSCMD_VOLCTRL \<equiv> 0xC2"
abbreviation (input) KMSCMD_SND_IN :: u8 where "KMSCMD_SND_IN \<equiv> 0x03"
abbreviation (input) KMSCMD_SND_OUT :: u8 where "KMSCMD_SND_OUT \<equiv> 0x07"
abbreviation (input) KMSCMD_SIO_MASK :: u8 where "KMSCMD_SIO_MASK \<equiv> 0xC7"
abbreviation (input) KMSCMD_SIO_ENABLE :: u8 where "KMSCMD_SIO_ENABLE \<equiv> 0x08"
abbreviation (input) KMSCMD_SIO_DBL_SMPL :: u8 where "KMSCMD_SIO_DBL_SMPL \<equiv> 0x10"
abbreviation (input) KMSCMD_SIO_ZERO :: u8 where "KMSCMD_SIO_ZERO \<equiv> 0x20"
abbreviation (input) KM_NO_RESPONSE :: u8 where "KM_NO_RESPONSE \<equiv> 0x40"
abbreviation (input) KM_USER_POLL :: u8 where "KM_USER_POLL \<equiv> 0x20"
abbreviation (input) KM_INVALID :: u8 where "KM_INVALID \<equiv> 0x10"
abbreviation (input) KM_MASTER :: u8 where "KM_MASTER \<equiv> 0x10"
abbreviation (input) KM_ADDR_MASK :: u8 where "KM_ADDR_MASK \<equiv> 0x0F"
abbreviation (input) KM_ADDR :: u8 where "KM_ADDR \<equiv> 0x0E"
abbreviation (input) KM_MOUSE :: u8 where "KM_MOUSE \<equiv> 0x01"
abbreviation (input) REV_OLD :: u8 where "REV_OLD \<equiv> 0x00"
abbreviation (input) REV_NEW :: u8 where "REV_NEW \<equiv> 0x01"
abbreviation (input) MOUSE_Y :: u16 where "MOUSE_Y \<equiv> 0xFE00"
abbreviation (input) MOUSE_RIGHT_UP :: u16 where "MOUSE_RIGHT_UP \<equiv> 0x0100"
abbreviation (input) MOUSE_X :: u16 where "MOUSE_X \<equiv> 0x00FE"
abbreviation (input) MOUSE_LEFT_UP :: u16 where "MOUSE_LEFT_UP \<equiv> 0x0001"
abbreviation (input) KBD_KEY_VALID :: u16 where "KBD_KEY_VALID \<equiv> 0x8000"
abbreviation (input) KBD_KEY_UP :: u16 where "KBD_KEY_UP \<equiv> 0x0080"
abbreviation (input) NEXTKEY_POWER :: u8 where "NEXTKEY_POWER \<equiv> 0x58"
abbreviation (input) KMS_MAGIC_MASK :: u32 where "KMS_MAGIC_MASK \<equiv> 0x7000FFFF"
abbreviation (input) KMS_MAGIC_RESET :: u32 where "KMS_MAGIC_RESET \<equiv> 0x1000A825"
abbreviation (input) KMS_MAGIC_NMI_L :: u32 where "KMS_MAGIC_NMI_L \<equiv> 0x10008826"
abbreviation (input) KMS_MAGIC_NMI_R :: u32 where "KMS_MAGIC_NMI_R \<equiv> 0x10009026"
abbreviation (input) KMS_MAGIC_NMI_LR :: u32 where "KMS_MAGIC_NMI_LR \<equiv> 0x10009826"
abbreviation (input) INT_NMI :: u32 where "INT_NMI \<equiv> 0x80000000"
abbreviation (input) KM_CMD_MASK :: u8 where "KM_CMD_MASK \<equiv> 0xE0"
abbreviation (input) KM_CMD_READ :: u8 where "KM_CMD_READ \<equiv> 0x10"
abbreviation (input) KM_CMD_RESET :: u8 where "KM_CMD_RESET \<equiv> 0x0F"
abbreviation (input) KM_CMD_SET_ADDR :: u8 where "KM_CMD_SET_ADDR \<equiv> 0xEF"

abbreviation km_status :: "'a kms_scheme \<Rightarrow> u8" where
  "km_status s \<equiv> st_km (kms s)"

definition upd_kms :: "(kms_regs \<Rightarrow> kms_regs) \<Rightarrow> 'a kms_scheme \<Rightarrow> 'a kms_scheme" where
  "upd_kms f s = s\<lparr>kms := f (kms s)\<rparr>"

section \<open>From the interface to the processor\<close>

definition kms_sndout_underrun :: "'a kms_scheme \<Rightarrow> 'a kms_scheme" where
  "kms_sndout_underrun s =
     set_interrupt INT_SOUND_OVRUN SET_INT (upd_kms (\<lambda>k. k\<lparr>st_sound := st_sound k OR SNDOUT_DMA_UNDERRUN\<rparr>) s)"

definition kms_sndin_overrun :: "'a kms_scheme \<Rightarrow> 'a kms_scheme" where
  "kms_sndin_overrun s =
     set_interrupt INT_SOUND_OVRUN SET_INT (upd_kms (\<lambda>k. k\<lparr>st_sound := st_sound k OR SNDIN_DMA_OVERRUN\<rparr>) s)"

definition kms_km_receive :: "'a kms_scheme devices \<Rightarrow> u32 \<Rightarrow> 'a kms_scheme \<Rightarrow> 'a kms_scheme option" where
  "kms_km_receive dev val s = (
     let magic = val AND KMS_MAGIC_MASK in
     if magic = KMS_MAGIC_RESET then dev_Reset_Warm dev s
     else if magic = KMS_MAGIC_NMI_L \<or> magic = KMS_MAGIC_NMI_R \<or> magic = KMS_MAGIC_NMI_LR
     then Some (set_interrupt INT_NMI SET_INT s)
     else
       let s = upd_kms (\<lambda>k. k\<lparr>kmdata := val\<rparr>) s;
           s = (if tst (km_status s) KM_RECEIVED then upd_kms (\<lambda>k. k\<lparr>st_km := st_km k OR KM_OVERRUN\<rparr>) s else s);
           s = upd_kms (\<lambda>k. k\<lparr>st_km := st_km k OR (KM_RECEIVED OR KM_INT)\<rparr>) s
       in Some (set_interrupt INT_KEYMOUSE SET_INT s))"

definition kms_codec_receive :: "'a kms_scheme devices \<Rightarrow> u32 \<Rightarrow> 'a kms_scheme \<Rightarrow> 'a kms_scheme option" where
  "kms_codec_receive dev val s = do {
     let s = upd_kms (\<lambda>k. k\<lparr>st_sound := st_sound k OR SNDIN_DMA_REQUEST\<rparr>) s;
     (blockend, s) \<leftarrow> dma_sndin_write_memory dev val s;
     let s = s\<lparr>kms_codec_dma_blockend := blockend\<rparr>;
     Some (if blockend then let (stopped, s) = dma_sndin_intr s in if stopped then kms_sndin_overrun s else s else s)
   }"

definition kms_sndout_request :: "'a kms_scheme devices \<Rightarrow> 'a kms_scheme \<Rightarrow> 'a kms_scheme option" where
  "kms_sndout_request dev s = (
     let s = upd_kms (\<lambda>k. k\<lparr>st_sound := st_sound k OR SNDOUT_DMA_REQUEST\<rparr>) s;
         s = (if snd_buffer_len s \<noteq> 0 then dma_sndout_intr s else s)
     in dma_sndout_read_memory dev s)"

definition kms_command_out :: "'a kms_scheme devices \<Rightarrow> u8 \<Rightarrow> u32 \<Rightarrow> 'a kms_scheme \<Rightarrow> 'a kms_scheme option" where
  "kms_command_out dev command val s =
     (if \<not> tst (st_transmit (kms s)) KMS_ENABLE then Some s
      else if command = KMSCMD_CODEC_IN then kms_codec_receive dev val s
      else if command = KMSCMD_KM_RECV then kms_km_receive dev val s
      else if command = KMSCMD_SO_REQ then kms_sndout_request dev (upd_kms (\<lambda>k. k\<lparr>st_cmd := command\<rparr>) s)
      else if command = KMSCMD_SO_UNDR then Some (kms_sndout_underrun (upd_kms (\<lambda>k. k\<lparr>st_cmd := command\<rparr>) s))
      else Some s)"

definition kms_send_codec_receive :: "'a kms_scheme devices \<Rightarrow> u32 \<Rightarrow> 'a kms_scheme \<Rightarrow> (bool \<times> 'a kms_scheme) option" where
  "kms_send_codec_receive dev val s = do {
     s \<leftarrow> kms_command_out dev KMSCMD_CODEC_IN val s;
     Some (kms_codec_dma_blockend s, s)
   }"

definition kms_can_receive_codec :: "'a kms_scheme \<Rightarrow> bool \<times> 'a kms_scheme" where
  "kms_can_receive_codec s = (let (stopped, s) = dma_sndin_intr s in if stopped then (False, kms_sndin_overrun s) else (True, s))"

definition kms_send_sndout_underrun :: "'a kms_scheme devices \<Rightarrow> 'a kms_scheme \<Rightarrow> 'a kms_scheme option" where
  "kms_send_sndout_underrun dev = kms_command_out dev KMSCMD_SO_UNDR 0"

definition kms_send_sndout_request :: "'a kms_scheme devices \<Rightarrow> 'a kms_scheme \<Rightarrow> 'a kms_scheme option" where
  "kms_send_sndout_request dev = kms_command_out dev KMSCMD_SO_REQ 0"

section \<open>Polling\<close>

definition km_set_addr :: "u8 \<Rightarrow> 'a kms_scheme \<Rightarrow> 'a kms_scheme" where
  "km_set_addr addr = upd_kms (\<lambda>k. k\<lparr>km_addr := (if kms_rev k = REV_OLD then ucast (addr AND KM_ADDR) else 0)\<rparr>)"

text \<open>The loop over the mask stops before the device address in bits 7 to 4.\<close>

definition polled :: "u32 \<Rightarrow> u8 \<Rightarrow> bool" where
  "polled devices device \<longleftrightarrow> (\<exists>i \<in> set [28, 24, 20, 16, 12, 8]. drop_bit i devices AND 0xF = ucast device)"

definition km_internal_poll :: "'a kms_scheme devices \<Rightarrow> u8 \<Rightarrow> 'a kms_scheme \<Rightarrow> 'a kms_scheme option" where
  "km_internal_poll dev addr s = (
     let device = addr AND KM_ADDR_MASK in
     if device = 0xF then Some s
     else if polled (km_mask (kms s)) device
     then kms_command_out dev KMSCMD_KM_RECV (km_data (kms s) ! unat device OR push_bit 24 (ucast addr)) s
     else Some s)"

definition km_user_poll :: "'a kms_scheme devices \<Rightarrow> u8 \<Rightarrow> 'a kms_scheme \<Rightarrow> 'a kms_scheme option" where
  "km_user_poll dev addr s = (
     let val = km_data (kms s) ! unat (addr AND KM_ADDR_MASK);
         addr = (addr AND NOT KM_ADDR_MASK) OR KM_USER_POLL
     in kms_command_out dev KMSCMD_KM_RECV (val OR push_bit 24 (ucast addr)) s)"

definition km_no_response :: "'a kms_scheme devices \<Rightarrow> 'a kms_scheme \<Rightarrow> 'a kms_scheme option" where
  "km_no_response dev =
     kms_command_out dev KMSCMD_KM_RECV (push_bit 24 (ucast (KM_USER_POLL OR (KM_NO_RESPONSE OR KM_INVALID))))"

definition km_version :: "'a kms_scheme devices \<Rightarrow> u8 \<Rightarrow> 'a kms_scheme \<Rightarrow> 'a kms_scheme option" where
  "km_version dev addr s = (
     let val = push_bit 16 (ucast (kms_rev (kms s))) OR push_bit 8 1 OR (if tst addr KM_MOUSE then 2 else 1);
         addr = (addr AND NOT KM_ADDR_MASK) OR KM_USER_POLL
     in kms_command_out dev KMSCMD_KM_RECV (val OR push_bit 24 (ucast addr)) s)"

section \<open>Keyboard and mouse\<close>

text \<open>The new data of a device, and the poll that reports them.\<close>

definition km_event :: "'a kms_scheme devices \<Rightarrow> u8 \<Rightarrow> u16 \<Rightarrow> 'a kms_scheme \<Rightarrow> 'a kms_scheme option" where
  "km_event dev addr val s =
     km_internal_poll dev addr (upd_kms (\<lambda>k. k\<lparr>km_data := (km_data k)[unat (addr AND KM_ADDR_MASK) := ucast val]\<rparr>) s)"

definition kms_keydown :: "'a kms_scheme devices \<Rightarrow> u8 \<Rightarrow> u8 \<Rightarrow> 'a kms_scheme \<Rightarrow> 'a kms_scheme option" where
  "kms_keydown dev modkeys keycode s =
     (if keycode = NEXTKEY_POWER then Some (rtc_request_power_down s)
      else km_event dev (ucast (km_addr (kms s) OR ucast KM_MASTER)) (push_bit 8 (ucast modkeys) OR ucast keycode OR KBD_KEY_VALID) s)"

definition kms_keyup :: "'a kms_scheme devices \<Rightarrow> u8 \<Rightarrow> u8 \<Rightarrow> 'a kms_scheme \<Rightarrow> 'a kms_scheme option" where
  "kms_keyup dev modkeys keycode s =
     (if keycode = NEXTKEY_POWER then Some (rtc_stop_pdown_request s)
      else km_event dev (ucast (km_addr (kms s) OR ucast KM_MASTER))
             (push_bit 8 (ucast modkeys) OR ucast keycode OR KBD_KEY_VALID OR KBD_KEY_UP) s)"

definition mouse_buttons :: "'a kms_scheme \<Rightarrow> u16" where
  "mouse_buttons s = (if m_button_left s then 0 else MOUSE_LEFT_UP) OR (if m_button_right s then 0 else MOUSE_RIGHT_UP)"

definition kms_mouse_button :: "'a kms_scheme devices \<Rightarrow> bool \<Rightarrow> bool \<Rightarrow> 'a kms_scheme \<Rightarrow> 'a kms_scheme option" where
  "kms_mouse_button dev left down s = (
     let s = (if left then s\<lparr>m_button_left := down\<rparr> else s\<lparr>m_button_right := down\<rparr>)
     in km_event dev (ucast (km_addr (kms s) OR ucast KM_MOUSE)) (mouse_buttons s) s)"

text \<open>One coordinate: its size is limited, and motion to the right or down is negated in seven bits.\<close>

definition mouse_coord :: "int \<Rightarrow> int" where
  "mouse_coord x = (
     let positive = 0 \<le> x;
         x = (if x < 0 then - x else x);
         x = (if 0x3F < x then 0x3F else x)
     in if positive \<and> 0 < x then (0x40 - x) OR 0x40 else x)"

definition kms_mouse_move :: "'a kms_scheme devices \<Rightarrow> int \<Rightarrow> int \<Rightarrow> 'a kms_scheme \<Rightarrow> 'a kms_scheme option" where
  "kms_mouse_move dev x y s = (
     let val = (word_of_int (mouse_coord x * 2) AND MOUSE_X) OR (word_of_int (mouse_coord y * 2 ^ 9) AND MOUSE_Y) OR mouse_buttons s
     in km_event dev (ucast (km_addr (kms s) OR ucast KM_MOUSE)) val s)"

definition km_reset :: "'a kms_scheme \<Rightarrow> 'a kms_scheme" where
  "km_reset = upd_kms (\<lambda>k. k\<lparr>km_addr := 0, km_mask := 0, km_data := replicate 16 0\<rparr>)"

definition km_access :: "'a kms_scheme devices \<Rightarrow> u32 \<Rightarrow> 'a kms_scheme \<Rightarrow> 'a kms_scheme option" where
  "km_access dev val s = (
     let command = ucast (drop_bit 24 val AND 0xFF) :: u8;
         cmddata = ucast (drop_bit 16 val AND 0xFF) :: u8;
         device_cmd = drop_bit 5 (command AND KM_CMD_MASK);
         device_addr = command AND KM_ADDR_MASK
     in if command = KM_CMD_RESET then km_no_response dev (km_reset s)
        else if command = KM_CMD_SET_ADDR then km_no_response dev (km_set_addr cmddata s)
        else if tst command KM_CMD_READ then
          (if device_cmd = 0 then do { s \<leftarrow> km_user_poll dev device_addr s; km_no_response dev s }
           else if device_cmd = 7 then km_version dev device_addr s
           else km_no_response dev s)
        else km_no_response dev s)"

section \<open>From the processor to the interface\<close>

definition kms_reset :: "'a kms_scheme \<Rightarrow> 'a kms_scheme" where
  "kms_reset s = (
     let s = upd_kms (\<lambda>k. k\<lparr>st_sound := 0, st_km := 0, st_transmit := 0, st_cmd := 0, kms_command := 0, kms_data := 0, kmdata := 0\<rparr>) s
     in set_interrupt (INT_KEYMOUSE OR INT_SOUND_OVRUN OR INT_MONITOR OR INT_NMI) RELEASE_INT (km_reset (snd_stop_input (snd_stop_output s))))"

definition kms_sound_command :: "u8 \<Rightarrow> 'a kms_scheme \<Rightarrow> 'a kms_scheme option" where
  "kms_sound_command command s =
     (if command AND KMSCMD_SIO_MASK = KMSCMD_SND_OUT then
        if tst command KMSCMD_SIO_ENABLE then snd_start_output (command AND (KMSCMD_SIO_DBL_SMPL OR KMSCMD_SIO_ZERO)) s
        else Some (snd_stop_output (upd_kms (\<lambda>k. k\<lparr>st_sound := st_sound k AND NOT (SNDOUT_DMA_UNDERRUN OR SNDOUT_DMA_REQUEST)\<rparr>) s))
      else if command AND KMSCMD_SIO_MASK = KMSCMD_SND_IN then
        if tst command KMSCMD_SIO_ENABLE then snd_start_input s
        else Some (snd_stop_input (upd_kms (\<lambda>k. k\<lparr>st_sound := st_sound k AND NOT (SNDIN_DMA_OVERRUN OR SNDIN_DMA_REQUEST)\<rparr>) s))
      else Some s)"

definition kms_command_in :: "'b adjust \<Rightarrow> 'a kms_scheme devices \<Rightarrow> u8 \<Rightarrow> u32 \<Rightarrow> 'a kms_scheme \<Rightarrow> 'a kms_scheme option" where
  "kms_command_in adjust dev command val s =
     (if \<not> tst (st_transmit (kms s)) KMS_ENABLE then Some s
      else if command = KMSCMD_RESET then Some (if val = 0xFFFFFFFF then kms_reset s else s)
      else if command = KMSCMD_ASNDOUT then snd_send_sample adjust val s
      else if command = KMSCMD_KMPOLL then Some (upd_kms (\<lambda>k. k\<lparr>km_mask := val\<rparr>) s)
      else if command = KMSCMD_KMREG then km_access dev val s
      else if command = KMSCMD_CTRLOUT then Some (snd_gpo_access (ucast (drop_bit 24 val)) s)
      else if command = KMSCMD_VOLCTRL \<and> REV_OLD < kms_rev (kms s) then Some (snd_vol_access (ucast (drop_bit 24 val)) s)
      else kms_sound_command command s)"

section \<open>Registers\<close>

definition KMS_Stat_Snd_Read :: "'a kms_scheme \<Rightarrow> u8" where
  "KMS_Stat_Snd_Read s = st_sound (kms s)"

definition KMS_Ctrl_Snd_Write :: "u8 \<Rightarrow> 'a kms_scheme \<Rightarrow> 'a kms_scheme" where
  "KMS_Ctrl_Snd_Write val s = (
     let enable = SNDOUT_DMA_ENABLE OR SNDIN_DMA_ENABLE;
         s = upd_kms (\<lambda>k. k\<lparr>st_sound := (st_sound k AND NOT enable) OR (val AND enable)\<rparr>) s;
         s = (if tst val SNDOUT_DMA_UNDERRUN \<and> \<not> snd_output_active s
              then set_interrupt INT_SOUND_OVRUN RELEASE_INT
                     (upd_kms (\<lambda>k. k\<lparr>st_sound := st_sound k AND NOT (SNDOUT_DMA_UNDERRUN OR SNDOUT_DMA_REQUEST)\<rparr>) s)
              else s)
     in if tst val SNDIN_DMA_OVERRUN \<and> \<not> snd_input_active s
        then set_interrupt INT_SOUND_OVRUN RELEASE_INT
               (upd_kms (\<lambda>k. k\<lparr>st_sound := st_sound k AND NOT (SNDIN_DMA_OVERRUN OR SNDIN_DMA_REQUEST)\<rparr>) s)
        else s)"

definition KMS_Stat_KM_Read :: "'a kms_scheme \<Rightarrow> u8" where
  "KMS_Stat_KM_Read s = km_status s"

definition KMS_Ctrl_KM_Write :: "u8 \<Rightarrow> 'a kms_scheme \<Rightarrow> 'a kms_scheme" where
  "KMS_Ctrl_KM_Write val s = (
     let s = (if tst val KM_OVERRUN
              then set_interrupt INT_KEYMOUSE RELEASE_INT
                     (upd_kms (\<lambda>k. k\<lparr>st_km := st_km k AND NOT (KM_RECEIVED OR KM_OVERRUN OR KM_INT)\<rparr>) s) else s);
         s = (if tst val NMI_RECEIVED
              then set_interrupt INT_NMI RELEASE_INT (upd_kms (\<lambda>k. k\<lparr>st_km := st_km k AND NOT NMI_RECEIVED\<rparr>) s) else s)
     in if tst val KMS_OVERRUN
        then set_interrupt INT_MONITOR RELEASE_INT
               (upd_kms (\<lambda>k. k\<lparr>st_km := st_km k AND NOT (KMS_RECEIVED OR KMS_OVERRUN OR KMS_INT)\<rparr>) s) else s)"

definition KMS_Stat_TX_Read :: "'a kms_scheme \<Rightarrow> u8" where
  "KMS_Stat_TX_Read s = st_transmit (kms s)"

definition KMS_Ctrl_TX_Write :: "u8 \<Rightarrow> 'a kms_scheme \<Rightarrow> 'a kms_scheme" where
  "KMS_Ctrl_TX_Write val s = (
     let s = (if tst (st_transmit (kms s)) KMS_ENABLE \<and> \<not> tst val KMS_ENABLE then kms_reset s else s);
         bits = KMS_ENABLE OR TX_LOOP
     in upd_kms (\<lambda>k. k\<lparr>st_transmit := (st_transmit k AND NOT bits) OR (val AND bits)\<rparr>) s)"

definition KMS_Stat_Cmd_Read :: "'a kms_scheme \<Rightarrow> u8" where
  "KMS_Stat_Cmd_Read s = st_cmd (kms s)"

definition KMS_Ctrl_Cmd_Write :: "u8 \<Rightarrow> 'a kms_scheme \<Rightarrow> 'a kms_scheme" where
  "KMS_Ctrl_Cmd_Write val = upd_kms (\<lambda>k. k\<lparr>kms_command := val\<rparr>)"

definition KMS_Data_Read :: "'a kms_scheme \<Rightarrow> u32" where
  "KMS_Data_Read s = kms_data (kms s)"

definition KMS_Data_Write :: "'b adjust \<Rightarrow> 'a kms_scheme devices \<Rightarrow> u32 \<Rightarrow> 'a kms_scheme \<Rightarrow> 'a kms_scheme option" where
  "KMS_Data_Write adjust dev val s =
     (if tst (st_transmit (kms s)) TX_LOOP then kms_command_out dev (kms_command (kms s)) val s
      else kms_command_in adjust dev (kms_command (kms s)) val s)"

definition KMS_KM_Data_Read :: "'a kms_scheme \<Rightarrow> u32 \<times> 'a kms_scheme" where
  "KMS_KM_Data_Read s = (kmdata (kms s),
     set_interrupt INT_KEYMOUSE RELEASE_INT (upd_kms (\<lambda>k. k\<lparr>st_km := st_km k AND NOT (KM_RECEIVED OR KM_INT)\<rparr>) s))"

definition KMS_Reset :: "'a kms_scheme \<Rightarrow> 'a kms_scheme" where
  "KMS_Reset s = kms_reset (upd_kms (\<lambda>k. k\<lparr>kms_rev := (if bTurbo (System (ConfigureParams s)) then REV_NEW else REV_OLD)\<rparr>) s)"

section \<open>Sound loops\<close>

definition SND_Out_Handler :: "'b adjust \<Rightarrow> 'a kms_scheme devices \<Rightarrow> 'a kms_scheme \<Rightarrow> 'a kms_scheme option" where
  "SND_Out_Handler adjust dev s =
     (if \<not> sound_output_active s then Some s
      else
        let frametime = (if sound_output_inited s then 8 else SND_CDDA_INTERVAL); count = audio_queue_size s in
        if sound_output_inited s \<and> 0 < count then CycInt_UpdateTimeEvent (frametime * word_of_int (count div 4)) 0 EVENT_SND_OUTPUT s
        else do {
          s \<leftarrow> kms_send_sndout_request dev s;
          if snd_buffer_len s \<noteq> 0 then do {
            (len, buf, s) \<leftarrow> snd_send_samples adjust (snd_buffer s) (nat (snd_buffer_len s)) s;
            CycInt_UpdateTimeEvent (frametime * of_nat (len div 4)) 0 EVENT_SND_OUTPUT (s\<lparr>snd_buffer := buf\<rparr>)
          }
          else do {
            s \<leftarrow> kms_send_sndout_underrun dev s;
            CycInt_UpdateTimeEvent 100 0 EVENT_SND_OUTPUT s
          }
        })"

text \<open>
  The loop of the recording handler, with the number of samples that may follow: four compressed
  samples are sent together. The result is the count that determines the delay.
\<close>

fun record_samples :: "nat \<Rightarrow> int \<Rightarrow> 'a kms_scheme devices \<Rightarrow> 'a kms_scheme \<Rightarrow> (int \<times> 'a kms_scheme) option" where
  "record_samples 0 count dev s = Some (count, s)"
| "record_samples (Suc n) count dev s = (case audio_input s of
       [] \<Rightarrow> Some (256, s)
     | sample # samples \<Rightarrow>
         let s = s\<lparr>audio_input := samples, foursamples := push_bit 8 (foursamples s) OR ucast (snd_make_ulaw sample),
                   ulawsamplecount := ulawsamplecount s + 1\<rparr>
         in if 4 \<le> ulawsamplecount s then do {
              (blockend, s) \<leftarrow> kms_send_codec_receive dev (foursamples s) (s\<lparr>ulawsamplecount := 0\<rparr>);
              if blockend then Some (count + 1, s) else record_samples n (count + 1) dev s
            }
            else record_samples n (count + 1) dev s)"

definition SND_In_Handler :: "'a kms_scheme devices \<Rightarrow> 'a kms_scheme \<Rightarrow> 'a kms_scheme option" where
  "SND_In_Handler dev s =
     (if \<not> sound_input_active s then Some s
      else
        let (ready, s) = kms_can_receive_codec s in
        if \<not> ready then Some s
        else do {
          let frametime = (if bEnableSound (Sound (ConfigureParams s)) then SND_CODEC_INTERVAL - 1 else SND_CODEC_INTERVAL);
          (count, s) \<leftarrow> record_samples 256 0 dev s;
          let count = (if 8192 < 2 * length (audio_input s) then 16 else count);
          let (ready, s) = kms_can_receive_codec s;
          if ready then CycInt_UpdateTimeEvent (frametime * word_of_int count) 0 EVENT_SND_INPUT s else Some s
        })"

end
