(* ===== verification/KmsProps.thy ===== *)
theory KmsProps
  imports EspIrq MoDisk SndProps Kms
begin

text \<open>
  The keyboard and mouse interface of \<open>Kms\<close>: its interrupt agrees with its status register in every
  reachable state, and key presses and mouse motion reach the guest's data register.
\<close>

section \<open>The interrupt\<close>

definition km_irq :: "'a kms_scheme \<Rightarrow> bool" where
  "km_irq s \<longleftrightarrow> (tst (scrIntStat s) INT_KEYMOUSE \<longleftrightarrow> tst (km_status s) KM_INT)"

lemma set_interrupt_kms [simp]:
  "kms (set_interrupt i st s) = kms s" "sound_output_active (set_interrupt i st s) = sound_output_active s"
  "sound_input_active (set_interrupt i st s) = sound_input_active s" "audio_input (set_interrupt i st s) = audio_input s"
  by (subst set_interrupt_eq, simp)+

text \<open>Interrupts of other devices, and the interface's own, together with its status bit.\<close>

lemma km_irq_set_interrupt:
  assumes "i AND INT_KEYMOUSE = 0"
  shows "km_irq (set_interrupt i st s) = km_irq s"
proof -
  have "\<not> tst i INT_KEYMOUSE" using assms by (simp add: tst_def)
  then show ?thesis using assms by (simp add: km_irq_def tst_clear_disjoint)
qed

lemma km_irq_own:
  "km_irq (set_interrupt INT_KEYMOUSE SET_INT s) \<longleftrightarrow> tst (km_status s) KM_INT"
  "tst i INT_KEYMOUSE \<Longrightarrow> NOT i AND INT_KEYMOUSE = 0 \<Longrightarrow> km_irq (set_interrupt i RELEASE_INT s) \<longleftrightarrow> \<not> tst (km_status s) KM_INT"
  by (simp_all add: km_irq_def)

lemma km_irq_fields [simp]:
  "km_irq (s\<lparr>NEXTRam := m\<rparr>) = km_irq s" "km_irq (s\<lparr>NEXTVideo := m\<rparr>) = km_irq s"
  "km_irq (s\<lparr>NEXTbmap := b\<rparr>) = km_irq s" "km_irq (s\<lparr>bmap_rom_local := x\<rparr>) = km_irq s" "km_irq (s\<lparr>bmap_hreq_enable := y\<rparr>) = km_irq s"
  "km_irq (s\<lparr>bmap_txdn_enable := y\<rparr>) = km_irq s" "km_irq (s\<lparr>bmap_tpe_select := x\<rparr>) = km_irq s" "km_irq (s\<lparr>dsp_calls := l\<rparr>) = km_irq s"
  "km_irq (upd_dma c f s) = km_irq s" "km_irq (s\<lparr>snd_buffer := sb\<rparr>) = km_irq s" "km_irq (s\<lparr>snd_buffer_len := i\<rparr>) = km_irq s"
  "km_irq (s\<lparr>sndout_state := ss\<rparr>) = km_irq s" "km_irq (s\<lparr>sound_output_active := q\<rparr>) = km_irq s" "km_irq (s\<lparr>sound_input_active := q\<rparr>) = km_irq s"
  "km_irq (s\<lparr>audio_output := ao\<rparr>) = km_irq s" "km_irq (s\<lparr>audio_input := ai\<rparr>) = km_irq s" "km_irq (s\<lparr>audio_queue_size := i\<rparr>) = km_irq s"
  "km_irq (s\<lparr>audio_enabled := q\<rparr>) = km_irq s" "km_irq (s\<lparr>foursamples := v\<rparr>) = km_irq s" "km_irq (s\<lparr>ulawsamplecount := i\<rparr>) = km_irq s"
  "km_irq (s\<lparr>tmp_vol := w\<rparr>) = km_irq s" "km_irq (s\<lparr>bit_num := i\<rparr>) = km_irq s" "km_irq (s\<lparr>gpo_old_data := x8\<rparr>) = km_irq s"
  "km_irq (s\<lparr>kms_codec_dma_blockend := q\<rparr>) = km_irq s" "km_irq (s\<lparr>m_button_left := q\<rparr>) = km_irq s" "km_irq (s\<lparr>m_button_right := q\<rparr>) = km_irq s"
  "km_irq (s\<lparr>newrtc := nr\<rparr>) = km_irq s"
  by (simp_all add: km_irq_def upd_dma_def)

lemma km_irq_upd_kms [simp]:
  "tst (st_km (f (kms s))) KM_INT = tst (st_km (kms s)) KM_INT \<Longrightarrow> km_irq (upd_kms f s) = km_irq s"
  by (simp add: km_irq_def upd_kms_def)

interpretation km_memory: memory_keeper "km_irq :: 'a kms_scheme \<Rightarrow> bool"
proof unfold_locales
  show "km_irq (set_interrupt (get_interrupt_type c) i s) = km_irq s" for c i and s :: "'a kms_scheme"
    by (rule km_irq_set_interrupt) (cases c; simp)
  show "km_irq (scr_check_dsp_interrupt s) = km_irq s" for s :: "'a kms_scheme"
    by (auto simp: scr_check_dsp_interrupt_def Let_def km_irq_set_interrupt)
qed simp_all

text \<open>Every operation keeps the invariant.\<close>

abbreviation km_keeps :: "'a kms_scheme option \<Rightarrow> bool" where
  "km_keeps \<equiv> all_results km_irq (\<lambda>s. s)"

abbreviation km_devices :: "'a kms_scheme devices \<Rightarrow> bool" where
  "km_devices \<equiv> keeping_devices km_irq"

lemma km_irq_sched: "t = sched_upd t s \<Longrightarrow> km_irq t = km_irq s"
  by (erule ssubst) (simp add: km_irq_def sched_upd_def)

lemma km_irq_event:
  "CycInt_AddTimeEvent rt ft i s = Some t \<Longrightarrow> km_irq t = km_irq s" "CycInt_UpdateTimeEvent rt ft i s = Some t \<Longrightarrow> km_irq t = km_irq s"
  by (rule km_irq_sched, erule AddTimeEvent_frame UpdateTimeEvent_frame)+

lemma km_events:
  assumes "km_irq s"
  shows "km_keeps (CycInt_AddTimeEvent rt ft i s)" "km_keeps (CycInt_UpdateTimeEvent rt ft i s)"
  using assms by (auto simp: all_results_def km_irq_event)

lemma kms_upd_kms [simp]: "kms (upd_kms f s) = f (kms s)"
  by (simp add: upd_kms_def)

lemma km_irq_reset [simp]: "km_irq (kms_reset s)" "km_irq (KMS_Reset s)"
  by (simp_all add: KMS_Reset_def kms_reset_def km_reset_def km_irq_own snd_stop_input_def snd_stop_output_def)

lemma km_irq_registers:
  assumes "km_irq s"
  shows "km_irq (snd (KMS_KM_Data_Read s))" "km_irq (KMS_Ctrl_KM_Write val s)" "km_irq (KMS_Ctrl_TX_Write val s)"
  using assms
  by (simp_all add: KMS_KM_Data_Read_def KMS_Ctrl_KM_Write_def KMS_Ctrl_TX_Write_def km_irq_own km_irq_set_interrupt Let_def)

lemma km_irq_sound [simp]:
  "km_irq (kms_sndout_underrun s) = km_irq s" "km_irq (kms_sndin_overrun s) = km_irq s" "km_irq (KMS_Ctrl_Snd_Write val s) = km_irq s"
  "km_irq (dma_sndout_intr s) = km_irq s" "km_irq (snd (dma_sndin_intr s)) = km_irq s"
  by (simp_all add: kms_sndout_underrun_def kms_sndin_overrun_def KMS_Ctrl_Snd_Write_def km_irq_set_interrupt Let_def
      dma_sndout_intr_def dma_sndin_intr_def)

lemma km_irq_catch [simp]: "km_irq (dma_catch c r) = km_irq (snd r)"
  by (rule km_memory.dma_interrupt_keeps)

lemma km_dma_sound:
  assumes "km_devices dev" "km_irq s"
  shows "km_keeps (dma_sndout_read_memory dev s)" "all_results km_irq snd (dma_sndin_write_memory dev val s)"
proof -
  have store: "km_keeps (snd_store v t)" if "km_irq t" for v and t :: "'a kms_scheme"
    using that by (auto simp: snd_store_def all_results_def split: Option.bind_splits)
  show "km_keeps (dma_sndout_read_memory dev s)"
    using assms(2) by (auto simp: dma_sndout_read_memory_def Let_def intro!: all_bind [OF km_memory.read_bytes_keeps [OF assms(1)]] store)
  note put = km_memory.mem_put_keeps [OF assms]
  show "all_results km_irq snd (dma_sndin_write_memory dev val s)"
    using assms(2) by (auto simp: dma_sndin_write_memory_def upd_csr_def Let_def split: sum.splits intro!: all_bind [OF put])
qed

lemma km_command_out:
  assumes "km_devices dev" "km_irq s"
  shows "km_keeps (kms_command_out dev command val s)"
proof -
  have receive: "km_keeps (kms_km_receive dev val s)"
    using assms by (auto simp: kms_km_receive_def Let_def km_irq_own km_irq_set_interrupt keeping_devices_def)
  have codec: "km_keeps (kms_codec_receive dev val s)"
    using assms by (auto simp: kms_codec_receive_def Let_def case_prod_beta intro!: all_bind [OF km_dma_sound(2) [OF assms(1)]])
  have request: "km_keeps (kms_sndout_request dev t)" if "km_irq t" for t
    using that by (auto simp: kms_sndout_request_def Let_def intro!: km_dma_sound(1) assms)
  show ?thesis using assms receive codec request by (auto simp: kms_command_out_def)
qed

lemma km_access_keeps: "km_devices dev \<Longrightarrow> km_irq s \<Longrightarrow> km_keeps (km_access dev val s)"
  by (auto simp: km_access_def km_no_response_def km_user_poll_def km_version_def km_reset_def km_set_addr_def Let_def
      intro!: km_command_out all_bind [OF km_command_out])

lemma km_samples_keep:
  assumes "km_irq s"
  shows "all_results km_irq (\<lambda>(len, buf, s). s) (snd_send_samples adjust buf n s)"
  using assms by (auto simp: snd_send_samples_def Let_def all_results_def split: Option.bind_splits)

lemma km_vol [simp]: "km_irq (snd_vol_access val s) = km_irq s" "km_irq (snd_gpo_access val s) = km_irq s"
  by (simp_all add: snd_vol_access_def snd_gpo_access_def snd_save_volume_reg_def snd_shift_volume_reg_def
      snd_volume_interface_reset_def upd_sndout_def Let_def)

lemma km_command_in:
  assumes "km_devices dev" "km_irq s"
  shows "km_keeps (kms_command_in adjust dev command val s)"
proof -
  have sample: "km_keeps (snd_send_sample adjust v s)" for v
    using assms(2) by (auto simp: snd_send_sample_def Let_def intro!: all_map [OF km_samples_keep])
  have sound: "km_keeps (kms_sound_command c s)" for c
    using assms(2) by (auto simp: kms_sound_command_def snd_start_output_def snd_start_input_def snd_stop_output_def snd_stop_input_def
        upd_sndout_def Let_def intro!: km_events)
  show ?thesis using assms sample sound by (auto simp: kms_command_in_def intro!: km_access_keeps)
qed

lemma km_event_keeps:
  assumes "km_devices dev" "km_irq s"
  shows "km_keeps (kms_keydown dev m c s)" "km_keeps (kms_keyup dev m c s)" "km_keeps (kms_mouse_button dev left down s)"
    "km_keeps (kms_mouse_move dev x y s)"
proof -
  have event: "km_keeps (km_event dev a v t)" if "km_irq t" for a v t
    using that assms(1) by (auto simp: km_event_def km_internal_poll_def Let_def intro!: km_command_out)
  have power: "km_irq (rtc_request_power_down s)" "km_irq (rtc_stop_pdown_request s)"
    using assms(2) by (auto simp: rtc_request_power_down_def rtc_stop_pdown_request_def newrtc_request_power_down_def
        oldrtc_request_power_down_def oldrtc_stop_pdown_request_def newrtc_check_interrupt_def km_irq_set_interrupt)
  show "km_keeps (kms_keydown dev m c s)" "km_keeps (kms_keyup dev m c s)" "km_keeps (kms_mouse_button dev left down s)"
    "km_keeps (kms_mouse_move dev x y s)"
    using assms(2) power
    by (auto simp: kms_keydown_def kms_keyup_def kms_mouse_button_def kms_mouse_move_def Let_def intro!: event)
qed

lemma km_out_handler:
  assumes "km_devices dev" "km_irq s"
  shows "km_keeps (SND_Out_Handler adjust dev s)"
  using assms(2)
  by (auto simp: SND_Out_Handler_def kms_send_sndout_request_def kms_send_sndout_underrun_def Let_def
      intro!: km_events all_bind [OF km_command_out] all_bind [OF km_samples_keep] assms(1))

lemma km_record: "km_devices dev \<Longrightarrow> km_irq s \<Longrightarrow> all_results km_irq snd (record_samples n count dev s)"
proof (induction n arbitrary: count s)
  case (Suc n)
  then show ?case
    by (auto simp: Let_def kms_send_codec_receive_def split: list.split intro!: all_bind [OF km_command_out])
qed simp

lemma km_in_handler:
  assumes "km_devices dev" "km_irq s"
  shows "km_keeps (SND_In_Handler dev s)"
  using assms(2)
  by (auto simp: SND_In_Handler_def kms_can_receive_codec_def case_prod_beta Let_def intro!: km_events all_bind [OF km_record] assms(1))

section \<open>Reachable states\<close>

text \<open>
  Everything that happens to the interface, and what the rest of the machine does: memory accesses,
  interrupts, and any change that leaves the interface's registers and its request alone, which no other
  source file changes. A reset of the machine ends with a reset of the interface and starts a new history.
\<close>

inductive kms_step :: "'b adjust \<Rightarrow> 'a kms_scheme devices \<Rightarrow> 'a kms_scheme \<Rightarrow> 'a kms_scheme \<Rightarrow> bool" for adjust dev where
  key_down: "kms_keydown dev m c s = Some t \<Longrightarrow> kms_step adjust dev s t"
| key_up: "kms_keyup dev m c s = Some t \<Longrightarrow> kms_step adjust dev s t"
| button: "kms_mouse_button dev left down s = Some t \<Longrightarrow> kms_step adjust dev s t"
| motion: "kms_mouse_move dev x y s = Some t \<Longrightarrow> kms_step adjust dev s t"
| data: "KMS_Data_Write adjust dev v s = Some t \<Longrightarrow> kms_step adjust dev s t"
| km_read: "kms_step adjust dev s (snd (KMS_KM_Data_Read s))"
| ctrl_snd: "kms_step adjust dev s (KMS_Ctrl_Snd_Write w s)"
| ctrl_km: "kms_step adjust dev s (KMS_Ctrl_KM_Write w s)"
| ctrl_tx: "kms_step adjust dev s (KMS_Ctrl_TX_Write w s)"
| ctrl_cmd: "kms_step adjust dev s (KMS_Ctrl_Cmd_Write w s)"
| sound_out: "SND_Out_Handler adjust dev s = Some t \<Longrightarrow> kms_step adjust dev s t"
| sound_in: "SND_In_Handler dev s = Some t \<Longrightarrow> kms_step adjust dev s t"
| kms_restart: "kms_step adjust dev s (KMS_Reset s)"
| memory_read: "mem_get dev sz a s = Some (r, t) \<Longrightarrow> kms_step adjust dev s t"
| memory_write: "mem_put dev sz a v s = Some (u, t) \<Longrightarrow> kms_step adjust dev s t"
| other: "i AND INT_KEYMOUSE = 0 \<Longrightarrow> kms_step adjust dev s (set_interrupt i st s)"
| elsewhere: "kms t = kms s \<Longrightarrow> tst (scrIntStat t) INT_KEYMOUSE = tst (scrIntStat s) INT_KEYMOUSE \<Longrightarrow> kms_step adjust dev s t"

inductive kms_reachable :: "'b adjust \<Rightarrow> 'a kms_scheme devices \<Rightarrow> 'a kms_scheme \<Rightarrow> bool" for adjust dev where
  init: "kms_reachable adjust dev (KMS_Reset s)"
| step: "kms_reachable adjust dev s \<Longrightarrow> kms_step adjust dev s t \<Longrightarrow> kms_reachable adjust dev t"

lemma km_step_irq:
  assumes "kms_step adjust dev s t" "km_devices dev" "km_irq s"
  shows "km_irq t"
  using assms(1)
proof cases
  case (data v)
  then show ?thesis
    using km_command_out [OF assms(2,3)] km_command_in [OF assms(2,3)] by (auto simp: KMS_Data_Write_def all_results_def split: if_splits)
next
  case elsewhere
  then show ?thesis using assms(3) by (simp add: km_irq_def)
qed (use assms(3) km_event_keeps [OF assms(2,3)] km_out_handler [OF assms(2,3)] km_in_handler [OF assms(2,3)] km_irq_registers [OF assms(3)]
    km_memory.mem_get_keeps [OF assms(2,3)] km_memory.mem_put_keeps [OF assms(2,3)]
  in \<open>auto simp: all_results_def km_irq_set_interrupt KMS_Ctrl_Cmd_Write_def\<close>)

text \<open>
  C39. In every reachable state the keyboard and mouse request in the interrupt status register is
  set exactly when the interface reports an interrupt in its own status register: no key press,
  mouse motion, sound transfer, register access or reset leaves a request that the guest cannot
  find or a report without a request. The handlers behind the I/O addresses, which a sound
  transfer may reach, are assumed to keep this themselves.
\<close>

theorem km_interrupt_consistent:
  assumes "kms_reachable adjust dev s" "keeping_devices km_irq dev"
  shows "tst (IntRegStatRead s) INT_KEYMOUSE \<longleftrightarrow> tst (KMS_Stat_KM_Read s) KM_INT"
proof -
  from assms(1) have "km_irq s" by induction (use km_step_irq [OF _ assms(2)] in auto)
  then show ?thesis by (simp add: km_irq_def IntRegStatRead_def KMS_Stat_KM_Read_def)
qed

text \<open>A key press that is polled reaches the guest: the data register holds the event, and an interrupt is requested.\<close>

lemma key_press_received:
  assumes "tst (st_transmit (kms s)) KMS_ENABLE" "keycode \<noteq> NEXTKEY_POWER" "length (km_data (kms s)) = 16"
    and "km_addr (kms s) = 0" "polled (km_mask (kms s)) 0"
    and "v = 0x10000000 OR ucast (push_bit 8 (ucast modkeys) OR ucast keycode OR KBD_KEY_VALID :: u16)"
    and "v AND KMS_MAGIC_MASK \<notin> {KMS_MAGIC_RESET, KMS_MAGIC_NMI_L, KMS_MAGIC_NMI_R, KMS_MAGIC_NMI_LR}"
  shows "\<exists>t. kms_keydown dev modkeys keycode s = Some t \<and> fst (KMS_KM_Data_Read t) = v
    \<and> tst (KMS_Stat_KM_Read t) KM_RECEIVED \<and> tst (IntRegStatRead t) INT_KEYMOUSE"
proof -
  let ?e = "push_bit 8 (ucast modkeys) OR ucast keycode OR KBD_KEY_VALID :: u16"
  have v: "ucast ?e OR 0x10000000 = v" unfolding assms(6) by (simp only: or.commute)
  show ?thesis
    using assms(1-5,7)
    by (simp add: kms_keydown_def km_event_def km_internal_poll_def kms_command_out_def kms_km_receive_def KMS_KM_Data_Read_def
        KMS_Stat_KM_Read_def IntRegStatRead_def v Let_def)
qed

definition sample_kms :: kms where
  "sample_kms = snd.extend (mo.extend sample_mo
     (snd.fields \<lparr>snd_mode = 0, snd_mute = 0, snd_deemph = 0, attenuation = [0, 0]\<rparr> 0 0 0 0 0 False False False False [] 0 False [] [] []))
     (kms.fields \<lparr>st_sound = 0, st_km = 0, st_transmit = 0, st_cmd = 0, kms_command = 0, kms_data = 0, kmdata = 0, kms_rev = 0,
          km_addr = 0, km_data = replicate 16 0, km_mask = 0\<rparr> False False False)"

lemma sample_km_devices: "keeping_devices km_irq (sample_devices :: kms devices)"
  by (auto simp: keeping_devices_def sample_devices_def bus_err_def all_results_def BMAP_Reset_def)

lemma kms_Reset_regs: "kms (KMS_Reset s) = (kms s)\<lparr>st_sound := 0, st_km := 0, st_transmit := 0, st_cmd := 0, kms_command := 0,
    kms_data := 0, kmdata := 0, kms_rev := (if bTurbo (System (ConfigureParams s)) then REV_NEW else REV_OLD),
    km_addr := 0, km_data := replicate 16 0, km_mask := 0\<rparr>"
  by (simp add: KMS_Reset_def kms_reset_def km_reset_def snd_stop_input_def snd_stop_output_def Let_def)

lemma kms_enabled:
  "kms (KMS_Ctrl_TX_Write KMS_ENABLE (KMS_Reset s)) = (kms (KMS_Reset s))\<lparr>st_transmit := KMS_ENABLE\<rparr>"
  by (simp add: KMS_Ctrl_TX_Write_def kms_Reset_regs Let_def)

text \<open>After a reset the guest enables the interface, and a key is pressed.\<close>

theorem km_interrupt_consistent_witness:
  "\<exists>t. kms_keydown sample_devices 0 0x39 (KMS_Ctrl_TX_Write KMS_ENABLE (KMS_Reset sample_kms)) = Some t
     \<and> tst (IntRegStatRead t) INT_KEYMOUSE \<and> tst (KMS_Stat_KM_Read t) KM_INT"
proof -
  let ?s = "KMS_Ctrl_TX_Write KMS_ENABLE (KMS_Reset sample_kms)"
  have r: "kms_reachable (\<lambda>_ b. b) sample_devices ?s" by (rule kms_reachable.step [OF kms_reachable.init kms_step.ctrl_tx])
  have "tst (st_transmit (kms ?s)) KMS_ENABLE" "length (km_data (kms ?s)) = 16" "km_addr (kms ?s) = 0" "polled (km_mask (kms ?s)) 0"
    by (simp_all add: kms_enabled kms_Reset_regs polled_def) blast
  from key_press_received [OF this(1) _ this(2-4) refl, of "0x39" 0 sample_devices] obtain t where
    t: "kms_keydown sample_devices 0 0x39 ?s = Some t" "tst (IntRegStatRead t) INT_KEYMOUSE" by auto
  with km_interrupt_consistent [OF kms_reachable.step [OF r kms_step.key_down [OF t(1)]] sample_km_devices] show ?thesis by blast
qed

section \<open>Motion\<close>

text \<open>A coordinate of the mouse is sent negated, in seven bits, and limited to 63 in either direction.\<close>

lemma mouse_coord_eq: "mouse_coord x = (- max (- 63) (min 63 x)) mod 128"
proof -
  let ?c = "max (- 63) (min 63 x)"
  have "list_all (\<lambda>i. mouse_coord (int i - 63) = (63 - int i) mod 128) [0..<127]" by code_simp
  then have "mouse_coord (int (nat (?c + 63)) - 63) = (63 - int (nat (?c + 63))) mod 128"
    unfolding list_all_iff by (rule bspec) auto
  moreover have "int (nat (?c + 63)) = ?c + 63" by auto
  ultimately have "mouse_coord ?c = (- ?c) mod 128" by simp
  moreover have "mouse_coord x = mouse_coord ?c" by (auto simp: mouse_coord_def Let_def max_def min_def)
  ultimately show ?thesis by simp
qed

end
