(* ===== verification/Floppy.thy ===== *)
theory Floppy
  imports Kms
begin

text \<open>
  The floppy controller (\<open>floppy.c\<close>): its registers and command FIFO, the commands, and the
  transfer of sectors over the SCSI channel of \<open>Dma\<close>, which it shares with the SCSI controller.
\<close>

section \<open>State\<close>

record flp_regs =
  sra :: u8
  srb :: u8
  dor :: u8
  msr :: u8
  flp_dsr :: u8
  flp_fifo :: "u8 list"
  flp_din :: u8
  flp_ccr :: u8
  flp_csr :: u8
  flp_st :: "u8 list"
  pcn :: u8
  flp_sel :: u8
  flp_eis :: u8

record flp_unit =
  flp_cyl :: u8
  flp_head :: u8
  flp_sector :: u8
  flp_blocksize :: u8
  flp_dsk :: "FILE option"
  floppysize :: u32
  seekoffset :: u32
  flp_spinning :: bool
  flp_protected :: bool
  flp_inserted :: bool
  flp_connected :: bool

datatype FLP_STATE = FLP_STATE_WRITE | FLP_STATE_READ | FLP_STATE_FORMAT | FLP_STATE_INTERRUPT | FLP_STATE_DONE

record floppy = kms +
  flp :: flp_regs
  flpdrv :: "flp_unit list"
  flp_io_state :: FLP_STATE
  flp_sector_counter :: int
  flp_io_drv :: nat
  cmd_phase :: bool
  cmd_size :: int
  cmd_limit :: int
  flp_command :: u8
  cmd_data :: "u8 list"
  result_size :: int

abbreviation (input) FLP_MAX_DRIVES :: nat where "FLP_MAX_DRIVES \<equiv> 4"
abbreviation (input) SRA_INT :: u8 where "SRA_INT \<equiv> 0x80"
abbreviation (input) SRA_STEP :: u8 where "SRA_STEP \<equiv> 0x20"
abbreviation (input) SRA_TRK0_N :: u8 where "SRA_TRK0_N \<equiv> 0x10"
abbreviation (input) SRA_HDSEL :: u8 where "SRA_HDSEL \<equiv> 0x08"
abbreviation (input) SRA_WP_N :: u8 where "SRA_WP_N \<equiv> 0x02"
abbreviation (input) SRA_DIR :: u8 where "SRA_DIR \<equiv> 0x01"
abbreviation (input) SRB_ALL1 :: u8 where "SRB_ALL1 \<equiv> 0xC0"
abbreviation (input) SRB_DRVSEL0_N :: u8 where "SRB_DRVSEL0_N \<equiv> 0x20"
abbreviation (input) SRB_W_TOGGLE :: u8 where "SRB_W_TOGGLE \<equiv> 0x10"
abbreviation (input) SRB_R_TOGGLE :: u8 where "SRB_R_TOGGLE \<equiv> 0x08"
abbreviation (input) SRB_MOTEN_MASK :: u8 where "SRB_MOTEN_MASK \<equiv> 0x03"
abbreviation (input) DOR_MOT0EN :: u8 where "DOR_MOT0EN \<equiv> 0x10"
abbreviation (input) DOR_MOTEN_MASK :: u8 where "DOR_MOTEN_MASK \<equiv> 0xF0"
abbreviation (input) DOR_RESET_N :: u8 where "DOR_RESET_N \<equiv> 0x04"
abbreviation (input) DOR_SEL_MSK :: u8 where "DOR_SEL_MSK \<equiv> 0x03"
abbreviation (input) MSR_RQM :: u8 where "MSR_RQM \<equiv> 0x80"
abbreviation (input) MSR_DIO :: u8 where "MSR_DIO \<equiv> 0x40"
abbreviation (input) MSR_BSY_MASK :: u8 where "MSR_BSY_MASK \<equiv> 0x0F"
abbreviation (input) DSR_RESET :: u8 where "DSR_RESET \<equiv> 0x80"
abbreviation (input) DIR_HIDENS_N :: u8 where "DIR_HIDENS_N \<equiv> 0x01"
abbreviation (input) CCR_RATE_MASK :: u8 where "CCR_RATE_MASK \<equiv> 0x03"
abbreviation (input) CCR_RATE250 :: u8 where "CCR_RATE250 \<equiv> 0x02"
abbreviation (input) CCR_RATE500 :: u8 where "CCR_RATE500 \<equiv> 0x00"
abbreviation (input) CCR_RATE1000 :: u8 where "CCR_RATE1000 \<equiv> 0x03"
abbreviation (input) CTRL_EJECT :: u8 where "CTRL_EJECT \<equiv> 0x80"
abbreviation (input) CTRL_82077 :: u8 where "CTRL_82077 \<equiv> 0x40"
abbreviation (input) CTRL_RESET :: u8 where "CTRL_RESET \<equiv> 0x20"
abbreviation (input) CTRL_DRV_ID :: u8 where "CTRL_DRV_ID \<equiv> 0x04"
abbreviation (input) CTRL_MEDIA_ID1 :: u8 where "CTRL_MEDIA_ID1 \<equiv> 0x02"
abbreviation (input) CTRL_MEDIA_ID0 :: u8 where "CTRL_MEDIA_ID0 \<equiv> 0x01"
abbreviation (input) ST0_SE :: u8 where "ST0_SE \<equiv> 0x20"
abbreviation (input) ST1_EN :: u8 where "ST1_EN \<equiv> 0x80"
abbreviation (input) ST1_OR :: u8 where "ST1_OR \<equiv> 0x10"
abbreviation (input) ST1_ND :: u8 where "ST1_ND \<equiv> 0x04"
abbreviation (input) ST1_NW :: u8 where "ST1_NW \<equiv> 0x02"
abbreviation (input) ST2_WC :: u8 where "ST2_WC \<equiv> 0x10"
abbreviation (input) IC_NORMAL :: u8 where "IC_NORMAL \<equiv> 0x00"
abbreviation (input) IC_ABNORMAL :: u8 where "IC_ABNORMAL \<equiv> 0x40"
abbreviation (input) IC_INV_CMD :: u8 where "IC_INV_CMD \<equiv> 0x80"
abbreviation (input) SIZE_720K :: u32 where "SIZE_720K \<equiv> 737280"
abbreviation (input) SIZE_1440K :: u32 where "SIZE_1440K \<equiv> 1474560"
abbreviation (input) SIZE_2880K :: u32 where "SIZE_2880K \<equiv> 2949120"
abbreviation (input) NUM_CYLINDERS :: u32 where "NUM_CYLINDERS \<equiv> 80"
abbreviation (input) TRACKS_PER_CYL :: u32 where "TRACKS_PER_CYL \<equiv> 2"
abbreviation (input) FLP_SEEK_TIME :: u32 where "FLP_SEEK_TIME \<equiv> 200000"
abbreviation (input) MEDIA_ID_NONE :: u8 where "MEDIA_ID_NONE \<equiv> 0"
abbreviation (input) MEDIA_ID_720K :: u8 where "MEDIA_ID_720K \<equiv> 3"
abbreviation (input) MEDIA_ID_1440K :: u8 where "MEDIA_ID_1440K \<equiv> 2"
abbreviation (input) MEDIA_ID_2880K :: u8 where "MEDIA_ID_2880K \<equiv> 1"
abbreviation (input) CMD_OPCODE_MSK :: u8 where "CMD_OPCODE_MSK \<equiv> 0x1F"

definition upd_flp :: "(flp_regs \<Rightarrow> flp_regs) \<Rightarrow> 'a floppy_scheme \<Rightarrow> 'a floppy_scheme" where
  "upd_flp f s = s\<lparr>flp := f (flp s)\<rparr>"

definition upd_flpdrv :: "nat \<Rightarrow> (flp_unit \<Rightarrow> flp_unit) \<Rightarrow> 'a floppy_scheme \<Rightarrow> 'a floppy_scheme" where
  "upd_flpdrv d f s = s\<lparr>flpdrv := (flpdrv s)[d := f (flpdrv s ! d)]\<rparr>"

abbreviation upd_msr :: "(u8 \<Rightarrow> u8) \<Rightarrow> 'a floppy_scheme \<Rightarrow> 'a floppy_scheme" where
  "upd_msr f \<equiv> upd_flp (\<lambda>r. r\<lparr>msr := f (msr r)\<rparr>)"

abbreviation st0 :: "'a floppy_scheme \<Rightarrow> u8" where
  "st0 s \<equiv> flp_st (flp s) ! 0"

text \<open>Set bits of one of the internal status registers.\<close>

definition or_st :: "nat \<Rightarrow> u8 \<Rightarrow> 'a floppy_scheme \<Rightarrow> 'a floppy_scheme" where
  "or_st i v = upd_flp (\<lambda>r. r\<lparr>flp_st := (flp_st r)[i := flp_st r ! i OR v]\<rparr>)"

definition set_st0 :: "u8 \<Rightarrow> 'a floppy_scheme \<Rightarrow> 'a floppy_scheme" where
  "set_st0 v = upd_flp (\<lambda>r. r\<lparr>flp_st := (flp_st r)[0 := v]\<rparr>)"

definition clear_st :: "'a floppy_scheme \<Rightarrow> 'a floppy_scheme" where
  "clear_st = upd_flp (\<lambda>r. r\<lparr>flp_st := (flp_st r)[0 := 0, 1 := 0, 2 := 0]\<rparr>)"

section \<open>Start and stop\<close>

definition floppy_start :: "'a floppy_scheme \<Rightarrow> 'a floppy_scheme option" where
  "floppy_start s = (
     let s = upd_flp (\<lambda>r. r\<lparr>sra := sra r AND NOT (SRA_INT OR SRA_STEP OR SRA_HDSEL OR SRA_DIR),
                            srb := srb r AND NOT (SRB_R_TOGGLE OR SRB_W_TOGGLE), msr := (msr r AND NOT MSR_DIO) OR MSR_RQM\<rparr>) s;
         s = (set_interrupt INT_PHONE RELEASE_INT s)\<lparr>flp_io_state := FLP_STATE_INTERRUPT\<rparr>
     in CycInt_AddTimeEvent (1000 * 1000) 0 EVENT_FLOPPY_IO s)"

definition floppy_stop :: "'a floppy_scheme \<Rightarrow> 'a floppy_scheme" where
  "floppy_stop s = (
     let s = set_interrupt INT_PHONE RELEASE_INT (upd_flp (\<lambda>r. r\<lparr>sra := sra r AND NOT SRA_INT\<rparr>) s)
     in CycInt_RemovePendingEvent EVENT_FLOPPY_IO (s\<lparr>flp_io_state := FLP_STATE_DONE\<rparr>))"

definition floppy_reset :: "'a floppy_scheme \<Rightarrow> 'a floppy_scheme" where
  "floppy_reset s = (
     let s = upd_flp (\<lambda>r. r\<lparr>dor := 0, flp_sel := 0, sra := sra r AND NOT (SRA_INT OR SRA_STEP OR SRA_HDSEL OR SRA_DIR),
                            srb := srb r AND NOT (SRB_R_TOGGLE OR SRB_W_TOGGLE) AND NOT (SRB_MOTEN_MASK OR SRB_DRVSEL0_N),
                            flp_din := flp_din r AND NOT DIR_HIDENS_N\<rparr>) s;
         s = set_interrupt INT_PHONE RELEASE_INT s
     in floppy_stop (upd_flp (\<lambda>r. r\<lparr>flp_st := replicate 4 0, pcn := 0\<rparr>) s))"

definition cmd_data_size :: "u8 list" where
  "cmd_data_size = [
    0,0,8,2,1,8,8,1,
    0,8,1,0,8,5,0,2,
    0,8,1,3,0,0,8,0,
    0,8,0,0,0,8,0,0]"

definition floppy_interrupt :: "'a floppy_scheme \<Rightarrow> 'a floppy_scheme" where
  "floppy_interrupt s = (
     let s = upd_msr (\<lambda>x. x OR (if 0 < result_size s then MSR_RQM OR MSR_DIO else MSR_RQM)) s;
         s = upd_flp (\<lambda>r. r\<lparr>msr := msr r AND NOT MSR_BSY_MASK, sra := sra r OR SRA_INT\<rparr>) s
     in set_interrupt INT_PHONE SET_INT s)"

section \<open>Geometry\<close>

text \<open>Sectors per track, and the sector of the image; positions outside the disk are noted in the status.\<close>

definition flp_spt :: "flp_unit \<Rightarrow> u32" where
  "flp_spt u = floppysize u div push_bit (unat (flp_blocksize u)) 0x80 div TRACKS_PER_CYL div NUM_CYLINDERS"

definition get_logical_sec :: "nat \<Rightarrow> 'a floppy_scheme \<Rightarrow> u32 \<times> 'a floppy_scheme" where
  "get_logical_sec d s = (
     let u = flpdrv s ! d; spt = flp_spt u;
         s = (if spt < ucast (flp_sector u) then or_st 1 ST1_EN (or_st 0 IC_ABNORMAL s) else s);
         s = (if NUM_CYLINDERS \<le> ucast (flp_cyl u) then or_st 1 ST1_ND (or_st 0 IC_ABNORMAL s) else s)
     in ((ucast (flp_cyl u) * TRACKS_PER_CYL + ucast (flp_head u)) * spt + ucast (flp_sector u) - 1, s))"

definition check_blocksize :: "nat \<Rightarrow> u8 \<Rightarrow> 'a floppy_scheme \<Rightarrow> 'a floppy_scheme" where
  "check_blocksize d bs s =
     (if bs \<noteq> flp_blocksize (flpdrv s ! d) then or_st 1 ST1_ND (or_st 0 IC_ABNORMAL s) else s)"

definition check_protection :: "nat \<Rightarrow> 'a floppy_scheme \<Rightarrow> 'a floppy_scheme" where
  "check_protection d s = (if flp_protected (flpdrv s ! d) then or_st 1 ST1_NW (or_st 0 IC_ABNORMAL s) else s)"

definition floppy_seek_track :: "u8 \<Rightarrow> nat \<Rightarrow> 'a floppy_scheme \<Rightarrow> 'a floppy_scheme" where
  "floppy_seek_track c d s = upd_flpdrv d (\<lambda>u. u\<lparr>
     seekoffset := (if flp_cyl u < c then ucast c - ucast (flp_cyl u) else ucast (flp_cyl u) - ucast c), flp_cyl := c\<rparr>) (or_st 0 ST0_SE s)"

definition get_sector_time :: "nat \<Rightarrow> 'a floppy_scheme \<Rightarrow> u64" where
  "get_sector_time d s = (
     let n = floppysize (flpdrv s ! d) in
     if n = SIZE_720K then 22000 else if n = SIZE_1440K then 11000 else if n = SIZE_2880K then 5500 else 1000)"

definition get_seek_time :: "nat \<Rightarrow> 'a floppy_scheme \<Rightarrow> u64" where
  "get_seek_time d s = (
     let n = seekoffset (flpdrv s ! d) in ucast (if NUM_CYLINDERS < n then FLP_SEEK_TIME else n * FLP_SEEK_TIME div NUM_CYLINDERS))"

definition get_media_id :: "nat \<Rightarrow> 'a floppy_scheme \<Rightarrow> u8" where
  "get_media_id d s = (
     let n = floppysize (flpdrv s ! d) in
     if \<not> flp_inserted (flpdrv s ! d) then MEDIA_ID_NONE
     else if n = SIZE_720K then MEDIA_ID_720K else if n = SIZE_1440K then MEDIA_ID_1440K
     else if n = SIZE_2880K then MEDIA_ID_2880K else MEDIA_ID_NONE)"

definition check_data_rate :: "nat \<Rightarrow> 'a floppy_scheme \<Rightarrow> 'a floppy_scheme" where
  "check_data_rate d s = (
     let n = floppysize (flpdrv s ! d); rate = flp_ccr (flp s) AND CCR_RATE_MASK in
     if n = SIZE_720K \<and> rate = CCR_RATE250 \<or> n = SIZE_1440K \<and> rate = CCR_RATE500 \<or> n = SIZE_2880K \<and> rate = CCR_RATE1000 then s
     else or_st 1 ST1_ND (or_st 0 IC_ABNORMAL s))"

definition send_rw_status :: "nat \<Rightarrow> 'a floppy_scheme \<Rightarrow> 'a floppy_scheme" where
  "send_rw_status d s = (
     let u = flpdrv s ! d;
         s = or_st 0 (of_nat d OR push_bit 2 (flp_head u)) s;
         st = flp_st (flp s)
     in (upd_flp (\<lambda>r. r\<lparr>flp_fifo := (flp_fifo r)[0 := st ! 0, 1 := st ! 1, 2 := st ! 2, 3 := flp_cyl u, 4 := flp_head u,
                                               5 := flp_sector u, 6 := flp_blocksize u]\<rparr>) s)\<lparr>result_size := 7\<rparr>)"

section \<open>Commands\<close>

abbreviation cmd_drive :: "'a floppy_scheme \<Rightarrow> nat" where
  "cmd_drive s \<equiv> unat (cmd_data s ! 0 AND 0x03)"

abbreviation cmd_head :: "'a floppy_scheme \<Rightarrow> u8" where
  "cmd_head s \<equiv> drop_bit 2 (cmd_data s ! 0 AND 0x04)"

text \<open>What reading and writing have in common, up to the checks; then the start of the transfer.\<close>

definition rw_position :: "'a floppy_scheme \<Rightarrow> 'a floppy_scheme" where
  "rw_position s = (
     let d = cmd_drive s; c = cmd_data s ! 1; h = cmd_data s ! 2;
         s = upd_flpdrv d (\<lambda>u. u\<lparr>flp_head := cmd_head s\<rparr>) (clear_st s);
         s = (if flp_eis (flp s) \<noteq> 0 then floppy_seek_track c d s else s);
         s = upd_flpdrv d (\<lambda>u. u\<lparr>flp_sector := cmd_data s ! 3\<rparr>) s;
         s = (if flp_cyl (flpdrv s ! d) \<noteq> c \<or> flp_head (flpdrv s ! d) \<noteq> h then or_st 2 ST2_WC (or_st 0 IC_ABNORMAL s) else s)
     in check_data_rate d (check_blocksize d (cmd_data s ! 4) s))"

definition rw_start :: "FLP_STATE \<Rightarrow> 'a floppy_scheme \<Rightarrow> 'a floppy_scheme option" where
  "rw_start io s = (
     let d = cmd_drive s;
         s = (if tst (st0 s) IC_ABNORMAL then (send_rw_status d s)\<lparr>flp_io_state := FLP_STATE_INTERRUPT\<rparr>
              else s\<lparr>flp_buffer := (flp_buffer s)\<lparr>db_size := 0, db_limit := push_bit (unat (cmd_data s ! 4)) 0x80\<rparr>,
                     flp_sector_counter := uint (cmd_data s ! 5) - uint (cmd_data s ! 3) + 1, flp_io_drv := d, flp_io_state := io\<rparr>)
     in CycInt_AddTimeEvent (get_seek_time d s + get_sector_time d s) 100 EVENT_FLOPPY_IO s)"

definition floppy_read :: "'a floppy_scheme \<Rightarrow> 'a floppy_scheme option" where
  "floppy_read s = rw_start FLP_STATE_READ (rw_position s)"

definition floppy_write :: "'a floppy_scheme \<Rightarrow> 'a floppy_scheme option" where
  "floppy_write s = rw_start FLP_STATE_WRITE (check_protection (cmd_drive s) (rw_position s))"

text \<open>When a check fails, formatting schedules no event.\<close>

definition floppy_format :: "'a floppy_scheme \<Rightarrow> 'a floppy_scheme option" where
  "floppy_format s = (
     let d = cmd_drive s;
         s = upd_flpdrv d (\<lambda>u. u\<lparr>flp_head := cmd_head s, flp_sector := 1\<rparr>) (clear_st s);
         s = check_protection d (check_data_rate d (check_blocksize d (cmd_data s ! 1) s))
     in if tst (st0 s) IC_ABNORMAL then Some ((send_rw_status d s)\<lparr>flp_io_state := FLP_STATE_INTERRUPT\<rparr>)
        else
          let s = s\<lparr>flp_buffer := (flp_buffer s)\<lparr>db_size := 0, db_limit := 4\<rparr>, flp_sector_counter := uint (cmd_data s ! 2),
                    flp_io_drv := d, flp_io_state := FLP_STATE_FORMAT\<rparr>
          in CycInt_AddTimeEvent (get_sector_time d s) 100 EVENT_FLOPPY_IO s)"

definition floppy_read_id :: "'a floppy_scheme \<Rightarrow> 'a floppy_scheme option" where
  "floppy_read_id s = (
     let d = cmd_drive s;
         s = clear_st (upd_flpdrv d (\<lambda>u. u\<lparr>flp_head := cmd_head s\<rparr>) s);
         s = (send_rw_status d (check_data_rate d s))\<lparr>flp_io_state := FLP_STATE_INTERRUPT\<rparr>
     in CycInt_AddTimeEvent (get_sector_time d s) 100 EVENT_FLOPPY_IO s)"

definition floppy_recalibrate :: "'a floppy_scheme \<Rightarrow> 'a floppy_scheme option" where
  "floppy_recalibrate s = (
     let d = cmd_drive s in
     if flp_connected (flpdrv s ! d) then
       let s = upd_flp (\<lambda>r. r\<lparr>msr := msr r OR push_bit d 1, pcn := 0\<rparr>) (upd_flpdrv d (\<lambda>u. u\<lparr>flp_cyl := 0\<rparr>) s);
           s = set_st0 (IC_NORMAL OR ST0_SE) (floppy_seek_track 0 d (clear_st s));
           s = (upd_flp (\<lambda>r. r\<lparr>sra := sra r AND NOT SRA_TRK0_N\<rparr>) s)\<lparr>flp_io_state := FLP_STATE_INTERRUPT\<rparr>
       in CycInt_AddTimeEvent (get_seek_time d s) 100 EVENT_FLOPPY_IO s
     else Some s)"

definition floppy_seek :: "u8 \<Rightarrow> 'a floppy_scheme \<Rightarrow> 'a floppy_scheme option" where
  "floppy_seek relative s = (
     let d = cmd_drive s; s = upd_flpdrv d (\<lambda>u. u\<lparr>flp_head := cmd_head s\<rparr>) (clear_st s) in
     if relative \<noteq> 0 then None
     else
       let s = floppy_seek_track (cmd_data s ! 1) d (set_st0 IC_NORMAL s);
           s = (if tst (st0 s) IC_ABNORMAL then s else upd_flp (\<lambda>r. r\<lparr>pcn := flp_cyl (flpdrv s ! d)\<rparr>) s);
           s = s\<lparr>flp_io_state := FLP_STATE_INTERRUPT\<rparr>
       in CycInt_AddTimeEvent (get_seek_time d s) 100 EVENT_FLOPPY_IO s)"

definition floppy_interrupt_status :: "'a floppy_scheme \<Rightarrow> 'a floppy_scheme" where
  "floppy_interrupt_status s = (
     let s = set_interrupt INT_PHONE RELEASE_INT (upd_flp (\<lambda>r. r\<lparr>sra := sra r AND NOT SRA_INT\<rparr>) s);
         s = upd_msr (\<lambda>x. x OR (MSR_RQM OR MSR_DIO)) s
     in (upd_flp (\<lambda>r. r\<lparr>flp_fifo := (flp_fifo r)[0 := flp_st r ! 0, 1 := pcn r]\<rparr>) s)\<lparr>result_size := 2\<rparr>)"

definition floppy_specify :: "'a floppy_scheme \<Rightarrow> 'a floppy_scheme" where
  "floppy_specify = upd_msr (\<lambda>x. x OR MSR_RQM)"

definition floppy_configure :: "'a floppy_scheme \<Rightarrow> 'a floppy_scheme option" where
  "floppy_configure s = (
     let s = upd_flp (\<lambda>r. r\<lparr>flp_eis := cmd_data s ! 1 AND 0x40\<rparr>) s;
         s = (if tst (cmd_data s ! 1) 0x10 \<and> CycInt_EventPending EVENT_FLOPPY_IO s
              then CycInt_RemovePendingEvent EVENT_FLOPPY_IO s else s)
     in if cmd_data s ! 2 \<noteq> 0 then None else Some (upd_msr (\<lambda>x. x OR MSR_RQM) s))"

definition floppy_perpendicular :: "'a floppy_scheme \<Rightarrow> 'a floppy_scheme" where
  "floppy_perpendicular = upd_msr (\<lambda>x. x OR MSR_RQM)"

definition floppy_unimplemented :: "'a floppy_scheme \<Rightarrow> 'a floppy_scheme option" where
  "floppy_unimplemented s = (
     let s = set_st0 IC_INV_CMD s;
         s = (upd_flp (\<lambda>r. r\<lparr>flp_fifo := (flp_fifo r)[0 := flp_st r ! 0]\<rparr>) s)\<lparr>result_size := 1, flp_io_state := FLP_STATE_INTERRUPT\<rparr>
     in CycInt_AddTimeEvent 1000 100 EVENT_FLOPPY_IO s)"

text \<open>
  The commands that end the emulator are those to read or write deleted data, to read a track, to
  verify, to scan, to lock, and to report the version, the registers or the status of a drive.
\<close>

definition floppy_execute_cmd :: "'a floppy_scheme \<Rightarrow> 'a floppy_scheme option" where
  "floppy_execute_cmd s = (
     let op = flp_command s AND CMD_OPCODE_MSK in
     if op = 0x06 then floppy_read s
     else if op = 0x05 then floppy_write s
     else if op = 0x0D then floppy_format s
     else if op = 0x07 then floppy_recalibrate s
     else if op = 0x08 then Some (floppy_interrupt_status s)
     else if op = 0x03 then Some (floppy_specify s)
     else if op = 0x0F then floppy_seek (flp_command s AND 0x80) s
     else if op = 0x13 then floppy_configure s
     else if op = 0x0A then floppy_read_id s
     else if op = 0x12 then Some (floppy_perpendicular s)
     else if op \<in> {0x0C, 0x09, 0x02, 0x16, 0x10, 0x11, 0x19, 0x1D, 0x04, 0x0E, 0x14} then None
     else floppy_unimplemented s)"

definition floppy_fifo_write :: "u8 \<Rightarrow> 'a floppy_scheme \<Rightarrow> 'a floppy_scheme option" where
  "floppy_fifo_write val s = do {
     let s = upd_msr (\<lambda>x. x AND NOT MSR_RQM) s;
     s \<leftarrow> (if \<not> cmd_phase s then
             let n = uint (cmd_data_size ! unat (val AND CMD_OPCODE_MSK))
             in Some (upd_msr (\<lambda>x. x OR MSR_RQM) (s\<lparr>cmd_phase := True, flp_command := val, cmd_limit := n, cmd_size := n\<rparr>))
           else if 0 < cmd_size s then do {
             d \<leftarrow> seti (cmd_data s) (cmd_limit s - cmd_size s) val;
             Some (upd_msr (\<lambda>x. x OR MSR_RQM) (s\<lparr>cmd_data := d, cmd_size := cmd_size s - 1\<rparr>))
           }
           else Some s);
     if cmd_size s = 0 then floppy_execute_cmd (s\<lparr>cmd_phase := False\<rparr>) else Some s
   }"

definition floppy_fifo_read :: "'a floppy_scheme \<Rightarrow> u8 \<times> 'a floppy_scheme" where
  "floppy_fifo_read s = (
     let (val, s) = (if 0 < result_size s then
           (flp_fifo (flp s) ! 0, (upd_flp (\<lambda>r. r\<lparr>flp_fifo := tl (flp_fifo r) @ [0]\<rparr>) s)\<lparr>result_size := result_size s - 1\<rparr>)
         else (0, s))
     in (val, if result_size s = 0
              then set_interrupt INT_PHONE RELEASE_INT
                     (upd_flp (\<lambda>r. r\<lparr>msr := (msr r OR MSR_RQM) AND NOT MSR_DIO, sra := sra r AND NOT SRA_INT\<rparr>) s)
              else s))"

section \<open>Drives\<close>

definition Floppy_CheckSize :: "nat \<Rightarrow> 'a floppy_scheme \<Rightarrow> u32" where
  "Floppy_CheckSize d s = (
     let n = File_Length (host_files s) (flp_szImageName (flp_drive (Floppy (ConfigureParams s)) ! d)) in
     if n \<in> {737280, 1474560, 2949120} then word_of_int n else 0)"

text \<open>The result 1 reports a failure to the user interface.\<close>

definition Floppy_Insert :: "nat \<Rightarrow> 'a floppy_scheme \<Rightarrow> int \<times> 'a floppy_scheme" where
  "Floppy_Insert d s = (
     let cnf = flp_drive (Floppy (ConfigureParams s)) ! d;
         s = upd_flpdrv d (\<lambda>u. u\<lparr>floppysize := Floppy_CheckSize d s\<rparr>) s;
         s = (if flp_bWriteProtected cnf then s
              else upd_flpdrv d (\<lambda>u. u\<lparr>flp_dsk := File_Open (host_files s) (host_writable s) (flp_szImageName cnf) True,
                                        flp_protected := False\<rparr>) s);
         s = (if flp_bWriteProtected cnf \<or> flp_dsk (flpdrv s ! d) = None
              then upd_flpdrv d (\<lambda>u. u\<lparr>flp_dsk := File_Open (host_files s) (host_writable s) (flp_szImageName cnf) False,
                                        flp_protected := True\<rparr>) s
              else s)
     in if flp_dsk (flpdrv s ! d) = None \<or> floppysize (flpdrv s ! d) = 0
        then (1, upd_flpdrv d (\<lambda>u. u\<lparr>flp_inserted := False, flp_protected := False\<rparr>) s)
        else (0, upd_flpdrv d (\<lambda>u. u\<lparr>flp_inserted := True, flp_spinning := False, flp_blocksize := 2, flp_cyl := 0, flp_head := 0,
                                       flp_sector := 0, seekoffset := 0\<rparr>) s))"

definition Floppy_Eject :: "int \<Rightarrow> 'a floppy_scheme \<Rightarrow> 'a floppy_scheme" where
  "Floppy_Eject drv s = (
     let d = (if drv < 0 then unat (flp_sel (flp s)) else nat drv);
         s = upd_flpdrv d (\<lambda>u. u\<lparr>flp_dsk := File_Close (flp_dsk u), floppysize := 0, flp_blocksize := 0,
                                   flp_inserted := False, flp_spinning := False\<rparr>) s;
         cnf = flp_drive (Floppy (ConfigureParams s))
     in s\<lparr>ConfigureParams := (ConfigureParams s)\<lparr>Floppy := \<lparr>flp_drive =
            cnf[d := (cnf ! d)\<lparr>flp_bDiskInserted := False, flp_szImageName := ''''\<rparr>]\<rparr>\<rparr>\<rparr>)"

definition init_flpdrv :: "nat \<Rightarrow> 'a floppy_scheme \<Rightarrow> 'a floppy_scheme" where
  "init_flpdrv d s = (
     let cnf = flp_drive (Floppy (ConfigureParams s)) ! d;
         s = upd_flpdrv d (\<lambda>u. u\<lparr>flp_spinning := False, flp_connected := flp_bDriveConnected cnf\<rparr>) s
     in if \<not> flp_bDriveConnected cnf then s
        else if flp_bDiskInserted cnf then snd (Floppy_Insert d s)
        else upd_flpdrv d (\<lambda>u. u\<lparr>flp_dsk := File_Close (flp_dsk u), flp_inserted := False\<rparr>) s)"

definition Floppy_Init :: "'a floppy_scheme \<Rightarrow> 'a floppy_scheme" where
  "Floppy_Init s = floppy_reset (fold init_flpdrv [0..<FLP_MAX_DRIVES] s)"

definition Floppy_Uninit :: "'a floppy_scheme \<Rightarrow> 'a floppy_scheme" where
  "Floppy_Uninit = fold (\<lambda>d. upd_flpdrv d (\<lambda>u. u\<lparr>flp_dsk := File_Close (flp_dsk u), flp_inserted := False\<rparr>)) [0..<FLP_MAX_DRIVES]"

definition Floppy_Reset :: "'a floppy_scheme \<Rightarrow> 'a floppy_scheme" where
  "Floppy_Reset s = Floppy_Init (Floppy_Uninit s)"

section \<open>Control registers\<close>

definition floppy_dor_write :: "u8 \<Rightarrow> 'a floppy_scheme \<Rightarrow> 'a floppy_scheme option" where
  "floppy_dor_write val s = do {
     let changed = dor (flp s) XOR val;
     let sel = val AND DOR_SEL_MSK;
     let s = upd_flp (\<lambda>r. r\<lparr>dor := val, flp_sel := sel\<rparr>) s;
     s \<leftarrow> (if tst changed DOR_RESET_N then
             if tst val DOR_RESET_N then floppy_start s else Some (floppy_stop s)
           else Some s);
     let d = unat sel;
     Some (if tst changed DOR_MOTEN_MASK \<and> flp_connected (flpdrv s ! d)
           then upd_flpdrv d (\<lambda>u. u\<lparr>flp_spinning := tst val (push_bit d DOR_MOT0EN)\<rparr>) s else s)
   }"

definition floppy_dor_read :: "'a floppy_scheme \<Rightarrow> u8" where
  "floppy_dor_read s =
     fold (\<lambda>d val. if flp_spinning (flpdrv s ! d) then val OR push_bit d DOR_MOT0EN else val)
       [0..<FLP_MAX_DRIVES] (dor (flp s) AND NOT DOR_MOTEN_MASK)"

definition floppy_sra_read :: "'a floppy_scheme \<Rightarrow> u8" where
  "floppy_sra_read s = (if flp_protected (flpdrv s ! unat (flp_sel (flp s))) then sra (flp s) else sra (flp s) OR SRA_WP_N)"

definition floppy_ctrl_write :: "u8 \<Rightarrow> 'a floppy_scheme \<Rightarrow> 'a floppy_scheme" where
  "floppy_ctrl_write val s = (
     let s = (if nMachineType (System (ConfigureParams s)) \<noteq> NEXT_CUBE030 then set_floppy_select (val AND CTRL_82077) s else s);
         s = (if tst val CTRL_RESET then floppy_reset s else s)
     in if tst val CTRL_EJECT then Floppy_Eject (-1) s else s)"

definition floppy_stat_read :: "'a floppy_scheme \<Rightarrow> u8 \<times> 'a floppy_scheme" where
  "floppy_stat_read s = (
     let d = unat (flp_sel (flp s));
         s = upd_flp (\<lambda>r. r\<lparr>flp_csr := flp_csr r AND NOT (CTRL_DRV_ID OR CTRL_MEDIA_ID0 OR CTRL_MEDIA_ID1)\<rparr>) s;
         s = (if flp_connected (flpdrv s ! d) then upd_flp (\<lambda>r. r\<lparr>flp_csr := flp_csr r OR get_media_id d s\<rparr>) s
              else if nMachineType (System (ConfigureParams s)) \<noteq> NEXT_CUBE030
              then upd_flp (\<lambda>r. r\<lparr>flp_csr := flp_csr r OR CTRL_DRV_ID\<rparr>) s else s)
     in (flp_csr (flp s), s))"

section \<open>Transfers\<close>

definition floppy_rw_nodata :: "'a floppy_scheme \<Rightarrow> 'a floppy_scheme" where
  "floppy_rw_nodata s = send_rw_status (flp_io_drv s) (or_st 1 ST1_OR (or_st 0 IC_ABNORMAL (s\<lparr>flp_sector_counter := 0\<rparr>)))"

text \<open>After a sector: the next one, and the status after the last. After an error: the transfer stops.\<close>

definition next_sector :: "'a floppy_scheme \<Rightarrow> 'a floppy_scheme" where
  "next_sector s =
     (upd_flpdrv (flp_io_drv s) (\<lambda>u. u\<lparr>flp_sector := flp_sector u + 1\<rparr>) s)\<lparr>flp_sector_counter := flp_sector_counter s - 1\<rparr>"

definition last_sector :: "'a floppy_scheme \<Rightarrow> 'a floppy_scheme" where
  "last_sector s = (if flp_sector_counter s = 0 then send_rw_status (flp_io_drv s) (or_st 1 ST1_EN (set_st0 IC_ABNORMAL s)) else s)"

definition bad_sector :: "'a floppy_scheme \<Rightarrow> 'a floppy_scheme" where
  "bad_sector s = send_rw_status (flp_io_drv s) (s\<lparr>flp_sector_counter := 0, flp_io_state := FLP_STATE_INTERRUPT\<rparr>)"

abbreviation flp_sec_size :: "'a floppy_scheme \<Rightarrow> u32" where
  "flp_sec_size s \<equiv> push_bit (unat (flp_blocksize (flpdrv s ! flp_io_drv s))) 0x80"

definition floppy_read_sector :: "'a floppy_scheme \<Rightarrow> 'a floppy_scheme" where
  "floppy_read_sector s = (
     let n = flp_sec_size s; (logical_sec, s) = get_logical_sec (flp_io_drv s) s in
     if tst (st0 s) IC_ABNORMAL then bad_sector s
     else
       let val = File_Read (host_files s) (db_data (flp_buffer s)) (unat n) (unat (logical_sec * n)) (flp_dsk (flpdrv s ! flp_io_drv s))
       in last_sector (next_sector (s\<lparr>flp_buffer := \<lparr>db_data = val, db_size = n, db_limit = n\<rparr>\<rparr>)))"

definition floppy_write_sector :: "'a floppy_scheme \<Rightarrow> 'a floppy_scheme" where
  "floppy_write_sector s = (
     let n = flp_sec_size s; (logical_sec, s) = get_logical_sec (flp_io_drv s) s in
     if tst (st0 s) IC_ABNORMAL then bad_sector s
     else
       let b = flp_buffer s;
           s = s\<lparr>host_files := File_Write (host_files s) (db_data b) (unat (db_size b)) (unat (logical_sec * n))
                                (flp_dsk (flpdrv s ! flp_io_drv s))\<rparr>
       in last_sector (next_sector (s\<lparr>flp_buffer := b\<lparr>db_size := 0, db_limit := n\<rparr>\<rparr>)))"

definition floppy_format_sector :: "'a floppy_scheme \<Rightarrow> 'a floppy_scheme" where
  "floppy_format_sector s = (
     let d = flp_io_drv s; u = flpdrv s ! d; b = db_data (flp_buffer s) in
     if b ! 0 \<noteq> flp_cyl u \<or> b ! 1 \<noteq> flp_head u \<or> b ! 2 \<noteq> flp_sector u \<or> b ! 3 \<noteq> flp_blocksize u then bad_sector s
     else
       let n = flp_sec_size s; (logical_sec, s) = get_logical_sec d s;
           zeros = put_bytes 0 (replicate (unat n) 0) b;
           s = (if tst (st0 s) IC_ABNORMAL
                then send_rw_status d (s\<lparr>flp_buffer := \<lparr>db_data = zeros, db_size = 0, db_limit = 0\<rparr>, flp_sector_counter := 0\<rparr>)
                else next_sector (s\<lparr>host_files := File_Write (host_files s) zeros (unat n) (unat (logical_sec * n)) (flp_dsk u),
                                     flp_buffer := \<lparr>db_data = zeros, db_size = 0, db_limit = 4\<rparr>\<rparr>))
       in if flp_sector_counter s = 0 then send_rw_status d s else s)"

text \<open>The end of a transfer, and one run of the DMA channel, which must move data.\<close>

definition flp_done :: "'a floppy_scheme \<Rightarrow> 'a floppy_scheme" where
  "flp_done s = (floppy_interrupt s)\<lparr>flp_io_state := FLP_STATE_DONE\<rparr>"

definition flp_transfer :: "('a floppy_scheme \<Rightarrow> 'a floppy_scheme option) \<Rightarrow> 'a floppy_scheme \<Rightarrow> (bool \<times> 'a floppy_scheme) option" where
  "flp_transfer run s = do {
     let old_size = db_size (flp_buffer s);
     s \<leftarrow> run s;
     Some (if db_size (flp_buffer s) = old_size then (False, flp_done (floppy_rw_nodata s)) else (True, s))
   }"

text \<open>The states of the handler; the result says whether the event is scheduled again.\<close>

definition flp_filling ::
  "('a floppy_scheme \<Rightarrow> 'a floppy_scheme) \<Rightarrow> 'a floppy_scheme devices \<Rightarrow> 'a floppy_scheme \<Rightarrow> (bool \<times> 'a floppy_scheme) option" where
  "flp_filling store dev s =
     (if db_size (flp_buffer s) = db_limit (flp_buffer s) then
        let s = store s in Some (if flp_sector_counter s = 0 then (False, flp_done s) else (True, s))
      else if db_size (flp_buffer s) < db_limit (flp_buffer s) then flp_transfer (dma_esp_read_memory dev) s
      else Some (True, s))"

definition flp_draining :: "'a floppy_scheme devices \<Rightarrow> 'a floppy_scheme \<Rightarrow> (bool \<times> 'a floppy_scheme) option" where
  "flp_draining dev s = do {
     let s = (if db_size (flp_buffer s) = 0 \<and> 0 < flp_sector_counter s then floppy_read_sector s else s);
     (again, s) \<leftarrow> (if 0 < db_size (flp_buffer s) then flp_transfer (dma_esp_write_memory dev) s else Some (True, s));
     Some (if again \<and> db_size (flp_buffer s) = 0 \<and> flp_sector_counter s = 0 then (False, flp_done s) else (again, s))
   }"

definition Floppy_IO_Handler :: "'a floppy_scheme devices \<Rightarrow> 'a floppy_scheme \<Rightarrow> 'a floppy_scheme option" where
  "Floppy_IO_Handler dev s = do {
     (again, s) \<leftarrow> (case flp_io_state s of
         FLP_STATE_WRITE \<Rightarrow> flp_filling floppy_write_sector dev s
       | FLP_STATE_READ \<Rightarrow> flp_draining dev s
       | FLP_STATE_FORMAT \<Rightarrow> flp_filling floppy_format_sector dev s
       | FLP_STATE_INTERRUPT \<Rightarrow> Some (False, flp_done s)
       | FLP_STATE_DONE \<Rightarrow> Some (False, s));
     if again then CycInt_UpdateTimeEvent (get_sector_time (flp_io_drv s) s) 250 EVENT_FLOPPY_IO s else Some s
   }"

section \<open>Registers\<close>

text \<open>Without a floppy drive, the first cube has no controller: an access is a bus error.\<close>

definition floppy_controller_present :: "'a floppy_scheme \<Rightarrow> bool" where
  "floppy_controller_present s \<longleftrightarrow> (nMachineType (System (ConfigureParams s)) = NEXT_CUBE030 \<longrightarrow>
     (\<exists>d \<in> set [0..<FLP_MAX_DRIVES]. flp_bDriveConnected (flp_drive (Floppy (ConfigureParams s)) ! d)))"

definition flp_get :: "u32 \<Rightarrow> ('a floppy_scheme \<Rightarrow> u8 \<times> 'a floppy_scheme) \<Rightarrow> 'a floppy_scheme \<Rightarrow> (u8, 'a floppy_scheme) bus_access" where
  "flp_get addr f s =
     (if floppy_controller_present s then let (v, s) = f s in Some (Inr v, s) else bus_err True SZ_BYTE addr 0 s)"

definition flp_put :: "u32 \<Rightarrow> ('a floppy_scheme \<Rightarrow> 'a floppy_scheme option) \<Rightarrow> 'a floppy_scheme \<Rightarrow> (unit, 'a floppy_scheme) bus_access" where
  "flp_put addr f s =
     (if floppy_controller_present s then map_option (\<lambda>s. (Inr (), s)) (f s) else bus_err False SZ_BYTE addr 0 s)"

definition FLP_StatA_Read :: "u32 \<Rightarrow> 'a floppy_scheme \<Rightarrow> (u8, 'a floppy_scheme) bus_access" where
  "FLP_StatA_Read addr = flp_get addr (\<lambda>s. (floppy_sra_read s, s))"

definition FLP_StatB_Read :: "u32 \<Rightarrow> 'a floppy_scheme \<Rightarrow> (u8, 'a floppy_scheme) bus_access" where
  "FLP_StatB_Read addr = flp_get addr (\<lambda>s. (srb (flp s) OR SRB_ALL1, s))"

definition FLP_DataOut_Read :: "u32 \<Rightarrow> 'a floppy_scheme \<Rightarrow> (u8, 'a floppy_scheme) bus_access" where
  "FLP_DataOut_Read addr = flp_get addr (\<lambda>s. (floppy_dor_read s, s))"

definition FLP_DataOut_Write :: "u32 \<Rightarrow> u8 \<Rightarrow> 'a floppy_scheme \<Rightarrow> (unit, 'a floppy_scheme) bus_access" where
  "FLP_DataOut_Write addr val = flp_put addr (floppy_dor_write val)"

definition FLP_MainStatus_Read :: "u32 \<Rightarrow> 'a floppy_scheme \<Rightarrow> (u8, 'a floppy_scheme) bus_access" where
  "FLP_MainStatus_Read addr = flp_get addr (\<lambda>s. (msr (flp s), s))"

definition FLP_DataRate_Write :: "u32 \<Rightarrow> u8 \<Rightarrow> 'a floppy_scheme \<Rightarrow> (unit, 'a floppy_scheme) bus_access" where
  "FLP_DataRate_Write addr val = flp_put addr (\<lambda>s.
     let s = upd_flp (\<lambda>r. r\<lparr>flp_dsr := val\<rparr>) s in
     if tst val DSR_RESET then map_option (upd_flp (\<lambda>r. r\<lparr>flp_dsr := flp_dsr r AND NOT DSR_RESET\<rparr>)) (floppy_start (floppy_stop s))
     else Some s)"

definition FLP_FIFO_Read :: "u32 \<Rightarrow> 'a floppy_scheme \<Rightarrow> (u8, 'a floppy_scheme) bus_access" where
  "FLP_FIFO_Read addr = flp_get addr floppy_fifo_read"

definition FLP_FIFO_Write :: "u32 \<Rightarrow> u8 \<Rightarrow> 'a floppy_scheme \<Rightarrow> (unit, 'a floppy_scheme) bus_access" where
  "FLP_FIFO_Write addr val = flp_put addr (floppy_fifo_write val)"

definition FLP_DataIn_Read :: "u32 \<Rightarrow> 'a floppy_scheme \<Rightarrow> (u8, 'a floppy_scheme) bus_access" where
  "FLP_DataIn_Read addr = flp_get addr (\<lambda>s. (flp_din (flp s), s))"

definition FLP_Configuration_Write :: "u32 \<Rightarrow> u8 \<Rightarrow> 'a floppy_scheme \<Rightarrow> (unit, 'a floppy_scheme) bus_access" where
  "FLP_Configuration_Write addr val = flp_put addr (\<lambda>s. Some (upd_flp (\<lambda>r. r\<lparr>flp_ccr := val\<rparr>) s))"

definition FLP_Reserved_Read :: "u32 \<Rightarrow> 'a floppy_scheme \<Rightarrow> (u8, 'a floppy_scheme) bus_access" where
  "FLP_Reserved_Read addr = flp_get addr (\<lambda>s.
     let sys = System (ConfigureParams s); station = (nMachineType sys = NEXT_STATION) in
     (if addr AND 7 = 3 then
        if bTurbo sys then (if station then (if bColor sys then 0x03 else 0x02) else 0) else 0x03
      else if addr AND 7 = 6 then
        if bTurbo sys then (if station then 0xc0 else 0xf0) else 0x41
      else 0, s))"

definition FLP_Reserved_Write :: "u32 \<Rightarrow> u8 \<Rightarrow> 'a floppy_scheme \<Rightarrow> (unit, 'a floppy_scheme) bus_access" where
  "FLP_Reserved_Write addr val = flp_put addr Some"

definition FLP_Status_Read :: "'a floppy_scheme \<Rightarrow> u8 \<times> 'a floppy_scheme" where
  "FLP_Status_Read = floppy_stat_read"

definition FLP_Control_Write :: "u8 \<Rightarrow> 'a floppy_scheme \<Rightarrow> 'a floppy_scheme" where
  "FLP_Control_Write = floppy_ctrl_write"

end
