(* ===== verification/FloppyProps.thy ===== *)
theory FloppyProps
  imports Floppy
begin

text \<open>
  The floppy controller: the command FIFO stays inside its buffer, and two commands that deviate
  from a real drive.
\<close>

section \<open>The command FIFO\<close>

definition cmd_ok :: "'a floppy_scheme \<Rightarrow> bool" where
  "cmd_ok s \<longleftrightarrow> length (cmd_data s) = 8 \<and> 0 \<le> cmd_size s \<and> cmd_size s \<le> cmd_limit s \<and> cmd_limit s \<le> 8"

lemma cmd_ok_fields [simp]:
  "cmd_ok (upd_flp f s) = cmd_ok s" "cmd_ok (upd_flpdrv d g s) = cmd_ok s" "cmd_ok (s\<lparr>flp_io_state := st\<rparr>) = cmd_ok s"
  "cmd_ok (s\<lparr>flp_io_drv := d\<rparr>) = cmd_ok s" "cmd_ok (s\<lparr>flp_sector_counter := i\<rparr>) = cmd_ok s" "cmd_ok (s\<lparr>result_size := i\<rparr>) = cmd_ok s"
  "cmd_ok (s\<lparr>flp_buffer := b\<rparr>) = cmd_ok s" "cmd_ok (s\<lparr>cmd_phase := p\<rparr>) = cmd_ok s" "cmd_ok (s\<lparr>flp_command := c\<rparr>) = cmd_ok s"
  by (simp_all add: cmd_ok_def upd_flp_def upd_flpdrv_def)

lemma cmd_ok_set_interrupt [simp]: "cmd_ok (set_interrupt i st s) = cmd_ok s"
  by (subst set_interrupt_eq) (simp add: cmd_ok_def)

lemma cmd_ok_sched: "t = sched_upd t s \<Longrightarrow> cmd_ok t = cmd_ok s"
  by (erule ssubst) (simp add: cmd_ok_def sched_upd_def)

lemma cmd_ok_removed [simp]: "cmd_ok (CycInt_RemovePendingEvent i s) = cmd_ok s"
  by (rule cmd_ok_sched, rule sched_upd_removed)

lemma cmd_ok_event: "CycInt_AddTimeEvent rt ft i s = Some t \<Longrightarrow> cmd_ok t = cmd_ok s"
  by (rule cmd_ok_sched, erule AddTimeEvent_frame)

lemma cmd_ok_parts [simp]:
  "cmd_ok (or_st i v s) = cmd_ok s" "cmd_ok (set_st0 v s) = cmd_ok s" "cmd_ok (clear_st s) = cmd_ok s"
  "cmd_ok (floppy_seek_track c d s) = cmd_ok s" "cmd_ok (check_blocksize d bs s) = cmd_ok s" "cmd_ok (check_protection d s) = cmd_ok s"
  "cmd_ok (check_data_rate d s) = cmd_ok s" "cmd_ok (send_rw_status d s) = cmd_ok s" "cmd_ok (rw_position s) = cmd_ok s"
  by (simp_all add: or_st_def set_st0_def clear_st_def floppy_seek_track_def check_blocksize_def check_protection_def
      check_data_rate_def send_rw_status_def rw_position_def Let_def)

lemma cmd_ok_execute: "floppy_execute_cmd s = Some t \<Longrightarrow> cmd_ok t = cmd_ok s"
  by (auto simp: floppy_execute_cmd_def floppy_read_def floppy_write_def rw_start_def floppy_format_def floppy_recalibrate_def
      floppy_interrupt_status_def floppy_specify_def floppy_seek_def floppy_configure_def floppy_read_id_def floppy_perpendicular_def
      floppy_unimplemented_def Let_def split: if_splits dest!: cmd_ok_event)

text \<open>
  Every byte that the guest writes to the FIFO lands inside the command buffer: the write can only
  fail when it completes a command and that command ends the emulator.
\<close>

lemma cmd_data_size_le: "n < 32 \<Longrightarrow> uint (cmd_data_size ! n) \<le> 8"
proof -
  have "list_all (\<lambda>n. uint (cmd_data_size ! n) \<le> 8) [0..<32]" by code_simp
  then show "n < 32 \<Longrightarrow> uint (cmd_data_size ! n) \<le> 8" by (simp add: list_all_iff)
qed

lemma cmd_ok_set_data: "cmd_ok s \<Longrightarrow> cmd_ok (s\<lparr>cmd_data := (cmd_data s)[i := v], cmd_size := cmd_size s - 1\<rparr>) \<longleftrightarrow> 0 < cmd_size s"
  by (auto simp: cmd_ok_def)

lemma cmd_size_upd_flp [simp]: "cmd_size (upd_flp f s) = cmd_size s" "cmd_limit (upd_flp f s) = cmd_limit s"
  "cmd_data (upd_flp f s) = cmd_data s" "cmd_phase (upd_flp f s) = cmd_phase s"
  by (simp_all add: upd_flp_def)

lemma floppy_fifo_write_accepts:
  fixes s :: "'a floppy_scheme"
  assumes ok: "cmd_ok s"
  shows "\<exists>u. cmd_ok u \<and> floppy_fifo_write val s =
    (if cmd_size u = 0 then floppy_execute_cmd (u\<lparr>cmd_phase := False\<rparr>) else Some u)"
proof -
  define r :: "'a floppy_scheme" where "r = upd_msr (\<lambda>x. x AND NOT MSR_RQM) s"
  have r: "cmd_ok r" using ok by (simp add: r_def)
  consider (opcode) "\<not> cmd_phase r" | (parameter) "cmd_phase r" "0 < cmd_size r" | (complete) "cmd_phase r" "cmd_size r = 0"
    using r by (fastforce simp: cmd_ok_def)
  then show ?thesis
  proof cases
    case opcode
    define n where "n = uint (cmd_data_size ! unat (val AND CMD_OPCODE_MSK))"
    have "unat (val AND CMD_OPCODE_MSK) < 32" using word_and_le1 [of val "0x1F"] by (simp add: word_le_nat_alt)
    then have n: "n \<le> 8" "0 \<le> n" by (simp_all add: n_def cmd_data_size_le)
    let ?u = "upd_msr (\<lambda>x. x OR MSR_RQM) (r\<lparr>cmd_phase := True, flp_command := val, cmd_limit := n, cmd_size := n\<rparr>)"
    have "cmd_ok ?u" using r n by (simp add: cmd_ok_def)
    moreover have "floppy_fifo_write val s = (if cmd_size ?u = 0 then floppy_execute_cmd (?u\<lparr>cmd_phase := False\<rparr>) else Some ?u)"
      unfolding floppy_fifo_write_def Let_def r_def [symmetric] using opcode by (simp add: n_def [symmetric])
    ultimately show ?thesis by blast
  next
    case parameter
    define i where "i = cmd_limit r - cmd_size r"
    have i: "0 \<le> i" "nat i < length (cmd_data r)" using r parameter by (auto simp: cmd_ok_def i_def)
    let ?u = "upd_msr (\<lambda>x. x OR MSR_RQM) (r\<lparr>cmd_data := (cmd_data r)[nat i := val], cmd_size := cmd_size r - 1\<rparr>)"
    have "cmd_ok ?u" using cmd_ok_set_data [OF r] parameter by simp
    moreover have "floppy_fifo_write val s = (if cmd_size ?u = 0 then floppy_execute_cmd (?u\<lparr>cmd_phase := False\<rparr>) else Some ?u)"
      unfolding floppy_fifo_write_def Let_def r_def [symmetric] i_def [symmetric]
      using parameter i by (simp add: seti_def arr_set_def)
    ultimately show ?thesis by blast
  next
    case complete
    then have "floppy_fifo_write val s = (if cmd_size r = 0 then floppy_execute_cmd (r\<lparr>cmd_phase := False\<rparr>) else Some r)"
      unfolding floppy_fifo_write_def Let_def r_def [symmetric] by simp
    with r show ?thesis by blast
  qed
qed

lemma floppy_fifo_write_safe:
  fixes s :: "'a floppy_scheme"
  assumes "cmd_ok s"
  shows "floppy_fifo_write val s = Some t \<Longrightarrow> cmd_ok t"
    "floppy_fifo_write val s = None \<Longrightarrow> \<exists>u :: 'a floppy_scheme. cmd_ok u \<and> cmd_size u = 0 \<and> floppy_execute_cmd u = None"
proof -
  obtain u where u: "cmd_ok u" and w: "floppy_fifo_write val s =
      (if cmd_size u = 0 then floppy_execute_cmd (u\<lparr>cmd_phase := False\<rparr>) else Some u)"
    using floppy_fifo_write_accepts [OF assms] by blast
  show "floppy_fifo_write val s = Some t \<Longrightarrow> cmd_ok t"
    using u cmd_ok_execute [of "u\<lparr>cmd_phase := False\<rparr>" t] by (auto simp: w split: if_splits)
  show "\<exists>u :: 'a floppy_scheme. cmd_ok u \<and> cmd_size u = 0 \<and> floppy_execute_cmd u = None" if "floppy_fifo_write val s = None"
  proof -
    let ?v = "u\<lparr>cmd_phase := False\<rparr>"
    have "cmd_size u = 0" "floppy_execute_cmd (u\<lparr>cmd_phase := False\<rparr>) = None" using that by (auto simp: w split: if_splits)
    moreover have "cmd_ok (u\<lparr>cmd_phase := False\<rparr>)" "cmd_size (u\<lparr>cmd_phase := False\<rparr>) = cmd_size u" using u by simp_all
    ultimately have "cmd_ok ?v \<and> cmd_size ?v = 0 \<and> floppy_execute_cmd ?v = None" by simp
    then show ?thesis ..
  qed
qed

section \<open>Two deviations\<close>

text \<open>
  When a check of the format command fails, it returns without scheduling the event that would raise
  its interrupt: the schedule of the result is that of the start.
\<close>

lemma sched_flp [simp]:
  "CycInt_EventPending e (upd_flp f s) = CycInt_EventPending e s" "CycInt_EventPending e (upd_flpdrv d g s) = CycInt_EventPending e s"
  "CycInt_EventPending e (s\<lparr>flp_io_state := st\<rparr>) = CycInt_EventPending e s" "CycInt_EventPending e (s\<lparr>result_size := n\<rparr>) = CycInt_EventPending e s"
  by (simp_all add: CycInt_EventPending_def upd_flp_def upd_flpdrv_def)

lemma sched_flp_parts [simp]:
  "CycInt_EventPending e (or_st i v s) = CycInt_EventPending e s" "CycInt_EventPending e (clear_st s) = CycInt_EventPending e s"
  "CycInt_EventPending e (check_blocksize d bs s) = CycInt_EventPending e s" "CycInt_EventPending e (check_protection d s) = CycInt_EventPending e s"
  "CycInt_EventPending e (check_data_rate d s) = CycInt_EventPending e s" "CycInt_EventPending e (send_rw_status d s) = CycInt_EventPending e s"
  by (simp_all add: or_st_def clear_st_def check_blocksize_def check_protection_def check_data_rate_def send_rw_status_def Let_def)

lemma tst_or_self: "tst (x OR m) m \<longleftrightarrow> m \<noteq> (0 :: 'a::len word)"
proof -
  have "(x OR m) AND m = m" by (rule bit_word_eqI) (auto simp: bit_simps)
  then show ?thesis by (simp add: tst_def)
qed

lemma check_protection_abnormal:
  "flp_protected (flpdrv s ! d) \<Longrightarrow> 0 < length (flp_st (flp s)) \<Longrightarrow> tst (st0 (check_protection d s)) IC_ABNORMAL"
  by (simp add: check_protection_def or_st_def upd_flp_def nth_list_update tst_or_self)

lemma check_frame [simp]:
  "cmd_data (upd_flpdrv d f s) = cmd_data s" "cmd_data (clear_st s) = cmd_data s"
  "flpdrv (or_st i v s) = flpdrv s" "flpdrv (clear_st s) = flpdrv s" "flpdrv (check_blocksize d bs s) = flpdrv s"
  "flpdrv (check_data_rate d s) = flpdrv s" "length (flp_st (flp (or_st i v s))) = length (flp_st (flp s))"
  "length (flp_st (flp (clear_st s))) = length (flp_st (flp s))"
  "length (flp_st (flp (check_blocksize d bs s))) = length (flp_st (flp s))"
  "length (flp_st (flp (check_data_rate d s))) = length (flp_st (flp s))"
  by (simp_all add: or_st_def clear_st_def upd_flp_def upd_flpdrv_def check_blocksize_def check_data_rate_def Let_def)

lemma floppy_format_rejected:
  assumes p: "flp_protected (flpdrv s ! cmd_drive s)" "cmd_drive s < length (flpdrv s)" "0 < length (flp_st (flp s))"
    and e: "\<not> CycInt_EventPending EVENT_FLOPPY_IO s"
  shows "\<exists>t. floppy_format s = Some t \<and> flp_io_state t = FLP_STATE_INTERRUPT \<and> \<not> CycInt_EventPending EVENT_FLOPPY_IO t"
proof -
  define d where "d = cmd_drive s"
  define r where "r = check_data_rate d (check_blocksize d (cmd_data s ! 1)
    (upd_flpdrv d (\<lambda>u. u\<lparr>flp_head := cmd_head s, flp_sector := 1\<rparr>) (clear_st s)))"
  have "flp_protected (flpdrv r ! d)" "0 < length (flp_st (flp r))"
    using p by (simp_all add: r_def d_def upd_flpdrv_def)
  then have "tst (st0 (check_protection d r)) IC_ABNORMAL" by (rule check_protection_abnormal)
  moreover have "\<not> CycInt_EventPending EVENT_FLOPPY_IO r" using e by (simp add: r_def)
  ultimately show ?thesis
    unfolding floppy_format_def Let_def d_def [symmetric] r_def check_frame
    by simp
qed

text \<open>
  Recalibrating clears the cylinder before it measures how far the head has to move: the seek is
  always free.
\<close>

lemma sched_flpdrv: "t = sched_upd t s \<Longrightarrow> flpdrv t = flpdrv s"
  by (erule ssubst) (simp add: sched_upd_def)

lemma floppy_recalibrate_free:
  assumes "floppy_recalibrate s = Some t" "flp_connected (flpdrv s ! cmd_drive s)" "cmd_drive s < length (flpdrv s)"
  shows "seekoffset (flpdrv t ! cmd_drive s) = 0" "get_seek_time (cmd_drive s) t = 0"
proof -
  have "seekoffset (flpdrv t ! cmd_drive s) = 0"
    using assms by (auto simp: floppy_recalibrate_def floppy_seek_track_def Let_def upd_flpdrv_def upd_flp_def set_st0_def
        clear_st_def or_st_def dest!: AddTimeEvent_frame sched_flpdrv)
  then show "seekoffset (flpdrv t ! cmd_drive s) = 0" "get_seek_time (cmd_drive s) t = 0"
    by (simp_all add: get_seek_time_def)
qed

end
