(* ===== verification/Spec2Isabelle.thy ===== *)
theory Spec2Isabelle
  imports Queue SysReg EspLoops MoSafe KmsProps FloppyProps
begin

text \<open>
  Verification of the NeXT hardware model of the emulator Previous, which this repository
  keeps as the reference of its FPGA core (\<open>src/reference/previous/src/\<close>; the file names below
  are relative to that directory).

  \<^bold>\<open>The program.\<close> Previous executes guest code on an emulated CPU; after every instruction
  \<open>CycInt_AddCycles\<close> (\<open>cycInt.c\<close>) advances the cycle counter and calls the handlers of the device
  events that are due. Guest accesses to device registers call the register handlers of the
  devices. A device answers by changing its state, by scheduling its next event and by
  \<open>set_interrupt\<close> (\<open>sysReg.c\<close>), which computes the interrupt level that the CPU polls. Time comes
  from the host clock or from the cycle counter (\<open>timing.c\<close>). Disks are image files of the host.

  \<^bold>\<open>Conventions.\<close> The global variables of the C files are the fields of one extensible record,
  which every theory extends: \<open>timing\<close>, \<open>cycint\<close>, \<open>sysreg\<close>, \<open>rtcnvram\<close>, \<open>scsi\<close>, \<open>bmap\<close>,
  \<open>memory\<close>, \<open>esp\<close>, \<open>dma\<close>, \<open>mo\<close>, \<open>snd\<close>, \<open>kms\<close>, \<open>floppy\<close>. An operation
  is a function on the record extended so far, polymorphic in what later theories add, so that
  operations of different devices compose. Types, fields, constants and functions have the
  names of the source. Unsigned integers are words of their width and wrap around; signed
  integers are \<open>int\<close>. \<open>abort()\<close>, an access outside an array and a loop that does not end are the
  result \<open>None\<close>. Host functions (clock, file system, \<open>malloc\<close>) are fields or arguments. Log
  output is left out.

  \<^bold>\<open>The theories.\<close>
  \<^item> \<open>Prelude\<close>: register bits, checked arrays, and the locales \<open>fifo\<close>, \<open>dropping_fifo\<close>
    and \<open>overwriting_fifo\<close>, the contract of a bounded buffer.
  \<^item> \<open>Queue\<close> (\<open>queue.c\<close>): the ring buffer of network packets; it interprets \<open>dropping_fifo\<close> and
    refines a list capped at 100 elements.
  \<^item> \<open>Config\<close>: the part of \<open>includes/configuration.h\<close> that the devices read.
  \<^item> \<open>Timing\<close> (\<open>timing.c\<close>): guest time in both modes and Unix time with its calendar.
  \<^item> \<open>CycInt\<close> (\<open>cycInt.c\<close>): the two doubly linked event lists in one array. The invariant
    \<open>cyc_inv\<close> says that the links describe two sorted, disjoint lists; insertion, removal and
    rescheduling refine operations on sorted association lists, the locale \<open>event_queue\<close> states
    this contract and is interpreted for events in cycles, in microseconds and for updates;
    \<open>CycInt_AddCycles\<close> dispatches exactly the due events, in order, with handlers that may
    schedule and cancel events themselves: \<open>serves_cycles\<close> and \<open>serves_times\<close> say what a handler
    must keep, \<open>cycle_calls\<close> and \<open>time_calls\<close> describe the run. The search and dispatch
    loops are partial functions, whose termination is part of these theorems.
  \<^item> \<open>IntCtl\<close> and \<open>SysReg\<close> (\<open>sysReg.c\<close>): interrupt status, mask and level; the system control
    registers, hardclock and video interrupts. Reachability is an inductive predicate over
    all register writes. \<open>hardclock_serves_cycles\<close> shows that the hardclock's handler, which
    reschedules itself, meets the contract of \<open>CycInt\<close>.
  \<^item> \<open>RtcNvram\<close> (\<open>rtcnvram.c\<close>): both clock chips behind the bit-serial interface, BCD time,
    and the NVRAM with its checksum.
  \<^item> \<open>GF256\<close> and \<open>Rs\<close> (\<open>rs.c\<close>): the Reed-Solomon product code of the optical disk. The tables of
    the code are shown to describe a field (an instance of the class \<open>field\<close>), so that encoder
    and decoder can be compared with polynomial evaluation.
  \<^item> \<open>Scsi\<close> (\<open>scsi.c\<close> and five functions of \<open>file.c\<close>): all commands and data transfers of the disks;
    a state invariant for reachable states, and refinement of an array of blocks.
  \<^item> \<open>Maccess\<close> (\<open>cpu/maccess.h\<close>): blocks of host memory and big-endian access to them.
  \<^item> \<open>Bmap\<close> (\<open>bmap.c\<close>) and \<open>Rom\<close> (\<open>rom.c\<close>): the registers of the BMAP chip with their byte lanes
    and flags, and the boot ROM with its CRC-32.
  \<^item> \<open>MemBanks\<close> and \<open>MemBus\<close> (\<open>cpu/memory.c\<close>): the table of memory banks, its initialisation for every
    machine, and reads and writes of all widths. Reachable states keep every aligned access
    inside the allocated blocks; the RAM banks are disjoint arrays with mirrors; writes to the
    write-function mirrors combine pixels. The register banks of other devices are an argument.
  \<^item> \<open>EspRegs\<close> and \<open>Esp\<close> (\<open>esp.c\<close>): the SCSI controller. Its FIFO interprets \<open>overwriting_fifo\<close>;
    commands run under the event scheduler and reach the disks of \<open>Scsi\<close>.
  \<^item> \<open>Dma\<close> (\<open>dma.c\<close>): the twelve DMA channels, between the memory of \<open>MemBus\<close> and the devices; the
    buffers of devices that are not modelled are fields of the state.
  \<^item> \<open>DmaKeeper\<close>: the locales \<open>memory_keeper\<close> and, extending it, \<open>dma_keeper\<close>: what an invariant must
    not depend on for memory accesses and transfers to keep it, with an induction over the fixed
    points of the transfer loops. \<open>EspIrq\<close> interprets them for the SCSI interrupt and proves it
    right in all reachable states.
  \<^item> \<open>DmaTransfer\<close>: what a channel stores in memory. The locale \<open>burst_source\<close> is the contract of a
    device that sends bytes; it is interpreted for the SCSI controller with its disks and for
    the buffers of the optical disk. \<open>ScsiTransfer\<close> composes disk, controller, channel, memory and
    scheduler: a read command puts the bytes of the image file into guest memory. \<open>EspLoops\<close>: the
    transfers without DMA end.
  \<^item> \<open>Mo\<close> (\<open>mo.c\<close>): the optical disk with its controller, error correction and drives; \<open>MoDisk\<close>: the
    disk as a store of sectors, on top of the decoding theorem of \<open>Rs\<close>; \<open>MoTransfer\<close>: from the
    formatter through the error correction and the channel to guest memory; \<open>MoSafe\<close>: the types
    of its data in all reachable states, another instance of \<open>dma_keeper\<close>. The disk's request bit
    is shared with the colour video hardware, so nothing is claimed of it.
  \<^item> \<open>Snd\<close> (\<open>snd.c\<close>) and \<open>Kms\<close> (\<open>kms.c\<close>): the sound box with its compression, volume control and loops,
    and the keyboard, mouse and sound interface. \<open>SndProps\<close>: the error of the compression and the
    doubling of samples; \<open>KmsProps\<close>: the keyboard interrupt in all reachable states, an instance
    of \<open>memory_keeper\<close>, and the path of a key press and of mouse motion to the data register.
  \<^item> \<open>Floppy\<close> (\<open>floppy.c\<close>): the floppy controller with its commands, drives and transfers over the
    channel of the SCSI controller; \<open>FloppyProps\<close>: its command buffer is never overrun, and two
    of its commands deviate from a drive.

  \<^bold>\<open>What the theorems show.\<close> The claims C1, C2, ... of the theories are the properties of the
  development: refinement of abstract data types (event lists, queue, disk image), round trips
  (clock registers, calendar, error-correcting code, register lanes), invariants and safety of
  reachable states, the exact behaviour of handlers, equivalence of the checksum loop with the
  standard definition, and errors of the code, stated as theorems about the inputs that
  trigger them. A theorem with hypotheses is followed by a witness that applies it to a
  concrete state.

  \<^bold>\<open>Bounds.\<close> No definition uses fuel. Loops of the code are structural recursion, \<open>function\<close> with
  a termination proof, or \<open>partial_function (option)\<close> together with a theorem that they return.

  \<^bold>\<open>Not modelled.\<close> The CPU core, MMU and FPU (derived from WinUAE and largely generated), the DSP
  and NeXTdimension processors, the vendored network stack, and host input and output (screen,
  audio devices, dialogs, debugger). Of the NeXT hardware: the serial and ethernet controllers,
  the printer, the tablet and the desktop bus, which mostly pass data to the host (their DMA
  transfers are in \<open>Dma\<close>); and the register banks of the bus and video chips, which are arguments
  of the memory map. Of modelled files, functions that only print or pause the emulator are left
  out; the floating-point filter of the sound output is an argument.
\<close>

end
